(* ===== verification/Prelude.thy ===== *)
theory Prelude
  imports Main "HOL-Library.Word" "HOL-Library.While_Combinator"
begin

text \<open>
  Shared vocabulary of the development: how the program stops, how its
  printing actions are sequenced, and the lexical view of Coq text against which
  the printers are specified.  The named collections declared here are filled by
  the component theories and carry most of the component proofs.
\<close>

section \<open>How the program stops\<close>

text \<open>
  \<open>Die\<close> is a call of \<open>logging::die\<close> or \<open>CoqPrinter::die\<close> (process exit 1) with the
  diagnostic that precedes it; \<open>AssertionFailed\<close> is a failed \<open>always_assert\<close> or
  \<open>assert\<close>; \<open>OutOfFuel\<close> only exists in the model, where a recursion over the
  (possibly cyclic) clang AST is cut off.
\<close>

datatype stop = Die string | AssertionFailed string | OutOfFuel

abbreviation DQ :: char where "DQ \<equiv> CHR 0x22"
abbreviation NL :: char where "NL \<equiv> CHR 0x0A"
abbreviation LPAR :: char where "LPAR \<equiv> CHR ''(''"
abbreviation RPAR :: char where "RPAR \<equiv> CHR '')''"

named_theorems printer_intros \<open>contracts of printing actions, as introduction rules\<close>

section \<open>Sequencing of state transformers that may stop\<close>

type_synonym 's action = "'s \<Rightarrow> stop + 's"
type_synonym ('s, 'a) query = "'s \<Rightarrow> stop + 'a \<times> 's"

definition skip :: "'s action" where
  "skip s = Inr s"

definition stopA :: "stop \<Rightarrow> 's action" where
  "stopA x s = Inl x"

definition seqA :: "'s action \<Rightarrow> 's action \<Rightarrow> 's action" where
  "seqA p q s = (case p s of Inl x \<Rightarrow> Inl x | Inr s' \<Rightarrow> q s')"

fun seqP :: "'s action list \<Rightarrow> 's action" where
  "seqP [] = skip"
| "seqP (p # ps) = seqA p (seqP ps)"

definition bindQ :: "('s, 'a) query \<Rightarrow> ('a \<Rightarrow> 's action) \<Rightarrow> 's action" where
  "bindQ m f s = (case m s of Inl x \<Rightarrow> Inl x | Inr (a, s') \<Rightarrow> f a s')"

definition returning :: "'s action \<Rightarrow> 'a \<Rightarrow> ('s, 'a) query" where
  "returning p a s = (case p s of Inl x \<Rightarrow> Inl x | Inr s' \<Rightarrow> Inr (a, s'))"

definition assertA :: "string \<Rightarrow> bool \<Rightarrow> 's action" where
  "assertA msg b = (if b then skip else stopA (AssertionFailed msg))"

lemma seqA_assoc: "seqA (seqA p q) r = seqA p (seqA q r)"
  by (rule ext) (simp add: seqA_def split: sum.split)

lemma seqA_skip [simp]: "seqA p skip = p" "seqA skip p = p"
  by (rule ext, simp add: seqA_def skip_def split: sum.split)+

lemma seqP_append: "seqP (ps @ qs) = seqA (seqP ps) (seqP qs)"
  by (induction ps) (simp_all add: seqA_assoc)

lemma seqP_run_Cons: "seqP (p # ps) s = (case p s of Inl x \<Rightarrow> Inl x | Inr s' \<Rightarrow> seqP ps s')"
  by (simp add: seqA_def)

lemma seqP_run_Nil: "seqP [] s = Inr s"
  by (simp add: skip_def)

lemma bindQ_returning: "bindQ (returning p a) f = seqA p (f a)"
  by (rule ext) (simp add: bindQ_def returning_def seqA_def split: sum.split)

lemmas run_defs = skip_def stopA_def seqA_def bindQ_def returning_def assertA_def

text \<open>
  Partial correctness of an action, as a triple; the rules are collected in
  \<open>triple_intros\<close> with the invariant as precondition and postcondition.
\<close>

named_theorems triple_intros \<open>triples with an invariant\<close>

definition triple :: "('s \<Rightarrow> bool) \<Rightarrow> 's action \<Rightarrow> ('s \<Rightarrow> bool) \<Rightarrow> bool" where
  "triple P m Q \<longleftrightarrow> (\<forall>s s'. P s \<longrightarrow> m s = Inr s' \<longrightarrow> Q s')"

abbreviation preserves :: "('s \<Rightarrow> bool) \<Rightarrow> 's action \<Rightarrow> bool" where
  "preserves I m \<equiv> triple I m I"

lemma tripleI: "(\<And>s s'. P s \<Longrightarrow> m s = Inr s' \<Longrightarrow> Q s') \<Longrightarrow> triple P m Q"
  by (simp add: triple_def)

lemma tripleD: "triple P m Q \<Longrightarrow> P s \<Longrightarrow> m s = Inr s' \<Longrightarrow> Q s'"
  by (simp add: triple_def)

lemma triple_skip [triple_intros]: "triple P skip P"
  by (simp add: triple_def skip_def)

lemma triple_seqA: "triple P p R \<Longrightarrow> triple R q Q \<Longrightarrow> triple P (seqA p q) Q"
  by (auto simp: triple_def seqA_def split: sum.splits)

lemma triple_Nil [triple_intros]: "triple P (seqP []) P"
  by (simp add: triple_skip)

lemma triple_Cons [triple_intros]: "triple P p R \<Longrightarrow> triple R (seqP ps) Q \<Longrightarrow> triple P (seqP (p # ps)) Q"
  by (simp add: triple_seqA)

lemma triple_if [triple_intros]:
  "(b \<Longrightarrow> triple P p Q) \<Longrightarrow> (\<not> b \<Longrightarrow> triple P q Q) \<Longrightarrow> triple P (if b then p else q) Q"
  by simp

lemma triple_case_option [triple_intros]:
  "(x = None \<Longrightarrow> triple P p Q) \<Longrightarrow> (\<And>y. x = Some y \<Longrightarrow> triple P (f y) Q) \<Longrightarrow>
   triple P (case x of None \<Rightarrow> p | Some y \<Rightarrow> f y) Q"
  by (cases x) simp_all

lemma triple_Let [triple_intros]: "triple P (f x) Q \<Longrightarrow> triple P (let y = x in f y) Q"
  by simp

lemma triple_assert: "(b \<Longrightarrow> triple P skip Q) \<Longrightarrow> triple P (assertA msg b) Q"
  by (auto simp: triple_def assertA_def skip_def stopA_def)

lemma preserves_assert [triple_intros]: "triple P (assertA msg b) P"
  by (rule triple_assert) (rule triple_skip)

lemma preserves_map:
  "(\<And>x. x \<in> set xs \<Longrightarrow> triple P (f x) P) \<Longrightarrow> triple P (seqP (map f xs)) P"
  by (induction xs) (auto intro: triple_skip triple_seqA)

lemma triple_bind_returning [triple_intros]:
  "triple P p R \<Longrightarrow> triple R (f a) Q \<Longrightarrow> triple P (bindQ (returning p a) f) Q"
  by (simp add: bindQ_returning triple_seqA)

text \<open>An action never stops for lack of fuel.\<close>

definition fueled :: "('s \<Rightarrow> bool) \<Rightarrow> 's action \<Rightarrow> bool" where
  "fueled P m \<longleftrightarrow> (\<forall>s. P s \<longrightarrow> m s \<noteq> Inl OutOfFuel \<and> (\<forall>s'. m s = Inr s' \<longrightarrow> P s'))"

named_theorems fueled_intros \<open>actions that do not run out of fuel\<close>

lemma fueledI:
  "(\<And>s. P s \<Longrightarrow> m s \<noteq> Inl OutOfFuel) \<Longrightarrow> (\<And>s s'. P s \<Longrightarrow> m s = Inr s' \<Longrightarrow> P s') \<Longrightarrow> fueled P m"
  by (simp add: fueled_def)

lemma fueled_skip [fueled_intros]: "fueled P skip"
  by (simp add: fueled_def skip_def)

lemma fueledD: "fueled P m \<Longrightarrow> P s \<Longrightarrow> m s \<noteq> Inl OutOfFuel" "fueled P m \<Longrightarrow> P s \<Longrightarrow> m s = Inr s' \<Longrightarrow> P s'"
  by (simp_all add: fueled_def)

lemma fueled_seqA:
  assumes p: "fueled P p" and q: "fueled P q"
  shows "fueled P (seqA p q)"
proof (rule fueledI)
  fix s assume s: "P s"
  show "seqA p q s \<noteq> Inl OutOfFuel"
  proof (cases "p s")
    case (Inl x)
    with fueledD(1) [OF p s] show ?thesis by (simp add: seqA_def)
  next
    case (Inr t)
    with fueledD(1) [OF q fueledD(2) [OF p s Inr]] show ?thesis by (simp add: seqA_def)
  qed
next
  fix s s' assume s: "P s" and r: "seqA p q s = Inr s'"
  then obtain t where t: "p s = Inr t" "q t = Inr s'" by (auto simp: seqA_def split: sum.splits)
  show "P s'" by (rule fueledD(2) [OF q fueledD(2) [OF p s t(1)] t(2)])
qed

lemma fueled_Nil [fueled_intros]: "fueled P (seqP [])"
  by (simp add: fueled_skip)

lemma fueled_Cons [fueled_intros]: "fueled P p \<Longrightarrow> fueled P (seqP ps) \<Longrightarrow> fueled P (seqP (p # ps))"
  by (simp add: fueled_seqA)

lemma fueled_if [fueled_intros]:
  "(b \<Longrightarrow> fueled P p) \<Longrightarrow> (\<not> b \<Longrightarrow> fueled P q) \<Longrightarrow> fueled P (if b then p else q)"
  by simp

lemma fueled_case_option [fueled_intros]:
  "(x = None \<Longrightarrow> fueled P p) \<Longrightarrow> (\<And>y. x = Some y \<Longrightarrow> fueled P (f y)) \<Longrightarrow>
   fueled P (case x of None \<Rightarrow> p | Some y \<Rightarrow> f y)"
  by (cases x) simp_all

lemma fueled_Let [fueled_intros]: "fueled P (f x) \<Longrightarrow> fueled P (let y = x in f y)"
  by simp

lemma fueled_assert [fueled_intros]: "fueled P (assertA msg b)"
  by (simp add: fueled_def run_defs)

lemma fueled_map: "(\<And>x. x \<in> set xs \<Longrightarrow> fueled P (f x)) \<Longrightarrow> fueled P (seqP (map f xs))"
  by (induction xs) (auto intro: fueled_skip fueled_seqA)

lemma fueled_bind_returning [fueled_intros]:
  "fueled P p \<Longrightarrow> fueled P (f a) \<Longrightarrow> fueled P (bindQ (returning p a) f)"
  by (simp add: bindQ_returning fueled_seqA)

section \<open>The lexical structure of Coq text\<close>

text \<open>
  Coq reads a double quote as the start of a string literal that ends at the
  next double quote; a quote inside a literal is written twice, which this
  two-state lexer treats as leaving and re-entering the literal.  Outside a
  literal only parentheses matter here.  \<open>Stuck\<close> is a closing parenthesis without
  an opening one.
\<close>

datatype lexstate = Code nat | InStr nat | Stuck

fun lex1 :: "lexstate \<Rightarrow> char \<Rightarrow> lexstate" where
  "lex1 (Code n) c =
     (if c = DQ then InStr n
      else if c = LPAR then Code (Suc n)
      else if c = RPAR then (case n of 0 \<Rightarrow> Stuck | Suc m \<Rightarrow> Code m)
      else Code n)"
| "lex1 (InStr n) c = (if c = DQ then Code n else InStr n)"
| "lex1 Stuck c = Stuck"

definition lex :: "lexstate \<Rightarrow> string \<Rightarrow> lexstate" where
  "lex = foldl lex1"

lemma lex_Nil [simp]: "lex q [] = q"
  by (simp add: lex_def)

lemma lex_Cons [simp]: "lex q (c # t) = lex (lex1 q c) t"
  by (simp add: lex_def)

lemma lex_append [simp]: "lex q (t @ u) = lex (lex q t) u"
  by (simp add: lex_def)

lemma lex_Stuck [simp]: "lex Stuck t = Stuck"
  by (induction t) simp_all

text \<open>A deeper starting point changes nothing but the count.\<close>

fun deepen :: "nat \<Rightarrow> lexstate \<Rightarrow> lexstate" where
  "deepen k (Code n) = Code (n + k)"
| "deepen k (InStr n) = InStr (n + k)"
| "deepen k Stuck = Stuck"

lemma lex1_deepen: "lex1 q c \<noteq> Stuck \<Longrightarrow> lex1 (deepen k q) c = deepen k (lex1 q c)"
  by (cases q) (auto split: nat.splits if_splits)

lemma lex_deepen: "lex q t \<noteq> Stuck \<Longrightarrow> lex (deepen k q) t = deepen k (lex q t)"
proof (induction t arbitrary: q)
  case Nil
  then show ?case by simp
next
  case (Cons c t)
  then have "lex1 q c \<noteq> Stuck" by auto
  with Cons show ?case by (simp add: lex1_deepen)
qed

definition balanced :: "string \<Rightarrow> bool" where
  "balanced t \<longleftrightarrow> lex (Code 0) t = Code 0"

lemma balanced_lex [simp]: "balanced t \<Longrightarrow> lex (Code n) t = Code n"
  using lex_deepen [of "Code 0" t n] by (simp add: balanced_def)

lemma balanced_append: "balanced t \<Longrightarrow> balanced u \<Longrightarrow> balanced (t @ u)"
  by (simp add: balanced_def)

text \<open>A plain text has neither quotes nor parentheses.\<close>

definition plain :: "string \<Rightarrow> bool" where
  "plain t \<longleftrightarrow> DQ \<notin> set t \<and> LPAR \<notin> set t \<and> RPAR \<notin> set t"

lemma plain_simps [simp]:
  "plain []"
  "plain (c # t) \<longleftrightarrow> c \<noteq> DQ \<and> c \<noteq> LPAR \<and> c \<noteq> RPAR \<and> plain t"
  "plain (t @ u) \<longleftrightarrow> plain t \<and> plain u"
  by (auto simp: plain_def)

lemma lex_plain: "plain t \<Longrightarrow> lex (Code n) t = Code n"
  by (induction t) simp_all

lemma plain_balanced [simp]: "plain t \<Longrightarrow> balanced t"
  by (simp add: balanced_def lex_plain)

lemma lex_InStr: "DQ \<notin> set t \<Longrightarrow> lex (InStr n) t = InStr n"
  by (induction t) auto

lemma plain_replicate [simp]: "c \<noteq> DQ \<Longrightarrow> c \<noteq> LPAR \<Longrightarrow> c \<noteq> RPAR \<Longrightarrow> plain (replicate k c)"
  by (induction k) simp_all

section \<open>Numbers as the streams of LLVM print them\<close>

text \<open>
  \<open>raw_ostream << n\<close> writes the shortest decimal numeral, with a minus sign
  for a negative number.
\<close>

definition digit_char :: "nat \<Rightarrow> char" where
  "digit_char d = char_of (48 + d)"

fun decimal :: "nat \<Rightarrow> string" where
  "decimal n = (if n < 10 then [digit_char n] else decimal (n div 10) @ [digit_char (n mod 10)])"

declare decimal.simps [simp del]

definition decimal_int :: "int \<Rightarrow> string" where
  "decimal_int i = (if i < 0 then CHR ''-'' # decimal (nat (- i)) else decimal (nat i))"

lemma digit_char_plain: "d < 10 \<Longrightarrow> digit_char d \<noteq> DQ \<and> digit_char d \<noteq> LPAR \<and> digit_char d \<noteq> RPAR"
proof -
  assume d: "d < 10"
  have "of_char (digit_char d) = 48 + d"
    using d by (simp add: digit_char_def of_char_of)
  with d show ?thesis by auto
qed

lemma plain_decimal [simp]: "plain (decimal n)"
proof (induction n rule: decimal.induct)
  case (1 n)
  then show ?case
    by (cases "n < 10") (simp_all add: decimal.simps [of n] digit_char_plain)
qed

lemma plain_decimal_int [simp]: "plain (decimal_int i)"
  by (simp add: decimal_int_def)

text \<open>Reading a numeral back.\<close>

definition digit_val :: "char \<Rightarrow> nat" where
  "digit_val c = of_char c - 48"

definition read_decimal :: "string \<Rightarrow> nat" where
  "read_decimal = foldl (\<lambda>n c. 10 * n + digit_val c) 0"

lemma digit_val_digit_char: "d < 10 \<Longrightarrow> digit_val (digit_char d) = d"
  by (simp add: digit_val_def digit_char_def of_char_of)

lemma read_decimal_decimal [simp]: "read_decimal (decimal n) = n"
proof (induction n rule: decimal.induct)
  case (1 n)
  show ?case
  proof (cases "n < 10")
    case True
    then show ?thesis
      by (simp add: decimal.simps [of n] read_decimal_def digit_val_digit_char)
  next
    case False
    with 1 show ?thesis
      by (simp add: decimal.simps [of n] read_decimal_def digit_val_digit_char)
  qed
qed

lemma decimal_inject: "decimal m = decimal n \<Longrightarrow> m = n"
  by (metis read_decimal_decimal)

lemma decimal_nonempty [simp]: "decimal n \<noteq> []"
  by (subst decimal.simps) simp

end
