(* ===== verification/CommentScanner.thy ===== *)
theory CommentScanner
  imports Prelude
begin

text \<open>
  Model of \<open>include/CommentScanner.hpp\<close>: the scanner that cuts the comments out of the
  text between two declarations.  Positions are \<open>size_t\<close>: \<open>npos\<close> is the largest
  value and \<open>npos + 1\<close> wraps to 0.  The loop over adjacent line comments need not stop,
  so its result is an option: \<open>None\<close> means that it runs forever.  \<open>assert\<close> is the C macro, as
  in a build without \<open>NDEBUG\<close>.
\<close>

definition npos :: nat where
  "npos = 2 ^ 64 - 1"

definition succ64 :: "nat \<Rightarrow> nat" where
  "succ64 n = (n + 1) mod 2 ^ 64"

text \<open>\<open>StringRef::find(s, from)\<close> and \<open>StringRef::substr\<close>.\<close>

fun find_idx :: "string \<Rightarrow> string \<Rightarrow> nat option" where
  "find_idx s [] = (if s = [] then Some 0 else None)"
| "find_idx s (c # t) =
     (if take (length s) (c # t) = s then Some 0 else map_option Suc (find_idx s t))"

definition find_str :: "string \<Rightarrow> string \<Rightarrow> nat \<Rightarrow> nat" where
  "find_str block s from =
     (if from > length block then npos
      else case find_idx s (drop from block) of None \<Rightarrow> npos | Some k \<Rightarrow> from + k)"

definition substr :: "string \<Rightarrow> nat \<Rightarrow> nat \<Rightarrow> string" where
  "substr block start n = take n (drop start block)"

abbreviation find_nl :: "string \<Rightarrow> nat \<Rightarrow> nat" where "find_nl block \<equiv> find_str block [NL]"
abbreviation find_line :: "string \<Rightarrow> nat \<Rightarrow> nat" where "find_line block \<equiv> find_str block ''//''"

section \<open>The scanner\<close>

text \<open>The state of the loop is the pair \<open>(eol, next_comment)\<close>.\<close>

definition line_guard :: "string \<Rightarrow> nat \<times> nat \<Rightarrow> bool" where
  "line_guard block = (\<lambda>(eol, next_comment).
     next_comment \<noteq> npos \<and> find_nl block (succ64 eol) > next_comment)"

definition line_body :: "string \<Rightarrow> nat \<times> nat \<Rightarrow> nat \<times> nat" where
  "line_body block = (\<lambda>(eol, next_comment).
     let eol' = find_nl block next_comment in (eol', find_line block (succ64 eol')))"

definition parseLineComment :: "string \<Rightarrow> nat \<Rightarrow> (stop + nat) option" where
  "parseLineComment block first =
     (let eol = find_nl block first in
      if eol = npos then Some (Inl (AssertionFailed ''end of line necessary''))
      else map_option (\<lambda>(eol', _). Inr eol')
             (while_option (line_guard block) (line_body block) (eol, find_line block (succ64 eol))))"

definition parseBlockComment :: "string \<Rightarrow> nat \<Rightarrow> stop + nat" where
  "parseBlockComment block first =
     (let closing = find_str block ''*/'' first in
      if closing = npos then Inl (AssertionFailed ''open block comment without close'')
      else Inr ((closing + 2) mod 2 ^ 64))"

record scanner =
  block :: string
  offset :: nat

definition CommentScanner_init :: "string \<Rightarrow> scanner" where
  "CommentScanner_init b = \<lparr>block = b, offset = 0\<rparr>"

text \<open>\<open>next\<close>: the next comment, when there is one, and the scanner after it.\<close>

definition scan_next :: "scanner \<Rightarrow> (stop + string option \<times> scanner) option" where
  "scan_next sc =
     (let b = block sc; first_line = find_line b (offset sc);
          first_para = find_str b ''/*'' (offset sc) in
      if first_line = npos \<and> first_para = npos then Some (Inr (None, sc))
      else if first_line < first_para then
        (case parseLineComment b first_line of
           None \<Rightarrow> None
         | Some (Inl x) \<Rightarrow> Some (Inl x)
         | Some (Inr e) \<Rightarrow>
             Some (Inr (Some (substr b first_line (e - first_line)), sc\<lparr>offset := e\<rparr>)))
      else if first_para < first_line then
        (case parseBlockComment b first_para of
           Inl x \<Rightarrow> Some (Inl x)
         | Inr e \<Rightarrow>
             Some (Inr (Some (substr b first_para (e - first_para)), sc\<lparr>offset := e\<rparr>)))
      else Some (Inl (AssertionFailed ''false'')))"

section \<open>Searching\<close>

lemma find_idx_Some: "find_idx s t = Some k \<Longrightarrow> k \<le> length t \<and> take (length s) (drop k t) = s"
proof (induction t arbitrary: k)
  case (Cons c t)
  then show ?case by (auto split: if_splits)
qed (auto split: if_splits)

lemma find_idx_first: "find_idx s t = Some k \<Longrightarrow> i < k \<Longrightarrow> take (length s) (drop i t) \<noteq> s"
proof (induction t arbitrary: k i)
  case (Cons c t)
  then show ?case by (cases i) (auto split: if_splits)
qed (auto split: if_splits)

lemma find_idx_nl: "find_idx [NL] t = None \<longleftrightarrow> NL \<notin> set t"
  by (induction t) auto

lemma find_idx_nl_append: "NL \<notin> set u \<Longrightarrow> find_idx [NL] (u @ NL # t) = Some (length u)"
  by (induction u) auto

text \<open>
  Facts about a block shorter than \<open>npos\<close>, which every block in memory is: a position that
  is found is inside the block and at or after the start of the search.
\<close>

lemma find_str_found:
  assumes "find_str b s from \<noteq> npos" and "s \<noteq> []"
  shows "from \<le> find_str b s from \<and> find_str b s from + length s \<le> length b
    \<and> take (length s) (drop (find_str b s from) b) = s"
proof -
  from assms(1) obtain k where k: "find_idx s (drop from b) = Some k" and le: "from \<le> length b"
    by (auto simp: find_str_def split: if_splits option.splits)
  from find_idx_Some [OF k] have m: "take (length s) (drop (from + k) b) = s"
    by (simp add: add.commute)
  then have "length (take (length s) (drop (from + k) b)) = length s" by simp
  with assms(2) have "length s \<le> length b - (from + k)" "0 < length s" by auto
  then have "from + k + length s \<le> length b" by arith
  with k le m show ?thesis by (simp add: find_str_def)
qed

lemma find_nl_total:
  assumes "b \<noteq> []" "last b = NL" "from < length b" "length b < npos"
  shows "find_nl b from < length b \<and> from \<le> find_nl b from"
proof -
  from assms have "drop from b \<noteq> []" "last (drop from b) = NL" by auto
  then have "NL \<in> set (drop from b)" by (metis last_in_set)
  then obtain k where k: "find_idx [NL] (drop from b) = Some k"
    using find_idx_nl by (metis option.exhaust)
  then have v: "find_nl b from = from + k" using assms by (simp add: find_str_def)
  from find_idx_Some [OF k] have "take 1 (drop (from + k) b) = [NL]"
    by (simp add: add.commute)
  then have "from + k < length b" by (metis drop_all linorder_not_less list.distinct(1) take_Nil)
  with v show ?thesis by simp
qed

lemma succ64_small: "n < npos \<Longrightarrow> succ64 n = Suc n"
  by (simp add: succ64_def npos_def)

lemma succ64_npos: "succ64 npos = 0"
  by (simp add: succ64_def npos_def)

section \<open>Termination of the line comment loop\<close>

lemma while_option_forever:
  assumes "P s" and "\<And>s. P s \<Longrightarrow> g s \<and> P (f s)"
  shows "while_option g f s = None"
proof -
  have "P ((f ^^ k) s)" for k
    by (induction k) (use assms in auto)
  then have "g ((f ^^ k) s)" for k
    using assms(2) by blast
  then show ?thesis by (auto simp: while_option_def)
qed

definition line_inv :: "string \<Rightarrow> nat \<times> nat \<Rightarrow> bool" where
  "line_inv b = (\<lambda>(eol, next_comment).
     eol < length b \<and> (next_comment \<noteq> npos \<longrightarrow> eol < next_comment \<and> next_comment < length b))"

lemma line_inv_start:
  assumes "b \<noteq> []" "last b = NL" "length b < npos" "p < length b"
  shows "line_inv b (find_nl b p, find_line b (succ64 (find_nl b p)))"
proof -
  let ?e = "find_nl b p"
  have e: "?e < length b" using find_nl_total assms by blast
  moreover have "succ64 ?e = Suc ?e" using e assms succ64_small by simp
  ultimately show ?thesis
    using find_str_found [of b "''//''" "Suc ?e"] by (auto simp: line_inv_def)
qed

lemma line_loop_stops:
  assumes b: "b \<noteq> []" "last b = NL" "length b < npos" and "line_inv b s"
  shows "\<exists>t. while_option (line_guard b) (line_body b) s = Some t \<and> line_inv b t \<and> fst s \<le> fst t"
proof -
  have step: "line_inv b (line_body b t) \<and> length b - fst (line_body b t) < length b - fst t
      \<and> fst t \<le> fst (line_body b t)"
    if "line_inv b t" and "line_guard b t" for t
  proof -
    obtain e n where t: "t = (e, n)" by (cases t)
    with that have n: "e < n" "n < length b" by (auto simp: line_inv_def line_guard_def)
    then have "find_nl b n < length b \<and> n \<le> find_nl b n" using find_nl_total b by blast
    with n t line_inv_start [OF b n(2)] show ?thesis by (auto simp: line_body_def Let_def)
  qed
  obtain t where t: "while_option (line_guard b) (line_body b) s = Some t"
    using measure_while_option_Some [of "line_inv b" "line_guard b" "line_body b" "\<lambda>t. length b - fst t" s]
      step assms(4) by auto
  have "line_inv b t \<and> fst s \<le> fst t"
    by (rule while_option_rule [OF _ t, where P = "\<lambda>t. line_inv b t \<and> fst s \<le> fst t"])
      (use step assms(4) in \<open>fastforce+\<close>)
  with t show ?thesis by blast
qed

lemma find_str_less:
  assumes "find_str b s p < find_str b t p" and "length b < npos"
  shows "find_str b s p \<noteq> npos"
proof
  assume "find_str b s p = npos"
  with assms(1) have "npos < find_str b t p" by simp
  moreover have "find_str b t p \<le> npos"
    using assms(2) by (auto simp: find_str_def split: option.splits dest!: find_idx_Some)
  ultimately show False by simp
qed

lemma parseBlockComment_end:
  assumes "parseBlockComment b first = Inr e" and "length b < npos"
  shows "first < e \<and> e \<le> length b"
proof -
  let ?c = "find_str b ''*/'' first"
  from assms(1) have c: "?c \<noteq> npos" "e = (?c + 2) mod 2 ^ 64"
    by (auto simp: parseBlockComment_def Let_def split: if_splits)
  then have le: "first \<le> ?c" "?c + 2 \<le> length b" using find_str_found [of b "''*/''" first] by auto
  then have "e = ?c + 2" using c(2) assms(2) by (simp add: npos_def)
  with le show ?thesis by simp
qed

text \<open>A line comment starts with a character that is no newline, so it is not empty.\<close>

lemma find_nl_after:
  assumes "take 2 (drop p b) = ''//''" and "find_nl b p \<noteq> npos"
  shows "p < find_nl b p"
proof -
  have f: "p \<le> find_nl b p" "take 1 (drop (find_nl b p) b) = [NL]"
    using find_str_found [OF assms(2)] by auto
  have "find_nl b p \<noteq> p"
  proof
    assume "find_nl b p = p"
    with f(2) have "take 1 (take 2 (drop p b)) = [NL]" by (simp add: take_take)
    with assms(1) show False by simp
  qed
  with f(1) show ?thesis by simp
qed

lemma parseLineComment_end:
  assumes "b \<noteq> []" "last b = NL" "length b < npos" "first < length b"
    and "parseLineComment b first = Some (Inr e)" and "take 2 (drop first b) = ''//''"
  shows "first < e \<and> e < length b"
proof -
  let ?e = "find_nl b first"
  have e: "?e < length b" "first \<le> ?e" using find_nl_total assms by blast+
  from line_loop_stops [OF assms(1-3) line_inv_start [OF assms(1-4)]] obtain t where
    t: "while_option (line_guard b) (line_body b) (?e, find_line b (succ64 ?e)) = Some t"
       "line_inv b t" "?e \<le> fst t" by auto
  then have "e = fst t"
    using e assms(3,5) by (auto simp: parseLineComment_def Let_def case_prod_unfold)
  moreover have "first < ?e" using find_nl_after [OF assms(6)] e assms(3) by simp
  ultimately show ?thesis using t by (auto simp: line_inv_def)
qed

section \<open>Properties\<close>

text \<open>
  C30.  In a block that ends with a newline every line comment is delimited: the loop
  stops, at a position inside the block and not before the start of the comment.
\<close>

theorem parseLineComment_stops:
  assumes "b \<noteq> []" and "last b = NL" and "length b < npos" and "first < length b"
  shows "\<exists>e. parseLineComment b first = Some (Inr e) \<and> first \<le> e \<and> e < length b"
proof -
  let ?e = "find_nl b first"
  have e: "?e < length b" "first \<le> ?e" using find_nl_total assms by blast+
  from line_loop_stops [OF assms(1-3) line_inv_start [OF assms]] obtain t where
    t: "while_option (line_guard b) (line_body b) (?e, find_line b (succ64 ?e)) = Some t"
       "line_inv b t" "?e \<le> fst t" by auto
  then have "parseLineComment b first = Some (Inr (fst t))"
    using e assms(3) by (auto simp: parseLineComment_def Let_def case_prod_unfold)
  with t e show ?thesis by (auto simp: line_inv_def)
qed

theorem parseLineComment_stops_witness:
  "\<exists>e. parseLineComment (''// a'' @ [NL] @ ''// b'' @ [NL]) 0 = Some (Inr e) \<and> e < 10"
proof -
  let ?b = "''// a'' @ [NL] @ ''// b'' @ [NL]"
  have "?b \<noteq> []" "last ?b = NL" "length ?b < npos" "0 < length ?b" by (simp_all add: npos_def)
  from parseLineComment_stops [OF this] show ?thesis by auto
qed

text \<open>
  C34.  Without the final newline the loop can run forever: on two adjacent line comments
  of which the last is not ended by a newline, the search for the end of the line
  gives \<open>npos\<close>, \<open>npos + 1\<close> wraps to the start of the block, and the loop goes round the two
  comments again.
\<close>

theorem parseLineComment_diverges:
  assumes "NL \<notin> set a" and "NL \<notin> set c" and "length a + length c + 5 < npos"
  shows "parseLineComment (''//'' @ a @ [NL] @ ''//'' @ c) 0 = None"
proof -
  let ?b = "''//'' @ a @ [NL] @ ''//'' @ c"
  let ?m = "length a + 2"
  have idx: "find_idx [NL] ?b = Some ?m"
    using assms find_idx_nl_append [of "''//'' @ a" "''//'' @ c"] by simp
  have nl0: "find_nl ?b 0 = ?m" unfolding find_str_def using idx by simp
  have drp: "drop (Suc ?m) ?b = ''//'' @ c" by simp
  have line: "find_line ?b (Suc ?m) = Suc ?m" "find_line ?b 0 = 0"
    unfolding find_str_def drp by simp_all
  have "find_idx [NL] (''//'' @ c) = None" using assms by (simp only: find_idx_nl) simp
  then have nl1: "find_nl ?b (Suc ?m) = npos" unfolding find_str_def drp by simp
  have s: "succ64 ?m = Suc ?m" and m: "?m \<noteq> npos" "Suc ?m < npos" "0 < npos"
    using assms succ64_small [of ?m] by auto
  let ?P = "\<lambda>t. t = (?m, Suc ?m) \<or> t = (npos, 0)"
  have "line_guard ?b t \<and> ?P (line_body ?b t)" if "?P t" for t
    using that
  proof
    assume "t = (?m, Suc ?m)"
    then show ?thesis
      using nl0 nl1 line s m succ64_npos by (simp add: line_guard_def line_body_def Let_def del: drop_append)
  next
    assume "t = (npos, 0)"
    then show ?thesis
      using nl0 nl1 line s m succ64_npos by (simp add: line_guard_def line_body_def Let_def)
  qed
  then have "while_option (line_guard ?b) (line_body ?b) (?m, Suc ?m) = None"
    by (intro while_option_forever [where P = ?P]) auto
  then show ?thesis
    unfolding parseLineComment_def nl0 Let_def s line using m by simp
qed

theorem parseLineComment_diverges_witness:
  "parseLineComment (''//'' @ '' a'' @ [NL] @ ''//'' @ '' b'') 0 = None"
  by (rule parseLineComment_diverges) (simp_all add: npos_def)

text \<open>
  C28.  A comment that \<open>next\<close> finds in a newline-terminated block is the slice of the block
  from a comment opener at or after the old offset to the new offset, and the offset strictly grows, so scanning
  such a block ends.
\<close>

theorem scan_next_progress:
  assumes b: "b \<noteq> []" "last b = NL" "length b < npos"
    and n: "scan_next \<lparr>block = b, offset = p\<rparr> = Some (Inr (Some text, sc'))"
  shows "\<exists>first. p \<le> first \<and> first < offset sc' \<and> offset sc' \<le> length b
    \<and> text = substr b first (offset sc' - first)
    \<and> (take 2 (drop first b) = ''//'' \<or> take 2 (drop first b) = ''/*'')
    \<and> block sc' = b"
proof -
  let ?l = "find_line b p" and ?q = "find_str b ''/*'' p"
  consider (line) "?l < ?q" | (para) "?q < ?l"
    using n by (auto simp: scan_next_def Let_def split: if_splits)
  then show ?thesis
  proof cases
    case line
    then have l: "?l \<noteq> npos" using find_str_less b(3) by blast
    then have f: "p \<le> ?l" "?l < length b" "take 2 (drop ?l b) = ''//''"
      using find_str_found [of b "''//''" p] by (auto simp: numeral_2_eq_2)
    from n line l obtain e where e: "parseLineComment b ?l = Some (Inr e)"
      "text = substr b ?l (e - ?l)" "sc' = \<lparr>block = b, offset = e\<rparr>"
      by (auto simp: scan_next_def Let_def split: option.splits sum.splits)
    with parseLineComment_end [OF b f(2) e(1) f(3)] f show ?thesis by auto
  next
    case para
    then have q: "?q \<noteq> npos" using find_str_less b(3) by blast
    then have f: "p \<le> ?q" "?q < length b" "take 2 (drop ?q b) = ''/*''"
      using find_str_found [of b "''/*''" p] by (auto simp: numeral_2_eq_2)
    from n para q obtain e where e: "parseBlockComment b ?q = Inr e"
      "text = substr b ?q (e - ?q)" "sc' = \<lparr>block = b, offset = e\<rparr>"
      by (auto simp: scan_next_def Let_def split: option.splits sum.splits)
    with parseBlockComment_end [OF e(1) b(3)] f show ?thesis by auto
  qed
qed

theorem scan_next_progress_witness:
  "\<exists>first. first < 9 \<and> ''/* y */'' = substr (''x /* y */'' @ [NL]) first (9 - first)"
proof -
  let ?b = "''x /* y */'' @ [NL]"
  have b: "?b \<noteq> []" "last ?b = NL" "length ?b < npos" by (simp_all add: npos_def)
  have n: "scan_next \<lparr>block = ?b, offset = 0\<rparr>
      = Some (Inr (Some ''/* y */'', \<lparr>block = ?b, offset = 9\<rparr>))"
    by (simp add: scan_next_def find_str_def parseBlockComment_def substr_def npos_def Let_def)
  from scan_next_progress [OF b n] show ?thesis by auto
qed

section \<open>Block comments\<close>

text \<open>
  What a block comment is in C++: the text up to the first closer behind the opener, which does not share its star with
  the opener.
\<close>

definition block_comment :: "string \<Rightarrow> string option" where
  "block_comment t =
     (if take 2 t = ''/*'' then map_option (\<lambda>k. take (k + 4) t) (find_idx ''*/'' (drop 2 t)) else None)"

text \<open>The closer that is looked for from the opener on: it may be the second and the third character.\<close>

lemma find_closer:
  "find_idx ''*/'' (CHR ''/'' # CHR ''*'' # t)
     = (if take 1 t = ''/'' then Some 1 else map_option (\<lambda>k. k + 2) (find_idx ''*/'' t))"
  by (cases t) (simp_all add: option.map_comp comp_def)

lemma block_comment_cut:
  assumes "block_comment t = Some c"
  shows "find_idx ''*/'' t = Some (if take 3 t = ''/*/'' then 1 else length c - 2)
    \<and> 4 \<le> length c \<and> length c \<le> length t \<and> take (length c) t = c"
proof -
  from assms obtain k where t: "take 2 t = ''/*''" "find_idx ''*/'' (drop 2 t) = Some k" "c = take (k + 4) t"
    by (auto simp: block_comment_def split: if_splits)
  obtain u where u: "t = CHR ''/'' # CHR ''*'' # u"
    using t(1) by (metis append_Cons append_Nil append_take_drop_id)
  with t(2) have f: "find_idx ''*/'' u = Some k" by simp
  from find_idx_Some [OF f] have "length (take 2 (drop k u)) = 2" by (simp add: numeral_2_eq_2)
  then have l: "length c = k + 4" "k + 4 \<le> length t" using t(3) u by auto
  moreover have "take 3 t = ''/*/'' \<longleftrightarrow> take 1 u = ''/''" by (simp add: u numeral_3_eq_3)
  ultimately show ?thesis using f t(3) by (simp add: u find_closer del: find_idx.simps)
qed

text \<open>
  C35.  When a block comment of C++ is what comes next in a block (shorter than \<open>npos\<close>), \<open>next\<close> returns exactly that comment and goes on
  behind it, unless the comment opens with \<open>/*/\<close>.  Then it returns these three characters and goes on inside the
  comment, because \<open>parseBlockComment\<close> looks for the closer from the opener on.
\<close>

theorem next_block_comment:
  assumes i: "find_str b ''/*'' p = i" "i < find_line b p" and "length b < npos"
    and c: "block_comment (drop i b) = Some c"
  shows "scan_next \<lparr>block = b, offset = p\<rparr>
      = (if take 3 (drop i b) = ''/*/'' then Some (Inr (Some ''/*/'', \<lparr>block = b, offset = i + 3\<rparr>))
         else Some (Inr (Some c, \<lparr>block = b, offset = i + length c\<rparr>)))
    \<and> 3 < length c"
proof -
  have n: "i \<noteq> npos" using find_str_less [of b "''/*''" p "''//''"] assms by simp
  then have le: "i + 2 \<le> length b" using find_str_found [of b "''/*''" p] i(1) by (simp add: numeral_2_eq_2)
  let ?e = "if take 3 (drop i b) = ''/*/'' then 1 else length c - 2"
  note cut = block_comment_cut [OF c]
  then have s: "find_str b ''*/'' i = i + ?e" using le by (simp add: find_str_def)
  have "i + ?e + 2 \<le> length b" using cut le by auto
  then have "parseBlockComment b i = Inr (i + ?e + 2)"
    using assms(3) by (simp add: parseBlockComment_def Let_def s npos_def)
  then have "scan_next \<lparr>block = b, offset = p\<rparr>
      = Some (Inr (Some (substr b i (?e + 2)), \<lparr>block = b, offset = i + (?e + 2)\<rparr>))"
    using i n by (simp add: scan_next_def Let_def)
  moreover have "?e + 2 = (if take 3 (drop i b) = ''/*/'' then 3 else length c)"
    using cut by (simp only: split: if_split) linarith
  ultimately show ?thesis using cut by (simp add: substr_def split del: if_split split: if_split_asm)
qed

theorem next_block_comment_witness:
  "scan_next \<lparr>block = ''x /* y */ z'', offset = 0\<rparr> = Some (Inr (Some ''/* y */'', \<lparr>block = ''x /* y */ z'', offset = 9\<rparr>))
   \<and> block_comment ''/*/ y */ z'' = Some ''/*/ y */''
   \<and> scan_next \<lparr>block = ''x /*/ y */ z'', offset = 1\<rparr> = Some (Inr (Some ''/*/'', \<lparr>block = ''x /*/ y */ z'', offset = 5\<rparr>))"
proof (intro conjI)
  show "block_comment ''/*/ y */ z'' = Some ''/*/ y */''" by (simp add: block_comment_def)
  show "scan_next \<lparr>block = ''x /* y */ z'', offset = 0\<rparr> = Some (Inr (Some ''/* y */'', \<lparr>block = ''x /* y */ z'', offset = 9\<rparr>))"
    using next_block_comment [of "''x /* y */ z''" 0 2 "''/* y */''"] by (simp add: find_str_def npos_def block_comment_def)
  show "scan_next \<lparr>block = ''x /*/ y */ z'', offset = 1\<rparr> = Some (Inr (Some ''/*/'', \<lparr>block = ''x /*/ y */ z'', offset = 5\<rparr>))"
    using next_block_comment [of "''x /*/ y */ z''" 1 2 "''/*/ y */''"] by (simp add: find_str_def npos_def block_comment_def)
qed

end
