(* ===== verification/Formatter.thy ===== *)
theory Formatter
  imports Prelude
begin

text \<open>
  Model of \<open>include/Formatter.hpp\<close> and \<open>src/Formatter.cpp\<close>: the stream adapter that
  indents lines and delays non-breaking spaces.  The underlying
  \<open>raw_ostream\<close> is the text written so far (\<open>out\<close>); \<open>depth\<close>, \<open>spaces\<close> and
  \<open>blank\<close> are the private fields of the class.  The unsigned counters are natural
  numbers: \<open>outdent\<close> checks before it subtracts, and \<open>indent\<close> would need two billion
  nested calls to wrap.
\<close>

record formatter =
  out :: string
  depth :: nat
  spaces :: nat
  blank :: bool

definition Formatter_init :: formatter where
  "Formatter_init = \<lparr>out = [], depth = 0, spaces = 0, blank = True\<rparr>"

definition raw :: "string \<Rightarrow> formatter \<Rightarrow> formatter" where
  "raw t f = f\<lparr>out := out f @ t\<rparr>"

definition fline :: "formatter \<Rightarrow> formatter" where
  "fline f = (raw [NL] f)\<lparr>blank := True, spaces := 0\<rparr>"

definition nobreak :: "formatter \<Rightarrow> formatter" where
  "nobreak f =
     (let f1 = (if blank f then (raw (replicate (depth f) CHR '' '') f)\<lparr>blank := False\<rparr> else f)
      in (raw (replicate (spaces f1) CHR '' '') f1)\<lparr>spaces := 0\<rparr>)"

text \<open>\<open>Formatter::flush\<close> flushes the pending indentation, then the stream itself.\<close>

definition fflush :: "formatter \<Rightarrow> formatter" where
  "fflush f = nobreak f"

definition fnbsp :: "formatter \<Rightarrow> formatter" where
  "fnbsp f = f\<lparr>spaces := 1\<rparr>"

definition findent :: "formatter \<Rightarrow> formatter" where
  "findent f = f\<lparr>depth := depth f + 2\<rparr>"

definition foutdent :: "formatter action" where
  "foutdent f =
     (if depth f \<ge> 2 then Inr (f\<lparr>depth := depth f - 2\<rparr>)
      else Inl (AssertionFailed ''this->depth >= 2''))"

definition clear_spaces :: "formatter \<Rightarrow> formatter" where
  "clear_spaces f = f\<lparr>spaces := 0\<rparr>"

text \<open>The generic \<open>operator<<\<close>: flush what is pending, then write the value.\<close>

definition insert_text :: "string \<Rightarrow> formatter \<Rightarrow> formatter" where
  "insert_text t f = (raw t (nobreak f))\<lparr>blank := False\<rparr>"

definition octal_digit :: "nat \<Rightarrow> char" where
  "octal_digit v = char_of (v + 48)"

text \<open>
  \<open>Formatter::ascii\<close> writes to the stream directly, without flushing the pending
  indentation; the shifts of a non-negative \<open>int\<close> are divisions.
\<close>

definition fascii :: "nat \<Rightarrow> formatter \<Rightarrow> formatter" where
  "fascii val f =
     raw ([DQ] @ [octal_digit (val div 64)] @ [octal_digit (val div 8 mod 8)]
          @ [octal_digit (val mod 8)] @ [DQ]) f"

definition flparen :: "formatter \<Rightarrow> formatter" where
  "flparen f = findent (raw [LPAR] (nobreak f))"

definition frparen :: "formatter action" where
  "frparen f =
     (case foutdent f of
        Inl x \<Rightarrow> Inl x
      | Inr f1 \<Rightarrow> Inr (raw [RPAR] (nobreak (clear_spaces f1))))"

definition ftuple_sep :: "formatter \<Rightarrow> formatter" where
  "ftuple_sep f = fnbsp (insert_text '','' f)"

definition fcons :: "formatter \<Rightarrow> formatter" where
  "fcons f = fnbsp (insert_text ''::'' (fnbsp f))"

definition fBOOL :: "bool \<Rightarrow> formatter \<Rightarrow> formatter" where
  "fBOOL b f = raw (if b then ''true'' else ''false'') (nobreak f)"

text \<open>
  \<open>operator<<(NUM)\<close>: a number with an optional scope, in parentheses when it is
  negative.  \<open>is_signed\<close> only selects how the bits of an \<open>APInt\<close> are read, so the
  value is taken as an integer here.
\<close>

record num =
  val :: int
  scope :: "string option"

definition fZ :: "int \<Rightarrow> bool \<Rightarrow> num" where
  "fZ v sc = \<lparr>val = v, scope = (if sc then Some ''Z'' else None)\<rparr>"

definition fN :: "nat \<Rightarrow> bool \<Rightarrow> num" where
  "fN v sc = \<lparr>val = int v, scope = (if sc then Some ''N'' else None)\<rparr>"

definition num_text :: "num \<Rightarrow> string" where
  "num_text n =
     (if val n < 0 then [LPAR] else []) @ decimal_int (val n)
     @ (if val n < 0 then [RPAR] else [])
     @ (case scope n of None \<Rightarrow> [] | Some sc \<Rightarrow> CHR ''%'' # sc)"

definition fNUM :: "num \<Rightarrow> formatter \<Rightarrow> formatter" where
  "fNUM n f = raw (num_text n) (nobreak f)"

lemmas formatter_defs =
  raw_def fline_def nobreak_def fflush_def fnbsp_def findent_def clear_spaces_def insert_text_def
  fascii_def flparen_def ftuple_sep_def fcons_def fBOOL_def fNUM_def

section \<open>What every operation writes\<close>

text \<open>
  Each operation appends to the text: pending white space, then its own
  symbols.  \<open>pending\<close> is the white space that the next non-breaking write flushes.
\<close>

definition pending :: "formatter \<Rightarrow> string" where
  "pending f = (if blank f then replicate (depth f) CHR '' '' else []) @ replicate (spaces f) CHR '' ''"

lemma plain_pending [simp]: "plain (pending f)"
  by (simp add: pending_def)

lemma pending_quiet: "\<not> blank f \<Longrightarrow> spaces f = 0 \<Longrightarrow> pending f = []"
  by (simp add: pending_def)

lemma out_simps [simp]:
  "out (raw t f) = out f @ t"
  "out (nobreak f) = out f @ pending f"
  "out (fline f) = out f @ [NL]"
  "out (fnbsp f) = out f"
  "out (findent f) = out f"
  "out (clear_spaces f) = out f"
  "out (insert_text t f) = out f @ pending f @ t"
  by (simp_all add: formatter_defs pending_def Let_def)

lemma depth_simps [simp]:
  "depth (raw t f) = depth f"
  "depth (nobreak f) = depth f"
  "depth (fline f) = depth f"
  "depth (fnbsp f) = depth f"
  "depth (findent f) = depth f + 2"
  "depth (clear_spaces f) = depth f"
  "depth (insert_text t f) = depth f"
  by (simp_all add: formatter_defs Let_def)

lemma flags_simps [simp]:
  "blank (nobreak f) = False" "spaces (nobreak f) = 0"
  "blank (raw t f) = blank f" "spaces (raw t f) = spaces f"
  "blank (insert_text t f) = False" "spaces (insert_text t f) = 0"
  "blank (fline f) = True" "spaces (fline f) = 0"
  "blank (fnbsp f) = blank f" "spaces (fnbsp f) = 1"
  "blank (findent f) = blank f" "spaces (findent f) = spaces f"
  "blank (clear_spaces f) = blank f" "spaces (clear_spaces f) = 0"
  by (simp_all add: formatter_defs Let_def)

lemma pending_insert_text [simp]: "pending (insert_text t f) = []"
  by (simp add: pending_def)

lemma plain_balanced_num: "(case scope n of None \<Rightarrow> True | Some sc \<Rightarrow> plain sc) \<Longrightarrow> balanced (num_text n)"
  by (auto simp: num_text_def balanced_def lex_plain split: option.splits)

lemma foutdent_Inr: "foutdent f = Inr g \<longleftrightarrow> depth f \<ge> 2 \<and> g = f\<lparr>depth := depth f - 2\<rparr>"
  by (auto simp: foutdent_def)

text \<open>\<open>insert_text\<close> distributes over the pieces of a text, as a chain of \<open><<\<close> does.\<close>

lemma insert_text_append: "insert_text u (insert_text t f) = insert_text (t @ u) f"
  by (simp add: formatter_defs Let_def)

lemma indent_outdent: "foutdent (findent f) = Inr f"
  by (simp add: foutdent_def findent_def)

end
