(* ===== verification/OpaqueNames.thy ===== *)
theory OpaqueNames
  imports Prelude
begin

text \<open>
  Model of \<open>include/OpaqueNames.hpp\<close>: the tables that give indices to opaque value
  expressions (\<open>indexes\<close>) and to anonymous local declarations (\<open>anonymous\<close>), and the
  nesting counter of array initialisation loops.  Expressions and declarations are
  pointers, compared by address.  The two tables follow one contract, the locale
  \<open>binder_table\<close>, which is interpreted twice.
\<close>

type_synonym ptr = nat

record OpaqueNames =
  indexes :: "ptr list"
  anonymous :: "ptr list"
  index_count :: int

definition OpaqueNames_init :: OpaqueNames where
  "OpaqueNames_init = \<lparr>indexes = [], anonymous = [], index_count = -1\<rparr>"

definition fresh :: "ptr \<Rightarrow> OpaqueNames \<Rightarrow> int \<times> OpaqueNames" where
  "fresh e on = (int (length (indexes on)), on\<lparr>indexes := indexes on @ [e]\<rparr>)"

text \<open>\<open>free\<close> does nothing: indices are never reused.\<close>

definition free :: "ptr \<Rightarrow> OpaqueNames \<Rightarrow> OpaqueNames" where
  "free e on = on"

text \<open>The loop shared by \<open>find\<close> and \<open>find_anon\<close>, with its running \<open>result\<close>.\<close>

fun find_loop :: "ptr \<Rightarrow> ptr list \<Rightarrow> int \<Rightarrow> int" where
  "find_loop e [] result = -1"
| "find_loop e (i # is) result = (if i = e then result else find_loop e is (result + 1))"

definition find_opaque :: "OpaqueNames \<Rightarrow> ptr \<Rightarrow> int" where
  "find_opaque on e = find_loop e (indexes on) 0"

definition push_anon :: "ptr \<Rightarrow> OpaqueNames \<Rightarrow> int \<times> OpaqueNames" where
  "push_anon e on = (int (length (anonymous on)), on\<lparr>anonymous := anonymous on @ [e]\<rparr>)"

definition find_anon :: "OpaqueNames \<Rightarrow> ptr \<Rightarrow> int" where
  "find_anon on e = find_loop e (anonymous on) 0"

definition pop_anon :: "ptr \<Rightarrow> OpaqueNames action" where
  "pop_anon e on =
     (if anonymous on = [] then Inl (AssertionFailed ''popping from empty vector'')
      else if last (anonymous on) \<noteq> e then Inl (AssertionFailed ''popping wrong entry'')
      else Inr (on\<lparr>anonymous := butlast (anonymous on)\<rparr>))"

definition inc_index_count :: "OpaqueNames \<Rightarrow> OpaqueNames" where
  "inc_index_count on = on\<lparr>index_count := index_count on + 1\<rparr>"

definition dec_index_count :: "OpaqueNames \<Rightarrow> OpaqueNames" where
  "dec_index_count on = on\<lparr>index_count := index_count on - 1\<rparr>"

section \<open>The contract of a binder table\<close>

text \<open>
  \<open>position\<close> is the index of the first occurrence of a key, \<open>-1\<close> when there is none:
  the abstract meaning of both lookups.
\<close>

definition position :: "'k list \<Rightarrow> 'k \<Rightarrow> int" where
  "position ks k = (if k \<in> set ks then int (length (takeWhile (\<lambda>x. x \<noteq> k) ks)) else -1)"

lemma position_Nil [simp]: "position [] k = -1"
  by (simp add: position_def)

lemma position_snoc_new: "k \<notin> set ks \<Longrightarrow> position (ks @ [k]) k = int (length ks)"
  by (induction ks) (auto simp: position_def)

lemma position_snoc_old: "k \<in> set ks \<or> j \<noteq> k \<Longrightarrow> position (ks @ [j]) k = position ks k"
  by (cases "k \<in> set ks") (auto simp: position_def)

lemma position_nth: "k \<in> set ks \<Longrightarrow> ks ! nat (position ks k) = k \<and> nat (position ks k) < length ks"
  by (induction ks) (auto simp: position_def)

lemma find_loop_position: "find_loop e xs r = (if e \<in> set xs then r + position xs e else -1)"
  by (induction xs arbitrary: r) (auto simp: position_def)

locale binder_table =
  fixes bind_key :: "'k \<Rightarrow> 't \<Rightarrow> int \<times> 't"
    and find_key :: "'t \<Rightarrow> 'k \<Rightarrow> int"
    and keys :: "'t \<Rightarrow> 'k list"
  assumes bind_index: "fst (bind_key k t) = int (length (keys t))"
    and bind_keys: "keys (snd (bind_key k t)) = keys t @ [k]"
    and find_position: "find_key t k = position (keys t) k"
begin

lemma find_bound: "k \<notin> set (keys t) \<Longrightarrow> find_key (snd (bind_key k t)) k = fst (bind_key k t)"
  by (simp add: find_position bind_keys bind_index position_snoc_new)

lemma find_shadowed: "k \<in> set (keys t) \<Longrightarrow> find_key (snd (bind_key k t)) k = find_key t k"
  by (simp add: find_position bind_keys position_snoc_old)

lemma find_other: "j \<noteq> k \<Longrightarrow> find_key (snd (bind_key j t)) k = find_key t k"
  by (simp add: find_position bind_keys position_snoc_old)

lemma find_missing: "find_key t k = -1 \<longleftrightarrow> k \<notin> set (keys t)"
  by (simp add: find_position position_def)

lemma find_range: "find_key t k < int (length (keys t))"
  using position_nth [of k "keys t"]
  by (cases "k \<in> set (keys t)") (auto simp: find_position position_def)

lemma find_inject: "find_key t j = find_key t k \<Longrightarrow> j \<in> set (keys t) \<Longrightarrow> j = k"
  using position_nth [of j "keys t"] position_nth [of k "keys t"]
  by (metis find_missing find_position)

end

interpretation opaque: binder_table fresh find_opaque indexes
  by unfold_locales (simp_all add: fresh_def find_opaque_def find_loop_position position_def)

interpretation anon: binder_table push_anon find_anon anonymous
  by unfold_locales (simp_all add: push_anon_def find_anon_def find_loop_position position_def)

lemmas opaque_defs =
  OpaqueNames_init_def fresh_def free_def find_opaque_def push_anon_def find_anon_def pop_anon_def
  inc_index_count_def dec_index_count_def

section \<open>Properties\<close>

text \<open>
  A fresh opaque value expression is found at the index its binding printed, every
  other lookup is unchanged, and no two expressions in the table share an index: a
  printed \<open>Eopaque_ref\<close> names exactly one binder.
\<close>

theorem fresh_find:
  assumes "e \<notin> set (indexes on)"
  shows "find_opaque (snd (fresh e on)) e = fst (fresh e on)
    \<and> (\<forall>e'. e' \<noteq> e \<longrightarrow> find_opaque (snd (fresh e on)) e' = find_opaque on e')
    \<and> (\<forall>a b. a \<in> set (indexes on) \<longrightarrow> find_opaque on a = find_opaque on b \<longrightarrow> a = b)"
  using opaque.find_bound [OF assms] opaque.find_other opaque.find_inject by metis

theorem fresh_find_witness:
  "find_opaque (snd (fresh 7 \<lparr>indexes = [3], anonymous = [], index_count = -1\<rparr>)) 7 = 1"
proof -
  let ?on = "\<lparr>indexes = [3], anonymous = [], index_count = -1\<rparr> :: OpaqueNames"
  have "(7::nat) \<notin> set (indexes ?on)" by simp
  from fresh_find [OF this] show ?thesis by (simp add: fresh_def)
qed

text \<open>
  The scope of an anonymous declaration is a stack discipline: popping the entry that was
  pushed restores the table, and popping any other entry fails its assertion.
\<close>

theorem anon_stack:
  "pop_anon e (snd (push_anon e on)) = Inr on \<and>
   (e' \<noteq> e \<longrightarrow> pop_anon e' (snd (push_anon e on)) = Inl (AssertionFailed ''popping wrong entry''))"
  by (simp add: opaque_defs)

theorem anon_stack_witness:
  "pop_anon 5 (snd (push_anon 4 OpaqueNames_init)) = Inl (AssertionFailed ''popping wrong entry'')"
  using anon_stack [of 4 OpaqueNames_init 5] by simp

end
