(* ===== verification/Logging.thy ===== *)
theory Logging
  imports Prelude
begin

text \<open>
  Model of \<open>include/Logging.hpp\<close>, \<open>src/Logging.cpp\<close>, \<open>src/Assert.cpp\<close>, \<open>include/Trace.hpp\<close>
  and of the way \<open>main\<close> (\<open>src/cpp2v.cpp\<close>) sets the log level: which diagnostics
  reach the error stream, and which trace bits a command line selects.
\<close>

section \<open>Log levels\<close>

datatype Level = FATAL | NONE | UNSUPPORTED | VERBOSE | VERBOSER | ALL_LEVELS

fun level_val :: "Level \<Rightarrow> int" where
  "level_val FATAL = -1"
| "level_val NONE = 0"
| "level_val UNSUPPORTED = 5"
| "level_val VERBOSE = 10"
| "level_val VERBOSER = 20"
| "level_val ALL_LEVELS = 1000"

lemma level_val_inject: "level_val a = level_val b \<Longrightarrow> a = b"
  by (cases a; cases b) simp_all

instantiation Level :: linorder
begin

definition less_eq_Level :: "Level \<Rightarrow> Level \<Rightarrow> bool" where
  "less_eq_Level a b \<longleftrightarrow> level_val a \<le> level_val b"

definition less_Level :: "Level \<Rightarrow> Level \<Rightarrow> bool" where
  "less_Level a b \<longleftrightarrow> level_val a < level_val b"

instance
  by standard (auto simp: less_eq_Level_def less_Level_def dest: level_val_inject)

end

datatype stream = Errs | Nulls

definition log_level_init :: Level where
  "log_level_init = NONE"

definition log :: "Level \<Rightarrow> Level \<Rightarrow> stream" where
  "log log_level level = (if level \<le> log_level then Errs else Nulls)"

definition set_level :: "Level \<Rightarrow> Level \<Rightarrow> Level" where
  "set_level level log_level = level"

text \<open>The options of \<open>main\<close>, tested in this order.\<close>

record verbosity =
  Verboser :: bool
  Verbose :: bool
  Quiet :: bool

definition main_level :: "verbosity \<Rightarrow> Level \<Rightarrow> Level" where
  "main_level opts lv =
     (let l1 = set_level UNSUPPORTED lv in
      if Verboser opts then set_level VERBOSER l1
      else if Verbose opts then set_level VERBOSE l1
      else if Quiet opts then set_level NONE l1
      else l1)"

text \<open>A failed \<open>always_assert\<close> prints to the error stream and dies, whatever the level.\<close>

definition assertion_failed_text :: "string \<Rightarrow> string \<Rightarrow> string \<Rightarrow> nat \<Rightarrow> string" where
  "assertion_failed_text e func file line =
     ''Assertion failed: '' @ e @ '', function '' @ func @ '', file '' @ file
     @ '', line '' @ decimal line @ ''.'' @ [NL]"

lemma log_mono: "l \<le> l' \<Longrightarrow> log l lv = Errs \<Longrightarrow> log l' lv = Errs"
  by (auto simp: log_def split: if_splits)

text \<open>
  Whatever the command line, a fatal diagnostic reaches the error stream; a warning
  about an unsupported construct does unless \<open>-q\<close> alone is given; and \<open>-vv\<close> shows
  everything that \<open>-v\<close> shows.
\<close>

theorem main_level_shows:
  "log (main_level opts lv) FATAL = Errs
   \<and> (log (main_level opts lv) UNSUPPORTED = Nulls \<longleftrightarrow> Quiet opts \<and> \<not> Verbose opts \<and> \<not> Verboser opts)
   \<and> (log (main_level (opts\<lparr>Verbose := True\<rparr>) lv) level = Errs \<longrightarrow>
      log (main_level (opts\<lparr>Verboser := True\<rparr>) lv) level = Errs)"
  by (cases level) (auto simp: log_def main_level_def set_level_def less_eq_Level_def)

theorem main_level_shows_witness:
  "log (main_level \<lparr>Verboser = True, Verbose = False, Quiet = True\<rparr> NONE) VERBOSE = Errs"
proof -
  let ?opts = "\<lparr>Verboser = False, Verbose = False, Quiet = True\<rparr>"
  have "log (main_level (?opts\<lparr>Verbose := True\<rparr>) NONE) VERBOSE = Errs"
    by (simp add: log_def main_level_def set_level_def)
  with main_level_shows [of ?opts NONE VERBOSE] show ?thesis by simp
qed

section \<open>Trace masks\<close>

text \<open>
  \<open>Trace::Bit\<close> is an enumeration that starts at 1; \<open>cl::bits\<close> hands the chosen
  values over as a 32-bit set, and \<open>Mask::ALL\<close> has every bit set.
\<close>

unbundle bit_operations_syntax

datatype TraceBit = TElaborate | TModuleBuilder | TDecl | TName | TType | TStmt | TLocal | TExpr | TALL

fun bit_index :: "TraceBit \<Rightarrow> nat" where
  "bit_index TElaborate = 1"
| "bit_index TModuleBuilder = 2"
| "bit_index TDecl = 3"
| "bit_index TName = 4"
| "bit_index TType = 5"
| "bit_index TStmt = 6"
| "bit_index TLocal = 7"
| "bit_index TExpr = 8"
| "bit_index TALL = 9"

definition trace_mask :: "TraceBit \<Rightarrow> 32 word" where
  "trace_mask b = push_bit (bit_index b) 1"

definition mask_ALL :: "32 word" where
  "mask_ALL = NOT 0"

definition fromBits :: "32 word \<Rightarrow> 32 word" where
  "fromBits bits = (if bits AND trace_mask TALL \<noteq> 0 then mask_ALL else bits)"

text \<open>\<open>ClangPrinter::trace(m)\<close> and the tests \<open>trace & Trace::X\<close> of the other components.\<close>

definition traces :: "32 word \<Rightarrow> TraceBit \<Rightarrow> bool" where
  "traces m b \<longleftrightarrow> m AND trace_mask b \<noteq> 0"

text \<open>What \<open>cl::bits\<close> collects from a list of \<open>--trace\<close> values.\<close>

definition collect_bits :: "TraceBit list \<Rightarrow> 32 word" where
  "collect_bits bs = foldr (\<lambda>b m. trace_mask b OR m) bs 0"

lemma bit_index_small: "bit_index b < 32"
  by (cases b) simp_all

lemma bit_index_inject: "bit_index a = bit_index b \<longleftrightarrow> a = b"
  by (cases a; cases b) simp_all

lemma bit_trace_mask [simp]: "bit (trace_mask b) n \<longleftrightarrow> n = bit_index b"
  using bit_index_small [of b] by (auto simp: trace_mask_def bit_exp_iff possible_bit_word)

lemma traces_bit: "traces m b \<longleftrightarrow> bit m (bit_index b)"
  using bit_index_small [of b] by (auto simp: traces_def bit_eq_iff [of _ "0 :: 32 word"] bit_and_iff)

lemma bit_collect_bits: "bit (collect_bits bs) (bit_index b) \<longleftrightarrow> b \<in> set bs"
  by (induction bs) (auto simp: collect_bits_def bit_or_iff bit_index_inject)

text \<open>
  Every \<open>--trace\<close> option list traces exactly the components it names, and all of
  them when it names \<open>ALL\<close>: the promotion in \<open>Trace::fromBits\<close> loses and adds nothing
  else.
\<close>

theorem fromBits_traces:
  "traces (fromBits (collect_bits bs)) b \<longleftrightarrow> b \<in> set bs \<or> TALL \<in> set bs"
proof -
  have "traces (collect_bits bs) TALL \<longleftrightarrow> TALL \<in> set bs"
    by (simp only: traces_bit bit_collect_bits)
  moreover have "traces mask_ALL b"
    using bit_index_small [of b] by (simp add: traces_bit mask_ALL_def)
  moreover have "traces (collect_bits bs) b \<longleftrightarrow> b \<in> set bs"
    by (simp only: traces_bit bit_collect_bits)
  ultimately show ?thesis by (auto simp: fromBits_def traces_def)
qed

end
