(* ===== verification/Cache.thy ===== *)
theory Cache
  imports OpaqueNames
begin

text \<open>
  Model of the class \<open>Cache\<close> of \<open>include/PrePrint.hpp\<close>: numbers for the types and the
  declarations that the output file defines up front, keyed by pointer.
  \<open>numbering\<close> is the contract that the pre-printer relies on.
\<close>

record NameCache =
  entries :: "ptr \<rightharpoonup> nat"
  next_num :: nat

definition NameCache_init :: NameCache where
  "NameCache_init = \<lparr>entries = Map.empty, next_num = 1\<rparr>"

text \<open>\<open>fresh\<close> ignores its pointer and pre-increments, so the first number is 2.\<close>

definition nc_fresh :: "NameCache \<Rightarrow> nat \<times> NameCache" where
  "nc_fresh c = (Suc (next_num c), c\<lparr>next_num := Suc (next_num c)\<rparr>)"

definition nc_store :: "ptr \<Rightarrow> nat \<Rightarrow> NameCache action" where
  "nc_store p n c =
     (if entries c p = None then Inr (c\<lparr>entries := (entries c)(p \<mapsto> n)\<rparr>)
      else Inl (AssertionFailed ''entries_.find(p) == entries_.end()''))"

definition nc_lookup :: "NameCache \<Rightarrow> ptr \<Rightarrow> nat" where
  "nc_lookup c p = (case entries c p of None \<Rightarrow> 0 | Some n \<Rightarrow> n)"

text \<open>The text that \<open>reference\<close> writes, when the pointer has a number.\<close>

definition nc_reference :: "char \<Rightarrow> NameCache \<Rightarrow> ptr \<Rightarrow> string option" where
  "nc_reference prefix c p =
     (let x = nc_lookup c p in if x \<noteq> 0 then Some (prefix # decimal x) else None)"

definition TYPE_PREFIX :: char where "TYPE_PREFIX = CHR ''t''"
definition NAME_PREFIX :: char where "NAME_PREFIX = CHR ''n''"

record Cache =
  types_nc :: NameCache
  names_nc :: NameCache

definition Cache_init :: Cache where
  "Cache_init = \<lparr>types_nc = NameCache_init, names_nc = NameCache_init\<rparr>"

lemmas cache_defs =
  NameCache_init_def nc_fresh_def nc_store_def nc_lookup_def nc_reference_def Cache_init_def

section \<open>The numbering contract\<close>

text \<open>
  \<open>nc_ok\<close>: the numbers handed out lie between 2 and the counter, and no two pointers
  share one.
\<close>

definition nc_ok :: "NameCache \<Rightarrow> bool" where
  "nc_ok c \<longleftrightarrow> 1 \<le> next_num c
     \<and> (\<forall>p n. entries c p = Some n \<longrightarrow> 2 \<le> n \<and> n \<le> next_num c)
     \<and> (\<forall>p q n. entries c p = Some n \<longrightarrow> entries c q = Some n \<longrightarrow> p = q)"

locale numbering =
  fixes num_fresh :: "'c \<Rightarrow> nat \<times> 'c"
    and num_store :: "'k \<Rightarrow> nat \<Rightarrow> 'c action"
    and num_lookup :: "'c \<Rightarrow> 'k \<Rightarrow> nat"
    and ok :: "'c \<Rightarrow> bool"
  assumes fresh_ok: "ok c \<Longrightarrow> num_fresh c = (n, c') \<Longrightarrow> ok c' \<and> n \<noteq> 0"
    and fresh_lookup: "num_fresh c = (n, c') \<Longrightarrow> num_lookup c' = num_lookup c"
    and fresh_new: "ok c \<Longrightarrow> num_fresh c = (n, c') \<Longrightarrow> num_lookup c k \<noteq> n"
    and store_new: "num_lookup c k = 0 \<Longrightarrow> ok c \<Longrightarrow> \<exists>c'. num_store k n c = Inr c'"
    and store_lookup: "num_store k n c = Inr c' \<Longrightarrow> num_lookup c' = (num_lookup c)(k := n)"
    and store_ok: "ok c0 \<Longrightarrow> num_fresh c0 = (n, c) \<Longrightarrow> num_store k n c = Inr c' \<Longrightarrow> ok c'"
begin

text \<open>
  \<open>memo\<close>: a key that is looked up, and numbered and stored when it is new.  This is
  the shape of \<open>VisitName\<close> and of \<open>Visit(const Type*)\<close> in the pre-printer.
\<close>

lemma memo_total:
  assumes "ok c" and "num_lookup c k = 0" and "num_fresh c = (n, c1)"
  shows "\<exists>c2. num_store k n c1 = Inr c2 \<and> ok c2 \<and> num_lookup c2 k = n \<and> n \<noteq> 0
     \<and> (\<forall>j. j \<noteq> k \<longrightarrow> num_lookup c2 j = num_lookup c j \<and> num_lookup c2 j \<noteq> n)"
proof -
  from assms have 1: "ok c1" "n \<noteq> 0" "num_lookup c1 = num_lookup c"
    using fresh_ok fresh_lookup by blast+
  with assms obtain c2 where c2: "num_store k n c1 = Inr c2"
    using store_new [of c1 k n] by auto
  then have "num_lookup c2 = (num_lookup c)(k := n)" using store_lookup 1 by simp
  moreover have "ok c2" using store_ok assms c2 by blast
  ultimately show ?thesis using c2 1 fresh_new [OF assms(1,3)] by auto
qed

end

lemma nc_ok_init: "nc_ok NameCache_init"
  by (simp add: nc_ok_def NameCache_init_def)

interpretation nc: numbering nc_fresh nc_store nc_lookup nc_ok
proof
  fix c c' :: NameCache and n
  assume "nc_ok c" and "nc_fresh c = (n, c')"
  then show "nc_ok c' \<and> n \<noteq> 0" by (force simp: nc_ok_def nc_fresh_def)
next
  fix c c' :: NameCache and n
  assume "nc_fresh c = (n, c')"
  then show "nc_lookup c' = nc_lookup c" by (auto simp: nc_fresh_def nc_lookup_def)
next
  fix c c' :: NameCache and n k
  assume "nc_ok c" and "nc_fresh c = (n, c')"
  then show "nc_lookup c k \<noteq> n"
    by (fastforce simp: nc_ok_def nc_fresh_def nc_lookup_def split: option.splits)
next
  fix c :: NameCache and k n
  assume "nc_lookup c k = 0" and "nc_ok c"
  then show "\<exists>c'. nc_store k n c = Inr c'"
    by (force simp: nc_ok_def nc_store_def nc_lookup_def split: option.splits)
next
  fix c c' :: NameCache and k n
  assume "nc_store k n c = Inr c'"
  then show "nc_lookup c' = (nc_lookup c)(k := n)"
    by (auto simp: nc_store_def nc_lookup_def split: if_splits)
next
  fix c0 c c' :: NameCache and k n
  assume "nc_ok c0" "nc_fresh c0 = (n, c)" "nc_store k n c = Inr c'"
  then show "nc_ok c'"
    by (fastforce simp: nc_ok_def nc_fresh_def nc_store_def split: if_splits)
qed

text \<open>
  Numbering a new pointer cannot fail its assertion, the number is not in use,
  every other pointer keeps its number, and no two pointers share one afterwards: a
  name such as \<open>t5\<close> in the generated file is defined for one type only.
\<close>

theorem cache_memo:
  assumes "nc_ok c" and "nc_lookup c p = 0"
  shows "\<exists>c'. nc_store p (fst (nc_fresh c)) (snd (nc_fresh c)) = Inr c' \<and> nc_ok c'
     \<and> nc_lookup c' p = Suc (next_num c)
     \<and> (\<forall>q. q \<noteq> p \<longrightarrow> nc_lookup c' q = nc_lookup c q \<and> nc_lookup c' q \<noteq> nc_lookup c' p)"
proof -
  have f: "nc_fresh c = (Suc (next_num c), c\<lparr>next_num := Suc (next_num c)\<rparr>)"
    by (simp add: nc_fresh_def)
  from nc.memo_total [OF assms f] show ?thesis unfolding f fst_conv snd_conv by metis
qed

theorem cache_memo_witness:
  "\<exists>c'. nc_store 9 2 (NameCache_init\<lparr>next_num := 2\<rparr>) = Inr c' \<and> nc_lookup c' 9 = 2"
proof -
  have "nc_lookup NameCache_init 9 = 0" by (simp add: nc_lookup_def NameCache_init_def)
  from cache_memo [OF nc_ok_init this] show ?thesis
    by (auto simp: nc_fresh_def NameCache_init_def numeral_2_eq_2)
qed

end
