(* ===== verification/CoqPrinter.thy ===== *)
theory CoqPrinter
  imports Formatter OpaqueNames Logging Cache
begin

text \<open>
  Model of \<open>include/CoqPrinter.hpp\<close> and \<open>src/StringPrettyPrinter.cpp\<close>: constructors,
  records, tuples, lists, string literals and comments of Coq, written through the
  formatter.  A printing action works on the state \<open>pstate\<close>: the formatter, the
  \<open>OpaqueNames\<close> object that is passed by reference to the expression printer, the
  declaration context of the current \<open>ClangPrinter\<close> copy, and the diagnostics so
  far.  The guards (objects whose destructor closes what the constructor opened)
  wrap the action of their scope.
\<close>

record pstate =
  fmt :: formatter
  names :: OpaqueNames
  declctx :: "ptr option"
  diags :: "(Level \<times> string) list"

type_synonym printer = "pstate action"
type_synonym bprinter = "(pstate, bool) query"

record CoqPrinter =
  templates :: bool
  structured_keys :: bool
  name_cache :: Cache

definition pstate_init :: pstate where
  "pstate_init = \<lparr>fmt = Formatter_init, names = OpaqueNames_init, declctx = None, diags = []\<rparr>"

section \<open>Formatter operations as actions\<close>

definition fmtA :: "(formatter \<Rightarrow> formatter) \<Rightarrow> printer" where
  "fmtA f s = Inr (s\<lparr>fmt := f (fmt s)\<rparr>)"

definition fmtE :: "formatter action \<Rightarrow> printer" where
  "fmtE f s = (case f (fmt s) of Inl x \<Rightarrow> Inl x | Inr g \<Rightarrow> Inr (s\<lparr>fmt := g\<rparr>))"

definition put :: "string \<Rightarrow> printer" where
  "put t = fmtA (insert_text t)"

definition nl :: printer where "nl = fmtA fline"
definition nbsp :: printer where "nbsp = fmtA fnbsp"
definition indent :: printer where "indent = fmtA findent"
definition outdent :: printer where "outdent = fmtE foutdent"
definition lparen :: printer where "lparen = fmtA flparen"
definition rparen :: printer where "rparen = fmtE frparen"
definition tuple_sep :: printer where "tuple_sep = fmtA ftuple_sep"
definition cons_sep :: printer where "cons_sep = fmtA fcons"
definition putBOOL :: "bool \<Rightarrow> printer" where "putBOOL b = fmtA (fBOOL b)"
definition putNUM :: "num \<Rightarrow> printer" where "putNUM n = fmtA (fNUM n)"

text \<open>\<open>operator<<(APSInt)\<close> is \<open>fmt::Z\<close> with its scope.\<close>

definition putZ :: "int \<Rightarrow> printer" where "putZ v = putNUM (fZ v True)"

text \<open>A diagnostic on the log stream; whether it is displayed depends on the level.\<close>

definition diag :: "Level \<Rightarrow> string \<Rightarrow> printer" where
  "diag lv msg s = Inr (s\<lparr>diags := diags s @ [(lv, msg)]\<rparr>)"

definition displayed :: "Level \<Rightarrow> pstate \<Rightarrow> string list" where
  "displayed log_level s = map snd (filter (\<lambda>d. log log_level (fst d) = Errs) (diags s))"

section \<open>Operations of the class\<close>

definition reference_type :: "CoqPrinter \<Rightarrow> ptr \<Rightarrow> string option" where
  "reference_type print p = nc_reference TYPE_PREFIX (types_nc (name_cache print)) p"

definition reference_name :: "CoqPrinter \<Rightarrow> ptr \<Rightarrow> string option" where
  "reference_name print p = nc_reference NAME_PREFIX (names_nc (name_cache print)) p"

definition coq_type :: "CoqPrinter \<Rightarrow> printer" where
  "coq_type print = put (if templates print then ''Mtype'' else ''type'')"

definition begin_tuple :: printer where "begin_tuple = put [LPAR]"
definition end_tuple :: printer where "end_tuple = put [RPAR]"
definition next_tuple :: printer where "next_tuple = tuple_sep"

definition ctor :: "string \<Rightarrow> bool \<Rightarrow> printer" where
  "ctor c line = seqP [if line then nl else skip, lparen, put c, nbsp]"

definition end_ctor :: printer where "end_ctor = rparen"

definition begin_record :: "bool \<Rightarrow> printer" where
  "begin_record line = seqP [if line then nl else skip, put ''{|'', nbsp]"

definition end_record :: "bool \<Rightarrow> printer" where
  "end_record line = seqP [if line then nl else skip, nbsp, put ''|}'']"

definition record_field :: "string \<Rightarrow> printer" where
  "record_field field = seqP [put field, nbsp, put '':='', nbsp]"

definition some :: printer where "some = ctor ''Some'' True"
definition none :: printer where "none = put ''None''"

definition ascii :: "int \<Rightarrow> printer" where
  "ascii c = seqA (assertA ''0 <= c && c < 256'' (0 \<le> c \<and> c < 256)) (fmtA (fascii (nat c)))"

definition boolean :: "bool \<Rightarrow> printer" where
  "boolean b = put (if b then ''true'' else ''false'')"

definition begin_list :: printer where "begin_list = lparen"
definition end_list :: printer where "end_list = seqP [put ''nil'', rparen]"
definition cons :: printer where "cons = cons_sep"

definition list_range :: "'a list \<Rightarrow> ('a \<Rightarrow> printer) \<Rightarrow> printer" where
  "list_range xs fn =
     (if xs = [] then put ''nil''
      else seqP [begin_list, seqP (map (\<lambda>x. seqA (fn x) cons) xs), end_list])"

definition list_range_filter :: "'a list \<Rightarrow> ('a \<Rightarrow> bprinter) \<Rightarrow> printer" where
  "list_range_filter xs fn =
     (if xs = [] then put ''nil''
      else seqP [begin_list,
                 seqP (map (\<lambda>x. bindQ (fn x) (\<lambda>b. if b then cons else skip)) xs), end_list])"

text \<open>\<open>list\<close> and \<open>list_filter\<close> pass the bounds of a container to these loops.\<close>

definition plist :: "'a list \<Rightarrow> ('a \<Rightarrow> printer) \<Rightarrow> printer" where
  "plist xs fn = list_range xs fn"

definition list_filter :: "'a list \<Rightarrow> ('a \<Rightarrow> bprinter) \<Rightarrow> printer" where
  "list_filter xs fn = list_range_filter xs fn"

text \<open>A Coq string literal: every double quote is written twice.\<close>

definition str :: "string \<Rightarrow> printer" where
  "str t = seqP ([put [DQ]] @ map (\<lambda>c. if c = DQ then seqP [put [c], put [c]] else put [c]) t @ [put [DQ]])"

text \<open>A Coq comment: a space is written between the characters of \<open>(*\<close> and of \<open>*)\<close>.\<close>

fun cmt_loop :: "string \<Rightarrow> printer list" where
  "cmt_loop [] = []"
| "cmt_loop [c] = [put [c]]"
| "cmt_loop (c # d # rest) =
     (put [c] #
      (if (c = LPAR \<and> d = CHR ''*'') \<or> (c = CHR ''*'' \<and> d = RPAR) then [put '' ''] else []))
     @ cmt_loop (d # rest)"

definition cmt :: "string \<Rightarrow> printer" where
  "cmt t = seqP ([put ''(* ''] @ cmt_loop t @ [put '' *)''])"

section \<open>Guards\<close>

definition guard_ctor :: "string \<Rightarrow> bool \<Rightarrow> printer list \<Rightarrow> printer" where
  "guard_ctor name line body = seqP [ctor name line, seqP body, end_ctor]"

definition guard_some :: "bool \<Rightarrow> printer list \<Rightarrow> printer" where
  "guard_some line body = guard_ctor ''Some'' line body"

definition guard_tuple :: "printer list \<Rightarrow> printer" where
  "guard_tuple body = seqP [begin_tuple, seqP body, end_tuple]"

datatype RecordLine = LNone | LBegin | LEnd | LBoth

fun line_bits :: "RecordLine \<Rightarrow> nat" where
  "line_bits LNone = 0"
| "line_bits LBegin = 1"
| "line_bits LEnd = 2"
| "line_bits LBoth = 3"

unbundle bit_operations_syntax

definition want :: "RecordLine \<Rightarrow> RecordLine \<Rightarrow> bool" where
  "want wantlines b \<longleftrightarrow> line_bits wantlines AND line_bits b \<noteq> 0"

definition guard_record :: "RecordLine \<Rightarrow> printer list \<Rightarrow> printer" where
  "guard_record l body =
     seqP [begin_record (want l LBegin), seqP body, end_record (want l LEnd)]"

definition guard_list :: "printer list \<Rightarrow> printer" where
  "guard_list body = seqP [begin_list, seqP body, end_list]"

lemmas action_defs =
  fmtA_def fmtE_def put_def nl_def nbsp_def indent_def outdent_def lparen_def rparen_def
  tuple_sep_def cons_sep_def putBOOL_def putNUM_def putZ_def diag_def

end
