(* ===== verification/PrinterContract.thy ===== *)
theory PrinterContract
  imports CoqPrinter
begin

text \<open>
  The contract every printing action is verified against.  \<open>steps i d j e p\<close> says that
  \<open>p\<close>, started with \<open>i\<close> open parentheses and \<open>d\<close> levels of indentation of its own, ends
  with \<open>j\<close> and \<open>e\<close>: it appends a text that moves the lexer of Coq text from nesting \<open>i\<close>
  to nesting \<open>j\<close> and is outside every string literal, it moves the indentation
  accordingly, it leaves the declaration context alone, and it never stops on
  one of the two assertions about indentation.  \<open>safe p\<close> is the balanced case.  The
  rules below decompose an action along the code that builds it.
\<close>

definition depth_assertion :: string where
  "depth_assertion = ''depth == print.output().get_depth()''"

text \<open>The check of \<open>printExpr\<close> asserts \<open>false\<close>; the name of the function tells it from others.\<close>

definition expr_depth_assertion :: string where
  "expr_depth_assertion = ''printExpr: false''"

definition indent_error :: "stop \<Rightarrow> bool" where
  "indent_error x \<longleftrightarrow>
     x = AssertionFailed ''this->depth >= 2'' \<or> x = AssertionFailed depth_assertion
     \<or> x = AssertionFailed expr_depth_assertion"

definition steps :: "nat \<Rightarrow> nat \<Rightarrow> nat \<Rightarrow> nat \<Rightarrow> printer \<Rightarrow> bool" where
  "steps i d j e p \<longleftrightarrow>
     (\<forall>s n k. depth (fmt s) = k + 2 * d \<longrightarrow>
        (case p s of
           Inl x \<Rightarrow> \<not> indent_error x
         | Inr s' \<Rightarrow> depth (fmt s') = k + 2 * e \<and> declctx s' = declctx s
             \<and> (\<exists>t. out (fmt s') = out (fmt s) @ t \<and> lex (Code (n + i)) t = Code (n + j))))"

abbreviation safe :: "printer \<Rightarrow> bool" where
  "safe p \<equiv> steps 0 0 0 0 p"

lemma stepsI:
  assumes "\<And>s n k. depth (fmt s) = k + 2 * d \<Longrightarrow>
     (case p s of
        Inl x \<Rightarrow> \<not> indent_error x
      | Inr s' \<Rightarrow> depth (fmt s') = k + 2 * e \<and> declctx s' = declctx s
          \<and> (\<exists>t. out (fmt s') = out (fmt s) @ t \<and> lex (Code (n + i)) t = Code (n + j)))"
  shows "steps i d j e p"
  using assms by (auto simp: steps_def)

lemma stepsD:
  assumes "steps i d j e p" and "p s = Inr s'" and "depth (fmt s) = k + 2 * d"
  shows "depth (fmt s') = k + 2 * e \<and> declctx s' = declctx s
     \<and> (\<exists>t. out (fmt s') = out (fmt s) @ t \<and> lex (Code (n + i)) t = Code (n + j))"
  using assms by (auto simp: steps_def dest: spec [of _ s])

lemma stepsD_Inl: "steps i d j e p \<Longrightarrow> p s = Inl x \<Longrightarrow> depth (fmt s) = k + 2 * d \<Longrightarrow> \<not> indent_error x"
  by (auto simp: steps_def dest: spec [of _ s])

section \<open>Structural rules\<close>

lemma steps_skip [printer_intros]: "steps i d i d skip"
  by (rule stepsI) (simp add: skip_def)

lemma steps_stop [printer_intros]: "\<not> indent_error x \<Longrightarrow> steps i d j e (stopA x)"
  by (rule stepsI) (simp add: stopA_def)

lemma steps_seq:
  assumes p: "steps i d j e p" and q: "steps j e l f q"
  shows "steps i d l f (seqA p q)"
proof (rule stepsI)
  fix s :: pstate and n k
  assume d: "depth (fmt s) = k + 2 * d"
  show "case seqA p q s of
        Inl x \<Rightarrow> \<not> indent_error x
      | Inr s' \<Rightarrow> depth (fmt s') = k + 2 * f \<and> declctx s' = declctx s
          \<and> (\<exists>t. out (fmt s') = out (fmt s) @ t \<and> lex (Code (n + i)) t = Code (n + l))"
  proof (cases "p s")
    case (Inl x)
    with stepsD_Inl [OF p Inl d] show ?thesis by (simp add: seqA_def)
  next
    case (Inr s1)
    from stepsD [OF p Inr d, of n] obtain t where
      1: "depth (fmt s1) = k + 2 * e" "declctx s1 = declctx s"
         "out (fmt s1) = out (fmt s) @ t" "lex (Code (n + i)) t = Code (n + j)" by auto
    show ?thesis
    proof (cases "q s1")
      case (Inl x)
      with stepsD_Inl [OF q Inl 1(1)] Inr show ?thesis by (simp add: seqA_def)
    next
      case 2: (Inr s2)
      from stepsD [OF q 2 1(1), of n] 1 Inr 2 show ?thesis by (fastforce simp: seqA_def)
    qed
  qed
qed

lemma steps_Nil [printer_intros]: "steps i d i d (seqP [])"
  by (simp add: steps_skip)

lemma steps_Cons [printer_intros]:
  "steps i d j e p \<Longrightarrow> steps j e l f (seqP ps) \<Longrightarrow> steps i d l f (seqP (p # ps))"
  by (simp add: steps_seq)

lemma steps_append:
  "steps i d j e (seqP ps) \<Longrightarrow> steps j e l f (seqP qs) \<Longrightarrow> steps i d l f (seqP (ps @ qs))"
  by (simp add: seqP_append steps_seq)

lemma steps_weaken: "steps i d j e p \<Longrightarrow> steps (i + a) (d + b) (j + a) (e + b) p"
proof (rule stepsI)
  fix s :: pstate and n k
  assume p: "steps i d j e p" and "depth (fmt s) = k + 2 * (d + b)"
  then have d: "depth (fmt s) = (k + 2 * b) + 2 * d" by simp
  show "case p s of
        Inl x \<Rightarrow> \<not> indent_error x
      | Inr s' \<Rightarrow> depth (fmt s') = k + 2 * (e + b) \<and> declctx s' = declctx s
          \<and> (\<exists>t. out (fmt s') = out (fmt s) @ t \<and> lex (Code (n + (i + a))) t = Code (n + (j + a)))"
  proof (cases "p s")
    case (Inl x)
    with stepsD_Inl [OF p Inl d] show ?thesis by simp
  next
    case (Inr s')
    with stepsD [OF p Inr d, of "n + a"] show ?thesis
      by (auto simp: algebra_simps)
  qed
qed

lemma safe_steps: "safe p \<Longrightarrow> steps i d i d p"
  using steps_weaken [of 0 0 0 0 p i d] by simp

lemma steps_if [printer_intros]:
  "(b \<Longrightarrow> steps i d j e p) \<Longrightarrow> (\<not> b \<Longrightarrow> steps i d j e q) \<Longrightarrow> steps i d j e (if b then p else q)"
  by simp

lemma steps_case_option [printer_intros]:
  "(x = None \<Longrightarrow> steps i d j e p) \<Longrightarrow> (\<And>y. x = Some y \<Longrightarrow> steps i d j e (f y)) \<Longrightarrow>
   steps i d j e (case x of None \<Rightarrow> p | Some y \<Rightarrow> f y)"
  by (cases x) simp_all

lemma steps_case_prod [printer_intros]:
  "(\<And>a b. x = (a, b) \<Longrightarrow> steps i d j e (f a b)) \<Longrightarrow> steps i d j e (case x of (a, b) \<Rightarrow> f a b)"
  by (cases x) simp

lemma steps_Let [printer_intros]: "steps i d j e (f x) \<Longrightarrow> steps i d j e (let y = x in f y)"
  by simp

lemma steps_assert [printer_intros]:
  "msg \<noteq> ''this->depth >= 2'' \<Longrightarrow> msg \<noteq> depth_assertion \<Longrightarrow> msg \<noteq> expr_depth_assertion \<Longrightarrow> steps i d i d (assertA msg b)"
  by (auto simp: assertA_def indent_error_def intro: steps_skip steps_stop)

lemma steps_map:
  "(\<And>x. x \<in> set xs \<Longrightarrow> steps i d i d (f x)) \<Longrightarrow> steps i d i d (seqP (map f xs))"
  by (induction xs) (auto intro: steps_skip steps_seq)

section \<open>Rules for the actions of the printer\<close>

lemma steps_fmtA:
  assumes "\<And>g. \<exists>t. out (f g) = out g @ t \<and> plain t" and "\<And>g. depth (f g) = depth g"
  shows "steps i d i d (fmtA f)"
proof (rule stepsI)
  fix s :: pstate and n k
  assume "depth (fmt s) = k + 2 * d"
  moreover obtain t where "out (f (fmt s)) = out (fmt s) @ t" "plain t"
    using assms(1) [of "fmt s"] by blast
  ultimately show "case fmtA f s of
        Inl x \<Rightarrow> \<not> indent_error x
      | Inr s' \<Rightarrow> depth (fmt s') = k + 2 * d \<and> declctx s' = declctx s
          \<and> (\<exists>t. out (fmt s') = out (fmt s) @ t \<and> lex (Code (n + i)) t = Code (n + i))"
    using assms(2) by (auto simp: fmtA_def lex_plain)
qed

lemma steps_nl [printer_intros]: "steps i d i d nl"
  unfolding nl_def by (rule steps_fmtA) simp_all

lemma steps_nbsp [printer_intros]: "steps i d i d nbsp"
  unfolding nbsp_def by (rule steps_fmtA) simp_all

lemma steps_put_lex:
  assumes "lex (Code i) t = Code j"
  shows "steps i d j d (put t)"
proof (rule stepsI)
  fix s :: pstate and n k
  assume "depth (fmt s) = k + 2 * d"
  moreover have "lex (Code (n + i)) (pending (fmt s) @ t) = Code (n + j)"
    using lex_deepen [of "Code i" t n] assms by (simp add: lex_plain add.commute)
  ultimately show "case put t s of
        Inl x \<Rightarrow> \<not> indent_error x
      | Inr s' \<Rightarrow> depth (fmt s') = k + 2 * d \<and> declctx s' = declctx s
          \<and> (\<exists>u. out (fmt s') = out (fmt s) @ u \<and> lex (Code (n + i)) u = Code (n + j))"
    by (auto simp: put_def fmtA_def)
qed

lemma steps_put [printer_intros]: "balanced t \<Longrightarrow> steps i d i d (put t)"
  by (rule steps_put_lex) simp

lemma steps_begin_tuple [printer_intros]: "steps i d (Suc i) d begin_tuple"
  unfolding begin_tuple_def by (rule steps_put_lex) simp

lemma steps_end_tuple [printer_intros]: "steps (Suc i) d i d end_tuple"
  unfolding end_tuple_def by (rule steps_put_lex) simp

lemma steps_indent [printer_intros]: "steps i d i (Suc d) indent"
  by (rule stepsI) (simp add: indent_def fmtA_def)

lemma steps_outdent [printer_intros]: "steps i (Suc d) i d outdent"
  by (rule stepsI) (auto simp: outdent_def fmtE_def foutdent_def)

lemma steps_lparen [printer_intros]: "steps i d (Suc i) (Suc d) lparen"
  by (rule stepsI) (auto simp: lparen_def fmtA_def flparen_def lex_plain)

lemma steps_rparen [printer_intros]: "steps (Suc i) (Suc d) i d rparen"
  by (rule stepsI) (auto simp: rparen_def fmtE_def frparen_def foutdent_def lex_plain)

lemma steps_putBOOL [printer_intros]: "steps i d i d (putBOOL b)"
  unfolding putBOOL_def by (rule steps_fmtA) (auto simp: fBOOL_def)

lemma steps_tuple_sep [printer_intros]: "steps i d i d tuple_sep"
  unfolding tuple_sep_def by (rule steps_fmtA) (auto simp: ftuple_sep_def)

lemma steps_cons_sep [printer_intros]: "steps i d i d cons_sep"
  unfolding cons_sep_def by (rule steps_fmtA) (auto simp: fcons_def)

lemma steps_putNUM [printer_intros]:
  assumes "balanced (num_text n)"
  shows "steps i d i d (putNUM n)"
  by (rule stepsI) (use assms in \<open>auto simp: putNUM_def fmtA_def fNUM_def lex_plain\<close>)

lemma steps_putZ [printer_intros]: "steps i d i d (putZ v)"
  unfolding putZ_def by (rule steps_putNUM, rule plain_balanced_num) (simp add: fZ_def)

lemma steps_diag [printer_intros]: "steps i d i d (diag lv msg)"
  by (rule stepsI) (simp add: diag_def)

section \<open>Rules for the operations of \<open>CoqPrinter\<close>\<close>

lemma steps_ctor [printer_intros]: "balanced c \<Longrightarrow> steps i d (Suc i) (Suc d) (ctor c line)"
  unfolding ctor_def by (rule printer_intros | (simp; fail))+

lemma steps_end_ctor [printer_intros]: "steps (Suc i) (Suc d) i d end_ctor"
  unfolding end_ctor_def by (rule steps_rparen)

lemma steps_some [printer_intros]: "steps i d (Suc i) (Suc d) some"
  unfolding some_def by (rule steps_ctor) simp

lemma steps_none [printer_intros]: "steps i d i d none"
  unfolding none_def by (rule printer_intros | (simp; fail))+

lemma steps_boolean [printer_intros]: "steps i d i d (boolean b)"
  unfolding boolean_def by (rule printer_intros | (simp; fail))+

lemma steps_begin_list [printer_intros]: "steps i d (Suc i) (Suc d) begin_list"
  unfolding begin_list_def by (rule steps_lparen)

lemma steps_end_list [printer_intros]: "steps (Suc i) (Suc d) i d end_list"
  unfolding end_list_def by (rule printer_intros | (simp; fail))+

lemma steps_cons [printer_intros]: "steps i d i d cons"
  unfolding cons_def by (rule steps_cons_sep)

lemma steps_next_tuple [printer_intros]: "steps i d i d next_tuple"
  unfolding next_tuple_def by (rule steps_tuple_sep)

lemma steps_begin_record [printer_intros]: "steps i d i d (begin_record l)"
  unfolding begin_record_def by (rule printer_intros | (simp; fail))+

lemma steps_end_record [printer_intros]: "steps i d i d (end_record l)"
  unfolding end_record_def by (rule printer_intros | (simp; fail))+

lemma steps_record_field [printer_intros]: "plain field \<Longrightarrow> steps i d i d (record_field field)"
  unfolding record_field_def by (rule printer_intros | (simp; fail))+

lemma steps_list_range [printer_intros]:
  assumes "\<And>x. x \<in> set xs \<Longrightarrow> steps (Suc i) (Suc d) (Suc i) (Suc d) (fn x)"
  shows "steps i d i d (list_range xs fn)"
proof -
  have e: "steps (Suc i) (Suc d) (Suc i) (Suc d) (seqA (fn x) cons)" if "x \<in> set xs" for x
    by (rule steps_seq [OF assms [OF that] steps_cons])
  show ?thesis
    unfolding list_range_def by (rule printer_intros steps_map [OF e] | (simp; fail))+
qed

lemma steps_plist [printer_intros]:
  "(\<And>x. x \<in> set xs \<Longrightarrow> steps (Suc i) (Suc d) (Suc i) (Suc d) (fn x)) \<Longrightarrow> steps i d i d (plist xs fn)"
  unfolding plist_def by (rule steps_list_range)

lemma steps_guard_ctor [printer_intros]:
  "balanced c \<Longrightarrow> steps (Suc i) (Suc d) (Suc i) (Suc d) (seqP body) \<Longrightarrow> steps i d i d (guard_ctor c line body)"
  unfolding guard_ctor_def by (rule printer_intros | (simp; fail))+

lemma steps_guard_some [printer_intros]:
  "steps (Suc i) (Suc d) (Suc i) (Suc d) (seqP body) \<Longrightarrow> steps i d i d (guard_some line body)"
  unfolding guard_some_def by (rule printer_intros | (simp; fail))+

lemma steps_guard_tuple [printer_intros]:
  "steps (Suc i) d (Suc i) d (seqP body) \<Longrightarrow> steps i d i d (guard_tuple body)"
  unfolding guard_tuple_def by (rule printer_intros | (simp; fail))+

lemma steps_guard_record [printer_intros]:
  "steps i d i d (seqP body) \<Longrightarrow> steps i d i d (guard_record l body)"
  unfolding guard_record_def by (rule printer_intros | (simp; fail))+

lemma steps_guard_list [printer_intros]:
  "steps (Suc i) (Suc d) (Suc i) (Suc d) (seqP body) \<Longrightarrow> steps i d i d (guard_list body)"
  unfolding guard_list_def by (rule printer_intros | (simp; fail))+

section \<open>Queries\<close>

text \<open>A query that prints and answers, used where the code tests what was printed.\<close>

definition steps_query :: "nat \<Rightarrow> nat \<Rightarrow> bprinter \<Rightarrow> bool" where
  "steps_query i d q \<longleftrightarrow> (\<forall>j e f. (\<forall>b. steps i d j e (f b)) \<longrightarrow> steps i d j e (bindQ q f))"

lemma steps_bindQ [printer_intros]:
  "steps_query i d q \<Longrightarrow> (\<And>b. steps i d j e (f b)) \<Longrightarrow> steps i d j e (bindQ q f)"
  by (simp add: steps_query_def)

text \<open>The same contract, stated on the states before and after.\<close>

lemma steps_queryD:
  assumes q: "steps_query i d p" and r: "p s = Inr (b, s')" and dep: "depth (fmt s) = k + 2 * d"
  shows "depth (fmt s') = k + 2 * d \<and> declctx s' = declctx s
    \<and> (\<exists>t. out (fmt s') = out (fmt s) @ t \<and> lex (Code (n + i)) t = Code (n + i))"
proof -
  have "steps i d i d (bindQ p (\<lambda>b. skip))"
    using q by (rule steps_bindQ) (rule steps_skip)
  from stepsD [OF this _ dep] show ?thesis using r by (simp add: bindQ_def skip_def)
qed

lemma steps_queryD_Inl:
  assumes q: "steps_query i d p" and r: "p s = Inl x" and dep: "depth (fmt s) = k + 2 * d"
  shows "\<not> indent_error x"
proof -
  have "steps i d i d (bindQ p (\<lambda>b. skip))"
    using q by (rule steps_bindQ) (rule steps_skip)
  from stepsD_Inl [OF this _ dep] show ?thesis using r by (simp add: bindQ_def)
qed

lemma steps_queryI:
  assumes inl: "\<And>s x k. p s = Inl x \<Longrightarrow> depth (fmt s) = k + 2 * d \<Longrightarrow> \<not> indent_error x"
    and inr: "\<And>s b s' k n. p s = Inr (b, s') \<Longrightarrow> depth (fmt s) = k + 2 * d \<Longrightarrow>
      depth (fmt s') = k + 2 * d \<and> declctx s' = declctx s
      \<and> (\<exists>t. out (fmt s') = out (fmt s) @ t \<and> lex (Code (n + i)) t = Code (n + i))"
  shows "steps_query i d p"
  unfolding steps_query_def
proof (intro allI impI, rule stepsI)
  fix j e and f :: "bool \<Rightarrow> printer" and s :: pstate and n k
  assume f: "\<forall>b. steps i d j e (f b)" and dep: "depth (fmt s) = k + 2 * d"
  show "case bindQ p f s of
        Inl x \<Rightarrow> \<not> indent_error x
      | Inr s' \<Rightarrow> depth (fmt s') = k + 2 * e \<and> declctx s' = declctx s
          \<and> (\<exists>t. out (fmt s') = out (fmt s) @ t \<and> lex (Code (n + i)) t = Code (n + j))"
  proof (cases "p s")
    case (Inl x)
    with inl [OF Inl dep] show ?thesis by (simp add: bindQ_def)
  next
    case (Inr r)
    obtain b s1 where r: "r = (b, s1)" by (cases r)
    from inr [OF Inr [unfolded r] dep, of n] obtain t where
      1: "depth (fmt s1) = k + 2 * d" "declctx s1 = declctx s"
         "out (fmt s1) = out (fmt s) @ t" "lex (Code (n + i)) t = Code (n + i)" by auto
    show ?thesis
    proof (cases "f b s1")
      case 2: (Inl x)
      with stepsD_Inl [OF spec [OF f] 2 1(1)] Inr r show ?thesis by (simp add: bindQ_def)
    next
      case 2: (Inr s2)
      from stepsD [OF spec [OF f] 2 1(1), of n] 1 Inr r 2 show ?thesis
        by (fastforce simp: bindQ_def)
    qed
  qed
qed

lemma steps_query_returning [printer_intros]: "steps i d i d p \<Longrightarrow> steps_query i d (returning p b)"
  by (auto simp: steps_query_def bindQ_returning intro: steps_seq)

lemma steps_query_if [printer_intros]:
  "(b \<Longrightarrow> steps_query i d p) \<Longrightarrow> (\<not> b \<Longrightarrow> steps_query i d q) \<Longrightarrow> steps_query i d (if b then p else q)"
  by simp

lemma steps_query_case_option [printer_intros]:
  "(x = None \<Longrightarrow> steps_query i d p) \<Longrightarrow> (\<And>y. x = Some y \<Longrightarrow> steps_query i d (f y)) \<Longrightarrow>
   steps_query i d (case x of None \<Rightarrow> p | Some y \<Rightarrow> f y)"
  by (cases x) simp_all

lemma steps_list_filter [printer_intros]:
  assumes "\<And>x. x \<in> set xs \<Longrightarrow> steps_query (Suc i) (Suc d) (fn x)"
  shows "steps i d i d (list_filter xs fn)"
proof -
  have e: "steps (Suc i) (Suc d) (Suc i) (Suc d) (bindQ (fn x) (\<lambda>b. if b then cons else skip))"
    if "x \<in> set xs" for x
    using assms [OF that] by (rule steps_bindQ) (rule printer_intros)+
  show ?thesis
    unfolding list_filter_def list_range_filter_def
    by (rule printer_intros steps_map [OF e] | (simp; fail))+
qed

end
