(* ===== verification/CoqText.thy ===== *)
theory CoqText
  imports PrinterContract
begin

text \<open>
  What the string and comment printers of \<open>src/StringPrettyPrinter.cpp\<close> write, and how
  the lexer of Coq reads it back.
\<close>

section \<open>Chains of insertions\<close>

lemma put_Inr: "put t s = Inr (s\<lparr>fmt := insert_text t (fmt s)\<rparr>)"
  by (simp add: put_def fmtA_def)

lemma put_put: "seqA (put t) (put u) = put (t @ u)"
  by (rule ext) (simp add: seqA_def put_Inr insert_text_append)

text \<open>\<open>puts\<close> is a chain \<open><< a << b << c\<close> of values.\<close>

definition puts :: "string list \<Rightarrow> printer" where
  "puts ts = put (concat ts)"

lemma puts_seq: "ts \<noteq> [] \<Longrightarrow> seqP (map put ts) = puts ts"
proof (induction ts)
  case (Cons t ts)
  then show ?case by (cases "ts = []") (simp_all add: puts_def put_put)
qed simp

lemma steps_puts [printer_intros]: "balanced (concat ts) \<Longrightarrow> steps i d i d (puts ts)"
  unfolding puts_def by (rule steps_put)

text \<open>A quoted text in the middle of a chain: the quotes must match.\<close>

lemma balanced_quoted: "DQ \<notin> set t \<Longrightarrow> balanced (DQ # t @ [DQ])"
  by (simp add: balanced_def lex_InStr)

lemma balanced_wrapped [simp]: "balanced t \<Longrightarrow> balanced (LPAR # t @ [RPAR])"
  by (simp add: balanced_def [of "LPAR # t @ [RPAR]"])

section \<open>String literals\<close>

fun escape :: "string \<Rightarrow> string" where
  "escape [] = []"
| "escape (c # t) = (if c = DQ then [c, c] else [c]) @ escape t"

definition str_text :: "string \<Rightarrow> string" where
  "str_text t = [DQ] @ escape t @ [DQ]"

lemma seqP_map_put: "ts \<noteq> [] \<Longrightarrow> seqP (map (\<lambda>c. put (f c)) ts) = put (concat (map f ts))"
  using puts_seq [of "map f ts"] by (simp add: puts_def comp_def)

lemma escape_concat: "concat (map (\<lambda>c. if c = DQ then [c, c] else [c]) t) = escape t"
  by (induction t) simp_all

lemma str_put: "str t = put (str_text t)"
proof -
  let ?f = "\<lambda>c. if c = DQ then [c, c] else [c]"
  have f: "(\<lambda>c. if c = DQ then seqP [put [c], put [c]] else put [c]) = (\<lambda>c. put (?f c))"
    by (rule ext) (simp add: put_put)
  have "str t = seqP (map put ([[DQ]] @ map ?f t @ [[DQ]]))"
    by (simp only: str_def f list.map map_append map_map comp_def)
  also have "\<dots> = put (str_text t)"
    by (subst puts_seq) (simp_all add: puts_def str_text_def escape_concat)
  finally show ?thesis .
qed

lemma lex_escape: "lex (InStr n) (escape t) = InStr n"
  by (induction t) simp_all

lemma balanced_str_text [simp]: "balanced (str_text t)"
  by (simp add: balanced_def str_text_def lex_escape)

lemma steps_str [printer_intros]: "steps i d i d (str t)"
  unfolding str_put by (rule steps_put) simp

text \<open>How Coq reads a literal, after its opening quote: content and rest.\<close>

fun read_literal :: "string \<Rightarrow> (string \<times> string) option" where
  "read_literal [] = None"
| "read_literal [c] = (if c = DQ then Some ([], []) else None)"
| "read_literal (c # d # rest) =
     (if c = DQ then
        (if d = DQ then map_option (\<lambda>(t, r). (DQ # t, r)) (read_literal rest)
         else Some ([], d # rest))
      else map_option (\<lambda>(t, r). (c # t, r)) (read_literal (d # rest)))"

lemma read_literal_escape: "read_literal (escape t @ [DQ]) = Some (t, [])"
proof (induction t)
  case (Cons c t)
  obtain d r where "escape t @ [DQ] = d # r"
    by (cases "escape t @ [DQ]") auto
  with Cons show ?case by simp
qed simp

section \<open>Comments\<close>

fun cmt_escape :: "string \<Rightarrow> string" where
  "cmt_escape [] = []"
| "cmt_escape [c] = [c]"
| "cmt_escape (c # d # rest) =
     [c] @ (if (c = LPAR \<and> d = CHR ''*'') \<or> (c = CHR ''*'' \<and> d = RPAR) then '' '' else [])
     @ cmt_escape (d # rest)"

definition cmt_text :: "string \<Rightarrow> string" where
  "cmt_text t = ''(* '' @ cmt_escape t @ '' *)''"

lemma cmt_loop_puts: "\<exists>ts. cmt_loop t = map put ts \<and> concat ts = cmt_escape t"
proof (induction t rule: cmt_loop.induct)
  case (3 c d rest)
  then obtain ts where ts: "cmt_loop (d # rest) = map put ts" "concat ts = cmt_escape (d # rest)"
    by blast
  let ?sep = "if (c = LPAR \<and> d = CHR ''*'') \<or> (c = CHR ''*'' \<and> d = RPAR) then [''  ''] else []"
  show ?case
    by (rule exI [of _ "[c] # (if (c = LPAR \<and> d = CHR ''*'') \<or> (c = CHR ''*'' \<and> d = RPAR) then ['' ''] else []) @ ts"])
      (simp add: ts)
qed (auto intro: exI [of _ "[]"] exI [of _ "[[c]]" for c])

lemma cmt_put: "cmt t = put (cmt_text t)"
proof -
  obtain ts where ts: "cmt_loop t = map put ts" "concat ts = cmt_escape t"
    using cmt_loop_puts by blast
  then have "cmt t = seqP (map put ([''(* ''] @ ts @ ['' *)'']))"
    by (simp add: cmt_def)
  also have "\<dots> = put (cmt_text t)"
    by (subst puts_seq) (simp_all add: puts_def cmt_text_def ts)
  finally show ?thesis .
qed

text \<open>
  How Coq reads a comment: \<open>read_comment False n t\<close> is what follows the marker that closes the \<open>n\<close>th enclosing comment.
  Comments are nested, and Coq reads string literals inside them, in which the markers do not count:
  \<open>read_comment True n t\<close> is the same from inside a literal.  A doubled quote ends a literal and opens it again.
\<close>

fun read_comment :: "bool \<Rightarrow> nat \<Rightarrow> string \<Rightarrow> string option" where
  "read_comment q n [] = None"
| "read_comment True n (c # t) = read_comment (c \<noteq> DQ) n t"
| "read_comment False n [c] = None"
| "read_comment False n (c # d # rest) =
     (if c = DQ then read_comment True n (d # rest)
      else if c = LPAR \<and> d = CHR ''*'' then read_comment False (Suc n) rest
      else if c = CHR ''*'' \<and> d = RPAR then (if n \<le> 1 then Some rest else read_comment False (n - 1) rest)
      else read_comment False n (d # rest))"

fun marked :: "string \<Rightarrow> bool" where
  "marked (c # d # rest) \<longleftrightarrow>
     (c = LPAR \<and> d = CHR ''*'') \<or> (c = CHR ''*'' \<and> d = RPAR) \<or> marked (d # rest)"
| "marked _ \<longleftrightarrow> False"

lemma cmt_escape_unmarked: "\<not> marked (cmt_escape t @ [CHR '' ''])"
proof (induction t rule: cmt_escape.induct)
  case (3 c d rest)
  obtain w where w: "cmt_escape (d # rest) = d # w"
    by (cases rest) auto
  with 3 show ?case by auto
qed auto

lemma read_comment_unmarked:
  "\<not> marked (t @ [CHR '' '']) \<Longrightarrow> n \<le> 1 \<Longrightarrow>
   read_comment q n (t @ '' *)'' @ rest)
     = (if q = odd (count_list t DQ) then Some rest else read_comment True n rest)"
proof (induction t arbitrary: q rule: marked.induct)
  case (1 c d t)
  then show ?case by (cases q) auto
qed (case_tac [!] q, auto)

lemma count_cmt_escape: "count_list (cmt_escape t) DQ = count_list t DQ"
  by (induction t rule: cmt_escape.induct) auto

lemma marked_Cons_space: "marked (CHR '' '' # t) = marked t"
  by (cases t) auto

section \<open>Properties\<close>

text \<open>
  C26.  \<open>CoqPrinter::str\<close> never stops, and after the pending white space it writes one string
  literal that Coq reads back as exactly the given bytes, whatever quotes, newlines or
  parentheses they contain.
\<close>

theorem str_roundtrip:
  "\<exists>s' w. str t s = Inr s'
     \<and> out (fmt s') = out (fmt s) @ pending (fmt s) @ DQ # w
     \<and> read_literal w = Some (t, []) \<and> balanced (DQ # w)"
proof -
  have "out (insert_text (str_text t) (fmt s)) = out (fmt s) @ pending (fmt s) @ DQ # (escape t @ [DQ])"
    by (simp add: str_text_def)
  then show ?thesis
    using balanced_str_text [of t]
    by (auto simp: str_put put_Inr read_literal_escape str_text_def)
qed

lemma read_cmt_text:
  "\<exists>s' w. cmt t s = Inr s' \<and> out (fmt s') = out (fmt s) @ pending (fmt s) @ ''(*'' @ w
     \<and> (\<forall>rest. read_comment False 1 (w @ rest) = (if even (count_list t DQ) then Some rest else read_comment True 1 rest))"
proof -
  have "\<not> marked ((CHR '' '' # cmt_escape t) @ [CHR '' ''])"
    using cmt_escape_unmarked [of t] by (simp add: marked_Cons_space)
  from read_comment_unmarked [OF this, of 1 False]
  have "read_comment False 1 ((CHR '' '' # cmt_escape t @ '' *)'') @ rest)
      = (if even (count_list t DQ) then Some rest else read_comment True 1 rest)" for rest
    by (simp add: count_cmt_escape del: read_comment.simps)
  moreover have "\<exists>s'. cmt t s = Inr s' \<and> out (fmt s') = out (fmt s) @ pending (fmt s) @ ''(*'' @ CHR '' '' # cmt_escape t @ '' *)''"
    by (simp add: cmt_put put_Inr cmt_text_def)
  ultimately show ?thesis by blast
qed

text \<open>
  C27.  For a text with an even number of double quotes \<open>CoqPrinter::cmt\<close> writes one comment that Coq closes exactly at
  its end, whatever is written behind it: no comment marker of the text, inside or outside of quotes, can close the
  comment early or leave a nested one open.
\<close>

theorem cmt_closes:
  assumes "even (count_list t DQ)"
  shows "\<exists>s' w. cmt t s = Inr s' \<and> out (fmt s') = out (fmt s) @ pending (fmt s) @ ''(*'' @ w
     \<and> (\<forall>rest. read_comment False 1 (w @ rest) = Some rest)"
  using read_cmt_text [of t s] assms by simp

theorem cmt_closes_witness:
  "\<exists>s' w. cmt (''f *) ('' @ [CHR ''*'', DQ, CHR ''*'', RPAR, DQ]) pstate_init = Inr s'
     \<and> out (fmt s') = ''(*'' @ w \<and> read_comment False 1 (w @ ''Definition'') = Some ''Definition''"
proof -
  have "even (count_list (''f *) ('' @ [CHR ''*'', DQ, CHR ''*'', RPAR, DQ]) DQ)" by simp
  from cmt_closes [OF this, of pstate_init] obtain s' w where
    "cmt (''f *) ('' @ [CHR ''*'', DQ, CHR ''*'', RPAR, DQ]) pstate_init = Inr s'"
    "out (fmt s') = out (fmt pstate_init) @ pending (fmt pstate_init) @ ''(*'' @ w"
    "\<forall>rest. read_comment False 1 (w @ rest) = Some rest" by blast
  moreover have "out (fmt pstate_init) @ pending (fmt pstate_init) = []"
    by (simp add: pstate_init_def Formatter_init_def pending_def)
  ultimately show ?thesis by (metis append_assoc append_Nil)
qed

text \<open>
  C33.  \<open>CoqPrinter::cmt\<close> does not protect double quotes.  For every text with an odd number of them Coq is inside a
  string literal where the comment should end: it does not see the end of the comment, and reads what is written behind
  it as the rest of the literal.  If no quote follows, the comment is never closed.
\<close>

theorem cmt_odd_quote:
  assumes "odd (count_list t DQ)"
  shows "\<exists>s' w. cmt t s = Inr s' \<and> out (fmt s') = out (fmt s) @ pending (fmt s) @ ''(*'' @ w
     \<and> (\<forall>rest. read_comment False 1 (w @ rest) = read_comment True 1 rest)
     \<and> (\<forall>rest. DQ \<notin> set rest \<longrightarrow> read_comment False 1 (w @ rest) = None)"
proof -
  have "read_comment True n rest = None" if "DQ \<notin> set rest" for n rest
    using that by (induction rest) auto
  with read_cmt_text [of t s] assms show ?thesis by fastforce
qed

theorem cmt_odd_quote_witness:
  "\<exists>s' w. cmt (''operator'' @ [DQ]) pstate_init = Inr s'
     \<and> out (fmt s') = ''(*'' @ w \<and> read_comment False 1 (w @ '' Definition x := (* *) 1.'') = None"
proof -
  have o: "odd (count_list (''operator'' @ [DQ]) DQ)" and q: "DQ \<notin> set '' Definition x := (* *) 1.''" by simp_all
  from cmt_odd_quote [OF o, of pstate_init] obtain s' w where
    "cmt (''operator'' @ [DQ]) pstate_init = Inr s'"
    "out (fmt s') = out (fmt pstate_init) @ pending (fmt pstate_init) @ ''(*'' @ w"
    "read_comment False 1 (w @ '' Definition x := (* *) 1.'') = None" using q by blast
  moreover have "out (fmt pstate_init) @ pending (fmt pstate_init) = []"
    by (simp add: pstate_init_def Formatter_init_def pending_def)
  ultimately show ?thesis by (metis append_assoc append_Nil)
qed

end
