(* ===== verification/DeclKinds.thy ===== *)
theory DeclKinds
  imports OpaqueNames
begin

text \<open>
  The clang AST as the program sees it.  clang is a library: nothing of it is defined
  here beyond its class hierarchy.  A node is a \<open>ptr\<close>, and what the accessors
  of its class answer is a table of the \<open>ASTContext\<close>, the parameter of every component
  that walks the AST; a field bears the name of the accessor that the code calls.
  Accessors that can answer a null pointer have option type.
\<close>

section \<open>Declarations\<close>

text \<open>The classes of declarations, abstract ones included.\<close>

datatype (plugins only: code size) DeclKind =
  Decl | AccessSpecDecl | BlockDecl | CapturedDecl | EmptyDecl | ExportDecl | ExternCContextDecl
| FileScopeAsmDecl | RequiresExprBodyDecl
| FriendDecl | FriendTemplateDecl | ImportDecl | LinkageSpecDecl | StaticAssertDecl
| TopLevelStmtDecl | TranslationUnitDecl
| NamedDecl | BaseUsingDecl | UsingDecl | UsingEnumDecl | LabelDecl | NamespaceAliasDecl
| NamespaceDecl | UsingDirectiveDecl | UsingPackDecl | UsingShadowDecl
| ConstructorUsingShadowDecl
| TemplateDecl | BuiltinTemplateDecl | ConceptDecl | RedeclarableTemplateDecl | ClassTemplateDecl
| FunctionTemplateDecl | TypeAliasTemplateDecl | VarTemplateDecl | TemplateTemplateParmDecl
| TypeDecl | TagDecl | EnumDecl | RecordDecl | CXXRecordDecl | ClassTemplateSpecializationDecl
| ClassTemplatePartialSpecializationDecl | TemplateTypeParmDecl | TypedefNameDecl
| TypeAliasDecl | TypedefDecl | UnresolvedUsingTypenameDecl
| ValueDecl | BindingDecl | DeclaratorDecl | FieldDecl | FunctionDecl | CXXDeductionGuideDecl
| CXXMethodDecl | CXXConstructorDecl | CXXConversionDecl | CXXDestructorDecl | MSPropertyDecl
| NonTypeTemplateParmDecl | VarDecl | DecompositionDecl | ImplicitParamDecl | ParmVarDecl
| VarTemplateSpecializationDecl | VarTemplatePartialSpecializationDecl | EnumConstantDecl
| IndirectFieldDecl | TemplateParamObjectDecl | UnresolvedUsingValueDecl

text \<open>The base class of each class.\<close>

primrec base_class :: "DeclKind \<Rightarrow> DeclKind option" where
  "base_class Decl = None"
| "base_class AccessSpecDecl = Some Decl"
| "base_class BlockDecl = Some Decl"
| "base_class CapturedDecl = Some Decl"
| "base_class EmptyDecl = Some Decl"
| "base_class ExportDecl = Some Decl"
| "base_class ExternCContextDecl = Some Decl"
| "base_class RequiresExprBodyDecl = Some Decl"
| "base_class FileScopeAsmDecl = Some Decl"
| "base_class FriendDecl = Some Decl"
| "base_class FriendTemplateDecl = Some Decl"
| "base_class ImportDecl = Some Decl"
| "base_class LinkageSpecDecl = Some Decl"
| "base_class StaticAssertDecl = Some Decl"
| "base_class TopLevelStmtDecl = Some Decl"
| "base_class TranslationUnitDecl = Some Decl"
| "base_class NamedDecl = Some Decl"
| "base_class BaseUsingDecl = Some NamedDecl"
| "base_class UsingDecl = Some BaseUsingDecl"
| "base_class UsingEnumDecl = Some BaseUsingDecl"
| "base_class LabelDecl = Some NamedDecl"
| "base_class NamespaceAliasDecl = Some NamedDecl"
| "base_class NamespaceDecl = Some NamedDecl"
| "base_class UsingDirectiveDecl = Some NamedDecl"
| "base_class UsingPackDecl = Some NamedDecl"
| "base_class UsingShadowDecl = Some NamedDecl"
| "base_class ConstructorUsingShadowDecl = Some UsingShadowDecl"
| "base_class TemplateDecl = Some NamedDecl"
| "base_class BuiltinTemplateDecl = Some TemplateDecl"
| "base_class ConceptDecl = Some TemplateDecl"
| "base_class RedeclarableTemplateDecl = Some TemplateDecl"
| "base_class ClassTemplateDecl = Some RedeclarableTemplateDecl"
| "base_class FunctionTemplateDecl = Some RedeclarableTemplateDecl"
| "base_class TypeAliasTemplateDecl = Some RedeclarableTemplateDecl"
| "base_class VarTemplateDecl = Some RedeclarableTemplateDecl"
| "base_class TemplateTemplateParmDecl = Some TemplateDecl"
| "base_class TypeDecl = Some NamedDecl"
| "base_class TagDecl = Some TypeDecl"
| "base_class EnumDecl = Some TagDecl"
| "base_class RecordDecl = Some TagDecl"
| "base_class CXXRecordDecl = Some RecordDecl"
| "base_class ClassTemplateSpecializationDecl = Some CXXRecordDecl"
| "base_class ClassTemplatePartialSpecializationDecl = Some ClassTemplateSpecializationDecl"
| "base_class TemplateTypeParmDecl = Some TypeDecl"
| "base_class TypedefNameDecl = Some TypeDecl"
| "base_class TypeAliasDecl = Some TypedefNameDecl"
| "base_class TypedefDecl = Some TypedefNameDecl"
| "base_class UnresolvedUsingTypenameDecl = Some TypeDecl"
| "base_class ValueDecl = Some NamedDecl"
| "base_class BindingDecl = Some ValueDecl"
| "base_class DeclaratorDecl = Some ValueDecl"
| "base_class FieldDecl = Some DeclaratorDecl"
| "base_class FunctionDecl = Some DeclaratorDecl"
| "base_class CXXDeductionGuideDecl = Some FunctionDecl"
| "base_class CXXMethodDecl = Some FunctionDecl"
| "base_class CXXConstructorDecl = Some CXXMethodDecl"
| "base_class CXXConversionDecl = Some CXXMethodDecl"
| "base_class CXXDestructorDecl = Some CXXMethodDecl"
| "base_class MSPropertyDecl = Some DeclaratorDecl"
| "base_class NonTypeTemplateParmDecl = Some DeclaratorDecl"
| "base_class VarDecl = Some DeclaratorDecl"
| "base_class DecompositionDecl = Some VarDecl"
| "base_class ImplicitParamDecl = Some VarDecl"
| "base_class ParmVarDecl = Some VarDecl"
| "base_class VarTemplateSpecializationDecl = Some VarDecl"
| "base_class VarTemplatePartialSpecializationDecl = Some VarTemplateSpecializationDecl"
| "base_class EnumConstantDecl = Some ValueDecl"
| "base_class IndirectFieldDecl = Some ValueDecl"
| "base_class TemplateParamObjectDecl = Some ValueDecl"
| "base_class UnresolvedUsingValueDecl = Some ValueDecl"

text \<open>A class with its bases, nearest first; the hierarchy is at most eight deep.\<close>

primrec up :: "nat \<Rightarrow> DeclKind \<Rightarrow> DeclKind list" where
  "up 0 k = [k]"
| "up (Suc n) k = k # (case base_class k of None \<Rightarrow> [] | Some b \<Rightarrow> up n b)"

definition ancestors :: "DeclKind \<Rightarrow> DeclKind list" where
  "ancestors k = up 8 k"

text \<open>\<open>isa<C>\<close>.\<close>

definition isa :: "DeclKind \<Rightarrow> DeclKind \<Rightarrow> bool" where
  "isa c k \<longleftrightarrow> c \<in> set (ancestors k)"

text \<open>
  The dispatch of the visitors of \<open>llvm-include/DeclVisitorWithArgs.h\<close>: the method of the class,
  or that of the nearest base class which has one; \<open>VisitDecl\<close> of the base visitor
  does nothing.
\<close>

fun nearest :: "(DeclKind \<times> 'm) list \<Rightarrow> 'm \<Rightarrow> DeclKind list \<Rightarrow> 'm" where
  "nearest methods base [] = base"
| "nearest methods base (k # ks) =
     (case map_of methods k of Some m \<Rightarrow> m | None \<Rightarrow> nearest methods base ks)"

definition dispatch :: "(DeclKind \<times> 'm) list \<Rightarrow> 'm \<Rightarrow> DeclKind \<Rightarrow> 'm" where
  "dispatch methods base k = nearest methods base (ancestors k)"

lemma nearest_cases:
  "nearest methods base ks = base \<or> (\<exists>k \<in> set ks. (k, nearest methods base ks) \<in> set methods)"
  by (induction ks) (auto split: option.splits dest!: map_of_SomeD)

lemma dispatch_cases:
  "dispatch methods base k = base \<or> (\<exists>c. isa c k \<and> (c, dispatch methods base k) \<in> set methods)"
  using nearest_cases [of methods base "ancestors k"] by (auto simp: dispatch_def isa_def)

end
