(* ===== verification/ClangNodes.thy ===== *)
theory ClangNodes
  imports OpaqueNames
begin

text \<open>
  The nodes of clang's AST other than declarations: types, names, template arguments,
  expressions and statements, each class with the answers of the accessors that the program calls on
  it.  A child is a \<open>ptr\<close> into the tables of \<open>ASTContext\<close>.
\<close>

section \<open>Types, names and template arguments\<close>

text \<open>
  A \<open>QualType\<close> is a type pointer with its local qualifiers; what
  \<open>isConstQualified\<close> and \<open>isVolatileQualified\<close> see beyond these are the qualifiers of the canonical type, a table of the
  context.
\<close>

record QualType =
  getTypePtrOrNull :: "ptr option"
  isLocalConstQualified :: bool
  isLocalVolatileQualified :: bool

datatype targ =
  TANull | TAType QualType | TADeclaration ptr QualType | TANullPtr QualType
| TAIntegral int QualType | TATemplate "ptr option" | TATemplateExpansion "ptr option"
| TAExpression ptr | TAPack "targ list" | TAStructuralValue

datatype nns =
  NNSGlobal | NNSNamespace "nns option" ptr | NNSNamespaceAlias "nns option" ptr
| NNSType "nns option" ptr | NNSIdentifier "nns option" string | NNSSuper "nns option"

datatype OverloadedOperatorKind =
  OO_New | OO_Array_New | OO_Delete | OO_Array_Delete | OO_Named string | OO_Unknown

datatype decl_name =
  DNIdentifier "string option" | DNConstructor | DNDestructor | DNOperator OverloadedOperatorKind
| DNConversion QualType | DNLiteralOperator "string option" | DNOther string

datatype CallingConv = CC_C | CC_X86RegCall | CC_Win64 | CC_other

datatype (plugins only: code size) BuiltinKind =
  BT_Bool | BT_Void | BT_NullPtr | BT_SChar | BT_UChar | BT_Char_S | BT_Char_U | BT_WChar_S
| BT_WChar_U | BT_Char16 | BT_Char32 | BT_Char8 | BT_Short | BT_UShort | BT_Int | BT_UInt
| BT_Long | BT_ULong | BT_LongLong | BT_ULongLong | BT_Int128 | BT_UInt128 | BT_Float
| BT_Double | BT_LongDouble | BT_Float16 | BT_Float128 | BT_Dependent
| BT_Sizeless string | BT_Other string

text \<open>
  The classes of types, with the answers of the accessors that the code uses on them.  For a
  class whose nodes can be sugar the first field is the desugared type, if there is one.
\<close>

datatype (plugins only: code size) type_node =
  AttributedType QualType
| DependentSizedArrayType QualType ptr
| DependentNameType "QualType option" "nns option" string
| UnaryTransformType bool string QualType QualType
| AutoType "QualType option"
| DeducedTemplateSpecializationType "QualType option"
| TemplateTypeParmType nat nat
| EnumType ptr
| RecordType ptr
| ParenType QualType
| BuiltinType BuiltinKind
| LValueReferenceType QualType
| RValueReferenceType QualType
| PointerType QualType
| TypedefType ptr
| FunctionProtoType CallingConv bool QualType "QualType list"
| FunctionNoProtoType CallingConv QualType
| ElaboratedType QualType
| ConstantArrayType QualType nat
| SubstTemplateTypeParmType QualType
| IncompleteArrayType QualType
| VariableArrayType QualType ptr
| DecayedType QualType QualType
| TemplateSpecializationType "QualType option" "QualType option" "ptr option" "targ list"
| DecltypeType "QualType option" ptr
| TypeOfExprType "QualType option" ptr
| InjectedClassNameType "ptr option"
| MemberPointerType ptr QualType
| MacroQualifiedType QualType
| UsingType bool QualType
| BlockPointerType
| PackExpansionType
| OtherType

text \<open>
  Statements and expressions, with the children and other data that the code reads.  Opcodes
  and kinds that the code does not name are the \<open>Other\<close> constructors, which carry the spelling
  that the code prints for them.
\<close>

datatype (plugins only: code size) BinaryOperatorKind =
  BO_Add | BO_And | BO_Cmp | BO_Div | BO_EQ | BO_GE | BO_GT | BO_LE | BO_LT | BO_Mul | BO_NE
| BO_Or | BO_Rem | BO_Shl | BO_Shr | BO_Sub | BO_Xor | BO_PtrMemD | BO_PtrMemI | BO_Comma
| BO_LAnd | BO_LOr | BO_Assign | BO_AddAssign | BO_AndAssign | BO_DivAssign | BO_MulAssign
| BO_OrAssign | BO_RemAssign | BO_ShlAssign | BO_ShrAssign | BO_SubAssign | BO_XorAssign
| BO_Other string

datatype (plugins only: code size) UnaryOperatorKind =
  UO_Plus | UO_Minus | UO_Not | UO_LNot | UO_PostDec | UO_PostInc | UO_PreDec | UO_PreInc
| UO_Extension | UO_AddrOf | UO_Deref | UO_Other string

datatype (plugins only: code size) CastKind =
  CK_BitCast | CK_LValueBitCast | CK_LValueToRValue | CK_LValueToRValueBitCast | CK_NoOp
| CK_ArrayToPointerDecay | CK_FunctionToPointerDecay | CK_IntegralToPointer
| CK_PointerToIntegral | CK_PointerToBoolean | CK_IntegralCast | CK_IntegralToBoolean
| CK_NullToPointer | CK_NullToMemberPointer | CK_BuiltinFnToFnPtr | CK_ConstructorConversion
| CK_UserDefinedConversion | CK_ToVoid | CK_Dynamic | CK_FloatingToIntegral
| CK_IntegralToFloating | CK_FloatingCast | CK_Dependent | CK_DerivedToBase
| CK_UncheckedDerivedToBase | CK_BaseToDerived | CK_Other string

datatype ExplicitCast =
  CStyleCastExpr | CXXNamedCastExpr string | CXXFunctionalCastExpr | BuiltinBitCastExpr
| OtherExplicitCastExpr

datatype UETT = UETT_AlignOf | UETT_PreferredAlignOf | UETT_SizeOf | UETT_Other nat

datatype ValueKind = LValue | XValue | PRValue | NoValueKind

datatype (plugins only: code size) expr_node =
  ArraySubscriptExpr ptr ptr
| ArrayInitLoopExpr ptr ptr ptr nat
| ArrayInitIndexExpr
| AtomicExpr "string option" "ptr list"
| BinaryConditionalOperator ptr ptr ptr ptr ptr
| BinaryOperator BinaryOperatorKind ptr ptr
| CallExpr ptr "ptr list"
| CharacterLiteral nat
| ConditionalOperator ptr ptr ptr
| ConstantExpr ptr
| ParenExpr ptr
| SubstNonTypeTemplateParmExpr ptr
| CXXBindTemporaryExpr ptr
| CXXBoolLiteralExpr bool
| CXXConstructExpr ptr "ptr list"
| CXXInheritedCtorInitExpr ptr
| CXXDefaultArgExpr ptr
| CXXDefaultInitExpr ptr
| CXXDeleteExpr bool "ptr option" ptr QualType
| CXXDependentScopeMemberExpr bool ptr QualType "nns option" decl_name "targ list"
| CXXMemberCallExpr ptr ptr ptr "ptr list"
| CXXNewExpr "ptr option" "ptr list" bool QualType bool "ptr option option" "ptr option"
| CXXNoexceptExpr bool
| CXXNullPtrLiteralExpr
| CXXOperatorCallExpr ptr OverloadedOperatorKind "ptr list"
| CXXPseudoDestructorExpr bool QualType ptr
| CXXRewrittenBinaryOperator ptr
| CXXScalarValueInitExpr
| CXXThisExpr
| CXXThrowExpr
| CXXTypeidExpr
| CXXUnresolvedConstructExpr
| SizeOfPackExpr
| ConceptSpecializationExpr "nns option" decl_name "targ list" bool bool
| DeclRefExpr "ptr option" bool
| DependentScopeDeclRefExpr "nns option" decl_name "targ list"
| UnresolvedLookupExpr "nns option" decl_name "targ list"
| UnresolvedMemberExpr
| ExplicitCastExpr ExplicitCast CastKind ptr QualType "QualType list"
| ImplicitCastExpr CastKind ptr "QualType list"
| ExprWithCleanups ptr
| FloatingLiteral string
| GNUNullExpr
| ImplicitValueInitExpr
| InitListExpr bool "ptr list" "ptr option" "ptr option"
| IntegerLiteral int nat
| LambdaExpr ptr "ptr list"
| MaterializeTemporaryExpr bool ptr
| MemberExpr ptr ptr bool bool
| OffsetOfExpr nat "ptr option option"
| OpaqueValueExpr
| ParenListExpr "ptr list"
| PredefinedExpr string
| RecoveryExpr
| SourceLocExpr string bool int "ptr option"
| StmtExpr ptr
| StringLiteral "nat list" nat
| TypeTraitExpr bool
| UnaryExprOrTypeTraitExpr UETT "QualType option" "ptr option"
| UnaryOperator UnaryOperatorKind ptr
| VAArgExpr ptr
| OtherExpr

record expr_info =
  expr_node :: expr_node
  expr_type :: QualType
  value_kind :: ValueKind
  Classify :: ValueKind
  containsErrors :: bool
  expr_describe :: string
  getStmtClassName :: string
  is_dependent :: bool

datatype (plugins only: code size) stmt_node =
  DeclStmt "ptr list"
| WhileStmt "ptr option" ptr ptr
| ForStmt "ptr option" "ptr option" "ptr option" ptr
| CXXForRangeStmt ptr ptr ptr "ptr option" "ptr option" "ptr option" ptr ptr
| DoStmt ptr ptr
| BreakStmt
| ContinueStmt
| IfStmt bool "ptr option" ptr ptr "ptr option"
| CaseStmt int "int option" ptr
| DefaultStmt "ptr option"
| SwitchStmt "ptr option" ptr ptr
| ReturnStmt "ptr option"
| CompoundStmt "ptr list"
| NullStmt
| GCCAsmStmt string bool "(string \<times> ptr) list" "(string \<times> ptr) list" "string list"
| AttributedStmt "string list" ptr
| LabelStmt string ptr
| GotoStmt string
| CXXTryStmt
| ExprStmt
| OtherStmt string

record type_info =
  type_node :: type_node
  type_describe :: string
  isDependentType :: bool
  canonical_const :: bool
  canonical_volatile :: bool
  isEnumeralType :: bool
  isBooleanType :: bool
  getPointeeType :: "QualType option"
  isSignedIntegerOrEnumerationType :: bool
  getAsCXXRecordDecl :: "ptr option"
  getAsArrayElementType :: "QualType option"
  getAsTagDecl :: "ptr option"
  getAsBuiltinType :: "(BuiltinKind \<times> nat) option"

end
