(* ===== verification/ClangAST.thy ===== *)
theory ClangAST
  imports DeclKinds ClangNodes
begin

text \<open>
  The AST context: the tables of declarations, types, expressions and statements that the program
  reads through the accessors of clang.  It is the parameter of every component that walks the AST.
\<close>

section \<open>Declarations\<close>

text \<open>
  A source location: whether it is valid, and what \<open>SourceManager::getPresumedLoc\<close> answers for
  it, that is nothing for an invalid presumed location, and otherwise whether the location
  of the \<open>#include\<close> of its file is valid.
\<close>

record source_loc =
  isValid :: bool
  getPresumedLoc :: "bool option"

record decl_info =
  getKind :: DeclKind
  getID :: int
  decls :: "ptr list"
  getDefinition :: "ptr option"
  getCanonicalDecl :: ptr
  getPreviousDecl :: "ptr option"
  getTemplatedDecl :: ptr
  specializations :: "ptr list"
  enumerators :: "ptr list"
  getFriendDecl :: "ptr option"
  getRawComment :: "ptr option"
  getCommentForDecl :: "ptr option"
  isImplicit :: bool
  isLambda :: bool
  isDependentContext :: bool
  isTemplated :: bool
  isDeleted :: bool
  isStaticLocal :: bool
  hasExternalStorage :: bool
  getAnonDeclWithTypedefName :: bool
  isDeclContext :: bool
  getBegin :: source_loc

text \<open>A declaration about which everything is false or null; witnesses update it.\<close>

definition decl0 :: "ptr \<Rightarrow> decl_info" where
  "decl0 d = \<lparr>getKind = Decl, getID = int d, decls = [], getDefinition = None, getCanonicalDecl = d,
     getPreviousDecl = None, getTemplatedDecl = d, specializations = [], enumerators = [],
     getFriendDecl = None, getRawComment = None, getCommentForDecl = None, isImplicit = False,
     isLambda = False, isDependentContext = False, isTemplated = False, isDeleted = False,
     isStaticLocal = False, hasExternalStorage = False, getAnonDeclWithTypedefName = False, isDeclContext = False,
     getBegin = \<lparr>isValid = False, getPresumedLoc = None\<rparr>\<rparr>"

text \<open>What is asked of classes and of functions besides.\<close>

record class_info =
  isCompleteDefinition :: bool
  needsImplicitDefaultConstructor :: bool
  needsImplicitCopyConstructor :: bool
  needsImplicitCopyAssignment :: bool
  needsImplicitMoveConstructor :: bool
  needsImplicitMoveAssignment :: bool
  needsImplicitDestructor :: bool
  hasUserDeclaredCopyAssignment :: bool
  hasUserDeclaredCopyConstructor :: bool

definition class0 :: class_info where
  "class0 = \<lparr>isCompleteDefinition = False, needsImplicitDefaultConstructor = False,
     needsImplicitCopyConstructor = False, needsImplicitCopyAssignment = False,
     needsImplicitMoveConstructor = False, needsImplicitMoveAssignment = False,
     needsImplicitDestructor = False, hasUserDeclaredCopyAssignment = False,
     hasUserDeclaredCopyConstructor = False\<rparr>"

record method_info =
  hasBody :: bool
  isDefaulted :: bool
  isMoveAssignmentOperator :: bool
  isCopyAssignmentOperator :: bool
  isDefaultConstructor :: bool
  isCopyConstructor :: bool
  isMoveConstructor :: bool

definition method0 :: method_info where
  "method0 = \<lparr>hasBody = False, isDefaulted = False, isMoveAssignmentOperator = False,
     isCopyAssignmentOperator = False, isDefaultConstructor = False, isCopyConstructor = False,
     isMoveConstructor = False\<rparr>"

text \<open>
  What is asked of declarations when they are printed: names, types, contexts, parameters.
\<close>

record named_info =
  getIdentifier :: "string option"
  getNameAsString :: string
  getType :: QualType
  getInit :: "ptr option"
  isInvalidDecl :: bool
  getDeclContext :: "ptr option"
  getLexicalParent :: "ptr option"
  isFunctionOrMethod :: bool
  parameters :: "ptr list"
  bindings :: "ptr list"
  getHoldingVar :: "ptr option"
  getBinding :: ptr
  getDepth :: nat
  getIndex :: nat
  getTemplateParameters :: "ptr list"
  getDescribedTemplateParams :: "ptr list option"
  getTemplateSpecializationArgs :: "targ list option"
  getUnderlyingType :: QualType
  getParent :: ptr
  isConst :: bool
  isVolatile :: bool
  getCallConv :: CallingConv
  getTypeForDecl :: "ptr option"
  getDestructor :: "ptr option"

definition type0 :: type_info where
  "type0 = \<lparr>type_node = BuiltinType BT_Int, type_describe = ''Builtin int'', isDependentType = False,
     canonical_const = False, canonical_volatile = False, isEnumeralType = False,
     isBooleanType = False, getPointeeType = None, isSignedIntegerOrEnumerationType = True,
     getAsCXXRecordDecl = None, getAsArrayElementType = None, getAsTagDecl = None, getAsBuiltinType = None\<rparr>"

text \<open>What the printers of names ask besides.\<close>

datatype RefQualifierKind = RQ_None | RQ_LValue | RQ_RValue

record naming_info =
  getDeclName :: decl_name
  isAnonymousNamespace :: bool
  isAnonymousStructOrUnion :: bool
  isParameterPack :: bool
  getNextDeclInContext :: "ptr option"
  getContextParent :: "ptr option"
  getLexicalContext :: "ptr option"
  getTypedefNameForAnonDecl :: "ptr option"
  record_fields :: "ptr list"
  getRefQualifier :: RefQualifierKind
  getDescribedTemplate :: "ptr option"
  getSpecializedTemplate :: "ptr option"
  getTemplateArgs :: "targ list option"
  nameForDiagnostic :: string
  isStaticMethod :: bool
  isCXXInstanceMember :: bool
  isVirtual :: bool
  isBuiltin :: bool
  isStaticDataMember :: bool
  isMutable :: bool
  isReservedGlobalPlacementOperator :: bool
  isDestroyingOperatorDelete :: bool
  getCaptureFields :: "(ptr \<times> ptr) list"
  getThisCapture :: "ptr option"

definition naming0 :: naming_info where
  "naming0 = \<lparr>getDeclName = DNIdentifier None, isAnonymousNamespace = False,
     isAnonymousStructOrUnion = False, isParameterPack = False, getNextDeclInContext = None,
     getContextParent = None, getLexicalContext = None, getTypedefNameForAnonDecl = None, record_fields = [],
     getRefQualifier = RQ_None, getDescribedTemplate = None, getSpecializedTemplate = None,
     getTemplateArgs = None, nameForDiagnostic = [], isStaticMethod = False,
     isCXXInstanceMember = False, isVirtual = False, isBuiltin = False, isStaticDataMember = False,
     isMutable = False, isReservedGlobalPlacementOperator = False,
     isDestroyingOperatorDelete = False, getCaptureFields = [], getThisCapture = None\<rparr>"

text \<open>
  What the printer of declarations asks besides: the layout of classes, the parts of functions,
  the initializers of constructors, the patterns of instantiations, the values of enumerators.
\<close>

datatype TagKind = TK_Struct | TK_Class | TK_Union | TK_Interface | TK_Enum

datatype InitKind = MemberInitializer | BaseInitializer | IndirectMemberInitializer
| DelegatingInitializer | OtherInitializer

record ctor_init =
  init_kind :: InitKind
  getMember :: "ptr option"
  getIndirectMember :: "ptr option"
  getBaseClass :: "ptr option"
  init_expr :: "ptr option"

text \<open>A base class: whether it is virtual, its type, and its offset in the layout.\<close>

record base_spec =
  isVirtualBase :: bool
  base_type :: QualType
  getBaseClassOffset :: int

record body_info =
  getTagKind :: TagKind
  bases :: "base_spec list"
  methods :: "ptr list"
  getFieldOffset :: "nat \<Rightarrow> nat"
  getSize :: int
  getAlignment :: int
  isPOD :: bool
  isStandardLayout :: bool
  hasTrivialDestructor :: bool
  isBitField :: bool
  getInClassInitializer :: "ptr option"
  isPureVirtual :: bool
  overridden_methods :: "ptr list"
  getOperatorDelete :: "ptr option"
  getBody :: "ptr option"
  getReturnType :: QualType
  isVariadic :: bool
  builtin_function :: string
  inits :: "ctor_init option list"
  indirect_chain :: "ptr list"
  getThisPointee :: "QualType option"
  patterns :: "ptr option list"
  implicitInstantiation :: bool
  getIntegerType :: QualType
  getInitVal :: int
  getInitExpr :: "ptr option"
  getAssertExpr :: "ptr option"
  assertMessage :: "string option"

definition qual0 :: "ptr \<Rightarrow> QualType" where
  "qual0 t = \<lparr>getTypePtrOrNull = Some t, isLocalConstQualified = False, isLocalVolatileQualified = False\<rparr>"

definition expr0 :: expr_info where
  "expr0 = \<lparr>expr_node = OtherExpr, expr_type = qual0 0, value_kind = PRValue, Classify = PRValue,
     containsErrors = False, expr_describe = ''Expr'', getStmtClassName = ''Expr'', is_dependent = False\<rparr>"

definition named0 :: named_info where
  "named0 = \<lparr>getIdentifier = None, getNameAsString = [], getType = qual0 0, getInit = None,
     isInvalidDecl = False, getDeclContext = None, getLexicalParent = None, isFunctionOrMethod = False,
     parameters = [], bindings = [], getHoldingVar = None, getBinding = 0, getDepth = 0, getIndex = 0,
     getTemplateParameters = [], getDescribedTemplateParams = None,
     getTemplateSpecializationArgs = None, getUnderlyingType = qual0 0, getParent = 0, isConst = False,
     isVolatile = False, getCallConv = CC_C, getTypeForDecl = None, getDestructor = None\<rparr>"

definition body0 :: body_info where
  "body0 = \<lparr>getTagKind = TK_Struct, bases = [], methods = [], getFieldOffset = (\<lambda>_. 0), getSize = 0,
     getAlignment = 0, isPOD = True, isStandardLayout = True, hasTrivialDestructor = True,
     isBitField = False, getInClassInitializer = None, isPureVirtual = False,
     overridden_methods = [], getOperatorDelete = None, getBody = None, getReturnType = qual0 0,
     isVariadic = False, builtin_function = [], inits = [], indirect_chain = [], getThisPointee = None,
     patterns = [], implicitInstantiation = False, getIntegerType = qual0 0, getInitVal = 0,
     getInitExpr = None, getAssertExpr = None, assertMessage = None\<rparr>"

record ASTContext =
  decl :: "ptr \<Rightarrow> decl_info"
  class_of :: "ptr \<Rightarrow> class_info"
  method_of :: "ptr \<Rightarrow> method_info"
  getRawText :: "ptr \<Rightarrow> string"
  type_of :: "ptr \<Rightarrow> type_info"
  named_of :: "ptr \<Rightarrow> named_info"
  naming_of :: "ptr \<Rightarrow> naming_info"
  body_of :: "ptr \<Rightarrow> body_info"
  expr_of :: "ptr \<Rightarrow> expr_info"
  stmt_of :: "ptr \<Rightarrow> stmt_node"
  nnsKindNumber :: "nns \<Rightarrow> nat"
  nameKindNumber :: "decl_name \<Rightarrow> nat"
  getDeclKindName :: "ptr \<Rightarrow> string"
  ThreadsafeStatics :: bool
  argKindNumber :: "targ \<Rightarrow> nat"
  QualType_print :: "QualType \<Rightarrow> string"
  QualType_getAsString :: "QualType \<Rightarrow> string"
  getCallee :: "ptr \<Rightarrow> ptr"
  for_condition_variable :: "ptr \<Rightarrow> ptr option"
  isBigEndian :: bool
  isLittleEndian :: bool

definition ast0 :: ASTContext where
  "ast0 = \<lparr>decl = decl0, class_of = (\<lambda>_. class0), method_of = (\<lambda>_. method0), getRawText = (\<lambda>_. []),
     type_of = (\<lambda>_. type0), named_of = (\<lambda>_. named0), naming_of = (\<lambda>_. naming0),
     body_of = (\<lambda>_. body0), expr_of = (\<lambda>_. expr0), stmt_of = (\<lambda>_. NullStmt), nnsKindNumber = (\<lambda>_. 0),
     nameKindNumber = (\<lambda>_. 0), getDeclKindName = (\<lambda>_. []), ThreadsafeStatics = True, argKindNumber = (\<lambda>_. 0),
     QualType_print = (\<lambda>_. type_describe type0), QualType_getAsString = (\<lambda>_. ''int''),
     getCallee = (\<lambda>_. 0), for_condition_variable = (\<lambda>_. None),
     isBigEndian = False, isLittleEndian = True\<rparr>"

text \<open>\<open>isConstQualified\<close>, \<open>isVolatileQualified\<close> and \<open>getName\<close> of the identifier.\<close>

definition isConstQualified :: "ASTContext \<Rightarrow> QualType \<Rightarrow> bool" where
  "isConstQualified ctx qt \<longleftrightarrow> isLocalConstQualified qt
     \<or> (case getTypePtrOrNull qt of None \<Rightarrow> False | Some t \<Rightarrow> canonical_const (type_of ctx t))"

definition isVolatileQualified :: "ASTContext \<Rightarrow> QualType \<Rightarrow> bool" where
  "isVolatileQualified ctx qt \<longleftrightarrow> isLocalVolatileQualified qt
     \<or> (case getTypePtrOrNull qt of None \<Rightarrow> False | Some t \<Rightarrow> canonical_volatile (type_of ctx t))"

definition getName :: "ASTContext \<Rightarrow> ptr \<Rightarrow> string" where
  "getName ctx d = (case getIdentifier (named_of ctx d) of None \<Rightarrow> [] | Some n \<Rightarrow> n)"

abbreviation isaD :: "ASTContext \<Rightarrow> DeclKind \<Rightarrow> ptr \<Rightarrow> bool" where
  "isaD ctx c d \<equiv> isa c (getKind (decl ctx d))"

end
