(* ===== verification/ClangPrinter.thy ===== *)
theory ClangPrinter
  imports PrinterContract CoqText ClangAST
begin

text \<open>
  Model of \<open>include/ClangPrinter.hpp\<close> and \<open>src/ClangPrinter.cpp\<close>: the object that the printers of types,
  names, expressions, statements and declarations share.  Its members that other printers call
  form the table of methods \<open>rec_...\<close> of the record \<open>ClangPrinter\<close>, for one fixed \<open>CoqPrinter\<close>; the table is
  filled, with fuel, when all printers are defined.  The member \<open>decl_\<close> is the field \<open>declctx\<close> of the
  printing state: a copy of the object with another context is an action run with another value.
  \<open>loop_fuel\<close> bounds the loops along chains of clang objects, and \<open>big_endian\<close> is the byte order of the host.  Locations
  only serve diagnostics on the error stream and are left out.
\<close>

record ClangPrinter =
  getContext :: ASTContext
  comment :: bool
  typedefs :: bool
  loop_fuel :: nat
  big_endian :: bool
  rec_printType :: "ptr \<Rightarrow> printer"
  rec_printExpr :: "ptr \<Rightarrow> printer"
  rec_printStmt :: "ptr \<Rightarrow> printer"
  rec_printLocalDecl :: "ptr \<Rightarrow> bprinter"
  rec_printName :: "ptr \<Rightarrow> printer"
  rec_printUnresolvedName :: "nns option \<Rightarrow> decl_name \<Rightarrow> targ list \<Rightarrow> printer"
  rec_printTemplateArgumentList :: "targ list \<Rightarrow> printer"
  rec_printValueDeclExpr :: "ptr \<Rightarrow> printer"

section \<open>Actions on the printing state\<close>

definition asking :: "(pstate \<Rightarrow> 'a) \<Rightarrow> ('a \<Rightarrow> printer) \<Rightarrow> printer" where
  "asking g f s = f (g s) s"

definition withDeclContext :: "ptr option \<Rightarrow> printer \<Rightarrow> printer" where
  "withDeclContext d p s =
     (case p (s\<lparr>declctx := d\<rparr>) of Inl x \<Rightarrow> Inl x | Inr s' \<Rightarrow> Inr (s'\<lparr>declctx := declctx s\<rparr>))"

definition withDecl :: "ASTContext \<Rightarrow> ptr \<Rightarrow> printer \<Rightarrow> printer" where
  "withDecl ctx d =
     withDeclContext (if isDeclContext (decl ctx d) then Some d else getDeclContext (named_of ctx d))"

text \<open>A local \<open>OpaqueNames names;\<close> that is passed to what follows.\<close>

definition with_fresh_names :: "printer \<Rightarrow> printer" where
  "with_fresh_names p s =
     (case p (s\<lparr>names := OpaqueNames_init\<rparr>) of Inl x \<Rightarrow> Inl x | Inr s' \<Rightarrow> Inr (s'\<lparr>names := names s\<rparr>))"

definition on_names :: "(OpaqueNames \<Rightarrow> OpaqueNames) \<Rightarrow> printer" where
  "on_names f s = Inr (s\<lparr>names := f (names s)\<rparr>)"

definition names_fresh :: "ptr \<Rightarrow> (int \<Rightarrow> printer) \<Rightarrow> printer" where
  "names_fresh e f s = (let (i, ns) = fresh e (names s) in f i (s\<lparr>names := ns\<rparr>))"

definition names_push_anon :: "ptr \<Rightarrow> (int \<Rightarrow> printer) \<Rightarrow> printer" where
  "names_push_anon d f s = (let (i, ns) = push_anon d (names s) in f i (s\<lparr>names := ns\<rparr>))"

definition names_pop_anon :: "ptr \<Rightarrow> printer" where
  "names_pop_anon d s = (case pop_anon d (names s) of Inl x \<Rightarrow> Inl x | Inr ns \<Rightarrow> Inr (s\<lparr>names := ns\<rparr>))"

text \<open>\<open>always_assert(depth == print.output().get_depth())\<close> around a visit.\<close>

definition depth_checked :: "stop \<Rightarrow> printer \<Rightarrow> printer" where
  "depth_checked err p s =
     (case p s of
        Inl x \<Rightarrow> Inl x
      | Inr s' \<Rightarrow> if depth (fmt s) = depth (fmt s') then Inr s' else Inl err)"

abbreviation die :: "string \<Rightarrow> printer" where
  "die msg \<equiv> stopA (Die msg)"

section \<open>Types with qualifiers\<close>

text \<open>The members of \<open>PrintType.cpp\<close> that only wrap the visitor of types.\<close>

definition printType_opt :: "ClangPrinter \<Rightarrow> ptr option \<Rightarrow> printer" where
  "printType_opt cprint t =
     (case t of Some p \<Rightarrow> rec_printType cprint p | None \<Rightarrow> die ''unexpected null type in printType'')"

definition printQualType :: "ClangPrinter \<Rightarrow> QualType \<Rightarrow> printer" where
  "printQualType cprint qt =
     (case getTypePtrOrNull qt of
        Some p \<Rightarrow>
          if isLocalConstQualified qt then
            seqP [if isVolatileQualified (getContext cprint) qt then ctor ''Qconst_volatile'' False
                  else ctor ''Qconst'' False,
                  rec_printType cprint p,
                  end_ctor]
          else if isLocalVolatileQualified qt then
            seqP [ctor ''Qvolatile'' False, rec_printType cprint p, end_ctor]
          else rec_printType cprint p
      | None \<Rightarrow> die ''unexpected null type in printQualType'')"

definition printQualTypeOption :: "ClangPrinter \<Rightarrow> QualType \<Rightarrow> printer" where
  "printQualTypeOption cprint qt =
     (let t = getTypePtrOrNull qt in
      if t = None \<or> isDependentType (type_of (getContext cprint) (the t)) then none
      else seqP [some, printQualType cprint qt, end_ctor])"

definition printQualifier :: "bool \<Rightarrow> bool \<Rightarrow> printer" where
  "printQualifier is_const is_volatile =
     (if is_const then (if is_volatile then put ''QCV'' else put ''QC'')
      else (if is_volatile then put ''QV'' else put ''QM''))"

definition printQualifier_of :: "ClangPrinter \<Rightarrow> QualType \<Rightarrow> printer" where
  "printQualifier_of cprint qt =
     printQualifier (isConstQualified (getContext cprint) qt) (isVolatileQualified (getContext cprint) qt)"

section \<open>Members of \<open>ClangPrinter.cpp\<close>\<close>

text \<open>
  \<open>printParamName\<close>: a parameter is named by its identifier; a parameter whose predecessor has the
  same identifier, as those of an expanded pack, also gets its offset in that run.
\<close>

fun param_loop :: "ASTContext \<Rightarrow> ptr \<Rightarrow> ptr list \<Rightarrow> nat \<Rightarrow> string option \<Rightarrow> nat \<Rightarrow> printer" where
  "param_loop ctx d [] i info offset = die ''error: cannot find parameter''"
| "param_loop ctx d (p # ps) i info offset =
     (let offset' = (if getIdentifier (named_of ctx p) = info then offset + 1 else 0) in
      if p = d then
        (case getIdentifier (named_of ctx d) of
           Some n \<Rightarrow>
             puts ([[DQ], n] @ (if offset' \<noteq> 0 then [''...'', decimal offset'] else []) @ [[DQ]])
         | None \<Rightarrow> puts [''(localname.anon '', decimal i, '')''])
      else param_loop ctx d ps (i + 1) (getIdentifier (named_of ctx p)) offset')"

definition printParamName :: "ClangPrinter \<Rightarrow> ptr \<Rightarrow> printer" where
  "printParamName cprint d =
     (let ctx = getContext cprint in
      case getDeclContext (named_of ctx d) of
        None \<Rightarrow> stopA (AssertionFailed ''function or method'')
      | Some fd \<Rightarrow>
          seqP [assertA ''function or method'' (isFunctionOrMethod (named_of ctx fd)),
                if isaD ctx FunctionDecl fd
                then param_loop ctx d (parameters (named_of ctx fd)) 0 None 0
                else die ''error: cannot find parameter''])"

definition printValCat :: "CoqPrinter \<Rightarrow> ClangPrinter \<Rightarrow> ptr \<Rightarrow> printer" where
  "printValCat print cprint e =
     (let E = expr_of (getContext cprint) e in
      if templates print then
        (case value_kind E of
           LValue \<Rightarrow> put ''Lvalue'' | PRValue \<Rightarrow> put ''Prvalue'' | XValue \<Rightarrow> put ''Xvalue''
         | NoValueKind \<Rightarrow> die ''error: cannot determine value category'')
      else
        (case Classify E of
           LValue \<Rightarrow> put ''Lvalue'' | XValue \<Rightarrow> put ''Xvalue'' | PRValue \<Rightarrow> put ''Prvalue''
         | NoValueKind \<Rightarrow> stopA (AssertionFailed ''false'')))"

definition getLambdaClass :: "ASTContext \<Rightarrow> ptr option \<Rightarrow> (ptr \<times> bool \<times> bool) option" where
  "getLambdaClass ctx dctx =
     (case dctx of
        None \<Rightarrow> None
      | Some md \<Rightarrow>
          if isaD ctx CXXMethodDecl md then
            (let lambda = getParent (named_of ctx md) in
             if isLambda (decl ctx lambda)
             then Some (lambda, isConst (named_of ctx md), isVolatile (named_of ctx md)) else None)
          else None)"

definition is_type_param :: "ASTContext \<Rightarrow> nat \<Rightarrow> nat \<Rightarrow> ptr \<Rightarrow> bool" where
  "is_type_param ctx dep idx i \<longleftrightarrow>
     isaD ctx TemplateTypeParmDecl i \<and> getDepth (named_of ctx i) = dep \<and> getIndex (named_of ctx i) = idx"

definition lookup_failed :: "nat \<Rightarrow> nat \<Rightarrow> printer" where
  "lookup_failed dep idx =
     die (''error: could not infer template parameter name at depth '' @ decimal dep
          @ '', index '' @ decimal idx)"

definition Tparam :: "ASTContext \<Rightarrow> ptr \<Rightarrow> printer" where
  "Tparam ctx tpd = guard_ctor ''Tparam'' False [str (getName ctx tpd)]"

fun type_param_loop ::
  "nat \<Rightarrow> CoqPrinter \<Rightarrow> ClangPrinter \<Rightarrow> nat \<Rightarrow> nat \<Rightarrow> ptr option \<Rightarrow> printer" where
  "type_param_loop n print cprint dep idx None = lookup_failed dep idx"
| "type_param_loop 0 print cprint dep idx (Some d) = stopA OutOfFuel"
| "type_param_loop (Suc n) print cprint dep idx (Some d) =
     (let ctx = getContext cprint; N = named_of ctx d;
          up = type_param_loop n print cprint dep idx (getLexicalParent N);
          described = (case getDescribedTemplateParams N of
              None \<Rightarrow> up
            | Some x \<Rightarrow>
                (case find (is_type_param ctx dep idx) x of
                   Some tpd \<Rightarrow> seqP [assertA ''print.templates()'' (templates print), Tparam ctx tpd]
                 | None \<Rightarrow> up)) in
      if isaD ctx ClassTemplatePartialSpecializationDecl d then
        (case find (is_type_param ctx dep idx) (getTemplateParameters N) of
           Some tpd \<Rightarrow> Tparam ctx tpd
         | None \<Rightarrow> up)
      else if isaD ctx FunctionDecl d then
        (case getTemplateSpecializationArgs N of
           Some ary \<Rightarrow>
             if length ary \<le> idx then stopA (AssertionFailed ''false'')
             else (case ary ! idx of
                     TAType q \<Rightarrow> printQualType cprint q
                   | _ \<Rightarrow> stopA (AssertionFailed ''template argument is a type''))
         | None \<Rightarrow> described)
      else if isaD ctx CXXRecordDecl d then described
      else up)"

definition printTypeTemplateParam :: "CoqPrinter \<Rightarrow> ClangPrinter \<Rightarrow> nat \<Rightarrow> nat \<Rightarrow> printer" where
  "printTypeTemplateParam print cprint dep idx =
     asking declctx (type_param_loop (loop_fuel cprint) print cprint dep idx)"

text \<open>In this loop a parameter of another depth ends the search in its list.\<close>

fun find_nontype :: "ASTContext \<Rightarrow> nat \<Rightarrow> nat \<Rightarrow> ptr list \<Rightarrow> ptr option" where
  "find_nontype ctx dep idx [] = None"
| "find_nontype ctx dep idx (i # is) =
     (if isaD ctx NonTypeTemplateParmDecl i then
        (if getDepth (named_of ctx i) \<noteq> dep then None
         else if getIndex (named_of ctx i) = idx then Some i
         else find_nontype ctx dep idx is)
      else find_nontype ctx dep idx is)"

definition Eparam :: "ASTContext \<Rightarrow> ptr \<Rightarrow> printer" where
  "Eparam ctx tpd = guard_ctor ''Eparam'' False [str (getName ctx tpd)]"

fun nontype_param_loop ::
  "nat \<Rightarrow> CoqPrinter \<Rightarrow> ClangPrinter \<Rightarrow> nat \<Rightarrow> nat \<Rightarrow> ptr option \<Rightarrow> printer" where
  "nontype_param_loop n print cprint dep idx None = lookup_failed dep idx"
| "nontype_param_loop 0 print cprint dep idx (Some d) = stopA OutOfFuel"
| "nontype_param_loop (Suc n) print cprint dep idx (Some d) =
     (let ctx = getContext cprint; N = named_of ctx d;
          up = nontype_param_loop n print cprint dep idx (getLexicalParent N);
          described = (case getDescribedTemplateParams N of
              None \<Rightarrow> up
            | Some x \<Rightarrow>
                (case find_nontype ctx dep idx x of
                   Some tpd \<Rightarrow> seqP [assertA ''print.templates()'' (templates print), Eparam ctx tpd]
                 | None \<Rightarrow> up)) in
      if isaD ctx ClassTemplatePartialSpecializationDecl d then
        (case find_nontype ctx dep idx (getTemplateParameters N) of
           Some tpd \<Rightarrow> Eparam ctx tpd
         | None \<Rightarrow> up)
      else if isaD ctx FunctionDecl d then
        (case getTemplateSpecializationArgs N of
           Some ary \<Rightarrow>
             seqP [assertA ''index < ary.size()'' (idx < length ary),
               (case ary ! idx of
                  TAIntegral v t \<Rightarrow> guard_ctor ''Eint'' True [putZ v, nbsp, printQualType cprint t]
                | TAExpression e \<Rightarrow> with_fresh_names (rec_printExpr cprint e)
                | v \<Rightarrow> guard_ctor ''Eunsupported'' True
                        [puts [[DQ], ''NonTypeTemplateParam '', decimal (argKindNumber ctx v), [DQ]]])]
         | None \<Rightarrow> described)
      else if isaD ctx CXXRecordDecl d then described
      else up)"

definition printNonTypeTemplateParam :: "CoqPrinter \<Rightarrow> ClangPrinter \<Rightarrow> nat \<Rightarrow> nat \<Rightarrow> printer" where
  "printNonTypeTemplateParam print cprint dep idx =
     asking declctx (nontype_param_loop (loop_fuel cprint) print cprint dep idx)"

definition printField :: "ClangPrinter \<Rightarrow> ptr \<Rightarrow> printer" where
  "printField cprint d = rec_printName cprint d"

definition printVariadic :: "bool \<Rightarrow> printer" where
  "printVariadic va = put (if va then ''Ar_Variadic'' else ''Ar_Definite'')"

definition printCallingConv :: "CallingConv \<Rightarrow> printer" where
  "printCallingConv cc =
     (case cc of
        CC_C \<Rightarrow> put ''CC_C''
      | CC_X86RegCall \<Rightarrow> put ''CC_RegCall''
      | CC_Win64 \<Rightarrow> put ''CC_MsAbi''
      | CC_other \<Rightarrow> die ''error: unsupported calling convention'')"

end
