(* ===== verification/PrinterSafety.thy ===== *)
theory PrinterSafety
  imports ClangPrinter
begin

text \<open>
  The contract of all printers that share a \<open>ClangPrinter\<close>: if the methods of the table keep
  parentheses, string quotes and indentation balanced, so does every printer built from them.
  It holds for the contexts that \<open>printable\<close> describes: names that are written without escaping have no double
  quote, spellings that clang gives are plain, and the two kinds of expressions that the printer
  mishandles do not occur.
\<close>

definition quote_free :: "string \<Rightarrow> bool" where
  "quote_free t \<longleftrightarrow> DQ \<notin> set t"

fun printable_operator :: "OverloadedOperatorKind \<Rightarrow> bool" where
  "printable_operator (OO_Named n) = plain n"
| "printable_operator k = True"

fun printable_declname :: "decl_name \<Rightarrow> bool" where
  "printable_declname (DNOperator k) = printable_operator k"
| "printable_declname n = True"

fun printable_type :: "type_node \<Rightarrow> bool" where
  "printable_type (BuiltinType (BT_Sizeless n)) = quote_free n"
| "printable_type t = True"

text \<open>The mishandled kinds: an atomic builtin that is not in clang's list, and other unary type traits.\<close>

definition printable_expr :: "expr_node \<Rightarrow> bool" where
  "printable_expr e =
     (case e of
        BinaryOperator (BO_Other t) l r \<Rightarrow> quote_free t
      | UnaryOperator (UO_Other t) x \<Rightarrow> quote_free t
      | FloatingLiteral t \<Rightarrow> quote_free t
      | ExplicitCastExpr (CXXNamedCastExpr t) k x q path \<Rightarrow> plain t
      | AtomicExpr opcode es \<Rightarrow> (case opcode of None \<Rightarrow> False | Some t \<Rightarrow> plain t)
      | UnaryExprOrTypeTraitExpr (UETT_Other n) a b \<Rightarrow> False
      | CXXOperatorCallExpr c k es \<Rightarrow> printable_operator k
      | _ \<Rightarrow> True)"

definition printable :: "ASTContext \<Rightarrow> bool" where
  "printable ctx \<longleftrightarrow>
     (\<forall>d n. getIdentifier (named_of ctx d) = Some n \<longrightarrow> quote_free n)
     \<and> (\<forall>d. printable_declname (getDeclName (naming_of ctx d)))
     \<and> (\<forall>t. printable_type (type_node (type_of ctx t)))
     \<and> (\<forall>e. printable_expr (expr_node (expr_of ctx e)))"

definition methods_safe :: "ClangPrinter \<Rightarrow> bool" where
  "methods_safe cprint \<longleftrightarrow>
     (\<forall>t. safe (rec_printType cprint t)) \<and> (\<forall>e. safe (rec_printExpr cprint e))
     \<and> (\<forall>s. safe (rec_printStmt cprint s)) \<and> (\<forall>d. safe (rec_printName cprint d))
     \<and> (\<forall>d i k. steps_query i k (rec_printLocalDecl cprint d))
     \<and> (\<forall>nn n args. safe (rec_printUnresolvedName cprint nn n args))
     \<and> (\<forall>args. safe (rec_printTemplateArgumentList cprint args))
     \<and> (\<forall>d. safe (rec_printValueDeclExpr cprint d))"

section \<open>Rules for the actions of \<open>ClangPrinter\<close>\<close>

lemma steps_asking [printer_intros]: "(\<And>a. steps i d j e (f a)) \<Longrightarrow> steps i d j e (asking g f)"
  by (auto simp: steps_def asking_def)

text \<open>Running an action with another value of a component that the contract does not look at.\<close>

lemma steps_local:
  assumes p: "\<And>x. steps i d j e (p x)"
    and run: "\<And>s. q s = (case p (a s) (f s) of Inl x \<Rightarrow> Inl x | Inr s' \<Rightarrow> Inr (g s s'))"
    and f: "\<And>s. fmt (f s) = fmt s" and g: "\<And>s s'. fmt (g s s') = fmt s'"
    and dc: "\<And>s s'. declctx s' = declctx (f s) \<Longrightarrow> declctx (g s s') = declctx s"
  shows "steps i d j e q"
proof (rule stepsI)
  fix s :: pstate and n k
  assume "depth (fmt s) = k + 2 * d"
  then have dep: "depth (fmt (f s)) = k + 2 * d" by (simp add: f)
  show "case q s of
        Inl x \<Rightarrow> \<not> indent_error x
      | Inr s' \<Rightarrow> depth (fmt s') = k + 2 * e \<and> declctx s' = declctx s
          \<and> (\<exists>t. out (fmt s') = out (fmt s) @ t \<and> lex (Code (n + i)) t = Code (n + j))"
  proof (cases "p (a s) (f s)")
    case (Inl x)
    with stepsD_Inl [OF p Inl dep] show ?thesis by (simp add: run)
  next
    case (Inr s')
    with stepsD [OF p Inr dep, of n] dc show ?thesis by (simp add: run f g)
  qed
qed

lemma steps_withDeclContext [printer_intros]:
  "steps i d j e p \<Longrightarrow> steps i d j e (withDeclContext c p)"
  by (rule steps_local [where p = "\<lambda>_::unit. p" and f = "\<lambda>s. s\<lparr>declctx := c\<rparr>" and g = "\<lambda>s s'. s'\<lparr>declctx := declctx s\<rparr>"])
    (simp_all add: withDeclContext_def)

lemma steps_withDecl [printer_intros]: "steps i d j e p \<Longrightarrow> steps i d j e (withDecl ctx c p)"
  unfolding withDecl_def by (rule steps_withDeclContext)

lemma steps_with_fresh_names [printer_intros]:
  "steps i d j e p \<Longrightarrow> steps i d j e (with_fresh_names p)"
  by (rule steps_local [where p = "\<lambda>_::unit. p" and f = "\<lambda>s. s\<lparr>names := OpaqueNames_init\<rparr>" and g = "\<lambda>s s'. s'\<lparr>names := names s\<rparr>"])
    (simp_all add: with_fresh_names_def)

lemma steps_on_names [printer_intros]: "steps i d i d (on_names f)"
  by (rule stepsI) (simp add: on_names_def)

lemma steps_names_fresh [printer_intros]:
  "(\<And>x. steps i d j e (f x)) \<Longrightarrow> steps i d j e (names_fresh v f)"
  by (rule steps_local [where p = f and a = "\<lambda>s. fst (fresh v (names s))"
        and f = "\<lambda>s. s\<lparr>names := snd (fresh v (names s))\<rparr>" and g = "\<lambda>s s'. s'"])
    (simp_all add: names_fresh_def split: prod.split sum.split)

lemma steps_names_push_anon [printer_intros]:
  "(\<And>x. steps i d j e (f x)) \<Longrightarrow> steps i d j e (names_push_anon v f)"
  by (rule steps_local [where p = f and a = "\<lambda>s. fst (push_anon v (names s))"
        and f = "\<lambda>s. s\<lparr>names := snd (push_anon v (names s))\<rparr>" and g = "\<lambda>s s'. s'"])
    (simp_all add: names_push_anon_def split: prod.split sum.split)

lemma steps_names_pop_anon [printer_intros]: "steps i d i d (names_pop_anon v)"
  by (rule stepsI)
    (auto simp: names_pop_anon_def pop_anon_def indent_error_def depth_assertion_def
      expr_depth_assertion_def run_defs split: sum.splits)

lemma steps_depth_checked [printer_intros]:
  assumes "steps i d i d p"
  shows "steps i d i d (depth_checked err p)"
proof (rule stepsI)
  fix s :: pstate and n k
  assume dep: "depth (fmt s) = k + 2 * d"
  show "case depth_checked err p s of
        Inl x \<Rightarrow> \<not> indent_error x
      | Inr s' \<Rightarrow> depth (fmt s') = k + 2 * d \<and> declctx s' = declctx s
          \<and> (\<exists>t. out (fmt s') = out (fmt s) @ t \<and> lex (Code (n + i)) t = Code (n + i))"
  proof (cases "p s")
    case (Inl x)
    with stepsD_Inl [OF assms Inl dep] show ?thesis by (simp add: depth_checked_def)
  next
    case (Inr s')
    with stepsD [OF assms Inr dep, of n] dep show ?thesis by (simp add: depth_checked_def)
  qed
qed

lemma steps_die [printer_intros]: "steps i d j e (die msg)"
  by (rule steps_stop) (simp add: indent_error_def)

lemma steps_fuel [printer_intros]: "steps i d j e (stopA OutOfFuel)"
  by (rule steps_stop) (simp add: indent_error_def)

lemma steps_assertion [printer_intros]:
  "msg \<noteq> ''this->depth >= 2'' \<Longrightarrow> msg \<noteq> depth_assertion \<Longrightarrow> msg \<noteq> expr_depth_assertion \<Longrightarrow>
   steps i d j e (stopA (AssertionFailed msg))"
  by (rule steps_stop) (simp add: indent_error_def)

lemma indent_error_simps [simp]:
  "\<not> indent_error (Die m)" "\<not> indent_error OutOfFuel"
  "indent_error (AssertionFailed m) \<longleftrightarrow>
     m = ''this->depth >= 2'' \<or> m = depth_assertion \<or> m = expr_depth_assertion"
  by (auto simp: indent_error_def)

lemma steps_anon_name [printer_intros]:
  "steps i d i d (puts [''(localname.anon '', decimal n, '')''])"
  "steps i d i d (puts [''(localname.anon '', decimal_int v, '')''])"
  by (rule steps_puts, simp add: balanced_def lex_plain)+

lemma balanced_puts_quoted [simp]: "quote_free t \<Longrightarrow> balanced (DQ # t @ [DQ])"
  by (simp add: quote_free_def balanced_quoted)

lemmas assertion_texts [simp] = depth_assertion_def expr_depth_assertion_def

section \<open>The interface\<close>

locale safe_printers =
  fixes print :: CoqPrinter and cprint :: ClangPrinter
  assumes methods: "printable (getContext cprint) \<Longrightarrow> methods_safe cprint"
begin

abbreviation ok :: bool where
  "ok \<equiv> printable (getContext cprint)"

lemma steps_rec [printer_intros]:
  assumes ok
  shows "steps i d i d (rec_printType cprint t)" "steps i d i d (rec_printExpr cprint e)"
    "steps i d i d (rec_printStmt cprint s)" "steps i d i d (rec_printName cprint c)"
    "steps i d i d (rec_printUnresolvedName cprint nn n args)"
    "steps i d i d (rec_printTemplateArgumentList cprint args)"
    "steps i d i d (rec_printValueDeclExpr cprint c)"
  using methods [OF assms] by (simp_all add: methods_safe_def safe_steps)

lemma steps_rec_local [printer_intros]: "ok \<Longrightarrow> steps_query i d (rec_printLocalDecl cprint c)"
  using methods by (simp add: methods_safe_def)

lemma steps_printType_opt [printer_intros]: "ok \<Longrightarrow> steps i d i d (printType_opt cprint t)"
  unfolding printType_opt_def by (rule printer_intros | assumption)+

lemma steps_printQualType [printer_intros]: "ok \<Longrightarrow> steps i d i d (printQualType cprint q)"
  unfolding printQualType_def by (rule printer_intros | assumption | (simp; fail))+

lemma steps_printQualTypeOption [printer_intros]:
  "ok \<Longrightarrow> steps i d i d (printQualTypeOption cprint q)"
  unfolding printQualTypeOption_def by (rule printer_intros | assumption | (simp; fail))+

lemma steps_printQualifier [printer_intros]:
  "steps i d i d (printQualifier c v)" "steps i d i d (printQualifier_of cprint q)"
  unfolding printQualifier_of_def printQualifier_def by (rule printer_intros | (simp; fail))+

lemma quote_free_identifier:
  "ok \<Longrightarrow> getIdentifier (named_of (getContext cprint) d) = Some n \<Longrightarrow> quote_free n"
  by (simp add: printable_def)

lemma balanced_param_name:
  assumes "quote_free n"
  shows "balanced (concat ([[DQ], n] @ (if o' \<noteq> 0 then [''...'', decimal o'] else []) @ [[DQ]]))"
proof -
  have "DQ \<notin> set (decimal o')" using plain_decimal [of o'] unfolding plain_def by blast
  then have "DQ \<notin> set (n @ (if o' \<noteq> 0 then ''...'' @ decimal o' else []))"
    using assms by (simp add: quote_free_def)
  from balanced_quoted [OF this] show ?thesis by (cases "o' = 0") simp_all
qed

lemma steps_param_loop [printer_intros]:
  "ok \<Longrightarrow> steps i d i d (param_loop (getContext cprint) p ps k info off)"
proof (induction ps arbitrary: k info off)
  case Nil
  show ?case by (simp only: param_loop.simps) (rule steps_die)
next
  case (Cons q ps)
  show ?case
    unfolding param_loop.simps
    by (rule printer_intros balanced_param_name quote_free_identifier Cons | assumption | (simp; fail))+
qed

lemma steps_printParamName [printer_intros]: "ok \<Longrightarrow> steps i d i d (printParamName cprint p)"
  unfolding printParamName_def by (rule printer_intros | assumption | (simp; fail))+

lemma steps_printValCat [printer_intros]: "steps i d i d (printValCat print cprint e)"
  unfolding printValCat_def
  by (rule printer_intros | (simp; fail) | split ValueKind.split, intro conjI impI)+

lemma steps_Tparam [printer_intros]: "steps i d i d (Tparam ctx t)" "steps i d i d (Eparam ctx t)"
  unfolding Tparam_def Eparam_def by (rule printer_intros | (simp; fail))+

lemma steps_lookup_failed [printer_intros]: "steps i d j e (lookup_failed dep idx)"
  unfolding lookup_failed_def by (rule steps_die)

lemma steps_type_param_loop [printer_intros]:
  "ok \<Longrightarrow> steps i d i d (type_param_loop n print cprint dep idx c)"
proof (induction n arbitrary: c)
  case 0
  show ?case by (cases c) (simp_all add: steps_lookup_failed steps_fuel)
next
  case (Suc n)
  show ?case
  proof (cases c)
    case None
    then show ?thesis by (simp add: steps_lookup_failed)
  next
    case (Some c')
    show ?thesis
      unfolding Some type_param_loop.simps Let_def
      by (rule printer_intros Suc | assumption | (simp; fail) | split targ.split, intro conjI allI impI)+
  qed
qed

lemma steps_nontype_param_loop [printer_intros]:
  "ok \<Longrightarrow> steps i d i d (nontype_param_loop n print cprint dep idx c)"
proof (induction n arbitrary: c)
  case 0
  show ?case by (cases c) (simp_all add: steps_lookup_failed steps_fuel)
next
  case (Suc n)
  have q: "balanced (concat [[DQ], ''NonTypeTemplateParam '', decimal k, [DQ]])" for k
    using balanced_quoted [of "''NonTypeTemplateParam '' @ decimal k"] plain_decimal [of k]
    unfolding plain_def by simp
  show ?case
  proof (cases c)
    case None
    then show ?thesis by (simp add: steps_lookup_failed)
  next
    case (Some c')
    show ?thesis
      unfolding Some nontype_param_loop.simps Let_def
      by (rule printer_intros Suc q | assumption | (simp; fail) | split targ.split, intro conjI allI impI)+
  qed
qed

lemma steps_template_param [printer_intros]:
  "ok \<Longrightarrow> steps i d i d (printTypeTemplateParam print cprint dep idx)"
  "ok \<Longrightarrow> steps i d i d (printNonTypeTemplateParam print cprint dep idx)"
  unfolding printTypeTemplateParam_def printNonTypeTemplateParam_def
  by (rule printer_intros | assumption)+

lemma steps_small [printer_intros]:
  "steps i d i d (printVariadic b)" "steps i d i d (printCallingConv cc)"
  unfolding printVariadic_def printCallingConv_def
  by (rule printer_intros | (simp; fail) | split CallingConv.split, intro conjI impI)+

end

end
