(* ===== verification/PrintType.thy ===== *)
theory PrintType
  imports PrinterSafety
begin

text \<open>
  Model of \<open>src/PrintType.cpp\<close>: the visitor that prints a type.  Each method takes the
  \<open>ClangPrinter\<close> (and, where it looks at it, the \<open>CoqPrinter\<close>), the type pointer where its diagnostics
  need it, and the data of the node.  The wrappers \<open>printQualType\<close>, \<open>printQualTypeOption\<close> and \<open>printQualifier\<close>
  are in \<open>ClangPrinter\<close>.
\<close>

text \<open>\<open>printExpr\<close> without a table of opaque names makes a new one.\<close>

definition printExpr1 :: "ClangPrinter \<Rightarrow> ptr \<Rightarrow> printer" where
  "printExpr1 cprint e = with_fresh_names (rec_printExpr cprint e)"

definition ty_unsupported :: "ClangPrinter \<Rightarrow> ptr \<Rightarrow> string \<Rightarrow> bool \<Rightarrow> printer" where
  "ty_unsupported cprint t msg well_known =
     seqP [if \<not> well_known then diag UNSUPPORTED (''warning: unsupported '' @ msg) else skip,
           guard_ctor ''Tunsupported'' False [str (type_describe (type_of (getContext cprint) t))]]"

definition unsupported_type :: "ClangPrinter \<Rightarrow> ptr \<Rightarrow> bool \<Rightarrow> printer" where
  "unsupported_type cprint t well_known = ty_unsupported cprint t ''type'' well_known"

definition VisitType :: "ClangPrinter \<Rightarrow> ptr \<Rightarrow> printer" where
  "VisitType cprint t = unsupported_type cprint t False"

definition IGNORE_type :: "ClangPrinter \<Rightarrow> ptr \<Rightarrow> printer" where
  "IGNORE_type cprint t = unsupported_type cprint t True"

definition VisitAttributedType :: "ClangPrinter \<Rightarrow> QualType \<Rightarrow> printer" where
  "VisitAttributedType cprint modified = printQualType cprint modified"

definition VisitDependentSizedArrayType :: "ClangPrinter \<Rightarrow> QualType \<Rightarrow> ptr \<Rightarrow> printer" where
  "VisitDependentSizedArrayType cprint elem sz =
     guard_ctor ''Tvariable_array'' True [printQualType cprint elem, nbsp, printExpr1 cprint sz]"

definition VisitDependentNameType ::
  "ClangPrinter \<Rightarrow> QualType option \<Rightarrow> nns option \<Rightarrow> string \<Rightarrow> printer" where
  "VisitDependentNameType cprint sugared qualifier ident =
     (case sugared of
        Some q \<Rightarrow> printQualType cprint q
      | None \<Rightarrow> guard_ctor ''Tnamed'' True
          [rec_printUnresolvedName cprint qualifier (DNIdentifier (Some ident)) []])"

definition VisitUnaryTransformType ::
  "ClangPrinter \<Rightarrow> ptr \<Rightarrow> bool \<Rightarrow> string \<Rightarrow> QualType \<Rightarrow> QualType \<Rightarrow> printer" where
  "VisitUnaryTransformType cprint t enum_underlying name base result =
     (if isDependentType (type_of (getContext cprint) t) then unsupported_type cprint t True
      else seqP
        [if enum_underlying then ctor ''@Tunderlying'' False
         else seqP [ctor ''@Tunary_xform'' False, str name, put ''%bs'', nbsp],
         printQualType cprint base, nbsp,
         printQualType cprint result, end_ctor])"

definition VisitAutoType :: "CoqPrinter \<Rightarrow> ClangPrinter \<Rightarrow> ptr \<Rightarrow> QualType option \<Rightarrow> printer" where
  "VisitAutoType print cprint t deduced =
     (if deduced \<noteq> None \<and> \<not> isDependentType (type_of (getContext cprint) t)
      then printQualType cprint (the deduced)
      else if templates print then put ''Tauto''
      else unsupported_type cprint t True)"

definition VisitDeducedType :: "ClangPrinter \<Rightarrow> ptr \<Rightarrow> QualType option \<Rightarrow> printer" where
  "VisitDeducedType cprint t deduced =
     (case deduced of Some q \<Rightarrow> printQualType cprint q | None \<Rightarrow> unsupported_type cprint t False)"

definition VisitTemplateTypeParmType :: "CoqPrinter \<Rightarrow> ClangPrinter \<Rightarrow> nat \<Rightarrow> nat \<Rightarrow> printer" where
  "VisitTemplateTypeParmType print cprint dep idx = printTypeTemplateParam print cprint dep idx"

definition VisitEnumType :: "ClangPrinter \<Rightarrow> ptr \<Rightarrow> printer" where
  "VisitEnumType cprint d =
     seqP [ctor ''Tenum'' False,
           rec_printName cprint (getCanonicalDecl (decl (getContext cprint) d)), end_ctor]"

definition VisitRecordType :: "ClangPrinter \<Rightarrow> ptr \<Rightarrow> printer" where
  "VisitRecordType cprint d = seqP [ctor ''Tnamed'' False, rec_printName cprint d, end_ctor]"

definition VisitParenType :: "ClangPrinter \<Rightarrow> QualType \<Rightarrow> printer" where
  "VisitParenType cprint inner = printQualType cprint inner"

fun builtin_name :: "BuiltinKind \<Rightarrow> string option" where
  "builtin_name BT_Bool = Some ''Tbool''"
| "builtin_name BT_Void = Some ''Tvoid''"
| "builtin_name BT_NullPtr = Some ''Tnullptr''"
| "builtin_name BT_SChar = Some ''Tschar''"
| "builtin_name BT_UChar = Some ''Tuchar''"
| "builtin_name BT_Char_S = Some ''Tchar''"
| "builtin_name BT_Char_U = Some ''Tchar''"
| "builtin_name BT_WChar_S = Some ''Twchar''"
| "builtin_name BT_WChar_U = Some ''Twchar''"
| "builtin_name BT_Char16 = Some ''Tchar16''"
| "builtin_name BT_Char32 = Some ''Tchar32''"
| "builtin_name BT_Char8 = Some ''Tchar8''"
| "builtin_name BT_Short = Some ''Tshort''"
| "builtin_name BT_UShort = Some ''Tushort''"
| "builtin_name BT_Int = Some ''Tint''"
| "builtin_name BT_UInt = Some ''Tuint''"
| "builtin_name BT_Long = Some ''Tlong''"
| "builtin_name BT_ULong = Some ''Tulong''"
| "builtin_name BT_LongLong = Some ''Tlonglong''"
| "builtin_name BT_ULongLong = Some ''Tulonglong''"
| "builtin_name BT_Int128 = Some ''Tint128_t''"
| "builtin_name BT_UInt128 = Some ''Tuint128_t''"
| "builtin_name BT_Float = Some ''Tfloat''"
| "builtin_name BT_Double = Some ''Tdouble''"
| "builtin_name BT_LongDouble = Some ''Tlongdouble''"
| "builtin_name BT_Float16 = Some ''Tfloat16''"
| "builtin_name BT_Float128 = Some ''Tfloat128''"
| "builtin_name BT_Dependent = None"
| "builtin_name (BT_Sizeless n) = None"
| "builtin_name (BT_Other n) = None"

definition VisitBuiltinType :: "CoqPrinter \<Rightarrow> ClangPrinter \<Rightarrow> ptr \<Rightarrow> BuiltinKind \<Rightarrow> printer" where
  "VisitBuiltinType print cprint t k =
     (case builtin_name k of
        Some n \<Rightarrow> put n
      | None \<Rightarrow>
          (case k of
             BT_Sizeless n \<Rightarrow> seqP [lparen, puts [''Tarch None '' @ [DQ], n, [DQ]], rparen]
           | BT_Other n \<Rightarrow> ty_unsupported cprint t n False
           | _ \<Rightarrow> if templates print then put ''Tdependent'' else unsupported_type cprint t True))"

definition VisitLValueReferenceType :: "ClangPrinter \<Rightarrow> QualType \<Rightarrow> printer" where
  "VisitLValueReferenceType cprint pointee =
     seqP [ctor ''Tref'' False, printQualType cprint pointee, end_ctor]"

definition VisitRValueReferenceType :: "ClangPrinter \<Rightarrow> QualType \<Rightarrow> printer" where
  "VisitRValueReferenceType cprint pointee =
     seqP [ctor ''Trv_ref'' False, printQualType cprint pointee, end_ctor]"

definition VisitPointerType :: "ClangPrinter \<Rightarrow> QualType \<Rightarrow> printer" where
  "VisitPointerType cprint pointee =
     seqP [ctor ''Tptr'' False, printQualType cprint pointee, end_ctor]"

definition PRINT_ALIAS :: bool where
  "PRINT_ALIAS = False"

definition VisitTypedefType :: "ClangPrinter \<Rightarrow> ptr \<Rightarrow> printer" where
  "VisitTypedefType cprint d =
     (let ctx = getContext cprint;
          underlying = getUnderlyingType (named_of ctx (getCanonicalDecl (decl ctx d))) in
      if PRINT_ALIAS then
        seqP [ctor ''@Talias'' False, rec_printName cprint d, printQualType cprint underlying, end_ctor]
      else printQualType cprint underlying)"

definition VisitFunctionProtoType ::
  "CoqPrinter \<Rightarrow> ClangPrinter \<Rightarrow> CallingConv \<Rightarrow> bool \<Rightarrow> QualType \<Rightarrow> QualType list \<Rightarrow> printer" where
  "VisitFunctionProtoType print cprint cc variadic ret params =
     guard_ctor ''Tfunction'' True
       [coq_type print, nbsp,
        printCallingConv cc, nbsp,
        printVariadic variadic, nbsp,
        printQualType cprint ret, nbsp,
        plist params (\<lambda>i. printType_opt cprint (getTypePtrOrNull i))]"

definition VisitElaboratedType :: "ClangPrinter \<Rightarrow> QualType \<Rightarrow> printer" where
  "VisitElaboratedType cprint named = printQualType cprint named"

text \<open>\<open>getLimitedValue()\<close> caps the size at the largest \<open>uint64_t\<close>.\<close>

definition VisitConstantArrayType :: "ClangPrinter \<Rightarrow> QualType \<Rightarrow> nat \<Rightarrow> printer" where
  "VisitConstantArrayType cprint elem sz =
     seqP [ctor ''Tarray'' False, printQualType cprint elem,
           nbsp, put (decimal (min sz (2 ^ 64 - 1))), end_ctor]"

definition VisitSubstTemplateTypeParmType :: "ClangPrinter \<Rightarrow> QualType \<Rightarrow> printer" where
  "VisitSubstTemplateTypeParmType cprint replacement = printQualType cprint replacement"

definition VisitIncompleteArrayType :: "ClangPrinter \<Rightarrow> QualType \<Rightarrow> printer" where
  "VisitIncompleteArrayType cprint elem =
     seqP [ctor ''Tincomplete_array'' False, printQualType cprint elem, end_ctor]"

definition VisitVariableArrayType :: "ClangPrinter \<Rightarrow> QualType \<Rightarrow> ptr \<Rightarrow> printer" where
  "VisitVariableArrayType cprint elem sz =
     seqP [ctor ''Tvariable_array'' False, printQualType cprint elem, nbsp,
           printExpr1 cprint sz, end_ctor]"

definition VisitDecayedType :: "ClangPrinter \<Rightarrow> QualType \<Rightarrow> QualType \<Rightarrow> printer" where
  "VisitDecayedType cprint original adjusted =
     seqP [ctor ''Tdecay_type'' False, printQualType cprint original, nbsp,
           printQualType cprint adjusted, end_ctor]"

text \<open>\<open>ClangPrinter::debug\<close> is false, so the comment on risky types is never printed.\<close>

definition printRiskyTypeComment :: printer where
  "printRiskyTypeComment = skip"

definition VisitTemplateSpecializationType ::
  "ClangPrinter \<Rightarrow> ptr \<Rightarrow> QualType option \<Rightarrow> QualType option \<Rightarrow> ptr option \<Rightarrow> targ list \<Rightarrow> printer" where
  "VisitTemplateSpecializationType cprint t alias sugared temp args =
     (case alias of
        Some q \<Rightarrow> printQualType cprint q
      | None \<Rightarrow>
        (case sugared of
           Some q \<Rightarrow> printQualType cprint q
         | None \<Rightarrow>
           (case temp of
              Some td \<Rightarrow>
                seqP [printRiskyTypeComment, nbsp,
                      guard_ctor ''Tnamed'' False
                        [guard_ctor ''Ninst (* TemplateSpecializationType *)'' False
                           [rec_printName cprint td, nbsp, rec_printTemplateArgumentList cprint args]]]
            | None \<Rightarrow> unsupported_type cprint t True)))"

definition VisitDecltypeType :: "CoqPrinter \<Rightarrow> ClangPrinter \<Rightarrow> ptr \<Rightarrow> QualType option \<Rightarrow> ptr \<Rightarrow> printer" where
  "VisitDecltypeType print cprint t sugared e =
     (case sugared of
        Some q \<Rightarrow> printQualType cprint q
      | None \<Rightarrow>
          if templates print then
            guard_ctor (case expr_node (expr_of (getContext cprint) e) of
                          DeclRefExpr _ _ \<Rightarrow> ''Texprtype'' | _ \<Rightarrow> ''Tdecltype'') False
              [printExpr1 cprint e]
          else unsupported_type cprint t True)"

definition VisitTypeOfExprType :: "CoqPrinter \<Rightarrow> ClangPrinter \<Rightarrow> ptr \<Rightarrow> QualType option \<Rightarrow> ptr \<Rightarrow> printer" where
  "VisitTypeOfExprType print cprint t sugared e =
     (case sugared of
        Some q \<Rightarrow> printQualType cprint q
      | None \<Rightarrow>
          if templates print then printQualType cprint (expr_type (expr_of (getContext cprint) e))
          else unsupported_type cprint t False)"

definition VisitInjectedClassNameType :: "CoqPrinter \<Rightarrow> ClangPrinter \<Rightarrow> ptr \<Rightarrow> ptr option \<Rightarrow> printer" where
  "VisitInjectedClassNameType print cprint t d =
     seqP [assertA ''print.templates()'' (templates print),
           (case d of
              Some dcl \<Rightarrow>
                seqP [printRiskyTypeComment, nbsp,
                      guard_ctor ''Tnamed'' False [rec_printName cprint dcl, nbsp]]
            | None \<Rightarrow> ty_unsupported cprint t ''injected class name without declaration'' False)]"

definition VisitMemberPointerType :: "ClangPrinter \<Rightarrow> ptr \<Rightarrow> QualType \<Rightarrow> printer" where
  "VisitMemberPointerType cprint cls pointee =
     seqP [ctor ''Tmember_pointer'' False, printType_opt cprint (Some cls), nbsp,
           printQualType cprint pointee, end_ctor]"

definition VisitMacroQualifiedType :: "ClangPrinter \<Rightarrow> QualType \<Rightarrow> printer" where
  "VisitMacroQualifiedType cprint modified = printQualType cprint modified"

definition VisitUsingType :: "ClangPrinter \<Rightarrow> bool \<Rightarrow> QualType \<Rightarrow> printer" where
  "VisitUsingType cprint sugared underlying =
     seqP [assertA ''type->isSugared()'' sugared, printQualType cprint underlying]"

text \<open>The dispatch of \<open>TypeVisitor\<close>; a class without a method of its own is handled by \<open>VisitType\<close>.\<close>

fun type_dispatch :: "CoqPrinter \<Rightarrow> ClangPrinter \<Rightarrow> ptr \<Rightarrow> type_node \<Rightarrow> printer" where
  "type_dispatch print cprint t (AttributedType q) = VisitAttributedType cprint q"
| "type_dispatch print cprint t (DependentSizedArrayType q e) = VisitDependentSizedArrayType cprint q e"
| "type_dispatch print cprint t (DependentNameType s nn n) = VisitDependentNameType cprint s nn n"
| "type_dispatch print cprint t (UnaryTransformType k n b r) = VisitUnaryTransformType cprint t k n b r"
| "type_dispatch print cprint t (AutoType q) = VisitAutoType print cprint t q"
| "type_dispatch print cprint t (DeducedTemplateSpecializationType q) = VisitDeducedType cprint t q"
| "type_dispatch print cprint t (TemplateTypeParmType dep idx) =
     VisitTemplateTypeParmType print cprint dep idx"
| "type_dispatch print cprint t (EnumType d) = VisitEnumType cprint d"
| "type_dispatch print cprint t (RecordType d) = VisitRecordType cprint d"
| "type_dispatch print cprint t (ParenType q) = VisitParenType cprint q"
| "type_dispatch print cprint t (BuiltinType k) = VisitBuiltinType print cprint t k"
| "type_dispatch print cprint t (LValueReferenceType q) = VisitLValueReferenceType cprint q"
| "type_dispatch print cprint t (RValueReferenceType q) = VisitRValueReferenceType cprint q"
| "type_dispatch print cprint t (PointerType q) = VisitPointerType cprint q"
| "type_dispatch print cprint t (TypedefType d) = VisitTypedefType cprint d"
| "type_dispatch print cprint t (FunctionProtoType cc v r ps) =
     VisitFunctionProtoType print cprint cc v r ps"
| "type_dispatch print cprint t (FunctionNoProtoType cc r) = VisitType cprint t"
| "type_dispatch print cprint t (ElaboratedType q) = VisitElaboratedType cprint q"
| "type_dispatch print cprint t (ConstantArrayType q n) = VisitConstantArrayType cprint q n"
| "type_dispatch print cprint t (SubstTemplateTypeParmType q) = VisitSubstTemplateTypeParmType cprint q"
| "type_dispatch print cprint t (IncompleteArrayType q) = VisitIncompleteArrayType cprint q"
| "type_dispatch print cprint t (VariableArrayType q e) = VisitVariableArrayType cprint q e"
| "type_dispatch print cprint t (DecayedType p q) = VisitDecayedType cprint p q"
| "type_dispatch print cprint t (TemplateSpecializationType a s d args) =
     VisitTemplateSpecializationType cprint t a s d args"
| "type_dispatch print cprint t (DecltypeType s e) = VisitDecltypeType print cprint t s e"
| "type_dispatch print cprint t (TypeOfExprType s e) = VisitTypeOfExprType print cprint t s e"
| "type_dispatch print cprint t (InjectedClassNameType d) = VisitInjectedClassNameType print cprint t d"
| "type_dispatch print cprint t (MemberPointerType c q) = VisitMemberPointerType cprint c q"
| "type_dispatch print cprint t (MacroQualifiedType q) = VisitMacroQualifiedType cprint q"
| "type_dispatch print cprint t (UsingType s q) = VisitUsingType cprint s q"
| "type_dispatch print cprint t BlockPointerType = IGNORE_type cprint t"
| "type_dispatch print cprint t PackExpansionType = IGNORE_type cprint t"
| "type_dispatch print cprint t OtherType = VisitType cprint t"

definition PrintType_Visit :: "CoqPrinter \<Rightarrow> ClangPrinter \<Rightarrow> ptr \<Rightarrow> printer" where
  "PrintType_Visit print cprint t =
     (case reference_type print t of
        Some r \<Rightarrow> put r
      | None \<Rightarrow> type_dispatch print cprint t (type_node (type_of (getContext cprint) t)))"

definition printType :: "CoqPrinter \<Rightarrow> ClangPrinter \<Rightarrow> ptr \<Rightarrow> printer" where
  "printType print cprint t =
     depth_checked (AssertionFailed depth_assertion) (PrintType_Visit print cprint t)"

text \<open>The printer of types keeps the contract of the printers it calls.\<close>

context safe_printers
begin

lemma steps_printExpr1 [printer_intros]: "ok \<Longrightarrow> steps i d i d (printExpr1 cprint e)"
  unfolding printExpr1_def by (rule printer_intros | assumption)+

lemma steps_ty_unsupported [printer_intros]:
  "steps i d i d (ty_unsupported cprint t msg w)" "steps i d i d (unsupported_type cprint t w)"
  "steps i d i d (VisitType cprint t)" "steps i d i d (IGNORE_type cprint t)"
  unfolding VisitType_def IGNORE_type_def unsupported_type_def ty_unsupported_def
  by (rule printer_intros | (simp; fail))+

lemma builtin_name_balanced: "builtin_name k = Some n \<Longrightarrow> balanced n"
  by (cases k rule: builtin_name.cases) auto

lemma steps_arch:
  "quote_free n \<Longrightarrow> steps i d i d (seqP [lparen, puts [''Tarch None '' @ [DQ], n, [DQ]], rparen])"
  by (rule printer_intros steps_puts | assumption | simp add: balanced_def quote_free_def lex_InStr; fail)+

lemma steps_VisitBuiltinType [printer_intros]:
  assumes "printable_type (BuiltinType k)"
  shows "steps i d i d (VisitBuiltinType print cprint t k)"
proof (cases "builtin_name k")
  case None
  then consider "k = BT_Dependent" | n where "k = BT_Sizeless n" | n where "k = BT_Other n"
    by (cases k) simp_all
  then show ?thesis
    unfolding VisitBuiltinType_def
  proof cases
    case 1
    show "steps i d i d (case builtin_name k of None \<Rightarrow>
        (case k of BT_Sizeless n \<Rightarrow> seqP [lparen, puts [''Tarch None '' @ [DQ], n, [DQ]], rparen]
         | BT_Other n \<Rightarrow> ty_unsupported cprint t n False
         | _ \<Rightarrow> if templates print then put ''Tdependent'' else unsupported_type cprint t True)
      | Some n \<Rightarrow> put n)"
      unfolding 1 builtin_name.simps option.case BuiltinKind.case
      by (rule printer_intros | (simp; fail))+
  qed (use assms in \<open>simp_all add: steps_arch [simplified] steps_ty_unsupported\<close>)
next
  case (Some n)
  then show ?thesis
    unfolding VisitBuiltinType_def
    by (simp add: steps_put builtin_name_balanced)
qed

lemmas simple_visits =
  VisitAttributedType_def VisitDependentSizedArrayType_def VisitDependentNameType_def
  VisitUnaryTransformType_def VisitAutoType_def VisitDeducedType_def VisitTemplateTypeParmType_def
  VisitEnumType_def VisitRecordType_def VisitParenType_def VisitLValueReferenceType_def
  VisitRValueReferenceType_def VisitPointerType_def VisitTypedefType_def VisitElaboratedType_def
  VisitConstantArrayType_def VisitSubstTemplateTypeParmType_def VisitIncompleteArrayType_def
  VisitVariableArrayType_def VisitDecayedType_def printRiskyTypeComment_def
  VisitTemplateSpecializationType_def VisitTypeOfExprType_def
  VisitInjectedClassNameType_def VisitMemberPointerType_def VisitMacroQualifiedType_def
  VisitUsingType_def coq_type_def

lemma steps_VisitFunctionProtoType [printer_intros]:
  "ok \<Longrightarrow> steps i d i d (VisitFunctionProtoType print cprint cc v r ps)"
  unfolding VisitFunctionProtoType_def coq_type_def
  by (rule printer_intros | assumption | (simp; fail))+

lemma steps_VisitDecltypeType [printer_intros]:
  "ok \<Longrightarrow> steps i d i d (VisitDecltypeType print cprint t s e)"
  unfolding VisitDecltypeType_def
  by (rule printer_intros | assumption | (simp split: expr_node.split; fail))+

lemma steps_type_dispatch [printer_intros]:
  assumes ok and "printable_type n"
  shows "steps i d i d (type_dispatch print cprint t n)"
  using assms
  by (cases n)
    (simp only: type_dispatch.simps simple_visits Let_def,
      (rule printer_intros | assumption | (simp; fail) | (simp add: balanced_def; fail))+)+

lemma steps_PrintType_Visit [printer_intros]:
  assumes ok
  shows "steps i d i d (PrintType_Visit print cprint t)"
proof -
  have "printable_type (type_node (type_of (getContext cprint) t))"
    using assms by (simp add: printable_def)
  with assms show ?thesis
    unfolding PrintType_Visit_def
    by (intro steps_case_option steps_type_dispatch steps_put)
      (auto simp: reference_type_def nc_reference_def Let_def TYPE_PREFIX_def split: if_splits)
qed

lemma steps_printType: "ok \<Longrightarrow> steps i d i d (printType print cprint t)"
  unfolding printType_def by (rule printer_intros | assumption)+

end

end
