(* ===== verification/PrintName.thy ===== *)
theory PrintName
  imports PrintType
begin

text \<open>
  Model of \<open>src/PrintName.cpp\<close> and \<open>src/Template.cpp\<close>: the structured names of declarations.  A name is a path
  from the translation unit, whose steps are atomic names; a declaration without a name gets an index
  among the anonymous declarations of its context.  The walks along chains of contexts
  are loops with the fuel of the printer; clang's chains end at the translation unit.
  What \<open>classifyContext\<close> logs about contexts it does not know is left out.
\<close>

section \<open>Templates and specializations\<close>

definition recoverTemplate :: "ASTContext \<Rightarrow> ptr \<Rightarrow> ptr option" where
  "recoverTemplate ctx d =
     (if isaD ctx TemplateDecl d then Some d
      else if isaD ctx CXXRecordDecl d \<or> isaD ctx FunctionDecl d \<or> isaD ctx TypeAliasDecl d \<or> isaD ctx VarDecl d
      then getDescribedTemplate (naming_of ctx d)
      else None)"

definition recoverSpecialization :: "ASTContext \<Rightarrow> ptr \<Rightarrow> (ptr \<times> targ list) option" where
  "recoverSpecialization ctx d =
     (let ret = (\<lambda>temp args. case (temp, args) of (Some t, Some a) \<Rightarrow> Some (t, a) | _ \<Rightarrow> None);
          N = naming_of ctx d in
      if isaD ctx ClassTemplateSpecializationDecl d then ret (getSpecializedTemplate N) (getTemplateArgs N)
      else if isaD ctx FunctionDecl d then
        ret (getSpecializedTemplate N) (getTemplateSpecializationArgs (named_of ctx d))
      else if isaD ctx VarTemplateSpecializationDecl d then
        ret (getSpecializedTemplate N) (getTemplateArgs N)
      else None)"

fun templateArgumentKindName :: "targ \<Rightarrow> string" where
  "templateArgumentKindName TANull = ''Null''"
| "templateArgumentKindName (TAType q) = ''Type''"
| "templateArgumentKindName (TADeclaration d q) = ''Declaration''"
| "templateArgumentKindName (TANullPtr q) = ''NullPtr''"
| "templateArgumentKindName (TAIntegral i q) = ''Integral''"
| "templateArgumentKindName (TATemplate t) = ''Template''"
| "templateArgumentKindName (TATemplateExpansion t) = ''TemplateExpansion''"
| "templateArgumentKindName (TAExpression e) = ''Expression''"
| "templateArgumentKindName (TAPack args) = ''Pack''"
| "templateArgumentKindName TAStructuralValue = ''<unknown>''"

text \<open>The lists of the enclosing declarations come first; the number is their total length.\<close>

fun collectParameterLists :: "nat \<Rightarrow> ASTContext \<Rightarrow> ptr \<Rightarrow> stop + nat \<times> ptr list list" where
  "collectParameterLists n ctx d =
     (case getDeclContext (named_of ctx d) of
        None \<Rightarrow> Inr (0, [])
      | Some c \<Rightarrow>
          (case n of
             0 \<Rightarrow> Inl OutOfFuel
           | Suc m \<Rightarrow>
               (case collectParameterLists m ctx c of
                  Inl x \<Rightarrow> Inl x
                | Inr (k, dest) \<Rightarrow>
                    (case recoverTemplate ctx d of
                       None \<Rightarrow> Inr (k, dest)
                     | Some td \<Rightarrow>
                         (let params = getTemplateParameters (named_of ctx td) in
                          Inr (k + length params, dest @ [params]))))))"

declare collectParameterLists.simps [simp del]

definition recoverTemplateArgs :: "ASTContext \<Rightarrow> ptr \<Rightarrow> targ list option" where
  "recoverTemplateArgs ctx d = map_option snd (recoverSpecialization ctx d)"

fun collectArgumentLists :: "nat \<Rightarrow> ASTContext \<Rightarrow> ptr \<Rightarrow> stop + nat \<times> targ list list" where
  "collectArgumentLists n ctx d =
     (case getDeclContext (named_of ctx d) of
        None \<Rightarrow> Inr (0, [])
      | Some c \<Rightarrow>
          (case n of
             0 \<Rightarrow> Inl OutOfFuel
           | Suc m \<Rightarrow>
               (case collectArgumentLists m ctx c of
                  Inl x \<Rightarrow> Inl x
                | Inr (k, dest) \<Rightarrow>
                    (case recoverTemplateArgs ctx d of
                       None \<Rightarrow> Inr (k, dest)
                     | Some args \<Rightarrow> Inr (k + length args, dest @ [args])))))"

declare collectArgumentLists.simps [simp del]

section \<open>Names for diagnostics\<close>

text \<open>\<open>n\<close> counts the names that are still to come.\<close>

fun separated :: "nat \<Rightarrow> string list \<Rightarrow> string" where
  "separated n [] = []"
| "separated n (x # xs) = x @ (if n - 1 \<noteq> 0 then '', '' else []) @ separated (n - 1) xs"

definition diagnostic_parameters :: "nat \<Rightarrow> ASTContext \<Rightarrow> ptr \<Rightarrow> stop + string" where
  "diagnostic_parameters fuel ctx d =
     (case collectParameterLists fuel ctx d of
        Inl x \<Rightarrow> Inl x
      | Inr (n, ls) \<Rightarrow>
          Inr (if ls = [] then []
               else ''<'' @ separated n (map (getNameAsString \<circ> named_of ctx) (concat ls)) @ ''>''))"

definition printFunctionParameterTypes :: "ASTContext \<Rightarrow> ptr \<Rightarrow> string" where
  "printFunctionParameterTypes ctx d =
     (let ps = parameters (named_of ctx d) in
      [LPAR] @ separated (length ps) (map (QualType_print ctx \<circ> getType \<circ> named_of ctx) ps) @ [RPAR])"

definition recoverFunction :: "ASTContext \<Rightarrow> ptr \<Rightarrow> ptr option" where
  "recoverFunction ctx d =
     (if isaD ctx FunctionDecl d then Some d
      else if isaD ctx FunctionTemplateDecl d then Some (getTemplatedDecl (decl ctx d))
      else None)"

definition printFunctionQualifiersForDiagnostics :: "ASTContext \<Rightarrow> ptr \<Rightarrow> string" where
  "printFunctionQualifiersForDiagnostics ctx d =
     (if isaD ctx CXXMethodDecl d then
        (if isConst (named_of ctx d) then '' const'' else [])
        @ (if isVolatile (named_of ctx d) then '' volatile'' else [])
        @ (case getRefQualifier (naming_of ctx d) of
             RQ_LValue \<Rightarrow> '' &'' | RQ_RValue \<Rightarrow> '' &&'' | RQ_None \<Rightarrow> [])
      else [])"

definition printNameForDiagnostics :: "nat \<Rightarrow> ASTContext \<Rightarrow> ptr \<Rightarrow> stop + string" where
  "printNameForDiagnostics fuel ctx d =
     (case diagnostic_parameters fuel ctx d of
        Inl x \<Rightarrow> Inl x
      | Inr t \<Rightarrow>
          Inr (t @ nameForDiagnostic (naming_of ctx d)
               @ (case recoverFunction ctx d of
                    Some fd \<Rightarrow> printFunctionParameterTypes ctx fd @ printFunctionQualifiersForDiagnostics ctx fd
                  | None \<Rightarrow> [])))"

section \<open>Contexts\<close>

datatype ContextKind = Global | Scope | Ingorable

definition classifyContext :: "ASTContext \<Rightarrow> ptr \<Rightarrow> ContextKind" where
  "classifyContext ctx c =
     (let k = getKind (decl ctx c) in
      if k = TranslationUnitDecl then Global
      else if k \<in> {NamespaceDecl, RecordDecl, CXXRecordDecl, ClassTemplateSpecializationDecl,
                   ClassTemplatePartialSpecializationDecl, FunctionDecl, CXXMethodDecl,
                   CXXConstructorDecl, CXXDestructorDecl, CXXConversionDecl, BlockDecl, EnumDecl}
      then Scope
      else Ingorable)"

definition isIgnorableContext :: "ASTContext \<Rightarrow> ptr \<Rightarrow> bool" where
  "isIgnorableContext ctx c \<longleftrightarrow> classifyContext ctx c = Ingorable"

definition isTranslationUnit :: "ASTContext \<Rightarrow> ptr \<Rightarrow> bool" where
  "isTranslationUnit ctx c \<longleftrightarrow> getKind (decl ctx c) = TranslationUnitDecl"

fun ancestor_loop :: "nat \<Rightarrow> ASTContext \<Rightarrow> ptr \<Rightarrow> stop + ptr" where
  "ancestor_loop n ctx p =
     (if isIgnorableContext ctx p then
        (case getContextParent (naming_of ctx p) of
           None \<Rightarrow> Inl (Die ''error: declaration context outside any translation unit'')
         | Some q \<Rightarrow> (case n of 0 \<Rightarrow> Inl OutOfFuel | Suc m \<Rightarrow> ancestor_loop m ctx q))
      else Inr p)"

declare ancestor_loop.simps [simp del]

definition getNonIgnorableAncestor :: "nat \<Rightarrow> ASTContext \<Rightarrow> ptr \<Rightarrow> stop + ptr" where
  "getNonIgnorableAncestor fuel ctx d =
     (case getDeclContext (named_of ctx d) of
        Some p \<Rightarrow> ancestor_loop fuel ctx p
      | None \<Rightarrow> Inl (Die ''error: declaration outside any translation unit''))"

definition isNamed :: "ASTContext \<Rightarrow> ptr \<Rightarrow> bool" where
  "isNamed ctx d =
     (if isaD ctx NamedDecl d \<and> getIdentifier (named_of ctx d) = None then False
      else if isaD ctx NamespaceDecl d then \<not> isAnonymousNamespace (naming_of ctx d)
      else if isaD ctx CXXRecordDecl d then
        \<not> (isLambda (decl ctx d) \<or> isAnonymousStructOrUnion (naming_of ctx d))
      else if isaD ctx RecordDecl d then \<not> isAnonymousStructOrUnion (naming_of ctx d)
      else if isaD ctx EnumDecl d then True
      else isaD ctx NamedDecl d)"

definition isAnonymous :: "ASTContext \<Rightarrow> ptr \<Rightarrow> bool" where
  "isAnonymous ctx d \<longleftrightarrow> \<not> isNamed ctx d"

text \<open>
  The search of \<open>getAnonymousIndex\<close> through the declarations of a context and of the ignorable
  contexts among them: whether the declaration was found, and the number of anonymous
  declarations before it.
\<close>

function anonymous_loop ::
  "nat \<Rightarrow> ASTContext \<Rightarrow> ptr \<Rightarrow> ptr list \<Rightarrow> nat \<Rightarrow> stop + bool \<times> nat" where
  "anonymous_loop n ctx d [] acc = Inr (False, acc)"
| "anonymous_loop n ctx d (x # xs) acc =
     (if x = d then Inr (True, acc)
      else
        (case (if isDeclContext (decl ctx x) \<and> isIgnorableContext ctx x
               then (case n of 0 \<Rightarrow> Inl OutOfFuel | Suc m \<Rightarrow> anonymous_loop m ctx d (decls (decl ctx x)) acc)
               else Inr (False, acc)) of
           Inl e \<Rightarrow> Inl e
         | Inr (found, acc') \<Rightarrow>
             if found then Inr (True, acc')
             else anonymous_loop n ctx d xs (if isAnonymous ctx x then acc' + 1 else acc')))"
  by pat_completeness auto

termination
  by (relation "measures [\<lambda>(n, ctx, d, xs, acc). n, \<lambda>(n, ctx, d, xs, acc). length xs]") auto

definition getAnonymousIndex :: "nat \<Rightarrow> ASTContext \<Rightarrow> ptr \<Rightarrow> ptr \<Rightarrow> stop + nat" where
  "getAnonymousIndex fuel ctx c d =
     (case anonymous_loop fuel ctx d (decls (decl ctx c)) 0 of
        Inl x \<Rightarrow> Inl x
      | Inr (found, i) \<Rightarrow>
          if found then Inr i else Inl (Die ''error: could not find anonymous declaration in context''))"

text \<open>An action that uses the answer of such a search.\<close>

definition with_answer :: "stop + 'a \<Rightarrow> ('a \<Rightarrow> printer) \<Rightarrow> printer" where
  "with_answer r f = (case r of Inl x \<Rightarrow> stopA x | Inr a \<Rightarrow> f a)"

section \<open>Template parameters and arguments\<close>

definition name_unsupported :: "string \<Rightarrow> string \<Rightarrow> printer" where
  "name_unsupported c msg =
     seqP [diag UNSUPPORTED (''warning: unsupported '' @ msg), guard_ctor c False [str msg]]"

definition printTemplateParameter :: "ClangPrinter \<Rightarrow> bool \<Rightarrow> ptr \<Rightarrow> printer" where
  "printTemplateParameter cprint as_arg p =
     (let ctx = getContext cprint;
          unsup = name_unsupported (if as_arg then ''Aunsupported'' else ''Punsupported'') in
      if isParameterPack (naming_of ctx p) then unsup ''template parameter pack''
      else case getIdentifier (named_of ctx p) of
        None \<Rightarrow> unsup ''unnamed template parameter''
      | Some name \<Rightarrow>
          (case getKind (decl ctx p) of
             TemplateTypeParmDecl \<Rightarrow>
               if as_arg then guard_ctor ''Atype'' False [guard_ctor ''Tparam'' False [str name]]
               else guard_ctor ''Ptype'' False [str name]
           | NonTypeTemplateParmDecl \<Rightarrow>
               if as_arg then guard_ctor ''Avalue'' False [guard_ctor ''Eparam'' False [str name]]
               else guard_ctor ''Pvalue'' False
                      [str name, nbsp, printQualType cprint (getType (named_of ctx p))]
           | _ \<Rightarrow> unsup ''template parameter kind''))"

definition printTemplateParameters :: "ClangPrinter \<Rightarrow> bool \<Rightarrow> ptr \<Rightarrow> printer" where
  "printTemplateParameters cprint as_arg d =
     with_answer (collectParameterLists (loop_fuel cprint) (getContext cprint) d) (\<lambda>(n, ls).
       if n \<noteq> 0 then
         guard_list (map (\<lambda>param. seqP [printTemplateParameter cprint as_arg param, cons_sep]) (concat ls))
       else put ''nil'')"

text \<open>The arguments of a pack are printed recursively.\<close>

lemma plist_cong [fundef_cong]:
  "xs = ys \<Longrightarrow> (\<And>x. x \<in> set ys \<Longrightarrow> f x = g x) \<Longrightarrow> plist xs f = plist ys g"
  by (simp add: plist_def list_range_def cong: map_cong)

definition unsupported_argument :: "targ \<Rightarrow> printer" where
  "unsupported_argument arg = guard_ctor ''Aunsupported'' False [str (templateArgumentKindName arg)]"

fun printTemplateArgument :: "ClangPrinter \<Rightarrow> targ \<Rightarrow> printer" where
  "printTemplateArgument cprint (TAType q) = guard_ctor ''Atype'' False [printQualType cprint q]"
| "printTemplateArgument cprint (TAExpression e) = guard_ctor ''Avalue'' False [printExpr1 cprint e]"
| "printTemplateArgument cprint (TAIntegral v q) =
     guard_ctor ''Avalue'' False [guard_ctor ''Eint'' False [putZ v, nbsp, printQualType cprint q]]"
| "printTemplateArgument cprint (TANullPtr q) = guard_ctor ''Avalue'' False [put ''Enull'']"
| "printTemplateArgument cprint (TADeclaration d q) =
     guard_ctor ''Avalue'' False [rec_printValueDeclExpr cprint d]"
| "printTemplateArgument cprint (TAPack args) =
     guard_ctor ''Apack_expansion'' False [plist args (\<lambda>v. printTemplateArgument cprint v)]"
| "printTemplateArgument cprint (TATemplate t) =
     (case t of
        Some dt \<Rightarrow> guard_ctor ''Atemplate'' False [rec_printName cprint dt]
      | None \<Rightarrow> unsupported_argument (TATemplate t))"
| "printTemplateArgument cprint arg = unsupported_argument arg"

definition printTemplateArgumentList :: "ClangPrinter \<Rightarrow> targ list \<Rightarrow> printer" where
  "printTemplateArgumentList cprint args = plist args (\<lambda>arg. printTemplateArgument cprint arg)"

definition printTemplateArguments :: "ClangPrinter \<Rightarrow> ptr \<Rightarrow> printer" where
  "printTemplateArguments cprint d =
     with_answer (collectArgumentLists (loop_fuel cprint) (getContext cprint) d) (\<lambda>(n, ls).
       if n \<noteq> 0 then
         guard_list (map (\<lambda>arg. seqP [printTemplateArgument cprint arg, cons_sep]) (concat ls))
       else put ''nil'')"

section \<open>Functions\<close>

definition printOverloadableOperator :: "OverloadedOperatorKind \<Rightarrow> printer" where
  "printOverloadableOperator oo =
     (let with_array = (\<lambda>name array. guard_ctor name False [boolean array]) in
      case oo of
        OO_New \<Rightarrow> with_array ''OONew'' False
      | OO_Array_New \<Rightarrow> with_array ''OONew'' True
      | OO_Delete \<Rightarrow> with_array ''OODelete'' False
      | OO_Array_Delete \<Rightarrow> with_array ''OODelete'' True
      | OO_Named name \<Rightarrow> put (''OO'' @ name)
      | OO_Unknown \<Rightarrow> die ''unknown overloadable operator'')"

definition const_volatile_cat :: "bool \<Rightarrow> bool \<Rightarrow> RefQualifierKind \<Rightarrow> string" where
  "const_volatile_cat is_const is_volatile r =
     (if is_const then
        (if is_volatile then (case r of RQ_None \<Rightarrow> ''Ncv'' | RQ_LValue \<Rightarrow> ''Ncvl'' | RQ_RValue \<Rightarrow> ''Ncvr'')
         else (case r of RQ_None \<Rightarrow> ''Nc'' | RQ_LValue \<Rightarrow> ''Ncl'' | RQ_RValue \<Rightarrow> ''Ncr''))
      else
        (if is_volatile then (case r of RQ_None \<Rightarrow> ''Nv'' | RQ_LValue \<Rightarrow> ''Nvl'' | RQ_RValue \<Rightarrow> ''Nvr'')
         else (case r of RQ_None \<Rightarrow> ''N'' | RQ_LValue \<Rightarrow> ''Nl'' | RQ_RValue \<Rightarrow> ''Nr'')))"

definition printFunctionQualifiers :: "ClangPrinter \<Rightarrow> ptr \<Rightarrow> printer" where
  "printFunctionQualifiers cprint d =
     (let ctx = getContext cprint in
      if isaD ctx CXXMethodDecl d then
        puts [''function_qualifiers.'',
              const_volatile_cat (isConst (named_of ctx d)) (isVolatile (named_of ctx d))
                (getRefQualifier (naming_of ctx d))]
      else put ''function_qualifiers.N'')"

definition printFunctionName :: "ClangPrinter \<Rightarrow> ptr \<Rightarrow> printer" where
  "printFunctionName cprint d =
     (let N = naming_of (getContext cprint) d;
          unsup = name_unsupported ''Nunsupported_function'' (''function name: '' @ nameForDiagnostic N) in
      case getDeclName N of
        DNIdentifier (Some n) \<Rightarrow> guard_ctor ''Nf'' False [str n]
      | DNIdentifier None \<Rightarrow> unsup
      | DNConstructor \<Rightarrow> put ''Nctor''
      | DNDestructor \<Rightarrow> put ''Ndtor''
      | DNOperator oo \<Rightarrow> guard_ctor ''Nop'' False [printOverloadableOperator oo]
      | DNConversion q \<Rightarrow> guard_ctor ''Nop_conv'' False [printQualType cprint q]
      | DNLiteralOperator (Some n) \<Rightarrow> guard_ctor ''Nop_lit'' False [str n, nbsp]
      | DNLiteralOperator None \<Rightarrow> unsup
      | DNOther n \<Rightarrow> unsup)"

definition printFunctionParamTypes :: "ClangPrinter \<Rightarrow> ptr \<Rightarrow> printer" where
  "printFunctionParamTypes cprint d =
     (let ctx = getContext cprint in
      plist (parameters (named_of ctx d)) (\<lambda>param. printQualType cprint (getType (named_of ctx param))))"

definition function_name :: "ClangPrinter \<Rightarrow> ptr \<Rightarrow> printer" where
  "function_name cprint fd =
     guard_ctor ''Nfunction'' False
       [printFunctionQualifiers cprint fd, nbsp,
        printFunctionName cprint fd, nbsp,
        printFunctionParamTypes cprint fd]"

section \<open>Atomic names\<close>

fun reaches_tu :: "nat \<Rightarrow> ASTContext \<Rightarrow> ptr option \<Rightarrow> stop + bool" where
  "reaches_tu n ctx None = Inr False"
| "reaches_tu n ctx (Some i) =
     (if isTranslationUnit ctx i then Inr True
      else (case n of 0 \<Rightarrow> Inl OutOfFuel
            | Suc m \<Rightarrow> reaches_tu m ctx (getContextParent (naming_of ctx i))))"

text \<open>The name by the first declaration of that type; \<open>b\<close> is the declaration that the loop looks at.\<close>

fun by_first_decl :: "nat \<Rightarrow> ASTContext \<Rightarrow> ptr \<Rightarrow> ptr option \<Rightarrow> stop + string option" where
  "by_first_decl n ctx td None = Inr None"
| "by_first_decl n ctx td (Some b) =
     (if isaD ctx ValueDecl b then
        (case getTypePtrOrNull (getType (named_of ctx b)) of
           None \<Rightarrow> Inl (Die ''null type'')
         | Some t \<Rightarrow>
             Inr (if getAsTagDecl (type_of ctx t) = Some td then getIdentifier (named_of ctx b) else None))
      else
        (case reaches_tu n ctx (getLexicalContext (naming_of ctx b)) of
           Inl x \<Rightarrow> Inl x
         | Inr True \<Rightarrow> Inr None
         | Inr False \<Rightarrow>
             (case n of 0 \<Rightarrow> Inl OutOfFuel
              | Suc m \<Rightarrow> by_first_decl m ctx td (getNextDeclInContext (naming_of ctx b)))))"

definition atomic_unsupported :: "string \<Rightarrow> printer" where
  "atomic_unsupported what = name_unsupported ''Nunsupported_atomic'' what"

definition Nid :: "ASTContext \<Rightarrow> ptr \<Rightarrow> printer" where
  "Nid ctx d = guard_ctor ''Nid'' False [str (getName ctx d)]"

definition ident :: "ASTContext \<Rightarrow> ptr \<Rightarrow> printer" where
  "ident ctx d =
     (if isNamed ctx d then Nid ctx d
      else stopA (AssertionFailed ''false && ident for un-named term''))"

definition ident_or_anon :: "ClangPrinter \<Rightarrow> ptr \<Rightarrow> ptr \<Rightarrow> string option \<Rightarrow> printer" where
  "ident_or_anon cprint c d anon_error =
     (let ctx = getContext cprint in
      if isNamed ctx d then Nid ctx d
      else case anon_error of
        None \<Rightarrow>
          seqP [ctor ''Nanon'' False,
                with_answer (getAnonymousIndex (loop_fuel cprint) ctx c d) (\<lambda>i. put (decimal i)),
                end_ctor]
      | Some msg \<Rightarrow> atomic_unsupported msg)"

definition atomic_by_kind :: "ClangPrinter \<Rightarrow> ptr \<Rightarrow> ptr \<Rightarrow> printer" where
  "atomic_by_kind cprint c d =
     (let ctx = getContext cprint; k = getKind (decl ctx d) in
      if k \<in> {NamespaceDecl, RecordDecl, CXXRecordDecl, EnumDecl, TypeAliasDecl, TypedefDecl,
              ClassTemplateDecl}
      then ident_or_anon cprint c d None
      else if k = FieldDecl then ident_or_anon cprint c d None
      else if k = FunctionTemplateDecl then function_name cprint (getTemplatedDecl (decl ctx d))
      else if k \<in> {FunctionDecl, CXXMethodDecl, CXXConstructorDecl, CXXDestructorDecl, CXXConversionDecl}
      then function_name cprint d
      else if k \<in> {TypeAliasTemplateDecl, VarTemplateDecl, VarTemplateSpecializationDecl,
                   VarTemplatePartialSpecializationDecl}
      then ident_or_anon cprint c d (Some ''anonymous template'')
      else if k = VarDecl then ident_or_anon cprint c d (Some ''anonymous variable'')
      else if k = EnumConstantDecl then ident_or_anon cprint c d (Some ''anonymous enum constant'')
      else if k = BindingDecl then ident_or_anon cprint c d (Some ''anonymous binding'')
      else atomic_unsupported (''atomic name of kind '' @ getDeclKindName ctx d))"

definition has_identifier :: "ASTContext \<Rightarrow> ptr \<Rightarrow> bool" where
  "has_identifier ctx d \<longleftrightarrow> getIdentifier (named_of ctx d) \<noteq> None"

definition in_translation_unit :: "ASTContext \<Rightarrow> ptr \<Rightarrow> (bool \<Rightarrow> printer) \<Rightarrow> printer" where
  "in_translation_unit ctx d f =
     (case getContextParent (naming_of ctx d) of
        None \<Rightarrow> die ''null context''
      | Some c \<Rightarrow> f (isTranslationUnit ctx c))"

definition atomic_by_content :: "ClangPrinter \<Rightarrow> ptr \<Rightarrow> ptr \<Rightarrow> printer" where
  "atomic_by_content cprint c d =
     (let ctx = getContext cprint in
      if isaD ctx RecordDecl d then
        in_translation_unit ctx d (\<lambda>tu.
          if tu then
            seqP [diag UNSUPPORTED ''Anonymous global records without declarations are not supported.'',
                  atomic_unsupported ''record'']
          else (case find (has_identifier ctx) (record_fields (naming_of ctx d)) of
                  Some i \<Rightarrow> guard_ctor ''Nrecord_by_field'' False [str (getName ctx i)]
                | None \<Rightarrow> atomic_by_kind cprint c d))
      else if isaD ctx EnumDecl d then
        (case find (has_identifier ctx) (enumerators (decl ctx d)) of
           Some i \<Rightarrow> guard_ctor ''Nenum_by_enumerator'' False [str (getName ctx i)]
         | None \<Rightarrow>
             in_translation_unit ctx d (\<lambda>tu.
               if tu then
                 seqP [diag UNSUPPORTED ''Unsupported empty enumeration in global context.'',
                       atomic_unsupported ''enum'']
               else atomic_by_kind cprint c d))
      else if isaD ctx NamespaceDecl d then
        (if isNamed ctx d then ident ctx d else put ''Nanonymous'')
      else atomic_by_kind cprint c d)"

definition printAtomicName :: "ClangPrinter \<Rightarrow> ptr \<Rightarrow> ptr \<Rightarrow> printer" where
  "printAtomicName cprint c d =
     (let ctx = getContext cprint in
      if isaD ctx TagDecl d then
        (if isNamed ctx d then ident ctx d
         else case getTypedefNameForAnonDecl (naming_of ctx d) of
           Some type_def \<Rightarrow> Nid ctx type_def
         | None \<Rightarrow>
             with_answer (by_first_decl (loop_fuel cprint) ctx d (getNextDeclInContext (naming_of ctx d)))
               (\<lambda>r. case r of
                  Some n \<Rightarrow> guard_ctor ''Nby_first_decl'' False [str n]
                | None \<Rightarrow> atomic_by_content cprint c d))
      else atomic_by_content cprint c d)"

section \<open>Structured names\<close>

definition printName_path :: "ClangPrinter \<Rightarrow> ptr \<Rightarrow> printer" where
  "printName_path cprint d =
     with_answer (getNonIgnorableAncestor (loop_fuel cprint) (getContext cprint) d) (\<lambda>c.
       if isTranslationUnit (getContext cprint) c then
         guard_ctor ''Nglobal'' False [printAtomicName cprint c d]
       else
         guard_ctor ''Nscoped'' False [rec_printName cprint c, nbsp, printAtomicName cprint c d])"

definition template_parameters_as_args :: "ClangPrinter \<Rightarrow> ptr \<Rightarrow> printer" where
  "template_parameters_as_args cprint dct =
     plist (getTemplateParameters (named_of (getContext cprint) dct)) (\<lambda>p.
       guard_ctor ''Atype'' False
         [guard_ctor ''Tparam'' False [str (getNameAsString (named_of (getContext cprint) p))]])"

definition described_template :: "ASTContext \<Rightarrow> ptr \<Rightarrow> ptr option" where
  "described_template ctx d =
     (if isaD ctx CXXRecordDecl d \<or> isaD ctx FunctionDecl d then getDescribedTemplate (naming_of ctx d)
      else None)"

definition structured_printName :: "CoqPrinter \<Rightarrow> ClangPrinter \<Rightarrow> ptr \<Rightarrow> printer" where
  "structured_printName print cprint d =
     (let ctx = getContext cprint in
      if isaD ctx NamedDecl d then
        (case reference_name print d of
           Some r \<Rightarrow> put r
         | None \<Rightarrow>
             (case described_template ctx d of
                Some dct \<Rightarrow>
                  guard_ctor ''Ninst'' True
                    [printName_path cprint d, nbsp, template_parameters_as_args cprint dct]
              | None \<Rightarrow>
                  (case recoverSpecialization ctx d of
                     Some (temp, args) \<Rightarrow>
                       seqP [ctor ''Ninst'' False,
                             printName_path cprint d,
                             nbsp, printTemplateArgumentList cprint args,
                             end_ctor]
                   | None \<Rightarrow> printName_path cprint d)))
      else stopA (AssertionFailed ''false''))"

definition printName :: "CoqPrinter \<Rightarrow> ClangPrinter \<Rightarrow> ptr \<Rightarrow> bool \<Rightarrow> printer" where
  "printName print cprint d full =
     (if full then withDecl (getContext cprint) d (structured_printName print cprint d)
      else case getDeclContext (named_of (getContext cprint) d) of
        None \<Rightarrow> die ''null context''
      | Some c \<Rightarrow> printAtomicName cprint c d)"

definition structured_printDtorName :: "CoqPrinter \<Rightarrow> ClangPrinter \<Rightarrow> ptr \<Rightarrow> printer" where
  "structured_printDtorName print cprint d =
     guard_ctor ''Nscoped'' False
       [structured_printName print cprint d, nbsp,
        guard_ctor ''Nfunction'' False
          [put ''function_qualifiers.N'', nbsp, put ''Ndtor'', nbsp, put ''nil'']]"

definition printDtorName :: "CoqPrinter \<Rightarrow> ClangPrinter \<Rightarrow> ptr \<Rightarrow> printer" where
  "printDtorName print cprint d = structured_printDtorName print cprint d"

definition printNameComment :: "ClangPrinter \<Rightarrow> ptr \<Rightarrow> printer" where
  "printNameComment cprint d =
     (if comment cprint \<and> isaD (getContext cprint) NamedDecl d then
        with_answer (printNameForDiagnostics (loop_fuel cprint) (getContext cprint) d) cmt
      else skip)"

definition printName_opt :: "ClangPrinter \<Rightarrow> ptr option \<Rightarrow> printer" where
  "printName_opt cprint p =
     (case p of Some d \<Rightarrow> rec_printName cprint d | None \<Rightarrow> die ''error: printName: null pointer'')"

definition printNameAsKey :: "ClangPrinter \<Rightarrow> ptr \<Rightarrow> printer" where
  "printNameAsKey cprint d = rec_printName cprint d"

definition printUnsupportedName :: "string \<Rightarrow> printer" where
  "printUnsupportedName msg = guard_ctor ''Nunsupported'' False [str msg]"

definition printUnqualifiedName :: "ClangPrinter \<Rightarrow> ptr \<Rightarrow> printer" where
  "printUnqualifiedName cprint d =
     (case getIdentifier (named_of (getContext cprint) d) of
        Some n \<Rightarrow> str n
      | None \<Rightarrow>
          seqP [diag UNSUPPORTED ''warning: unsupported unnamed, unqualified name'',
                str ''<unsupported unnamed, unqualified name>''])"

section \<open>Names that clang did not resolve\<close>

definition printDeclarationName :: "ClangPrinter \<Rightarrow> decl_name \<Rightarrow> printer" where
  "printDeclarationName cprint name =
     (case name of
        DNIdentifier n \<Rightarrow> guard_ctor ''Nid'' False [str (case n of Some t \<Rightarrow> t | None \<Rightarrow> [])]
      | _ \<Rightarrow> puts [''(Nunsupported '' @ [DQ] @ ''printDeclarationName('',
                   decimal (nameKindNumber (getContext cprint) name), '')'' @ [DQ] @ '')''])"

definition nns_unsupported :: "ASTContext \<Rightarrow> nns \<Rightarrow> printer" where
  "nns_unsupported ctx spec =
     seqP [diag UNSUPPORTED (''warning: unsupported unsupported NestedNameSpecifier ''
             @ decimal (nnsKindNumber ctx spec)),
           guard_ctor ''Nunsupported'' False
             [puts [[DQ] @ ''NestedNameSpecifier('', decimal (nnsKindNumber ctx spec), '')'' @ [DQ]]]]"

fun printNestedName :: "ClangPrinter \<Rightarrow> nns \<Rightarrow> printer" where
  "printNestedName cprint (NNSNamespace prefix ns) = rec_printName cprint ns"
| "printNestedName cprint (NNSNamespaceAlias prefix nsa) = rec_printName cprint nsa"
| "printNestedName cprint (NNSType prefix t) =
     guard_ctor ''Ndependent'' False [printType_opt cprint (Some t)]"
| "printNestedName cprint (NNSIdentifier prefix n) =
     (case prefix of
        None \<Rightarrow> guard_ctor ''Nglobal'' False [guard_ctor ''Nid'' False [str n]]
      | Some NNSGlobal \<Rightarrow> guard_ctor ''Nglobal'' False [guard_ctor ''Nid'' False [str n]]
      | Some p \<Rightarrow>
          guard_ctor ''Nscoped'' False
            [printNestedName cprint p, nbsp, guard_ctor ''Nid'' False [str n]])"
| "printNestedName cprint spec = nns_unsupported (getContext cprint) spec"

definition unresolved_name :: "ClangPrinter \<Rightarrow> nns option \<Rightarrow> decl_name \<Rightarrow> printer" where
  "unresolved_name cprint nn name =
     (case nn of
        None \<Rightarrow> guard_ctor ''Nlocal'' False [printDeclarationName cprint name]
      | Some NNSGlobal \<Rightarrow> guard_ctor ''Nglobal'' False [printDeclarationName cprint name]
      | Some spec \<Rightarrow>
          guard_ctor ''Nscoped'' False
            [printNestedName cprint spec, nbsp, printDeclarationName cprint name])"

definition printUnresolvedName :: "ClangPrinter \<Rightarrow> nns option \<Rightarrow> decl_name \<Rightarrow> targ list \<Rightarrow> printer" where
  "printUnresolvedName cprint nn name template_args =
     (if template_args = [] then unresolved_name cprint nn name
      else guard_ctor ''Ninst'' False
             [unresolved_name cprint nn name, nbsp, printTemplateArgumentList cprint template_args])"

section \<open>The contract\<close>

text \<open>The searches never stop on an assertion.\<close>

lemma collectParameterLists_error: "collectParameterLists n ctx d = Inl x \<Longrightarrow> \<not> indent_error x"
proof (induction n arbitrary: d)
  case 0
  then show ?case
    by (auto simp: collectParameterLists.simps [of 0 ctx d] split: option.splits)
next
  case (Suc n)
  then show ?case
    by (auto simp: Let_def collectParameterLists.simps [of "Suc n" ctx d] split: option.splits sum.splits)
qed

lemma collectArgumentLists_error: "collectArgumentLists n ctx d = Inl x \<Longrightarrow> \<not> indent_error x"
proof (induction n arbitrary: d)
  case 0
  then show ?case
    by (auto simp: collectArgumentLists.simps [of 0 ctx d] split: option.splits)
next
  case (Suc n)
  then show ?case
    by (auto simp: collectArgumentLists.simps [of "Suc n" ctx d] split: option.splits sum.splits)
qed

lemma getNonIgnorableAncestor_error: "getNonIgnorableAncestor n ctx d = Inl x \<Longrightarrow> \<not> indent_error x"
proof -
  have "ancestor_loop n ctx p = Inl x \<Longrightarrow> \<not> indent_error x" for n p
  proof (induction n arbitrary: p)
    case 0
    then show ?case by (auto simp: ancestor_loop.simps [of 0 ctx p] split: option.splits if_splits)
  next
    case (Suc n)
    then show ?case by (auto simp: ancestor_loop.simps [of "Suc n" ctx p] split: option.splits if_splits)
  qed
  then show "getNonIgnorableAncestor n ctx d = Inl x \<Longrightarrow> \<not> indent_error x"
    by (auto simp: getNonIgnorableAncestor_def split: option.splits)
qed

lemma getAnonymousIndex_error: "getAnonymousIndex n ctx c d = Inl x \<Longrightarrow> \<not> indent_error x"
proof -
  have "anonymous_loop n ctx d xs acc = Inl x \<Longrightarrow> \<not> indent_error x" for n xs acc
    by (induction n ctx d xs acc rule: anonymous_loop.induct)
      (auto split: nat.splits if_splits sum.splits prod.splits)
  then show "getAnonymousIndex n ctx c d = Inl x \<Longrightarrow> \<not> indent_error x"
    by (auto simp: getAnonymousIndex_def split: sum.splits prod.splits if_splits)
qed

lemma by_first_decl_error: "by_first_decl n ctx td b = Inl x \<Longrightarrow> \<not> indent_error x"
proof -
  have r: "reaches_tu n ctx i = Inl x \<Longrightarrow> \<not> indent_error x" for n ctx i
    by (induction n ctx i rule: reaches_tu.induct) (auto split: nat.splits if_splits)
  show "by_first_decl n ctx td b = Inl x \<Longrightarrow> \<not> indent_error x"
    by (induction n ctx td b rule: by_first_decl.induct)
      (auto split: option.splits sum.splits nat.splits bool.splits if_splits dest: r)
qed

lemma steps_with_answer:
  assumes "\<And>x. r = Inl x \<Longrightarrow> \<not> indent_error x" and "\<And>a. r = Inr a \<Longrightarrow> steps i d j e (f a)"
  shows "steps i d j e (with_answer r f)"
  using assms by (cases r) (auto simp: with_answer_def intro: steps_stop)

lemma steps_name_unsupported [printer_intros]:
  "balanced c \<Longrightarrow> steps i d i d (name_unsupported c msg)"
  unfolding name_unsupported_def by (rule printer_intros | assumption)+

lemma steps_printOverloadableOperator:
  "printable_operator k \<Longrightarrow> steps i d i d (printOverloadableOperator k)"
  unfolding printOverloadableOperator_def Let_def
  by (cases k) (simp_all, (rule printer_intros | (simp; fail))+)

lemma steps_unsupported_argument [printer_intros]: "steps i d i d (unsupported_argument a)"
  unfolding unsupported_argument_def by (rule printer_intros | (simp; fail))+

lemma steps_unsupported_atomic [printer_intros]: "steps i d i d (atomic_unsupported a)"
  unfolding atomic_unsupported_def by (rule printer_intros | (simp; fail))+

lemma steps_Nid [printer_intros]: "steps i d i d (Nid ctx a)" "steps i d i d (ident ctx a)"
  unfolding ident_def Nid_def by (rule printer_intros | (simp; fail))+

lemma steps_in_translation_unit [printer_intros]:
  "(\<And>b. steps i d i d (f b)) \<Longrightarrow> steps i d i d (in_translation_unit ctx c f)"
  unfolding in_translation_unit_def by (rule printer_intros | assumption)+

lemma steps_ident_or_anon [printer_intros]: "steps i d i d (ident_or_anon cprint c x m)"
  unfolding ident_or_anon_def Let_def
  by (rule printer_intros steps_with_answer | erule getAnonymousIndex_error | (simp; fail))+

lemma steps_nns_unsupported [printer_intros]: "steps i d i d (nns_unsupported ctx spec)"
proof -
  have "balanced (concat [[DQ] @ ''NestedNameSpecifier('', decimal k, '')'' @ [DQ]])" for k
    using plain_decimal [of k] balanced_quoted [of "''NestedNameSpecifier('' @ decimal k @ '')''"]
    unfolding plain_def by simp
  then show ?thesis
    unfolding nns_unsupported_def by - (rule printer_intros | assumption | (simp; fail))+
qed

lemma steps_printDeclarationName [printer_intros]: "steps i d i d (printDeclarationName cprint n)"
proof -
  have "balanced (concat [''(Nunsupported '' @ [DQ] @ ''printDeclarationName('', decimal k, '')'' @ [DQ] @ '')''])"
    for k
    using plain_decimal [of k] unfolding plain_def
    by (simp add: balanced_def lex_InStr)
  then show ?thesis
    unfolding printDeclarationName_def
    by (cases n) (simp_all only: decl_name.case, (rule printer_intros | assumption | (simp; fail))+)
qed

context safe_printers
begin

lemma steps_printTemplateParameter [printer_intros]:
  "ok \<Longrightarrow> steps i d i d (printTemplateParameter cprint as_arg p)"
proof -
  assume o': ok
  have u: "steps i d i d (name_unsupported (if as_arg then ''Aunsupported'' else ''Punsupported'') m)" for m
    by (rule steps_name_unsupported) simp
  show ?thesis
    unfolding printTemplateParameter_def Let_def
    by (rule u printer_intros o' | (simp; fail)
        | split DeclKind.split, intro conjI impI)+
qed

lemma steps_printTemplateParameters [printer_intros]:
  "ok \<Longrightarrow> steps i d i d (printTemplateParameters cprint as_arg c)"
  unfolding printTemplateParameters_def
  by (rule printer_intros steps_with_answer steps_map | erule collectParameterLists_error | assumption
      | (simp; fail))+

lemma steps_printTemplateArgument [printer_intros]:
  assumes ok
  shows "steps i d i d (printTemplateArgument cprint a)"
proof (induction a arbitrary: i d rule: targ.induct)
  case (TAPack args)
  show ?case
    unfolding printTemplateArgument.simps
    by (rule printer_intros TAPack assms | assumption | (simp; fail))+
qed (insert assms,
    (simp only: printTemplateArgument.simps, (rule printer_intros | assumption | (simp; fail))+)+)

lemma steps_printTemplateArgumentList:
  "ok \<Longrightarrow> steps i d i d (printTemplateArgumentList cprint args)"
  unfolding printTemplateArgumentList_def by (rule printer_intros | assumption)+

lemma steps_printTemplateArguments [printer_intros]:
  "ok \<Longrightarrow> steps i d i d (printTemplateArguments cprint c)"
  unfolding printTemplateArguments_def
  by (rule printer_intros steps_with_answer steps_map | erule collectArgumentLists_error | assumption
      | (simp; fail))+

lemma steps_function_name [printer_intros]:
  assumes ok
  shows "steps i d i d (function_name cprint c)"
proof -
  have 1: "steps i d i d (printFunctionQualifiers cprint c)" for i d
    unfolding printFunctionQualifiers_def Let_def
    by (rule printer_intros steps_puts | (simp add: const_volatile_cat_def split: RefQualifierKind.split; fail))+
  have "printable_declname (getDeclName (naming_of (getContext cprint) c))"
    using assms by (simp add: printable_def)
  then have 2: "steps i d i d (printFunctionName cprint c)" for i d
    unfolding printFunctionName_def Let_def using assms
    by (cases "getDeclName (naming_of (getContext cprint) c)")
      (simp_all only: decl_name.case printable_declname.simps,
       (rule printer_intros steps_printOverloadableOperator | assumption | (simp; fail))+)
  have 3: "steps i d i d (printFunctionParamTypes cprint c)" for i d
    unfolding printFunctionParamTypes_def Let_def using assms
    by - (rule printer_intros | assumption)+
  show ?thesis
    unfolding function_name_def by (rule printer_intros 1 2 3 | (simp; fail))+
qed

lemma steps_atomic_by_kind [printer_intros]: "ok \<Longrightarrow> steps i d i d (atomic_by_kind cprint c x)"
  unfolding atomic_by_kind_def Let_def by (rule printer_intros | assumption)+

lemma steps_atomic_by_content [printer_intros]: "ok \<Longrightarrow> steps i d i d (atomic_by_content cprint c x)"
  unfolding atomic_by_content_def Let_def by (rule printer_intros | assumption | (simp; fail))+

lemma steps_printAtomicName [printer_intros]: "ok \<Longrightarrow> steps i d i d (printAtomicName cprint c x)"
  unfolding printAtomicName_def Let_def
  by (rule printer_intros steps_with_answer | erule by_first_decl_error | assumption | (simp; fail))+

lemma steps_printName_path [printer_intros]: "ok \<Longrightarrow> steps i d i d (printName_path cprint c)"
  unfolding printName_path_def
  by (rule printer_intros steps_with_answer | erule getNonIgnorableAncestor_error | assumption
      | (simp; fail))+

lemma steps_template_parameters_as_args [printer_intros]:
  "steps i d i d (template_parameters_as_args cprint c)"
  unfolding template_parameters_as_args_def by (rule printer_intros | (simp; fail))+

lemma steps_reference [printer_intros]:
  "reference_name print c = Some r \<Longrightarrow> steps i d i d (put r)"
  by (rule steps_put)
    (auto simp: reference_name_def nc_reference_def Let_def NAME_PREFIX_def split: if_splits)

lemma steps_structured_printName [printer_intros]:
  assumes ok
  shows "steps i d i d (structured_printName print cprint c)"
  unfolding structured_printName_def Let_def
  by (rule steps_if steps_case_option steps_reference | assumption
      | rule steps_printTemplateArgumentList printer_intros assms | (simp; fail))+

lemma steps_printName: "ok \<Longrightarrow> steps i d i d (printName print cprint c full)"
  unfolding printName_def by (rule printer_intros | assumption)+

lemma steps_printDtorName [printer_intros]: "ok \<Longrightarrow> steps i d i d (printDtorName print cprint c)"
  unfolding printDtorName_def structured_printDtorName_def
  by (rule printer_intros | assumption | (simp; fail))+

lemma steps_printName_opt [printer_intros]:
  "ok \<Longrightarrow> steps i d i d (printName_opt cprint p)" "ok \<Longrightarrow> steps i d i d (printNameAsKey cprint c)"
  unfolding printName_opt_def printNameAsKey_def by (rule printer_intros | assumption)+

lemma steps_printUnqualifiedName [printer_intros]:
  "steps i d i d (printUnqualifiedName cprint c)" "steps i d i d (printUnsupportedName m)"
  unfolding printUnqualifiedName_def printUnsupportedName_def
  by (rule printer_intros | (simp; fail))+

lemma steps_printNestedName [printer_intros]:
  assumes ok
  shows "steps i d i d (printNestedName cprint spec)"
proof (induction spec arbitrary: i d rule: nns.induct)
  case (NNSIdentifier prefix n)
  show ?case
    by (subst printNestedName.simps)
      (rule printer_intros NNSIdentifier assms | (simp; fail) | split nns.split, intro conjI allI impI)+
qed (insert assms,
    (simp only: printNestedName.simps, (rule printer_intros | assumption | (simp; fail))+)+)

lemma steps_unresolved_name [printer_intros]:
  "ok \<Longrightarrow> steps i d i d (unresolved_name cprint nn n)"
  unfolding unresolved_name_def
  by (rule printer_intros | assumption | (simp; fail) | split nns.split, intro conjI allI impI)+

lemma steps_printUnresolvedName: "ok \<Longrightarrow> steps i d i d (printUnresolvedName cprint nn n args)"
  unfolding printUnresolvedName_def
  by (rule printer_intros steps_printTemplateArgumentList | assumption | (simp; fail))+

end

end
