(* ===== verification/Location.thy ===== *)
theory Location
  imports PrintName
begin

text \<open>
  Model of \<open>include/Location.hpp\<close> and \<open>src/Location.cpp\<close>: the sum of the AST objects a diagnostic can be
  about, their source locations, and the texts that describe them.  A source location is the raw
  encoding of clang, which is valid when it is not 0.  What clang prints for locations, ranges, classes
  of nodes and dumps are the tables of \<open>source_info\<close>.
\<close>

type_synonym SourceLocation = "32 word"

definition invalid_loc :: SourceLocation where "invalid_loc = 0"

definition loc_valid :: "SourceLocation \<Rightarrow> bool" where "loc_valid l \<longleftrightarrow> l \<noteq> 0"

record source_info =
  decl_poi :: "ptr \<Rightarrow> SourceLocation"
  decl_begin :: "ptr \<Rightarrow> SourceLocation"
  decl_range :: "ptr \<Rightarrow> string"
  decl_dump :: "ptr \<Rightarrow> string"
  stmt_begin :: "ptr \<Rightarrow> SourceLocation"
  stmt_class :: "ptr \<Rightarrow> string"
  stmt_dump :: "ptr \<Rightarrow> string"
  type_class_name :: "ptr \<Rightarrow> string"
  type_dump :: "ptr \<Rightarrow> string"
  qual_dump :: "QualType \<Rightarrow> string"
  argument_print :: "targ \<Rightarrow> string"
  argument_dump :: "targ \<Rightarrow> string"
  location_print :: "SourceLocation \<Rightarrow> string"

section \<open>The sum and its introduction\<close>

text \<open>A \<open>TypeLoc\<close> and a \<open>TypeSourceInfo\<close> are a type with the place where it starts.\<close>

datatype Loc =
  LocDecl ptr
| LocStmt ptr
| LocTypeLoc QualType SourceLocation
| LocQualType QualType
| LocType ptr
| LocTsi QualType SourceLocation
| LocTal targ SourceLocation
| LocLocation SourceLocation

type_synonym loc = "Loc option"

definition boxed :: "Loc \<Rightarrow> QualType \<Rightarrow> loc" where
  "boxed l q = (if getTypePtrOrNull q \<noteq> None then Some l else None)"

definition mk_TypeLoc :: "QualType \<Rightarrow> SourceLocation \<Rightarrow> loc" where
  "mk_TypeLoc q b = boxed (LocTypeLoc q b) q"

definition mk_TypeSourceInfo :: "QualType \<Rightarrow> SourceLocation \<Rightarrow> loc" where
  "mk_TypeSourceInfo q b = boxed (LocTsi q b) q"

definition mk_QualType :: "QualType \<Rightarrow> loc" where
  "mk_QualType q = boxed (LocQualType q) q"

text \<open>\<open>of\<close> for a pointer; the constructors that cannot go wrong are the functions \<open>f\<close>.\<close>

definition loc_of_ptr :: "('a \<Rightarrow> loc) \<Rightarrow> 'a option \<Rightarrow> loc" where
  "loc_of_ptr f p = (case p of None \<Rightarrow> None | Some x \<Rightarrow> f x)"

definition loc_of_decl :: "ptr \<Rightarrow> loc" where "loc_of_decl d = Some (LocDecl d)"

section \<open>Source locations\<close>

definition pointOfInstantiation :: "source_info \<Rightarrow> ASTContext \<Rightarrow> ptr \<Rightarrow> SourceLocation" where
  "pointOfInstantiation si ctx d =
     (if isaD ctx ClassTemplateSpecializationDecl d then decl_poi si d
      else case recoverFunction ctx d of
        Some fd \<Rightarrow> decl_poi si fd
      | None \<Rightarrow>
          if isaD ctx VarTemplateSpecializationDecl d then decl_poi si d else invalid_loc)"

definition getDeclLoc :: "source_info \<Rightarrow> ASTContext \<Rightarrow> ptr \<Rightarrow> SourceLocation" where
  "getDeclLoc si ctx d =
     (let l = pointOfInstantiation si ctx d in if loc_valid l then l else decl_begin si d)"

fun getLoc :: "source_info \<Rightarrow> ASTContext \<Rightarrow> Loc \<Rightarrow> SourceLocation" where
  "getLoc si ctx (LocDecl d) = getDeclLoc si ctx d"
| "getLoc si ctx (LocStmt s) = stmt_begin si s"
| "getLoc si ctx (LocTypeLoc q b) = b"
| "getLoc si ctx (LocTsi q b) = b"
| "getLoc si ctx (LocQualType q) = invalid_loc"
| "getLoc si ctx (LocType t) = invalid_loc"
| "getLoc si ctx (LocTal a b) = b"
| "getLoc si ctx (LocLocation l) = l"

definition loc_refine :: "source_info \<Rightarrow> ASTContext \<Rightarrow> loc \<Rightarrow> loc \<Rightarrow> loc" where
  "loc_refine si ctx fallback l =
     (case l of
        Some x \<Rightarrow> if loc_valid (getLoc si ctx x) then l else fallback
      | None \<Rightarrow> fallback)"

section \<open>Descriptions\<close>

text \<open>A null type is dereferenced; \<open>Loc\<close> is built so that this does not happen.\<close>

definition describe_qualtype :: "source_info \<Rightarrow> ASTContext \<Rightarrow> QualType \<Rightarrow> stop + string" where
  "describe_qualtype si ctx q =
     (case getTypePtrOrNull q of
        None \<Rightarrow> Inl (AssertionFailed ''null type'')
      | Some t \<Rightarrow> Inr (type_class_name si t @ '' '' @ QualType_print ctx q))"

fun describe :: "source_info \<Rightarrow> nat \<Rightarrow> ASTContext \<Rightarrow> Loc \<Rightarrow> stop + string" where
  "describe si fuel ctx (LocDecl d) =
     (if isaD ctx NamedDecl d then
        map_sum id (\<lambda>t. getDeclKindName ctx d @ '' '' @ t) (printNameForDiagnostics fuel ctx d)
      else Inr (getDeclKindName ctx d))"
| "describe si fuel ctx (LocStmt s) = Inr (stmt_class si s)"
| "describe si fuel ctx (LocTypeLoc q b) = describe_qualtype si ctx q"
| "describe si fuel ctx (LocTsi q b) = describe_qualtype si ctx q"
| "describe si fuel ctx (LocQualType q) = describe_qualtype si ctx q"
| "describe si fuel ctx (LocType t) = describe_qualtype si ctx (qual0 t)"
| "describe si fuel ctx (LocTal a b) = Inr (argument_print si a)"
| "describe si fuel ctx (LocLocation l) = Inr (location_print si l)"

fun loc_dump :: "source_info \<Rightarrow> Loc \<Rightarrow> string" where
  "loc_dump si (LocDecl d) = decl_dump si d"
| "loc_dump si (LocStmt s) = stmt_dump si s"
| "loc_dump si (LocTypeLoc q b) = qual_dump si q"
| "loc_dump si (LocTsi q b) = qual_dump si q"
| "loc_dump si (LocQualType q) = qual_dump si q"
| "loc_dump si (LocType t) = type_dump si t"
| "loc_dump si (LocTal a b) = argument_dump si a"
| "loc_dump si (LocLocation l) = location_print si l"

section \<open>What is written to a stream\<close>

definition can_describe :: "loc \<Rightarrow> bool" where "can_describe l \<longleftrightarrow> l \<noteq> None"

definition show_describe :: "source_info \<Rightarrow> nat \<Rightarrow> ASTContext \<Rightarrow> loc \<Rightarrow> stop + string" where
  "show_describe si fuel ctx l = (case l of None \<Rightarrow> Inr [] | Some x \<Rightarrow> describe si fuel ctx x)"

definition show_dump :: "source_info \<Rightarrow> loc \<Rightarrow> ptr option \<Rightarrow> string" where
  "show_dump si l d =
     (case l of None \<Rightarrow> [] | Some x \<Rightarrow> loc_dump si x)
     @ (if l \<noteq> None \<and> d \<noteq> None then CHR 0x09 # ''inside'' @ [NL] else [])
     @ (case d of None \<Rightarrow> [] | Some x \<Rightarrow> decl_dump si x)
     @ (if l \<noteq> None \<or> d \<noteq> None then [NL] else [])"

definition can_addr :: "source_info \<Rightarrow> ASTContext \<Rightarrow> loc \<Rightarrow> ptr option \<Rightarrow> bool" where
  "can_addr si ctx l d \<longleftrightarrow>
     (case l of None \<Rightarrow> False | Some x \<Rightarrow> loc_valid (getLoc si ctx x)) \<or> d \<noteq> None"

definition show_range :: "source_info \<Rightarrow> ptr option \<Rightarrow> string" where
  "show_range si d = (case d of None \<Rightarrow> [] | Some x \<Rightarrow> decl_range si x)"

definition show_addr :: "source_info \<Rightarrow> ASTContext \<Rightarrow> loc \<Rightarrow> ptr option \<Rightarrow> string" where
  "show_addr si ctx l d =
     (case l of
        Some x \<Rightarrow>
          let src = getLoc si ctx x in
          if loc_valid src then location_print si src else show_range si d
      | None \<Rightarrow> show_range si d)"

definition show_prefix :: "source_info \<Rightarrow> nat \<Rightarrow> ASTContext \<Rightarrow> loc \<Rightarrow> ptr option \<Rightarrow> stop + string" where
  "show_prefix si fuel ctx l d =
     (case l of
        Some x \<Rightarrow>
          (let src = getLoc si ctx x;
               place = (if loc_valid src then location_print si src @ '' ''
                        else case d of Some y \<Rightarrow> decl_range si y @ '' '' | None \<Rightarrow> []) in
           map_sum id (\<lambda>t. place @ [LPAR] @ t @ [RPAR] @ '': '') (describe si fuel ctx x))
      | None \<Rightarrow>
          Inr (case d of Some y \<Rightarrow> decl_range si y @ '': '' | None \<Rightarrow> []))"

definition can_trace :: "loc \<Rightarrow> ptr option \<Rightarrow> bool" where "can_trace l d \<longleftrightarrow> l \<noteq> None"

definition show_trace :: "source_info \<Rightarrow> nat \<Rightarrow> ASTContext \<Rightarrow> loc \<Rightarrow> ptr option \<Rightarrow> stop + string" where
  "show_trace si fuel ctx l d =
     (case l of
        None \<Rightarrow> Inr []
      | Some x \<Rightarrow>
          (let src = getLoc si ctx x in
           map_sum id
             (\<lambda>t. t @ (if loc_valid src then '' at '' @ location_print si src
                       else case d of Some y \<Rightarrow> '' in '' @ decl_range si y | None \<Rightarrow> []))
             (describe si fuel ctx x)))"

text \<open>The warnings of the printer of names, which cannot use the locations above.\<close>

definition locfree_warn :: "source_info \<Rightarrow> ASTContext \<Rightarrow> ptr \<Rightarrow> string \<Rightarrow> (Level \<times> string) list" where
  "locfree_warn si ctx d msg =
     [(UNSUPPORTED,
       (let src = decl_begin si d in if loc_valid src then location_print si src @ '' '' else [])
       @ [LPAR] @ getDeclKindName ctx d
       @ (if isaD ctx NamedDecl d then '' '' @ nameForDiagnostic (naming_of ctx d) else [])
       @ [RPAR] @ '': warning: '' @ msg @ [NL]),
      (VERBOSER, decl_dump si d)]"

section \<open>Well-formed locations\<close>

text \<open>The invariant of the private constructors: a type that is boxed is not null.\<close>

fun loc_wf :: "Loc \<Rightarrow> bool" where
  "loc_wf (LocTypeLoc q b) \<longleftrightarrow> getTypePtrOrNull q \<noteq> None"
| "loc_wf (LocTsi q b) \<longleftrightarrow> getTypePtrOrNull q \<noteq> None"
| "loc_wf (LocQualType q) \<longleftrightarrow> getTypePtrOrNull q \<noteq> None"
| "loc_wf l \<longleftrightarrow> True"

lemma loc_wf_mk:
  "mk_TypeLoc q b = Some l \<Longrightarrow> loc_wf l" "mk_TypeSourceInfo q b = Some l \<Longrightarrow> loc_wf l"
  "mk_QualType q = Some l \<Longrightarrow> loc_wf l"
  by (auto simp: mk_TypeLoc_def mk_TypeSourceInfo_def mk_QualType_def boxed_def split: if_splits)

lemma describe_wf:
  assumes "loc_wf l" and "describe si fuel ctx l = Inl x"
  shows "\<exists>d. l = LocDecl d \<and> printNameForDiagnostics fuel ctx d = Inl x"
  using assms
  by (cases l) (auto simp: describe_qualtype_def qual0_def map_sum_def split: option.splits if_splits sum.splits)

text \<open>The values that the interface of \<open>loc\<close> can build.\<close>

inductive constructible :: "source_info \<Rightarrow> ASTContext \<Rightarrow> loc \<Rightarrow> bool" for si ctx where
  no_loc: "constructible si ctx None"
| of_TypeLoc: "constructible si ctx (mk_TypeLoc q b)"
| of_TypeSourceInfo: "constructible si ctx (mk_TypeSourceInfo q b)"
| of_QualType: "constructible si ctx (mk_QualType q)"
| of_decl: "constructible si ctx (loc_of_decl d)"
| of_stmt: "constructible si ctx (Some (LocStmt s))"
| of_type: "constructible si ctx (Some (LocType t))"
| of_argument: "constructible si ctx (Some (LocTal a b))"
| of_location: "constructible si ctx (Some (LocLocation l))"
| of_pointer: "(\<And>x :: ptr. constructible si ctx (f x)) \<Longrightarrow> constructible si ctx (loc_of_ptr f p)"
| of_boxed_pointer: "(\<And>x :: QualType \<times> SourceLocation. constructible si ctx (g x)) \<Longrightarrow> constructible si ctx (loc_of_ptr g q)"
| refined: "constructible si ctx fallback \<Longrightarrow> constructible si ctx l \<Longrightarrow> constructible si ctx (loc_refine si ctx fallback l)"

lemma constructible_wf: "constructible si ctx l \<Longrightarrow> l = Some x \<Longrightarrow> loc_wf x"
proof (induction arbitrary: x rule: constructible.induct)
  case (of_pointer f p)
  then show ?case by (cases p) (auto simp: loc_of_ptr_def)
next
  case (of_boxed_pointer g q)
  then show ?case by (cases q) (auto simp: loc_of_ptr_def)
next
  case (refined fallback l)
  then show ?case by (auto simp: loc_refine_def split: option.splits if_splits)
qed (auto simp: loc_wf_mk loc_of_decl_def)

lemma collectParameterLists_ends:
  assumes "\<forall>d c. getDeclContext (named_of ctx d) = Some c \<longrightarrow> r c < r d"
  shows "r d \<le> n \<Longrightarrow> \<exists>y. collectParameterLists n ctx d = Inr y"
proof (induction n arbitrary: d)
  case 0
  have "getDeclContext (named_of ctx d) = None"
    using assms 0 by (cases "getDeclContext (named_of ctx d)") (auto dest: spec [of _ d])
  then show ?case by (simp add: collectParameterLists.simps [of 0])
next
  case (Suc n)
  show ?case
  proof (cases "getDeclContext (named_of ctx d)")
    case (Some c)
    with assms Suc.prems have "r c \<le> n" by fastforce
    from Suc.IH [OF this] Some show ?thesis
      by (auto simp: collectParameterLists.simps [of "Suc n"] Let_def split: option.split)
  qed (simp add: collectParameterLists.simps [of "Suc n"])
qed

lemma printNameForDiagnostics_ends:
  assumes "\<forall>d c. getDeclContext (named_of ctx d) = Some c \<longrightarrow> r c < r d" and "r d \<le> fuel"
  shows "printNameForDiagnostics fuel ctx d \<noteq> Inl x"
  using collectParameterLists_ends [OF assms]
  by (auto simp: printNameForDiagnostics_def diagnostic_parameters_def split: sum.split)

text \<open>
  C31. The interface of locations lets no null type in: whatever location a program builds with it, by its factories, from
  pointers or by refinement, its description, prefix and trace are written without the stop of a null type, as soon as
  the declarations are nested finitely deep.
\<close>

theorem constructible_describes:
  assumes "constructible si ctx l"
    and "\<forall>d c. getDeclContext (named_of ctx d) = Some c \<longrightarrow> r c < r d" and "\<forall>d. r d \<le> fuel"
  shows "(\<exists>t. show_describe si fuel ctx l = Inr t) \<and> (\<exists>t. show_prefix si fuel ctx l d = Inr t)
    \<and> (\<exists>t. show_trace si fuel ctx l d = Inr t)"
proof -
  have "describe si fuel ctx y \<noteq> Inl x" if "l = Some y" for x y
    using describe_wf [OF constructible_wf [OF assms(1) that], of si fuel ctx x]
      printNameForDiagnostics_ends [where r = r, OF assms(2) assms(3) [rule_format]] by blast
  then have "\<exists>t. describe si fuel ctx y = Inr t" if "l = Some y" for y
    using that by (cases "describe si fuel ctx y") auto
  then show ?thesis
    by (cases l) (auto simp: show_describe_def show_prefix_def show_trace_def Let_def)
qed

section \<open>The tests\<close>

lemma describe_nonempty:
  assumes "\<forall>x. getDeclKindName ctx x \<noteq> [] \<and> stmt_class si x \<noteq> []" and "\<forall>a. argument_print si a \<noteq> []"
    and "\<forall>p. location_print si p \<noteq> []"
  shows "describe si fuel ctx l \<noteq> Inr []"
  using assms
  by (cases l) (auto simp: describe_qualtype_def map_sum_def split: option.splits sum.splits)

text \<open>
  As long as clang prints something for classes of nodes, ranges, arguments and locations, the tests
  \<open>can_describe\<close>, \<open>can_addr\<close> and \<open>can_trace\<close> tell exactly when something is written, and
  a prefix and a dump are empty only when there is neither a location nor a declaration.
\<close>

theorem can_tests_exact:
  assumes "\<forall>x. getDeclKindName ctx x \<noteq> [] \<and> stmt_class si x \<noteq> []" and "\<forall>a. argument_print si a \<noteq> []"
    and "\<forall>p. location_print si p \<noteq> []" and "\<forall>x. decl_range si x \<noteq> []"
  shows "(can_describe l \<longleftrightarrow> show_describe si fuel ctx l \<noteq> Inr [])
    \<and> (can_addr si ctx l d \<longleftrightarrow> show_addr si ctx l d \<noteq> [])
    \<and> (can_trace l d \<longleftrightarrow> show_trace si fuel ctx l d \<noteq> Inr [])
    \<and> (l \<noteq> None \<or> d \<noteq> None \<longleftrightarrow> show_prefix si fuel ctx l d \<noteq> Inr [])
    \<and> (l \<noteq> None \<or> d \<noteq> None \<longleftrightarrow> show_dump si l d \<noteq> [])"
  using describe_nonempty [OF assms(1-3)] assms(3,4)
  by (auto simp: can_describe_def show_describe_def can_addr_def show_addr_def show_range_def can_trace_def
      show_trace_def show_prefix_def show_dump_def Let_def map_sum_def split: option.splits sum.splits)

definition source_info0 :: source_info where
  "source_info0 = \<lparr>decl_poi = (\<lambda>_. 0), decl_begin = (\<lambda>_. 7), decl_range = (\<lambda>_. ''a.cpp:1''),
     decl_dump = (\<lambda>_. []), stmt_begin = (\<lambda>_. 0), stmt_class = (\<lambda>_. ''Stmt''), stmt_dump = (\<lambda>_. []),
     type_class_name = (\<lambda>_. ''Builtin''), type_dump = (\<lambda>_. []), qual_dump = (\<lambda>_. []),
     argument_print = (\<lambda>_. ''int''), argument_dump = (\<lambda>_. []), location_print = (\<lambda>_. ''a.cpp:1:1'')\<rparr>"

theorem can_tests_exact_witness:
  "let ctx = ast0\<lparr>getDeclKindName := (\<lambda>_. ''Var''), QualType_print := (\<lambda>_. ''int'')\<rparr>; l = mk_QualType (qual0 0) in
   show_trace source_info0 1 ctx l (Some 3) = Inr ''Builtin int in a.cpp:1''
   \<and> can_trace l (Some 3) \<and> show_addr source_info0 ctx None None = [] \<and> \<not> can_addr source_info0 ctx None None"
proof -
  let ?ctx = "ast0\<lparr>getDeclKindName := (\<lambda>_. ''Var''), QualType_print := (\<lambda>_. ''int'')\<rparr>"
  have t: "show_trace source_info0 1 ?ctx (mk_QualType (qual0 0)) (Some 3) = Inr ''Builtin int in a.cpp:1''"
    by code_simp
  have "(can_trace l (Some 3) \<longleftrightarrow> show_trace source_info0 1 ?ctx l (Some 3) \<noteq> Inr [])
     \<and> (can_addr source_info0 ?ctx l d \<longleftrightarrow> show_addr source_info0 ?ctx l d \<noteq> [])" for l d
    using can_tests_exact [where ctx = ?ctx and si = source_info0 and l = l and fuel = 1]
    by (simp add: source_info0_def)
  with t show ?thesis
    by (simp add: Let_def show_addr_def show_range_def)
qed

text \<open>A location of a type without a place of its own, refined by one of a declaration (3) in the translation unit (0).\<close>

theorem constructible_describes_witness:
  "let ctx = ast0\<lparr>getDeclKindName := (\<lambda>_. ''Var''), QualType_print := (\<lambda>_. ''int''),
                  named_of := (\<lambda>d. named0\<lparr>getDeclContext := (if d = 0 then None else Some 0)\<rparr>)\<rparr>;
       l = loc_refine source_info0 ctx (loc_of_decl 3) (mk_QualType (qual0 0))
   in l = Some (LocDecl 3) \<and> (\<exists>t. show_describe source_info0 1 ctx l = Inr t) \<and> mk_QualType (QualType.make None False False) = None"
  (is "let ctx = ?ctx; l = ?l ctx in _")
proof -
  have "constructible source_info0 ?ctx (?l ?ctx)" by (intro refined of_decl of_QualType)
  moreover have "\<forall>d c. getDeclContext (named_of ?ctx d) = Some c \<longrightarrow> (if c = 0 then 0 else 1) < (if d = 0 then (0::nat) else 1)"
    by simp
  moreover have "\<forall>d. (if d = 0 then (0::nat) else 1) \<le> 1" by simp
  ultimately have "\<exists>t. show_describe source_info0 1 ?ctx (?l ?ctx) = Inr t"
    using constructible_describes [of source_info0 ?ctx "?l ?ctx" "\<lambda>d. if d = 0 then 0 else 1" 1 None] by blast
  then show ?thesis
    by (simp add: Let_def loc_refine_def mk_QualType_def boxed_def qual0_def loc_valid_def invalid_loc_def loc_of_decl_def
        QualType.defs)
qed

end
