(* ===== verification/DeclComments.thy ===== *)
theory DeclComments
  imports CommentScanner Location
begin

text \<open>
  Model of \<open>src/CommentScanner.cpp\<close>: the text in front of a declaration in which its comments are looked for.  It starts
  where the previous declaration ends, or at the start of the file, and ends at the comment that clang attaches to the
  declaration, or at the declaration.  What the source manager answers is the record \<open>source_manager\<close>; the
  characters of the program are a memory, in which a \<open>StringRef\<close> is a range.
\<close>

record source_manager =
  raw_comment_begin :: "ptr \<Rightarrow> SourceLocation option"
  range_begin :: "ptr \<Rightarrow> SourceLocation"
  range_end :: "ptr \<Rightarrow> SourceLocation"
  file_start :: "SourceLocation \<Rightarrow> SourceLocation"
  getCharacterData :: "SourceLocation \<Rightarrow> nat"
  memory :: "nat \<Rightarrow> char"
  printToString :: "SourceLocation \<Rightarrow> string"

definition getStartSourceLocWithComment :: "source_manager \<Rightarrow> ptr \<Rightarrow> SourceLocation" where
  "getStartSourceLocWithComment sm d =
     (case raw_comment_begin sm d of Some l \<Rightarrow> l | None \<Rightarrow> range_begin sm d)"

fun previous_loop :: "ptr option \<Rightarrow> ptr \<Rightarrow> ptr list \<Rightarrow> ptr option" where
  "previous_loop prev d [] = None"
| "previous_loop prev d (it # rest) = (if it = d then prev else previous_loop (Some it) d rest)"

text \<open>The lexical context is dereferenced without a test; only the translation unit has none.\<close>

definition getPreviousDeclInContext :: "ASTContext \<Rightarrow> ptr \<Rightarrow> stop + ptr option" where
  "getPreviousDeclInContext ctx d =
     (case getLexicalContext (naming_of ctx d) of
        None \<Rightarrow> Inl (AssertionFailed ''null context'')
      | Some dc \<Rightarrow> Inr (previous_loop None d (decls (decl ctx dc))))"

definition getPrevSourceLoc :: "source_manager \<Rightarrow> ASTContext \<Rightarrow> ptr \<Rightarrow> stop + SourceLocation" where
  "getPrevSourceLoc sm ctx d =
     (case getPreviousDeclInContext ctx d of
        Inl x \<Rightarrow> Inl x
      | Inr pd \<Rightarrow>
          Inr (case pd of
                 Some p \<Rightarrow> if loc_valid (range_end sm p) then range_end sm p else file_start sm (range_begin sm d)
               | None \<Rightarrow> file_start sm (range_begin sm d)))"

text \<open>\<open>StringRef(p, e - p)\<close>: the length is unsigned, so an end before the start leaves the memory.\<close>

definition string_ref :: "source_manager \<Rightarrow> nat \<Rightarrow> nat \<Rightarrow> stop + string" where
  "string_ref sm p e = (if p \<le> e then Inr (map (memory sm) [p..<e]) else Inl (AssertionFailed ''out of range''))"

text \<open>The scanner with what is written to the error stream.\<close>

definition decl_comments :: "source_manager \<Rightarrow> ASTContext \<Rightarrow> ptr \<Rightarrow> stop + string \<times> scanner" where
  "decl_comments sm ctx d =
     (case getPrevSourceLoc sm ctx d of
        Inl x \<Rightarrow> Inl x
      | Inr start \<Rightarrow>
          (let end_loc = getStartSourceLocWithComment sm d;
               said = ''start/end: '' @ printToString sm start @ '' '' @ printToString sm end_loc @ [NL] in
           if loc_valid start \<and> loc_valid end_loc then
             (case string_ref sm (getCharacterData sm start) (getCharacterData sm end_loc) of
                Inl x \<Rightarrow> Inl x
              | Inr t \<Rightarrow> Inr (said @ t @ [NL], CommentScanner_init t))
           else Inr (said, CommentScanner_init [])))"

section \<open>The text between two declarations\<close>

lemma previous_loop_append:
  "d \<notin> set xs \<Longrightarrow> previous_loop prev d (xs @ d # ys) = (if xs = [] then prev else Some (last xs))"
  by (induction xs arbitrary: prev) auto

lemma scan_next_slice:
  assumes "scan_next sc = Some (Inr (Some t, sc'))"
  shows "block sc' = block sc \<and> (\<exists>u v. block sc = u @ t @ v)"
proof -
  have "\<exists>i n. t = take n (drop i (block sc)) \<and> block sc' = block sc"
    using assms
    by (auto simp: scan_next_def Let_def substr_def split: if_splits option.splits sum.splits)
  then obtain i n where t: "t = take n (drop i (block sc))" "block sc' = block sc" by blast
  have "block sc = take i (block sc) @ t @ drop n (drop i (block sc))"
    unfolding t(1) by (metis append_take_drop_id)
  with t(2) show ?thesis by blast
qed

text \<open>
  C29. For a declaration that follows another one in its context, when the positions are in order: the scanner runs over the
  characters from the end of the previous declaration up to the comment that is attached to the declaration, and every
  comment that it finds is a piece of them.
\<close>

theorem decl_comments_between:
  assumes "getLexicalContext (naming_of ctx d) = Some dc" and "decls (decl ctx dc) = xs @ p # d # ys"
    and "d \<notin> set (xs @ [p])" and "loc_valid (range_end sm p)" and "loc_valid (getStartSourceLocWithComment sm d)"
    and "getCharacterData sm (range_end sm p) \<le> getCharacterData sm (getStartSourceLocWithComment sm d)"
  shows "\<exists>said sc. decl_comments sm ctx d = Inr (said, sc)
    \<and> block sc = map (memory sm) [getCharacterData sm (range_end sm p)..<getCharacterData sm (getStartSourceLocWithComment sm d)]
    \<and> (\<forall>t sc'. scan_next sc = Some (Inr (Some t, sc')) \<longrightarrow> block sc' = block sc \<and> (\<exists>u v. block sc = u @ t @ v))"
proof -
  have "previous_loop None d ((xs @ [p]) @ d # ys) = Some p"
    unfolding previous_loop_append [OF assms(3)] by simp
  then have "getPrevSourceLoc sm ctx d = Inr (range_end sm p)"
    using assms(1,2,4) by (simp add: getPrevSourceLoc_def getPreviousDeclInContext_def)
  then obtain said sc where c: "decl_comments sm ctx d = Inr (said, sc)"
      "block sc = map (memory sm) [getCharacterData sm (range_end sm p)..<getCharacterData sm (getStartSourceLocWithComment sm d)]"
    using assms(4-6) by (auto simp: decl_comments_def Let_def string_ref_def CommentScanner_init_def)
  moreover have "\<forall>t sc'. scan_next sc = Some (Inr (Some t, sc')) \<longrightarrow> block sc' = block sc \<and> (\<exists>u v. block sc = u @ t @ v)"
    by (intro allI impI) (rule scan_next_slice)
  ultimately show ?thesis by (intro exI [of _ said] exI [of _ sc]) simp
qed

text \<open>A class (0) with the members 1 and 2; a line comment stands between them from the address 11 on.\<close>

definition source_manager0 :: source_manager where
  "source_manager0 = \<lparr>raw_comment_begin = (\<lambda>d. None), range_begin = (\<lambda>d. if d = 2 then 17 else 1),
     range_end = (\<lambda>d. 10), file_start = (\<lambda>l. 1), getCharacterData = unat,
     memory = (\<lambda>i. if 10 \<le> i \<and> i < 17 then '';/*hi*/'' ! (i - 10) else NL), printToString = (\<lambda>l. [])\<rparr>"

theorem decl_comments_between_witness:
  "let ctx = ast0\<lparr>decl := (\<lambda>d. (decl0 d)\<lparr>decls := (if d = 0 then [1, 2] else [])\<rparr>),
                  naming_of := (\<lambda>d. naming0\<lparr>getLexicalContext := (if d = 0 then None else Some 0)\<rparr>)\<rparr>
   in case decl_comments source_manager0 ctx 2 of
        Inl x \<Rightarrow> False
      | Inr (said, sc) \<Rightarrow> block sc = '';/*hi*/'' \<and> (\<exists>sc'. scan_next sc = Some (Inr (Some ''/*hi*/'', sc')) \<and> block sc' = block sc)"
proof -
  let ?ctx = "ast0\<lparr>decl := (\<lambda>d. (decl0 d)\<lparr>decls := (if d = 0 then [1, 2] else [])\<rparr>),
                  naming_of := (\<lambda>d. naming0\<lparr>getLexicalContext := (if d = 0 then None else Some 0)\<rparr>)\<rparr>"
  have b: "map (memory source_manager0) [10..<17] = '';/*hi*/''"
    by (simp add: source_manager0_def upt_rec)
  have n: "scan_next sc = Some (Inr (Some ''/*hi*/'', sc\<lparr>offset := 7\<rparr>))" if "block sc = '';/*hi*/''" "offset sc = 0" for sc
    using that by (simp add: scan_next_def find_str_def npos_def parseBlockComment_def substr_def)
  have e: "getStartSourceLocWithComment source_manager0 2 = 17" by (simp add: getStartSourceLocWithComment_def source_manager0_def)
  obtain said sc where c: "decl_comments source_manager0 ?ctx 2 = Inr (said, sc)" "block sc = '';/*hi*/''"
      "\<And>t sc'. scan_next sc = Some (Inr (Some t, sc')) \<Longrightarrow> block sc' = block sc"
    using decl_comments_between [of ?ctx 2 0 "[]" 1 "[]" source_manager0] b e
    by (auto simp: ast0_def naming0_def decl0_def source_manager0_def loc_valid_def)
  then have "offset sc = 0"
    by (auto simp: decl_comments_def Let_def string_ref_def CommentScanner_init_def split: sum.splits if_splits)
  with c n show ?thesis by (auto simp: Let_def)
qed

end
