(* ===== verification/DeclFilter.thy ===== *)
theory DeclFilter
  imports ClangAST CommentScanner
begin

text \<open>
  Model of \<open>include/Filter.hpp\<close>: how much of a declaration is translated.  A filter object is the
  function that its \<open>shouldInclude\<close> computes, with the members of the object as arguments.
\<close>

datatype What = NOTHING | DECLARATION | DEFINITION

fun what_val :: "What \<Rightarrow> nat" where
  "what_val NOTHING = 0"
| "what_val DECLARATION = 1"
| "what_val DEFINITION = 2"

lemma what_val_inject: "what_val a = what_val b \<Longrightarrow> a = b"
  by (cases a; cases b) simp_all

instantiation What :: linorder
begin

definition less_eq_What :: "What \<Rightarrow> What \<Rightarrow> bool" where
  "less_eq_What a b \<longleftrightarrow> what_val a \<le> what_val b"

definition less_What :: "What \<Rightarrow> What \<Rightarrow> bool" where
  "less_What a b \<longleftrightarrow> what_val a < what_val b"

instance
  by standard (auto simp: less_eq_What_def less_What_def intro: what_val_inject)

end

definition What_min :: "What \<Rightarrow> What \<Rightarrow> What" where
  "What_min a b = (if a < b then a else b)"

definition What_max :: "What \<Rightarrow> What \<Rightarrow> What" where
  "What_max a b = (if a < b then b else a)"

type_synonym decl_filter = "ptr \<Rightarrow> What"

definition Default :: "What \<Rightarrow> decl_filter" where
  "Default what = (\<lambda>_. what)"

definition isIncluded :: "source_loc \<Rightarrow> bool" where
  "isIncluded loc =
     (if \<not> isValid loc then False
      else case getPresumedLoc loc of None \<Rightarrow> False | Some include_valid \<Rightarrow> include_valid)"

definition NoInclude :: "ASTContext \<Rightarrow> decl_filter" where
  "NoInclude ctx d = (if isIncluded (getBegin (decl ctx d)) then DECLARATION else DEFINITION)"

definition NoPrivate :: decl_filter where
  "NoPrivate d = DEFINITION"

definition Combine :: "What \<Rightarrow> (What \<Rightarrow> What \<Rightarrow> What) \<Rightarrow> decl_filter list \<Rightarrow> decl_filter" where
  "Combine unit combine filters d = foldl (\<lambda>result x. combine result (x d)) unit filters"

definition FromComment :: "ASTContext \<Rightarrow> decl_filter" where
  "FromComment ctx d =
     (case getRawComment (decl ctx d) of
        Some comment \<Rightarrow>
          (let t = getRawText ctx comment in
           if npos \<noteq> find_str t ''definition'' 0 then DEFINITION
           else if npos \<noteq> find_str t ''declaration'' 0 then DECLARATION
           else NOTHING)
      | None \<Rightarrow> NOTHING)"

section \<open>Combination of filters\<close>

text \<open>
  An interface of combinations: the operation is a bound of its arguments and one of
  them, and the unit is absorbed.
\<close>

locale combination =
  fixes unit :: What and combine :: "What \<Rightarrow> What \<Rightarrow> What" and within :: "What \<Rightarrow> What \<Rightarrow> bool"
  assumes unit_within: "within unit a"
    and combine_within: "within (combine a b) c \<longleftrightarrow> within a c \<and> within b c"
begin

lemma Combine_within: "within (Combine unit combine fs d) c \<longleftrightarrow> (\<forall>f \<in> set fs. within (f d) c)"
proof -
  have "within (foldl (\<lambda>r x. combine r (x d)) a fs) c \<longleftrightarrow> within a c \<and> (\<forall>f \<in> set fs. within (f d) c)"
    for a by (induction fs arbitrary: a) (auto simp: combine_within)
  then show ?thesis by (simp add: Combine_def unit_within)
qed

end

interpretation comb_max: combination NOTHING What_max "\<lambda>a c. a \<le> c"
  by unfold_locales (auto simp: What_max_def less_eq_What_def less_What_def)

interpretation comb_min: combination DEFINITION What_min "\<lambda>a c. c \<le> a"
proof
  fix a show "a \<le> DEFINITION" by (cases a) (simp_all add: less_eq_What_def)
qed (auto simp: What_min_def less_eq_What_def less_What_def)

section \<open>Properties\<close>

text \<open>
  \<open>Combine<NOTHING, max>\<close> is the least upper bound of the answers of its filters, and
  \<open>Combine<DEFINITION, min>\<close> their greatest lower bound: a bound holds for the combination
  exactly when it holds for every filter.
\<close>

theorem Combine_bounds:
  "(Combine NOTHING What_max fs d \<le> c) = (\<forall>f \<in> set fs. f d \<le> c)
   \<and> (c \<le> Combine DEFINITION What_min fs d) = (\<forall>f \<in> set fs. c \<le> f d)"
  by (simp only: comb_max.Combine_within comb_min.Combine_within)

theorem Combine_bounds_witness:
  "\<not> Combine NOTHING What_max [NoPrivate, Default DECLARATION] 0 \<le> DECLARATION
   \<and> DECLARATION \<le> Combine DEFINITION What_min [NoPrivate, Default DECLARATION] 0"
  using Combine_bounds [of "[NoPrivate, Default DECLARATION]" 0 DECLARATION]
  by (simp add: NoPrivate_def Default_def less_eq_What_def)

end
