(* ===== verification/ModuleBuilder.thy ===== *)
theory ModuleBuilder
  imports DeclFilter Logging
begin

text \<open>
  Model of \<open>include/ModuleBuilder.hpp\<close>, \<open>src/ModuleBuilder.cpp\<close> and \<open>include/SpecCollector.hpp\<close>: the
  traversal of the declarations of a translation unit that collects what is printed.
  The state \<open>builder\<close> holds the module, the specifications, the set of visited declarations
  and the dropped declarations with the log level of their message.  A visitor method takes
  the object (\<open>BuildModule\<close>) and the recursive \<open>Visit\<close>; \<open>Visit\<close> itself ties the knot
  with fuel, of which one unit is used for each declaration that is visited for the
  first time on the current path.
\<close>

section \<open>The module\<close>

record Flags =
  in_template :: bool
  in_specialization :: bool

definition set_template :: "Flags \<Rightarrow> Flags" where
  "set_template f = \<lparr>in_template = True, in_specialization = in_specialization f\<rparr>"

definition set_specialization :: "Flags \<Rightarrow> Flags" where
  "set_specialization f = \<lparr>in_template = in_template f, in_specialization = True\<rparr>"

definition flags_none :: "Flags \<Rightarrow> bool" where
  "flags_none f \<longleftrightarrow> \<not> in_template f \<and> \<not> in_specialization f"

definition no_flags :: Flags where
  "no_flags = \<lparr>in_template = False, in_specialization = False\<rparr>"

record Module =
  declarations :: "ptr list"
  definitions :: "ptr list"
  template_declarations :: "ptr list"
  template_definitions :: "ptr list"
  asserts :: "ptr list"

definition Module_init :: Module where
  "Module_init = \<lparr>declarations = [], definitions = [], template_declarations = [],
     template_definitions = [], asserts = []\<rparr>"

definition add_assert :: "ptr \<Rightarrow> Module \<Rightarrow> Module" where
  "add_assert d m = m\<lparr>asserts := asserts m @ [d]\<rparr>"

text \<open>The two lists are passed by reference and are the result here.\<close>

definition add_decl :: "ptr list \<Rightarrow> ptr list \<Rightarrow> ptr \<Rightarrow> Flags \<Rightarrow> ptr list \<times> ptr list" where
  "add_decl ds tds d flags =
     (if in_template flags then (ds, tds @ [d])
      else (ds @ [d], if in_specialization flags then tds @ [d] else tds))"

definition add_definition :: "ptr \<Rightarrow> Flags \<Rightarrow> Module \<Rightarrow> Module" where
  "add_definition d flags m =
     (let (ds, tds) = add_decl (definitions m) (template_definitions m) d flags
      in m\<lparr>definitions := ds, template_definitions := tds\<rparr>)"

definition add_declaration :: "ptr \<Rightarrow> Flags \<Rightarrow> Module \<Rightarrow> Module" where
  "add_declaration d flags m =
     (let (ds, tds) = add_decl (declarations m) (template_declarations m) d flags
      in m\<lparr>declarations := ds, template_declarations := tds\<rparr>)"

section \<open>The specification collector\<close>

record SpecCollector =
  specifications :: "(ptr \<times> ptr) list"
  comment_decl :: "(ptr \<times> ptr) list"
  attached :: "ptr list"

definition SpecCollector_init :: SpecCollector where
  "SpecCollector_init = \<lparr>specifications = [], comment_decl = [], attached = []\<rparr>"

text \<open>\<open>std::map::insert\<close> keeps an entry that is there.\<close>

definition add_specification :: "ASTContext \<Rightarrow> ptr \<Rightarrow> ptr \<Rightarrow> SpecCollector \<Rightarrow> SpecCollector" where
  "add_specification ctx d ref sc =
     (let sc1 = sc\<lparr>attached := ref # attached sc,
                   comment_decl := (if map_of (comment_decl sc) ref = None
                                    then (ref, d) # comment_decl sc else comment_decl sc)\<rparr>
      in case getCommentForDecl (decl ctx d) of
           Some c \<Rightarrow> sc1\<lparr>specifications := specifications sc1 @ [(d, c)]\<rparr>
         | None \<Rightarrow> sc1)"

definition decl_for_comment :: "SpecCollector \<Rightarrow> ptr \<Rightarrow> ptr option" where
  "decl_for_comment sc cmt = map_of (comment_decl sc) cmt"

section \<open>The traversal\<close>

record builder =
  module :: Module
  specs :: SpecCollector
  visited :: "int set"
  dropped :: "(Level \<times> ptr) list"

record BuildModule =
  bm_filter :: decl_filter
  bm_templates :: bool
  bm_context :: ASTContext

type_synonym visitor = "ptr \<Rightarrow> Flags \<Rightarrow> builder action"

definition on_module :: "(Module \<Rightarrow> Module) \<Rightarrow> builder action" where
  "on_module f s = Inr (s\<lparr>module := f (module s)\<rparr>)"

definition on_specs :: "(SpecCollector \<Rightarrow> SpecCollector) \<Rightarrow> builder action" where
  "on_specs f s = Inr (s\<lparr>specs := f (specs s)\<rparr>)"

definition unsupported_decl :: "Level \<Rightarrow> ptr \<Rightarrow> builder action" where
  "unsupported_decl lv d s = Inr (s\<lparr>dropped := dropped s @ [(lv, d)]\<rparr>)"

definition go :: "BuildModule \<Rightarrow> ptr \<Rightarrow> Flags \<Rightarrow> bool \<Rightarrow> (builder, What) query" where
  "go bm d flags def =
     (let what = bm_filter bm d in
      case what of
        DEFINITION \<Rightarrow>
          if def then returning (on_module (add_definition d flags)) what
          else returning (on_module (add_declaration d flags)) DECLARATION
      | DECLARATION \<Rightarrow> returning (on_module (add_declaration d flags)) DECLARATION
      | NOTHING \<Rightarrow> returning skip NOTHING)"

definition go1 :: "BuildModule \<Rightarrow> ptr \<Rightarrow> Flags \<Rightarrow> bool \<Rightarrow> builder action" where
  "go1 bm d flags def = bindQ (go bm d flags def) (\<lambda>_. skip)"

definition IGNORE :: visitor where
  "IGNORE d flags = skip"

definition VisitDecl :: "BuildModule \<Rightarrow> visitor" where
  "VisitDecl bm d flags = unsupported_decl VERBOSER d"

definition VisitStaticAssertDecl :: visitor where
  "VisitStaticAssertDecl d flags = on_module (add_assert d)"

definition VisitDecls :: "visitor \<Rightarrow> ptr list \<Rightarrow> Flags \<Rightarrow> builder action" where
  "VisitDecls visit ds flags = seqP (map (\<lambda>i. visit i flags) ds)"

definition VisitTranslationUnitDecl :: "BuildModule \<Rightarrow> visitor \<Rightarrow> visitor" where
  "VisitTranslationUnitDecl bm visit d flags =
     seqP [assertA ''flags.none()'' (flags_none flags),
           VisitDecls visit (decls (decl (bm_context bm) d)) flags]"

definition VisitTypeDecl :: "BuildModule \<Rightarrow> visitor" where
  "VisitTypeDecl bm d flags = unsupported_decl VERBOSE d"

definition isCanonicalDecl :: "ASTContext \<Rightarrow> ptr \<Rightarrow> bool" where
  "isCanonicalDecl ctx d \<longleftrightarrow> getCanonicalDecl (decl ctx d) = d"

definition VisitTypedefNameDecl :: "BuildModule \<Rightarrow> visitor" where
  "VisitTypedefNameDecl bm d flags =
     (if getAnonDeclWithTypedefName (decl (bm_context bm) d) then skip
      else if \<not> isCanonicalDecl (bm_context bm) d then skip
      else go1 bm d flags True)"

definition VisitTypeAliasTemplateDecl :: "BuildModule \<Rightarrow> visitor \<Rightarrow> visitor" where
  "VisitTypeAliasTemplateDecl bm visit d flags =
     (if bm_templates bm
      then visit (getTemplatedDecl (decl (bm_context bm) d)) (set_template flags) else skip)"

definition VisitTagDecl :: "BuildModule \<Rightarrow> visitor" where
  "VisitTagDecl bm d flags =
     (let D = decl (bm_context bm) d; defn = getDefinition D in
      if defn = Some d then go1 bm d flags True
      else if defn = None \<and> getPreviousDecl D = None then go1 bm d flags False
      else skip)"

definition VisitDeclContext :: "BuildModule \<Rightarrow> visitor \<Rightarrow> visitor" where
  "VisitDeclContext bm visit d flags = VisitDecls visit (decls (decl (bm_context bm) d)) flags"

definition VisitCXXRecordDecl :: "BuildModule \<Rightarrow> visitor \<Rightarrow> visitor" where
  "VisitCXXRecordDecl bm visit d flags =
     (let D = decl (bm_context bm) d in
      if isImplicit D \<and> \<not> isLambda D then skip
      else if \<not> isDependentContext D \<or> bm_templates bm
      then seqP [VisitTagDecl bm d flags, VisitDeclContext bm visit d flags]
      else skip)"

definition VisitSpecializations :: "BuildModule \<Rightarrow> visitor \<Rightarrow> visitor" where
  "VisitSpecializations bm visit d flags =
     seqP [if bm_templates bm
           then visit (getTemplatedDecl (decl (bm_context bm) d)) (set_template flags) else skip,
           VisitDecls visit (specializations (decl (bm_context bm) d)) (set_specialization flags)]"

definition VisitClassTemplateDecl :: "BuildModule \<Rightarrow> visitor \<Rightarrow> visitor" where
  "VisitClassTemplateDecl bm visit d flags = VisitSpecializations bm visit d flags"

definition lifted :: "ASTContext \<Rightarrow> ptr \<Rightarrow> bool" where
  "lifted ctx i \<longleftrightarrow>
     (isaD ctx VarDecl i \<longrightarrow> isStaticLocal (decl ctx i) \<or> hasExternalStorage (decl ctx i))"

definition VisitFunctionDecl :: "BuildModule \<Rightarrow> visitor \<Rightarrow> visitor" where
  "VisitFunctionDecl bm visit d flags =
     (let ctx = bm_context bm; D = decl ctx d; defn = getDefinition D in
      if isDependentContext D \<and> \<not> bm_templates bm then skip
      else if defn = Some d then
        seqP [case getRawComment D of
                Some c \<Rightarrow> on_specs (add_specification ctx d c) | None \<Rightarrow> skip,
              bindQ (go bm d flags True)
                (\<lambda>what. if what \<ge> DEFINITION
                  then seqP (map (\<lambda>i. if lifted ctx i then visit i flags else skip) (decls D))
                  else skip)]
      else if defn = None \<and> getPreviousDecl D = None then go1 bm d flags False
      else skip)"

definition VisitCXXMethodDecl :: "BuildModule \<Rightarrow> visitor \<Rightarrow> visitor" where
  "VisitCXXMethodDecl bm visit d flags =
     (if isDeleted (decl (bm_context bm) d) then skip else VisitFunctionDecl bm visit d flags)"

definition VisitFunctionTemplateDecl :: "BuildModule \<Rightarrow> visitor \<Rightarrow> visitor" where
  "VisitFunctionTemplateDecl bm visit d flags = VisitSpecializations bm visit d flags"

definition VisitEnumConstantDecl :: "BuildModule \<Rightarrow> visitor" where
  "VisitEnumConstantDecl bm d flags = go1 bm d flags True"

definition VisitVarDecl :: "BuildModule \<Rightarrow> visitor" where
  "VisitVarDecl bm d flags =
     (let D = decl (bm_context bm) d in
      if isTemplated D \<and> \<not> bm_templates bm then skip
      else case getDefinition D of
             Some defn \<Rightarrow> if defn = d then go1 bm d flags True else skip
           | None \<Rightarrow> if d = getCanonicalDecl D then go1 bm d flags True else skip)"

definition VisitVarTemplateDecl :: "BuildModule \<Rightarrow> visitor \<Rightarrow> visitor" where
  "VisitVarTemplateDecl bm visit d flags = VisitSpecializations bm visit d flags"

definition VisitNamespaceDecl :: "BuildModule \<Rightarrow> visitor \<Rightarrow> visitor" where
  "VisitNamespaceDecl bm visit d flags =
     seqP [assertA ''flags.none()'' (flags_none flags), VisitDeclContext bm visit d flags]"

definition VisitEnumDecl :: "BuildModule \<Rightarrow> visitor" where
  "VisitEnumDecl bm d flags =
     (if \<not> isCanonicalDecl (bm_context bm) d then skip
      else seqP [go1 bm d flags True,
                 seqP (map (\<lambda>i. go1 bm i flags True) (enumerators (decl (bm_context bm) d)))])"

definition VisitLinkageSpecDecl :: "BuildModule \<Rightarrow> visitor \<Rightarrow> visitor" where
  "VisitLinkageSpecDecl bm visit d flags =
     seqP [assertA ''flags.none()'' (flags_none flags), VisitDeclContext bm visit d flags]"

definition VisitFriendDecl :: "BuildModule \<Rightarrow> visitor \<Rightarrow> visitor" where
  "VisitFriendDecl bm visit d flags =
     (case getFriendDecl (decl (bm_context bm) d) of Some f \<Rightarrow> visit f flags | None \<Rightarrow> skip)"

definition BuildModule_methods :: "BuildModule \<Rightarrow> visitor \<Rightarrow> (DeclKind \<times> visitor) list" where
  "BuildModule_methods bm visit =
    [(Decl, VisitDecl bm), (EmptyDecl, IGNORE), (CXXDeductionGuideDecl, IGNORE),
     (UsingDecl, IGNORE), (UsingDirectiveDecl, IGNORE), (UsingShadowDecl, IGNORE),
     (AccessSpecDecl, IGNORE), (FieldDecl, IGNORE), (IndirectFieldDecl, IGNORE),
     (BuiltinTemplateDecl, IGNORE), (ClassTemplatePartialSpecializationDecl, IGNORE),
     (VarTemplatePartialSpecializationDecl, IGNORE),
     (StaticAssertDecl, VisitStaticAssertDecl),
     (TranslationUnitDecl, VisitTranslationUnitDecl bm visit),
     (TypeDecl, VisitTypeDecl bm), (TypedefNameDecl, VisitTypedefNameDecl bm),
     (TypeAliasTemplateDecl, VisitTypeAliasTemplateDecl bm visit),
     (TagDecl, VisitTagDecl bm), (CXXRecordDecl, VisitCXXRecordDecl bm visit),
     (ClassTemplateDecl, VisitClassTemplateDecl bm visit),
     (CXXMethodDecl, VisitCXXMethodDecl bm visit), (FunctionDecl, VisitFunctionDecl bm visit),
     (FunctionTemplateDecl, VisitFunctionTemplateDecl bm visit),
     (EnumConstantDecl, VisitEnumConstantDecl bm), (VarDecl, VisitVarDecl bm),
     (VarTemplateDecl, VisitVarTemplateDecl bm visit),
     (NamespaceDecl, VisitNamespaceDecl bm visit), (EnumDecl, VisitEnumDecl bm),
     (LinkageSpecDecl, VisitLinkageSpecDecl bm visit), (FriendDecl, VisitFriendDecl bm visit)]"

definition Visit_dispatch :: "BuildModule \<Rightarrow> visitor \<Rightarrow> visitor" where
  "Visit_dispatch bm visit d =
     dispatch (BuildModule_methods bm visit) IGNORE (getKind (decl (bm_context bm) d)) d"

text \<open>\<open>Visit\<close>: only the first visit of a declaration does something.\<close>

fun Visit :: "nat \<Rightarrow> BuildModule \<Rightarrow> visitor" where
  "Visit 0 bm d flags s =
     (if getID (decl (bm_context bm) d) \<in> visited s then Inr s else Inl OutOfFuel)"
| "Visit (Suc n) bm d flags s =
     (if getID (decl (bm_context bm) d) \<in> visited s then Inr s
      else Visit_dispatch bm (Visit n bm) d flags
             (s\<lparr>visited := insert (getID (decl (bm_context bm) d)) (visited s)\<rparr>))"

definition builder_init :: builder where
  "builder_init = \<lparr>module = Module_init, specs = SpecCollector_init, visited = {}, dropped = []\<rparr>"

definition build_module :: "nat \<Rightarrow> decl_filter \<Rightarrow> bool \<Rightarrow> ASTContext \<Rightarrow> ptr \<Rightarrow> stop + builder" where
  "build_module fuel flt tmpl ctx tu =
     (let bm = \<lparr>bm_filter = flt, bm_templates = tmpl, bm_context = ctx\<rparr> in
      VisitTranslationUnitDecl bm (Visit fuel bm) tu no_flags builder_init)"

end
