(* ===== verification/ModuleProps.thy ===== *)
theory ModuleProps
  imports ModuleBuilder
begin

text \<open>
  What the traversal of \<open>ModuleBuilder\<close> does to its state: it is a sequence of primitive steps,
  it ends, and it misses nothing.  The three contracts are stated as locales over the
  recursive \<open>Visit\<close>, whose methods are treated once inside; the function with fuel is their model.
\<close>

section \<open>Primitive steps\<close>

definition flag_ok :: "BuildModule \<Rightarrow> Flags \<Rightarrow> bool" where
  "flag_ok bm fl \<longleftrightarrow> (in_template fl \<longrightarrow> bm_templates bm)"

lemma flag_ok_set [simp]:
  "flag_ok bm (set_specialization fl) = flag_ok bm fl"
  "bm_templates bm \<Longrightarrow> flag_ok bm fl"
  by (simp_all add: flag_ok_def set_specialization_def)

text \<open>A function or a class is taken for a definition only when it is one.\<close>

definition defining :: "ASTContext \<Rightarrow> ptr \<Rightarrow> bool" where
  "defining ctx d \<longleftrightarrow>
     (isaD ctx FunctionDecl d \<or> isaD ctx RecordDecl d \<longrightarrow> getDefinition (decl ctx d) = Some d)"

inductive bstep :: "BuildModule \<Rightarrow> builder \<Rightarrow> builder \<Rightarrow> bool" for bm where
  mark: "bstep bm s (s\<lparr>visited := insert i (visited s)\<rparr>)"
| define_it: "bm_filter bm d = DEFINITION \<Longrightarrow> defining (bm_context bm) d \<Longrightarrow> flag_ok bm fl \<Longrightarrow>
    bstep bm s (s\<lparr>module := add_definition d fl (module s)\<rparr>)"
| declare_it: "DECLARATION \<le> bm_filter bm d \<Longrightarrow> flag_ok bm fl \<Longrightarrow>
    bstep bm s (s\<lparr>module := add_declaration d fl (module s)\<rparr>)"
| assert_it: "bstep bm s (s\<lparr>module := add_assert d (module s)\<rparr>)"
| specify: "bstep bm s (s\<lparr>specs := f (specs s)\<rparr>)"
| drop_it: "bstep bm s (s\<lparr>dropped := x\<rparr>)"

inductive_cases bstepE: "bstep bm s s'"

definition wf_enumerators :: "ASTContext \<Rightarrow> bool" where
  "wf_enumerators ctx \<longleftrightarrow>
     (\<forall>d. \<forall>e \<in> set (enumerators (decl ctx d)). isaD ctx EnumConstantDecl e)"

text \<open>The classes that the methods below tell apart do not overlap.\<close>

lemma isa_all: "isa c k = (c \<in> set (up 8 k))"
  by (simp add: isa_def ancestors_def)

lemma isa_disjoint:
  "isa EnumConstantDecl k \<Longrightarrow> \<not> isa FunctionDecl k \<and> \<not> isa RecordDecl k"
  "isa TypedefNameDecl k \<Longrightarrow> \<not> isa FunctionDecl k \<and> \<not> isa RecordDecl k"
  "isa EnumDecl k \<Longrightarrow> \<not> isa FunctionDecl k \<and> \<not> isa RecordDecl k"
  "isa VarDecl k \<Longrightarrow> \<not> isa FunctionDecl k \<and> \<not> isa RecordDecl k"
  by (cases k; simp add: isa_all eval_nat_numeral)+

definition visit_ok :: "BuildModule \<Rightarrow> Flags \<Rightarrow> bool" where
  "visit_ok bm fl \<longleftrightarrow> flag_ok bm fl \<and> wf_enumerators (bm_context bm)"

lemma visit_okD: "visit_ok bm fl \<Longrightarrow> flag_ok bm fl \<and> wf_enumerators (bm_context bm)"
  by (simp add: visit_ok_def)

lemma visit_ok_set [simp]:
  "visit_ok bm (set_specialization fl) = visit_ok bm fl"
  "visit_ok bm fl \<Longrightarrow> bm_templates bm \<Longrightarrow> visit_ok bm (set_template fl)"
  by (simp_all add: visit_ok_def)

section \<open>Every visit is a sequence of steps\<close>

locale build_visitor =
  fixes bm :: BuildModule and visit :: visitor and s0 :: builder
  assumes visit: "visit_ok bm fl \<Longrightarrow> preserves ((bstep bm)\<^sup>*\<^sup>* s0) (visit d fl)"
begin

abbreviation keeps :: "builder action \<Rightarrow> bool" where
  "keeps m \<equiv> preserves ((bstep bm)\<^sup>*\<^sup>* s0) m"

lemma keeps_step: "(\<And>s. bstep bm s (g s)) \<Longrightarrow> (\<And>s. m s = Inr (g s)) \<Longrightarrow> keeps m"
  by (rule tripleI) (metis rtranclp.simps sum.inject(2))

lemma keeps_basic:
  "bm_filter bm d = DEFINITION \<Longrightarrow> defining (bm_context bm) d \<Longrightarrow> flag_ok bm fl \<Longrightarrow>
     keeps (on_module (add_definition d fl))"
  "DECLARATION \<le> bm_filter bm d \<Longrightarrow> flag_ok bm fl \<Longrightarrow> keeps (on_module (add_declaration d fl))"
  "keeps (on_module (add_assert d))"
  "keeps (on_specs (add_specification ctx d c))"
  "keeps (unsupported_decl lv d)"
  by (rule keeps_step; rule bstep.intros on_module_def on_specs_def unsupported_decl_def; assumption)+

lemma keeps_go_bind:
  assumes "visit_ok bm fl" and "def \<Longrightarrow> defining (bm_context bm) d" and "\<And>w. keeps (f w)"
  shows "keeps (bindQ (go bm d fl def) f)"
proof (cases "bm_filter bm d")
  case NOTHING
  then show ?thesis using assms(3) by (simp add: go_def bindQ_returning)
next
  case DECLARATION
  then show ?thesis
    using keeps_basic(2) [of d fl] visit_okD [OF assms(1)] assms by (simp add: go_def bindQ_returning triple_seqA)
next
  case DEFINITION
  then have "DECLARATION \<le> bm_filter bm d" by (simp add: less_eq_What_def)
  with DEFINITION show ?thesis
    using keeps_basic(1,2) [of d fl] visit_okD [OF assms(1)] assms
    by (cases "def") (simp_all add: go_def bindQ_returning triple_seqA)
qed

lemma keeps_go:
  "visit_ok bm fl \<Longrightarrow> (def \<Longrightarrow> defining (bm_context bm) d) \<Longrightarrow> keeps (go1 bm d fl def)"
  unfolding go1_def by (rule keeps_go_bind) (simp_all add: triple_skip)

lemma keeps_visits: "visit_ok bm fl \<Longrightarrow> keeps (VisitDecls visit ds fl)"
  unfolding VisitDecls_def by (rule preserves_map) (rule visit)

lemma keeps_VisitTagDecl: "visit_ok bm fl \<Longrightarrow> keeps (VisitTagDecl bm d fl)"
  unfolding VisitTagDecl_def
  by (rule triple_intros keeps_go | (simp add: defining_def; fail))+

lemma keeps_VisitFunctionDecl: "visit_ok bm fl \<Longrightarrow> keeps (VisitFunctionDecl bm visit d fl)"
  unfolding VisitFunctionDecl_def
  by (rule triple_intros keeps_go keeps_go_bind preserves_map keeps_basic visit
      | (simp add: defining_def; fail))+

lemma keeps_specializations: "visit_ok bm fl \<Longrightarrow> keeps (VisitSpecializations bm visit d fl)"
  unfolding VisitSpecializations_def
  by (rule triple_intros keeps_visits visit | (simp; fail))+

lemma keeps_simple:
  "visit_ok bm fl \<Longrightarrow> keeps (IGNORE d fl)" "keeps (VisitDecl bm d fl)"
  "keeps (VisitStaticAssertDecl d fl)" "keeps (VisitTypeDecl bm d fl)"
  unfolding IGNORE_def VisitDecl_def VisitStaticAssertDecl_def VisitTypeDecl_def
  by (rule triple_skip keeps_basic)+

lemma keeps_contexts:
  assumes "visit_ok bm fl"
  shows "keeps (VisitTranslationUnitDecl bm visit d fl)" "keeps (VisitNamespaceDecl bm visit d fl)"
    "keeps (VisitLinkageSpecDecl bm visit d fl)" "keeps (VisitFriendDecl bm visit d fl)"
    "keeps (VisitTypeAliasTemplateDecl bm visit d fl)" "keeps (VisitCXXRecordDecl bm visit d fl)"
  unfolding VisitTranslationUnitDecl_def VisitNamespaceDecl_def VisitLinkageSpecDecl_def
    VisitFriendDecl_def VisitTypeAliasTemplateDecl_def VisitCXXRecordDecl_def VisitDeclContext_def
  by (rule triple_intros keeps_visits keeps_VisitTagDecl visit | (simp add: assms; fail))+

lemma keeps_values:
  assumes "visit_ok bm fl"
  shows "isaD (bm_context bm) TypedefNameDecl d \<Longrightarrow> keeps (VisitTypedefNameDecl bm d fl)"
    "isaD (bm_context bm) VarDecl d \<Longrightarrow> keeps (VisitVarDecl bm d fl)"
    "isaD (bm_context bm) EnumConstantDecl d \<Longrightarrow> keeps (VisitEnumConstantDecl bm d fl)"
    "isaD (bm_context bm) EnumDecl d \<Longrightarrow> keeps (VisitEnumDecl bm d fl)"
  unfolding VisitTypedefNameDecl_def VisitVarDecl_def VisitEnumConstantDecl_def VisitEnumDecl_def
  by (rule triple_intros keeps_go preserves_map assms
      | (insert visit_okD [OF assms], simp add: defining_def wf_enumerators_def isa_disjoint; fail))+

lemma keeps_dispatch:
  assumes "visit_ok bm fl"
  shows "keeps (Visit_dispatch bm visit d fl)"
proof -
  have "keeps (m d fl)"
    if "(c, m) \<in> set (BuildModule_methods bm visit)" "isaD (bm_context bm) c d" for c m
    using that assms keeps_values keeps_contexts keeps_simple keeps_specializations
      keeps_VisitTagDecl keeps_VisitFunctionDecl
    by (auto simp: BuildModule_methods_def VisitCXXMethodDecl_def VisitClassTemplateDecl_def
        VisitFunctionTemplateDecl_def VisitVarTemplateDecl_def triple_skip)
  then show ?thesis
    using dispatch_cases [of "BuildModule_methods bm visit" IGNORE "getKind (decl (bm_context bm) d)"]
      keeps_simple(1) [OF assms]
    unfolding Visit_dispatch_def by metis
qed

end

text \<open>The contract holds for \<open>Visit\<close> with any fuel.\<close>

lemma Visit_is_build_visitor: "build_visitor bm (Visit n bm) s0"
proof (induction n)
  case 0
  then show ?case
    by unfold_locales (auto intro!: tripleI split: if_splits)
next
  case (Suc n)
  then have IH: "build_visitor bm (Visit n bm) s0" .
  show ?case
  proof
    fix d fl assume fl: "visit_ok bm fl"
    show "preserves ((bstep bm)\<^sup>*\<^sup>* s0) (Visit (Suc n) bm d fl)"
    proof (rule tripleI)
      fix s s' assume r: "(bstep bm)\<^sup>*\<^sup>* s0 s" and v: "Visit (Suc n) bm d fl s = Inr s'"
      show "(bstep bm)\<^sup>*\<^sup>* s0 s'"
        using r v tripleD [OF build_visitor.keeps_dispatch [OF IH fl, of d]]
          rtranclp.rtrancl_into_rtrancl [OF r bstep.mark]
        by (auto split: if_splits)
    qed
  qed
qed

interpretation visits: build_visitor bm "Visit n bm" s0 for bm n s0
  by (rule Visit_is_build_visitor)

lemma build_module_steps:
  assumes "build_module fuel flt tmpl ctx tu = Inr s" and "wf_enumerators ctx"
  shows "(bstep \<lparr>bm_filter = flt, bm_templates = tmpl, bm_context = ctx\<rparr>)\<^sup>*\<^sup>* builder_init s"
proof -
  let ?bm = "\<lparr>bm_filter = flt, bm_templates = tmpl, bm_context = ctx\<rparr>"
  have "visit_ok ?bm no_flags" using assms(2) by (simp add: visit_ok_def flag_ok_def no_flags_def)
  from tripleD [OF visits.keeps_contexts(1) [OF this] rtranclp.rtrancl_refl] assms(1)
  show ?thesis by (simp add: build_module_def Let_def)
qed

lemma bsteps_invariant:
  assumes "(bstep bm)\<^sup>*\<^sup>* s s'" and "I (module s)"
    and "\<And>m d fl. I m \<Longrightarrow> bm_filter bm d = DEFINITION \<Longrightarrow> defining (bm_context bm) d \<Longrightarrow>
           flag_ok bm fl \<Longrightarrow> I (add_definition d fl m)"
    and "\<And>m d fl. I m \<Longrightarrow> DECLARATION \<le> bm_filter bm d \<Longrightarrow> flag_ok bm fl \<Longrightarrow> I (add_declaration d fl m)"
    and "\<And>m d. I m \<Longrightarrow> I (add_assert d m)"
  shows "I (module s')"
  using assms(1,2) by (induction rule: rtranclp_induct) (auto elim!: bstepE intro: assms(3-5))

lemma wanted_iff: "DECLARATION \<le> w \<longleftrightarrow> w \<noteq> NOTHING"
  by (cases w) (simp_all add: less_eq_What_def)

definition all_defs :: "Module \<Rightarrow> ptr set" where
  "all_defs m = set (definitions m) \<union> set (template_definitions m)"

definition all_decls :: "Module \<Rightarrow> ptr set" where
  "all_decls m = set (declarations m) \<union> set (template_declarations m)"

lemma all_defs_simps [simp]:
  "all_defs (add_definition d fl m) = insert d (all_defs m)"
  "all_defs (add_declaration d fl m) = all_defs m"
  "all_defs (add_assert d m) = all_defs m"
  "all_defs Module_init = {}"
  by (auto simp: all_defs_def add_definition_def add_declaration_def add_assert_def add_decl_def
      Module_init_def)

lemma all_decls_simps [simp]:
  "all_decls (add_declaration d fl m) = insert d (all_decls m)"
  "all_decls (add_definition d fl m) = all_decls m"
  "all_decls (add_assert d m) = all_decls m"
  "all_decls Module_init = {}"
  by (auto simp: all_decls_def add_definition_def add_declaration_def add_assert_def add_decl_def
      Module_init_def)

section \<open>Visits end\<close>

text \<open>The declarations that a visit of \<open>d\<close> can visit directly.\<close>

definition targets :: "ASTContext \<Rightarrow> ptr \<Rightarrow> ptr set" where
  "targets ctx d =
     (let D = decl ctx d in
      set (decls D) \<union> {getTemplatedDecl D} \<union> set (specializations D) \<union> set_option (getFriendDecl D))"

definition universe :: "ASTContext \<Rightarrow> ptr set \<Rightarrow> bool" where
  "universe ctx U \<longleftrightarrow> finite U \<and> (\<forall>d \<in> U. targets ctx d \<subseteq> U)"

text \<open>How many declarations are still to be visited.\<close>

definition unvisited :: "ASTContext \<Rightarrow> ptr set \<Rightarrow> builder \<Rightarrow> nat" where
  "unvisited ctx U s = card ((\<lambda>d. getID (decl ctx d)) ` U - visited s)"

definition few_left :: "ASTContext \<Rightarrow> ptr set \<Rightarrow> nat \<Rightarrow> builder \<Rightarrow> bool" where
  "few_left ctx U n s \<longleftrightarrow> unvisited ctx U s \<le> n"

locale fueled_visitor =
  fixes bm :: BuildModule and visit :: visitor and U :: "ptr set" and n :: nat
  assumes visit: "universe (bm_context bm) U \<Longrightarrow> d \<in> U \<Longrightarrow>
    fueled (few_left (bm_context bm) U n) (visit d fl)"
begin

abbreviation ends :: "builder action \<Rightarrow> bool" where
  "ends m \<equiv> fueled (few_left (bm_context bm) U n) m"

lemma ends_basic [fueled_intros]:
  "ends (on_module f)" "ends (on_specs g)" "ends (unsupported_decl lv d)" "ends (IGNORE d fl)"
  by (auto intro!: fueledI
      simp: on_module_def on_specs_def unsupported_decl_def IGNORE_def skip_def few_left_def unvisited_def)

lemma ends_go_bind [fueled_intros]: "(\<And>w. ends (f w)) \<Longrightarrow> ends (bindQ (go bm d fl def) f)"
  by (auto simp: go_def bindQ_returning Let_def split: What.split intro!: fueled_seqA ends_basic)

lemma ends_go [fueled_intros]: "ends (go1 bm d fl def)"
  unfolding go1_def by (rule fueled_intros)+

lemma ends_visits:
  "universe (bm_context bm) U \<Longrightarrow> set ds \<subseteq> U \<Longrightarrow> ends (VisitDecls visit ds fl)"
  unfolding VisitDecls_def by (rule fueled_map) (auto intro: visit)

lemma targets_in: "universe (bm_context bm) U \<Longrightarrow> d \<in> U \<Longrightarrow> targets (bm_context bm) d \<subseteq> U"
  by (simp add: universe_def)

lemma ends_dispatch:
  assumes U: "universe (bm_context bm) U" and d: "d \<in> U"
  shows "ends (Visit_dispatch bm visit d fl)"
proof -
  let ?D = "decl (bm_context bm) d"
  have sub: "set (decls ?D) \<subseteq> U" "getTemplatedDecl ?D \<in> U" "set (specializations ?D) \<subseteq> U"
      "getFriendDecl ?D = Some f \<Longrightarrow> f \<in> U" for f
    using targets_in [OF assms] by (auto simp: targets_def Let_def)
  note rules = fueled_intros fueled_map ends_visits visit
  have tag: "ends (VisitTagDecl bm d fl)" for fl
    unfolding VisitTagDecl_def by (rule rules)+
  have fn: "ends (VisitFunctionDecl bm visit d fl)" for fl
    unfolding VisitFunctionDecl_def by (rule rules | (use U sub in blast))+
  have spec: "ends (VisitSpecializations bm visit d fl)" for fl
    unfolding VisitSpecializations_def by (rule rules | (use U sub in blast))+
  have "ends (m d fl)" if "m \<in> snd ` set (BuildModule_methods bm visit)" for m
    using that
    unfolding BuildModule_methods_def VisitTranslationUnitDecl_def VisitNamespaceDecl_def
      VisitLinkageSpecDecl_def VisitFriendDecl_def VisitTypeAliasTemplateDecl_def
      VisitCXXRecordDecl_def VisitDeclContext_def VisitTypedefNameDecl_def VisitVarDecl_def
      VisitEnumConstantDecl_def VisitEnumDecl_def VisitDecl_def VisitTypeDecl_def
      VisitStaticAssertDecl_def VisitCXXMethodDecl_def VisitClassTemplateDecl_def
      VisitFunctionTemplateDecl_def VisitVarTemplateDecl_def
    apply (simp only: set_simps image_insert image_empty snd_conv insert_iff empty_iff)
    apply (elim disjE)
    apply (simp_all only: if_False)
    by (rule rules tag fn spec | (use U sub in blast))+
  then show ?thesis
    using dispatch_cases [of "BuildModule_methods bm visit" IGNORE "getKind ?D"] ends_basic(4)
    unfolding Visit_dispatch_def by (metis image_eqI snd_conv)
qed

end

lemma unvisited_mark:
  assumes "universe ctx U" "d \<in> U" "getID (decl ctx d) \<notin> visited s" "unvisited ctx U s \<le> Suc n"
  shows "unvisited ctx U (s\<lparr>visited := insert (getID (decl ctx d)) (visited s)\<rparr>) \<le> n"
proof -
  let ?I = "(\<lambda>d. getID (decl ctx d)) ` U" and ?i = "getID (decl ctx d)"
  have "?I - insert ?i (visited s) \<subset> ?I - visited s" using assms(2,3) by auto
  moreover have "finite (?I - visited s)" using assms(1) by (simp add: universe_def)
  ultimately have "card (?I - insert ?i (visited s)) < card (?I - visited s)"
    by (simp add: psubset_card_mono)
  with assms(4) show ?thesis by (simp add: unvisited_def)
qed

lemma all_visited:
  assumes "universe ctx U" "d \<in> U" "unvisited ctx U s = 0"
  shows "getID (decl ctx d) \<in> visited s"
  using assms by (auto simp: universe_def unvisited_def)

lemma few_left_Suc: "few_left ctx U n s \<Longrightarrow> few_left ctx U (Suc n) s"
  by (simp add: few_left_def)

lemma Visit_is_fueled: "fueled_visitor bm (Visit n bm) U n"
proof (induction n)
  case 0
  show ?case
    by unfold_locales
      (auto intro!: fueledI simp: few_left_def split: if_splits dest: all_visited)
next
  case (Suc n)
  show ?case
  proof
    fix d fl assume U: "universe (bm_context bm) U" "d \<in> U"
    show "fueled (few_left (bm_context bm) U (Suc n)) (Visit (Suc n) bm d fl)"
    proof (rule fueledI)
      fix s assume "few_left (bm_context bm) U (Suc n) s"
      then show "Visit (Suc n) bm d fl s \<noteq> Inl OutOfFuel"
        using fueledD(1) [OF fueled_visitor.ends_dispatch [OF Suc U]] unvisited_mark [OF U]
        by (simp add: few_left_def)
    next
      fix s s' assume "few_left (bm_context bm) U (Suc n) s" "Visit (Suc n) bm d fl s = Inr s'"
      then show "few_left (bm_context bm) U (Suc n) s'"
        using fueledD(2) [OF fueled_visitor.ends_dispatch [OF Suc U]] unvisited_mark [OF U]
        by (fastforce simp: few_left_def split: if_splits)
    qed
  qed
qed

interpretation fuel: fueled_visitor bm "Visit n bm" U n for bm n U
  by (rule Visit_is_fueled)

section \<open>Nothing is missed\<close>

text \<open>
  The declarations that a traversal must record as definitions: the filter wants their
  definition, and they are one of those that the methods of \<open>BuildModule\<close> take for a definition.
\<close>

definition translatable :: "BuildModule \<Rightarrow> ptr \<Rightarrow> bool" where
  "translatable bm d \<longleftrightarrow>
     (let ctx = bm_context bm; D = decl ctx d in
      bm_filter bm d = DEFINITION \<and>
      (case getKind D of
         FunctionDecl \<Rightarrow> getDefinition D = Some d \<and> (isDependentContext D \<longrightarrow> bm_templates bm)
       | CXXMethodDecl \<Rightarrow>
           getDefinition D = Some d \<and> (isDependentContext D \<longrightarrow> bm_templates bm) \<and> \<not> isDeleted D
       | CXXConstructorDecl \<Rightarrow>
           getDefinition D = Some d \<and> (isDependentContext D \<longrightarrow> bm_templates bm) \<and> \<not> isDeleted D
       | CXXDestructorDecl \<Rightarrow>
           getDefinition D = Some d \<and> (isDependentContext D \<longrightarrow> bm_templates bm) \<and> \<not> isDeleted D
       | CXXConversionDecl \<Rightarrow>
           getDefinition D = Some d \<and> (isDependentContext D \<longrightarrow> bm_templates bm) \<and> \<not> isDeleted D
       | CXXRecordDecl \<Rightarrow>
           getDefinition D = Some d \<and> (isDependentContext D \<longrightarrow> bm_templates bm)
             \<and> (isImplicit D \<longrightarrow> isLambda D)
       | ClassTemplateSpecializationDecl \<Rightarrow>
           getDefinition D = Some d \<and> (isDependentContext D \<longrightarrow> bm_templates bm)
             \<and> (isImplicit D \<longrightarrow> isLambda D)
       | VarDecl \<Rightarrow> getDefinition D = Some d \<and> (isTemplated D \<longrightarrow> bm_templates bm)
       | EnumDecl \<Rightarrow> getCanonicalDecl D = d
       | TypedefDecl \<Rightarrow> getCanonicalDecl D = d \<and> \<not> getAnonDeclWithTypedefName D
       | TypeAliasDecl \<Rightarrow> getCanonicalDecl D = d \<and> \<not> getAnonDeclWithTypedefName D
       | _ \<Rightarrow> False))"

text \<open>The scopes whose members are all visited.\<close>

definition members :: "BuildModule \<Rightarrow> ptr \<Rightarrow> ptr list" where
  "members bm d =
     (let D = decl (bm_context bm) d in
      case getKind D of
        NamespaceDecl \<Rightarrow> decls D
      | LinkageSpecDecl \<Rightarrow> decls D
      | CXXRecordDecl \<Rightarrow>
          if (isImplicit D \<longrightarrow> isLambda D) \<and> (isDependentContext D \<longrightarrow> bm_templates bm)
          then decls D else []
      | ClassTemplateSpecializationDecl \<Rightarrow>
          if (isImplicit D \<longrightarrow> isLambda D) \<and> (isDependentContext D \<longrightarrow> bm_templates bm)
          then decls D else []
      | ClassTemplateDecl \<Rightarrow> specializations D
      | FunctionTemplateDecl \<Rightarrow> specializations D
      | VarTemplateDecl \<Rightarrow> specializations D
      | _ \<Rightarrow> [])"

inductive reached :: "BuildModule \<Rightarrow> ptr \<Rightarrow> ptr \<Rightarrow> bool" for bm tu where
  top: "d \<in> set (decls (decl (bm_context bm) tu)) \<Longrightarrow> reached bm tu d"
| member: "reached bm tu d \<Longrightarrow> c \<in> set (members bm d) \<Longrightarrow> reached bm tu c"

definition recorded :: "BuildModule \<Rightarrow> ptr \<Rightarrow> builder \<Rightarrow> bool" where
  "recorded bm d s \<longleftrightarrow>
     (translatable bm d \<longrightarrow>
        d \<in> set (definitions (module s)) \<union> set (template_definitions (module s)))
     \<and> (\<forall>c \<in> set (members bm d). getID (decl (bm_context bm) c) \<in> visited s)"

text \<open>Everything visited is recorded, except the declarations whose visit is under way.\<close>

definition distinct_ids :: "ASTContext \<Rightarrow> bool" where
  "distinct_ids ctx \<longleftrightarrow> inj (\<lambda>d. getID (decl ctx d))"

definition complete :: "BuildModule \<Rightarrow> ptr set \<Rightarrow> builder \<Rightarrow> bool" where
  "complete bm P s \<longleftrightarrow> (distinct_ids (bm_context bm) \<longrightarrow>
     (\<forall>d. getID (decl (bm_context bm) d) \<in> visited s \<longrightarrow> d \<in> P \<or> recorded bm d s))"

lemmas dispatch_run = Visit_dispatch_def dispatch_def ancestors_def eval_nat_numeral BuildModule_methods_def

definition grows :: "builder \<Rightarrow> builder \<Rightarrow> bool" where
  "grows s s' \<longleftrightarrow> visited s \<subseteq> visited s'
     \<and> set (definitions (module s)) \<subseteq> set (definitions (module s'))
     \<and> set (template_definitions (module s)) \<subseteq> set (template_definitions (module s'))"

lemma grows_refl [simp]: "grows s s"
  by (simp add: grows_def)

lemma grows_trans: "grows s t \<Longrightarrow> grows t u \<Longrightarrow> grows s u"
  by (auto simp: grows_def)

lemma recorded_grows: "recorded bm d s \<Longrightarrow> grows s s' \<Longrightarrow> recorded bm d s'"
  by (auto simp: recorded_def grows_def)

definition defined_in :: "ptr \<Rightarrow> builder \<Rightarrow> bool" where
  "defined_in d s \<longleftrightarrow> d \<in> set (definitions (module s)) \<union> set (template_definitions (module s))"

definition all_in :: "BuildModule \<Rightarrow> ptr list \<Rightarrow> builder \<Rightarrow> bool" where
  "all_in bm ds s \<longleftrightarrow> (\<forall>c \<in> set ds. getID (decl (bm_context bm) c) \<in> visited s)"

lemma recorded_iff:
  "recorded bm d s = ((translatable bm d \<longrightarrow> defined_in d s) \<and> all_in bm (members bm d) s)"
  by (simp add: recorded_def defined_in_def all_in_def)

definition sofar :: "BuildModule \<Rightarrow> builder \<Rightarrow> ptr set \<Rightarrow> builder \<Rightarrow> bool" where
  "sofar bm s0 P s \<longleftrightarrow> grows s0 s \<and> complete bm P s"

locale complete_visitor =
  fixes bm :: BuildModule and visit :: visitor
  assumes visit: "preserves (sofar bm s0 P) (visit d fl)"
    and marks: "visit d fl s = Inr s' \<Longrightarrow> getID (decl (bm_context bm) d) \<in> visited s'"
begin

abbreviation completes :: "builder \<Rightarrow> ptr set \<Rightarrow> builder action \<Rightarrow> bool" where
  "completes s0 P m \<equiv> preserves (sofar bm s0 P) m"

lemma completes_step:
  assumes m: "\<And>s. m s = Inr (g s)"
    and g: "\<And>s. visited (g s) = visited s" "\<And>s. grows s (g s)"
  shows "completes s0 P m"
proof (rule tripleI)
  fix s s' assume "sofar bm s0 P s" "m s = Inr s'"
  then show "sofar bm s0 P s'"
    using m [of s] g [of s] grows_trans [of s0 s s'] recorded_grows [of bm _ s s']
    by (auto simp: complete_def sofar_def)
qed

lemma completes_module:
  "completes s0 P (on_module (add_definition d fl))"
  "completes s0 P (on_module (add_declaration d fl))"
  "completes s0 P (on_module (add_assert d))"
  by (rule completes_step [OF on_module_def],
      (auto simp: grows_def add_definition_def add_declaration_def add_assert_def add_decl_def)[2])+

lemma completes_other:
  "completes s0 P (on_specs f)" "completes s0 P (unsupported_decl lv d)"
  by (rule completes_step [OF on_specs_def] completes_step [OF unsupported_decl_def], (simp_all add: grows_def)[2])+

lemmas completes_basic [triple_intros] = completes_module completes_other

lemma completes_go_bind [triple_intros]:
  "(\<And>w. completes s0 P (f w)) \<Longrightarrow> completes s0 P (bindQ (go bm d fl def) f)"
  by (auto simp: go_def bindQ_returning Let_def split: What.split intro!: triple_seqA completes_basic)

lemma completes_go [triple_intros]: "completes s0 P (go1 bm d fl def)"
  unfolding go1_def by (rule triple_intros)+

lemma completes_visits [triple_intros]: "completes s0 P (VisitDecls visit ds fl)"
  unfolding VisitDecls_def by (rule preserves_map) (rule visit)

lemma completes_function [triple_intros]: "completes s0 P (VisitFunctionDecl bm visit d fl)"
  unfolding VisitFunctionDecl_def
  by (rule triple_intros visit preserves_map)+

lemma completes_dispatch: "completes s0 P (Visit_dispatch bm visit d fl)"
proof -
  have "completes s0 P (m d fl)" if "m \<in> snd ` set (BuildModule_methods bm visit)" for m
    using that
    unfolding BuildModule_methods_def VisitTranslationUnitDecl_def VisitNamespaceDecl_def
      VisitLinkageSpecDecl_def VisitFriendDecl_def VisitTypeAliasTemplateDecl_def
      VisitCXXRecordDecl_def VisitDeclContext_def VisitTypedefNameDecl_def VisitVarDecl_def
      VisitEnumConstantDecl_def VisitEnumDecl_def VisitDecl_def VisitTypeDecl_def VisitTagDecl_def
      VisitStaticAssertDecl_def VisitCXXMethodDecl_def VisitClassTemplateDecl_def
      VisitFunctionTemplateDecl_def VisitVarTemplateDecl_def VisitSpecializations_def IGNORE_def
    apply (simp only: set_simps image_insert image_empty snd_conv insert_iff empty_iff)
    apply (elim disjE)
    apply (simp_all only: if_False)
    by (rule triple_intros visit preserves_map)+
  moreover have "completes s0 P (IGNORE d fl)"
    unfolding IGNORE_def by (rule triple_skip)
  ultimately show ?thesis
    using dispatch_cases [of "BuildModule_methods bm visit" IGNORE "getKind (decl (bm_context bm) d)"]
    unfolding Visit_dispatch_def by (metis image_eqI snd_conv)
qed

lemma stable:
  assumes "\<And>s0. completes s0 UNIV m" and "\<And>s s'. grows s s' \<Longrightarrow> R s \<Longrightarrow> R s'"
  shows "preserves R m"
proof (rule tripleI)
  fix s s' assume R: "R s" and m: "m s = Inr s'"
  have "sofar bm s UNIV s" by (simp add: sofar_def complete_def)
  from tripleD [OF assms(1) this m] have "grows s s'" by (simp add: sofar_def)
  then show "R s'" using R by (rule assms(2))
qed

lemma defined_in_stable: "(\<And>s0. completes s0 UNIV m) \<Longrightarrow> preserves (defined_in c) m"
  by (rule stable) (auto simp: defined_in_def grows_def)

lemma all_in_stable: "(\<And>s0. completes s0 UNIV m) \<Longrightarrow> preserves (all_in bm ds) m"
  by (rule stable) (auto simp: all_in_def grows_def)

lemma add_defines: "triple (\<lambda>_. True) (on_module (add_definition d fl)) (defined_in d)"
  by (rule tripleI) (auto simp: on_module_def add_definition_def add_decl_def defined_in_def split: if_splits)

lemma go_defines_bind:
  assumes "bm_filter bm d = DEFINITION" and "\<And>s0. completes s0 UNIV (f DEFINITION)"
  shows "triple (\<lambda>_. True) (bindQ (go bm d fl True) f) (defined_in d)"
  using assms triple_seqA [OF add_defines defined_in_stable] by (simp add: go_def bindQ_returning)

lemma go_defines:
  "bm_filter bm d = DEFINITION \<Longrightarrow> triple (\<lambda>_. True) (go1 bm d fl True) (defined_in d)"
  unfolding go1_def by (rule go_defines_bind) (assumption, rule triple_skip)

lemma visits_mark: "triple (\<lambda>_. True) (VisitDecls visit ds fl) (all_in bm ds)"
proof (induction ds)
  case Nil
  then show ?case by (simp add: triple_def all_in_def)
next
  case (Cons c ds)
  have "triple (\<lambda>_. True) (visit c fl) (all_in bm [c])"
    by (rule tripleI) (simp add: marks all_in_def)
  then have "triple (\<lambda>_. True) (VisitDecls visit (c # ds) fl) (all_in bm [c])"
    using all_in_stable [OF completes_visits] by (auto simp: VisitDecls_def intro: triple_seqA)
  moreover have "triple (\<lambda>_. True) (VisitDecls visit (c # ds) fl) (all_in bm ds)"
    using Cons by (auto simp: VisitDecls_def triple_def seqA_def split: sum.splits)
  ultimately show ?case by (simp add: triple_def all_in_def)
qed

lemma function_defines:
  assumes "bm_filter bm d = DEFINITION" "getDefinition (decl (bm_context bm) d) = Some d"
    and "isDependentContext (decl (bm_context bm) d) \<Longrightarrow> bm_templates bm"
  shows "triple (\<lambda>_. True) (VisitFunctionDecl bm visit d fl) (defined_in d)"
proof -
  have nd: "(isDependentContext (decl (bm_context bm) d) \<and> \<not> bm_templates bm) = False"
    using assms(3) by blast
  have first: "triple (\<lambda>_. True) m (\<lambda>_. True)" for m
    by (simp add: triple_def)
  show ?thesis
    unfolding VisitFunctionDecl_def Let_def
    by (simp only: nd assms(2) if_False simp_thms if_True)
      (rule triple_Cons [OF first], rule triple_Cons [OF go_defines_bind triple_Nil], rule assms,
       (rule triple_intros visit preserves_map)+)
qed

lemma record_defines:
  assumes "isImplicit D \<Longrightarrow> isLambda D" "isDependentContext D \<Longrightarrow> bm_templates bm"
    and "D = decl (bm_context bm) d"
  shows "bm_filter bm d = DEFINITION \<Longrightarrow> getDefinition D = Some d \<Longrightarrow>
      triple (\<lambda>_. True) (VisitCXXRecordDecl bm visit d fl) (defined_in d)"
    and "triple (\<lambda>_. True) (VisitCXXRecordDecl bm visit d fl) (all_in bm (decls D))"
proof -
  have eq: "VisitCXXRecordDecl bm visit d fl
      = seqA (VisitTagDecl bm d fl) (VisitDecls visit (decls D) fl)"
    using assms by (auto simp: VisitCXXRecordDecl_def VisitDeclContext_def Let_def)
  show "triple (\<lambda>_. True) (VisitCXXRecordDecl bm visit d fl) (defined_in d)"
    if "bm_filter bm d = DEFINITION" "getDefinition D = Some d"
    unfolding eq using that assms(3)
    by (intro triple_seqA [OF _ defined_in_stable [OF completes_visits]])
      (simp add: VisitTagDecl_def go_defines)
  show "triple (\<lambda>_. True) (VisitCXXRecordDecl bm visit d fl) (all_in bm (decls D))"
    unfolding eq by (rule triple_seqA [OF _ visits_mark]) (simp add: triple_def)
qed

lemma then_visits_mark: "triple (\<lambda>_. True) (seqP [m, VisitDecls visit ds fl]) (all_in bm ds)"
  by (rule triple_Cons [where R = "\<lambda>_. True"], simp add: triple_def,
      rule triple_Cons [OF visits_mark triple_Nil])

lemma specializations_mark:
  "triple (\<lambda>_. True) (VisitSpecializations bm visit d fl)
     (all_in bm (specializations (decl (bm_context bm) d)))"
  unfolding VisitSpecializations_def by (rule then_visits_mark)

lemma context_marks:
  "triple (\<lambda>_. True) (VisitNamespaceDecl bm visit d fl) (all_in bm (decls (decl (bm_context bm) d)))"
  "triple (\<lambda>_. True) (VisitLinkageSpecDecl bm visit d fl) (all_in bm (decls (decl (bm_context bm) d)))"
  "triple (\<lambda>_. True) (VisitTranslationUnitDecl bm visit d fl) (all_in bm (decls (decl (bm_context bm) d)))"
  unfolding VisitNamespaceDecl_def VisitLinkageSpecDecl_def VisitTranslationUnitDecl_def VisitDeclContext_def
  by (rule then_visits_mark)+

lemma var_defines:
  assumes "bm_filter bm d = DEFINITION" "getDefinition (decl (bm_context bm) d) = Some d"
    and "isTemplated (decl (bm_context bm) d) \<Longrightarrow> bm_templates bm"
  shows "triple (\<lambda>_. True) (VisitVarDecl bm d fl) (defined_in d)"
  using assms by (auto simp: VisitVarDecl_def Let_def go_defines)

lemma no_members: "triple P m (all_in bm [])"
  by (simp add: triple_def all_in_def)

lemma enum_defines:
  assumes "bm_filter bm d = DEFINITION" "getCanonicalDecl (decl (bm_context bm) d) = d"
  shows "triple (\<lambda>_. True) (VisitEnumDecl bm d fl) (defined_in d)"
proof -
  have "preserves (defined_in d) (seqP (map (\<lambda>i. go1 bm i fl True) is))" for "is"
    by (rule defined_in_stable, rule preserves_map, rule completes_go)
  from triple_seqA [OF go_defines [OF assms(1)] this] assms(2) show ?thesis
    by (simp add: VisitEnumDecl_def isCanonicalDecl_def)
qed

lemma dispatch_defines:
  assumes "translatable bm d"
  shows "triple (\<lambda>_. True) (Visit_dispatch bm visit d fl) (defined_in d)"
  using assms function_defines record_defines(1) [OF _ _ refl] enum_defines var_defines
  by (cases "getKind (decl (bm_context bm) d)";
      simp add: dispatch_run translatable_def Let_def VisitCXXMethodDecl_def
        VisitTypedefNameDecl_def isCanonicalDecl_def go_defines split: if_splits)

lemma dispatch_marks: "triple (\<lambda>_. True) (Visit_dispatch bm visit d fl) (all_in bm (members bm d))"
  using specializations_mark context_marks record_defines(2) [OF _ _ refl]
  by (cases "getKind (decl (bm_context bm) d)";
      simp add: dispatch_run members_def Let_def VisitClassTemplateDecl_def VisitFunctionTemplateDecl_def
        VisitVarTemplateDecl_def no_members)

end

lemma Visit_completes: "complete_visitor bm (Visit n bm)"
proof (induction n)
  case 0
  show ?case
    by unfold_locales (auto intro!: tripleI split: if_splits)
next
  case (Suc n)
  let ?id = "\<lambda>d. getID (decl (bm_context bm) d)"
  have step: "sofar bm s0 P s' \<and> ?id d \<in> visited s'"
    if s: "sofar bm s0 P s" and v: "Visit (Suc n) bm d fl s = Inr s'" for s0 P d fl s s'
  proof (cases "?id d \<in> visited s")
    case True
    with that show ?thesis by simp
  next
    case False
    let ?t = "s\<lparr>visited := insert (?id d) (visited s)\<rparr>"
    from v False have r: "Visit_dispatch bm (Visit n bm) d fl ?t = Inr s'" by simp
    have rg: "recorded bm x ?t" if "recorded bm x s" for x
      using that by (rule recorded_grows) (auto simp: grows_def)
    have "grows s0 ?t" using s by (auto simp: sofar_def grows_def)
    moreover have "complete bm (insert d P) ?t"
      using s rg by (auto simp: sofar_def complete_def distinct_ids_def dest: injD)
    ultimately have "sofar bm s0 (insert d P) ?t" by (simp add: sofar_def)
    from tripleD [OF complete_visitor.completes_dispatch [OF Suc] this r]
    have c: "sofar bm s0 (insert d P) s'" .
    have "sofar bm ?t UNIV ?t" by (simp add: sofar_def complete_def)
    from tripleD [OF complete_visitor.completes_dispatch [OF Suc] this r]
    have "?id d \<in> visited s'" by (auto simp: sofar_def grows_def)
    moreover have "recorded bm d s'"
      using tripleD [OF complete_visitor.dispatch_defines [OF Suc] TrueI r]
        tripleD [OF complete_visitor.dispatch_marks [OF Suc] TrueI r]
      by (simp add: recorded_iff)
    ultimately show ?thesis using c by (auto simp: sofar_def complete_def)
  qed
  show ?case
  proof
    show "preserves (sofar bm s0 P) (Visit (Suc n) bm d fl)" for s0 P d fl
      by (rule tripleI) (use step in blast)
    show "?id d \<in> visited s'" if "Visit (Suc n) bm d fl s = Inr s'" for d fl s s'
      using step [of s UNIV s d fl s'] that by (simp add: sofar_def complete_def)
  qed
qed

interpretation complete: complete_visitor bm "Visit n bm" for bm n
  by (rule Visit_completes)

lemma reached_visited:
  assumes ids: "distinct_ids (bm_context bm)" and c: "complete bm {} s"
    and top: "all_in bm (decls (decl (bm_context bm) tu)) s" and r: "reached bm tu d"
  shows "getID (decl (bm_context bm) d) \<in> visited s"
  using r
proof induction
  case (top d)
  with assms(3) show ?case by (simp add: all_in_def)
next
  case (member d c)
  then have "recorded bm d s" using c ids by (simp add: complete_def)
  with member show ?case by (simp add: recorded_def)
qed

text \<open>
  An example for the witnesses: \<open>namespace { void f() {} }\<close>, where declaration 0 is the
  translation unit, 1 the namespace and 2 the function.
\<close>

definition example_tu :: ASTContext where
  "example_tu = ast0\<lparr>decl := decl0
     (0 := (decl0 0)\<lparr>getKind := TranslationUnitDecl, decls := [1]\<rparr>,
      1 := (decl0 1)\<lparr>getKind := NamespaceDecl, decls := [2]\<rparr>,
      2 := (decl0 2)\<lparr>getKind := FunctionDecl, getDefinition := Some 2\<rparr>)\<rparr>"

definition example_built :: builder where
  "example_built = \<lparr>module = Module_init\<lparr>definitions := [2]\<rparr>, specs = SpecCollector_init,
     visited = {1, 2}, dropped = []\<rparr>"

lemma example_run: "build_module 3 (Default DEFINITION) False example_tu 0 = Inr example_built"
  by (simp add: build_module_def Let_def VisitTranslationUnitDecl_def VisitDecls_def run_defs
      flags_none_def no_flags_def dispatch_run example_tu_def ast0_def decl0_def VisitNamespaceDecl_def
      VisitDeclContext_def VisitFunctionDecl_def go_def Default_def on_module_def add_definition_def
      add_decl_def builder_init_def Module_init_def example_built_def less_eq_What_def insert_commute)

lemma example_ok: "distinct_ids example_tu" "wf_enumerators example_tu" "universe example_tu {0, 1, 2}"
  by (auto simp: distinct_ids_def wf_enumerators_def universe_def targets_def example_tu_def ast0_def
      decl0_def inj_def)

section \<open>Properties\<close>

text \<open>
  C19.  The traversal ends: for a translation unit whose declarations, with everything that they
  refer to, form a finite set, fuel for one nested visit per declaration is enough, so
  the fuel never shows in the result.
\<close>

theorem build_module_ends:
  assumes "universe ctx U" and "tu \<in> U" and "card U \<le> fuel"
  shows "build_module fuel flt tmpl ctx tu \<noteq> Inl OutOfFuel"
proof -
  let ?bm = "\<lparr>bm_filter = flt, bm_templates = tmpl, bm_context = ctx\<rparr>"
  have U: "universe (bm_context ?bm) U" "set (decls (decl (bm_context ?bm) tu)) \<subseteq> U"
    using assms by (auto simp: universe_def targets_def Let_def)
  have "fueled (few_left ctx U fuel)
      (VisitTranslationUnitDecl ?bm (Visit fuel ?bm) tu no_flags)"
    unfolding VisitTranslationUnitDecl_def
    using fuel.ends_visits [OF U] by (intro fueled_intros) simp_all
  moreover have "card ((\<lambda>d. getID (decl ctx d)) ` U) \<le> card U"
    using assms(1) by (intro card_image_le) (simp add: universe_def)
  then have "few_left ctx U fuel builder_init"
    using assms(3) by (simp add: few_left_def unvisited_def builder_init_def)
  ultimately show ?thesis by (simp add: build_module_def Let_def fueled_def)
qed

theorem build_module_ends_witness:
  "build_module 3 (Default DEFINITION) False example_tu 0 \<noteq> Inl OutOfFuel"
  by (rule build_module_ends [OF example_ok(3)]) simp_all

text \<open>
  C12.  Nothing is missed: every declaration that is reachable through namespaces, linkage
  specifications, classes and the specializations of templates, and which is a definition
  that the filter wants, is among the definitions or the template definitions of the module.
\<close>

theorem build_module_complete:
  assumes "build_module fuel flt tmpl ctx tu = Inr s" and "distinct_ids ctx"
    and "reached \<lparr>bm_filter = flt, bm_templates = tmpl, bm_context = ctx\<rparr> tu d"
    and "translatable \<lparr>bm_filter = flt, bm_templates = tmpl, bm_context = ctx\<rparr> d"
  shows "d \<in> set (definitions (module s)) \<union> set (template_definitions (module s))"
proof -
  let ?bm = "\<lparr>bm_filter = flt, bm_templates = tmpl, bm_context = ctx\<rparr>"
  have r: "VisitTranslationUnitDecl ?bm (Visit fuel ?bm) tu no_flags builder_init = Inr s"
    using assms(1) by (simp add: build_module_def Let_def)
  have p: "preserves (sofar ?bm builder_init {}) (VisitTranslationUnitDecl ?bm (Visit fuel ?bm) tu no_flags)"
    unfolding VisitTranslationUnitDecl_def by (rule triple_intros complete.completes_visits)+
  have "sofar ?bm builder_init {} builder_init"
    by (simp add: sofar_def complete_def) (simp add: builder_init_def)
  from tripleD [OF p this r] have c: "complete ?bm {} s" by (simp only: sofar_def)
  have "all_in ?bm (decls (decl (bm_context ?bm) tu)) s"
    using tripleD [OF complete.context_marks(3) TrueI r] .
  with c assms have "recorded ?bm d s"
    using reached_visited [of ?bm s tu d] by (simp add: complete_def)
  with assms(4) show ?thesis by (simp add: recorded_def)
qed

theorem build_module_complete_witness: "2 \<in> set (definitions (module example_built))"
proof -
  let ?bm = "\<lparr>bm_filter = Default DEFINITION, bm_templates = False, bm_context = example_tu\<rparr>"
  have "reached ?bm 0 1" by (rule reached.top) (simp add: example_tu_def ast0_def)
  then have r: "reached ?bm 0 2"
    by (rule reached.member) (simp add: members_def example_tu_def ast0_def)
  have "translatable ?bm 2"
    by (simp add: translatable_def example_tu_def ast0_def decl0_def Default_def)
  from build_module_complete [OF example_run example_ok(1) r this] show ?thesis
    by (simp add: example_built_def Module_init_def)
qed

text \<open>
  C13.  Nothing is invented: a definition of the module is one that the filter wants as a definition, a
  function or class among them is the defining declaration, and a declaration of the module
  is one that the filter does not exclude.
\<close>

theorem build_module_sound:
  assumes "build_module fuel flt tmpl ctx tu = Inr s" and "wf_enumerators ctx"
  shows "(\<forall>d \<in> set (definitions (module s)) \<union> set (template_definitions (module s)).
            flt d = DEFINITION
            \<and> (isaD ctx FunctionDecl d \<or> isaD ctx RecordDecl d \<longrightarrow> getDefinition (decl ctx d) = Some d))
       \<and> (\<forall>d \<in> set (declarations (module s)) \<union> set (template_declarations (module s)).
            flt d \<noteq> NOTHING)"
proof -
  note steps = build_module_steps [OF assms]
  have "\<forall>d \<in> all_defs (module s). flt d = DEFINITION \<and> defining ctx d"
    using steps by (rule bsteps_invariant [where I = "\<lambda>m. \<forall>d \<in> all_defs m. flt d = DEFINITION \<and> defining ctx d"])
      (simp_all add: builder_init_def)
  moreover have "\<forall>d \<in> all_decls (module s). flt d \<noteq> NOTHING"
    using steps by (rule bsteps_invariant [where I = "\<lambda>m. \<forall>d \<in> all_decls m. flt d \<noteq> NOTHING"])
      (simp_all add: builder_init_def wanted_iff)
  ultimately show ?thesis by (simp only: defining_def all_defs_def all_decls_def)
qed

theorem build_module_sound_witness: "getDefinition (decl example_tu 2) = Some 2"
  using build_module_sound [OF example_run example_ok(2)]
  by (simp add: example_built_def Module_init_def example_tu_def ast0_def isa_all eval_nat_numeral)

text \<open>
  C20.  Without templates the template lists hold nothing of their own: what they list are
  specializations, and these are in the main lists as well.
\<close>

theorem build_module_no_templates:
  assumes "build_module fuel flt False ctx tu = Inr s" and "wf_enumerators ctx"
  shows "set (template_definitions (module s)) \<subseteq> set (definitions (module s))
    \<and> set (template_declarations (module s)) \<subseteq> set (declarations (module s))"
  using build_module_steps [OF assms]
  by (rule bsteps_invariant [where I = "\<lambda>m. set (template_definitions m) \<subseteq> set (definitions m)
      \<and> set (template_declarations m) \<subseteq> set (declarations m)"])
    (auto simp: builder_init_def Module_init_def add_definition_def add_declaration_def
      add_assert_def add_decl_def flag_ok_def)

theorem build_module_no_templates_witness:
  "set (template_definitions (module example_built)) \<subseteq> {2}"
  using build_module_no_templates [OF example_run example_ok(2)]
  by (auto simp: example_built_def Module_init_def)

end
