(* ===== verification/PrintStmt.thy ===== *)
theory PrintStmt
  imports PrintType
begin

text \<open>
  Model of \<open>src/PrintStmt.cpp\<close> and \<open>src/PrintLocalDecl.cpp\<close>: the visitors that print a statement and a
  local declaration.  The body of a \<open>switch\<close> is a compound statement whose printed list is cut into
  labels and statements, so the printers of \<open>case\<close> and \<open>default\<close> write a list separator themselves.
\<close>

section \<open>Statements\<close>

text \<open>\<open>some\<close>, the child and \<open>end_ctor\<close> if there is a child, \<open>none\<close> otherwise.\<close>

definition option_child :: "('a \<Rightarrow> printer) \<Rightarrow> 'a option \<Rightarrow> printer" where
  "option_child f v = (case v of Some x \<Rightarrow> seqP [some, f x, end_ctor] | None \<Rightarrow> none)"

text \<open>A call of \<open>printLocalDecl\<close> whose answer is dropped.\<close>

definition printLocalDecl_stmt :: "ClangPrinter \<Rightarrow> ptr \<Rightarrow> printer" where
  "printLocalDecl_stmt cprint d = bindQ (rec_printLocalDecl cprint d) (\<lambda>b. skip)"

definition VisitStmt :: "string \<Rightarrow> printer" where
  "VisitStmt n = die (''unsupported statement '' @ n)"

definition VisitDeclStmt :: "ClangPrinter \<Rightarrow> ptr list \<Rightarrow> printer" where
  "VisitDeclStmt cprint ds =
     seqP [ctor ''Sdecl'' True,
           begin_list,
           seqP (map (\<lambda>d. bindQ (rec_printLocalDecl cprint d) (\<lambda>b. if b then cons else skip)) ds),
           end_list,
           end_ctor]"

definition VisitWhileStmt :: "ClangPrinter \<Rightarrow> ptr option \<Rightarrow> ptr \<Rightarrow> ptr \<Rightarrow> printer" where
  "VisitWhileStmt cprint var cond body =
     seqP [ctor ''Swhile'' True,
           (case var of
              Some v \<Rightarrow> seqP [some, printLocalDecl_stmt cprint v, rparen]
            | None \<Rightarrow> none),
           nbsp, printExpr1 cprint cond,
           nbsp, rec_printStmt cprint body,
           end_ctor]"

definition VisitForStmt ::
  "ClangPrinter \<Rightarrow> ptr option \<Rightarrow> ptr option \<Rightarrow> ptr option \<Rightarrow> ptr \<Rightarrow> printer" where
  "VisitForStmt cprint init cond inc body =
     seqP [ctor ''Sfor'' True,
           option_child (rec_printStmt cprint) init, nbsp,
           option_child (printExpr1 cprint) cond, nbsp,
           option_child (printExpr1 cprint) inc, nbsp,
           rec_printStmt cprint body,
           end_ctor]"

definition VisitCXXForRangeStmt ::
  "ClangPrinter \<Rightarrow> ptr \<Rightarrow> ptr \<Rightarrow> ptr \<Rightarrow> ptr option \<Rightarrow> ptr option \<Rightarrow> ptr option \<Rightarrow> ptr \<Rightarrow> ptr \<Rightarrow> printer" where
  "VisitCXXForRangeStmt cprint range_stmt begin_stmt end_stmt init cond inc loop_var body =
     seqP [ctor ''Sforeach'' True,
           rec_printStmt cprint range_stmt, nbsp,
           rec_printStmt cprint begin_stmt, nbsp,
           rec_printStmt cprint end_stmt, nbsp,
           option_child (rec_printStmt cprint) init, nbsp,
           option_child (printExpr1 cprint) cond, nbsp,
           option_child (printExpr1 cprint) inc, nbsp,
           rec_printStmt cprint loop_var, nbsp,
           rec_printStmt cprint body,
           end_ctor]"

definition VisitDoStmt :: "ClangPrinter \<Rightarrow> ptr \<Rightarrow> ptr \<Rightarrow> printer" where
  "VisitDoStmt cprint body cond =
     seqP [ctor ''Sdo'' True, rec_printStmt cprint body, nbsp, printExpr1 cprint cond, end_ctor]"

definition VisitBreakStmt :: printer where
  "VisitBreakStmt = put ''Sbreak''"

definition VisitContinueStmt :: printer where
  "VisitContinueStmt = put ''Scontinue''"

definition else_branch :: "ClangPrinter \<Rightarrow> ptr option \<Rightarrow> printer" where
  "else_branch cprint els = (case els of Some s \<Rightarrow> rec_printStmt cprint s | None \<Rightarrow> put ''Sskip'')"

definition VisitIfStmt ::
  "ClangPrinter \<Rightarrow> bool \<Rightarrow> ptr option \<Rightarrow> ptr \<Rightarrow> ptr \<Rightarrow> ptr option \<Rightarrow> printer" where
  "VisitIfStmt cprint isConsteval var cond thn els =
     (if isConsteval then
        guard_ctor ''Sif_consteval'' True
          [rec_printStmt cprint thn, nbsp, else_branch cprint els]
      else
        guard_ctor ''Sif'' True
          [option_child (printLocalDecl_stmt cprint) var, nbsp,
           printExpr1 cprint cond, nbsp,
           rec_printStmt cprint thn, nbsp,
           else_branch cprint els])"

definition VisitCaseStmt :: "ClangPrinter \<Rightarrow> int \<Rightarrow> int option \<Rightarrow> ptr \<Rightarrow> printer" where
  "VisitCaseStmt cprint lo rhs sub =
     seqP [ctor ''Scase'' True,
           (case rhs of
              Some hi \<Rightarrow> guard_ctor ''Range'' True [putZ lo, nbsp, putZ hi]
            | None \<Rightarrow> guard_ctor ''Exact'' True [putZ lo]),
           end_ctor,
           cons,
           rec_printStmt cprint sub]"

definition VisitDefaultStmt :: "ClangPrinter \<Rightarrow> ptr option \<Rightarrow> printer" where
  "VisitDefaultStmt cprint sub =
     seqP [put ''Sdefault'',
           (case sub of Some s \<Rightarrow> seqP [cons, rec_printStmt cprint s] | None \<Rightarrow> skip)]"

text \<open>There is no separator between the variable, the condition and the body of a \<open>switch\<close>.\<close>

definition VisitSwitchStmt :: "ClangPrinter \<Rightarrow> ptr option \<Rightarrow> ptr \<Rightarrow> ptr \<Rightarrow> printer" where
  "VisitSwitchStmt cprint var cond body =
     seqP [ctor ''Sswitch'' True,
           option_child (printLocalDecl_stmt cprint) var,
           printExpr1 cprint cond,
           rec_printStmt cprint body,
           end_ctor]"

definition VisitExpr_stmt :: "ClangPrinter \<Rightarrow> ptr \<Rightarrow> printer" where
  "VisitExpr_stmt cprint e = seqP [ctor ''Sexpr'' True, printExpr1 cprint e, end_ctor]"

definition VisitReturnStmt :: "ClangPrinter \<Rightarrow> ptr option \<Rightarrow> printer" where
  "VisitReturnStmt cprint v =
     (case v of
        Some rv \<Rightarrow> seqP [ctor ''Sreturn_val'' True, printExpr1 cprint rv, end_ctor]
      | None \<Rightarrow> put ''Sreturn_void'')"

definition VisitCompoundStmt :: "ClangPrinter \<Rightarrow> ptr list \<Rightarrow> printer" where
  "VisitCompoundStmt cprint body =
     seqP [ctor ''Sseq'' True,
           begin_list,
           seqP (map (\<lambda>s. seqP [rec_printStmt cprint s, cons]) body),
           end_list,
           end_ctor]"

definition VisitNullStmt :: printer where
  "VisitNullStmt = put ''Sskip''"

definition asm_operands :: "ClangPrinter \<Rightarrow> (string \<times> ptr) list \<Rightarrow> printer" where
  "asm_operands cprint ops =
     seqP [begin_list,
           seqP (map (\<lambda>(c, e). seqP [begin_tuple, str c, next_tuple, printExpr1 cprint e, end_tuple, cons]) ops),
           end_list]"

definition VisitGCCAsmStmt ::
  "ClangPrinter \<Rightarrow> string \<Rightarrow> bool \<Rightarrow> (string \<times> ptr) list \<Rightarrow> (string \<times> ptr) list \<Rightarrow> string list \<Rightarrow> printer" where
  "VisitGCCAsmStmt cprint text is_volatile inputs outputs clobbers =
     seqP [ctor ''Sasm'' True,
           str text, nbsp,
           put (if is_volatile then ''true'' else ''false''), nbsp,
           asm_operands cprint inputs,
           asm_operands cprint outputs,
           begin_list,
           seqP (map (\<lambda>c. seqP [str c, cons]) clobbers),
           end_list,
           end_ctor]"

definition VisitAttributedStmt :: "ClangPrinter \<Rightarrow> string list \<Rightarrow> ptr \<Rightarrow> printer" where
  "VisitAttributedStmt cprint attrs sub =
     seqP [ctor ''Sattr'' True,
           begin_list,
           seqP (map (\<lambda>i. seqP [str i, cons]) attrs),
           end_list,
           rec_printStmt cprint sub,
           end_ctor]"

definition VisitLabelStmt :: "ClangPrinter \<Rightarrow> string \<Rightarrow> ptr \<Rightarrow> printer" where
  "VisitLabelStmt cprint label sub =
     seqP [ctor ''Slabeled'' True, str label, nbsp, rec_printStmt cprint sub, end_ctor]"

definition VisitGotoStmt :: "string \<Rightarrow> printer" where
  "VisitGotoStmt label = seqP [ctor ''Sgoto'' True, str label, end_ctor]"

definition VisitCXXTryStmt :: printer where
  "VisitCXXTryStmt = seqP [ctor ''Sunsupported'' True, str ''try'', end_ctor]"

fun stmt_dispatch :: "ClangPrinter \<Rightarrow> ptr \<Rightarrow> stmt_node \<Rightarrow> printer" where
  "stmt_dispatch cprint s (DeclStmt ds) = VisitDeclStmt cprint ds"
| "stmt_dispatch cprint s (WhileStmt v c b) = VisitWhileStmt cprint v c b"
| "stmt_dispatch cprint s (ForStmt i c n b) = VisitForStmt cprint i c n b"
| "stmt_dispatch cprint s (CXXForRangeStmt r bs es i c n lv b) =
     VisitCXXForRangeStmt cprint r bs es i c n lv b"
| "stmt_dispatch cprint s (DoStmt b c) = VisitDoStmt cprint b c"
| "stmt_dispatch cprint s BreakStmt = VisitBreakStmt"
| "stmt_dispatch cprint s ContinueStmt = VisitContinueStmt"
| "stmt_dispatch cprint s (IfStmt ce v c t e) = VisitIfStmt cprint ce v c t e"
| "stmt_dispatch cprint s (CaseStmt lo hi b) = VisitCaseStmt cprint lo hi b"
| "stmt_dispatch cprint s (DefaultStmt b) = VisitDefaultStmt cprint b"
| "stmt_dispatch cprint s (SwitchStmt v c b) = VisitSwitchStmt cprint v c b"
| "stmt_dispatch cprint s (ReturnStmt v) = VisitReturnStmt cprint v"
| "stmt_dispatch cprint s (CompoundStmt b) = VisitCompoundStmt cprint b"
| "stmt_dispatch cprint s NullStmt = VisitNullStmt"
| "stmt_dispatch cprint s (GCCAsmStmt t v i u c) = VisitGCCAsmStmt cprint t v i u c"
| "stmt_dispatch cprint s (AttributedStmt a b) = VisitAttributedStmt cprint a b"
| "stmt_dispatch cprint s (LabelStmt l b) = VisitLabelStmt cprint l b"
| "stmt_dispatch cprint s (GotoStmt l) = VisitGotoStmt l"
| "stmt_dispatch cprint s CXXTryStmt = VisitCXXTryStmt"
| "stmt_dispatch cprint s ExprStmt = VisitExpr_stmt cprint s"
| "stmt_dispatch cprint s (OtherStmt n) = VisitStmt n"

definition printStmt :: "ClangPrinter \<Rightarrow> ptr \<Rightarrow> printer" where
  "printStmt cprint s =
     depth_checked (AssertionFailed depth_assertion) (stmt_dispatch cprint s (stmt_of (getContext cprint) s))"

section \<open>Local declarations\<close>

text \<open>\<open>get_dtor\<close> goes through the element types of arrays; the fuel bounds their nesting.\<close>

fun get_dtor :: "nat \<Rightarrow> ASTContext \<Rightarrow> ptr option \<Rightarrow> (stop + ptr option)" where
  "get_dtor n ctx None = Inl (Die ''null type'')"
| "get_dtor 0 ctx (Some t) = Inl OutOfFuel"
| "get_dtor (Suc n) ctx (Some t) =
     (case getAsCXXRecordDecl (type_of ctx t) of
        Some rd \<Rightarrow> Inr (getDestructor (named_of ctx rd))
      | None \<Rightarrow>
          (case getAsArrayElementType (type_of ctx t) of
             Some e \<Rightarrow> get_dtor n ctx (getTypePtrOrNull e)
           | None \<Rightarrow> Inr None))"

definition printDestructor :: "ClangPrinter \<Rightarrow> QualType \<Rightarrow> printer" where
  "printDestructor cprint qt =
     (case get_dtor (loop_fuel cprint) (getContext cprint) (getTypePtrOrNull qt) of
        Inl x \<Rightarrow> stopA x
      | Inr v \<Rightarrow> option_child (rec_printName cprint) v)"

definition VisitVarDecl_local :: "ClangPrinter \<Rightarrow> ptr \<Rightarrow> bprinter" where
  "VisitVarDecl_local cprint d =
     (let ctx = getContext cprint; N = named_of ctx d in
      if hasExternalStorage (decl ctx d) then returning skip False
      else returning
        (seqP [if isStaticLocal (decl ctx d) then
                 seqP [ctor ''Dinit'' True, putBOOL (ThreadsafeStatics ctx), nbsp,
                       rec_printName cprint d, nbsp]
               else seqP [ctor ''Dvar'' True, str (getNameAsString N), nbsp],
               printQualType cprint (getType N), nbsp,
               option_child (rec_printExpr cprint) (getInit N),
               end_ctor]) True)"

definition VisitTypeDecl_local :: "ClangPrinter \<Rightarrow> ptr \<Rightarrow> bprinter" where
  "VisitTypeDecl_local cprint d =
     returning (diag VERBOSER (''local type declarations are (currently) not well supported ''
                 @ getDeclKindName (getContext cprint) d)) False"

definition VisitStaticAssertDecl_local :: bprinter where
  "VisitStaticAssertDecl_local = returning skip False"

definition VisitDecl_local :: "ClangPrinter \<Rightarrow> ptr \<Rightarrow> bprinter" where
  "VisitDecl_local cprint d =
     returning (diag VERBOSER (''unexpected local declaration while printing local decl ''
                 @ getDeclKindName (getContext cprint) d)) False"

definition print_binding :: "ClangPrinter \<Rightarrow> ptr \<Rightarrow> printer" where
  "print_binding cprint b =
     (let ctx = getContext cprint in
      case getHoldingVar (named_of ctx b) of
        Some var \<Rightarrow>
          guard_ctor ''Bvar'' True
            [str (getName ctx var), nbsp,
             printQualType cprint (getType (named_of ctx var)), nbsp,
             (case getInit (named_of ctx var) of
                None \<Rightarrow> stopA (AssertionFailed ''binding variables must have initializers'')
              | Some init \<Rightarrow> rec_printExpr cprint init)]
      | None \<Rightarrow>
          guard_ctor ''Bbind'' True
            [str (getName ctx b), nbsp,
             printQualType cprint (getType (named_of ctx b)), nbsp,
             rec_printExpr cprint (getBinding (named_of ctx b))])"

definition VisitDecompositionDecl :: "ClangPrinter \<Rightarrow> ptr \<Rightarrow> bprinter" where
  "VisitDecompositionDecl cprint d =
     (let N = named_of (getContext cprint) d in
      returning
        (seqP [ctor ''Ddecompose'' True,
               (case getInit N of Some e \<Rightarrow> rec_printExpr cprint e | None \<Rightarrow> die ''null initializer''),
               names_push_anon d (\<lambda>index.
                 seqP [nbsp, puts [''(localname.anon '', decimal_int index, '')''],
                       nbsp,
                       plist (bindings N) (print_binding cprint)]),
               names_pop_anon d,
               end_ctor]) True)"

definition local_dispatch :: "ClangPrinter \<Rightarrow> ptr \<Rightarrow> bprinter" where
  "local_dispatch cprint d =
     dispatch [(VarDecl, VisitVarDecl_local cprint d), (TypeDecl, VisitTypeDecl_local cprint d),
               (StaticAssertDecl, VisitStaticAssertDecl_local),
               (DecompositionDecl, VisitDecompositionDecl cprint d)]
       (VisitDecl_local cprint d) (getKind (decl (getContext cprint) d))"

definition PrintLocalDecl_Visit :: "ClangPrinter \<Rightarrow> ptr \<Rightarrow> bprinter" where
  "PrintLocalDecl_Visit cprint d =
     (if isInvalidDecl (named_of (getContext cprint) d) then returning (put ''Derror'') True
      else local_dispatch cprint d)"

text \<open>The names are those of a fresh \<open>OpaqueNames\<close>, dropped afterwards.\<close>

definition printLocalDecl :: "ClangPrinter \<Rightarrow> ptr \<Rightarrow> bprinter" where
  "printLocalDecl cprint d s =
     (case PrintLocalDecl_Visit cprint d (s\<lparr>names := OpaqueNames_init\<rparr>) of
        Inl x \<Rightarrow> Inl x
      | Inr (b, s') \<Rightarrow> Inr (b, s'\<lparr>names := names s\<rparr>))"

section \<open>The contract\<close>

lemma steps_query_dispatch:
  assumes "steps_query i d base" and "\<And>c m. (c, m) \<in> set ms \<Longrightarrow> steps_query i d m"
  shows "steps_query i d (dispatch ms base k)"
  using dispatch_cases [of ms base k] assms by metis

lemma steps_option_child [printer_intros]:
  "(\<And>x. steps (Suc i) (Suc d) (Suc i) (Suc d) (f x)) \<Longrightarrow> steps i d i d (option_child f v)"
  unfolding option_child_def by (rule printer_intros | assumption)+

context safe_printers
begin

lemma steps_printLocalDecl_stmt [printer_intros]: "ok \<Longrightarrow> steps i d i d (printLocalDecl_stmt cprint c)"
  unfolding printLocalDecl_stmt_def by (rule printer_intros | assumption)+

lemma steps_asm_operands [printer_intros]: "ok \<Longrightarrow> steps i d i d (asm_operands cprint ops)"
  unfolding asm_operands_def
  by (rule printer_intros steps_map | assumption | (simp; fail))+

lemmas stmt_visits =
  VisitStmt_def VisitDeclStmt_def VisitWhileStmt_def VisitForStmt_def VisitCXXForRangeStmt_def
  VisitDoStmt_def VisitBreakStmt_def VisitContinueStmt_def else_branch_def VisitIfStmt_def
  VisitCaseStmt_def VisitDefaultStmt_def VisitSwitchStmt_def VisitExpr_stmt_def VisitReturnStmt_def
  VisitCompoundStmt_def VisitNullStmt_def VisitGCCAsmStmt_def VisitAttributedStmt_def
  VisitLabelStmt_def VisitGotoStmt_def VisitCXXTryStmt_def

lemma steps_stmt_dispatch [printer_intros]:
  "ok \<Longrightarrow> steps i d i d (stmt_dispatch cprint s n)"
  by (cases n)
    (simp only: stmt_dispatch.simps stmt_visits,
      (rule printer_intros steps_map | assumption | (simp; fail))+)+

lemma steps_printStmt: "ok \<Longrightarrow> steps i d i d (printStmt cprint s)"
  unfolding printStmt_def by (rule printer_intros | assumption)+

lemma get_dtor_no_indent_error: "get_dtor n ctx t = Inl x \<Longrightarrow> \<not> indent_error x"
  by (induction n ctx t rule: get_dtor.induct) (auto split: option.splits)

lemma steps_printDestructor [printer_intros]: "ok \<Longrightarrow> steps i d i d (printDestructor cprint q)"
  unfolding printDestructor_def
  by (cases "get_dtor (loop_fuel cprint) (getContext cprint) (getTypePtrOrNull q)")
    (simp_all add: steps_stop get_dtor_no_indent_error steps_option_child steps_rec)

lemma steps_print_binding [printer_intros]: "ok \<Longrightarrow> steps i d i d (print_binding cprint b)"
  unfolding print_binding_def Let_def by (rule printer_intros | assumption | (simp; fail))+

lemma steps_VisitVarDecl_local [printer_intros]:
  "ok \<Longrightarrow> steps_query i d (VisitVarDecl_local cprint c)"
  unfolding VisitVarDecl_local_def Let_def by (rule printer_intros | assumption | (simp; fail))+

lemma steps_VisitDecompositionDecl [printer_intros]:
  "ok \<Longrightarrow> steps_query i d (VisitDecompositionDecl cprint c)"
  unfolding VisitDecompositionDecl_def Let_def
  by (rule printer_intros | assumption | (simp; fail))+

lemma steps_local_dispatch [printer_intros]:
  assumes ok
  shows "steps_query i d (local_dispatch cprint c)"
proof -
  have s: "steps_query i d (VisitDecl_local cprint c)" "steps_query i d (VisitTypeDecl_local cprint c)"
    "steps_query i d VisitStaticAssertDecl_local"
    unfolding VisitDecl_local_def VisitTypeDecl_local_def VisitStaticAssertDecl_local_def
    by (rule printer_intros)+
  show ?thesis
    unfolding local_dispatch_def
    by (rule steps_query_dispatch, rule s)
      (use assms s in \<open>auto intro: steps_VisitVarDecl_local steps_VisitDecompositionDecl\<close>)
qed

lemma steps_PrintLocalDecl_Visit [printer_intros]:
  "ok \<Longrightarrow> steps_query i d (PrintLocalDecl_Visit cprint c)"
  unfolding PrintLocalDecl_Visit_def by (rule printer_intros | assumption | (simp; fail))+

lemma steps_printLocalDecl:
  assumes ok
  shows "steps_query i d (printLocalDecl cprint c)"
proof (rule steps_queryI)
  note v = steps_PrintLocalDecl_Visit [OF assms, of i d c]
  show "\<not> indent_error x" if "printLocalDecl cprint c s = Inl x" "depth (fmt s) = k + 2 * d" for s x k
    using that steps_queryD_Inl [OF v, of "s\<lparr>names := OpaqueNames_init\<rparr>" x k]
    by (simp add: printLocalDecl_def split: sum.splits prod.splits)
  show "depth (fmt s') = k + 2 * d \<and> declctx s' = declctx s
      \<and> (\<exists>t. out (fmt s') = out (fmt s) @ t \<and> lex (Code (n + i)) t = Code (n + i))"
    if "printLocalDecl cprint c s = Inr (b, s')" "depth (fmt s) = k + 2 * d" for s b s' k n
    using that steps_queryD [OF v, of "s\<lparr>names := OpaqueNames_init\<rparr>" _ _ k n]
    by (auto simp: printLocalDecl_def split: sum.splits prod.splits)
qed

end

end
