(* ===== verification/PrintExpr.thy ===== *)
theory PrintExpr
  imports PrintName PrintStmt
begin

text \<open>
  Model of \<open>src/PrintExpr.cpp\<close>: the visitor that prints an expression.  The \<open>OpaqueNames\<close> that the C++ code
  passes by reference is the field \<open>names\<close> of the printing state; \<open>printExpr\<close> without it (\<open>printExpr1\<close>)
  starts from an empty one.  The names of fields, from \<open>src/PrintDecl.cpp\<close>, come first.
\<close>

section \<open>Names of fields\<close>

definition getTypeAsRecord :: "ASTContext \<Rightarrow> ptr \<Rightarrow> ptr option" where
  "getTypeAsRecord ctx d =
     (case getTypePtrOrNull (getType (named_of ctx d)) of
        Some t \<Rightarrow> getAsCXXRecordDecl (type_of ctx t)
      | None \<Rightarrow> None)"

definition anonymous_field_of_record :: "CoqPrinter \<Rightarrow> ClangPrinter \<Rightarrow> ptr \<Rightarrow> printer" where
  "anonymous_field_of_record print cprint field =
     (case getTypeAsRecord (getContext cprint) field of
        Some rec \<Rightarrow> printName print cprint rec False
      | None \<Rightarrow>
          seqP [diag UNSUPPORTED ''warning: unsupported anonymous field not of record type'',
                guard_ctor ''field_name.Id'' False [str ''<anonymous field not of record type>'']])"

text \<open>A field of a lambda that captures neither \<open>this\<close> nor a variable also gets the name below.\<close>

definition printAnonymousFieldName :: "CoqPrinter \<Rightarrow> ClangPrinter \<Rightarrow> ptr \<Rightarrow> printer" where
  "printAnonymousFieldName print cprint field =
     (let ctx = getContext cprint; rd = getParent (named_of ctx field) in
      if isaD ctx CXXRecordDecl rd \<and> isLambda (decl ctx rd) then
        (if getThisCapture (naming_of ctx rd) = Some field then
           guard_ctor ''field_name.CaptureVar'' True [str ''this'']
         else case find (\<lambda>i. snd i = field) (getCaptureFields (naming_of ctx rd)) of
           Some i \<Rightarrow> guard_ctor ''field_name.CaptureVar'' True [str (getName ctx (fst i))]
         | None \<Rightarrow>
             seqP [guard_ctor ''field_name.CaptureVar'' True [],
                   anonymous_field_of_record print cprint field])
      else anonymous_field_of_record print cprint field)"

definition printFieldName :: "CoqPrinter \<Rightarrow> ClangPrinter \<Rightarrow> ptr \<Rightarrow> printer" where
  "printFieldName print cprint field =
     (case getIdentifier (named_of (getContext cprint) field) of
        Some n \<Rightarrow> guard_ctor ''field_name.Id'' False [str n]
      | None \<Rightarrow> printAnonymousFieldName print cprint field)"

section \<open>Declarations as values\<close>

text \<open>What an expression prints after its constructor; the bits say which parts.\<close>

datatype Done = Done_NONE | Done_V | Done_T | Done_O | Done_VT | Done_DT

fun done_bits :: "Done \<Rightarrow> nat" where
  "done_bits Done_NONE = 0"
| "done_bits Done_V = 1"
| "done_bits Done_T = 2"
| "done_bits Done_O = 4"
| "done_bits Done_VT = 3"
| "done_bits Done_DT = 8"

definition printOptionalExpr :: "ClangPrinter \<Rightarrow> ptr option option \<Rightarrow> printer" where
  "printOptionalExpr cprint e =
     (case e of
        Some (Some x) \<Rightarrow> seqP [some, rec_printExpr cprint x, end_ctor]
      | _ \<Rightarrow> none)"

definition is_static_member :: "ASTContext \<Rightarrow> ptr \<Rightarrow> stop + bool" where
  "is_static_member ctx d =
     (if isaD ctx FieldDecl d then Inr (\<not> isCXXInstanceMember (naming_of ctx d))
      else if isaD ctx CXXMethodDecl d then Inr (isStaticMethod (naming_of ctx d))
      else if isaD ctx FunctionDecl d then Inr True
      else if isaD ctx VarDecl d then Inr True
      else Inl (AssertionFailed ''false && unsupported [is_static_member]''))"

definition is_builtin :: "ASTContext \<Rightarrow> ptr option \<Rightarrow> bool" where
  "is_builtin ctx d \<longleftrightarrow>
     (case d of Some fd \<Rightarrow> isaD ctx FunctionDecl fd \<and> isBuiltin (naming_of ctx fd) | None \<Rightarrow> False)"

definition printValueDeclExpr_named :: "ClangPrinter \<Rightarrow> ptr \<Rightarrow> printer" where
  "printValueDeclExpr_named cprint d =
     (let ctx = getContext cprint;
          static_local = isaD ctx VarDecl d \<and> isStaticLocal (decl ctx d) in
      seqP
       [asking (\<lambda>s. find_anon (names s) d) (\<lambda>t.
          if t \<noteq> -1 then
            seqP [ctor ''Evar'' False, puts [''(localname.anon '', decimal_int t, '')'']]
          else case getDeclContext (named_of ctx d) of
            None \<Rightarrow> seqP [ctor ''Evar'' False, die ''null context'']
          | Some dc \<Rightarrow>
              if isFunctionOrMethod (named_of ctx dc) \<and> \<not> (isaD ctx FunctionDecl d \<or> static_local) then
                seqP [ctor ''Evar'' False,
                      if isaD ctx ParmVarDecl d then printParamName cprint d
                      else printUnqualifiedName cprint d]
              else
                seqP [ctor ''Eglobal'' False,
                      if isDeclContext (decl ctx d) then withDeclContext (Some d) (rec_printName cprint d)
                      else rec_printName cprint d]),
        nbsp,
        printQualType cprint (getType (named_of ctx d)),
        end_ctor])"

definition printValueDeclExpr :: "ClangPrinter \<Rightarrow> ptr \<Rightarrow> printer" where
  "printValueDeclExpr cprint d = with_fresh_names (printValueDeclExpr_named cprint d)"

section \<open>Dependent names\<close>

definition printDependentMember :: "ClangPrinter \<Rightarrow> nns option \<Rightarrow> decl_name \<Rightarrow> targ list \<Rightarrow> printer" where
  "printDependentMember cprint nn member args = rec_printUnresolvedName cprint nn member args"

definition PrintDependentName_Visit :: "ClangPrinter \<Rightarrow> ptr \<Rightarrow> printer" where
  "PrintDependentName_Visit cprint e =
     (case expr_node (expr_of (getContext cprint) e) of
        CXXDependentScopeMemberExpr arrow base base_ty nn member args \<Rightarrow>
          guard_ctor ''Ndependent'' True
            [guard_ctor ''Tresult_member'' True
               [printQualType cprint base_ty, nbsp, printDependentMember cprint nn member args]]
      | DependentScopeDeclRefExpr nn n args \<Rightarrow> rec_printUnresolvedName cprint nn n args
      | UnresolvedLookupExpr nn n args \<Rightarrow> rec_printUnresolvedName cprint nn n args
      | UnresolvedMemberExpr \<Rightarrow> put (''(Nunsupported '' @ [DQ] @ ''VisitUnresolvedMemberExpr'' @ [DQ] @ '')'')
      | _ \<Rightarrow>
          seqP [ctor ''Nunsupported'' True,
                str (getStmtClassName (expr_of (getContext cprint) e)),
                end_ctor])"

section \<open>The parts every expression shares\<close>

definition expr_ty :: "ClangPrinter \<Rightarrow> ptr \<Rightarrow> QualType" where
  "expr_ty cprint e = expr_type (expr_of (getContext cprint) e)"

definition printDeclType :: "ClangPrinter \<Rightarrow> ptr \<Rightarrow> printer" where
  "printDeclType cprint e =
     (case value_kind (expr_of (getContext cprint) e) of
        LValue \<Rightarrow> guard_ctor ''Tref'' False [printQualType cprint (expr_ty cprint e)]
      | XValue \<Rightarrow> guard_ctor ''Trv_ref'' False [printQualType cprint (expr_ty cprint e)]
      | _ \<Rightarrow> printQualType cprint (expr_ty cprint e))"

unbundle bit_operations_syntax

definition wants :: "Done \<Rightarrow> Done \<Rightarrow> bool" where
  "wants w b \<longleftrightarrow> done_bits w AND done_bits b \<noteq> 0"

definition done_expr :: "CoqPrinter \<Rightarrow> ClangPrinter \<Rightarrow> ptr \<Rightarrow> Done \<Rightarrow> printer" where
  "done_expr print cprint e w =
     seqP
       [if w = Done_DT then printDeclType cprint e
        else seqP
          [if wants w Done_V then seqP [nbsp, printValCat print cprint e] else skip,
           if wants w Done_T then seqP [nbsp, printQualType cprint (expr_ty cprint e)] else skip,
           if wants w Done_O then seqP [nbsp, printQualTypeOption cprint (expr_ty cprint e)] else skip],
        end_ctor]"

text \<open>The default of \<open>done\<close>, and what operators use.\<close>

abbreviation finish :: "CoqPrinter \<Rightarrow> ClangPrinter \<Rightarrow> ptr \<Rightarrow> printer" where
  "finish print cprint e \<equiv> done_expr print cprint e Done_T"

definition done_operator :: "CoqPrinter \<Rightarrow> ClangPrinter \<Rightarrow> ptr \<Rightarrow> printer" where
  "done_operator print cprint e = done_expr print cprint e (if templates print then Done_O else Done_T)"

definition describe :: "ClangPrinter \<Rightarrow> ptr \<Rightarrow> string" where
  "describe cprint e = expr_describe (expr_of (getContext cprint) e)"

definition unsupported_expr :: "CoqPrinter \<Rightarrow> ClangPrinter \<Rightarrow> ptr \<Rightarrow> string option \<Rightarrow> bool \<Rightarrow> printer" where
  "unsupported_expr print cprint e msg well_known =
     seqP
       [if \<not> well_known then
          diag UNSUPPORTED (''warning: unsupported expression''
            @ (case msg of Some m \<Rightarrow> '': '' @ m | None \<Rightarrow> []))
        else skip,
        ctor ''Eunsupported'' False,
        str (describe cprint e), nbsp,
        done_expr print cprint e Done_DT]"

definition IGNORE_expr :: "CoqPrinter \<Rightarrow> ClangPrinter \<Rightarrow> ptr \<Rightarrow> printer" where
  "IGNORE_expr print cprint e = unsupported_expr print cprint e None True"

definition VisitExpr :: "CoqPrinter \<Rightarrow> ClangPrinter \<Rightarrow> ptr \<Rightarrow> printer" where
  "VisitExpr print cprint e = unsupported_expr print cprint e None False"

definition exprs :: "ClangPrinter \<Rightarrow> ptr list \<Rightarrow> printer" where
  "exprs cprint es = plist es (\<lambda>i. rec_printExpr cprint i)"

section \<open>Operators\<close>

text \<open>The tables of the macros \<open>CASE\<close> and \<open>ACASE\<close>.\<close>

fun binop_name :: "BinaryOperatorKind \<Rightarrow> string option" where
  "binop_name BO_Add = Some ''Badd''"
| "binop_name BO_And = Some ''Band''"
| "binop_name BO_Cmp = Some ''Bcmp''"
| "binop_name BO_Div = Some ''Bdiv''"
| "binop_name BO_EQ = Some ''Beq''"
| "binop_name BO_GE = Some ''Bge''"
| "binop_name BO_GT = Some ''Bgt''"
| "binop_name BO_LE = Some ''Ble''"
| "binop_name BO_LT = Some ''Blt''"
| "binop_name BO_Mul = Some ''Bmul''"
| "binop_name BO_NE = Some ''Bneq''"
| "binop_name BO_Or = Some ''Bor''"
| "binop_name BO_Rem = Some ''Bmod''"
| "binop_name BO_Shl = Some ''Bshl''"
| "binop_name BO_Shr = Some ''Bshr''"
| "binop_name BO_Sub = Some ''Bsub''"
| "binop_name BO_Xor = Some ''Bxor''"
| "binop_name BO_PtrMemD = Some ''Bdotp''"
| "binop_name BO_PtrMemI = Some ''Bdotip''"
| "binop_name k = None"

fun assign_op_name :: "BinaryOperatorKind \<Rightarrow> string option" where
  "assign_op_name BO_AddAssign = Some ''Badd''"
| "assign_op_name BO_AndAssign = Some ''Band''"
| "assign_op_name BO_DivAssign = Some ''Bdiv''"
| "assign_op_name BO_MulAssign = Some ''Bmul''"
| "assign_op_name BO_OrAssign = Some ''Bor''"
| "assign_op_name BO_RemAssign = Some ''Bmod''"
| "assign_op_name BO_ShlAssign = Some ''Bshl''"
| "assign_op_name BO_ShrAssign = Some ''Bshr''"
| "assign_op_name BO_SubAssign = Some ''Bsub''"
| "assign_op_name BO_XorAssign = Some ''Bxor''"
| "assign_op_name k = None"

text \<open>
  \<open>getOpcodeStr\<close> of an operator that the code does not name; the other kinds do not
  reach the default of \<open>printBinaryOperator\<close>.
\<close>

fun getOpcodeStr :: "BinaryOperatorKind \<Rightarrow> string" where
  "getOpcodeStr (BO_Other t) = t"
| "getOpcodeStr k = []"

definition printBinaryOperator :: "BinaryOperatorKind \<Rightarrow> printer" where
  "printBinaryOperator op =
     (case binop_name op of
        Some t \<Rightarrow> put t
      | None \<Rightarrow>
          seqP [diag UNSUPPORTED (''Unsupported binary operator '' @ getOpcodeStr op),
                puts [''(Bunsupported '' @ [DQ], getOpcodeStr op, [DQ] @ '')'']])"

text \<open>The operands of the sequencing operators are printed without the table of opaque names.\<close>

definition sequencing_operator :: "ClangPrinter \<Rightarrow> string \<Rightarrow> ptr \<Rightarrow> ptr \<Rightarrow> string \<Rightarrow> bool \<Rightarrow> printer" where
  "sequencing_operator cprint c lhs rhs msg condition =
     seqP [ctor c True, printExpr1 cprint lhs, nbsp, printExpr1 cprint rhs,
           assertA msg condition, end_ctor]"

definition is_bool_type :: "ClangPrinter \<Rightarrow> QualType \<Rightarrow> bool" where
  "is_bool_type cprint q \<longleftrightarrow>
     (case getTypePtrOrNull q of Some t \<Rightarrow> isBooleanType (type_of (getContext cprint) t) | None \<Rightarrow> False)"

definition has_dependent_type :: "ClangPrinter \<Rightarrow> ptr \<Rightarrow> bool" where
  "has_dependent_type cprint e \<longleftrightarrow>
     (case getTypePtrOrNull (expr_ty cprint e) of
        Some t \<Rightarrow> isDependentType (type_of (getContext cprint) t) | None \<Rightarrow> False)"

definition VisitBinaryOperator ::
  "CoqPrinter \<Rightarrow> ClangPrinter \<Rightarrow> ptr \<Rightarrow> BinaryOperatorKind \<Rightarrow> ptr \<Rightarrow> ptr \<Rightarrow> printer" where
  "VisitBinaryOperator print cprint e op lhs rhs =
     (let dependent = templates print \<and> has_dependent_type cprint e;
          operands = seqP [rec_printExpr cprint lhs, nbsp, rec_printExpr cprint rhs,
                           done_operator print cprint e] in
      case op of
        BO_Comma \<Rightarrow>
          sequencing_operator cprint ''Ecomma'' lhs rhs ''types must match''
            (dependent \<or> expr_ty cprint rhs = expr_ty cprint e)
      | BO_LAnd \<Rightarrow>
          sequencing_operator cprint ''Eseqand'' lhs rhs ''&& is a bool''
            (dependent \<or> is_bool_type cprint (expr_ty cprint e))
      | BO_LOr \<Rightarrow>
          sequencing_operator cprint ''Eseqor'' lhs rhs ''|| is a bool''
            (dependent \<or> is_bool_type cprint (expr_ty cprint e))
      | BO_Assign \<Rightarrow> seqP [ctor ''Eassign'' True, operands]
      | _ \<Rightarrow>
          (case assign_op_name op of
             Some t \<Rightarrow> seqP [ctor ''Eassign_op'' True, put t, nbsp, operands]
           | None \<Rightarrow> seqP [ctor ''Ebinop'' True, printBinaryOperator op, nbsp, operands]))"

fun unop_name :: "UnaryOperatorKind \<Rightarrow> string option" where
  "unop_name UO_Plus = Some ''Uplus''"
| "unop_name UO_Minus = Some ''Uminus''"
| "unop_name UO_Not = Some ''Ubnot''"
| "unop_name UO_LNot = Some ''Unot''"
| "unop_name UO_PostDec = Some ''<PostDec>''"
| "unop_name UO_PostInc = Some ''<PostInc>''"
| "unop_name UO_PreDec = Some ''<PreDec>''"
| "unop_name UO_PreInc = Some ''<PreInc>''"
| "unop_name k = None"

fun unary_getOpcodeStr :: "UnaryOperatorKind \<Rightarrow> string" where
  "unary_getOpcodeStr (UO_Other t) = t"
| "unary_getOpcodeStr k = []"

definition printUnaryOperator :: "UnaryOperatorKind \<Rightarrow> printer" where
  "printUnaryOperator op =
     (case unop_name op of
        Some t \<Rightarrow> put t
      | None \<Rightarrow>
          seqP [diag UNSUPPORTED (''Unsupported unary operator '' @ unary_getOpcodeStr op),
                puts [''(Uunsupported '' @ [DQ], unary_getOpcodeStr op, [DQ] @ '')'']])"

definition addr_of :: "ClangPrinter \<Rightarrow> ptr \<Rightarrow> printer" where
  "addr_of cprint sub =
     (let ctx = getContext cprint;
          plain_addr = seqP [ctor ''Eaddrof'' True, rec_printExpr cprint sub, end_ctor] in
      case expr_node (expr_of ctx sub) of
        DeclRefExpr d refers \<Rightarrow>
          (case d of
             None \<Rightarrow> die ''null declaration''
           | Some dcl \<Rightarrow>
               with_answer (is_static_member ctx dcl) (\<lambda>static.
                 if \<not> static then
                   guard_ctor ''Eglobal_member'' True
                     [rec_printName cprint dcl, nbsp, printQualType cprint (getType (named_of ctx dcl))]
                 else plain_addr))
      | _ \<Rightarrow> plain_addr)"

definition VisitUnaryOperator ::
  "CoqPrinter \<Rightarrow> ClangPrinter \<Rightarrow> ptr \<Rightarrow> UnaryOperatorKind \<Rightarrow> ptr \<Rightarrow> printer" where
  "VisitUnaryOperator print cprint e op sub =
     (let operand = seqP [rec_printExpr cprint sub, done_operator print cprint e] in
      case op of
        UO_Extension \<Rightarrow> guard_ctor ''Eextension'' True [rec_printExpr cprint sub]
      | UO_AddrOf \<Rightarrow> addr_of cprint sub
      | UO_Deref \<Rightarrow> seqP [ctor ''Ederef'' True, operand]
      | UO_PostInc \<Rightarrow> seqP [ctor ''Epostinc'' True, operand]
      | UO_PreInc \<Rightarrow> seqP [ctor ''Epreinc'' True, operand]
      | UO_PostDec \<Rightarrow> seqP [ctor ''Epostdec'' True, operand]
      | UO_PreDec \<Rightarrow> seqP [ctor ''Epredec'' True, operand]
      | _ \<Rightarrow> seqP [ctor ''Eunop'' True, printUnaryOperator op, nbsp, operand])"

section \<open>References and calls\<close>

definition getCaptureField :: "ASTContext \<Rightarrow> ptr \<Rightarrow> ptr \<Rightarrow> ptr option" where
  "getCaptureField ctx lam var = map_of (getCaptureFields (naming_of ctx lam)) var"

definition getCaptureThis :: "ASTContext \<Rightarrow> ptr \<Rightarrow> ptr option" where
  "getCaptureThis ctx lam = getThisCapture (naming_of ctx lam)"

definition captured_variable :: "CoqPrinter \<Rightarrow> ClangPrinter \<Rightarrow> ptr \<Rightarrow> ptr \<Rightarrow> printer" where
  "captured_variable print cprint e var =
     (let ctx = getContext cprint in
      asking (getLambdaClass ctx \<circ> declctx) (\<lambda>maybe_lambda.
        case maybe_lambda of
          None \<Rightarrow> stopA (AssertionFailed ''lambda class must be non-null during capture'')
        | Some (lam, is_const, is_volatile) \<Rightarrow>
            (case getCaptureField ctx lam var of
               Some capture \<Rightarrow>
                 seqP [ctor ''Ecapture_var'' True,
                       printQualifier is_const is_volatile, nbsp,
                       rec_printName cprint lam, nbsp,
                       assertA ''0 < nm.size()'' (getName ctx var \<noteq> []),
                       str (getName ctx var), nbsp,
                       printQualType cprint (getType (named_of ctx capture)),
                       end_ctor]
             | None \<Rightarrow>
                 seqP [ctor ''Eunevaluated_var'' True, printUnqualifiedName cprint var,
                       finish print cprint e])))"

text \<open>The enumeration of a constant; null if the context of the constant is something else.\<close>

definition enum_of :: "ASTContext \<Rightarrow> ptr \<Rightarrow> ptr option" where
  "enum_of ctx ecd =
     (case getDeclContext (named_of ctx ecd) of
        Some d \<Rightarrow> if isaD ctx EnumDecl d then Some d else None
      | None \<Rightarrow> None)"

definition enum_constant :: "CoqPrinter \<Rightarrow> ClangPrinter \<Rightarrow> ptr \<Rightarrow> ptr \<Rightarrow> printer" where
  "enum_constant print cprint e ecd =
     (let ctx = getContext cprint;
          is_enum = (case getTypePtrOrNull (expr_ty cprint e) of
                       Some t \<Rightarrow> isEnumeralType (type_of ctx t) | None \<Rightarrow> False) in
      if is_enum then
        seqP [ctor ''Eenum_const'' False, printName_opt cprint (enum_of ctx ecd), nbsp,
              printUnqualifiedName cprint ecd, end_ctor]
      else
        seqP [ctor ''Eenum_const_at'' False, printName_opt cprint (enum_of ctx ecd), nbsp,
              printUnqualifiedName cprint ecd, nbsp, finish print cprint e])"

definition VisitDeclRefExpr :: "CoqPrinter \<Rightarrow> ClangPrinter \<Rightarrow> ptr \<Rightarrow> ptr option \<Rightarrow> bool \<Rightarrow> printer" where
  "VisitDeclRefExpr print cprint e d refers_to_enclosing =
     (let ctx = getContext cprint in
      case d of
        None \<Rightarrow> die ''DeclRefExpr missing Decl''
      | Some var \<Rightarrow>
          if refers_to_enclosing then captured_variable print cprint e var
          else if isaD ctx EnumConstantDecl var then enum_constant print cprint e var
          else if isaD ctx NonTypeTemplateParmDecl var then
            (if templates print then guard_ctor ''Eparam'' False [printUnqualifiedName cprint var]
             else printNonTypeTemplateParam print cprint (getDepth (named_of ctx var)) (getIndex (named_of ctx var)))
          else printValueDeclExpr_named cprint var)"

definition VisitCallExpr :: "CoqPrinter \<Rightarrow> ClangPrinter \<Rightarrow> ptr \<Rightarrow> ptr \<Rightarrow> ptr list \<Rightarrow> printer" where
  "VisitCallExpr print cprint e callee args =
     (let ctx = getContext cprint in
      if is_dependent (expr_of ctx e) then
        guard_ctor ''Eunresolved_call'' True
          [PrintDependentName_Visit cprint callee, nbsp, exprs cprint args]
      else case expr_node (expr_of ctx callee) of
        CXXPseudoDestructorExpr arrow destroyed base \<Rightarrow>
          seqP [assertA ''expr->arguments().empty()'' (args = []),
                ctor ''Epseudo_destructor'' True, putBOOL arrow, nbsp,
                printQualType cprint destroyed, nbsp,
                rec_printExpr cprint base, end_ctor]
      | _ \<Rightarrow>
          seqP [ctor ''Ecall'' True, rec_printExpr cprint callee, nl,
                exprs cprint args, done_expr print cprint e Done_NONE])"

definition VisitCXXOperatorCallExpr ::
  "CoqPrinter \<Rightarrow> ClangPrinter \<Rightarrow> ptr \<Rightarrow> ptr \<Rightarrow> OverloadedOperatorKind \<Rightarrow> ptr list \<Rightarrow> printer" where
  "VisitCXXOperatorCallExpr print cprint e callee oo args =
     (let ctx = getContext cprint in
      seqP
       [if isaD ctx CXXMethodDecl callee then
          seqP [assertA ''operator overloads can not be static'' (\<not> isStaticMethod (naming_of ctx callee)),
                ctor ''Eoperator_member_call'' True,
                printOverloadableOperator oo, nbsp,
                rec_printName cprint callee,
                nbsp, put (if isVirtual (naming_of ctx callee) then ''Virtual'' else ''Direct''), nbsp,
                printQualType cprint (getType (named_of ctx callee)), nbsp,
                (case args of
                   [] \<Rightarrow> die ''getArg(0)''
                 | a # rest \<Rightarrow> seqP [rec_printExpr cprint a, nbsp,
                                    list_range rest (\<lambda>i. rec_printExpr cprint i)])]
        else if isaD ctx FunctionDecl callee then
          seqP [ctor ''Eoperator_call'' True,
                printOverloadableOperator oo, nbsp,
                rec_printName cprint callee, nbsp,
                printQualType cprint (getType (named_of ctx callee)), nbsp,
                exprs cprint args]
        else seqP [diag UNSUPPORTED ''unsupported operator call'', die ''unsupported operator call''],
        done_expr print cprint e Done_NONE])"

section \<open>Casts\<close>

text \<open>The tables \<open>CASE_NO_TYPE\<close> (false) and \<open>CASE_WITH_TYPE\<close> (true).\<close>

fun cast_name :: "CastKind \<Rightarrow> (string \<times> bool) option" where
  "cast_name CK_BitCast = Some (''Cbitcast'', True)"
| "cast_name CK_LValueBitCast = Some (''Clvaluebitcast'', True)"
| "cast_name CK_LValueToRValue = Some (''Cl2r'', False)"
| "cast_name CK_LValueToRValueBitCast = Some (''Cl2r_bitcast'', True)"
| "cast_name CK_NoOp = Some (''Cnoop'', True)"
| "cast_name CK_ArrayToPointerDecay = Some (''Carray2ptr'', False)"
| "cast_name CK_FunctionToPointerDecay = Some (''Cfun2ptr'', False)"
| "cast_name CK_IntegralToPointer = Some (''Cint2ptr'', True)"
| "cast_name CK_PointerToIntegral = Some (''Cptr2int'', True)"
| "cast_name CK_PointerToBoolean = Some (''Cptr2bool'', False)"
| "cast_name CK_IntegralCast = Some (''Cintegral'', True)"
| "cast_name CK_IntegralToBoolean = Some (''Cint2bool'', False)"
| "cast_name CK_NullToPointer = Some (''Cnull2ptr'', True)"
| "cast_name CK_NullToMemberPointer = Some (''Cnull2memberptr'', True)"
| "cast_name CK_BuiltinFnToFnPtr = Some (''Cbuiltin2fun'', True)"
| "cast_name CK_ConstructorConversion = Some (''Cctor'', True)"
| "cast_name CK_UserDefinedConversion = Some (''Cuser'', False)"
| "cast_name CK_ToVoid = Some (''C2void'', False)"
| "cast_name CK_Dynamic = Some (''Cdynamic'', True)"
| "cast_name CK_FloatingToIntegral = Some (''Cfloat2int'', True)"
| "cast_name CK_IntegralToFloating = Some (''Cint2float'', True)"
| "cast_name CK_FloatingCast = Some (''Cfloat'', True)"
| "cast_name CK_Dependent = Some (''Cdependent'', True)"
| "cast_name CK_DerivedToBase = None"
| "cast_name CK_UncheckedDerivedToBase = None"
| "cast_name CK_BaseToDerived = None"
| "cast_name (CK_Other n) = None"

text \<open>The path of classes; its last element is left out.\<close>

definition cast_path :: "ClangPrinter \<Rightarrow> QualType list \<Rightarrow> string \<Rightarrow> printer" where
  "cast_path cprint path msg =
     list_range (butlast path) (\<lambda>i.
       case getTypePtrOrNull i of
         Some t \<Rightarrow> rec_printType cprint t
       | None \<Rightarrow> stopA (AssertionFailed msg))"

definition printCast :: "CoqPrinter \<Rightarrow> ClangPrinter \<Rightarrow> ptr \<Rightarrow> CastKind \<Rightarrow> QualType list \<Rightarrow> printer" where
  "printCast print cprint e ck path =
     (case cast_name ck of
        Some (c, with_type) \<Rightarrow>
          if with_type then guard_ctor c False [printDeclType cprint e] else put c
      | None \<Rightarrow>
          (case ck of
             CK_BaseToDerived \<Rightarrow>
               seqP [ctor ''Cbase2derived'' True,
                     cast_path cprint path ''Cbase2derived without type'', nbsp,
                     done_expr print cprint e Done_DT]
           | CK_Other n \<Rightarrow>
               seqP [diag UNSUPPORTED (''unsupported cast kind '' @ n),
                     ctor ''Cunsupported'' False, str n, nbsp,
                     done_expr print cprint e Done_DT]
           | _ \<Rightarrow>
               seqP [ctor ''Cderived2base'' True,
                     cast_path cprint path ''Cderived2base without type'', nbsp,
                     done_expr print cprint e Done_DT]))"

definition VisitExplicitCastExpr ::
  "CoqPrinter \<Rightarrow> ClangPrinter \<Rightarrow> ptr \<Rightarrow> ExplicitCast \<Rightarrow> CastKind \<Rightarrow> ptr \<Rightarrow> QualType \<Rightarrow> QualType list \<Rightarrow> printer" where
  "VisitExplicitCastExpr print cprint e kind ck sub written path =
     (let cast = (\<lambda>c. seqP
            [ctor c True, printCast print cprint e ck path, nbsp,
             printQualType cprint written, nbsp,
             rec_printExpr cprint sub, end_ctor]) in
      case kind of
        CStyleCastExpr \<Rightarrow> cast ''Ecstyle_cast''
      | CXXNamedCastExpr n \<Rightarrow> cast (''E'' @ n)
      | CXXFunctionalCastExpr \<Rightarrow> cast ''Efunctional_cast''
      | BuiltinBitCastExpr \<Rightarrow> cast ''Ebuiltin_bit_cast''
      | OtherExplicitCastExpr \<Rightarrow> unsupported_expr print cprint e None False)"

text \<open>\<open>getPointeeType\<close> answers only for pointer types.\<close>

definition VisitImplicitCastExpr ::
  "CoqPrinter \<Rightarrow> ClangPrinter \<Rightarrow> ptr \<Rightarrow> CastKind \<Rightarrow> ptr \<Rightarrow> QualType list \<Rightarrow> printer" where
  "VisitImplicitCastExpr print cprint e ck sub path =
     (let ctx = getContext cprint in
      if ck = CK_BuiltinFnToFnPtr then
        (case expr_node (expr_of ctx sub) of
           DeclRefExpr d refers \<Rightarrow>
             seqP [assertA ''is_builtin(ref->getDecl())'' (is_builtin ctx d),
                   ctor ''Ebuiltin'' False,
                   printName_opt cprint d, nbsp,
                   (case getTypePtrOrNull (expr_ty cprint e) of
                      None \<Rightarrow> die ''null type''
                    | Some t \<Rightarrow>
                        (case getPointeeType (type_of ctx t) of
                           Some q \<Rightarrow> printQualType cprint q
                         | None \<Rightarrow> printQualType cprint (expr_ty cprint e))),
                   end_ctor]
         | _ \<Rightarrow> stopA (AssertionFailed ''builtin function to function pointer must be applied to a literal variable''))
      else guard_ctor ''Ecast'' True
             [printCast print cprint e ck path, nbsp, rec_printExpr cprint sub])"

section \<open>Literals\<close>

definition VisitIntegerLiteral :: "CoqPrinter \<Rightarrow> ClangPrinter \<Rightarrow> ptr \<Rightarrow> int \<Rightarrow> nat \<Rightarrow> printer" where
  "VisitIntegerLiteral print cprint e v w =
     seqP [ctor ''Eint'' False,
           (case getTypePtrOrNull (expr_ty cprint e) of
              None \<Rightarrow> die ''null type''
            | Some t \<Rightarrow>
                puts [decimal_int (if isSignedIntegerOrEnumerationType (type_of (getContext cprint) t)
                                   then signed_take_bit (w - 1) v else take_bit w v), ''%Z'']),
           finish print cprint e]"

definition VisitCharacterLiteral :: "CoqPrinter \<Rightarrow> ClangPrinter \<Rightarrow> ptr \<Rightarrow> nat \<Rightarrow> printer" where
  "VisitCharacterLiteral print cprint e v =
     seqP [ctor ''Echar'' False, puts [decimal v, ''%N''], finish print cprint e]"

fun array_element :: "type_node \<Rightarrow> QualType option" where
  "array_element (ConstantArrayType q n) = Some q"
| "array_element (IncompleteArrayType q) = Some q"
| "array_element (VariableArrayType q e) = Some q"
| "array_element (DependentSizedArrayType q e) = Some q"
| "array_element t = None"

definition print_string_type :: "ClangPrinter \<Rightarrow> ptr \<Rightarrow> printer" where
  "print_string_type cprint e =
     (case getTypePtrOrNull (expr_ty cprint e) of
        None \<Rightarrow> die ''null type''
      | Some t \<Rightarrow>
          (case array_element (type_node (type_of (getContext cprint) t)) of
             Some q \<Rightarrow> seqP [nbsp, printType_opt cprint (getTypePtrOrNull q)]
           | None \<Rightarrow> stopA (AssertionFailed ''false && string literal does not have array type'')))"

text \<open>
  A code unit of \<open>width\<close> bytes, accumulated in an \<open>unsigned long long\<close>, most significant byte first.
  A width of 0, which clang never answers, would repeat the loop forever.
\<close>

definition code_unit :: "bool \<Rightarrow> nat list \<Rightarrow> 64 word" where
  "code_unit big bytes =
     foldl (\<lambda>byte c. (push_bit 8 byte) OR word_of_nat (c mod 256)) 0 (if big then bytes else rev bytes)"

function code_units :: "bool \<Rightarrow> nat \<Rightarrow> nat list \<Rightarrow> 64 word list" where
  "code_units big w bytes =
     (if bytes = [] \<or> w = 0 then [] else code_unit big (take w bytes) # code_units big w (drop w bytes))"
  by pat_completeness auto

termination
  by (relation "measure (\<lambda>(big, w, bytes). length bytes)") auto

declare code_units.simps [simp del]

definition VisitStringLiteral :: "CoqPrinter \<Rightarrow> ClangPrinter \<Rightarrow> ptr \<Rightarrow> nat list \<Rightarrow> nat \<Rightarrow> printer" where
  "VisitStringLiteral print cprint e bytes width =
     seqP [ctor ''Estring'' False,
           begin_list,
           if width = 0 \<and> bytes \<noteq> [] then stopA OutOfFuel
           else seqP (map (\<lambda>c. seqP [puts [decimal (unat c), ''%N''], cons])
                        (code_units (big_endian cprint) width bytes)),
           end_list,
           print_string_type cprint e,
           end_ctor]"

definition VisitPredefinedExpr :: "ClangPrinter \<Rightarrow> ptr \<Rightarrow> string \<Rightarrow> printer" where
  "VisitPredefinedExpr cprint e name =
     seqP [ctor ''Estring'' True,
           ctor ''BS.string_to_bytes'' True, str name, end_ctor,
           print_string_type cprint e,
           end_ctor]"

definition VisitSourceLocExpr ::
  "CoqPrinter \<Rightarrow> ClangPrinter \<Rightarrow> ptr \<Rightarrow> string \<Rightarrow> bool \<Rightarrow> int \<Rightarrow> ptr option \<Rightarrow> printer" where
  "VisitSourceLocExpr print cprint e builtin is_int v base =
     guard_ctor ''Esource_loc'' True
       [str builtin, nbsp,
        if is_int then
          seqP [ctor ''Eint'' True, putNUM (fZ v False), nbsp, finish print cprint e]
        else (case base of
                Some b \<Rightarrow> rec_printExpr cprint b
              | None \<Rightarrow> stopA (AssertionFailed ''base.is<const Expr*>()''))]"

definition VisitCXXBoolLiteralExpr :: "bool \<Rightarrow> printer" where
  "VisitCXXBoolLiteralExpr v = put (if v then ''(Ebool true)'' else ''(Ebool false)'')"

definition VisitFloatingLiteral :: "CoqPrinter \<Rightarrow> ClangPrinter \<Rightarrow> ptr \<Rightarrow> string \<Rightarrow> printer" where
  "VisitFloatingLiteral print cprint e text =
     seqP [ctor ''Eunsupported'' True, nbsp, puts [[DQ] @ ''float: '', text, [DQ]], finish print cprint e]"

section \<open>Members, constructors and temporaries\<close>

definition VisitMemberExpr ::
  "CoqPrinter \<Rightarrow> ClangPrinter \<Rightarrow> ptr \<Rightarrow> ptr \<Rightarrow> bool \<Rightarrow> printer" where
  "VisitMemberExpr print cprint base member arrow =
     (let ctx = getContext cprint;
          static = guard_ctor ''Static'' False
            [rec_printName cprint member, nbsp, printQualType cprint (getType (named_of ctx member))] in
      seqP [ctor ''Emember'' True,
            boolean arrow, nbsp,
            rec_printExpr cprint base, nbsp,
            if isaD ctx FieldDecl member then
              guard_ctor ''Field'' False
                [printFieldName print cprint member, nbsp,
                 boolean (isMutable (naming_of ctx member)), nbsp,
                 printQualType cprint (getType (named_of ctx member))]
            else if isaD ctx EnumConstantDecl member then
              guard_ctor ''Enum'' False [rec_printName cprint member]
            else if isaD ctx VarDecl member then
              seqP [assertA ''variable referenced through member must be a static data member''
                      (isStaticDataMember (naming_of ctx member)),
                    static]
            else if isaD ctx CXXMethodDecl member then static
            else die ''Unknown member in MemberExpr'',
            end_ctor])"

definition VisitCXXDependentScopeMemberExpr ::
  "ClangPrinter \<Rightarrow> bool \<Rightarrow> ptr \<Rightarrow> nns option \<Rightarrow> decl_name \<Rightarrow> targ list \<Rightarrow> printer" where
  "VisitCXXDependentScopeMemberExpr cprint arrow base nn member args =
     guard_ctor ''Eunresolved_member'' True
       [boolean arrow, nbsp, rec_printExpr cprint base, nbsp,
        printDependentMember cprint nn member args]"

definition under_cast :: "ASTContext \<Rightarrow> ptr \<Rightarrow> ptr" where
  "under_cast ctx e =
     (case expr_node (expr_of ctx e) of
        ImplicitCastExpr ck sub path \<Rightarrow> if ck = CK_ArrayToPointerDecay then sub else e
      | _ \<Rightarrow> e)"

definition VisitArraySubscriptExpr :: "CoqPrinter \<Rightarrow> ClangPrinter \<Rightarrow> ptr \<Rightarrow> ptr \<Rightarrow> ptr \<Rightarrow> printer" where
  "VisitArraySubscriptExpr print cprint e lhs rhs =
     seqP [ctor ''Esubscript'' True,
           rec_printExpr cprint (under_cast (getContext cprint) lhs), nbsp,
           rec_printExpr cprint (under_cast (getContext cprint) rhs),
           done_operator print cprint e]"

definition VisitCXXConstructExpr :: "CoqPrinter \<Rightarrow> ClangPrinter \<Rightarrow> ptr \<Rightarrow> ptr \<Rightarrow> ptr list \<Rightarrow> printer" where
  "VisitCXXConstructExpr print cprint e constructor args =
     seqP [ctor ''Econstructor'' True, rec_printName cprint constructor, nbsp,
           exprs cprint args, finish print cprint e]"

definition VisitCXXInheritedCtorInitExpr :: "CoqPrinter \<Rightarrow> ClangPrinter \<Rightarrow> ptr \<Rightarrow> ptr \<Rightarrow> printer" where
  "VisitCXXInheritedCtorInitExpr print cprint e constructor =
     (let ctx = getContext cprint; ps = parameters (named_of ctx constructor) in
      seqP [ctor ''Econstructor'' True, rec_printName cprint constructor, nbsp,
            plist (enumerate 0 ps) (\<lambda>(idx, i).
              seqP [ctor ''Evar'' False, puts [''(localname.anon '', decimal idx, '')''], nbsp,
                    printQualType cprint (getType (named_of ctx i)), end_ctor]),
            finish print cprint e])"

definition VisitCXXMemberCallExpr ::
  "CoqPrinter \<Rightarrow> ClangPrinter \<Rightarrow> ptr \<Rightarrow> ptr \<Rightarrow> ptr \<Rightarrow> ptr \<Rightarrow> ptr list \<Rightarrow> printer" where
  "VisitCXXMemberCallExpr print cprint e callee method obj args =
     (let ctx = getContext cprint in
      seqP [ctor ''Emember_call'' True,
            (case expr_node (expr_of ctx callee) of
               MemberExpr base member arrow virtual_dispatch \<Rightarrow>
                 seqP [putBOOL arrow, nbsp,
                       ctor ''inl'' True, lparen,
                       rec_printName cprint method, put '','', nbsp,
                       put (if isVirtual (naming_of ctx method) \<and> virtual_dispatch then ''Virtual'' else ''Direct''),
                       put '','', nbsp,
                       if isaD ctx CXXMethodDecl member then printQualType cprint (getType (named_of ctx member))
                       else stopA (AssertionFailed ''false && MemberDecl in MemberCall must be a MethodDecl''),
                       rparen, end_ctor, nbsp,
                       rec_printExpr cprint obj]
             | BinaryOperator op lhs rhs \<Rightarrow>
                 seqP [assertA ''bo->getOpcode() == BO_PtrMemD || bo->getOpcode() == BO_PtrMemI''
                         (op = BO_PtrMemD \<or> op = BO_PtrMemI),
                       putBOOL (op = BO_PtrMemI), nbsp,
                       ctor ''inr'' True, rec_printExpr cprint rhs, end_ctor, nbsp,
                       rec_printExpr cprint obj]
             | _ \<Rightarrow> stopA (AssertionFailed ''false && no method and not a binary operator'')),
            nbsp,
            exprs cprint args,
            done_expr print cprint e Done_NONE])"

section \<open>The other expressions\<close>

text \<open>Constructors around one child, with or without the type.\<close>

definition around :: "ClangPrinter \<Rightarrow> string \<Rightarrow> ptr \<Rightarrow> printer" where
  "around cprint c sub = seqP [ctor c True, rec_printExpr cprint sub, end_ctor]"

definition VisitStmtExpr :: "ClangPrinter \<Rightarrow> ptr \<Rightarrow> ptr \<Rightarrow> printer" where
  "VisitStmtExpr cprint e s =
     guard_ctor ''Estmt'' True [rec_printStmt cprint s, nbsp, printQualType cprint (expr_ty cprint e)]"

definition VisitCXXRewrittenBinaryOperator :: "ClangPrinter \<Rightarrow> ptr \<Rightarrow> printer" where
  "VisitCXXRewrittenBinaryOperator cprint semantic = rec_printExpr cprint semantic"

definition VisitGNUNullExpr :: "CoqPrinter \<Rightarrow> ClangPrinter \<Rightarrow> ptr \<Rightarrow> printer" where
  "VisitGNUNullExpr print cprint e = seqP [ctor ''Egnu_null'' False, finish print cprint e]"

definition unresolved_global ::
  "CoqPrinter \<Rightarrow> ClangPrinter \<Rightarrow> ptr \<Rightarrow> nns option \<Rightarrow> decl_name \<Rightarrow> targ list \<Rightarrow> printer" where
  "unresolved_global print cprint e nn n args =
     (if \<not> templates print then unsupported_expr print cprint e None False
      else guard_ctor ''Eunresolved_global'' False [rec_printUnresolvedName cprint nn n args])"

definition VisitDependentScopeDeclRefExpr ::
  "CoqPrinter \<Rightarrow> ClangPrinter \<Rightarrow> ptr \<Rightarrow> nns option \<Rightarrow> decl_name \<Rightarrow> targ list \<Rightarrow> printer" where
  "VisitDependentScopeDeclRefExpr print cprint e nn n args = unresolved_global print cprint e nn n args"

definition VisitUnresolvedLookupExpr ::
  "CoqPrinter \<Rightarrow> ClangPrinter \<Rightarrow> ptr \<Rightarrow> nns option \<Rightarrow> decl_name \<Rightarrow> targ list \<Rightarrow> printer" where
  "VisitUnresolvedLookupExpr print cprint e nn n args = unresolved_global print cprint e nn n args"

definition VisitRecoveryExpr :: "CoqPrinter \<Rightarrow> ClangPrinter \<Rightarrow> ptr \<Rightarrow> printer" where
  "VisitRecoveryExpr print cprint e =
     seqP [diag UNSUPPORTED ''Error detected when typechecking C++ code'',
           ctor ''Eunsupported'' False,
           str (getStmtClassName (expr_of (getContext cprint) e)),
           done_expr print cprint e Done_VT]"

definition VisitConditionalOperator :: "CoqPrinter \<Rightarrow> ClangPrinter \<Rightarrow> ptr \<Rightarrow> ptr \<Rightarrow> ptr \<Rightarrow> ptr \<Rightarrow> printer" where
  "VisitConditionalOperator print cprint e cond t f =
     seqP [ctor ''Eif'' True,
           rec_printExpr cprint cond, nbsp, rec_printExpr cprint t, nbsp, rec_printExpr cprint f,
           done_expr print cprint e Done_DT]"

definition VisitBinaryConditionalOperator ::
  "CoqPrinter \<Rightarrow> ClangPrinter \<Rightarrow> ptr \<Rightarrow> ptr \<Rightarrow> ptr \<Rightarrow> ptr \<Rightarrow> ptr \<Rightarrow> ptr \<Rightarrow> printer" where
  "VisitBinaryConditionalOperator print cprint e opaque common cond t f =
     seqP [ctor ''Eif2'' True,
           names_fresh opaque (\<lambda>index. put (decimal_int index)), nbsp,
           rec_printExpr cprint common,
           on_names inc_index_count,
           nbsp, rec_printExpr cprint cond,
           nbsp, rec_printExpr cprint t,
           nbsp, rec_printExpr cprint f,
           on_names dec_index_count,
           done_expr print cprint e Done_DT]"

definition VisitParenListExpr :: "CoqPrinter \<Rightarrow> ClangPrinter \<Rightarrow> ptr \<Rightarrow> ptr list \<Rightarrow> printer" where
  "VisitParenListExpr print cprint e es =
     (if \<not> templates print then unsupported_expr print cprint e None False
      else seqP [ctor ''Eunresolved_parenlist'' True,
                 printQualTypeOption cprint (expr_ty cprint e), nbsp,
                 if es = [] then put ''nil''
                 else seqP [begin_list,
                            seqP (map (\<lambda>i. seqP [rec_printExpr cprint i, cons]) es),
                            end_list],
                 end_ctor])"

text \<open>The \<open>assert\<close>s on union initializers are compiled out of release builds; the program keeps its own check.\<close>

definition VisitInitListExpr ::
  "CoqPrinter \<Rightarrow> ClangPrinter \<Rightarrow> ptr \<Rightarrow> bool \<Rightarrow> ptr list \<Rightarrow> ptr option \<Rightarrow> ptr option \<Rightarrow> printer" where
  "VisitInitListExpr print cprint e transparent es union_field filler =
     (if transparent then
        (case es of
           [i] \<Rightarrow> rec_printExpr cprint i
         | _ \<Rightarrow> stopA (AssertionFailed ''expr->inits().size() == 1''))
      else case union_field of
        Some fld \<Rightarrow>
          seqP [ctor ''Einitlist_union'' True,
                printFieldName print cprint fld, nbsp,
                (case es of
                   i # rest \<Rightarrow> guard_some True [rec_printExpr cprint i]
                 | [] \<Rightarrow> none),
                finish print cprint e]
      | None \<Rightarrow>
          seqP [ctor ''Einitlist'' True,
                exprs cprint es, nbsp,
                option_child (rec_printExpr cprint) filler,
                finish print cprint e])"

definition VisitCXXThisExpr :: "CoqPrinter \<Rightarrow> ClangPrinter \<Rightarrow> ptr \<Rightarrow> printer" where
  "VisitCXXThisExpr print cprint e =
     (let ctx = getContext cprint in
      asking (getLambdaClass ctx \<circ> declctx) (\<lambda>maybe_lambda.
        case maybe_lambda of
          Some (lam, is_const, is_volatile) \<Rightarrow>
            (case getCaptureThis ctx lam of
               None \<Rightarrow> stopA (AssertionFailed ''captured variable is not captured'')
             | Some capture \<Rightarrow>
                 seqP [ctor ''Ecapture_this'' False,
                       printQualifier is_const is_volatile, nbsp,
                       rec_printName cprint lam, nbsp,
                       printQualType cprint (getType (named_of ctx capture)),
                       end_ctor])
        | None \<Rightarrow> seqP [ctor ''Ethis'' False, finish print cprint e]))"

definition VisitCXXNullPtrLiteralExpr :: printer where
  "VisitCXXNullPtrLiteralExpr = seqP [put ''Enull'', nbsp]"

definition trait_argument :: "ClangPrinter \<Rightarrow> QualType option \<Rightarrow> ptr option \<Rightarrow> printer" where
  "trait_argument cprint ty arg =
     (case ty of
        Some q \<Rightarrow> seqP [ctor ''inl'' False, printQualType cprint q, rparen]
      | None \<Rightarrow>
          (case arg of
             Some x \<Rightarrow> seqP [ctor ''inr'' False, rec_printExpr cprint x, rparen]
           | None \<Rightarrow> stopA (AssertionFailed ''false'')))"

definition VisitUnaryExprOrTypeTraitExpr ::
  "CoqPrinter \<Rightarrow> ClangPrinter \<Rightarrow> ptr \<Rightarrow> UETT \<Rightarrow> QualType option \<Rightarrow> ptr option \<Rightarrow> printer" where
  "VisitUnaryExprOrTypeTraitExpr print cprint e kind ty arg =
     (let trait = (\<lambda>c. seqP [ctor c False, trait_argument cprint ty arg, finish print cprint e]) in
      case kind of
        UETT_AlignOf \<Rightarrow> trait ''Ealignof''
      | UETT_PreferredAlignOf \<Rightarrow> trait ''Ealignof_preferred''
      | UETT_SizeOf \<Rightarrow> trait ''Esizeof''
      | UETT_Other k \<Rightarrow>
          seqP [diag FATAL ''unsupported expression `UnaryExprOrTypeTraitExpr`'',
                ctor ''Eunsupported'' True,
                puts [[DQ] @ ''UnaryExprOrTypeTraitExpr('', decimal k, [DQ] @ '')''], nbsp,
                finish print cprint e])"

definition VisitOffsetOfExpr :: "CoqPrinter \<Rightarrow> ClangPrinter \<Rightarrow> ptr \<Rightarrow> nat \<Rightarrow> ptr option option \<Rightarrow> printer" where
  "VisitOffsetOfExpr print cprint e components field =
     (let ctx = getContext cprint in
      if components \<noteq> 1 then
        unsupported_expr print cprint e (Some ''offsetof with no components, or multiple components'') False
      else case field of
        None \<Rightarrow>
          unsupported_expr print cprint e (Some ''offsetof only supported on fields and base classes'') False
      | Some f \<Rightarrow>
          seqP [ctor ''Eoffsetof'' True,
                (case f of
                   None \<Rightarrow> stopA (AssertionFailed ''offsetof without type'')
                 | Some fd \<Rightarrow>
                     (case getTypeForDecl (named_of ctx (getParent (named_of ctx fd))) of
                        None \<Rightarrow> stopA (AssertionFailed ''offsetof without type'')
                      | Some ty \<Rightarrow>
                          seqP [rec_printType cprint ty, nbsp, str (getName ctx fd), nbsp])),
                finish print cprint e])"

definition VisitCXXNewExpr ::
  "CoqPrinter \<Rightarrow> ClangPrinter \<Rightarrow> ptr \<Rightarrow> ptr option \<Rightarrow> ptr list \<Rightarrow> bool \<Rightarrow> QualType \<Rightarrow> bool \<Rightarrow>
     ptr option option \<Rightarrow> ptr option \<Rightarrow> printer" where
  "VisitCXXNewExpr print cprint e new_fn placement pass_alignment allocated is_array array_size init =
     (let ctx = getContext cprint in
      case new_fn of
        None \<Rightarrow> unsupported_expr print cprint e (Some ''dependent call to new'') False
      | Some fn \<Rightarrow>
          seqP [ctor ''Enew'' True,
                begin_tuple, rec_printName cprint fn, next_tuple,
                printQualType cprint (getType (named_of ctx fn)), end_tuple, nbsp,
                exprs cprint placement, nbsp,
                if isReservedGlobalPlacementOperator (naming_of ctx fn) then
                  seqP [assertA ''placement new gets a single argument'' (length placement = 1),
                        assertA ''alignment is not passed to placement new'' (\<not> pass_alignment),
                        put ''new_form.NonAllocating'', nbsp]
                else
                  seqP [ctor ''new_form.Allocating'' True, putBOOL pass_alignment, nbsp, end_ctor, nbsp],
                printQualType cprint allocated, nbsp,
                assertA ''expr->isArray() == (bool)expr->getArraySize()'' (is_array = (array_size \<noteq> None)),
                printOptionalExpr cprint array_size, nbsp,
                printOptionalExpr cprint (Some init),
                end_ctor])"

definition VisitCXXDeleteExpr :: "ClangPrinter \<Rightarrow> bool \<Rightarrow> ptr option \<Rightarrow> ptr \<Rightarrow> QualType \<Rightarrow> printer" where
  "VisitCXXDeleteExpr cprint array_form delete_op arg destroyed =
     (let ctx = getContext cprint in
      seqP [ctor ''Edelete'' True,
            putBOOL array_form, nbsp,
            (case delete_op of
               Some fn \<Rightarrow>
                 if isDestroyingOperatorDelete (naming_of ctx fn)
                 then die ''destroying delete is not supported''
                 else seqP [begin_tuple, rec_printName cprint fn, next_tuple,
                            printQualType cprint (getType (named_of ctx fn)), end_tuple]
             | None \<Rightarrow> die ''missing [delete] operator''),
            nbsp,
            rec_printExpr cprint arg, nbsp,
            printQualType cprint destroyed,
            end_ctor])"

definition VisitMaterializeTemporaryExpr :: "CoqPrinter \<Rightarrow> ClangPrinter \<Rightarrow> ptr \<Rightarrow> bool \<Rightarrow> ptr \<Rightarrow> printer" where
  "VisitMaterializeTemporaryExpr print cprint e extended sub =
     (if extended then unsupported_expr print cprint e (Some ''scope-extruded temporary'') False
      else seqP [ctor ''Ematerialize_temp'' True, rec_printExpr cprint sub,
                 done_expr print cprint e Done_V])"

definition VisitOpaqueValueExpr :: "CoqPrinter \<Rightarrow> ClangPrinter \<Rightarrow> ptr \<Rightarrow> printer" where
  "VisitOpaqueValueExpr print cprint e =
     seqP [ctor ''Eopaque_ref'' True,
           asking (\<lambda>s. find_opaque (names s) e) (\<lambda>i. put (decimal_int i)),
           done_expr print cprint e Done_DT]"

text \<open>For an operation without a name the constructor \<open>Eatomic\<close> stays open.\<close>

definition VisitAtomicExpr :: "CoqPrinter \<Rightarrow> ClangPrinter \<Rightarrow> ptr \<Rightarrow> string option \<Rightarrow> ptr list \<Rightarrow> printer" where
  "VisitAtomicExpr print cprint e atomic_op subs =
     seqP [ctor ''Eatomic'' True,
           (case atomic_op of
              None \<Rightarrow> unsupported_expr print cprint e None False
            | Some n \<Rightarrow>
                seqP [put (''AO'' @ n), nbsp,
                      begin_list,
                      seqP (map (\<lambda>i. seqP [rec_printExpr cprint i, cons]) subs),
                      end_list,
                      finish print cprint e])]"

definition VisitVAArgExpr :: "CoqPrinter \<Rightarrow> ClangPrinter \<Rightarrow> ptr \<Rightarrow> ptr \<Rightarrow> printer" where
  "VisitVAArgExpr print cprint e sub =
     seqP [ctor ''Eva_arg'' True, rec_printExpr cprint sub, finish print cprint e]"

definition VisitLambdaExpr :: "ClangPrinter \<Rightarrow> ptr \<Rightarrow> ptr list \<Rightarrow> printer" where
  "VisitLambdaExpr cprint cls captures =
     seqP [ctor ''Elambda'' True, rec_printName cprint cls, nbsp, exprs cprint captures, end_ctor]"

definition VisitImplicitValueInitExpr :: "CoqPrinter \<Rightarrow> ClangPrinter \<Rightarrow> ptr \<Rightarrow> printer" where
  "VisitImplicitValueInitExpr print cprint e = seqP [ctor ''Eimplicit_init'' True, finish print cprint e]"

text \<open>On its own a pseudo destructor is printed without the flag that its call has.\<close>

definition VisitCXXPseudoDestructorExpr :: "ClangPrinter \<Rightarrow> QualType \<Rightarrow> ptr \<Rightarrow> printer" where
  "VisitCXXPseudoDestructorExpr cprint destroyed base =
     seqP [ctor ''Epseudo_destructor'' True, printQualType cprint destroyed, nbsp,
           rec_printExpr cprint base, end_ctor]"

definition Ebool :: "bool \<Rightarrow> printer" where
  "Ebool v = seqP [ctor ''Ebool'' True, boolean v, end_ctor]"

definition VisitConceptSpecializationExpr ::
  "ClangPrinter \<Rightarrow> nns option \<Rightarrow> decl_name \<Rightarrow> targ list \<Rightarrow> bool \<Rightarrow> bool \<Rightarrow> printer" where
  "VisitConceptSpecializationExpr cprint nn n args dependence satisfied =
     seqP [ctor ''Econcept_specialization'' True,
           rec_printUnresolvedName cprint nn n args, nbsp,
           if dependence then guard_ctor ''Some'' False [boolean satisfied] else none,
           end_ctor]"

definition VisitCXXScalarValueInitExpr :: "ClangPrinter \<Rightarrow> ptr \<Rightarrow> printer" where
  "VisitCXXScalarValueInitExpr cprint e =
     seqP [ctor ''Eimplicit_init'' True, printQualType cprint (expr_ty cprint e), end_ctor]"

definition VisitArrayInitLoopExpr ::
  "CoqPrinter \<Rightarrow> ClangPrinter \<Rightarrow> ptr \<Rightarrow> ptr \<Rightarrow> ptr \<Rightarrow> ptr \<Rightarrow> nat \<Rightarrow> printer" where
  "VisitArrayInitLoopExpr print cprint e common src sub array_size =
     seqP [ctor ''Earrayloop_init'' True,
           names_fresh common (\<lambda>index. put (decimal_int index)), nbsp,
           rec_printExpr cprint src,
           on_names inc_index_count,
           asking (\<lambda>s. index_count (names s)) (\<lambda>i. put (decimal_int i)), nbsp,
           put (decimal array_size), nbsp,
           rec_printExpr cprint sub,
           on_names dec_index_count,
           on_names (free common),
           finish print cprint e]"

definition VisitArrayInitIndexExpr :: "CoqPrinter \<Rightarrow> ClangPrinter \<Rightarrow> ptr \<Rightarrow> printer" where
  "VisitArrayInitIndexExpr print cprint e =
     seqP [ctor ''Earrayloop_index'' True,
           asking (\<lambda>s. index_count (names s)) (\<lambda>i. put (decimal_int i)), nbsp,
           finish print cprint e]"

section \<open>The visitor\<close>

text \<open>
  The dispatch of \<open>ConstStmtVisitor\<close>.  \<open>visit\<close> is the visitor itself, which three methods call on their
  child, without the checks of \<open>printExpr\<close>.
\<close>

fun expr_dispatch :: "(ptr \<Rightarrow> printer) \<Rightarrow> CoqPrinter \<Rightarrow> ClangPrinter \<Rightarrow> ptr \<Rightarrow> expr_node \<Rightarrow> printer" where
  "expr_dispatch visit pr cp e (ArraySubscriptExpr l r) = VisitArraySubscriptExpr pr cp e l r"
| "expr_dispatch visit pr cp e (ArrayInitLoopExpr c src sub n) = VisitArrayInitLoopExpr pr cp e c src sub n"
| "expr_dispatch visit pr cp e ArrayInitIndexExpr = VisitArrayInitIndexExpr pr cp e"
| "expr_dispatch visit pr cp e (AtomicExpr k es) = VisitAtomicExpr pr cp e k es"
| "expr_dispatch visit pr cp e (BinaryConditionalOperator opaque common c t f) =
     VisitBinaryConditionalOperator pr cp e opaque common c t f"
| "expr_dispatch visit pr cp e (BinaryOperator op l r) = VisitBinaryOperator pr cp e op l r"
| "expr_dispatch visit pr cp e (CallExpr c args) = VisitCallExpr pr cp e c args"
| "expr_dispatch visit pr cp e (CharacterLiteral v) = VisitCharacterLiteral pr cp e v"
| "expr_dispatch visit pr cp e (ConditionalOperator c t f) = VisitConditionalOperator pr cp e c t f"
| "expr_dispatch visit pr cp e (ConstantExpr s) = visit s"
| "expr_dispatch visit pr cp e (ParenExpr s) = visit s"
| "expr_dispatch visit pr cp e (SubstNonTypeTemplateParmExpr s) = visit s"
| "expr_dispatch visit pr cp e (CXXBindTemporaryExpr s) = rec_printExpr cp s"
| "expr_dispatch visit pr cp e (CXXBoolLiteralExpr b) = VisitCXXBoolLiteralExpr b"
| "expr_dispatch visit pr cp e (CXXConstructExpr c args) = VisitCXXConstructExpr pr cp e c args"
| "expr_dispatch visit pr cp e (CXXInheritedCtorInitExpr c) = VisitCXXInheritedCtorInitExpr pr cp e c"
| "expr_dispatch visit pr cp e (CXXDefaultArgExpr s) = around cp ''Eimplicit'' s"
| "expr_dispatch visit pr cp e (CXXDefaultInitExpr s) = around cp ''Edefault_init_expr'' s"
| "expr_dispatch visit pr cp e (CXXDeleteExpr a op x q) = VisitCXXDeleteExpr cp a op x q"
| "expr_dispatch visit pr cp e (CXXDependentScopeMemberExpr a b ty nn n args) =
     VisitCXXDependentScopeMemberExpr cp a b nn n args"
| "expr_dispatch visit pr cp e (CXXMemberCallExpr c m x args) = VisitCXXMemberCallExpr pr cp e c m x args"
| "expr_dispatch visit pr cp e (CXXNewExpr fn pl pa ty arr sz i) = VisitCXXNewExpr pr cp e fn pl pa ty arr sz i"
| "expr_dispatch visit pr cp e (CXXNoexceptExpr v) = Ebool v"
| "expr_dispatch visit pr cp e CXXNullPtrLiteralExpr = VisitCXXNullPtrLiteralExpr"
| "expr_dispatch visit pr cp e (CXXOperatorCallExpr c oo args) = VisitCXXOperatorCallExpr pr cp e c oo args"
| "expr_dispatch visit pr cp e (CXXPseudoDestructorExpr a q b) = VisitCXXPseudoDestructorExpr cp q b"
| "expr_dispatch visit pr cp e (CXXRewrittenBinaryOperator s) = VisitCXXRewrittenBinaryOperator cp s"
| "expr_dispatch visit pr cp e CXXScalarValueInitExpr = VisitCXXScalarValueInitExpr cp e"
| "expr_dispatch visit pr cp e CXXThisExpr = VisitCXXThisExpr pr cp e"
| "expr_dispatch visit pr cp e CXXThrowExpr = IGNORE_expr pr cp e"
| "expr_dispatch visit pr cp e CXXTypeidExpr = IGNORE_expr pr cp e"
| "expr_dispatch visit pr cp e CXXUnresolvedConstructExpr = IGNORE_expr pr cp e"
| "expr_dispatch visit pr cp e SizeOfPackExpr = IGNORE_expr pr cp e"
| "expr_dispatch visit pr cp e (ConceptSpecializationExpr nn n args d s) =
     VisitConceptSpecializationExpr cp nn n args d s"
| "expr_dispatch visit pr cp e (DeclRefExpr d r) = VisitDeclRefExpr pr cp e d r"
| "expr_dispatch visit pr cp e (DependentScopeDeclRefExpr nn n args) =
     VisitDependentScopeDeclRefExpr pr cp e nn n args"
| "expr_dispatch visit pr cp e (UnresolvedLookupExpr nn n args) = VisitUnresolvedLookupExpr pr cp e nn n args"
| "expr_dispatch visit pr cp e UnresolvedMemberExpr = VisitExpr pr cp e"
| "expr_dispatch visit pr cp e (ExplicitCastExpr k ck s q path) = VisitExplicitCastExpr pr cp e k ck s q path"
| "expr_dispatch visit pr cp e (ImplicitCastExpr ck s path) = VisitImplicitCastExpr pr cp e ck s path"
| "expr_dispatch visit pr cp e (ExprWithCleanups s) = around cp ''Eandclean'' s"
| "expr_dispatch visit pr cp e (FloatingLiteral t) = VisitFloatingLiteral pr cp e t"
| "expr_dispatch visit pr cp e GNUNullExpr = VisitGNUNullExpr pr cp e"
| "expr_dispatch visit pr cp e ImplicitValueInitExpr = VisitImplicitValueInitExpr pr cp e"
| "expr_dispatch visit pr cp e (InitListExpr t es u f) = VisitInitListExpr pr cp e t es u f"
| "expr_dispatch visit pr cp e (IntegerLiteral v w) = VisitIntegerLiteral pr cp e v w"
| "expr_dispatch visit pr cp e (LambdaExpr c es) = VisitLambdaExpr cp c es"
| "expr_dispatch visit pr cp e (MaterializeTemporaryExpr x s) = VisitMaterializeTemporaryExpr pr cp e x s"
| "expr_dispatch visit pr cp e (MemberExpr b m a v) = VisitMemberExpr pr cp b m a"
| "expr_dispatch visit pr cp e (OffsetOfExpr n f) = VisitOffsetOfExpr pr cp e n f"
| "expr_dispatch visit pr cp e OpaqueValueExpr = VisitOpaqueValueExpr pr cp e"
| "expr_dispatch visit pr cp e (ParenListExpr es) = VisitParenListExpr pr cp e es"
| "expr_dispatch visit pr cp e (PredefinedExpr n) = VisitPredefinedExpr cp e n"
| "expr_dispatch visit pr cp e RecoveryExpr = VisitRecoveryExpr pr cp e"
| "expr_dispatch visit pr cp e (SourceLocExpr b i v base) = VisitSourceLocExpr pr cp e b i v base"
| "expr_dispatch visit pr cp e (StmtExpr s) = VisitStmtExpr cp e s"
| "expr_dispatch visit pr cp e (StringLiteral bs w) = VisitStringLiteral pr cp e bs w"
| "expr_dispatch visit pr cp e (TypeTraitExpr v) = Ebool v"
| "expr_dispatch visit pr cp e (UnaryExprOrTypeTraitExpr k q x) =
     VisitUnaryExprOrTypeTraitExpr pr cp e k q x"
| "expr_dispatch visit pr cp e (UnaryOperator op s) = VisitUnaryOperator pr cp e op s"
| "expr_dispatch visit pr cp e (VAArgExpr s) = VisitVAArgExpr pr cp e s"
| "expr_dispatch visit pr cp e OtherExpr = VisitExpr pr cp e"

definition Eerror :: "ClangPrinter \<Rightarrow> ptr \<Rightarrow> printer" where
  "Eerror cprint e = seqP [ctor ''Eerror'' False, str (describe cprint e), nbsp, end_ctor]"

fun PrintExpr_Visit :: "nat \<Rightarrow> CoqPrinter \<Rightarrow> ClangPrinter \<Rightarrow> ptr \<Rightarrow> printer" where
  "PrintExpr_Visit n print cprint e =
     (let E = expr_of (getContext cprint) e in
      if containsErrors E then Eerror cprint e
      else expr_dispatch
             (case n of 0 \<Rightarrow> (\<lambda>s. stopA OutOfFuel) | Suc m \<Rightarrow> PrintExpr_Visit m print cprint)
             print cprint e (expr_node E))"

declare PrintExpr_Visit.simps [simp del]

text \<open>\<open>printExpr\<close> with a table of opaque names.\<close>

definition printExpr :: "CoqPrinter \<Rightarrow> ClangPrinter \<Rightarrow> ptr \<Rightarrow> printer" where
  "printExpr print cprint e =
     depth_checked (AssertionFailed expr_depth_assertion)
       (PrintExpr_Visit (loop_fuel cprint) print cprint e)"

end
