(* ===== verification/PrintExprSafety.thy ===== *)
theory PrintExprSafety
  imports PrintExpr
begin

text \<open>
  The printer of expressions keeps the contract of the printers it calls, for the
  expressions that \<open>printable_expr\<close> admits.
\<close>

section \<open>Texts\<close>

lemma binop_name_balanced: "binop_name op = Some t \<Longrightarrow> balanced t"
  by (cases op rule: binop_name.cases) auto

lemma assign_op_name_balanced: "assign_op_name op = Some t \<Longrightarrow> balanced t"
  by (cases op rule: assign_op_name.cases) auto

lemma unop_name_balanced: "unop_name op = Some t \<Longrightarrow> balanced t"
  by (cases op rule: unop_name.cases) auto

lemma cast_name_balanced: "cast_name ck = Some y \<Longrightarrow> y = (t, b) \<Longrightarrow> balanced t"
  by (cases ck rule: cast_name.cases) auto

lemma is_static_member_error: "is_static_member ctx d = Inl x \<Longrightarrow> \<not> indent_error x"
  by (auto simp: is_static_member_def split: if_splits)

lemma balanced_unsupported_op:
  assumes "quote_free t"
  shows "balanced (concat [''(Bunsupported '' @ [DQ], t, [DQ] @ '')''])"
    "balanced (concat [''(Uunsupported '' @ [DQ], t, [DQ] @ '')''])"
  using assms by (simp_all add: balanced_def quote_free_def lex_InStr)

lemma quote_free_Nil [simp]: "quote_free []"
  by (simp add: quote_free_def)

text \<open>Puts of plain pieces.\<close>

lemma balanced_number_suffix [simp]:
  "balanced (concat [decimal n, ''%N''])" "balanced (concat [decimal_int v, ''%Z''])"
  by simp_all

lemma balanced_float: "quote_free t \<Longrightarrow> balanced (concat [[DQ] @ ''float: '', t, [DQ]])"
  using balanced_quoted [of "''float: '' @ t"] by (simp add: quote_free_def)

section \<open>The visitor\<close>

context safe_printers
begin

lemma steps_anonymous_field_of_record [printer_intros]:
  "ok \<Longrightarrow> steps i d i d (anonymous_field_of_record print cprint f)"
  unfolding anonymous_field_of_record_def
  by (rule printer_intros steps_printName | assumption | (simp; fail))+

lemma steps_printFieldName [printer_intros]:
  "ok \<Longrightarrow> steps i d i d (printFieldName print cprint f)"
  unfolding printFieldName_def printAnonymousFieldName_def Let_def
  by (rule printer_intros | assumption | (simp; fail))+

lemma steps_printOptionalExpr [printer_intros]:
  "ok \<Longrightarrow> steps i d i d (printOptionalExpr cprint e)"
  unfolding printOptionalExpr_def by (rule printer_intros | assumption | (simp; fail))+

lemma steps_printValueDeclExpr_named [printer_intros]:
  "ok \<Longrightarrow> steps i d i d (printValueDeclExpr_named cprint c)"
  unfolding printValueDeclExpr_named_def Let_def
  by (rule printer_intros | assumption | (simp; fail))+

lemma steps_printValueDeclExpr: "ok \<Longrightarrow> steps i d i d (printValueDeclExpr cprint c)"
  unfolding printValueDeclExpr_def by (rule printer_intros | assumption)+

lemma steps_PrintDependentName_Visit [printer_intros]:
  assumes ok
  shows "steps i d i d (PrintDependentName_Visit cprint e)"
  unfolding PrintDependentName_Visit_def printDependentMember_def
  by (cases "expr_node (expr_of (getContext cprint) e)")
    (simp_all only: expr_node.case,
     (rule printer_intros assms | (simp; fail) | (simp add: balanced_def; fail))+)

lemma steps_printDeclType [printer_intros]: "ok \<Longrightarrow> steps i d i d (printDeclType cprint e)"
  unfolding printDeclType_def
  by (rule printer_intros | assumption | (simp; fail) | split ValueKind.split, intro conjI impI)+

lemma steps_done_expr [printer_intros]:
  "ok \<Longrightarrow> steps (Suc i) (Suc d) i d (done_expr print cprint e w)"
  "ok \<Longrightarrow> steps (Suc i) (Suc d) i d (done_operator print cprint e)"
  unfolding done_operator_def done_expr_def
  by (rule printer_intros | assumption | (simp; fail))+

lemma steps_unsupported_expr [printer_intros]:
  "ok \<Longrightarrow> steps i d i d (unsupported_expr print cprint e m w)"
  unfolding unsupported_expr_def by (rule printer_intros | assumption | (simp; fail))+

lemma steps_exprs [printer_intros]: "ok \<Longrightarrow> steps i d i d (exprs cprint es)"
  unfolding exprs_def by (rule printer_intros | assumption)+

lemma steps_around [printer_intros]: "ok \<Longrightarrow> balanced c \<Longrightarrow> steps i d i d (around cprint c s)"
  unfolding around_def by (rule printer_intros | assumption)+

subsection \<open>Operators\<close>

lemma steps_sequencing_operator [printer_intros]:
  assumes ok "balanced c"
    "msg \<noteq> ''this->depth >= 2'' \<and> msg \<noteq> depth_assertion \<and> msg \<noteq> expr_depth_assertion"
  shows "steps i d i d (sequencing_operator cprint c l r msg b)"
  unfolding sequencing_operator_def
  using assms by - (rule printer_intros | assumption | (elim conjE; assumption))+

lemma steps_printBinaryOperator:
  assumes "quote_free (getOpcodeStr op)"
  shows "steps i d i d (printBinaryOperator op)"
  unfolding printBinaryOperator_def
  by (rule printer_intros balanced_unsupported_op assms | erule binop_name_balanced | assumption)+

lemma steps_VisitBinaryOperator [printer_intros]:
  assumes o': ok and "printable_expr (BinaryOperator op l r)"
  shows "steps i d i d (VisitBinaryOperator print cprint e op l r)"
proof -
  have q: "quote_free (getOpcodeStr op)"
    using assms(2) by (cases op rule: getOpcodeStr.cases) (auto simp: printable_expr_def)
  have s: "steps i d i d (case assign_op_name op of
      Some t \<Rightarrow> seqP [ctor ''Eassign_op'' True, put t, nbsp,
        seqP [rec_printExpr cprint l, nbsp, rec_printExpr cprint r, done_operator print cprint e]]
    | None \<Rightarrow> seqP [ctor ''Ebinop'' True, printBinaryOperator op, nbsp,
        seqP [rec_printExpr cprint l, nbsp, rec_printExpr cprint r, done_operator print cprint e]])"
    by (rule printer_intros steps_printBinaryOperator o' q | erule assign_op_name_balanced
        | assumption | (simp; fail))+
  show ?thesis
    unfolding VisitBinaryOperator_def Let_def
    by (rule s | rule o' printer_intros | split BinaryOperatorKind.split, intro conjI allI impI
        | (simp; fail))+
qed

lemma steps_printUnaryOperator:
  assumes "quote_free (unary_getOpcodeStr op)"
  shows "steps i d i d (printUnaryOperator op)"
  unfolding printUnaryOperator_def
  by (rule printer_intros balanced_unsupported_op assms | erule unop_name_balanced | assumption)+

lemma steps_addr_of [printer_intros]:
  assumes ok
  shows "steps i d i d (addr_of cprint s)"
  unfolding addr_of_def Let_def
  by (rule printer_intros steps_with_answer assms | erule is_static_member_error | (simp; fail)
      | split expr_node.split, intro conjI allI impI)+

lemma steps_VisitUnaryOperator [printer_intros]:
  assumes o': ok and "printable_expr (UnaryOperator op s)"
  shows "steps i d i d (VisitUnaryOperator print cprint e op s)"
proof -
  have q: "quote_free (unary_getOpcodeStr op)"
    using assms(2) by (cases op rule: unary_getOpcodeStr.cases) (auto simp: printable_expr_def)
  have s: "steps i d i d (seqP [ctor ''Eunop'' True, printUnaryOperator op, nbsp,
      seqP [rec_printExpr cprint s, done_operator print cprint e]])"
    by (rule printer_intros steps_printUnaryOperator o' q | (simp; fail))+
  show ?thesis
    unfolding VisitUnaryOperator_def Let_def
    by (rule s | rule o' printer_intros | split UnaryOperatorKind.split, intro conjI allI impI
        | (simp; fail))+
qed

subsection \<open>References and calls\<close>

lemma steps_captured_variable [printer_intros]:
  "ok \<Longrightarrow> steps i d i d (captured_variable print cprint e v)"
  unfolding captured_variable_def Let_def by (rule printer_intros | assumption | (simp; fail))+

lemma steps_enum_constant [printer_intros]:
  "ok \<Longrightarrow> steps i d i d (enum_constant print cprint e v)"
  unfolding enum_constant_def Let_def by (rule printer_intros | assumption | (simp; fail))+

lemma steps_VisitDeclRefExpr [printer_intros]:
  "ok \<Longrightarrow> steps i d i d (VisitDeclRefExpr print cprint e v r)"
  unfolding VisitDeclRefExpr_def Let_def by (rule printer_intros | assumption | (simp; fail))+

lemma steps_VisitCallExpr [printer_intros]:
  "ok \<Longrightarrow> steps i d i d (VisitCallExpr print cprint e c args)"
  unfolding VisitCallExpr_def Let_def
  by (rule printer_intros | assumption | (simp; fail) | split expr_node.split, intro conjI allI impI)+

lemma steps_VisitCXXOperatorCallExpr [printer_intros]:
  assumes ok "printable_operator k"
  shows "steps i d i d (VisitCXXOperatorCallExpr print cprint e c k args)"
  unfolding VisitCXXOperatorCallExpr_def Let_def
  by (rule printer_intros steps_printOverloadableOperator assms | (simp; fail)
      | split list.split, intro conjI allI impI)+

subsection \<open>Casts\<close>

lemma steps_cast_path [printer_intros]:
  "ok \<Longrightarrow> msg \<noteq> ''this->depth >= 2'' \<Longrightarrow> msg \<noteq> depth_assertion \<Longrightarrow> msg \<noteq> expr_depth_assertion \<Longrightarrow>
   steps i d i d (cast_path cprint path msg)"
  unfolding cast_path_def by (rule printer_intros | assumption)+

lemma steps_printCast [printer_intros]:
  assumes ok
  shows "steps i d i d (printCast print cprint e ck path)"
  unfolding printCast_def
  by (rule assms printer_intros | erule (1) cast_name_balanced | (simp; fail)
      | split CastKind.split, intro conjI allI impI)+

lemma steps_VisitExplicitCastExpr [printer_intros]:
  assumes ok "printable_expr (ExplicitCastExpr k ck s q path)"
  shows "steps i d i d (VisitExplicitCastExpr print cprint e k ck s q path)"
  using assms(2) unfolding VisitExplicitCastExpr_def Let_def printable_expr_def
  by (cases k) (simp_all only: ExplicitCast.case expr_node.case,
      (rule assms printer_intros | (simp; fail))+)

lemma steps_VisitImplicitCastExpr [printer_intros]:
  "ok \<Longrightarrow> steps i d i d (VisitImplicitCastExpr print cprint e ck s path)"
  unfolding VisitImplicitCastExpr_def Let_def
  by (rule printer_intros | assumption | (simp; fail) | split expr_node.split, intro conjI allI impI)+

subsection \<open>Literals, members and the rest\<close>

lemma steps_print_string_type [printer_intros]: "ok \<Longrightarrow> steps i d i d (print_string_type cprint e)"
  unfolding print_string_type_def by (rule printer_intros | assumption | (simp; fail))+

lemma steps_VisitStringLiteral [printer_intros]:
  "ok \<Longrightarrow> steps i d i d (VisitStringLiteral print cprint e bs w)"
  unfolding VisitStringLiteral_def by (rule printer_intros steps_map | assumption | (simp; fail))+

lemma steps_literals [printer_intros]:
  assumes ok
  shows "steps i d i d (VisitIntegerLiteral print cprint e v w)"
    "steps i d i d (VisitCharacterLiteral print cprint e n)"
    "steps i d i d (VisitPredefinedExpr cprint e t)"
    "steps i d i d (VisitSourceLocExpr print cprint e t b v base)"
    "steps i d i d (VisitCXXBoolLiteralExpr b)"
    "quote_free u \<Longrightarrow> steps i d i d (VisitFloatingLiteral print cprint e u)"
  unfolding VisitIntegerLiteral_def VisitCharacterLiteral_def VisitPredefinedExpr_def
    VisitSourceLocExpr_def VisitCXXBoolLiteralExpr_def VisitFloatingLiteral_def
  by (rule assms printer_intros balanced_float plain_balanced_num | assumption | (simp; fail)
      | (simp add: fZ_def; fail) | (simp add: balanced_def; fail))+

lemma steps_VisitMemberExpr [printer_intros]:
  "ok \<Longrightarrow> steps i d i d (VisitMemberExpr print cprint b m a)"
  unfolding VisitMemberExpr_def Let_def by (rule printer_intros | assumption | (simp; fail))+

lemma steps_VisitCXXMemberCallExpr [printer_intros]:
  "ok \<Longrightarrow> steps i d i d (VisitCXXMemberCallExpr print cprint e c m x args)"
  unfolding VisitCXXMemberCallExpr_def Let_def
  by (rule printer_intros | assumption | (simp; fail) | split expr_node.split, intro conjI allI impI)+

lemma steps_constructors [printer_intros]:
  assumes ok
  shows "steps i d i d (VisitCXXConstructExpr print cprint e c args)"
    "steps i d i d (VisitCXXInheritedCtorInitExpr print cprint e c)"
    "steps i d i d (VisitArraySubscriptExpr print cprint e l r)"
    "steps i d i d (VisitCXXDependentScopeMemberExpr cprint a b nn n targs)"
  unfolding VisitCXXConstructExpr_def VisitCXXInheritedCtorInitExpr_def VisitArraySubscriptExpr_def
    VisitCXXDependentScopeMemberExpr_def printDependentMember_def Let_def
  by (rule assms printer_intros | (simp; fail))+

lemma steps_VisitInitListExpr [printer_intros]:
  "ok \<Longrightarrow> steps i d i d (VisitInitListExpr print cprint e t es u f)"
  unfolding VisitInitListExpr_def
  by (rule printer_intros | assumption | (simp; fail) | split list.split, intro conjI allI impI)+

lemma steps_VisitCXXNewExpr [printer_intros]:
  "ok \<Longrightarrow> steps i d i d (VisitCXXNewExpr print cprint e fn pl pa ty arr sz init)"
  unfolding VisitCXXNewExpr_def Let_def by (rule printer_intros | assumption | (simp; fail))+

lemma steps_VisitCXXDeleteExpr [printer_intros]:
  "ok \<Longrightarrow> steps i d i d (VisitCXXDeleteExpr cprint a op x q)"
  unfolding VisitCXXDeleteExpr_def Let_def by (rule printer_intros | assumption | (simp; fail))+

lemma steps_trait_argument [printer_intros]:
  "ok \<Longrightarrow> steps i d i d (trait_argument cprint q x)"
  unfolding trait_argument_def by (rule printer_intros | assumption | (simp; fail))+

lemmas expr_visits =
  VisitStmtExpr_def VisitCXXRewrittenBinaryOperator_def VisitGNUNullExpr_def unresolved_global_def
  VisitDependentScopeDeclRefExpr_def VisitUnresolvedLookupExpr_def VisitRecoveryExpr_def
  VisitConditionalOperator_def VisitBinaryConditionalOperator_def VisitParenListExpr_def
  VisitCXXThisExpr_def VisitCXXNullPtrLiteralExpr_def VisitOffsetOfExpr_def
  VisitMaterializeTemporaryExpr_def VisitOpaqueValueExpr_def VisitVAArgExpr_def VisitLambdaExpr_def
  VisitImplicitValueInitExpr_def VisitCXXPseudoDestructorExpr_def Ebool_def
  VisitConceptSpecializationExpr_def VisitCXXScalarValueInitExpr_def VisitArrayInitLoopExpr_def
  VisitArrayInitIndexExpr_def IGNORE_expr_def VisitExpr_def

lemma steps_VisitAtomicExpr [printer_intros]:
  assumes ok "printable_expr (AtomicExpr k es)"
  shows "steps i d i d (VisitAtomicExpr print cprint e k es)"
  using assms(2) unfolding VisitAtomicExpr_def printable_expr_def
  by (cases k) (simp_all only: expr_node.case option.case,
      (rule assms printer_intros steps_map | (simp; fail))+)

lemma steps_VisitUnaryExprOrTypeTraitExpr [printer_intros]:
  assumes ok "printable_expr (UnaryExprOrTypeTraitExpr k q x)"
  shows "steps i d i d (VisitUnaryExprOrTypeTraitExpr print cprint e k q x)"
  using assms(2) unfolding VisitUnaryExprOrTypeTraitExpr_def printable_expr_def Let_def
  by (cases k) (simp_all only: expr_node.case UETT.case,
      (rule assms printer_intros | (simp; fail))+)

lemma steps_expr_dispatch:
  assumes o': ok and n: "printable_expr n" and v: "\<And>s i d. steps i d i d (visit s)"
  shows "steps i d i d (expr_dispatch visit print cprint e n)"
proof (cases n)
  case (CXXOperatorCallExpr c oo args)
  then have "printable_operator oo" using n by (simp add: printable_expr_def)
  with o' show ?thesis
    unfolding CXXOperatorCallExpr expr_dispatch.simps by (rule steps_VisitCXXOperatorCallExpr)
next
  case (FloatingLiteral t)
  then have "quote_free t" using n by (simp add: printable_expr_def)
  with o' show ?thesis
    unfolding FloatingLiteral expr_dispatch.simps by (rule steps_literals)
qed (insert n, (simp only: expr_dispatch.simps expr_visits Let_def,
      (rule o' v | assumption | rule printer_intros steps_map | (simp; fail))+)+)

lemma steps_Eerror [printer_intros]: "steps i d i d (Eerror cprint e)"
  unfolding Eerror_def by (rule printer_intros | (simp; fail))+

lemma steps_PrintExpr_Visit [printer_intros]:
  assumes ok
  shows "steps i d i d (PrintExpr_Visit n print cprint e)"
proof (induction n arbitrary: e i d)
  case 0
  have "printable_expr (expr_node (expr_of (getContext cprint) e))"
    using assms by (simp add: printable_def)
  with assms show ?case
    by (subst PrintExpr_Visit.simps)
      (auto simp: Let_def intro: steps_expr_dispatch steps_Eerror steps_fuel)
next
  case (Suc n)
  have "printable_expr (expr_node (expr_of (getContext cprint) e))"
    using assms by (simp add: printable_def)
  with assms Suc show ?case
    by (subst PrintExpr_Visit.simps)
      (auto simp: Let_def intro: steps_expr_dispatch steps_Eerror steps_fuel)
qed

lemma steps_printExpr: "ok \<Longrightarrow> steps i d i d (printExpr print cprint e)"
  unfolding printExpr_def by (rule printer_intros | assumption)+

end

end
