(* ===== verification/PrintDecl.thy ===== *)
theory PrintDecl
  imports PrintExprSafety
begin

text \<open>
  Model of \<open>src/PrintDecl.cpp\<close>: the visitor that prints a declaration of the module.  A printing
  function answers whether it printed anything.  In the template mode of the printer only templated
  declarations are printed in full, specializations become \<open>Dinstantiation\<close>s, and everything else is skipped.
\<close>

section \<open>Queries\<close>

definition with_answerQ :: "stop + 'a \<Rightarrow> ('a \<Rightarrow> bprinter) \<Rightarrow> bprinter" where
  "with_answerQ r f = (case r of Inl x \<Rightarrow> (\<lambda>s. Inl x) | Inr a \<Rightarrow> f a)"

definition orQ :: "bprinter \<Rightarrow> bprinter \<Rightarrow> bprinter" where
  "orQ p q s =
     (case p s of
        Inl x \<Rightarrow> Inl x
      | Inr (b, s') \<Rightarrow> if b then Inr (True, s') else q s')"

definition withDeclContextQ :: "ptr option \<Rightarrow> bprinter \<Rightarrow> bprinter" where
  "withDeclContextQ c p s =
     (case p (s\<lparr>declctx := c\<rparr>) of
        Inl x \<Rightarrow> Inl x
      | Inr (b, s') \<Rightarrow> Inr (b, s'\<lparr>declctx := declctx s\<rparr>))"

abbreviation printed :: "printer \<Rightarrow> bprinter" where
  "printed p \<equiv> returning p True"

abbreviation nothing :: bprinter where
  "nothing \<equiv> returning skip False"

definition decl_unsupported :: "string \<Rightarrow> printer" where
  "decl_unsupported msg = diag UNSUPPORTED (''warning: unsupported '' @ msg)"

section \<open>Calling conventions\<close>

fun getCallingConv :: "nat \<Rightarrow> ASTContext \<Rightarrow> ptr option \<Rightarrow> stop + CallingConv" where
  "getCallingConv n ctx None = Inl (Die ''getCallingConv: FunctionDecl type is not a FunctionType'')"
| "getCallingConv n ctx (Some t) =
     (case type_node (type_of ctx t) of
        FunctionProtoType cc variadic ret params \<Rightarrow> Inr cc
      | FunctionNoProtoType cc ret \<Rightarrow> Inr cc
      | AttributedType q \<Rightarrow>
          (case n of 0 \<Rightarrow> Inl OutOfFuel | Suc m \<Rightarrow> getCallingConv m ctx (getTypePtrOrNull q))
      | TypeOfExprType sugared e \<Rightarrow>
          (case n of 0 \<Rightarrow> Inl OutOfFuel
           | Suc m \<Rightarrow> getCallingConv m ctx (case sugared of Some q \<Rightarrow> getTypePtrOrNull q | None \<Rightarrow> Some t))
      | _ \<Rightarrow> Inl (Die ''getCallingConv: FunctionDecl type is not a FunctionType''))"

definition printCallingConv_of :: "ClangPrinter \<Rightarrow> ptr \<Rightarrow> printer" where
  "printCallingConv_of cprint d =
     with_answer
       (getCallingConv (loop_fuel cprint) (getContext cprint)
          (getTypePtrOrNull (getType (named_of (getContext cprint) d))))
       (\<lambda>cc. printCallingConv cc)"

section \<open>Template specializations\<close>

definition isImplicitSpecialMethod :: "ASTContext \<Rightarrow> ptr \<Rightarrow> bool" where
  "isImplicitSpecialMethod ctx d =
     (let m = method_of ctx d in
      if \<not> isImplicit (decl ctx d) then False
      else if isaD ctx CXXConstructorDecl d then
        isDefaultConstructor m \<or> isCopyConstructor m \<or> isMoveConstructor m
      else if isaD ctx CXXDestructorDecl d then True
      else if isaD ctx CXXMethodDecl d then isCopyAssignmentOperator m \<or> isMoveAssignmentOperator m
      else False)"

text \<open>The loops over a context and its parents.\<close>

fun any_context :: "nat \<Rightarrow> ASTContext \<Rightarrow> (ptr \<Rightarrow> bool) \<Rightarrow> ptr option \<Rightarrow> stop + bool" where
  "any_context n ctx p None = Inr False"
| "any_context n ctx p (Some c) =
     (if p c then Inr True
      else (case n of 0 \<Rightarrow> Inl OutOfFuel
            | Suc m \<Rightarrow> any_context m ctx p (getContextParent (naming_of ctx c))))"

definition isSpecialized :: "nat \<Rightarrow> ASTContext \<Rightarrow> ptr \<Rightarrow> stop + bool" where
  "isSpecialized fuel ctx d =
     (if isImplicitSpecialMethod ctx d then Inr False
      else if isaD ctx EnumConstantDecl d then Inr False
      else if recoverSpecialization ctx d \<noteq> None then Inr True
      else any_context fuel ctx (\<lambda>c. recoverSpecialization ctx c \<noteq> None) (getDeclContext (named_of ctx d)))"

definition isTemplate :: "nat \<Rightarrow> ASTContext \<Rightarrow> ptr \<Rightarrow> stop + bool" where
  "isTemplate fuel ctx d =
     (if recoverTemplate ctx d \<noteq> None then Inr True
      else any_context fuel ctx (\<lambda>c. recoverTemplate ctx c \<noteq> None) (getDeclContext (named_of ctx d)))"

text \<open>\<open>patterns\<close> holds the answers of the accessors that the code asks in turn.\<close>

fun first_pattern :: "ptr option list \<Rightarrow> ptr option" where
  "first_pattern [] = None"
| "first_pattern (Some p # ps) = Some p"
| "first_pattern (None # ps) = first_pattern ps"

definition recoverPattern :: "ASTContext \<Rightarrow> ptr \<Rightarrow> ptr option" where
  "recoverPattern ctx d =
     (if isaD ctx CXXRecordDecl d \<or> isaD ctx FunctionDecl d \<or> isaD ctx EnumDecl d \<or> isaD ctx VarDecl d
      then first_pattern (patterns (body_of ctx d))
      else None)"

definition printSpecialization :: "CoqPrinter \<Rightarrow> ClangPrinter \<Rightarrow> ptr \<Rightarrow> bprinter" where
  "printSpecialization print cprint d =
     (let ctx = getContext cprint in
      if \<not> templates print then nothing
      else with_answerQ (isSpecialized (loop_fuel cprint) ctx d) (\<lambda>specialized.
        if \<not> specialized then nothing
        else case recoverPattern ctx d of
          Some pat \<Rightarrow>
            printed (guard_ctor ''Dinstantiation'' True
              [printNameComment cprint d, nbsp,
               printNameAsKey cprint d, nbsp,
               printNameComment cprint pat, nbsp,
               printNameAsKey cprint pat, nbsp,
               printTemplateArguments cprint d])
        | None \<Rightarrow> returning (decl_unsupported ''template specialization'') False))"

section \<open>\<open>DeclPrinter\<close>\<close>

text \<open>
  \<open>DeclPrinter::print\<close>, given the name of the constructor, the printer of the body and the message of an
  invalid declaration.  The check for invalid ones is made only for declarations that are contexts,
  and before the question whether the mode of the printer wants the declaration.
\<close>

definition print_untemplated :: "CoqPrinter \<Rightarrow> ClangPrinter \<Rightarrow> string \<Rightarrow> printer \<Rightarrow> ptr \<Rightarrow> bprinter" where
  "print_untemplated print cprint c print_body d =
     (let ctx = getContext cprint in
      if templates print then
        (if \<not> isTemplated (decl ctx d) then nothing
         else with_answerQ (isSpecialized (loop_fuel cprint) ctx d) (\<lambda>specialized.
           if specialized then nothing
           else printed (guard_ctor c True
             [printNameComment cprint d, nbsp,
              printTemplateParameters cprint False d, nbsp,
              printNameAsKey cprint d, nbsp,
              print_body])))
      else printed (guard_ctor c True
             [printNameComment cprint d, nbsp,
              printNameAsKey cprint d, nbsp,
              print_body]))"

definition DeclPrinter_print ::
  "CoqPrinter \<Rightarrow> ClangPrinter \<Rightarrow> string \<Rightarrow> printer \<Rightarrow> string option \<Rightarrow> ptr \<Rightarrow> bprinter" where
  "DeclPrinter_print print cprint c print_body invalid d =
     orQ
       (if isDeclContext (decl (getContext cprint) d) then
          withDeclContextQ (Some d)
            (case invalid of
               Some msg \<Rightarrow> printed (guard_ctor ''Dunsupported'' True [rec_printName cprint d, nbsp, str msg])
             | None \<Rightarrow> print_untemplated print cprint c print_body d)
        else print_untemplated print cprint c print_body d)
       (printSpecialization print cprint d)"

definition Dtype :: "CoqPrinter \<Rightarrow> ClangPrinter \<Rightarrow> ptr \<Rightarrow> bprinter" where
  "Dtype print cprint d = DeclPrinter_print print cprint ''Dtype'' skip None d"

definition printTypedef :: "ClangPrinter \<Rightarrow> ptr \<Rightarrow> printer" where
  "printTypedef cprint d = printQualType cprint (getUnderlyingType (named_of (getContext cprint) d))"

definition Dtypedef :: "CoqPrinter \<Rightarrow> ClangPrinter \<Rightarrow> ptr \<Rightarrow> bprinter" where
  "Dtypedef print cprint d = DeclPrinter_print print cprint ''Dtypedef'' (printTypedef cprint d) None d"

section \<open>Structures and unions\<close>

definition printClassName :: "CoqPrinter \<Rightarrow> ClangPrinter \<Rightarrow> ptr \<Rightarrow> printer" where
  "printClassName print cprint d =
     (if templates print then printType_opt cprint (getTypeForDecl (named_of (getContext cprint) d))
      else rec_printName cprint d)"

definition printClassName_type :: "CoqPrinter \<Rightarrow> ClangPrinter \<Rightarrow> ptr option \<Rightarrow> printer" where
  "printClassName_type print cprint t =
     (case t of
        None \<Rightarrow> die ''null class name type''
      | Some ty \<Rightarrow>
          (case getAsCXXRecordDecl (type_of (getContext cprint) ty) of
             Some d \<Rightarrow> printClassName print cprint d
           | None \<Rightarrow> die ''class name type not a record type''))"

definition printLayoutInfo :: "int \<Rightarrow> printer" where
  "printLayoutInfo li = guard_ctor ''Build_LayoutInfo'' True [put (decimal_int li)]"

definition printFieldInitializer :: "ClangPrinter \<Rightarrow> ptr \<Rightarrow> printer" where
  "printFieldInitializer cprint field =
     (case getInClassInitializer (body_of (getContext cprint) field) of
        Some e \<Rightarrow> guard_some True [printExpr1 cprint e]
      | None \<Rightarrow> none)"

definition lang :: "CoqPrinter \<Rightarrow> printer" where
  "lang print = put (if templates print then ''lang.temp'' else ''lang.cpp'')"

text \<open>The counter of the fields advances only when there is a layout.\<close>

definition printFields :: "CoqPrinter \<Rightarrow> ClangPrinter \<Rightarrow> bool \<Rightarrow> ptr \<Rightarrow> printer" where
  "printFields print cprint layout d =
     (let ctx = getContext cprint in
      plist (enumerate 0 (record_fields (naming_of ctx d))) (\<lambda>(k, field).
        let i = (if layout then k else 0) in
        if isBitField (body_of ctx field) then die ''bit fields are not supported''
        else guard_ctor ''@mkMember'' (i \<noteq> 0)
          [lang print, nbsp,
           printFieldName print cprint field, nbsp,
           printQualType cprint (getType (named_of ctx field)), nbsp,
           boolean (isMutable (naming_of ctx field)), nbsp,
           printFieldInitializer cprint field, nbsp,
           printLayoutInfo (if layout then int (getFieldOffset (body_of ctx d) i) else 0)]))"

definition printStructBases :: "CoqPrinter \<Rightarrow> ClangPrinter \<Rightarrow> bool \<Rightarrow> ptr \<Rightarrow> printer" where
  "printStructBases print cprint layout d =
     (let ctx = getContext cprint in
      plist (bases (body_of ctx d)) (\<lambda>base.
        if isVirtualBase base then die ''virtual base classes are not supported''
        else case getTypePtrOrNull (base_type base) of
          None \<Rightarrow> die ''null base class''
        | Some ty \<Rightarrow>
            if templates print then
              guard_ctor ''mkBase'' True [rec_printType cprint ty, nbsp, printLayoutInfo 0]
            else
              (case getAsCXXRecordDecl (type_of ctx ty) of
                 None \<Rightarrow> stopA (AssertionFailed ''record && base class not a RecordType'')
               | Some record_decl \<Rightarrow>
                   guard_ctor ''mkBase'' True
                     [rec_printName cprint record_decl, nbsp,
                      printLayoutInfo (if layout then getBaseClassOffset base else 0)])))"

definition is_pure_virtual :: "ASTContext \<Rightarrow> ptr \<Rightarrow> bool" where
  "is_pure_virtual ctx m = isPureVirtual (body_of ctx m)"

definition printStructVirtuals :: "ClangPrinter \<Rightarrow> ptr \<Rightarrow> printer" where
  "printStructVirtuals cprint d =
     (let ctx = getContext cprint in
      list_filter (methods (body_of ctx d)) (\<lambda>m.
        if \<not> isVirtual (naming_of ctx m) then nothing
        else printed (guard_ctor (if is_pure_virtual ctx m then ''pure_virt'' else ''impl_virt'') False
               [rec_printName cprint m])))"

definition printStructOverrides :: "ClangPrinter \<Rightarrow> ptr \<Rightarrow> printer" where
  "printStructOverrides cprint d =
     (let ctx = getContext cprint in
      guard_list (map (\<lambda>m.
        if isVirtual (naming_of ctx m) \<and> \<not> is_pure_virtual ctx m then
          seqP (map (\<lambda>ov. seqP [put [LPAR], rec_printName cprint ov, tuple_sep,
                               rec_printName cprint m, put [RPAR], cons_sep])
                 (overridden_methods (body_of ctx m)))
        else skip) (methods (body_of ctx d))))"

definition printDeleteName :: "ClangPrinter \<Rightarrow> ptr \<Rightarrow> printer" where
  "printDeleteName cprint d =
     (let ctx = getContext cprint in
      case (case getDestructor (named_of ctx d) of
              Some dtor \<Rightarrow> getOperatorDelete (body_of ctx dtor) | None \<Rightarrow> None) of
        Some del \<Rightarrow> guard_some True [rec_printName cprint del]
      | None \<Rightarrow> none)"

definition printTriviallyDestructible :: "ClangPrinter \<Rightarrow> ptr \<Rightarrow> printer" where
  "printTriviallyDestructible cprint d = putBOOL (hasTrivialDestructor (body_of (getContext cprint) d))"

definition printLayoutType :: "ClangPrinter \<Rightarrow> ptr \<Rightarrow> printer" where
  "printLayoutType cprint d =
     (let B = body_of (getContext cprint) d in
      put (if isPOD B then ''POD'' else if isStandardLayout B then ''Standard'' else ''Unspecified''))"

definition printSizeAlign :: "ClangPrinter \<Rightarrow> bool \<Rightarrow> ptr \<Rightarrow> printer" where
  "printSizeAlign cprint layout d =
     (let B = body_of (getContext cprint) d in
      seqP [put (decimal_int (if layout then getSize B else 0)), nbsp,
            put (decimal_int (if layout then getAlignment B else 0))])"

definition printStruct :: "CoqPrinter \<Rightarrow> ClangPrinter \<Rightarrow> ptr \<Rightarrow> printer" where
  "printStruct print cprint d =
     (let ctx = getContext cprint; layout = (\<not> isDependentContext (decl ctx d)) in
      seqP
       [assertA ''decl.getTagKind() == Class || decl.getTagKind() == Struct''
          (getTagKind (body_of ctx d) \<in> {TK_Class, TK_Struct}),
        if \<not> isCompleteDefinition (class_of ctx d) then none
        else guard_some True [guard_ctor ''Build_Struct'' True
          [printStructBases print cprint layout d, nl,
           printFields print cprint layout d, nbsp,
           printStructVirtuals cprint d, nbsp,
           printStructOverrides cprint d, nbsp,
           printDtorName print cprint d, nbsp,
           printTriviallyDestructible cprint d, nbsp,
           printDeleteName cprint d, nl,
           printLayoutType cprint d, nbsp,
           printSizeAlign cprint layout d]]])"

definition printUnion :: "CoqPrinter \<Rightarrow> ClangPrinter \<Rightarrow> ptr \<Rightarrow> printer" where
  "printUnion print cprint d =
     (let ctx = getContext cprint; layout = (\<not> isDependentContext (decl ctx d)) in
      seqP
       [assertA ''decl.getTagKind() == Union'' (getTagKind (body_of ctx d) = TK_Union),
        if \<not> isCompleteDefinition (class_of ctx d) then none
        else guard_some True [guard_ctor ''Build_Union'' True
          [printFields print cprint layout d, nbsp,
           printDtorName print cprint d, nbsp,
           printTriviallyDestructible cprint d, nbsp,
           printDeleteName cprint d, nl,
           printSizeAlign cprint layout d]]])"

definition supportedRecord :: "ASTContext \<Rightarrow> ptr \<Rightarrow> string option" where
  "supportedRecord ctx d =
     (if list_ex isVirtualBase (bases (body_of ctx d)) then Some ''virtual base classes are not supported''
      else case find (\<lambda>f. isBitField (body_of ctx f) \<or> isInvalidDecl (named_of ctx f))
                  (record_fields (naming_of ctx d)) of
        None \<Rightarrow> None
      | Some f \<Rightarrow>
          if isBitField (body_of ctx f) then Some ''bitfields are not supported'' else Some ''invalid field'')"

definition Dstruct :: "CoqPrinter \<Rightarrow> ClangPrinter \<Rightarrow> ptr \<Rightarrow> bprinter" where
  "Dstruct print cprint d =
     DeclPrinter_print print cprint ''Dstruct'' (printStruct print cprint d)
       (supportedRecord (getContext cprint) d) d"

definition Dunion :: "CoqPrinter \<Rightarrow> ClangPrinter \<Rightarrow> ptr \<Rightarrow> bprinter" where
  "Dunion print cprint d =
     DeclPrinter_print print cprint ''Dunion'' (printUnion print cprint d)
       (supportedRecord (getContext cprint) d) d"

section \<open>Functions\<close>

definition builtin_suffixes :: "string list" where
  "builtin_suffixes =
     [''alloca'', ''alloca_with_align'', ''launder'', ''expect'', ''unreachable'', ''trap'',
      ''bswap16'', ''bswap32'', ''bswap64'', ''ffs'', ''ffsl'', ''ffsll'', ''clz'', ''clzl'', ''clzll'',
      ''ctz'', ''ctzl'', ''ctzll'', ''popcount'', ''popcountl'', ''memset'', ''memcmp'', ''bzero'']"

text \<open>\<open>builtin_function\<close> is the name of the enumerator of \<open>Builtin::ID\<close> after \<open>BI\<close>.\<close>

definition printBuiltin :: "ClangPrinter \<Rightarrow> ptr \<Rightarrow> printer" where
  "printBuiltin cprint d =
     (let ctx = getContext cprint in
      case find (\<lambda>x. builtin_function (body_of ctx d) = ''__builtin_'' @ x) builtin_suffixes of
        Some x \<Rightarrow> put (''Bin_'' @ x)
      | None \<Rightarrow> guard_ctor ''Bin_unknown'' True [str (getNameAsString (named_of ctx d))])"

definition printFunctionParams :: "ClangPrinter \<Rightarrow> ptr \<Rightarrow> printer" where
  "printFunctionParams cprint d =
     (let ctx = getContext cprint in
      plist (parameters (named_of ctx d)) (\<lambda>param.
        guard_tuple [printParamName cprint param, tuple_sep,
                     printQualType cprint (getType (named_of ctx param))]))"

definition printFunction :: "ClangPrinter \<Rightarrow> ptr \<Rightarrow> printer" where
  "printFunction cprint d =
     (let ctx = getContext cprint; B = body_of ctx d in
      guard_ctor ''Build_Func'' True
        [printQualType cprint (getReturnType B), nl,
         printFunctionParams cprint d, nbsp,
         printCallingConv_of cprint d, nbsp,
         printVariadic (isVariadic B), nl,
         (case getBody B of
            Some body \<Rightarrow> guard_some False [guard_ctor ''Impl'' False [rec_printStmt cprint body]]
          | None \<Rightarrow>
              if isBuiltin (naming_of ctx d)
              then guard_some False [guard_ctor ''Builtin'' False [printBuiltin cprint d]]
              else none)])"

definition user_body :: "ClangPrinter \<Rightarrow> ptr \<Rightarrow> printer" where
  "user_body cprint d =
     (case getBody (body_of (getContext cprint) d) of
        Some body \<Rightarrow> guard_some True [guard_ctor ''UserDefined'' True [rec_printStmt cprint body]]
      | None \<Rightarrow>
          if isDefaulted (method_of (getContext cprint) d) then put ''(Some Defaulted)'' else none)"

definition printMethod :: "CoqPrinter \<Rightarrow> ClangPrinter \<Rightarrow> ptr \<Rightarrow> printer" where
  "printMethod print cprint d =
     (let ctx = getContext cprint; B = body_of ctx d; N = named_of ctx d in
      seqP
       [putBOOL (isStaticMethod (naming_of ctx d)), nbsp,
        guard_ctor ''Build_Method'' True
          [printQualType cprint (getReturnType B), nbsp,
           printClassName print cprint (getParent N), nbsp,
           printQualifier (isConst N) (isVolatile N), nbsp,
           printFunctionParams cprint d, nbsp,
           printCallingConv_of cprint d, nbsp,
           printVariadic (isVariadic B), nbsp,
           user_body cprint d]])"

text \<open>
  \<open>printIndirectFieldChain\<close> prints the anonymous fields of the chain and answers the identifier of
  its first named field, with which \<open>k\<close> goes on.
\<close>

fun indirect_chain_loop :: "CoqPrinter \<Rightarrow> ClangPrinter \<Rightarrow> ptr list \<Rightarrow> (string \<Rightarrow> printer) \<Rightarrow> printer" where
  "indirect_chain_loop print cprint [] k = die ''no named field in indirect field chain''"
| "indirect_chain_loop print cprint (nd # rest) k =
     (let ctx = getContext cprint in
      case getIdentifier (named_of ctx nd) of
        Some n \<Rightarrow> seqP [end_list, k n]
      | None \<Rightarrow>
          if isaD ctx FieldDecl nd then
            seqP [guard_tuple [printFieldName print cprint nd, tuple_sep,
                    printClassName_type print cprint (getTypePtrOrNull (getType (named_of ctx nd)))],
                  cons,
                  indirect_chain_loop print cprint rest k]
          else die ''non-field in indirect field chain'')"

definition printIndirectFieldChain :: "CoqPrinter \<Rightarrow> ClangPrinter \<Rightarrow> ptr \<Rightarrow> (string \<Rightarrow> printer) \<Rightarrow> printer" where
  "printIndirectFieldChain print cprint d k =
     seqP [begin_list,
           indirect_chain_loop print cprint (indirect_chain (body_of (getContext cprint) d)) k]"

definition init_lang :: "CoqPrinter \<Rightarrow> printer" where
  "init_lang print = seqP [nbsp, lang print, nbsp]"

definition printInitPath :: "CoqPrinter \<Rightarrow> ClangPrinter \<Rightarrow> ctor_init \<Rightarrow> printer" where
  "printInitPath print cprint init =
     (case init_kind init of
        MemberInitializer \<Rightarrow>
          (case getMember init of
             None \<Rightarrow> stopA (AssertionFailed ''fd && member initializer without member'')
           | Some fd \<Rightarrow> guard_ctor ''@InitField'' False [init_lang print, printFieldName print cprint fd])
      | BaseInitializer \<Rightarrow>
          guard_ctor ''@InitBase'' False
            [init_lang print, printClassName_type print cprint (getBaseClass init)]
      | IndirectMemberInitializer \<Rightarrow>
          (case getIndirectMember init of
             None \<Rightarrow> die ''indirect field initializer without field''
           | Some fd \<Rightarrow>
               guard_ctor ''@InitIndirect'' False
                 [init_lang print,
                  printIndirectFieldChain print cprint fd (\<lambda>n.
                    seqP [nbsp, guard_ctor ''field_name.Id'' False [str n]])])
      | DelegatingInitializer \<Rightarrow> put ''InitThis''
      | OtherInitializer \<Rightarrow> die ''initializer path of unknown type'')"

definition printInitType :: "ClangPrinter \<Rightarrow> ptr \<Rightarrow> ctor_init \<Rightarrow> printer" where
  "printInitType cprint d init =
     (let ctx = getContext cprint in
      case getMember init of
        Some fd \<Rightarrow> printQualType cprint (getType (named_of ctx fd))
      | None \<Rightarrow>
          (case getIndirectMember init of
             Some fd \<Rightarrow> printQualType cprint (getType (named_of ctx fd))
           | None \<Rightarrow>
               (case getBaseClass init of
                  Some ty \<Rightarrow> rec_printType cprint ty
                | None \<Rightarrow>
                    if init_kind init = DelegatingInitializer then
                      (case getThisPointee (body_of ctx d) of
                         Some q \<Rightarrow> printQualType cprint q
                       | None \<Rightarrow> die ''[getThisType] on delegating initializer unexpectedly returned a non-pointer type!'')
                    else die ''initializer not memeber, base class, or indirect'')))"

definition printInitializer :: "CoqPrinter \<Rightarrow> ClangPrinter \<Rightarrow> ctor_init \<Rightarrow> printer" where
  "printInitializer print cprint init =
     (case init_expr init of
        None \<Rightarrow> die ''initializer without expression''
      | Some e \<Rightarrow>
          guard_ctor ''Build_Initializer'' True
            [printInitPath print cprint init, nl, printExpr1 cprint e])"

definition printInitializerList :: "CoqPrinter \<Rightarrow> ClangPrinter \<Rightarrow> ptr \<Rightarrow> printer" where
  "printInitializerList print cprint d =
     plist (inits (body_of (getContext cprint) d)) (\<lambda>init.
       case init of Some i \<Rightarrow> printInitializer print cprint i | None \<Rightarrow> die ''null initializer'')"

definition printConstructor :: "CoqPrinter \<Rightarrow> ClangPrinter \<Rightarrow> ptr \<Rightarrow> printer" where
  "printConstructor print cprint d =
     (let ctx = getContext cprint; B = body_of ctx d in
      guard_ctor ''Build_Ctor'' True
        [printClassName print cprint (getParent (named_of ctx d)), nbsp,
         printFunctionParams cprint d, nbsp,
         printCallingConv_of cprint d, nbsp,
         printVariadic (isVariadic B), nbsp,
         (case getBody B of
            Some body \<Rightarrow>
              guard_some True [guard_ctor ''UserDefined'' True [guard_tuple
                [printInitializerList print cprint d, tuple_sep, rec_printStmt cprint body]]]
          | None \<Rightarrow> none)])"

definition printDestructor_decl :: "CoqPrinter \<Rightarrow> ClangPrinter \<Rightarrow> ptr \<Rightarrow> printer" where
  "printDestructor_decl print cprint d =
     guard_ctor ''Build_Dtor'' True
       [printClassName print cprint (getParent (named_of (getContext cprint) d)), nbsp,
        printCallingConv_of cprint d, nbsp,
        user_body cprint d]"

definition Dfunction :: "CoqPrinter \<Rightarrow> ClangPrinter \<Rightarrow> ptr \<Rightarrow> bprinter" where
  "Dfunction print cprint d = DeclPrinter_print print cprint ''Dfunction'' (printFunction cprint d) None d"

definition Dmethod :: "CoqPrinter \<Rightarrow> ClangPrinter \<Rightarrow> ptr \<Rightarrow> bprinter" where
  "Dmethod print cprint d = DeclPrinter_print print cprint ''Dmethod'' (printMethod print cprint d) None d"

definition Dconstructor :: "CoqPrinter \<Rightarrow> ClangPrinter \<Rightarrow> ptr \<Rightarrow> bprinter" where
  "Dconstructor print cprint d =
     DeclPrinter_print print cprint ''Dconstructor'' (printConstructor print cprint d) None d"

definition Ddestructor :: "CoqPrinter \<Rightarrow> ClangPrinter \<Rightarrow> ptr \<Rightarrow> bprinter" where
  "Ddestructor print cprint d =
     DeclPrinter_print print cprint ''Ddestructor'' (printDestructor_decl print cprint d) None d"

section \<open>Variables and enumerations\<close>

definition printVar :: "ClangPrinter \<Rightarrow> ptr \<Rightarrow> printer" where
  "printVar cprint d =
     (let ctx = getContext cprint; N = named_of ctx d in
      seqP
       [printQualType cprint (getType N), nbsp,
        if hasExternalStorage (decl ctx d) then
          seqP [assertA ''external variable with an initializer'' (getInit N = None), put ''global_init.Extern'']
        else if (case getDeclContext N of Some c \<Rightarrow> isaD ctx FunctionDecl c | None \<Rightarrow> False)
        then put ''global_init.Delayed''
        else case getInit N of
          Some e \<Rightarrow> guard_ctor ''global_init.Init'' True [printExpr1 cprint e]
        | None \<Rightarrow>
            if implicitInstantiation (body_of ctx d) then put ''global_init.ImplicitInit''
            else put ''global_init.NoInit''])"

definition Dvariable :: "CoqPrinter \<Rightarrow> ClangPrinter \<Rightarrow> ptr \<Rightarrow> bprinter" where
  "Dvariable print cprint d = DeclPrinter_print print cprint ''Dvariable'' (printVar cprint d) None d"

definition printEnum :: "ClangPrinter \<Rightarrow> ptr \<Rightarrow> printer" where
  "printEnum cprint d =
     (let ctx = getContext cprint in
      seqP [printQualType cprint (getIntegerType (body_of ctx d)), nbsp,
            plist (enumerators (decl ctx d)) (\<lambda>c. printUnqualifiedName cprint c)])"

fun isBRiCkCharacterType :: "BuiltinKind \<Rightarrow> bool" where
  "isBRiCkCharacterType BT_Char_S = True"
| "isBRiCkCharacterType BT_Char_U = True"
| "isBRiCkCharacterType BT_WChar_S = True"
| "isBRiCkCharacterType BT_WChar_U = True"
| "isBRiCkCharacterType BT_Char16 = True"
| "isBRiCkCharacterType BT_Char8 = True"
| "isBRiCkCharacterType BT_Char32 = True"
| "isBRiCkCharacterType k = False"

unbundle bit_operations_syntax

text \<open>The conversion of an \<open>int64_t\<close> to \<open>uint64_t\<close>, cut down to the bits of the character type.\<close>

definition toBRiCkCharacter :: "nat \<Rightarrow> int \<Rightarrow> 64 word" where
  "toBRiCkCharacter bitsize v = word_of_int v AND (push_bit bitsize 1 - 1)"

datatype UVal = Kint int | Kchar nat int

fun print_uval :: "UVal \<Rightarrow> printer" where
  "print_uval (Kint v) = seqP [put ''(inr '', putZ v, put '')'']"
| "print_uval (Kchar bitsize v) = puts [''(inl '', decimal (unat (toBRiCkCharacter bitsize v)), ''%N)'']"

record EnumConst =
  ec :: ptr
  ed :: ptr
  ut :: QualType
  uv :: UVal

text \<open>An answer is either the message of \<open>fail\<close> or the constant.\<close>

definition crackEnumConst :: "nat \<Rightarrow> ASTContext \<Rightarrow> ptr \<Rightarrow> stop + (string + EnumConst)" where
  "crackEnumConst fuel ctx d =
     (case enum_of ctx d of
        None \<Rightarrow> Inr (Inl ''no enum'')
      | Some e \<Rightarrow>
          (let u = getIntegerType (body_of ctx e) in
           case getTypePtrOrNull u of
             None \<Rightarrow> Inr (Inl ''underlying type not integral'')
           | Some t \<Rightarrow>
               (case getAsBuiltinType (type_of ctx t) of
                  None \<Rightarrow> Inr (Inl ''underlying integral type not a builtin'')
                | Some (k, bits) \<Rightarrow>
                    (case isTemplate fuel ctx e of
                       Inl x \<Rightarrow> Inl x
                     | Inr True \<Rightarrow> Inr (Inl ''dependent scope'')
                     | Inr False \<Rightarrow>
                         (let v = getInitVal (body_of ctx d) in
                          Inr (Inr \<lparr>ec = d, ed = e, ut = u,
                            uv = (if isBRiCkCharacterType k then Kchar bits v else Kint v)\<rparr>))))))"

definition printEnumConst :: "ClangPrinter \<Rightarrow> EnumConst \<Rightarrow> printer" where
  "printEnumConst cprint c =
     seqP [rec_printName cprint (ed c), nbsp,
           printQualType cprint (ut c), nbsp,
           print_uval (uv c), nbsp,
           (case getInitExpr (body_of (getContext cprint) (ec c)) of
              Some e \<Rightarrow> guard_some True [printExpr1 cprint e]
            | None \<Rightarrow> none)]"

definition Denum :: "CoqPrinter \<Rightarrow> ClangPrinter \<Rightarrow> ptr \<Rightarrow> bprinter" where
  "Denum print cprint d = DeclPrinter_print print cprint ''Denum'' (printEnum cprint d) None d"

definition Denum_constant :: "CoqPrinter \<Rightarrow> ClangPrinter \<Rightarrow> EnumConst \<Rightarrow> bprinter" where
  "Denum_constant print cprint c =
     DeclPrinter_print print cprint ''Denum_constant'' (printEnumConst cprint c) None (ec c)"

section \<open>The visitor\<close>

definition decl_VisitTypedefNameDecl :: "CoqPrinter \<Rightarrow> ClangPrinter \<Rightarrow> ptr \<Rightarrow> bprinter" where
  "decl_VisitTypedefNameDecl print cprint d = (if typedefs cprint then Dtypedef print cprint d else nothing)"

definition decl_VisitDecl :: bprinter where
  "decl_VisitDecl = returning (decl_unsupported ''declaration'') False"

definition decl_printType :: "CoqPrinter \<Rightarrow> ClangPrinter \<Rightarrow> bprinter \<Rightarrow> ptr \<Rightarrow> bprinter" where
  "decl_printType print cprint dprinter d =
     (if isCompleteDefinition (class_of (getContext cprint) d) then dprinter else Dtype print cprint d)"

definition VisitUnionDecl :: "CoqPrinter \<Rightarrow> ClangPrinter \<Rightarrow> ptr \<Rightarrow> bprinter" where
  "VisitUnionDecl print cprint d = decl_printType print cprint (Dunion print cprint d) d"

definition VisitStructDecl :: "CoqPrinter \<Rightarrow> ClangPrinter \<Rightarrow> ptr \<Rightarrow> bprinter" where
  "VisitStructDecl print cprint d = decl_printType print cprint (Dstruct print cprint d) d"

definition decl_VisitCXXRecordDecl :: "CoqPrinter \<Rightarrow> ClangPrinter \<Rightarrow> ptr \<Rightarrow> bprinter" where
  "decl_VisitCXXRecordDecl print cprint d =
     (case getTagKind (body_of (getContext cprint) d) of
        TK_Struct \<Rightarrow> VisitStructDecl print cprint d
      | TK_Class \<Rightarrow> VisitStructDecl print cprint d
      | TK_Union \<Rightarrow> VisitUnionDecl print cprint d
      | TK_Interface \<Rightarrow> returning (decl_unsupported ''CXXRecord with tag kind __interface'') False
      | TK_Enum \<Rightarrow> returning (decl_unsupported ''CXXRecord with tag kind enum'') False)"

definition decl_VisitEnumDecl :: "CoqPrinter \<Rightarrow> ClangPrinter \<Rightarrow> ptr \<Rightarrow> bprinter" where
  "decl_VisitEnumDecl print cprint d =
     (let ctx = getContext cprint in
      if getTypePtrOrNull (getIntegerType (body_of ctx d)) = None then
        (if getIdentifier (named_of ctx d) = None
         then returning (decl_unsupported ''anonymous forward declaration'') False
         else Dtype print cprint d)
      else Denum print cprint d)"

definition decl_VisitEnumConstantDecl :: "CoqPrinter \<Rightarrow> ClangPrinter \<Rightarrow> ptr \<Rightarrow> bprinter" where
  "decl_VisitEnumConstantDecl print cprint d =
     with_answerQ (crackEnumConst (loop_fuel cprint) (getContext cprint) d) (\<lambda>r.
       case r of
         Inl msg \<Rightarrow> returning (decl_unsupported (''enumeration constant: '' @ msg)) False
       | Inr c \<Rightarrow> Denum_constant print cprint c)"

definition decl_VisitStaticAssertDecl :: "ClangPrinter \<Rightarrow> ptr \<Rightarrow> bprinter" where
  "decl_VisitStaticAssertDecl cprint d =
     (let B = body_of (getContext cprint) d in
      case getAssertExpr B of
        Some e \<Rightarrow>
          printed (guard_ctor ''Dstatic_assert'' True
            [(case assertMessage B of Some msg \<Rightarrow> guard_some True [str msg] | None \<Rightarrow> none),
             nbsp, printExpr1 cprint e])
      | None \<Rightarrow> returning (decl_unsupported ''static assert without expression'') False)"

definition PrintDecl_methods :: "CoqPrinter \<Rightarrow> ClangPrinter \<Rightarrow> ptr \<Rightarrow> (DeclKind \<times> bprinter) list" where
  "PrintDecl_methods print cprint d =
     [(EmptyDecl, nothing), (FriendDecl, nothing), (IndirectFieldDecl, nothing),
      (LinkageSpecDecl, nothing), (UsingDecl, nothing), (UsingDirectiveDecl, nothing),
      (UsingShadowDecl, nothing),
      (VarDecl, Dvariable print cprint d),
      (FunctionDecl, Dfunction print cprint d),
      (CXXMethodDecl, Dmethod print cprint d),
      (CXXConstructorDecl, Dconstructor print cprint d),
      (CXXDestructorDecl, Ddestructor print cprint d),
      (TypedefNameDecl, decl_VisitTypedefNameDecl print cprint d),
      (CXXRecordDecl, decl_VisitCXXRecordDecl print cprint d),
      (EnumDecl, decl_VisitEnumDecl print cprint d),
      (EnumConstantDecl, decl_VisitEnumConstantDecl print cprint d),
      (StaticAssertDecl, decl_VisitStaticAssertDecl cprint d)]"

definition printDecl :: "CoqPrinter \<Rightarrow> ClangPrinter \<Rightarrow> ptr \<Rightarrow> bprinter" where
  "printDecl print cprint d =
     dispatch (PrintDecl_methods print cprint d) decl_VisitDecl (getKind (decl (getContext cprint) d))"

end
