(* ===== verification/PrintDeclSafety.thy ===== *)
theory PrintDeclSafety
  imports PrintDecl
begin

text \<open>
  The printer of declarations keeps the contract.  Besides what the other printers need, the
  names that are printed as comments have to be balanced: \<open>cmt\<close> does not escape double quotes.
\<close>

definition comments_ok :: "ClangPrinter \<Rightarrow> bool" where
  "comments_ok cprint \<longleftrightarrow>
     (comment cprint \<longrightarrow>
       (\<forall>d t. printNameForDiagnostics (loop_fuel cprint) (getContext cprint) d = Inr t \<longrightarrow> balanced t))"

section \<open>Comments\<close>

lemma lex1_space [simp]: "lex1 q (CHR '' '') = q"
  by (cases q) simp_all

text \<open>The spaces that \<open>cmt\<close> inserts do not change how the text is read.\<close>

lemma lex_cmt_escape [simp]: "lex q (cmt_escape t) = lex q t"
  by (induction t arbitrary: q rule: cmt_escape.induct) simp_all

lemma balanced_cmt_text [simp]: "balanced t \<Longrightarrow> balanced (cmt_text t)"
  using balanced_lex [of t 1] by (simp add: balanced_def cmt_text_def)

lemma steps_cmt: "balanced t \<Longrightarrow> steps i d i d (cmt t)"
  unfolding cmt_put by (rule steps_put) simp

section \<open>Queries\<close>

lemma steps_query_with_answerQ:
  assumes "\<And>x. r = Inl x \<Longrightarrow> \<not> indent_error x" and "\<And>a. r = Inr a \<Longrightarrow> steps_query i d (f a)"
  shows "steps_query i d (with_answerQ r f)"
proof (cases r)
  case (Inl x)
  with assms(1) show ?thesis by (auto simp: with_answerQ_def intro: steps_queryI)
next
  case (Inr a)
  with assms(2) show ?thesis by (simp add: with_answerQ_def)
qed

lemma steps_query_orQ [printer_intros]:
  assumes p: "steps_query i d p" and q: "steps_query i d q"
  shows "steps_query i d (orQ p q)"
  unfolding steps_query_def
proof (intro allI impI)
  fix j e and f :: "bool \<Rightarrow> printer"
  assume f: "\<forall>b. steps i d j e (f b)"
  have "bindQ (orQ p q) f = bindQ p (\<lambda>b. if b then f True else bindQ q f)"
    by (rule ext) (simp add: bindQ_def orQ_def split: sum.split prod.split)
  moreover have "steps i d j e (bindQ q f)" using q f by (simp add: steps_query_def)
  then have "steps i d j e (bindQ p (\<lambda>b. if b then f True else bindQ q f))"
    using f by (intro steps_bindQ [OF p]) simp
  ultimately show "steps i d j e (bindQ (orQ p q) f)" by simp
qed

lemma steps_query_withDeclContextQ [printer_intros]:
  assumes p: "steps_query i d p"
  shows "steps_query i d (withDeclContextQ c p)"
proof (rule steps_queryI)
  show "\<not> indent_error x" if "withDeclContextQ c p s = Inl x" "depth (fmt s) = k + 2 * d" for s x k
    using that steps_queryD_Inl [OF p, of "s\<lparr>declctx := c\<rparr>" x k]
    by (simp add: withDeclContextQ_def split: sum.splits prod.splits)
  show "depth (fmt s') = k + 2 * d \<and> declctx s' = declctx s
      \<and> (\<exists>t. out (fmt s') = out (fmt s) @ t \<and> lex (Code (n + i)) t = Code (n + i))"
    if "withDeclContextQ c p s = Inr (b, s')" "depth (fmt s) = k + 2 * d" for s b s' k n
    using that steps_queryD [OF p, of "s\<lparr>declctx := c\<rparr>" _ _ k n]
    by (auto simp: withDeclContextQ_def split: sum.splits prod.splits)
qed

section \<open>Searches\<close>

lemma getCallingConv_error: "getCallingConv n ctx t = Inl x \<Longrightarrow> \<not> indent_error x"
proof (induction n arbitrary: t)
  case 0
  then show ?case
    by (cases t) (auto simp: getCallingConv.simps(2) [of 0] simp del: getCallingConv.simps(2)
      split: type_node.splits)
next
  case (Suc n)
  then show ?case
    by (cases t) (auto simp: getCallingConv.simps(2) [of "Suc n"] simp del: getCallingConv.simps(2)
      split: type_node.splits)
qed

lemma any_context_error: "any_context n ctx p c = Inl x \<Longrightarrow> \<not> indent_error x"
  by (induction n ctx p c rule: any_context.induct) (auto split: nat.splits if_splits)

lemma isSpecialized_error: "isSpecialized n ctx d = Inl x \<Longrightarrow> \<not> indent_error x"
  by (auto simp: isSpecialized_def split: if_splits dest: any_context_error)

lemma crackEnumConst_error: "crackEnumConst n ctx d = Inl x \<Longrightarrow> \<not> indent_error x"
  by (auto simp: crackEnumConst_def isTemplate_def Let_def dest: any_context_error
      split: option.splits prod.splits sum.splits bool.splits if_splits)

lemma printNameForDiagnostics_error: "printNameForDiagnostics n ctx d = Inl x \<Longrightarrow> \<not> indent_error x"
  by (auto simp: printNameForDiagnostics_def diagnostic_parameters_def dest: collectParameterLists_error
      split: option.splits prod.splits sum.splits)

lemma steps_decl_unsupported [printer_intros]: "steps i d i d (decl_unsupported m)"
  unfolding decl_unsupported_def by (rule steps_diag)

lemma steps_open_paren: "steps i d (Suc i) d (put [LPAR])" "steps (Suc i) d i d (put [RPAR])"
  by (rule steps_put_lex, simp)+

section \<open>The printers\<close>

context safe_printers
begin

lemma steps_printNameComment [printer_intros]:
  "comments_ok cprint \<Longrightarrow> steps i d i d (printNameComment cprint c)"
  unfolding printNameComment_def comments_ok_def
  by (rule printer_intros steps_with_answer steps_cmt | erule printNameForDiagnostics_error
      | (simp; fail))+

lemma steps_printSpecialization [printer_intros]:
  "ok \<Longrightarrow> comments_ok cprint \<Longrightarrow> steps_query i d (printSpecialization print cprint c)"
  unfolding printSpecialization_def Let_def
  by (rule printer_intros steps_query_with_answerQ | erule isSpecialized_error | assumption
      | (simp; fail))+

lemma steps_print_untemplated [printer_intros]:
  assumes ok "comments_ok cprint" "balanced c" "\<And>i d. steps i d i d body"
  shows "steps_query i d (print_untemplated print cprint c body x)"
  unfolding print_untemplated_def Let_def
  by (rule assms printer_intros steps_query_with_answerQ | erule isSpecialized_error | (simp; fail))+

lemma steps_DeclPrinter_print:
  assumes ok "comments_ok cprint" "balanced c" "\<And>i d. steps i d i d body"
  shows "steps_query i d (DeclPrinter_print print cprint c body msg x)"
  unfolding DeclPrinter_print_def
  by (rule assms printer_intros | (simp; fail))+

subsection \<open>Bodies\<close>

lemma steps_decl_small [printer_intros]:
  "steps i d i d (printLayoutInfo li)" "steps i d i d (lang print)" "steps i d i d (init_lang print)"
  "steps i d i d (printTriviallyDestructible cprint c)" "steps i d i d (printLayoutType cprint c)"
  "steps i d i d (printSizeAlign cprint l c)"
  unfolding printLayoutInfo_def init_lang_def lang_def printTriviallyDestructible_def
    printLayoutType_def printSizeAlign_def Let_def
  by (rule printer_intros | (simp; fail))+

lemma steps_printCallingConv_of [printer_intros]: "steps i d i d (printCallingConv_of cprint c)"
  unfolding printCallingConv_of_def
  by (rule printer_intros steps_with_answer | erule getCallingConv_error)+

lemma steps_printClassName [printer_intros]:
  "ok \<Longrightarrow> steps i d i d (printClassName print cprint c)"
  "ok \<Longrightarrow> steps i d i d (printClassName_type print cprint t)"
  unfolding printClassName_type_def printClassName_def by (rule printer_intros | assumption)+

lemma steps_class_parts [printer_intros]:
  assumes ok
  shows "steps i d i d (printFieldInitializer cprint f)"
    "steps i d i d (printStructBases print cprint l c)"
    "steps i d i d (printStructVirtuals cprint c)"
    "steps i d i d (printDeleteName cprint c)"
  unfolding printFieldInitializer_def printStructBases_def printStructVirtuals_def
    printDeleteName_def Let_def
  by (rule assms printer_intros | (simp; fail))+

lemma steps_printFields [printer_intros]:
  assumes ok
  shows "steps i d i d (printFields print cprint l c)"
  unfolding printFields_def Let_def
  by (rule assms printer_intros | (simp; fail))+

lemma steps_printStructOverrides [printer_intros]:
  assumes ok
  shows "steps i d i d (printStructOverrides cprint c)"
  unfolding printStructOverrides_def Let_def
  by (rule assms steps_open_paren | rule printer_intros steps_map)+

lemma steps_record_bodies [printer_intros]:
  assumes ok
  shows "steps i d i d (printStruct print cprint c)" "steps i d i d (printUnion print cprint c)"
  unfolding printStruct_def printUnion_def Let_def
  by (rule assms printer_intros | (simp; fail))+

lemma steps_printBuiltin [printer_intros]: "steps i d i d (printBuiltin cprint c)"
proof -
  have "balanced (''Bin_'' @ x)"
    if "find (\<lambda>x. builtin_function (body_of (getContext cprint) c) = ''__builtin_'' @ x) builtin_suffixes = Some x"
    for x
  proof -
    from that have "x \<in> set builtin_suffixes" by (auto simp: find_Some_iff)
    then show ?thesis by (auto simp: builtin_suffixes_def)
  qed
  then show ?thesis
    unfolding printBuiltin_def Let_def by - (rule printer_intros | assumption | (simp; fail))+
qed

lemma steps_printFunctionParams [printer_intros]:
  "ok \<Longrightarrow> steps i d i d (printFunctionParams cprint c)"
  unfolding printFunctionParams_def Let_def by (rule printer_intros | assumption)+

lemma steps_user_body [printer_intros]: "ok \<Longrightarrow> steps i d i d (user_body cprint c)"
  unfolding user_body_def
  by (rule printer_intros | assumption | (simp; fail) | (simp add: balanced_def; fail))+

lemma steps_indirect_chain_loop:
  assumes ok "\<And>t. steps i d i d (k t)"
  shows "steps (Suc i) (Suc d) i d (indirect_chain_loop print cprint ns k)"
proof (induction ns)
  case Nil
  show ?case by (simp add: steps_die)
next
  case (Cons x ns)
  show ?case
    unfolding indirect_chain_loop.simps Let_def
    by (rule assms Cons printer_intros)+
qed

lemma steps_printInitPath [printer_intros]:
  assumes ok
  shows "steps i d i d (printInitPath print cprint init)"
  unfolding printInitPath_def printIndirectFieldChain_def
  by (rule assms printer_intros steps_indirect_chain_loop | (simp; fail)
      | split InitKind.split, intro conjI impI)+

lemma steps_printInitType [printer_intros]:
  assumes ok
  shows "steps i d i d (printInitType cprint c init)"
  unfolding printInitType_def Let_def by (rule assms printer_intros)+

lemma steps_printInitializerList [printer_intros]:
  "ok \<Longrightarrow> steps i d i d (printInitializerList print cprint c)"
  unfolding printInitializerList_def printInitializer_def
  by (rule printer_intros | assumption | (simp; fail))+

lemma steps_function_bodies [printer_intros]:
  assumes ok
  shows "steps i d i d (printFunction cprint c)" "steps i d i d (printMethod print cprint c)"
    "steps i d i d (printConstructor print cprint c)" "steps i d i d (printDestructor_decl print cprint c)"
  unfolding printFunction_def printMethod_def printConstructor_def printDestructor_decl_def Let_def
  by (rule assms printer_intros | (simp; fail))+

lemma steps_print_uval [printer_intros]: "steps i d i d (print_uval v)"
proof (cases v)
  case (Kint x)
  show ?thesis
    unfolding Kint print_uval.simps
    by (rule printer_intros(1) steps_Cons steps_put_lex [of i "''(inr ''" "Suc i"] steps_putZ
          steps_put_lex [of "Suc i" "'')''" i] steps_Nil | (simp; fail))+
next
  case (Kchar b x)
  show ?thesis
    unfolding Kchar print_uval.simps by (rule printer_intros | (simp; fail) | (simp add: balanced_def lex_plain; fail))+
qed

lemma steps_variable_bodies [printer_intros]:
  assumes ok
  shows "steps i d i d (printTypedef cprint c)" "steps i d i d (printVar cprint c)"
    "steps i d i d (printEnum cprint c)" "steps i d i d (printEnumConst cprint ecst)"
  unfolding printTypedef_def printVar_def printEnum_def printEnumConst_def Let_def
  by (rule assms printer_intros | (simp; fail))+

lemmas decl_printers =
  Dtype_def Dtypedef_def Dstruct_def Dunion_def Dfunction_def Dmethod_def Dconstructor_def
  Ddestructor_def Dvariable_def Denum_def Denum_constant_def

lemma steps_decl_printers [printer_intros]:
  assumes ok "comments_ok cprint"
  shows "steps_query i d (Dtype print cprint c)" "steps_query i d (Dtypedef print cprint c)"
    "steps_query i d (Dstruct print cprint c)" "steps_query i d (Dunion print cprint c)"
    "steps_query i d (Dfunction print cprint c)" "steps_query i d (Dmethod print cprint c)"
    "steps_query i d (Dconstructor print cprint c)" "steps_query i d (Ddestructor print cprint c)"
    "steps_query i d (Dvariable print cprint c)" "steps_query i d (Denum print cprint c)"
    "steps_query i d (Denum_constant print cprint ecst)"
  unfolding decl_printers
  by (rule steps_DeclPrinter_print assms printer_intros | (simp; fail))+

lemma steps_decl_visits [printer_intros]:
  assumes ok "comments_ok cprint"
  shows "steps_query i d (decl_VisitTypedefNameDecl print cprint c)"
    "steps_query i d (decl_VisitCXXRecordDecl print cprint c)"
    "steps_query i d (decl_VisitEnumDecl print cprint c)"
    "steps_query i d (decl_VisitEnumConstantDecl print cprint c)"
    "steps_query i d (decl_VisitStaticAssertDecl cprint c)"
    "steps_query i d decl_VisitDecl"
  unfolding decl_VisitTypedefNameDecl_def decl_VisitCXXRecordDecl_def VisitStructDecl_def VisitUnionDecl_def
    decl_printType_def decl_VisitEnumDecl_def decl_VisitEnumConstantDecl_def
    decl_VisitStaticAssertDecl_def decl_VisitDecl_def Let_def
  by (rule assms printer_intros steps_query_with_answerQ | erule crackEnumConst_error
      | split TagKind.split sum.split, intro conjI allI impI | (simp; fail))+

lemma steps_printDecl:
  assumes ok "comments_ok cprint"
  shows "steps_query i d (printDecl print cprint c)"
  unfolding printDecl_def
proof (rule steps_query_dispatch)
  show "steps_query i d decl_VisitDecl" using assms by (rule steps_decl_visits)
  show "steps_query i d m" if "(k, m) \<in> set (PrintDecl_methods print cprint c)" for k m
    using that assms
    by (auto simp: PrintDecl_methods_def intro!: steps_decl_printers steps_decl_visits
        steps_query_returning steps_skip)
qed

end

end
