(* ===== verification/Printers.thy ===== *)
theory Printers
  imports PrintDeclSafety
begin

text \<open>
  The printers of types, names, expressions, statements and declarations put together.  In the C++
  code they are members of one class and call each other; here the table of methods is filled
  level by level, and a call that goes deeper than the number of levels stops with
  \<open>OutOfFuel\<close>.  \<open>config\<close> holds the fields of the object that are no methods.
\<close>

primrec mk_cprint :: "nat \<Rightarrow> CoqPrinter \<Rightarrow> ClangPrinter \<Rightarrow> ClangPrinter" where
  "mk_cprint 0 print config =
     config\<lparr>rec_printType := (\<lambda>t. stopA OutOfFuel), rec_printExpr := (\<lambda>e. stopA OutOfFuel),
       rec_printStmt := (\<lambda>s. stopA OutOfFuel), rec_printLocalDecl := (\<lambda>d s. Inl OutOfFuel),
       rec_printName := (\<lambda>d. stopA OutOfFuel),
       rec_printUnresolvedName := (\<lambda>nn n args. stopA OutOfFuel),
       rec_printTemplateArgumentList := (\<lambda>args. stopA OutOfFuel),
       rec_printValueDeclExpr := (\<lambda>d. stopA OutOfFuel)\<rparr>"
| "mk_cprint (Suc n) print config =
     (let cprint = mk_cprint n print config in
      config\<lparr>rec_printType := printType print cprint, rec_printExpr := printExpr print cprint,
        rec_printStmt := printStmt cprint, rec_printLocalDecl := printLocalDecl cprint,
        rec_printName := (\<lambda>d. printName print cprint d True),
        rec_printUnresolvedName := printUnresolvedName cprint,
        rec_printTemplateArgumentList := printTemplateArgumentList cprint,
        rec_printValueDeclExpr := printValueDeclExpr cprint\<rparr>)"

lemma mk_cprint_fields [simp]:
  "getContext (mk_cprint n print config) = getContext config"
  "comment (mk_cprint n print config) = comment config"
  "typedefs (mk_cprint n print config) = typedefs config"
  "loop_fuel (mk_cprint n print config) = loop_fuel config"
  "big_endian (mk_cprint n print config) = big_endian config"
  by (cases n; simp add: Let_def)+

lemma mk_cprint_methods [simp]:
  "rec_printType (mk_cprint (Suc n) print config) = printType print (mk_cprint n print config)"
  "rec_printExpr (mk_cprint (Suc n) print config) = printExpr print (mk_cprint n print config)"
  "rec_printStmt (mk_cprint (Suc n) print config) = printStmt (mk_cprint n print config)"
  "rec_printLocalDecl (mk_cprint (Suc n) print config) = printLocalDecl (mk_cprint n print config)"
  "rec_printName (mk_cprint (Suc n) print config) d = printName print (mk_cprint n print config) d True"
  "rec_printUnresolvedName (mk_cprint (Suc n) print config) = printUnresolvedName (mk_cprint n print config)"
  "rec_printTemplateArgumentList (mk_cprint (Suc n) print config)
     = printTemplateArgumentList (mk_cprint n print config)"
  "rec_printValueDeclExpr (mk_cprint (Suc n) print config) = printValueDeclExpr (mk_cprint n print config)"
  by (simp_all add: Let_def)

declare mk_cprint.simps [simp del]

lemma comments_ok_mk_cprint [simp]: "comments_ok (mk_cprint n print config) = comments_ok config"
  by (simp add: comments_ok_def)

lemma methods_safe_mk_cprint:
  assumes "printable (getContext config)"
  shows "methods_safe (mk_cprint n print config)"
proof (induction n)
  case 0
  have "steps_query i k (\<lambda>s. Inl OutOfFuel)" for i k by (rule steps_queryI) auto
  then show ?case by (simp add: methods_safe_def steps_fuel mk_cprint.simps)
next
  case (Suc n)
  let ?c = "mk_cprint n print config"
  have loc: "safe_printers ?c" by (rule safe_printers.intro) (rule Suc)
  have ok: "printable (getContext ?c)" using assms by simp
  show ?case
    unfolding methods_safe_def mk_cprint.simps Let_def
    by (simp add: safe_printers.steps_printType [OF loc ok] safe_printers.steps_printExpr [OF loc ok]
        safe_printers.steps_printStmt [OF loc ok] safe_printers.steps_printName [OF loc ok]
        safe_printers.steps_printLocalDecl [OF loc ok] safe_printers.steps_printUnresolvedName [OF loc ok]
        safe_printers.steps_printTemplateArgumentList [OF loc ok]
        safe_printers.steps_printValueDeclExpr [OF loc ok])
qed

interpretation printers: safe_printers print "mk_cprint n print config" for n print config
  by (rule safe_printers.intro) (simp add: methods_safe_mk_cprint)

end
