(* ===== verification/PrinterExamples.thy ===== *)
theory PrinterExamples
  imports Printers
begin

text \<open>
  A small AST on which the witnesses run the printers.  The lemmas compile the calls of the
  printers on it into actions of \<open>CoqPrinter\<close>, which are then evaluated.
\<close>

text \<open>A translation unit (0) with the global variable \<open>x\<close> of type \<open>int\<close> (1), and the constant 7 (0).\<close>

definition example_ast :: ASTContext where
  "example_ast = ast0\<lparr>
     decl := (\<lambda>d. (decl0 d)\<lparr>getKind := (if d = 0 then TranslationUnitDecl else VarDecl), isDeclContext := (d = 0)\<rparr>),
     named_of := (\<lambda>d. named0\<lparr>getIdentifier := (if d = 1 then Some ''x'' else None),
                             getDeclContext := (if d = 0 then None else Some 0),
                             getInit := (if d = 1 then Some 0 else None)\<rparr>),
     naming_of := (\<lambda>d. naming0\<lparr>getContextParent := (if d = 0 then None else Some 0)\<rparr>),
     expr_of := (\<lambda>e. expr0\<lparr>expr_node := IntegerLiteral 7 32\<rparr>)\<rparr>"

definition config0 :: "ASTContext \<Rightarrow> ClangPrinter" where
  "config0 ctx = \<lparr>getContext = ctx, comment = False, typedefs = False, loop_fuel = 4, big_endian = False,
     rec_printType = (\<lambda>t. skip), rec_printExpr = (\<lambda>e. skip), rec_printStmt = (\<lambda>s. skip),
     rec_printLocalDecl = (\<lambda>d. returning skip False), rec_printName = (\<lambda>d. skip),
     rec_printUnresolvedName = (\<lambda>nn n args. skip), rec_printTemplateArgumentList = (\<lambda>args. skip),
     rec_printValueDeclExpr = (\<lambda>d. skip)\<rparr>"

definition printer0 :: CoqPrinter where
  "printer0 = \<lparr>templates = False, structured_keys = False, name_cache = Cache_init\<rparr>"

section \<open>Compiling the calls\<close>

lemma config0_simps [simp]:
  "getContext (config0 c) = c" "comment (config0 c) = False" "typedefs (config0 c) = False"
  "loop_fuel (config0 c) = 4" "big_endian (config0 c) = False"
  by (simp_all add: config0_def)

lemma printer0_simps [simp]:
  "templates printer0 = False" "structured_keys printer0 = False"
  "reference_name printer0 d = None" "reference_type printer0 t = None"
  by (simp_all add: printer0_def reference_name_def reference_type_def Cache_init_def nc_reference_def
      nc_lookup_def NameCache_init_def)

lemma qual0_simps [simp]:
  "getTypePtrOrNull (qual0 t) = Some t" "isLocalConstQualified (qual0 t) = False"
  "isLocalVolatileQualified (qual0 t) = False"
  by (simp_all add: qual0_def)

lemma example_tables:
  "decl example_ast = (\<lambda>d. (decl0 d)\<lparr>getKind := (if d = 0 then TranslationUnitDecl else VarDecl),
                                     isDeclContext := (d = 0)\<rparr>)"
  "named_of example_ast = (\<lambda>d. named0\<lparr>getIdentifier := (if d = 1 then Some ''x'' else None),
                                     getDeclContext := (if d = 0 then None else Some 0),
                                     getInit := (if d = 1 then Some 0 else None)\<rparr>)"
  "naming_of example_ast = (\<lambda>d. naming0\<lparr>getContextParent := (if d = 0 then None else Some 0)\<rparr>)"
  "expr_of example_ast = (\<lambda>e. expr0\<lparr>expr_node := IntegerLiteral 7 32\<rparr>)"
  "body_of example_ast = (\<lambda>e. body0)" "type_of example_ast = (\<lambda>e. type0)"
  by (simp_all add: example_ast_def ast0_def)

lemma example_kinds:
  "ancestors VarDecl = [VarDecl, DeclaratorDecl, ValueDecl, NamedDecl, Decl]"
  "ancestors TranslationUnitDecl = [TranslationUnitDecl, Decl]"
  by code_simp+

lemma example_context: "ancestor_loop n example_ast 0 = Inr 0"
  by (subst ancestor_loop.simps) (simp add: isIgnorableContext_def classifyContext_def example_tables)

lemmas example_defs =
  example_tables decl0_def named0_def naming0_def type0_def expr0_def example_kinds isa_def
  example_context getName_def

lemma example_name:
  "printName printer0 (mk_cprint n printer0 (config0 example_ast)) (Suc 0) True =
     withDeclContext (Some 0) (guard_ctor ''Nglobal'' False [guard_ctor ''Nid'' False [str ''x'']])"
  by (simp add: printName_def withDecl_def withDeclContext_def [abs_def] structured_printName_def
      printName_path_def getNonIgnorableAncestor_def with_answer_def printAtomicName_def
      atomic_by_content_def atomic_by_kind_def described_template_def recoverSpecialization_def
      ident_or_anon_def Nid_def isNamed_def isTranslationUnit_def example_defs)

lemma example_type:
  "printType printer0 (mk_cprint n printer0 (config0 example_ast)) 0 =
     depth_checked (AssertionFailed depth_assertion) (put ''Tint'')"
  by (simp add: printType_def PrintType_Visit_def VisitBuiltinType_def example_defs)

lemma example_literal:
  "printExpr printer0 (mk_cprint (Suc n) printer0 (config0 example_ast)) 0 =
     depth_checked (AssertionFailed expr_depth_assertion)
       (seqP [ctor ''Eint'' False, puts [decimal_int 7, ''%Z''], nbsp,
              depth_checked (AssertionFailed depth_assertion) (put ''Tint''), end_ctor])"
  by (simp add: printExpr_def PrintExpr_Visit.simps VisitIntegerLiteral_def done_expr_def wants_def
      expr_ty_def printQualType_def seqA_assoc example_type example_defs)

lemma example_variable:
  "printDecl printer0 (mk_cprint (Suc (Suc (Suc 0))) printer0 (config0 example_ast)) 1 =
     orQ (printed (guard_ctor ''Dvariable'' True
           [skip, nbsp,
            withDeclContext (Some 0) (guard_ctor ''Nglobal'' False [guard_ctor ''Nid'' False [str ''x'']]),
            nbsp,
            seqP [depth_checked (AssertionFailed depth_assertion) (put ''Tint''), nbsp,
                  guard_ctor ''global_init.Init'' True
                    [with_fresh_names (depth_checked (AssertionFailed expr_depth_assertion)
                       (seqP [ctor ''Eint'' False, puts [decimal_int 7, ''%Z''], nbsp,
                              depth_checked (AssertionFailed depth_assertion) (put ''Tint''), end_ctor]))]]]))
         nothing"
  by (simp del: seqP.simps
      add: printDecl_def PrintDecl_methods_def dispatch_def Dvariable_def DeclPrinter_print_def
        print_untemplated_def printNameComment_def printNameAsKey_def printVar_def printQualType_def
        printExpr1_def printSpecialization_def example_name example_type example_literal example_defs)

lemma printable_example: "printable (getContext (config0 example_ast))"
  by (simp add: printable_def config0_def example_ast_def ast0_def named0_def naming0_def type0_def
      expr0_def quote_free_def printable_expr_def)

lemma comments_ok_config0: "comments_ok (config0 ctx)"
  by (simp add: comments_ok_def config0_def)

end
