(* ===== verification/PrinterProps.thy ===== *)
theory PrinterProps
  imports PrinterExamples
begin

text \<open>
  What the printers guarantee when they are put together: the text of a declaration or an expression
  is balanced, with every string literal closed, and the indentation is back where it was.
\<close>

section \<open>Balanced output\<close>

text \<open>
  C11. For an AST that \<open>printable\<close> admits (no double quotes in identifiers and the other texts that clang supplies, no
  parentheses in the names of operators, casts and builtins, no atomic builtin that is not in clang's list, no unary type
  trait that is not supported) and, with \<open>--comment\<close>, balanced diagnostic names (\<open>comments_ok\<close>): whichever declaration it
  is asked to print, \<open>printDecl\<close> does not fail an assertion about indentation, and if it returns, it has appended a
  text whose parentheses match and whose string literals are closed, and has left the indentation and the declaration
  context as they were.
\<close>

theorem printDecl_balanced:
  assumes "printable (getContext config)" and "comments_ok config"
  shows "case printDecl print (mk_cprint n print config) d s of
      Inl x \<Rightarrow> \<not> indent_error x
    | Inr (b, s') \<Rightarrow> depth (fmt s') = depth (fmt s) \<and> declctx s' = declctx s
        \<and> (\<exists>t. out (fmt s') = out (fmt s) @ t \<and> balanced t)"
proof -
  have q: "steps_query 0 0 (printDecl print (mk_cprint n print config) d)"
    using assms by (intro printers.steps_printDecl) simp_all
  show ?thesis
  proof (cases "printDecl print (mk_cprint n print config) d s")
    case (Inl x)
    with steps_queryD_Inl [OF q Inl, of "depth (fmt s)"] show ?thesis by simp
  next
    case (Inr r)
    with steps_queryD [OF q, of s "fst r" "snd r" "depth (fmt s)" 0] show ?thesis
      by (auto simp: balanced_def split: prod.split)
  qed
qed

theorem printDecl_balanced_witness:
  "\<exists>s'. printDecl printer0 (mk_cprint 3 printer0 (config0 example_ast)) 1 pstate_init = Inr (True, s')
     \<and> out (fmt s') = NL # ''(Dvariable (Nglobal (Nid '' @ [DQ] @ ''x'' @ [DQ] @ '')) Tint'' @ [NL]
         @ ''  (global_init.Init (Eint 7%Z Tint)))''
     \<and> balanced (out (fmt s'))"
  (is "\<exists>s'. ?p = _ \<and> out (fmt s') = ?t \<and> _")
proof -
  have "(case ?p of Inl x \<Rightarrow> False | Inr (b, s') \<Rightarrow> b \<and> out (fmt s') = ?t)"
    unfolding numeral_3_eq_3 example_variable by code_simp
  then obtain s' where "?p = Inr (True, s')" "out (fmt s') = ?t" by (auto split: sum.splits)
  moreover from this(1) have "balanced (out (fmt s'))"
    using printDecl_balanced [OF printable_example comments_ok_config0, where print = printer0
        and n = 3 and d = 1 and s = pstate_init]
    by (simp add: pstate_init_def Formatter_init_def)
  ultimately show ?thesis by blast
qed

text \<open>
  C16. The same for a statement and for an expression, printed by any number of levels of the printers.
\<close>

theorem printStmt_printExpr_balanced:
  assumes "printable (getContext config)" and "p = printStmt (mk_cprint n print config) i \<or> p = printExpr print (mk_cprint n print config) i"
  shows "case p s of
      Inl x \<Rightarrow> \<not> indent_error x
    | Inr s' \<Rightarrow> depth (fmt s') = depth (fmt s) \<and> declctx s' = declctx s
        \<and> (\<exists>t. out (fmt s') = out (fmt s) @ t \<and> balanced t)"
proof -
  have "steps 0 0 0 0 p"
    using assms(2) printers.steps_printStmt [where config = config and n = n]
      printers.steps_printExpr [where config = config and n = n] assms(1) by auto
  from stepsD [OF this, of s _ "depth (fmt s)" 0] stepsD_Inl [OF this, of s _ "depth (fmt s)"] show ?thesis
    by (auto simp: balanced_def split: sum.split)
qed

theorem printStmt_printExpr_balanced_witness:
  "\<exists>s'. printExpr printer0 (mk_cprint 2 printer0 (config0 example_ast)) 0 pstate_init = Inr s'
     \<and> out (fmt s') = ''(Eint 7%Z Tint)'' \<and> balanced (out (fmt s'))"
proof -
  let ?p = "printExpr printer0 (mk_cprint 2 printer0 (config0 example_ast)) 0"
  have "case ?p pstate_init of Inl x \<Rightarrow> False | Inr s' \<Rightarrow> out (fmt s') = ''(Eint 7%Z Tint)''"
    unfolding numeral_2_eq_2 example_literal by code_simp
  then obtain s' where s': "?p pstate_init = Inr s'" "out (fmt s') = ''(Eint 7%Z Tint)''"
    by (auto split: sum.splits)
  from printStmt_printExpr_balanced [OF printable_example, where p = ?p and n = 2 and i = 0
        and print = printer0 and s = pstate_init] s'
  show ?thesis by (simp add: pstate_init_def Formatter_init_def)
qed

end
