(* ===== verification/QualifiedNames.thy ===== *)
theory QualifiedNames
  imports PrinterExamples
begin

text \<open>
  The structured names of declarations inside named scopes: what \<open>printName\<close> writes for them, with
  enough levels for their depth, and that different paths of names are written differently.
\<close>

section \<open>Constructors on one line\<close>

lemma guard_ctor_put:
  "guard_ctor c False [put t] = put ([LPAR] @ c @ '' '' @ t @ [RPAR])"
  "guard_ctor c False [put t, nbsp, put u] = put ([LPAR] @ c @ '' '' @ t @ '' '' @ u @ [RPAR])"
  by (rule ext, simp add: guard_ctor_def ctor_def end_ctor_def run_defs action_defs formatter_defs
      frparen_def foutdent_def Let_def)+

lemma withDeclContext_put [simp]: "withDeclContext c (put t) = put t"
  by (rule ext) (simp add: withDeclContext_def put_def fmtA_def)

lemma withDecl_put [simp]: "withDecl ctx d (put t) = put t"
  by (simp add: withDecl_def)

section \<open>Atomic names\<close>

definition scope_kinds :: "DeclKind set" where
  "scope_kinds = {NamespaceDecl, RecordDecl, CXXRecordDecl, EnumDecl}"

definition member_kinds :: "DeclKind set" where
  "member_kinds = scope_kinds \<union> {FieldDecl, VarDecl, TypedefDecl, TypeAliasDecl, EnumConstantDecl}"

lemma kinds_isa:
  "isa TagDecl NamespaceDecl = False" "isa RecordDecl NamespaceDecl = False" "isa EnumDecl NamespaceDecl = False"
  "isa NamespaceDecl NamespaceDecl = True" "isa TagDecl RecordDecl = True" "isa TagDecl CXXRecordDecl = True"
  "isa TagDecl EnumDecl = True"
  by code_simp+

lemma fields_isa:
  "isa TagDecl FieldDecl = False" "isa RecordDecl FieldDecl = False" "isa EnumDecl FieldDecl = False"
  "isa NamespaceDecl FieldDecl = False" "isa TagDecl VarDecl = False" "isa RecordDecl VarDecl = False"
  "isa EnumDecl VarDecl = False" "isa NamespaceDecl VarDecl = False" "isa TagDecl TypedefDecl = False"
  "isa RecordDecl TypedefDecl = False" "isa EnumDecl TypedefDecl = False" "isa NamespaceDecl TypedefDecl = False"
  "isa TagDecl TypeAliasDecl = False" "isa RecordDecl TypeAliasDecl = False" "isa EnumDecl TypeAliasDecl = False"
  "isa NamespaceDecl TypeAliasDecl = False" "isa TagDecl EnumConstantDecl = False"
  "isa RecordDecl EnumConstantDecl = False" "isa EnumDecl EnumConstantDecl = False"
  "isa NamespaceDecl EnumConstantDecl = False"
  by code_simp+

lemma printAtomicName_named:
  assumes "getKind (decl (getContext cprint) d) \<in> member_kinds" and "isNamed (getContext cprint) d"
  shows "printAtomicName cprint c d = Nid (getContext cprint) d"
  using assms
  by (auto simp: member_kinds_def scope_kinds_def printAtomicName_def atomic_by_content_def atomic_by_kind_def
      ident_def ident_or_anon_def kinds_isa fields_isa)

section \<open>Paths of names\<close>

text \<open>
  A declaration with the named scopes around it, innermost first, up to the translation unit.  None of
  them is in the cache of names, a template or a specialization.
\<close>

definition plain_decl :: "CoqPrinter \<Rightarrow> ASTContext \<Rightarrow> ptr \<Rightarrow> bool" where
  "plain_decl print ctx d \<longleftrightarrow>
     isaD ctx NamedDecl d \<and> isNamed ctx d \<and> getKind (decl ctx d) \<in> member_kinds
     \<and> reference_name print d = None \<and> described_template ctx d = None \<and> recoverSpecialization ctx d = None"

inductive scoped :: "CoqPrinter \<Rightarrow> ASTContext \<Rightarrow> ptr list \<Rightarrow> bool" for print ctx where
  global: "plain_decl print ctx d \<Longrightarrow> getDeclContext (named_of ctx d) = Some tu
    \<Longrightarrow> isTranslationUnit ctx tu \<Longrightarrow> scoped print ctx [d]"
| member: "plain_decl print ctx d \<Longrightarrow> getDeclContext (named_of ctx d) = Some c
    \<Longrightarrow> getKind (decl ctx c) \<in> scope_kinds \<Longrightarrow> scoped print ctx (c # cs) \<Longrightarrow> scoped print ctx (d # c # cs)"

fun path_text :: "string list \<Rightarrow> string" where
  "path_text [] = []"
| "path_text [n] = ''(Nglobal (Nid '' @ str_text n @ ''))''"
| "path_text (n # m # ns) = ''(Nscoped '' @ path_text (m # ns) @ '' (Nid '' @ str_text n @ ''))''"

lemma scope_context:
  "getKind (decl ctx c) \<in> scope_kinds \<Longrightarrow> ancestor_loop n ctx c = Inr c \<and> \<not> isTranslationUnit ctx c"
  by (subst ancestor_loop.simps)
    (auto simp: isIgnorableContext_def classifyContext_def isTranslationUnit_def scope_kinds_def)

lemma global_context: "isTranslationUnit ctx c \<Longrightarrow> ancestor_loop n ctx c = Inr c"
  by (subst ancestor_loop.simps)
    (simp add: isIgnorableContext_def classifyContext_def isTranslationUnit_def)

lemma printName_plain:
  "plain_decl print (getContext cprint) d \<Longrightarrow>
   printName print cprint d True = withDecl (getContext cprint) d (printName_path cprint d)"
  by (simp add: printName_def structured_printName_def plain_decl_def)

lemma printName_scoped:
  assumes "scoped print (getContext config) ds" and "length ds \<le> Suc n"
  shows "printName print (mk_cprint n print config) (hd ds) True
    = put (path_text (map (getName (getContext config)) ds))"
  using assms
proof (induction arbitrary: n rule: scoped.induct)
  case (global d tu)
  then have "printAtomicName (mk_cprint n print config) tu d = Nid (getContext config) d"
    by (intro printAtomicName_named [of "mk_cprint n print config" d tu, simplified])
      (simp_all add: plain_decl_def)
  with global show ?case
    by (simp add: printName_plain printName_path_def getNonIgnorableAncestor_def global_context
        with_answer_def Nid_def str_put guard_ctor_put)
next
  case (member d c cs)
  obtain m where n: "n = Suc m" using member.prems by (cases n) auto
  have "printAtomicName (mk_cprint n print config) c d = Nid (getContext config) d"
    using member.hyps
    by (intro printAtomicName_named [of "mk_cprint n print config" d c, simplified])
      (simp_all add: plain_decl_def)
  moreover have "printName print (mk_cprint m print config) c True
      = put (path_text (map (getName (getContext config)) (c # cs)))"
    using member.IH [of m] member.prems n by simp
  ultimately show ?case
    using member.hyps n
    by (simp add: printName_plain printName_path_def getNonIgnorableAncestor_def scope_context
        with_answer_def Nid_def str_put guard_ctor_put)
qed

section \<open>Different paths are written differently\<close>

lemma escape_append: "escape (t @ u) = escape t @ escape u"
  by (simp flip: escape_concat)

lemma rev_escape: "rev (escape t) = escape (rev t)"
  by (induction t) (simp_all add: escape_append)

lemma read_literal_then: "read_literal (escape t @ DQ # CHR '' '' # r) = Some (t, CHR '' '' # r)"
proof (induction t)
  case (Cons c t)
  obtain d r' where "escape t @ DQ # CHR '' '' # r = d # r'"
    by (cases "escape t @ DQ # CHR '' '' # r") auto
  with Cons show ?case by simp
qed simp

lemma literal_suffix_inject:
  assumes "u @ CHR '' '' # str_text n @ w = v @ CHR '' '' # str_text m @ w"
  shows "u = v \<and> n = m"
proof -
  from assms have "rev (u @ CHR '' '' # str_text n) = rev (v @ CHR '' '' # str_text m)" by simp
  then have e: "escape (rev n) @ DQ # CHR '' '' # rev u = escape (rev m) @ DQ # CHR '' '' # rev v"
    by (simp add: str_text_def rev_escape)
  then have "Some (rev n, CHR '' '' # rev u) = Some (rev m, CHR '' '' # rev v)"
    by (metis read_literal_then)
  then show ?thesis by simp
qed

lemma path_text_snoc:
  "path_text (n # ns) =
     (if ns = [] then ''(Nglobal (Nid'' else ''(Nscoped '' @ path_text ns @ '' (Nid'')
     @ CHR '' '' # str_text n @ ''))''"
  by (cases ns) simp_all

lemma path_text_inject: "ns \<noteq> [] \<Longrightarrow> ms \<noteq> [] \<Longrightarrow> path_text ns = path_text ms \<Longrightarrow> ns = ms"
proof (induction ns arbitrary: ms)
  case (Cons n ns)
  from Cons.prems obtain m ms' where ms: "ms = m # ms'" by (cases ms) auto
  let ?p = "\<lambda>ns. if ns = [] then ''(Nglobal (Nid'' else ''(Nscoped '' @ path_text ns @ '' (Nid''"
  from Cons.prems(3) have "?p ns = ?p ms' \<and> n = m"
    unfolding ms path_text_snoc by (rule literal_suffix_inject)
  then show ?case using Cons.IH [of ms'] ms by (auto split: if_splits)
qed simp

text \<open>
  With as many levels as there are scopes, \<open>printName\<close> writes a declaration inside named scopes as the
  path of its names, from the translation unit inwards; so the names of two declarations with different
  paths are different texts.
\<close>

theorem printName_path_text:
  assumes "scoped print (getContext config) (d # ds)" and "length ds \<le> n"
  shows "printName print (mk_cprint n print config) d True
      = put (path_text (map (getName (getContext config)) (d # ds)))
    \<and> (\<forall>ns. ns \<noteq> [] \<longrightarrow> ns \<noteq> map (getName (getContext config)) (d # ds)
         \<longrightarrow> path_text ns \<noteq> path_text (map (getName (getContext config)) (d # ds)))"
  using printName_scoped [OF assms(1), of n] assms(2) path_text_inject by fastforce

text \<open>The variable \<open>v\<close> (2) of the namespace \<open>a\<close> (1).\<close>

definition example_namespace :: ASTContext where
  "example_namespace = ast0\<lparr>
     decl := (\<lambda>d. (decl0 d)\<lparr>getKind := (if d = 0 then TranslationUnitDecl else if d = 1 then NamespaceDecl
                                  else VarDecl), isDeclContext := d \<le> 1\<rparr>),
     named_of := (\<lambda>d. named0\<lparr>getIdentifier := (if d = 1 then Some ''a'' else if d = 2 then Some ''v'' else None),
                             getDeclContext := (if d = 0 then None else Some (d - 1))\<rparr>)\<rparr>"

theorem printName_path_text_witness:
  "printName printer0 (mk_cprint 1 printer0 (config0 example_namespace)) 2 True
   = put (''(Nscoped (Nglobal (Nid '' @ [DQ] @ ''a'' @ [DQ] @ '')) (Nid '' @ [DQ] @ ''v'' @ [DQ] @ ''))'')"
proof -
  have k: "isaD example_namespace NamedDecl 1" "isaD example_namespace NamedDecl 2"
    "isNamed example_namespace 1" "isNamed example_namespace 2"
    "described_template example_namespace 1 = None" "described_template example_namespace 2 = None"
    "recoverSpecialization example_namespace 1 = None" "recoverSpecialization example_namespace 2 = None"
    "isTranslationUnit example_namespace 0" by code_simp+
  have f: "getKind (decl example_namespace 1) = NamespaceDecl" "getKind (decl example_namespace 2) = VarDecl"
    "getDeclContext (named_of example_namespace 1) = Some 0" "getDeclContext (named_of example_namespace 2) = Some 1"
    "getName example_namespace 1 = ''a''" "getName example_namespace 2 = ''v''"
    by (simp_all add: example_namespace_def getName_def)
  have p: "plain_decl printer0 example_namespace 1" "plain_decl printer0 example_namespace 2"
    using k by (simp_all add: plain_decl_def member_kinds_def scope_kinds_def f del: One_nat_def)
  have "scoped printer0 example_namespace [2, 1]"
    by (rule scoped.member [OF p(2) f(4) _ scoped.global [OF p(1) f(3) k(9)]])
      (simp add: f scope_kinds_def del: One_nat_def)
  with printName_path_text [of printer0 "config0 example_namespace" 2 "[1]" 1] show ?thesis
    by (simp add: f str_text_def del: One_nat_def)
qed

end
