(* ===== verification/CoqTokens.thy ===== *)
theory CoqTokens
  imports QualifiedNames
begin

text \<open>
  The tokens of Coq text, read without regard to white space, and a contract for printers that are sure to return and write
  given tokens.  The layout, such as the line breaks and the indentation of the formatter, does not matter to it.
\<close>

section \<open>Tokens\<close>

datatype token = LP | RP | Word string | Lit string

text \<open>
  The reader is between tokens, in a word, in a string literal, or behind a quote in a literal, which is the end of the
  literal unless another quote follows.
\<close>

datatype mode = Between | InWord string | InLit string | Quote string

definition white :: "char \<Rightarrow> bool" where
  "white c \<longleftrightarrow> c = CHR '' '' \<or> c = NL"

fun ended :: "mode \<Rightarrow> token list" where
  "ended Between = []"
| "ended (InWord w) = [Word w]"
| "ended (InLit w) = [Lit w]"
| "ended (Quote w) = [Lit w]"

text \<open>Parentheses and commas are tokens of their own.\<close>

definition start :: "char \<Rightarrow> token list \<times> mode" where
  "start c = (if c = LPAR then ([LP], Between) else if c = RPAR then ([RP], Between)
              else if c = CHR '','' then ([Word '',''], Between)
              else if c = DQ then ([], InLit []) else if white c then ([], Between) else ([], InWord [c]))"

definition inner :: "char \<Rightarrow> bool" where
  "inner c \<longleftrightarrow> c \<noteq> LPAR \<and> c \<noteq> RPAR \<and> c \<noteq> CHR '','' \<and> c \<noteq> DQ \<and> \<not> white c"

fun tstep :: "token list \<times> mode \<Rightarrow> char \<Rightarrow> token list \<times> mode" where
  "tstep (ts, InLit w) c = (if c = DQ then (ts, Quote w) else (ts, InLit (w @ [c])))"
| "tstep (ts, Quote w) c =
     (if c = DQ then (ts, InLit (w @ [DQ])) else (ts @ Lit w # fst (start c), snd (start c)))"
| "tstep (ts, InWord w) c =
     (if inner c then (ts, InWord (w @ [c])) else (ts @ Word w # fst (start c), snd (start c)))"
| "tstep (ts, Between) c = (ts @ fst (start c), snd (start c))"

definition tscan :: "token list \<times> mode \<Rightarrow> string \<Rightarrow> token list \<times> mode" where
  "tscan = foldl tstep"

definition finish :: "token list \<times> mode \<Rightarrow> token list" where
  "finish q = fst q @ ended (snd q)"

definition tokens :: "string \<Rightarrow> token list" where
  "tokens t = finish (tscan ([], Between) t)"

lemma tscan_simps [simp]:
  "tscan q [] = q" "tscan q (c # t) = tscan (tstep q c) t" "tscan q (t @ u) = tscan (tscan q t) u"
  by (simp_all add: tscan_def)

lemma tstep_shift: "tstep (ts @ us, m) c = (ts @ fst (tstep (us, m) c), snd (tstep (us, m) c))"
  by (cases m) simp_all

lemma tscan_shift: "tscan (ts @ us, m) t = (ts @ fst (tscan (us, m) t), snd (tscan (us, m) t))"
proof (induction t arbitrary: us m)
  case (Cons c t)
  have "tscan (ts @ us, m) (c # t) = tscan (ts @ fst (tstep (us, m) c), snd (tstep (us, m) c)) t"
    by (simp add: tstep_shift)
  also have "\<dots> = (ts @ fst (tscan (tstep (us, m) c) t), snd (tscan (tstep (us, m) c) t))"
    using Cons by simp
  finally show ?case by simp
qed simp

lemma tscan_between: "tscan (ts, Between) t = (ts @ fst (tscan ([], Between) t), snd (tscan ([], Between) t))"
  using tscan_shift [of ts "[]" Between t] by simp

text \<open>Outside literals white space ends the current token.\<close>

definition outside :: "token list \<times> mode \<Rightarrow> bool" where
  "outside q \<longleftrightarrow> (\<forall>w. snd q \<noteq> InLit w)"

lemma tstep_white: "outside q \<Longrightarrow> white c \<Longrightarrow> tstep q c = (finish q, Between)"
  by (cases q, cases "snd q") (auto simp: outside_def finish_def start_def white_def inner_def)

lemma tstep_paren:
  "outside q \<Longrightarrow> tstep q LPAR = (finish q @ [LP], Between)" "outside q \<Longrightarrow> tstep q RPAR = (finish q @ [RP], Between)"
  by (cases q, cases "snd q", auto simp: outside_def finish_def start_def white_def inner_def)+

lemma finish_between [simp]: "finish (ts, Between) = ts" "outside (ts, Between)"
  by (simp_all add: finish_def outside_def)

lemma tscan_whites: "outside q \<Longrightarrow> \<forall>c \<in> set t. white c \<Longrightarrow> t \<noteq> [] \<Longrightarrow> tscan q t = (finish q, Between)"
proof (induction t arbitrary: q)
  case (Cons c t)
  then show ?case by (cases "t = []") (auto simp: tstep_white)
qed simp

lemma finish_whites: "outside q \<Longrightarrow> \<forall>c \<in> set t. white c \<Longrightarrow> finish (tscan q t) = finish q \<and> outside (tscan q t)"
  using tscan_whites [of q t] by (cases "t = []") auto

section \<open>The state of the reader behind a printer\<close>

definition reader :: "formatter \<Rightarrow> token list \<times> mode" where
  "reader f = tscan ([], Between) (out f)"

text \<open>What has been read, with the white space that is pending.\<close>

definition ahead :: "formatter \<Rightarrow> token list \<times> mode" where
  "ahead f = tscan (reader f) (pending f)"

lemma white_pending: "\<forall>c \<in> set (pending f). white c"
  by (auto simp: pending_def white_def)

lemma ahead_reader: "outside (reader f) \<Longrightarrow> finish (ahead f) = finish (reader f) \<and> outside (ahead f)"
  unfolding ahead_def using finish_whites [OF _ white_pending] by blast

text \<open>The reader is outside literals and, if \<open>r\<close>, between two tokens when the next text is written.\<close>

definition placed :: "bool \<Rightarrow> formatter \<Rightarrow> bool" where
  "placed r f \<longleftrightarrow> outside (reader f) \<and> (r \<longrightarrow> snd (ahead f) = Between)"

text \<open>Behind \<open>f\<close> the text of \<open>g\<close> has the tokens \<open>ts\<close>.\<close>

definition wrote :: "token list \<Rightarrow> formatter \<Rightarrow> formatter \<Rightarrow> bool" where
  "wrote ts f g \<longleftrightarrow> finish (reader g) = finish (reader f) @ ts \<and> (\<exists>u. out g = out f @ u)"

lemma wrote_trans: "wrote ts f g \<Longrightarrow> wrote us g h \<Longrightarrow> wrote (ts @ us) f h"
  by (auto simp: wrote_def)

lemma placed_reader: "placed r f \<Longrightarrow> r \<Longrightarrow> ahead f = (finish (reader f), Between)"
  using ahead_reader [of f] by (cases "ahead f") (simp add: placed_def finish_def)

text \<open>Formatters with the same text and nothing or something pending.\<close>

lemma placed_read:
  assumes "reader g = (finish (reader f) @ ts, Between)" and "\<exists>u. out g = out f @ u"
  shows "placed r g \<and> wrote ts f g"
proof
  have "ahead g = reader g"
    using tscan_whites [OF _ white_pending [of g], of "reader g"] assms(1) by (cases "pending g = []") (simp_all add: ahead_def)
  then show "placed r g" by (simp add: placed_def assms(1))
  show "wrote ts f g" using assms(2) by (simp add: wrote_def assms(1))
qed

text \<open>
  \<open>emits Q r i p ts r' j\<close>: from a state whose table of opaque names and context satisfy \<open>Q\<close>, outside literals, with \<open>i\<close> levels
  of indentation of its own and, if \<open>r\<close>, between two tokens, \<open>p\<close> returns, having written the tokens \<open>ts\<close>; then there are
  \<open>j\<close> levels and, if \<open>r'\<close>, it is between two tokens, and the context and the table of names are as before.
\<close>

type_synonym setting = "OpaqueNames \<Rightarrow> ptr option \<Rightarrow> bool"

definition emits :: "setting \<Rightarrow> bool \<Rightarrow> nat \<Rightarrow> printer \<Rightarrow> token list \<Rightarrow> bool \<Rightarrow> nat \<Rightarrow> bool" where
  "emits Q r i p ts r' j \<longleftrightarrow>
     (\<forall>s k. Q (names s) (declctx s) \<longrightarrow> placed r (fmt s) \<longrightarrow> depth (fmt s) = k + 2 * i \<longrightarrow>
        (\<exists>s'. p s = Inr s' \<and> placed r' (fmt s') \<and> wrote ts (fmt s) (fmt s') \<and> depth (fmt s') = k + 2 * j
           \<and> declctx s' = declctx s \<and> names s' = names s))"

lemma emitsI:
  assumes "\<And>s k. Q (names s) (declctx s) \<Longrightarrow> placed r (fmt s) \<Longrightarrow> depth (fmt s) = k + 2 * i \<Longrightarrow>
      \<exists>s'. p s = Inr s' \<and> placed r' (fmt s') \<and> wrote ts (fmt s) (fmt s') \<and> depth (fmt s') = k + 2 * j
        \<and> declctx s' = declctx s \<and> names s' = names s"
  shows "emits Q r i p ts r' j"
  using assms by (auto simp: emits_def)

lemma emitsD:
  assumes "emits Q r i p ts r' j" and "Q (names s) (declctx s)" and "placed r (fmt s)" and "depth (fmt s) = k + 2 * i"
  obtains s' where "p s = Inr s'" "placed r' (fmt s')" "wrote ts (fmt s) (fmt s')" "depth (fmt s') = k + 2 * j"
    "declctx s' = declctx s" "names s' = names s"
  using assms unfolding emits_def by blast

named_theorems emits_intros \<open>printers with given tokens\<close>

lemma emits_eq: "emits Q r i p ts r' j \<Longrightarrow> ts = us \<Longrightarrow> emits Q r i p us r' j"
  by simp

lemma placed_weaken: "placed r f \<Longrightarrow> (q \<Longrightarrow> r) \<Longrightarrow> placed q f"
  by (auto simp: placed_def)

lemma emits_weaken: "emits Q r i p ts r' j \<Longrightarrow> (q' \<Longrightarrow> r') \<Longrightarrow> (r \<Longrightarrow> q) \<Longrightarrow> emits Q q i p ts q' j"
proof (rule emitsI)
  fix s :: pstate and k
  assume p: "emits Q r i p ts r' j" "q' \<Longrightarrow> r'" "r \<Longrightarrow> q" and s: "Q (names s) (declctx s)" "placed q (fmt s)" "depth (fmt s) = k + 2 * i"
  have "placed r (fmt s)" using s(2) p(3) by (rule placed_weaken)
  from emitsD [OF p(1) s(1) this s(3)] obtain s' where
    s': "p s = Inr s'" "placed r' (fmt s')" "wrote ts (fmt s) (fmt s')" "depth (fmt s') = k + 2 * j"
      "declctx s' = declctx s" "names s' = names s" by blast
  have "placed q' (fmt s')" using s'(2) p(2) by (rule placed_weaken)
  with s' show "\<exists>s'. p s = Inr s' \<and> placed q' (fmt s') \<and> wrote ts (fmt s) (fmt s') \<and> depth (fmt s') = k + 2 * j
      \<and> declctx s' = declctx s \<and> names s' = names s" by blast
qed

lemma emits_after: "emits Q r i p ts r' j \<Longrightarrow> emits Q r i p ts False j"
  by (erule emits_weaken) auto

lemma emits_before: "emits Q False i p ts r' j \<Longrightarrow> emits Q r i p ts r' j"
  by (erule emits_weaken) auto

lemma emits_skip [emits_intros]: "emits Q r i skip [] r i"
  by (rule emitsI) (auto simp: skip_def wrote_def)

lemma emits_seqA:
  assumes p: "emits Q r i p ts r' j" and q: "emits Q r' j q us r'' l"
  shows "emits Q r i (seqA p q) (ts @ us) r'' l"
proof (rule emitsI)
  fix s :: pstate and k
  assume s: "Q (names s) (declctx s)" "placed r (fmt s)" "depth (fmt s) = k + 2 * i"
  from emitsD [OF p s] obtain s1 where
    1: "p s = Inr s1" "placed r' (fmt s1)" "wrote ts (fmt s) (fmt s1)" "depth (fmt s1) = k + 2 * j"
      "declctx s1 = declctx s" "names s1 = names s" by blast
  with s(1) have "Q (names s1) (declctx s1)" by simp
  from emitsD [OF q this 1(2,4)] obtain s2 where
    2: "q s1 = Inr s2" "placed r'' (fmt s2)" "wrote us (fmt s1) (fmt s2)" "depth (fmt s2) = k + 2 * l"
      "declctx s2 = declctx s1" "names s2 = names s1" by blast
  from 1 2 show "\<exists>s'. seqA p q s = Inr s' \<and> placed r'' (fmt s') \<and> wrote (ts @ us) (fmt s) (fmt s')
      \<and> depth (fmt s') = k + 2 * l \<and> declctx s' = declctx s \<and> names s' = names s"
    by (auto simp: seqA_def intro: wrote_trans)
qed

lemma emits_Nil [emits_intros]: "emits Q r i (seqP []) [] r i"
  by (simp add: emits_skip)

lemma emits_Cons [emits_intros]:
  "emits Q r i p ts r' j \<Longrightarrow> emits Q r' j (seqP ps) us r'' l \<Longrightarrow> emits Q r i (seqP (p # ps)) (ts @ us) r'' l"
  by (simp add: emits_seqA)

section \<open>Actions of the formatter\<close>

lemma emits_fmtA:
  assumes "\<And>f. placed r f \<Longrightarrow> placed r' (g f) \<and> wrote ts f (g f)" and "\<And>f. depth (g f) = depth f + d"
    and "2 * j = 2 * i + d"
  shows "emits Q r i (fmtA g) ts r' j"
  by (rule emitsI) (use assms in \<open>auto simp: fmtA_def\<close>)

lemma reader_insert: "reader (insert_text t f) = tscan (ahead f) t"
  by (simp add: reader_def ahead_def)

lemma emits_put_at:
  assumes "\<And>f. placed r f \<Longrightarrow> tscan (ahead f) t = (finish (reader f) @ us, m)"
    and "\<forall>w. m \<noteq> InLit w" and "ts = us @ ended m" and "r' \<Longrightarrow> m = Between"
  shows "emits Q r i (put t) ts r' i"
  unfolding put_def
proof (rule emits_fmtA [where d = 0])
  fix f assume "placed r f"
  then have r: "reader (insert_text t f) = (finish (reader f) @ us, m)" by (simp add: reader_insert assms(1))
  then have "finish (reader (insert_text t f)) = finish (reader f) @ ts" by (simp add: finish_def assms(3))
  with r assms(2,4) show "placed r' (insert_text t f) \<and> wrote ts f (insert_text t f)"
    by (auto simp: placed_def wrote_def outside_def ahead_def)
qed simp_all

lemma emits_put:
  assumes "tscan ([], Between) t = (us, m)" and "\<forall>w. m \<noteq> InLit w" and "ts = us @ ended m" and "r' \<Longrightarrow> m = Between"
  shows "emits Q True i (put t) ts r' i"
proof (rule emits_put_at [OF _ assms(2-4)])
  fix f assume "placed True f"
  from placed_reader [OF this] show "tscan (ahead f) t = (finish (reader f) @ us, m)"
    using tscan_between [of "finish (reader f)" t] assms(1) by simp
qed

text \<open>A text that starts with a parenthesis needs no space before it.\<close>

lemma emits_put_paren:
  assumes "tscan ([], Between) t = (us, m)" and "\<forall>w. m \<noteq> InLit w" and "ts = us @ ended m" and "r' \<Longrightarrow> m = Between"
    and "t = LPAR # t'"
  shows "emits Q r i (put t) ts r' i"
proof (rule emits_put_at [OF _ assms(2-4)])
  fix f assume "placed r f"
  then have "outside (reader f)" by (simp add: placed_def)
  then have "tstep (ahead f) LPAR = (finish (reader f) @ [LP], Between)"
    using ahead_reader [of f] tstep_paren(1) by simp
  then show "tscan (ahead f) t = (finish (reader f) @ us, m)"
    using assms(1) tscan_shift [of "finish (reader f)" "[LP]" Between t'] by (simp add: assms(5) start_def)
qed

lemma emits_nbsp [emits_intros]: "emits Q r i nbsp [] True i"
  unfolding nbsp_def
proof (rule emits_fmtA [where d = 0])
  fix f assume "placed r f"
  moreover have "pending (fnbsp f) \<noteq> []" by (simp add: pending_def)
  ultimately show "placed True (fnbsp f) \<and> wrote [] f (fnbsp f)"
    using tscan_whites [OF _ white_pending [of "fnbsp f"], of "reader f"]
    by (simp add: placed_def wrote_def ahead_def reader_def)
qed simp_all

lemma emits_nl [emits_intros]: "emits Q r i nl [] True i"
  unfolding nl_def
proof (rule emits_fmtA [where d = 0])
  fix f assume "placed r f"
  then have "reader (fline f) = (finish (reader f), Between)"
    using tstep_white [of "reader f" NL] by (simp add: placed_def reader_def white_def)
  then show "placed True (fline f) \<and> wrote [] f (fline f)" by (intro placed_read) simp_all
qed simp_all

lemma emits_lparen [emits_intros]: "emits Q r i lparen [LP] True (Suc i)"
  unfolding lparen_def
proof (rule emits_fmtA [where d = 2])
  fix f assume "placed r f"
  moreover have "reader (flparen f) = tstep (ahead f) LPAR" by (simp add: flparen_def reader_def ahead_def)
  ultimately have "reader (flparen f) = (finish (reader f) @ [LP], Between)"
    using ahead_reader [of f] tstep_paren(1) by (simp add: placed_def)
  then show "placed True (flparen f) \<and> wrote [LP] f (flparen f)" by (rule placed_read) (simp add: flparen_def)
qed (simp_all add: flparen_def)

lemma emits_rparen [emits_intros]: "emits Q r (Suc i) rparen [RP] True i"
proof (rule emitsI)
  fix s :: pstate and k
  assume s: "placed r (fmt s)" "depth (fmt s) = k + 2 * Suc i"
  let ?f = "(fmt s)\<lparr>depth := depth (fmt s) - 2\<rparr>"
  let ?g = "raw [RPAR] (nobreak (clear_spaces ?f))"
  have g: "frparen (fmt s) = Inr ?g" using s(2) by (simp add: frparen_def foutdent_def)
  have "outside (tscan (reader (fmt s)) (pending (clear_spaces ?f)))
      \<and> finish (tscan (reader (fmt s)) (pending (clear_spaces ?f))) = finish (reader (fmt s))"
    using s(1) finish_whites [OF _ white_pending] by (simp add: placed_def)
  moreover have "reader ?g = tstep (tscan (reader (fmt s)) (pending (clear_spaces ?f))) RPAR"
    by (simp add: reader_def)
  ultimately have "reader ?g = (finish (reader (fmt s)) @ [RP], Between)" using tstep_paren(2) by simp
  then have "placed True ?g \<and> wrote [RP] (fmt s) ?g" by (rule placed_read) simp
  with g s show "\<exists>s'. rparen s = Inr s' \<and> placed True (fmt s') \<and> wrote [RP] (fmt s) (fmt s')
      \<and> depth (fmt s') = k + 2 * i \<and> declctx s' = declctx s \<and> names s' = names s"
    by (simp add: rparen_def fmtE_def)
qed

lemma emits_comma [emits_intros]: "emits Q r i (put '','') [Word '',''] True i"
proof (rule emits_put_at)
  fix f assume "placed r f"
  then have "outside (ahead f)" "finish (ahead f) = finish (reader f)" using ahead_reader [of f] by (simp_all add: placed_def)
  then show "tscan (ahead f) '','' = (finish (reader f) @ [Word '',''], Between)"
    by (cases "ahead f", cases "snd (ahead f)") (auto simp: outside_def finish_def start_def inner_def)
qed simp_all

lemma emits_diag [emits_intros]: "emits Q r i (diag lv m) [] r i"
  by (rule emitsI) (simp add: diag_def wrote_def)

section \<open>Words, constructors and lists\<close>

definition word :: "string \<Rightarrow> bool" where
  "word w \<longleftrightarrow> w \<noteq> [] \<and> (\<forall>c \<in> set w. inner c)"

lemma tscan_word_rest: "\<forall>c \<in> set w. inner c \<Longrightarrow> tscan (ts, InWord v) w = (ts, InWord (v @ w))"
  by (induction w arbitrary: v) auto

lemma tscan_word: "word w \<Longrightarrow> tscan (ts, Between) w = (ts, InWord w)"
  by (cases w) (auto simp: word_def start_def inner_def tscan_word_rest)

lemma emits_word: "word w \<Longrightarrow> emits Q True i (put w) [Word w] False i"
  by (rule emits_put [OF tscan_word]) simp_all

lemma emits_ctor: "word c \<Longrightarrow> emits Q r i (ctor c line) [LP, Word c] True (Suc i)"
proof -
  assume c: "word c"
  have "emits Q r i (if line then nl else skip) [] False i"
    using emits_after [OF emits_nl] emits_after [OF emits_skip] by simp
  then show ?thesis
    unfolding ctor_def
    by (rule emits_eq [OF emits_Cons [OF _ emits_Cons [OF emits_lparen emits_Cons [OF emits_word [OF c]
            emits_Cons [OF emits_nbsp emits_Nil]]]]]) simp
qed

lemma emits_end_ctor [emits_intros]: "emits Q r (Suc i) end_ctor [RP] True i"
  unfolding end_ctor_def by (rule emits_rparen)

lemma word_simp: "word (c # w) \<longleftrightarrow> inner c \<and> (w = [] \<or> word w)"
  by (auto simp: word_def)

lemmas word_simps = word_simp inner_def white_def

lemma emits_cons_sep: "emits Q r i cons_sep [Word ''::''] True i"
proof -
  have e: "cons_sep = seqP [nbsp, put ''::'', nbsp]"
    by (rule ext) (simp add: cons_sep_def nbsp_def put_def fmtA_def fcons_def run_defs)
  show ?thesis
    unfolding e
    by (rule emits_eq [OF emits_Cons [OF emits_nbsp emits_Cons [OF emits_word emits_Cons [OF emits_nbsp emits_Nil]]]])
      (simp_all add: word_simps)
qed

lemma emits_cons [emits_intros]: "emits Q r i cons [Word ''::''] True i"
  unfolding cons_def by (rule emits_cons_sep)

lemma emits_begin_list [emits_intros]: "emits Q r i begin_list [LP] True (Suc i)"
  unfolding begin_list_def by (rule emits_lparen)

lemma emits_end_list [emits_intros]: "emits Q True (Suc i) end_list [Word ''nil'', RP] True i"
  unfolding end_list_def
  by (rule emits_eq [OF emits_Cons [OF emits_word emits_Cons [OF emits_rparen emits_Nil]]]) (simp_all add: word_simps)

section \<open>Contexts\<close>

text \<open>Checking the depth, and a context or a table of names of its own, change nothing.\<close>

lemma emits_depth_checked [emits_intros]: "emits Q r i p ts r' i \<Longrightarrow> emits Q r i (depth_checked x p) ts r' i"
  by (rule emitsI) (fastforce simp: depth_checked_def elim: emitsD)

lemma emits_withDeclContext:
  assumes p: "emits Q r i p ts r' j" and q: "\<And>N c'. Q' N c' \<Longrightarrow> Q N c"
  shows "emits Q' r i (withDeclContext c p) ts r' j"
proof (rule emitsI)
  fix s :: pstate and k
  assume s: "Q' (names s) (declctx s)" "placed r (fmt s)" "depth (fmt s) = k + 2 * i"
  from emitsD [OF p, of "s\<lparr>declctx := c\<rparr>"] s q show "\<exists>s'. withDeclContext c p s = Inr s' \<and> placed r' (fmt s')
      \<and> wrote ts (fmt s) (fmt s') \<and> depth (fmt s') = k + 2 * j \<and> declctx s' = declctx s \<and> names s' = names s"
    by (fastforce simp: withDeclContext_def)
qed

lemma emits_fresh_names:
  assumes p: "emits Q r i p ts r' j" and q: "\<And>N c. Q' N c \<Longrightarrow> Q OpaqueNames_init c"
  shows "emits Q' r i (with_fresh_names p) ts r' j"
proof (rule emitsI)
  fix s :: pstate and k
  assume s: "Q' (names s) (declctx s)" "placed r (fmt s)" "depth (fmt s) = k + 2 * i"
  from emitsD [OF p, of "s\<lparr>names := OpaqueNames_init\<rparr>"] s q show "\<exists>s'. with_fresh_names p s = Inr s' \<and> placed r' (fmt s')
      \<and> wrote ts (fmt s) (fmt s') \<and> depth (fmt s') = k + 2 * j \<and> declctx s' = declctx s \<and> names s' = names s"
    by (fastforce simp: with_fresh_names_def)
qed

lemma emits_asking:
  assumes "\<And>s. Q (names s) (declctx s) \<Longrightarrow> P (g s)" and "\<And>x. P x \<Longrightarrow> emits Q r i (f x) ts r' j"
  shows "emits Q r i (asking g f) ts r' j"
  using assms unfolding emits_def asking_def by blast

lemma emits_assert: "b \<Longrightarrow> emits Q r i (assertA m b) [] r i"
  by (simp add: assertA_def emits_skip)

end
