(* ===== verification/CoqTerms.thy ===== *)
theory CoqTerms
  imports CoqTokens
begin

text \<open>
  Terms of Coq as applications of constructors, the tokens that spell them, a reader for them, and what it means that a
  printer writes given terms.  A list of Coq is the sequence of its elements with \<open>::\<close> behind each, and \<open>nil\<close>.
\<close>

section \<open>Terms and their reader\<close>

datatype cterm = Sym string | Str string | Par "cterm list"

abbreviation app :: "string \<Rightarrow> cterm list \<Rightarrow> cterm" where
  "app c ts \<equiv> Par (Sym c # ts)"

primrec term_tokens :: "cterm \<Rightarrow> token list" where
  "term_tokens (Sym w) = [Word w]"
| "term_tokens (Str x) = [Lit x]"
| "term_tokens (Par ts) = LP # concat (map term_tokens ts) @ [RP]"

definition terms_tokens :: "cterm list \<Rightarrow> token list" where
  "terms_tokens ts = concat (map term_tokens ts)"

lemma terms_tokens_simps [simp]:
  "terms_tokens [] = []" "terms_tokens (t # ts) = term_tokens t @ terms_tokens ts"
  "terms_tokens (ts @ us) = terms_tokens ts @ terms_tokens us"
  by (simp_all add: terms_tokens_def)

text \<open>The terms read so far, in reverse, and those before each parenthesis that is open.\<close>

fun build :: "token list \<Rightarrow> cterm list \<Rightarrow> cterm list list \<Rightarrow> cterm list option" where
  "build [] cur [] = Some (rev cur)"
| "build [] cur (us # st) = None"
| "build (LP # ts) cur st = build ts [] (cur # st)"
| "build (RP # ts) cur (us # st) = build ts (Par (rev cur) # us) st"
| "build (RP # ts) cur [] = None"
| "build (Word w # ts) cur st = build ts (Sym w # cur) st"
| "build (Lit x # ts) cur st = build ts (Str x # cur) st"

lemma build_term: "build (term_tokens t @ r) cur st = build r (t # cur) st"
proof (induction t arbitrary: r cur st)
  case (Par ts)
  have "build (concat (map term_tokens us) @ r') cur' st' = build r' (rev us @ cur') st'"
    if "set us \<subseteq> set ts" for us r' cur' st'
    using that Par.IH by (induction us arbitrary: cur') simp_all
  from this [of ts] show ?case by simp
qed simp_all

lemma build_terms: "build (terms_tokens ts @ r) cur st = build r (rev ts @ cur) st"
  by (induction ts arbitrary: cur) (simp_all add: build_term)

definition parse_terms :: "string \<Rightarrow> cterm list option" where
  "parse_terms t = build (tokens t) [] []"

lemma parse_terms_tokens: "tokens t = terms_tokens ts \<Longrightarrow> parse_terms t = Some ts"
  using build_terms [of ts "[]" "[]" "[]"] by (simp add: parse_terms_def)

lemma terms_tokens_inject: "terms_tokens ts = terms_tokens us \<Longrightarrow> ts = us"
  using build_terms [of ts "[]" "[]" "[]"] build_terms [of us "[]" "[]" "[]"] by simp

section \<open>Printers of terms\<close>

text \<open>A term in parentheses needs no space around it.\<close>

definition par :: "cterm \<Rightarrow> bool" where
  "par t \<longleftrightarrow> (case t of Par ts \<Rightarrow> True | _ \<Rightarrow> False)"

definition writes :: "setting \<Rightarrow> printer \<Rightarrow> cterm list \<Rightarrow> bool" where
  "writes Q p ts \<longleftrightarrow>
     (\<forall>i. emits Q (ts = [] \<or> \<not> par (hd ts)) i p (terms_tokens ts) (ts \<noteq> [] \<and> par (last ts)) i)"

lemma emits_writes: "writes Q p ts \<Longrightarrow> emits Q True i p (terms_tokens ts) False i"
  unfolding writes_def by (drule spec [of _ i]) (erule emits_weaken; simp)

lemma emits_writes_par: "writes Q p [Par ts] \<Longrightarrow> emits Q r i p (terms_tokens [Par ts]) True i"
  unfolding writes_def by (drule spec [of _ i]) (erule emits_weaken; simp add: par_def)

lemma writes_par: "(\<And>i. emits Q False i p us True i) \<Longrightarrow> us = term_tokens (Par ts) \<Longrightarrow> writes Q p [Par ts]"
  by (simp add: writes_def par_def)

lemma writes_plain: "(\<And>i. emits Q True i p us r i) \<Longrightarrow> us = term_tokens t \<Longrightarrow> \<not> par t \<Longrightarrow> writes Q p [t]"
  by (auto simp: writes_def intro: emits_after)

lemma writes_sym: "word w \<Longrightarrow> writes Q (put w) [Sym w]"
  by (rule writes_plain [OF emits_word]) (simp_all add: par_def)

lemma tscan_escape: "tscan (ts, InLit v) (escape n) = (ts, InLit (v @ n))"
  by (induction n arbitrary: v) simp_all

lemma tscan_str: "tscan (ts, Between) (str_text n) = (ts, Quote n)"
  by (simp add: str_text_def start_def tscan_escape)

lemma emits_str: "emits Q True i (str x) [Lit x] False i"
  unfolding str_put by (rule emits_put [OF tscan_str]) simp_all

lemma writes_str: "writes Q (str x) [Str x]"
  by (rule writes_plain [OF emits_str]) (simp_all add: par_def)

lemma writes_weaken: "writes Q p ts \<Longrightarrow> (\<And>N c. Q' N c \<Longrightarrow> Q N c) \<Longrightarrow> writes Q' p ts"
  unfolding writes_def emits_def by blast

lemma writes_fresh_names: "writes Q p ts \<Longrightarrow> (\<And>N c. Q' N c \<Longrightarrow> Q OpaqueNames_init c) \<Longrightarrow> writes Q' (with_fresh_names p) ts"
  unfolding writes_def by (auto intro: emits_fresh_names)

lemma writes_depth_checked: "writes Q p ts \<Longrightarrow> writes Q (depth_checked x p) ts"
  by (simp add: writes_def emits_depth_checked)

lemma writes_withDeclContext:
  "writes Q p ts \<Longrightarrow> (\<And>N c'. Q' N c' \<Longrightarrow> Q N c) \<Longrightarrow> writes Q' (withDeclContext c p) ts"
  unfolding writes_def by (auto intro: emits_withDeclContext)

text \<open>\<open>list\<close> and the lists that are written without a test for emptiness.\<close>

definition elements :: "cterm list list \<Rightarrow> cterm list" where
  "elements tss = concat (map (\<lambda>ts. ts @ [Sym ''::'']) tss) @ [Sym ''nil'']"

definition list_term :: "cterm list \<Rightarrow> cterm" where
  "list_term ts = (if ts = [] then Sym ''nil'' else Par (elements (map (\<lambda>t. [t]) ts)))"

lemma emits_elements:
  "list_all2 (\<lambda>x ts. writes Q (fn x) ts) xs tss \<Longrightarrow>
   emits Q True i (seqP (map (\<lambda>x. seqA (fn x) cons) xs)) (terms_tokens (concat (map (\<lambda>ts. ts @ [Sym ''::'']) tss))) True i"
proof (induction xs tss rule: list_all2_induct)
  case (Cons x xs ts tss)
  have "emits Q True i (seqA (fn x) cons) (terms_tokens ts @ [Word ''::'']) True i"
    by (rule emits_seqA [OF emits_writes [OF Cons.hyps(1)] emits_cons])
  from emits_Cons [OF this Cons.IH] show ?case by (simp del: seqP.simps)
qed (simp add: emits_skip)

lemma writes_elements:
  assumes "list_all2 (\<lambda>x ts. writes Q (fn x) ts) xs tss"
  shows "writes Q (seqP [begin_list, seqP (map (\<lambda>x. seqA (fn x) cons) xs), end_list]) [Par (elements tss)]"
  by (rule writes_par,
      rule emits_Cons [OF emits_begin_list emits_Cons [OF emits_elements [OF assms] emits_Cons [OF emits_end_list emits_Nil]]])
    (simp add: elements_def comp_def terms_tokens_def)

lemma writes_plist:
  assumes "list_all2 (\<lambda>x t. writes Q (fn x) [t]) xs ts"
  shows "writes Q (plist xs fn) [list_term ts]"
proof (cases "xs = []")
  case True
  with assms have "ts = []" by simp
  with True writes_sym [of "''nil''"] show ?thesis
    by (simp add: plist_def list_range_def list_term_def word_simps)
next
  case False
  with assms have "ts \<noteq> []" by auto
  have "list_all2 (\<lambda>x ts. writes Q (fn x) ts) xs (map (\<lambda>t. [t]) ts)"
    using assms by (simp add: list_all2_conv_all_nth)
  from writes_elements [OF this] show ?thesis
    using False \<open>ts \<noteq> []\<close> by (simp add: plist_def list_range_def list_term_def)
qed

section \<open>Enough levels\<close>

text \<open>A property of all tables of methods from some level on.\<close>

abbreviation deep :: "(nat \<Rightarrow> bool) \<Rightarrow> bool" where
  "deep P \<equiv> eventually P sequentially"

lemma deep_Suc: "deep P \<Longrightarrow> (\<And>n. P n \<Longrightarrow> R (Suc n)) \<Longrightarrow> deep R"
  by (subst eventually_sequentially_Suc [symmetric]) (erule eventually_mono, blast)

lemma deep_list: "list_all2 (\<lambda>x t. deep (\<lambda>n. P n x t)) xs ts \<Longrightarrow> deep (\<lambda>n. list_all2 (P n) xs ts)"
  by (induction xs ts rule: list_all2_induct) (simp_all add: eventually_conj)

lemma deep_cong: "deep P \<Longrightarrow> (\<And>n. P n \<Longrightarrow> R n) \<Longrightarrow> deep R"
  by (rule eventually_mono)

text \<open>What the printer has written behind the text that there was.\<close>

lemma writes_parse:
  assumes "writes Q p ts" and "Q (names s) (declctx s)" and "snd (reader (fmt s)) = Between"
  shows "\<exists>s' u. p s = Inr s' \<and> out (fmt s') = out (fmt s) @ u \<and> parse_terms u = Some ts"
proof -
  obtain rs where r: "reader (fmt s) = (rs, Between)" using assms(3) by (cases "reader (fmt s)") simp
  then have "placed True (fmt s)"
    using placed_read [of "fmt s" "fmt s" "[]"] by (simp add: finish_def)
  then obtain s' where s': "p s = Inr s'" "wrote (terms_tokens ts) (fmt s) (fmt s')"
    by (rule emitsD [OF emits_writes [OF assms(1), of 0], of _ "depth (fmt s)", OF assms(2)]) auto
  then obtain u where u: "out (fmt s') = out (fmt s) @ u" "finish (reader (fmt s')) = rs @ terms_tokens ts"
    using r by (auto simp: wrote_def)
  then have "reader (fmt s') = tscan (rs, Between) u" using r by (simp add: reader_def)
  then have "finish (reader (fmt s')) = rs @ tokens u"
    by (simp add: tscan_between [of rs] tokens_def finish_def)
  with u(2) have "parse_terms u = Some ts" by (intro parse_terms_tokens) simp
  with s' u(1) show ?thesis by blast
qed

end
