(* ===== verification/TypeTerms.thy ===== *)
theory TypeTerms
  imports CoqTerms
begin

text \<open>
  The terms of Coq that stand for names and C++ types, as a datatype of their own, and how they are written with
  constructors of Coq.  Different types are different terms.
\<close>

text \<open>
  A name is a path of atomic names from the translation unit inwards, an instance of a template, or a number in the cache of
  names.  A function is named together with its qualifiers and the types of its parameters.
\<close>

datatype cname = Toplevel catom | Scoped cname catom | Inst cname "carg list" | NameRef nat
  and catom = Ident string | Anonymous_namespace | Function_name string cfun "cty list"
  and cfun = Named_function string | Constructor | Destructor | Operator OverloadedOperatorKind | Conversion cty | Literal_operator string
  and carg = Type_arg cty | Param_arg string | Int_arg int cty | Null_arg | Pack_arg "carg list" | Template_arg cname
  and cty =
    Prim string | TypeRef nat | Ptr cty | Ref cty | RvRef cty | Const cty | Volatile cty | ConstVolatile cty
  | Array cty nat | IncompleteArray cty | MemberPtr cty cty | Decay cty cty | Named cname | Enum cname
  | Function string string bool cty "cty list"

definition bool_term :: "bool \<Rightarrow> cterm" where
  "bool_term b = Sym (if b then ''true'' else ''false'')"

text \<open>A number with the scope of the integers; a negative one is in parentheses.\<close>

definition z_terms :: "int \<Rightarrow> cterm list" where
  "z_terms v = (if v < 0 then [Par [Sym (decimal_int v)], Sym ''%Z''] else [Sym (decimal_int v @ ''%Z'')])"

fun operator_term :: "OverloadedOperatorKind \<Rightarrow> cterm" where
  "operator_term OO_New = app ''OONew'' [bool_term False]"
| "operator_term OO_Array_New = app ''OONew'' [bool_term True]"
| "operator_term OO_Delete = app ''OODelete'' [bool_term False]"
| "operator_term OO_Array_Delete = app ''OODelete'' [bool_term True]"
| "operator_term (OO_Named n) = Sym (''OO'' @ n)"
| "operator_term OO_Unknown = Par []"

definition variadic_word :: "bool \<Rightarrow> string" where
  "variadic_word v = (if v then ''Ar_Variadic'' else ''Ar_Definite'')"

primrec name_term :: "cname \<Rightarrow> cterm" and atom_term :: "catom \<Rightarrow> cterm" and fun_term :: "cfun \<Rightarrow> cterm"
  and arg_term :: "carg \<Rightarrow> cterm" and ty_term :: "cty \<Rightarrow> cterm" where
  "name_term (Toplevel a) = app ''Nglobal'' [atom_term a]"
| "name_term (Scoped N a) = app ''Nscoped'' [name_term N, atom_term a]"
| "name_term (Inst N as) = app ''Ninst'' [name_term N, list_term (map arg_term as)]"
| "name_term (NameRef n) = Sym (NAME_PREFIX # decimal n)"
| "atom_term (Ident n) = app ''Nid'' [Str n]"
| "atom_term Anonymous_namespace = Sym ''Nanonymous''"
| "atom_term (Function_name q f Ts) = app ''Nfunction'' [Sym (''function_qualifiers.'' @ q), fun_term f, list_term (map ty_term Ts)]"
| "fun_term (Named_function n) = app ''Nf'' [Str n]"
| "fun_term Constructor = Sym ''Nctor''"
| "fun_term Destructor = Sym ''Ndtor''"
| "fun_term (Operator oo) = app ''Nop'' [operator_term oo]"
| "fun_term (Conversion T) = app ''Nop_conv'' [ty_term T]"
| "fun_term (Literal_operator n) = app ''Nop_lit'' [Str n]"
| "arg_term (Type_arg T) = app ''Atype'' [ty_term T]"
| "arg_term (Param_arg n) = app ''Atype'' [app ''Tparam'' [Str n]]"
| "arg_term (Int_arg v T) = app ''Avalue'' [app ''Eint'' (z_terms v @ [ty_term T])]"
| "arg_term Null_arg = app ''Avalue'' [Sym ''Enull'']"
| "arg_term (Pack_arg as) = app ''Apack_expansion'' [list_term (map arg_term as)]"
| "arg_term (Template_arg N) = app ''Atemplate'' [name_term N]"
| "ty_term (Prim w) = Sym w"
| "ty_term (TypeRef n) = Sym (TYPE_PREFIX # decimal n)"
| "ty_term (Ptr T) = app ''Tptr'' [ty_term T]"
| "ty_term (Ref T) = app ''Tref'' [ty_term T]"
| "ty_term (RvRef T) = app ''Trv_ref'' [ty_term T]"
| "ty_term (Const T) = app ''Qconst'' [ty_term T]"
| "ty_term (Volatile T) = app ''Qvolatile'' [ty_term T]"
| "ty_term (ConstVolatile T) = app ''Qconst_volatile'' [ty_term T]"
| "ty_term (Array T n) = app ''Tarray'' [ty_term T, Sym (decimal n)]"
| "ty_term (IncompleteArray T) = app ''Tincomplete_array'' [ty_term T]"
| "ty_term (MemberPtr C T) = app ''Tmember_pointer'' [ty_term C, ty_term T]"
| "ty_term (Decay S T) = app ''Tdecay_type'' [ty_term S, ty_term T]"
| "ty_term (Named n) = app ''Tnamed'' [name_term n]"
| "ty_term (Enum n) = app ''Tenum'' [name_term n]"
| "ty_term (Function k cc v R Ts) =
     app ''Tfunction'' [Sym k, Sym cc, Sym (variadic_word v), ty_term R, list_term (map ty_term Ts)]"

text \<open>What the printers write for terms: names have a path, and the names of types start with a capital letter.\<close>

fun name_ok :: "cname \<Rightarrow> bool" and atom_ok :: "catom \<Rightarrow> bool" and fun_ok :: "cfun \<Rightarrow> bool"
  and arg_ok :: "carg \<Rightarrow> bool" and ty_ok :: "cty \<Rightarrow> bool" where
  "name_ok (Toplevel a) \<longleftrightarrow> atom_ok a"
| "name_ok (Scoped N a) \<longleftrightarrow> name_ok N \<and> atom_ok a"
| "name_ok (Inst N as) \<longleftrightarrow> name_ok N \<and> (\<forall>a \<in> set as. arg_ok a)"
| "name_ok (NameRef n) \<longleftrightarrow> True"
| "atom_ok (Function_name q f Ts) \<longleftrightarrow> fun_ok f \<and> (\<forall>T \<in> set Ts. ty_ok T)"
| "atom_ok a \<longleftrightarrow> True"
| "fun_ok (Conversion T) \<longleftrightarrow> ty_ok T"
| "fun_ok f \<longleftrightarrow> True"
| "arg_ok (Type_arg T) \<longleftrightarrow> ty_ok T"
| "arg_ok (Int_arg v T) \<longleftrightarrow> ty_ok T"
| "arg_ok (Pack_arg as) \<longleftrightarrow> (\<forall>a \<in> set as. arg_ok a)"
| "arg_ok (Template_arg N) \<longleftrightarrow> name_ok N"
| "arg_ok a \<longleftrightarrow> True"
| "ty_ok (Prim w) \<longleftrightarrow> (\<exists>v. w = CHR ''T'' # v)"
| "ty_ok (TypeRef n) \<longleftrightarrow> True"
| "ty_ok (Ptr T) \<longleftrightarrow> ty_ok T"
| "ty_ok (Ref T) \<longleftrightarrow> ty_ok T"
| "ty_ok (RvRef T) \<longleftrightarrow> ty_ok T"
| "ty_ok (Const T) \<longleftrightarrow> ty_ok T"
| "ty_ok (Volatile T) \<longleftrightarrow> ty_ok T"
| "ty_ok (ConstVolatile T) \<longleftrightarrow> ty_ok T"
| "ty_ok (Array T n) \<longleftrightarrow> ty_ok T"
| "ty_ok (IncompleteArray T) \<longleftrightarrow> ty_ok T"
| "ty_ok (MemberPtr C T) \<longleftrightarrow> ty_ok C \<and> ty_ok T"
| "ty_ok (Decay S T) \<longleftrightarrow> ty_ok S \<and> ty_ok T"
| "ty_ok (Named n) \<longleftrightarrow> name_ok n"
| "ty_ok (Enum n) \<longleftrightarrow> name_ok n"
| "ty_ok (Function k cc v R Ts) \<longleftrightarrow> ty_ok R \<and> (\<forall>T \<in> set Ts. ty_ok T)"

lemma separated_inject:
  "concat (map (\<lambda>t. [t, c]) ts) = concat (map (\<lambda>t. [t, c]) us) \<Longrightarrow> ts = us"
proof (induction ts arbitrary: us)
  case Nil
  then show ?case by (cases us) simp_all
next
  case (Cons t ts)
  from Cons.prems show ?case by (cases us) (auto dest: Cons.IH)
qed

lemma list_term_inject:
  assumes "list_term ts = list_term us"
  shows "ts = us"
proof (cases "ts = [] \<or> us = []")
  case True
  with assms show ?thesis by (auto simp: list_term_def split: if_splits)
next
  case False
  then have "concat (map (\<lambda>t. [t, Sym ''::'']) ts) = concat (map (\<lambda>t. [t, Sym ''::'']) us)"
    using assms by (simp add: list_term_def elements_def comp_def)
  then show ?thesis by (rule separated_inject)
qed

lemma operator_term_inject: "operator_term x = operator_term y \<Longrightarrow> x = y"
  by (cases x; cases y) (simp_all add: bool_term_def)

lemma decimal_no_sign: "CHR ''-'' \<notin> set (decimal n)"
proof (induction n rule: decimal.induct)
  case (1 n)
  have "digit_char d \<noteq> CHR ''-''" if "d < 10" for d
  proof
    assume "digit_char d = CHR ''-''"
    then have "(of_char (digit_char d) :: nat) = of_char CHR ''-''" by simp
    with that show False by (simp add: digit_char_def of_char_of)
  qed
  note d = this
  have "n div 10 \<noteq> 0 \<Longrightarrow> \<not> n < 10" by auto
  with 1 d [of n] d [of "n mod 10"] show ?case by (subst decimal.simps) (auto dest: not_sym)
qed

lemma decimal_int_inject: "decimal_int v = decimal_int w \<Longrightarrow> v = w"
proof -
  assume e: "decimal_int v = decimal_int w"
  have "decimal n \<noteq> CHR ''-'' # t" "CHR ''-'' # t \<noteq> decimal n" for n t
    using decimal_no_sign [of n] by (metis list.set_intros(1))+
  with e show ?thesis by (auto simp: decimal_int_def dest: decimal_inject split: if_splits)
qed

lemma z_terms_inject: "z_terms v = z_terms w \<Longrightarrow> v = w"
  by (auto simp: z_terms_def dest: decimal_int_inject split: if_splits)

lemma ty_term_param: "ty_term T \<noteq> app ''Tparam'' [Str n]"
  by (cases T) simp_all

lemma map_inject_strong: "map f xs = map f ys \<Longrightarrow> (\<And>x y. x \<in> set xs \<Longrightarrow> y \<in> set ys \<Longrightarrow> f x = f y \<Longrightarrow> x = y) \<Longrightarrow> xs = ys"
  by (rule list.inj_map_strong)

lemma term_inject:
  "name_term N = name_term N' \<Longrightarrow> name_ok N \<Longrightarrow> name_ok N' \<Longrightarrow> N = N'"
  "atom_term A = atom_term A' \<Longrightarrow> atom_ok A \<Longrightarrow> atom_ok A' \<Longrightarrow> A = A'"
  "fun_term F = fun_term F' \<Longrightarrow> fun_ok F \<Longrightarrow> fun_ok F' \<Longrightarrow> F = F'"
  "arg_term a = arg_term a' \<Longrightarrow> arg_ok a \<Longrightarrow> arg_ok a' \<Longrightarrow> a = a'"
  "ty_term T = ty_term T' \<Longrightarrow> ty_ok T \<Longrightarrow> ty_ok T' \<Longrightarrow> T = T'"
proof (induction N and A and F and a and T arbitrary: N' and A' and F' and a' and T')
  case (Prim w)
  then show ?case by (cases T') (auto simp: TYPE_PREFIX_def)
next
  case (Inst N as)
  then obtain M bs where M: "N' = Inst M bs" "name_term N = name_term M" "map arg_term as = map arg_term bs"
    by (cases N') (auto dest: list_term_inject)
  have "as = bs" by (rule map_inject_strong [OF M(3)]) (use Inst M(1) in auto)
  moreover from Inst.IH(1) [OF M(2)] Inst.prems M(1) have "N = M" by simp
  ultimately show ?case using M by simp
next
  case (Function_name q f Ts)
  then obtain g Us where M: "A' = Function_name q g Us" "fun_term f = fun_term g" "map ty_term Ts = map ty_term Us"
    by (cases A') (auto dest: list_term_inject)
  have "Ts = Us" by (rule map_inject_strong [OF M(3)]) (use Function_name M(1) in auto)
  moreover from Function_name.IH(1) [OF M(2)] Function_name.prems M(1) have "f = g" by simp
  ultimately show ?case using M by simp
next
  case (Pack_arg as)
  then obtain bs where M: "a' = Pack_arg bs" "map arg_term as = map arg_term bs"
    by (cases a') (auto dest: list_term_inject)
  have "as = bs" by (rule map_inject_strong [OF M(2)]) (use Pack_arg M(1) in auto)
  then show ?case using M by simp
next
  case (Function k cc v R Ts)
  then obtain R' Us where T: "T' = Function k cc v R' Us" "ty_term R = ty_term R'" "map ty_term Ts = map ty_term Us"
    by (cases T') (auto simp: variadic_word_def dest: list_term_inject split: if_splits)
  from Function.IH(1) [OF T(2)] Function.prems T(1) have "R = R'" by simp
  moreover have "Ts = Us" by (rule map_inject_strong [OF T(3)]) (use Function T(1) in auto)
  ultimately show ?case using T by simp
next
  case (Int_arg v T)
  then show ?case by (cases a') (auto dest: z_terms_inject)
next
  case (Operator oo)
  then show ?case by (cases F') (auto dest: operator_term_inject)
next
  case (Type_arg T)
  then show ?case by (cases a') (auto simp: ty_term_param)
next
  case (Param_arg n)
  then show ?case by (cases a') (auto simp: ty_term_param [symmetric])
qed ((case_tac N'; auto dest: decimal_inject simp: TYPE_PREFIX_def; fail) | (case_tac A'; auto dest: decimal_inject simp: TYPE_PREFIX_def; fail) | (case_tac F'; auto dest: decimal_inject simp: TYPE_PREFIX_def; fail) | (case_tac a'; auto dest: decimal_inject simp: TYPE_PREFIX_def; fail) | (case_tac T'; auto dest: decimal_inject simp: TYPE_PREFIX_def; fail))+

end
