(* ===== verification/TypeText.thy ===== *)
theory TypeText
  imports TypeTerms
begin

text \<open>
  The printer of types is correct: for a type that stands for a term of Coq, the text that it writes reads back as that
  term, with as many levels as the type is deep.  Types that are only other ways to write a type stand for the same term.
\<close>

section \<open>The term of a type\<close>

definition with_quals :: "ASTContext \<Rightarrow> QualType \<Rightarrow> cty \<Rightarrow> cty" where
  "with_quals ctx q T =
     (if isLocalConstQualified q then (if isVolatileQualified ctx q then ConstVolatile T else Const T)
      else if isLocalVolatileQualified q then Volatile T else T)"

fun conv_word :: "CallingConv \<Rightarrow> string option" where
  "conv_word CC_C = Some ''CC_C''"
| "conv_word CC_X86RegCall = Some ''CC_RegCall''"
| "conv_word CC_Win64 = Some ''CC_MsAbi''"
| "conv_word CC_other = None"

text \<open>\<open>transparent t node q\<close>: the type with this node is another way to write \<open>q\<close>.\<close>

inductive transparent :: "ASTContext \<Rightarrow> ptr \<Rightarrow> type_node \<Rightarrow> QualType \<Rightarrow> bool" for ctx t where
  "transparent ctx t (AttributedType q) q"
| "transparent ctx t (ParenType q) q"
| "transparent ctx t (ElaboratedType q) q"
| "transparent ctx t (SubstTemplateTypeParmType q) q"
| "transparent ctx t (MacroQualifiedType q) q"
| "transparent ctx t (UsingType True q) q"
| "transparent ctx t (TypedefType d) (getUnderlyingType (named_of ctx (getCanonicalDecl (decl ctx d))))"
| "\<not> isDependentType (type_of ctx t) \<Longrightarrow> transparent ctx t (AutoType (Some q)) q"
| "transparent ctx t (DeducedTemplateSpecializationType (Some q)) q"
| "transparent ctx t (TemplateSpecializationType (Some q) s temp args) q"
| "transparent ctx t (TemplateSpecializationType None (Some q) temp args) q"
| "transparent ctx t (DecltypeType (Some q) e) q"
| "transparent ctx t (TypeOfExprType (Some q) e) q"
| "transparent ctx t (DependentNameType (Some q) nn n) q"

text \<open>
  Names: of declarations in the cache, and paths of atomic names along the contexts of a declaration.  The context must be one
  that the name mentions: a name inside a linkage specification has no rule, nor have declarations without a name, except for
  namespaces and for a class or enumeration that a typedef names.
\<close>

definition identifier_kinds :: "DeclKind set" where
  "identifier_kinds = {NamespaceDecl, FieldDecl, VarDecl, TypedefDecl, TypeAliasDecl, EnumConstantDecl, BindingDecl,
     ClassTemplateDecl, TypeAliasTemplateDecl, VarTemplateDecl, VarTemplateSpecializationDecl}"

definition function_kinds :: "DeclKind set" where
  "function_kinds = {FunctionDecl, CXXMethodDecl, CXXConstructorDecl, CXXDestructorDecl, CXXConversionDecl}"

fun operator_ok :: "OverloadedOperatorKind \<Rightarrow> bool" where
  "operator_ok (OO_Named n) \<longleftrightarrow> word (''OO'' @ n)"
| "operator_ok OO_Unknown \<longleftrightarrow> False"
| "operator_ok oo \<longleftrightarrow> True"

definition qualifiers :: "ASTContext \<Rightarrow> ptr \<Rightarrow> string" where
  "qualifiers ctx d =
     (if isaD ctx CXXMethodDecl d
      then const_volatile_cat (isConst (named_of ctx d)) (isVolatile (named_of ctx d)) (getRefQualifier (naming_of ctx d)) else ''N'')"

definition no_reference :: "CoqPrinter \<Rightarrow> ASTContext \<Rightarrow> ptr \<Rightarrow> bool" where
  "no_reference print ctx d \<longleftrightarrow> isaD ctx NamedDecl d \<and> nc_lookup (names_nc (name_cache print)) d = 0"

inductive denotes :: "CoqPrinter \<Rightarrow> ASTContext \<Rightarrow> ptr \<Rightarrow> cty \<Rightarrow> bool"
  and qual_denotes :: "CoqPrinter \<Rightarrow> ASTContext \<Rightarrow> QualType \<Rightarrow> cty \<Rightarrow> bool"
  and node_denotes :: "CoqPrinter \<Rightarrow> ASTContext \<Rightarrow> ptr \<Rightarrow> type_node \<Rightarrow> cty \<Rightarrow> bool"
  and name_denotes :: "CoqPrinter \<Rightarrow> ASTContext \<Rightarrow> ptr \<Rightarrow> cname \<Rightarrow> bool"
  and path_denotes :: "CoqPrinter \<Rightarrow> ASTContext \<Rightarrow> ptr \<Rightarrow> cname \<Rightarrow> bool"
  and atom_denotes :: "CoqPrinter \<Rightarrow> ASTContext \<Rightarrow> ptr \<Rightarrow> catom \<Rightarrow> bool"
  and fun_denotes :: "CoqPrinter \<Rightarrow> ASTContext \<Rightarrow> decl_name \<Rightarrow> cfun \<Rightarrow> bool"
  and arg_denotes :: "CoqPrinter \<Rightarrow> ASTContext \<Rightarrow> targ \<Rightarrow> carg \<Rightarrow> bool"
  for print ctx where
  type_shared: "nc_lookup (types_nc (name_cache print)) t = n \<Longrightarrow> n \<noteq> 0 \<Longrightarrow> denotes print ctx t (TypeRef n)"
| type_node: "nc_lookup (types_nc (name_cache print)) t = 0 \<Longrightarrow>
    node_denotes print ctx t (type_node (type_of ctx t)) T \<Longrightarrow> denotes print ctx t T"
| qual: "getTypePtrOrNull q = Some t \<Longrightarrow> denotes print ctx t T \<Longrightarrow> qual_denotes print ctx q (with_quals ctx q T)"
| builtin: "builtin_name k = Some w \<Longrightarrow> node_denotes print ctx t (BuiltinType k) (Prim w)"
| pointer: "qual_denotes print ctx q T \<Longrightarrow> node_denotes print ctx t (PointerType q) (Ptr T)"
| lvalue_ref: "qual_denotes print ctx q T \<Longrightarrow> node_denotes print ctx t (LValueReferenceType q) (Ref T)"
| rvalue_ref: "qual_denotes print ctx q T \<Longrightarrow> node_denotes print ctx t (RValueReferenceType q) (RvRef T)"
| array: "qual_denotes print ctx q T \<Longrightarrow> n < 2 ^ 64 \<Longrightarrow> node_denotes print ctx t (ConstantArrayType q n) (Array T n)"
| incomplete: "qual_denotes print ctx q T \<Longrightarrow> node_denotes print ctx t (IncompleteArrayType q) (IncompleteArray T)"
| member: "denotes print ctx c C \<Longrightarrow> qual_denotes print ctx q T \<Longrightarrow>
    node_denotes print ctx t (MemberPointerType c q) (MemberPtr C T)"
| decayed: "qual_denotes print ctx p S \<Longrightarrow> qual_denotes print ctx q T \<Longrightarrow>
    node_denotes print ctx t (DecayedType p q) (Decay S T)"
| record_type: "name_denotes print ctx d N \<Longrightarrow> node_denotes print ctx t (RecordType d) (Named N)"
| enum_type: "name_denotes print ctx (getCanonicalDecl (decl ctx d)) N \<Longrightarrow> node_denotes print ctx t (EnumType d) (Enum N)"
| function_type: "conv_word cc = Some w \<Longrightarrow> qual_denotes print ctx r R \<Longrightarrow>
    list_all2 (\<lambda>q T. \<exists>p. getTypePtrOrNull q = Some p \<and> denotes print ctx p T) ps Ts \<Longrightarrow>
    node_denotes print ctx t (FunctionProtoType cc v r ps)
      (Function (if templates print then ''Mtype'' else ''type'') w v R Ts)"
| same: "transparent ctx t node q \<Longrightarrow> qual_denotes print ctx q T \<Longrightarrow> node_denotes print ctx t node T"
| name_shared: "isaD ctx NamedDecl d \<Longrightarrow> nc_lookup (names_nc (name_cache print)) d = n \<Longrightarrow> n \<noteq> 0 \<Longrightarrow>
    name_denotes print ctx d (NameRef n)"
| name_path: "no_reference print ctx d \<Longrightarrow> described_template ctx d = None \<Longrightarrow> recoverSpecialization ctx d = None \<Longrightarrow>
    path_denotes print ctx d N \<Longrightarrow> name_denotes print ctx d N"
| name_instance: "no_reference print ctx d \<Longrightarrow> described_template ctx d = None \<Longrightarrow>
    recoverSpecialization ctx d = Some (temp, args) \<Longrightarrow> path_denotes print ctx d N \<Longrightarrow> list_all2 (arg_denotes print ctx) args as \<Longrightarrow>
    name_denotes print ctx d (Inst N as)"
| name_template: "no_reference print ctx d \<Longrightarrow> described_template ctx d = Some dct \<Longrightarrow> path_denotes print ctx d N \<Longrightarrow>
    name_denotes print ctx d
      (Inst N (map (\<lambda>p. Param_arg (getNameAsString (named_of ctx p))) (getTemplateParameters (named_of ctx dct))))"
| global_path: "getDeclContext (named_of ctx d) = Some c \<Longrightarrow> classifyContext ctx c = Global \<Longrightarrow> atom_denotes print ctx d A \<Longrightarrow>
    path_denotes print ctx d (Toplevel A)"
| scoped_path: "getDeclContext (named_of ctx d) = Some c \<Longrightarrow> classifyContext ctx c = Scope \<Longrightarrow> name_denotes print ctx c N \<Longrightarrow>
    atom_denotes print ctx d A \<Longrightarrow> path_denotes print ctx d (Scoped N A)"
| tag_atom: "isaD ctx TagDecl d \<Longrightarrow> isNamed ctx d \<Longrightarrow> atom_denotes print ctx d (Ident (getName ctx d))"
| typedef_atom: "isaD ctx TagDecl d \<Longrightarrow> \<not> isNamed ctx d \<Longrightarrow> getTypedefNameForAnonDecl (naming_of ctx d) = Some td \<Longrightarrow>
    atom_denotes print ctx d (Ident (getName ctx td))"
| named_atom: "getKind (decl ctx d) \<in> identifier_kinds \<Longrightarrow> isNamed ctx d \<Longrightarrow> atom_denotes print ctx d (Ident (getName ctx d))"
| namespace_atom: "getKind (decl ctx d) = NamespaceDecl \<Longrightarrow> \<not> isNamed ctx d \<Longrightarrow> atom_denotes print ctx d Anonymous_namespace"
| function_atom: "getKind (decl ctx d) \<in> function_kinds \<Longrightarrow> fun_denotes print ctx (getDeclName (naming_of ctx d)) F \<Longrightarrow>
    list_all2 (\<lambda>p T. qual_denotes print ctx (getType (named_of ctx p)) T) (parameters (named_of ctx d)) Ts \<Longrightarrow>
    atom_denotes print ctx d (Function_name (qualifiers ctx d) F Ts)"
| named_function: "fun_denotes print ctx (DNIdentifier (Some n)) (Named_function n)"
| constructor: "fun_denotes print ctx DNConstructor Constructor"
| destructor: "fun_denotes print ctx DNDestructor Destructor"
| operator: "operator_ok oo \<Longrightarrow> fun_denotes print ctx (DNOperator oo) (Operator oo)"
| conversion: "qual_denotes print ctx q T \<Longrightarrow> fun_denotes print ctx (DNConversion q) (Conversion T)"
| literal_operator: "fun_denotes print ctx (DNLiteralOperator (Some n)) (Literal_operator n)"
| type_arg: "qual_denotes print ctx q T \<Longrightarrow> arg_denotes print ctx (TAType q) (Type_arg T)"
| integral_arg: "qual_denotes print ctx q T \<Longrightarrow> arg_denotes print ctx (TAIntegral v q) (Int_arg v T)"
| null_arg: "arg_denotes print ctx (TANullPtr q) Null_arg"
| pack_arg: "list_all2 (arg_denotes print ctx) args as \<Longrightarrow> arg_denotes print ctx (TAPack args) (Pack_arg as)"
| template_arg: "name_denotes print ctx d N \<Longrightarrow> arg_denotes print ctx (TATemplate (Some d)) (Template_arg N)"

monos list_all2_mono

section \<open>Texts of names\<close>

lemma word_decimal: "word (decimal n)"
proof -
  have "\<forall>c \<in> set (decimal n). inner c"
  proof (induction n rule: decimal.induct)
    case (1 n)
    have "inner (digit_char d)" if "d < 10" for d
    proof -
      have "of_char (digit_char d) = 48 + d"
        using that by (simp add: digit_char_def of_char_of)
      with that digit_char_plain [OF that] show ?thesis by (auto simp: inner_def white_def)
    qed
    with 1 show ?case by (cases "n < 10") (auto simp: decimal.simps [of n])
  qed
  then show ?thesis by (simp add: word_def)
qed

lemma word_reference: "c \<in> {TYPE_PREFIX, NAME_PREFIX} \<Longrightarrow> word (c # decimal n)"
  using word_decimal [of n] by (auto simp: word_simps TYPE_PREFIX_def NAME_PREFIX_def)

lemma builtin_word: "builtin_name k = Some w \<Longrightarrow> word w \<and> (\<exists>v. w = CHR ''T'' # v)"
  by (cases k rule: builtin_name.cases) (auto simp: word_simps)

lemma reference_simps:
  "nc_lookup (types_nc (name_cache print)) t = 0 \<Longrightarrow> reference_type print t = None"
  "nc_lookup (types_nc (name_cache print)) t = n \<Longrightarrow> n \<noteq> 0 \<Longrightarrow> reference_type print t = Some (TYPE_PREFIX # decimal n)"
  "nc_lookup (names_nc (name_cache print)) d = n \<Longrightarrow> n \<noteq> 0 \<Longrightarrow> reference_name print d = Some (NAME_PREFIX # decimal n)"
  "nc_lookup (names_nc (name_cache print)) d = 0 \<Longrightarrow> reference_name print d = None"
  by (simp_all add: reference_type_def reference_name_def nc_reference_def Let_def)

section \<open>Actions that write tokens\<close>

lemma tstep_delimiter:
  assumes "outside q" and "\<not> inner c" and "start c = (ts, Between)"
  shows "tstep q c = (finish q @ ts, Between)"
  using assms by (cases q, cases "snd q") (auto simp: outside_def finish_def inner_def start_def white_def split: if_splits)

text \<open>A parenthesis or a comma on its own ends what is before it.\<close>

lemma emits_delimiter:
  assumes "\<not> inner c" and "start c = (ts, Between)"
  shows "emits Q r i (put [c]) ts True i"
proof (rule emits_put_at)
  fix f assume "placed r f"
  then have "outside (ahead f)" "finish (ahead f) = finish (reader f)" using ahead_reader [of f] by (simp_all add: placed_def)
  then show "tscan (ahead f) [c] = (finish (reader f) @ ts, Between)"
    using tstep_delimiter assms by simp
qed simp_all

lemma emits_begin_tuple: "emits Q r i begin_tuple [LP] True i"
  unfolding begin_tuple_def by (rule emits_delimiter) (simp_all add: inner_def start_def)

lemma emits_end_tuple: "emits Q r i end_tuple [RP] True i"
  unfolding end_tuple_def by (rule emits_delimiter) (simp_all add: inner_def start_def)

lemma emits_next_tuple: "emits Q r i next_tuple [Word '',''] True i"
proof -
  have e: "next_tuple = seqP [put '','', nbsp]"
    by (rule ext) (simp add: next_tuple_def tuple_sep_def nbsp_def put_def fmtA_def ftuple_sep_def run_defs)
  show ?thesis
    unfolding e by (rule emits_eq [OF emits_Cons [OF emits_comma emits_Cons [OF emits_nbsp emits_Nil]]]) simp
qed

lemma word_append: "word v \<Longrightarrow> word w \<Longrightarrow> word (v @ w)"
  by (auto simp: word_def)

lemma word_numbers:
  "word (decimal n)" "word (decimal_int v)" "word (decimal n @ ''%N'')" "word (decimal_int v @ ''%Z'')"
proof -
  have "word (decimal_int v)" using word_decimal by (simp add: decimal_int_def word_simps)
  then show "word (decimal n)" "word (decimal_int v)" "word (decimal n @ ''%N'')" "word (decimal_int v @ ''%Z'')"
    using word_decimal by (auto intro!: word_append simp: word_simps)
qed

lemma puts_word: "word (concat ts) \<Longrightarrow> emits Q True i (puts ts) [Word (concat ts)] False i"
  unfolding puts_def by (rule emits_word)

lemma emits_number_N: "emits Q True i (puts [decimal n, ''%N'']) [Word (decimal n @ ''%N'')] False i"
  using puts_word [of "[decimal n, ''%N'']" Q i] word_numbers(3) by simp

lemma emits_number_Z: "emits Q True i (puts [decimal_int v, ''%Z'']) [Word (decimal_int v @ ''%Z'')] False i"
  using puts_word [of "[decimal_int v, ''%Z'']" Q i] word_numbers(4) by simp

lemma boolean_put: "boolean b = put (if b then ''true'' else ''false'')" "putBOOL b = put (if b then ''true'' else ''false'')"
  by (simp_all add: boolean_def putBOOL_def put_def fmtA_def formatter_defs Let_def fun_eq_iff)

lemma emits_bool:
  "emits Q True i (boolean b) (term_tokens (bool_term b)) False i"
  "emits Q True i (putBOOL b) (term_tokens (bool_term b)) False i"
  unfolding boolean_put bool_term_def using emits_word [of _ Q i] by (simp_all add: word_simps)

lemma emits_putZ: "emits Q True i (putZ v) (terms_tokens (z_terms v)) False i"
proof -
  have e: "putZ v = put (num_text (fZ v True))"
    by (simp add: putZ_def putNUM_def put_def fmtA_def formatter_defs Let_def fun_eq_iff)
  show ?thesis
  proof (cases "v < 0")
    case True
    have "tscan (ts, Between) (decimal_int v) = (ts, InWord (decimal_int v))" for ts by (rule tscan_word [OF word_numbers(2)])
    then show ?thesis
      unfolding e using True
      by (intro emits_put [where m = "InWord ''%Z''" and us = "[LP, Word (decimal_int v), RP]"])
        (simp_all add: num_text_def fZ_def z_terms_def start_def inner_def white_def)
  next
    case False
    then show ?thesis
      unfolding e using emits_word [OF word_numbers(4)] by (simp add: num_text_def fZ_def z_terms_def)
  qed
qed

lemma writes_operator:
  assumes "operator_ok oo"
  shows "writes Q (printOverloadableOperator oo) [operator_term oo]"
proof -
  have "writes Q (guard_ctor c False [boolean b]) [app c [bool_term b]]" if "word c" for c b
    unfolding guard_ctor_def
    by (rule writes_par, (rule emits_Cons emits_Nil emits_end_ctor emits_ctor [OF that] emits_bool)+) simp
  with assms show ?thesis
    by (cases oo) (simp_all add: printOverloadableOperator_def word_simps writes_sym)
qed

section \<open>Composing printers of terms\<close>

text \<open>The rules for a sequence of actions of the formatter; what the sequence calls is added as facts \<open>writes\<close>.\<close>

lemmas composing = emits_Cons emits_Nil emits_nbsp emits_nl emits_lparen emits_rparen emits_diag emits_end_ctor emits_cons
  emits_begin_list emits_end_list emits_str emits_ctor emits_word

text \<open>Constructors with one or two arguments, and lists.\<close>

lemma deep_ctor:
  "deep (\<lambda>n. writes Q (p n) [t]) \<Longrightarrow> word c \<Longrightarrow> deep (\<lambda>n. writes Q (seqP [ctor c line, p n, end_ctor]) [app c [t]])"
  by (erule eventually_mono, rule writes_par, (rule composing emits_ctor | assumption | (rule emits_writes, assumption))+) simp

lemma deep_ctor2:
  "deep (\<lambda>n. writes Q (p n) [t]) \<Longrightarrow> deep (\<lambda>n. writes Q (q n) [u]) \<Longrightarrow> word c \<Longrightarrow>
   deep (\<lambda>n. writes Q (seqP [ctor c line, p n, nbsp, q n, end_ctor]) [app c [t, u]])"
  by (erule (1) eventually_elim2, rule writes_par, (rule composing emits_ctor | assumption | (rule emits_writes, assumption))+) simp

lemma deep_plist:
  "list_all2 (\<lambda>x t. deep (\<lambda>n. writes Q (p n x) [t])) xs ts \<Longrightarrow> deep (\<lambda>n. writes Q (plist xs (p n)) [list_term ts])"
  by (drule deep_list, erule eventually_mono, rule writes_plist)

section \<open>Names\<close>

lemma name_kinds_isa:
  "k \<in> identifier_kinds \<Longrightarrow> \<not> isa TagDecl k \<and> \<not> isa RecordDecl k \<and> \<not> isa EnumDecl k \<and> (isa NamespaceDecl k \<longleftrightarrow> k = NamespaceDecl)"
  "k \<in> function_kinds \<Longrightarrow> \<not> isa TagDecl k \<and> \<not> isa RecordDecl k \<and> \<not> isa EnumDecl k \<and> \<not> isa NamespaceDecl k"
  by (auto simp: identifier_kinds_def function_kinds_def isa_def ancestors_def eval_nat_numeral)

lemma printAtomicName_simps:
  "isaD (getContext cprint) TagDecl d \<Longrightarrow> isNamed (getContext cprint) d \<Longrightarrow> printAtomicName cprint c d = Nid (getContext cprint) d"
  "isaD (getContext cprint) TagDecl d \<Longrightarrow> \<not> isNamed (getContext cprint) d \<Longrightarrow>
     getTypedefNameForAnonDecl (naming_of (getContext cprint) d) = Some td \<Longrightarrow> printAtomicName cprint c d = Nid (getContext cprint) td"
  "getKind (decl (getContext cprint) d) \<in> identifier_kinds \<Longrightarrow> isNamed (getContext cprint) d \<Longrightarrow>
     printAtomicName cprint c d = Nid (getContext cprint) d"
  "getKind (decl (getContext cprint) d) = NamespaceDecl \<Longrightarrow> \<not> isNamed (getContext cprint) d \<Longrightarrow>
     printAtomicName cprint c d = put ''Nanonymous''"
  "getKind (decl (getContext cprint) d) \<in> function_kinds \<Longrightarrow> printAtomicName cprint c d = function_name cprint d"
  using name_kinds_isa [of "getKind (decl (getContext cprint) d)"]
  by (auto simp: printAtomicName_def ident_def atomic_by_content_def atomic_by_kind_def ident_or_anon_def Let_def
      identifier_kinds_def function_kinds_def)

lemma writes_Nid: "writes Q (Nid ctx d) [atom_term (Ident (getName ctx d))]"
  unfolding Nid_def guard_ctor_def atom_term.simps by (rule writes_par, (rule composing | (simp add: word_simps; fail))+)

lemma word_qualifiers: "word (''function_qualifiers.'' @ qualifiers ctx d)"
  by (auto simp: qualifiers_def const_volatile_cat_def word_simps split: RefQualifierKind.split)

lemma printFunctionQualifiers_put:
  "printFunctionQualifiers cprint d = put (''function_qualifiers.'' @ qualifiers (getContext cprint) d)"
  by (simp add: printFunctionQualifiers_def qualifiers_def puts_def Let_def)

lemma printName_path_simps:
  assumes "getDeclContext (named_of (getContext cprint) d) = Some c"
  shows "classifyContext (getContext cprint) c = Global \<Longrightarrow>
      printName_path cprint d = seqP [ctor ''Nglobal'' False, printAtomicName cprint c d, end_ctor]"
    and "classifyContext (getContext cprint) c = Scope \<Longrightarrow>
      printName_path cprint d = seqP [ctor ''Nscoped'' False, rec_printName cprint c, nbsp, printAtomicName cprint c d, end_ctor]"
proof -
  have "getNonIgnorableAncestor k (getContext cprint) d = Inr c" if "classifyContext (getContext cprint) c \<noteq> Ingorable" for k
    using that assms by (subst getNonIgnorableAncestor_def) (simp add: ancestor_loop.simps isIgnorableContext_def)
  moreover have "isTranslationUnit (getContext cprint) c \<longleftrightarrow> classifyContext (getContext cprint) c = Global"
    by (simp add: isTranslationUnit_def classifyContext_def Let_def)
  ultimately show "classifyContext (getContext cprint) c = Global \<Longrightarrow>
      printName_path cprint d = seqP [ctor ''Nglobal'' False, printAtomicName cprint c d, end_ctor]"
    and "classifyContext (getContext cprint) c = Scope \<Longrightarrow>
      printName_path cprint d = seqP [ctor ''Nscoped'' False, rec_printName cprint c, nbsp, printAtomicName cprint c d, end_ctor]"
    by (simp_all add: printName_path_def with_answer_def guard_ctor_def seqA_assoc)
qed

lemma writes_withDecl: "writes (\<lambda>N c. True) p ts \<Longrightarrow> writes Q (withDecl ctx d p) ts"
  unfolding withDecl_def by (erule writes_withDeclContext) simp

section \<open>The printer\<close>

lemma qual_prints:
  assumes "getTypePtrOrNull q = Some t" and "deep (\<lambda>n. writes Q (printType print (mk_cprint n print config) t) [ty_term T])"
  shows "deep (\<lambda>n. writes Q (printQualType (mk_cprint n print config) q) [ty_term (with_quals (getContext config) q T)])"
proof (rule deep_Suc [OF assms(2)])
  fix n assume p: "writes Q (printType print (mk_cprint n print config) t) [ty_term T]"
  have "writes Q (seqP [ctor c False, printType print (mk_cprint n print config) t, end_ctor]) [app c [ty_term T]]" if "word c" for c
    by (rule writes_par, (rule composing emits_ctor [OF that] emits_writes [OF p])+) simp
  from this [of "''Qconst_volatile''"] this [of "''Qconst''"] this [of "''Qvolatile''"] p
  show "writes Q (printQualType (mk_cprint (Suc n) print config) q) [ty_term (with_quals (getContext config) q T)]"
    by (auto simp: printQualType_def assms(1) with_quals_def word_simps simp del: seqP.simps)
qed

lemma rec_type_prints:
  "deep (\<lambda>n. writes Q (printType print (mk_cprint n print config) t) ts) \<Longrightarrow>
   deep (\<lambda>n. writes Q (rec_printType (mk_cprint n print config) t) ts)"
  by (erule deep_Suc) simp

lemma opt_type_prints:
  "deep (\<lambda>n. writes Q (printType print (mk_cprint n print config) t) ts) \<Longrightarrow> q = Some t \<Longrightarrow>
   deep (\<lambda>n. writes Q (printType_opt (mk_cprint n print config) q) ts)"
  by (simp add: printType_opt_def rec_type_prints)

lemma writes_function:
  assumes "word k" and "conv_word cc = Some w" and r: "writes Q pr [t]" and l: "writes Q pl [u]"
  shows "writes Q (guard_ctor ''Tfunction'' True
      [put k, nbsp, printCallingConv cc, nbsp, printVariadic v, nbsp, pr, nbsp, pl])
    [app ''Tfunction'' [Sym k, Sym w, Sym (variadic_word v), t, u]]"
proof -
  have cc: "writes Q (printCallingConv cc) [Sym w]"
    using assms(2) writes_sym by (cases cc) (auto simp: printCallingConv_def word_simps)
  have v: "writes Q (printVariadic v) [Sym (variadic_word v)]"
    using writes_sym by (simp add: printVariadic_def variadic_word_def word_simps)
  have c: "word ''Tfunction''" by (simp add: word_simps)
  show ?thesis
    unfolding guard_ctor_def
    by (rule writes_par, (rule composing emits_ctor [OF c] emits_word [OF assms(1)] emits_writes [OF cc]
          emits_writes [OF v] emits_writes [OF r] emits_writes [OF l])+) simp
qed

lemma ctor_words:
  "word ''Tptr''" "word ''Tref''" "word ''Trv_ref''" "word ''Tarray''" "word ''Tincomplete_array''"
  "word ''Tmember_pointer''" "word ''Tdecay_type''" "word ''Tnamed''" "word ''Tenum''"
  by (simp_all add: word_simps)

lemma deep_checked:
  "deep (\<lambda>n. writes Q (p n) ts) \<Longrightarrow> deep (\<lambda>n. writes Q (depth_checked x (p n)) ts)"
  by (erule eventually_mono) (rule writes_depth_checked)

abbreviation anywhere :: setting where
  "anywhere N c \<equiv> True"

lemma seqP_single: "seqP [p] = p"
  by simp

lemma rec_name_writes:
  "deep (\<lambda>n. writes anywhere (structured_printName print (mk_cprint n print config) d) [t]) \<Longrightarrow>
   deep (\<lambda>n. writes anywhere (rec_printName (mk_cprint n print config) d) [t])"
  by (erule deep_Suc) (simp add: printName_def writes_withDecl)

text \<open>The induction along the rules, from any state: a name changes the context of the printer.\<close>

lemma all_print:
  "denotes print (getContext config) t T \<Longrightarrow>
     deep (\<lambda>n. writes anywhere (printType print (mk_cprint n print config) t) [ty_term T]) \<and> ty_ok T"
  "qual_denotes print (getContext config) q T' \<Longrightarrow>
     deep (\<lambda>n. writes anywhere (printQualType (mk_cprint n print config) q) [ty_term T']) \<and> ty_ok T'"
  "node_denotes print (getContext config) t'' node T'' \<Longrightarrow>
     deep (\<lambda>n. writes anywhere (type_dispatch print (mk_cprint n print config) t'' node) [ty_term T'']) \<and> ty_ok T''"
  "name_denotes print (getContext config) d N \<Longrightarrow>
     deep (\<lambda>n. writes anywhere (structured_printName print (mk_cprint n print config) d) [name_term N]) \<and> name_ok N"
  "path_denotes print (getContext config) d' N' \<Longrightarrow>
     deep (\<lambda>n. writes anywhere (printName_path (mk_cprint n print config) d') [name_term N']) \<and> name_ok N'"
  "atom_denotes print (getContext config) d'' A \<Longrightarrow>
     (\<forall>c. deep (\<lambda>n. writes anywhere (printAtomicName (mk_cprint n print config) c d'') [atom_term A])) \<and> atom_ok A"
  "fun_denotes print (getContext config) dn F \<Longrightarrow>
     (\<forall>d. getDeclName (naming_of (getContext config) d) = dn \<longrightarrow>
        deep (\<lambda>n. writes anywhere (printFunctionName (mk_cprint n print config) d) [fun_term F])) \<and> fun_ok F"
  "arg_denotes print (getContext config) arg a \<Longrightarrow>
     deep (\<lambda>n. writes anywhere (printTemplateArgument (mk_cprint n print config) arg) [arg_term a]) \<and> arg_ok a"
proof (induction rule: denotes_qual_denotes_node_denotes_name_denotes_path_denotes_atom_denotes_fun_denotes_arg_denotes.inducts)
  case (type_shared t n)
  have "printType print (mk_cprint k print config) t =
      depth_checked (AssertionFailed depth_assertion) (put (TYPE_PREFIX # decimal n))" for k
    using reference_simps(2) [OF type_shared] by (simp add: printType_def PrintType_Visit_def)
  moreover have "writes anywhere (depth_checked x (put (TYPE_PREFIX # decimal n))) [Sym (TYPE_PREFIX # decimal n)]" for x
    by (intro writes_depth_checked writes_sym word_reference) simp
  ultimately show ?case by simp
next
  case (type_node t T)
  have "printType print (mk_cprint k print config) t = depth_checked (AssertionFailed depth_assertion)
      (type_dispatch print (mk_cprint k print config) t (type_node (type_of (getContext config) t)))" for k
    using reference_simps(1) [OF type_node(1)] by (simp add: printType_def PrintType_Visit_def)
  with type_node(3) show ?case by (simp add: deep_checked)
next
  case (qual q t T)
  then show ?case using qual_prints [OF qual(1), of anywhere print config T]
    by (auto simp: with_quals_def)
next
  case (builtin k w t)
  with builtin_word [of k w] writes_sym [of w anywhere] show ?case by (simp add: VisitBuiltinType_def)
next
  case (pointer q T t)
  then show ?case using deep_ctor [OF _ ctor_words(1)] by (simp add: VisitPointerType_def del: seqP.simps)
next
  case (lvalue_ref q T t)
  then show ?case using deep_ctor [OF _ ctor_words(2)] by (simp add: VisitLValueReferenceType_def del: seqP.simps)
next
  case (rvalue_ref q T t)
  then show ?case using deep_ctor [OF _ ctor_words(3)] by (simp add: VisitRValueReferenceType_def del: seqP.simps)
next
  case (array q T k t)
  have "min k (2 ^ 64 - 1) = k" using array(3) by simp
  moreover have "deep (\<lambda>n. writes anywhere (put (decimal k)) [Sym (decimal k)])"
    using writes_sym [OF word_decimal] by simp
  ultimately show ?case
    using array(2) deep_ctor2 [OF _ _ ctor_words(4)] by (simp add: VisitConstantArrayType_def del: seqP.simps)
next
  case (incomplete q T t)
  then show ?case using deep_ctor [OF _ ctor_words(5)] by (simp add: VisitIncompleteArrayType_def del: seqP.simps)
next
  case (member c C q T t)
  then have "deep (\<lambda>n. writes anywhere (printType_opt (mk_cprint n print config) (Some c)) [ty_term C])"
    using opt_type_prints by blast
  with member show ?case
    using deep_ctor2 [OF _ _ ctor_words(6)] by (simp add: VisitMemberPointerType_def del: seqP.simps)
next
  case (decayed p S q T t)
  then show ?case using deep_ctor2 [OF _ _ ctor_words(7)] by (simp add: VisitDecayedType_def del: seqP.simps)
next
  case (record_type d N t)
  then show ?case
    using deep_ctor [OF _ ctor_words(8)] rec_name_writes by (simp add: VisitRecordType_def del: seqP.simps)
next
  case (enum_type d N t)
  then show ?case
    using deep_ctor [OF _ ctor_words(9)] rec_name_writes by (simp add: VisitEnumType_def del: seqP.simps)
next
  case (function_type cc w r R ps Ts t v)
  let ?k = "if templates print then ''Mtype'' else ''type''"
  have k: "word ?k" by (simp add: word_simps)
  have ok: "ty_ok R" "\<forall>T \<in> set Ts. ty_ok T"
    using function_type by (auto simp: list_all2_conv_all_nth in_set_conv_nth)
  have "list_all2 (\<lambda>q t. deep (\<lambda>n. writes anywhere (printType_opt (mk_cprint n print config) (getTypePtrOrNull q)) [t])) ps (map ty_term Ts)"
    using function_type(4) by (auto simp: list_all2_conv_all_nth intro: opt_type_prints)
  then have "deep (\<lambda>n. writes anywhere (plist ps (\<lambda>q. printType_opt (mk_cprint n print config) (getTypePtrOrNull q))) [list_term (map ty_term Ts)])"
    by (rule deep_plist)
  with function_type(3) have "deep (\<lambda>n. writes anywhere (type_dispatch print (mk_cprint n print config) t (FunctionProtoType cc v r ps))
      [ty_term (Function ?k w v R Ts)])"
    unfolding type_dispatch.simps VisitFunctionProtoType_def coq_type_def ty_term.simps
    by (elim conjE) (erule (1) eventually_elim2, rule writes_function [OF k function_type(1)])
  with ok show ?case by simp
next
  case (same t node q T)
  have "type_dispatch print (mk_cprint n print config) t node = printQualType (mk_cprint n print config) q" for n
    using same(1)
    by cases
      (simp_all add: VisitAttributedType_def VisitParenType_def VisitElaboratedType_def VisitSubstTemplateTypeParmType_def
        VisitMacroQualifiedType_def VisitUsingType_def VisitTypedefType_def PRINT_ALIAS_def VisitAutoType_def
        VisitDeducedType_def VisitTemplateSpecializationType_def VisitDecltypeType_def VisitTypeOfExprType_def
        VisitDependentNameType_def assertA_def Let_def)
  with same show ?case by simp
next
  case (name_shared d n)
  have "structured_printName print (mk_cprint k print config) d = put (NAME_PREFIX # decimal n)" for k
    using name_shared reference_simps(3) by (simp add: structured_printName_def)
  with writes_sym [OF word_reference] show ?case by simp
next
  case (name_path d N)
  then have "structured_printName print (mk_cprint k print config) d = printName_path (mk_cprint k print config) d" for k
    by (simp add: structured_printName_def no_reference_def reference_simps(4))
  with name_path show ?case by simp
next
  case (name_instance d temp args N as)
  have e: "structured_printName print (mk_cprint k print config) d = seqP [ctor ''Ninst'' False,
      printName_path (mk_cprint k print config) d, nbsp, plist args (\<lambda>arg. printTemplateArgument (mk_cprint k print config) arg), end_ctor]" for k
    using name_instance(1-3) by (simp add: structured_printName_def no_reference_def reference_simps(4) printTemplateArgumentList_def)
  have "list_all2 (\<lambda>x t. deep (\<lambda>n. writes anywhere (printTemplateArgument (mk_cprint n print config) x) [t])) args (map arg_term as)"
    using name_instance(6) by (auto simp: list_all2_conv_all_nth)
  then have "deep (\<lambda>n. writes anywhere (plist args (printTemplateArgument (mk_cprint n print config))) [list_term (map arg_term as)])"
    by (rule deep_plist)
  moreover have "\<forall>a \<in> set as. arg_ok a" using name_instance(6) by (auto simp: list_all2_conv_all_nth in_set_conv_nth)
  ultimately show ?case
    using name_instance(5) deep_ctor2 [of anywhere] e by (simp add: word_simps del: seqP.simps)
next
  case (name_template d dct N)
  let ?ps = "getTemplateParameters (named_of (getContext config) dct)" and ?n = "\<lambda>p. getNameAsString (named_of (getContext config) p)"
  have e: "structured_printName print (mk_cprint k print config) d = seqP [ctor ''Ninst'' True,
      printName_path (mk_cprint k print config) d, nbsp, template_parameters_as_args (mk_cprint k print config) dct, end_ctor]" for k
    using name_template(1,2) by (simp add: structured_printName_def no_reference_def reference_simps(4) guard_ctor_def seqA_assoc)
  have "writes anywhere (guard_ctor ''Atype'' False [guard_ctor ''Tparam'' False [str x]]) [arg_term (Param_arg x)]" for x
    unfolding guard_ctor_def arg_term.simps by (rule writes_par, (rule composing | (simp add: word_simps; fail))+)
  then have "writes anywhere (template_parameters_as_args (mk_cprint k print config) dct) [list_term (map (arg_term \<circ> (Param_arg \<circ> ?n)) ?ps)]" for k
    unfolding template_parameters_as_args_def by (intro writes_plist) (simp add: list_all2_conv_all_nth)
  then show ?case
    using name_template(4) deep_ctor2 [of anywhere] e by (simp add: word_simps comp_def del: seqP.simps arg_term.simps)
next
  case (global_path d c A)
  then show ?case
    using deep_ctor [of anywhere] printName_path_simps(1) by (simp add: word_simps del: seqP.simps)
next
  case (scoped_path d c N A)
  then show ?case
    using deep_ctor2 [of anywhere] printName_path_simps(2) rec_name_writes by (simp add: word_simps del: seqP.simps)
next
  case (function_atom d F Ts)
  let ?ps = "parameters (named_of (getContext config) d)"
  have "list_all2 (\<lambda>p t. deep (\<lambda>n. writes anywhere (printQualType (mk_cprint n print config) (getType (named_of (getContext config) p))) [t])) ?ps (map ty_term Ts)"
    using function_atom(4) by (auto simp: list_all2_conv_all_nth)
  then have l: "deep (\<lambda>n. writes anywhere (printFunctionParamTypes (mk_cprint n print config) d) [list_term (map ty_term Ts)])"
    unfolding printFunctionParamTypes_def Let_def mk_cprint_fields by (rule deep_plist)
  have f: "deep (\<lambda>n. writes anywhere (printFunctionName (mk_cprint n print config) d) [fun_term F])" using function_atom(3) by simp
  have "deep (\<lambda>n. writes anywhere (function_name (mk_cprint n print config) d) [atom_term (Function_name (qualifiers (getContext config) d) F Ts)])"
    unfolding function_name_def guard_ctor_def atom_term.simps printFunctionQualifiers_put mk_cprint_fields
    by (rule eventually_elim2 [OF f l], rule writes_par,
      (rule composing word_qualifiers | (rule emits_writes, assumption) | (simp add: word_simps; fail))+)
  moreover have "\<forall>T \<in> set Ts. ty_ok T" using function_atom(4) by (auto simp: list_all2_conv_all_nth in_set_conv_nth)
  ultimately show ?case using function_atom(1,3) by (auto simp: printAtomicName_simps(5))
next
  case (operator oo)
  have "writes anywhere (seqP [ctor ''Nop'' False, seqP [printOverloadableOperator oo], end_ctor]) [fun_term (Operator oo)]"
    unfolding fun_term.simps
    by (rule writes_par, (rule composing emits_writes [OF writes_operator [OF operator]] | (simp add: word_simps; fail))+)
  then show ?case by (simp add: printFunctionName_def guard_ctor_def del: seqP.simps)
next
  case (conversion q T)
  then show ?case
    using deep_ctor [of anywhere] by (simp add: printFunctionName_def guard_ctor_def seqP_single word_simps del: seqP.simps)
next
  case (named_function n)
  have "writes anywhere (seqP [ctor ''Nf'' False, seqP [str n], end_ctor]) [fun_term (Named_function n)]"
    unfolding fun_term.simps by (rule writes_par, (rule composing | (simp add: word_simps; fail))+)
  then show ?case by (simp add: printFunctionName_def guard_ctor_def del: seqP.simps)
next
  case (literal_operator n)
  have "writes anywhere (seqP [ctor ''Nop_lit'' False, seqP [str n, nbsp], end_ctor]) [fun_term (Literal_operator n)]"
    unfolding fun_term.simps by (rule writes_par, (rule composing | (simp add: word_simps; fail))+)
  then show ?case by (simp add: printFunctionName_def guard_ctor_def del: seqP.simps)
next
  case (integral_arg q T v)
  then have t: "deep (\<lambda>n. writes anywhere (printQualType (mk_cprint n print config) q) [ty_term T])" by simp
  have "deep (\<lambda>n. writes anywhere (guard_ctor ''Avalue'' False [guard_ctor ''Eint'' False [putZ v, nbsp, printQualType (mk_cprint n print config) q]])
      [arg_term (Int_arg v T)])"
    unfolding guard_ctor_def arg_term.simps
    by (rule eventually_mono [OF t], rule writes_par,
      (rule composing emits_putZ | (rule emits_writes, assumption) | (simp add: word_simps terms_tokens_def; fail))+)
  with integral_arg show ?case by simp
next
  case (null_arg q)
  have "writes anywhere (guard_ctor ''Avalue'' False [put ''Enull'']) [arg_term Null_arg]"
    unfolding guard_ctor_def arg_term.simps by (rule writes_par, (rule composing | (simp add: word_simps; fail))+)
  then show ?case by simp
next
  case (pack_arg args as)
  have "list_all2 (\<lambda>x t. deep (\<lambda>n. writes anywhere (printTemplateArgument (mk_cprint n print config) x) [t])) args (map arg_term as)"
    using pack_arg by (auto simp: list_all2_conv_all_nth)
  then have "deep (\<lambda>n. writes anywhere (plist args (printTemplateArgument (mk_cprint n print config))) [list_term (map arg_term as)])"
    by (rule deep_plist)
  moreover have "\<forall>a \<in> set as. arg_ok a" using pack_arg by (auto simp: list_all2_conv_all_nth in_set_conv_nth)
  ultimately show ?case
    using deep_ctor [of anywhere] by (simp add: guard_ctor_def seqP_single word_simps del: seqP.simps)
next
  case (type_arg q T)
  then show ?case
    using deep_ctor [of anywhere] by (simp add: guard_ctor_def seqP_single word_simps del: seqP.simps)
next
  case (template_arg d N)
  then show ?case
    using deep_ctor [of anywhere] rec_name_writes by (simp add: guard_ctor_def seqP_single word_simps del: seqP.simps)
next
  case (namespace_atom d)
  have "writes anywhere (put ''Nanonymous'') [Sym ''Nanonymous'']" by (rule writes_sym) (simp add: word_simps)
  with namespace_atom show ?case by (simp add: printAtomicName_simps(4))
qed (simp_all add: printAtomicName_simps writes_Nid [simplified] printFunctionName_def writes_sym word_simps)

text \<open>The same in any setting.\<close>

lemma deep_weaken: "deep (\<lambda>n. writes anywhere (p n) ts) \<Longrightarrow> deep (\<lambda>n. writes Q (p n) ts)"
  by (erule eventually_mono) (erule writes_weaken, simp)

lemma type_prints:
  "denotes print (getContext config) t T \<Longrightarrow>
     deep (\<lambda>n. writes Q (printType print (mk_cprint n print config) t) [ty_term T]) \<and> ty_ok T"
  "qual_denotes print (getContext config) q T' \<Longrightarrow>
     deep (\<lambda>n. writes Q (printQualType (mk_cprint n print config) q) [ty_term T']) \<and> ty_ok T'"
  by (drule all_print, elim conjE, rule conjI, erule deep_weaken, assumption)+

lemma structured_name_prints:
  "name_denotes print (getContext config) d N \<Longrightarrow>
   deep (\<lambda>n. writes Q (structured_printName print (mk_cprint n print config) d) [name_term N])"
  by (drule all_print, elim conjE, erule deep_weaken)

lemma rec_name_prints:
  "name_denotes print (getContext config) d N \<Longrightarrow> deep (\<lambda>n. writes Q (rec_printName (mk_cprint n print config) d) [name_term N])"
  by (drule all_print, elim conjE, drule rec_name_writes, erule deep_weaken)

section \<open>Reading back\<close>

text \<open>
  C4. A type that stands for a term of Coq is written so that Coq reads that term: with enough levels for its depth
  \<open>printType\<close> returns from every state that is between two tokens, and the text it has written then parses as the term,
  whatever the indentation.  No other type that the printer knows is written like that.
\<close>

theorem printType_reads_back:
  assumes "denotes print (getContext config) t T"
  shows "\<exists>m. \<forall>n \<ge> m. \<forall>s. snd (reader (fmt s)) = Between \<longrightarrow>
    (\<exists>s' u. printType print (mk_cprint n print config) t s = Inr s' \<and> out (fmt s') = out (fmt s) @ u
       \<and> parse_terms u = Some [ty_term T] \<and> (\<forall>T'. ty_ok T' \<longrightarrow> parse_terms u = Some [ty_term T'] \<longrightarrow> T' = T))"
proof -
  from all_print(1) [OF assms] obtain m where
    m: "\<forall>n \<ge> m. writes anywhere (printType print (mk_cprint n print config) t) [ty_term T]" and ok: "ty_ok T"
    unfolding eventually_sequentially by blast
  have "\<exists>s' u. printType print (mk_cprint n print config) t s = Inr s' \<and> out (fmt s') = out (fmt s) @ u
      \<and> parse_terms u = Some [ty_term T] \<and> (\<forall>T'. ty_ok T' \<longrightarrow> parse_terms u = Some [ty_term T'] \<longrightarrow> T' = T)"
    if "m \<le> n" "snd (reader (fmt s)) = Between" for n and s :: pstate
    using writes_parse [OF m [rule_format, OF that(1)] TrueI that(2)] term_inject(5) ok by fastforce
  then show ?thesis by blast
qed

text \<open>The type (2) of functions that take a pointer (1) to constant \<open>int\<close> (0) and return \<open>void\<close> (3).\<close>

definition function_ast :: ASTContext where
  "function_ast = ast0\<lparr>type_of := (\<lambda>t. type0\<lparr>type_node :=
     (if t = 0 then BuiltinType BT_Int else if t = 1 then PointerType ((qual0 0)\<lparr>isLocalConstQualified := True\<rparr>)
      else if t = 2 then FunctionProtoType CC_C False (qual0 3) [qual0 1] else BuiltinType BT_Void)\<rparr>)\<rparr>"

theorem printType_reads_back_witness:
  "\<exists>n s'. printType printer0 (mk_cprint n printer0 (config0 function_ast)) 2 pstate_init = Inr s'
     \<and> parse_terms (out (fmt s')) =
         Some [ty_term (Function ''type'' ''CC_C'' False (Prim ''Tvoid'') [Ptr (Const (Prim ''Tint''))])]"
proof -
  let ?T = "Function ''type'' ''CC_C'' False (Prim ''Tvoid'') [Ptr (Const (Prim ''Tint''))]"
  let ?q = "(qual0 0)\<lparr>isLocalConstQualified := True\<rparr>"
  have f: "type_node (type_of function_ast 0) = BuiltinType BT_Int" "type_node (type_of function_ast 1) = PointerType ?q"
    "type_node (type_of function_ast 2) = FunctionProtoType CC_C False (qual0 3) [qual0 1]"
    "type_node (type_of function_ast 3) = BuiltinType BT_Void"
    by (simp_all add: function_ast_def)
  have c: "nc_lookup (types_nc (name_cache printer0)) t = 0" "templates printer0 = False" for t
    by (simp_all add: printer0_def Cache_init_def NameCache_init_def nc_lookup_def)
  have v: "isVolatileQualified function_ast ?q = False"
    by (simp add: isVolatileQualified_def function_ast_def qual0_def type0_def)
  have "denotes printer0 function_ast 0 (Prim ''Tint'')" "denotes printer0 function_ast 3 (Prim ''Tvoid'')"
    by (auto intro!: type_node builtin simp: c f)
  then have "qual_denotes printer0 function_ast ?q (Const (Prim ''Tint''))"
    "qual_denotes printer0 function_ast (qual0 3) (Prim ''Tvoid'')"
    using qual [of ?q 0 printer0 function_ast "Prim ''Tint''"] qual [of "qual0 3" 3 printer0 function_ast "Prim ''Tvoid''"] v
    by (simp_all add: with_quals_def)
  moreover from this(1) have "denotes printer0 function_ast 1 (Ptr (Const (Prim ''Tint'')))"
    by (intro type_node) (simp_all add: c f pointer del: One_nat_def)
  ultimately have d: "denotes printer0 (getContext (config0 function_ast)) 2 ?T"
    using function_type [of CC_C "''CC_C''" printer0 function_ast "qual0 3" "Prim ''Tvoid''" "[qual0 1]"
        "[Ptr (Const (Prim ''Tint''))]" 2 False]
    by (intro type_node) (simp_all add: c f del: One_nat_def)
  have i: "snd (reader (fmt pstate_init)) = Between" "out (fmt pstate_init) = []"
    by (simp_all add: reader_def pstate_init_def Formatter_init_def)
  from printType_reads_back [OF d] i(1) obtain n s' u where
    "printType printer0 (mk_cprint n printer0 (config0 function_ast)) 2 pstate_init = Inr s'"
    "out (fmt s') = out (fmt pstate_init) @ u" "parse_terms u = Some [ty_term ?T]" by blast
  with i(2) show ?thesis by (intro exI [of _ n] exI [of _ s']) simp
qed

text \<open>
  C7. The same for the names of declarations: paths of named scopes, functions with the types of their parameters, instances of
  templates and names in the cache.  The text of a name parses as the term of the path, and no other name is written like that.
\<close>

theorem printName_reads_back:
  assumes "name_denotes print (getContext config) d N"
  shows "\<exists>m. \<forall>n \<ge> m. \<forall>s. snd (reader (fmt s)) = Between \<longrightarrow>
    (\<exists>s' u. printName print (mk_cprint n print config) d True s = Inr s' \<and> out (fmt s') = out (fmt s) @ u
       \<and> parse_terms u = Some [name_term N] \<and> (\<forall>N'. name_ok N' \<longrightarrow> parse_terms u = Some [name_term N'] \<longrightarrow> N' = N))"
proof -
  have "deep (\<lambda>n. writes anywhere (printName print (mk_cprint n print config) d True) [name_term N])" and ok: "name_ok N"
    using all_print(4) [OF assms] by (auto simp: printName_def intro: writes_withDecl elim: eventually_mono)
  then obtain m where m: "\<forall>n \<ge> m. writes anywhere (printName print (mk_cprint n print config) d True) [name_term N]"
    unfolding eventually_sequentially by blast
  have "\<exists>s' u. printName print (mk_cprint n print config) d True s = Inr s' \<and> out (fmt s') = out (fmt s) @ u
      \<and> parse_terms u = Some [name_term N] \<and> (\<forall>N'. name_ok N' \<longrightarrow> parse_terms u = Some [name_term N'] \<longrightarrow> N' = N)"
    if "m \<le> n" "snd (reader (fmt s)) = Between" for n and s :: pstate
    using writes_parse [OF m [rule_format, OF that(1)] TrueI that(2)] term_inject(1) ok by fastforce
  then show ?thesis by blast
qed

text \<open>The variable \<open>v\<close> in the namespace \<open>a\<close>.\<close>

theorem printName_reads_back_witness:
  "\<exists>n s'. printName printer0 (mk_cprint n printer0 (config0 example_namespace)) 2 True pstate_init = Inr s'
     \<and> parse_terms (out (fmt s')) = Some [name_term (Scoped (Toplevel (Ident ''a'')) (Ident ''v''))]"
proof -
  have k: "isaD example_namespace NamedDecl 1" "isaD example_namespace NamedDecl 2"
    "isNamed example_namespace 1" "isNamed example_namespace 2"
    "described_template example_namespace 1 = None" "described_template example_namespace 2 = None"
    "recoverSpecialization example_namespace 1 = None" "recoverSpecialization example_namespace 2 = None"
    "classifyContext example_namespace 0 = Global" "classifyContext example_namespace 1 = Scope"
    "getKind (decl example_namespace 1) \<in> identifier_kinds" "getKind (decl example_namespace 2) \<in> identifier_kinds" by code_simp+
  have f: "getDeclContext (named_of example_namespace 1) = Some 0" "getDeclContext (named_of example_namespace 2) = Some 1"
    "getName example_namespace 1 = ''a''" "getName example_namespace 2 = ''v''" by code_simp+
  have "no_reference printer0 example_namespace d" if "isaD example_namespace NamedDecl d" for d
    using that by (simp add: no_reference_def printer0_def Cache_init_def NameCache_init_def nc_lookup_def)
  note r = this [OF k(1)] this [OF k(2)]
  have "atom_denotes printer0 example_namespace 1 (Ident ''a'')" "atom_denotes printer0 example_namespace 2 (Ident ''v'')"
    using named_atom [OF k(11,3), of printer0] named_atom [OF k(12,4), of printer0] f(3,4) by simp_all
  note a = this
  have "name_denotes printer0 example_namespace 1 (Toplevel (Ident ''a''))"
    by (rule name_path [OF r(1) k(5,7) global_path [OF f(1) k(9) a(1)]])
  from name_path [OF r(2) k(6,8) scoped_path [OF f(2) k(10) this a(2)]]
  have d: "name_denotes printer0 (getContext (config0 example_namespace)) 2 (Scoped (Toplevel (Ident ''a'')) (Ident ''v''))" by simp
  have i: "snd (reader (fmt pstate_init)) = Between" "out (fmt pstate_init) = []"
    by (simp_all add: reader_def pstate_init_def Formatter_init_def)
  from printName_reads_back [OF d] i(1) obtain n s' u where
    "printName printer0 (mk_cprint n printer0 (config0 example_namespace)) 2 True pstate_init = Inr s'"
    "out (fmt s') = out (fmt pstate_init) @ u"
    "parse_terms u = Some [name_term (Scoped (Toplevel (Ident ''a'')) (Ident ''v''))]" by blast
  with i(2) show ?thesis by (intro exI [of _ n] exI [of _ s']) simp
qed

end
