(* ===== verification/NameProps.thy ===== *)
theory NameProps
  imports PrinterExamples
begin

text \<open>
  What the printers of names guarantee: anonymous declarations of a context get different numbers,
  the parameters of a function different names, and the searches through the enclosing contexts of a
  declaration answer what their descriptions say.
\<close>

section \<open>The number of an anonymous declaration\<close>

text \<open>
  The declarations in the order in which \<open>getAnonymousIndex\<close> counts them: those of an ignorable context
  before the context itself.  \<open>None\<close> marks the contexts that are not entered for lack of fuel.
\<close>

function visited :: "nat \<Rightarrow> ASTContext \<Rightarrow> ptr list \<Rightarrow> ptr option list" where
  "visited n ctx [] = []"
| "visited n ctx (x # xs) =
     (if isDeclContext (decl ctx x) \<and> isIgnorableContext ctx x
      then (case n of 0 \<Rightarrow> [None] | Suc m \<Rightarrow> visited m ctx (decls (decl ctx x))) else [])
     @ Some x # visited n ctx xs"
  by pat_completeness auto

termination
  by (relation "measures [\<lambda>(n, ctx, xs). n, \<lambda>(n, ctx, xs). length xs]") auto

definition entered :: "ASTContext \<Rightarrow> ptr \<Rightarrow> bool" where
  "entered ctx x \<longleftrightarrow> isDeclContext (decl ctx x) \<and> isIgnorableContext ctx x"

definition before :: "ptr \<Rightarrow> ptr option list \<Rightarrow> ptr option list" where
  "before d vs = takeWhile (\<lambda>v. v \<noteq> Some d) vs"

definition anonymous_in :: "ASTContext \<Rightarrow> ptr option list \<Rightarrow> nat" where
  "anonymous_in ctx vs = length (filter (\<lambda>v. case v of Some x \<Rightarrow> isAnonymous ctx x | None \<Rightarrow> False) vs)"

lemma before_append:
  "before d (us @ vs) = (if Some d \<in> set us then before d us else us @ before d vs)"
  by (auto simp: before_def takeWhile_append)

lemma anonymous_in_simps [simp]:
  "anonymous_in ctx [] = 0" "anonymous_in ctx (us @ vs) = anonymous_in ctx us + anonymous_in ctx vs"
  "anonymous_in ctx (Some x # vs) = (if isAnonymous ctx x then 1 else 0) + anonymous_in ctx vs"
  by (simp_all add: anonymous_in_def)

lemma before_not_in: "Some d \<notin> set vs \<Longrightarrow> before d vs = vs"
  by (auto simp: before_def takeWhile_eq_all_conv)

text \<open>The answer of the search, from the list of what it passes.\<close>

definition search_answer :: "ASTContext \<Rightarrow> ptr \<Rightarrow> ptr option list \<Rightarrow> nat \<Rightarrow> stop + bool \<times> nat" where
  "search_answer ctx d vs acc =
     (if None \<in> set (before d vs) then Inl OutOfFuel
      else Inr (Some d \<in> set vs, acc + anonymous_in ctx (before d vs)))"

lemma search_answer_append:
  "search_answer ctx d (us @ vs) acc =
     (case search_answer ctx d us acc of
        Inl x \<Rightarrow> Inl x
      | Inr (found, acc') \<Rightarrow> if found then Inr (True, acc') else search_answer ctx d vs acc')"
  by (auto simp: search_answer_def before_append before_not_in)

lemma search_answer_Cons:
  "search_answer ctx d (Some x # vs) acc =
     (if x = d then Inr (True, acc)
      else search_answer ctx d vs (if isAnonymous ctx x then acc + 1 else acc))"
  by (auto simp: search_answer_def before_def)

lemma search_answer_Nil [simp]: "search_answer ctx d [] acc = Inr (False, acc)"
  by (simp add: search_answer_def before_def)

lemma search_answer_no_fuel [simp]: "search_answer ctx d [None] acc = Inl OutOfFuel"
  by (simp add: search_answer_def before_def)

lemma anonymous_loop_visited:
  assumes "\<not> entered ctx d"
  shows "anonymous_loop n ctx d xs acc = search_answer ctx d (visited n ctx xs) acc"
  using assms
proof (induction n ctx d xs acc rule: anonymous_loop.induct)
  case (2 n ctx d x xs acc)
  show ?case
  proof (cases "x = d")
    case True
    with 2 show ?thesis by (auto simp: entered_def search_answer_Cons)
  next
    case False
    then show ?thesis
      using 2 by (cases n) (auto simp: search_answer_append search_answer_Cons split: sum.split prod.split)
  qed
qed simp

lemma getAnonymousIndex_eq:
  assumes "\<not> entered ctx d" and "getAnonymousIndex fuel ctx c d = Inr i"
  shows "Some d \<in> set (visited fuel ctx (decls (decl ctx c)))
    \<and> i = anonymous_in ctx (before d (visited fuel ctx (decls (decl ctx c))))"
  using assms
  by (auto simp: getAnonymousIndex_def anonymous_loop_visited search_answer_def split: if_splits)

lemma anonymous_in_before_less:
  assumes "Some d \<in> set vs" "isAnonymous ctx d" "Some d \<in> set (before e vs)"
  shows "anonymous_in ctx (before d vs) < anonymous_in ctx (before e vs)"
proof -
  obtain us ws where u: "before e vs = us @ Some d # ws" "Some d \<notin> set us"
    using assms(3) by (meson split_list_first)
  obtain zs where "vs = before e vs @ zs"
    unfolding before_def by (metis takeWhile_dropWhile_id)
  with u have "before d vs = us" by (simp add: before_def takeWhile_append split: if_splits)
  with u assms(2) show ?thesis by simp
qed

lemma before_total:
  assumes "Some d \<in> set vs" "Some e \<in> set vs" "d \<noteq> e"
  shows "Some d \<in> set (before e vs) \<or> Some e \<in> set (before d vs)"
  using assms by (induction vs) (auto simp: before_def)

text \<open>
  C17. Different anonymous declarations that are found in the same context get different numbers, so
  the names \<open>Nanon\<close> are distinct; the contexts that names ignore are no such declarations.
\<close>

theorem getAnonymousIndex_distinct:
  assumes "getAnonymousIndex n ctx c d = Inr i" and "getAnonymousIndex n ctx c e = Inr j"
    and "isAnonymous ctx d" and "isAnonymous ctx e"
    and "\<not> entered ctx d" and "\<not> entered ctx e" and "d \<noteq> e"
  shows "i \<noteq> j"
proof -
  note d = getAnonymousIndex_eq [OF assms(5,1)]
  note e = getAnonymousIndex_eq [OF assms(6,2)]
  from before_total [of d _ e] d e \<open>d \<noteq> e\<close> show ?thesis
    using anonymous_in_before_less [OF _ \<open>isAnonymous ctx d\<close>, of _ e]
      anonymous_in_before_less [OF _ \<open>isAnonymous ctx e\<close>, of _ d]
    by (metis less_irrefl)
qed

theorem getAnonymousIndex_distinct_witness:
  "let ctx = ast0\<lparr>decl := (\<lambda>d. (decl0 d)\<lparr>getKind := (if d = 0 then TranslationUnitDecl else EnumDecl),
                         decls := (if d = 0 then [1, 2] else []), isDeclContext := True\<rparr>)\<rparr>
   in getAnonymousIndex 1 ctx 0 1 = Inr 0 \<and> getAnonymousIndex 1 ctx 0 2 = Inr 1 \<and> (0 :: nat) \<noteq> 1"
  (is "let ctx = ?ctx in _")
proof -
  have k: "ancestors EnumDecl = [EnumDecl, TagDecl, TypeDecl, NamedDecl, Decl]" by code_simp
  have 1: "isAnonymous ?ctx d" "\<not> entered ?ctx d" if "d \<noteq> 0" for d
    using that by (simp_all add: isAnonymous_def isNamed_def entered_def isIgnorableContext_def
        classifyContext_def isa_def k ast0_def named0_def decl0_def)
  have 2: "getAnonymousIndex 1 ?ctx 0 1 = Inr 0" "getAnonymousIndex 1 ?ctx 0 2 = Inr 1"
    using 1 by (simp_all add: getAnonymousIndex_def ast0_def decl0_def isIgnorableContext_def classifyContext_def)
  from getAnonymousIndex_distinct [OF 2 1(1) 1(1) 1(2) 1(2)] 2 show ?thesis by (simp add: Let_def)
qed

section \<open>The names of parameters\<close>

text \<open>The length of the run of parameters with the same name just before a parameter, nearest first.\<close>

definition run :: "string \<Rightarrow> string option list \<Rightarrow> nat" where
  "run n ids = length (takeWhile (\<lambda>i. i = Some n) ids)"

lemma run_simps [simp]:
  "run n [] = 0" "run n (i # ids) = (if i = Some n then Suc (run n ids) else 0)"
  by (simp_all add: run_def)

definition param_text :: "string option \<Rightarrow> nat \<Rightarrow> nat \<Rightarrow> string" where
  "param_text i offset k =
     (case i of
        Some n \<Rightarrow> [DQ] @ n @ (if offset \<noteq> 0 then ''...'' @ decimal offset else []) @ [DQ]
      | None \<Rightarrow> ''(localname.anon '' @ decimal k @ '')'')"

text \<open>The state of the loop after the parameters with the identifiers \<open>ids\<close>, nearest first.\<close>

definition loop_state :: "string option list \<Rightarrow> string option \<Rightarrow> nat \<Rightarrow> bool" where
  "loop_state ids info offset \<longleftrightarrow>
     (case ids of [] \<Rightarrow> info = None | i # is \<Rightarrow> info = i \<and> (\<forall>n. i = Some n \<longrightarrow> offset = run n is))"

lemma param_loop_text:
  assumes "d \<in> set ps" and "loop_state ids info offset" and "length ids = k"
  shows "\<exists>us. \<exists>ws. ps = us @ d # ws \<and> d \<notin> set us
    \<and> (let i = getIdentifier (named_of ctx d);
            before = rev (map (\<lambda>p. getIdentifier (named_of ctx p)) us) @ ids in
       param_loop ctx d ps k info offset =
         put (param_text i (case i of Some n \<Rightarrow> run n before | None \<Rightarrow> 0) (length before)))"
  using assms
proof (induction ps arbitrary: ids info offset k)
  case (Cons p ps)
  let ?i = "\<lambda>p. getIdentifier (named_of ctx p)"
  let ?o = "if ?i p = info then offset + 1 else 0"
  have o: "?o = run n ids" if "?i p = Some n" for n
    using Cons.prems(2) that by (cases ids) (auto simp: loop_state_def)
  show ?case
  proof (cases "p = d")
    case True
    then show ?thesis
      using o Cons.prems(3)
      by (intro exI [of _ "[]"] exI [of _ ps]) (auto simp: Let_def param_text_def puts_def split: option.split)
  next
    case False
    have "loop_state (?i p # ids) (?i p) ?o" using o by (simp add: loop_state_def)
    from Cons.IH [OF _ this] False Cons.prems obtain us ws where
      "ps = us @ d # ws" "d \<notin> set us"
      "let i = ?i d; before = rev (map ?i us) @ ?i p # ids in
       param_loop ctx d ps (Suc k) (?i p) ?o =
         put (param_text i (case i of Some n \<Rightarrow> run n before | None \<Rightarrow> 0) (length before))"
      by fastforce
    with False show ?thesis
      by (intro exI [of _ "p # us"] exI [of _ ws]) (simp add: Let_def)
  qed
qed simp

lemma run_append: "\<forall>i \<in> set is. i = Some n \<Longrightarrow> run n (is @ ids) = length is + run n ids"
  by (induction "is") simp_all

text \<open>Names without double quotes and dots, as identifiers are; the text then gives back what it was made of.\<close>

definition spelled :: "string option \<Rightarrow> bool" where
  "spelled i \<longleftrightarrow> (\<forall>n. i = Some n \<longrightarrow> DQ \<notin> set n \<and> CHR ''.'' \<notin> set n)"

lemma named_text_inject:
  assumes "DQ \<notin> set m" "CHR ''.'' \<notin> set m" "DQ \<notin> set n" "CHR ''.'' \<notin> set n"
    and "[DQ] @ m @ (if a \<noteq> 0 then ''...'' @ decimal a else []) @ [DQ]
       = [DQ] @ n @ (if b \<noteq> 0 then ''...'' @ decimal b else []) @ [DQ]"
  shows "m = n \<and> a = b"
proof -
  let ?f = "\<lambda>a. if a \<noteq> 0 then ''...'' @ decimal a else []"
  have tw: "takeWhile (\<lambda>c. c \<noteq> DQ \<and> c \<noteq> CHR ''.'') (m @ ?f a @ [DQ]) = m"
    if "DQ \<notin> set m" "CHR ''.'' \<notin> set m" for m a
    using that by (auto simp: takeWhile_append takeWhile_eq_all_conv)
  have eq: "m @ ?f a @ [DQ] = n @ ?f b @ [DQ]" using assms(5) by simp
  with tw [OF assms(1,2), of a] tw [OF assms(3,4), of b] have "m = n" by metis
  with eq have "?f a = ?f b" by simp
  then show ?thesis using \<open>m = n\<close> decimal_inject by (auto split: if_splits)
qed

lemma param_text_inject:
  assumes "spelled i" "spelled j" "param_text i a k = param_text j b l"
  shows "i = j \<and> (if i = None then k = l else a = b)"
proof (cases i)
  case None
  then show ?thesis
    using assms(3) by (cases j) (auto simp: param_text_def dest: decimal_inject)
next
  case (Some m)
  then show ?thesis
  proof (cases j)
    case 2: (Some n)
    from assms Some 2 named_text_inject [of m n a b] show ?thesis
      by (simp add: param_text_def spelled_def)
  qed (use assms(3) in \<open>auto simp: param_text_def\<close>)
qed

text \<open>Equal names only occur in runs, as those of an expanded pack.\<close>

definition names_in_runs :: "string option list \<Rightarrow> bool" where
  "names_in_runs ids \<longleftrightarrow>
     (\<forall>us vs ws n. ids = us @ [Some n] @ vs @ [Some n] @ ws \<longrightarrow> set vs \<subseteq> {Some n})"

lemma printParamName_text:
  assumes "printParamName cprint d s = Inr s'" and "getDeclContext (named_of (getContext cprint) d) = Some fd"
    and "d \<in> set (parameters (named_of (getContext cprint) fd))"
  shows "\<exists>us. \<exists>ws. parameters (named_of (getContext cprint) fd) = us @ d # ws \<and> d \<notin> set us
    \<and> (let i = getIdentifier (named_of (getContext cprint) d);
            before = rev (map (\<lambda>p. getIdentifier (named_of (getContext cprint) p)) us) in
       out (fmt s') = out (fmt s) @ pending (fmt s)
         @ param_text i (case i of Some n \<Rightarrow> run n before | None \<Rightarrow> 0) (length before))"
proof -
  have "loop_state [] None 0" by (simp add: loop_state_def)
  from param_loop_text [OF assms(3) this refl, of "getContext cprint"] assms(1,2) show ?thesis
    by (auto simp: printParamName_def Let_def run_defs put_def fmtA_def split: if_splits)
qed

lemma earlier_prefix:
  assumes "us @ d # ws = us' @ e # ws'" and "length us < length us'"
  shows "\<exists>vs. us' = us @ d # vs"
  using assms by (auto simp: append_eq_append_conv2 Cons_eq_append_conv)

lemma later_run_longer:
  fixes ident :: "ptr \<Rightarrow> string option"
  assumes "names_in_runs (map ident (us @ d # vs @ e # ws))" and "ident d = Some n" and "ident e = Some n"
  shows "run n (rev (map ident us)) < run n (rev (map ident (us @ d # vs)))"
proof -
  have "set (map ident vs) \<subseteq> {Some n}"
    using assms(1) [unfolded names_in_runs_def, rule_format, of "map ident us" n "map ident vs" "map ident ws"]
      assms(2,3) by simp
  then have "\<forall>i \<in> set (rev (map ident vs)). i = Some n" by auto
  from run_append [OF this, of "Some n # rev (map ident us)"] assms(2) show ?thesis by simp
qed

lemma param_texts_differ:
  fixes ident :: "ptr \<Rightarrow> string option"
  assumes "ps = us @ d # ws" and "us' = us @ d # vs" and "ps = us' @ e # ws'"
    and "names_in_runs (map ident ps)" and "\<forall>p \<in> set ps. spelled (ident p)"
  shows "param_text (ident d) (case ident d of Some n \<Rightarrow> run n (rev (map ident us)) | None \<Rightarrow> 0) (length us)
     \<noteq> param_text (ident e) (case ident e of Some n \<Rightarrow> run n (rev (map ident us')) | None \<Rightarrow> 0) (length us')"
proof
  assume "param_text (ident d) (case ident d of Some n \<Rightarrow> run n (rev (map ident us)) | None \<Rightarrow> 0) (length us)
     = param_text (ident e) (case ident e of Some n \<Rightarrow> run n (rev (map ident us')) | None \<Rightarrow> 0) (length us')"
  note eq = this
  have "d \<in> set ps" unfolding assms(1) by simp
  moreover have "e \<in> set ps" unfolding assms(3) by simp
  ultimately have sp: "spelled (ident d)" "spelled (ident e)" using assms(5) by auto
  show False
  proof (cases "ident d")
    case None
    with param_text_inject [OF sp eq] assms(2) show False by simp
  next
    case (Some n)
    with param_text_inject [OF sp eq] have e: "ident e = Some n" by (simp split: if_splits)
    from param_text_inject [OF sp eq] have r: "run n (rev (map ident us)) = run n (rev (map ident us'))"
      unfolding Some e by simp
    have "ps = us @ d # vs @ e # ws'" using assms(2,3) by simp
    with later_run_longer [of ident us d vs e ws' n] assms(2,4) Some e r show False by simp
  qed
qed

text \<open>
  C18. Different parameters of a function print as different names, when parameters of equal names
  stand next to each other (as after the expansion of a pack) and identifiers have no dots or quotes.
\<close>

theorem printParamName_distinct:
  assumes "getDeclContext (named_of (getContext cprint) d) = Some fd"
    and "getDeclContext (named_of (getContext cprint) e) = Some fd"
    and "d \<in> set (parameters (named_of (getContext cprint) fd))"
    and "e \<in> set (parameters (named_of (getContext cprint) fd))"
    and "names_in_runs (map (\<lambda>p. getIdentifier (named_of (getContext cprint) p))
          (parameters (named_of (getContext cprint) fd)))"
    and "\<forall>p \<in> set (parameters (named_of (getContext cprint) fd)). spelled (getIdentifier (named_of (getContext cprint) p))"
    and "printParamName cprint d s = Inr s1" and "printParamName cprint e s = Inr s2"
    and "d \<noteq> e"
  shows "out (fmt s1) \<noteq> out (fmt s2)"
proof -
  let ?ps = "parameters (named_of (getContext cprint) fd)"
  let ?i = "\<lambda>p. getIdentifier (named_of (getContext cprint) p)"
  let ?t = "\<lambda>d us. param_text (?i d) (case ?i d of Some n \<Rightarrow> run n (rev (map ?i us)) | None \<Rightarrow> 0) (length us)"
  from printParamName_text [OF assms(7,1,3)] obtain us ws where
    d: "?ps = us @ d # ws" "out (fmt s1) = out (fmt s) @ pending (fmt s) @ ?t d us"
    by (simp only: Let_def length_rev length_map) blast
  from printParamName_text [OF assms(8,2,4)] obtain us' ws' where
    e: "?ps = us' @ e # ws'" "out (fmt s2) = out (fmt s) @ pending (fmt s) @ ?t e us'"
    by (simp only: Let_def length_rev length_map) blast
  have de: "us @ d # ws = us' @ e # ws'" using d(1) e(1) by simp
  consider "length us < length us'" | "length us' < length us" | "length us = length us'" by linarith
  then have "?t d us \<noteq> ?t e us'"
  proof cases
    case 1
    from earlier_prefix [OF de 1] obtain vs where "us' = us @ d # vs" ..
    from param_texts_differ [OF d(1) this e(1) assms(5,6)] show ?thesis .
  next
    case 2
    from earlier_prefix [OF de [symmetric] 2] obtain vs where "us = us' @ e # vs" ..
    from param_texts_differ [OF e(1) this d(1) assms(5,6)] show ?thesis by (rule not_sym)
  next
    case 3
    with de \<open>d \<noteq> e\<close> show ?thesis by simp
  qed
  with d e show ?thesis by simp
qed

text \<open>A function (0) with two parameters \<open>a\<close>, as from a pack, and an unnamed one.\<close>

definition example_params :: ASTContext where
  "example_params = ast0\<lparr>
     decl := (\<lambda>d. (decl0 d)\<lparr>getKind := (if d = 0 then FunctionDecl else ParmVarDecl)\<rparr>),
     named_of := (\<lambda>d. named0\<lparr>getIdentifier := (if d = 1 \<or> d = 2 then Some ''a'' else None),
                             getDeclContext := Some 0, isFunctionOrMethod := True,
                             parameters := [1, 2, 3]\<rparr>)\<rparr>"

theorem printParamName_distinct_witness:
  "\<exists>s1 s2. printParamName (config0 example_params) 1 pstate_init = Inr s1
     \<and> printParamName (config0 example_params) 2 pstate_init = Inr s2
     \<and> out (fmt s1) = [DQ] @ ''a'' @ [DQ] \<and> out (fmt s2) = [DQ] @ ''a...1'' @ [DQ]
     \<and> out (fmt s1) \<noteq> out (fmt s2)"
proof -
  have k: "isaD example_params FunctionDecl 0" by code_simp
  have "decimal 1 = ''1''" by code_simp
  with k obtain s1 s2 where
    p: "printParamName (config0 example_params) 1 pstate_init = Inr s1"
       "printParamName (config0 example_params) 2 pstate_init = Inr s2"
       "out (fmt s1) = [DQ] @ ''a'' @ [DQ]" "out (fmt s2) = [DQ] @ ''a...1'' @ [DQ]"
    by (simp add: printParamName_def Let_def run_defs put_def puts_def fmtA_def example_params_def
        ast0_def named0_def pstate_init_def Formatter_init_def pending_def)
  have r: "names_in_runs [Some ''a'', Some ''a'', None]"
    by (auto simp: names_in_runs_def Cons_eq_append_conv append_eq_Cons_conv)
  have "out (fmt s1) \<noteq> out (fmt s2)"
    by (rule printParamName_distinct [of "config0 example_params" 1 0 2, OF _ _ _ _ _ _ p(1,2)])
      (use r in \<open>simp_all add: example_params_def named0_def spelled_def ast0_def\<close>)
  with p show ?thesis by blast
qed

section \<open>Searches through enclosing contexts\<close>

text \<open>\<open>chain ctx c cs\<close>: \<open>cs\<close> are the context \<open>c\<close> and its parents, up to one that has none.\<close>

inductive context_chain :: "ASTContext \<Rightarrow> ptr option \<Rightarrow> ptr list \<Rightarrow> bool" for ctx where
  top: "context_chain ctx None []"
| parent: "context_chain ctx (getContextParent (naming_of ctx c)) cs \<Longrightarrow> context_chain ctx (Some c) (c # cs)"

inductive_cases context_chain_Cons: "context_chain ctx (Some c) cs"

lemma any_context_chain:
  "context_chain ctx c cs \<Longrightarrow> length cs \<le> n \<Longrightarrow> any_context n ctx p c = Inr (\<exists>x \<in> set cs. p x)"
proof (induction arbitrary: n rule: context_chain.induct)
  case (parent c cs)
  then show ?case by (cases n) auto
qed simp

text \<open>
  C22. \<open>isTemplate\<close> decides whether the declaration or one of the contexts around it is a template.  \<open>isSpecialized\<close>
  decides the same for specializations, but only for declarations that are neither special members that clang
  declares implicitly nor enumerators: of those it answers no, also inside a specialization.
\<close>

theorem specialized_template_chain:
  assumes "context_chain ctx (getDeclContext (named_of ctx d)) cs" and "length cs \<le> n"
  shows "isSpecialized n ctx d =
      Inr (\<not> isImplicitSpecialMethod ctx d \<and> \<not> isaD ctx EnumConstantDecl d
           \<and> (\<exists>x \<in> set (d # cs). recoverSpecialization ctx x \<noteq> None))
    \<and> isTemplate n ctx d = Inr (\<exists>x \<in> set (d # cs). recoverTemplate ctx x \<noteq> None)"
  using any_context_chain [OF assms]
  by (simp add: isSpecialized_def isTemplate_def)

text \<open>A member function (2) of a class template specialization (1).\<close>

definition example_member :: ASTContext where
  "example_member = ast0\<lparr>
     decl := (\<lambda>d. (decl0 d)\<lparr>getKind := (if d = 0 then TranslationUnitDecl
                                  else if d = 1 then ClassTemplateSpecializationDecl else CXXMethodDecl)\<rparr>),
     named_of := (\<lambda>d. named0\<lparr>getDeclContext := (if d = 0 then None else Some (d - 1))\<rparr>),
     naming_of := (\<lambda>d. naming0\<lparr>getContextParent := (if d = 0 then None else Some (d - 1)),
                     getSpecializedTemplate := (if d = 1 then Some 3 else None),
                     getTemplateArgs := (if d = 1 then Some [TAType (qual0 0)] else None)\<rparr>)\<rparr>"

theorem specialized_template_chain_witness:
  "context_chain example_member (Some 1) [1, 0] \<and> isSpecialized 2 example_member 2 = Inr True
   \<and> isTemplate 2 example_member 2 = Inr False"
proof -
  have p: "getContextParent (naming_of example_member d) = (if d = 0 then None else Some (d - 1))" for d
    by (simp add: example_member_def)
  have c: "context_chain example_member (Some 1) [1, 0]"
    by (intro context_chain.parent) (simp add: p context_chain.intros)
  have k: "isImplicitSpecialMethod example_member 2 = False" "isaD example_member EnumConstantDecl 2 = False"
    "recoverSpecialization example_member 1 \<noteq> None" "recoverTemplate example_member 0 = None"
    "recoverTemplate example_member 1 = None" "recoverTemplate example_member 2 = None"
    by code_simp+
  have g: "getDeclContext (named_of example_member 2) = Some 1" by (simp add: example_member_def)
  from specialized_template_chain [of example_member 2 "[1, 0]" 2] c k show ?thesis
    by (simp add: g del: One_nat_def not_None_eq)
qed

lemma ancestor_loop_chain:
  assumes "context_chain ctx (Some p) cs" and "length cs \<le> n + 1" and "\<exists>c \<in> set cs. \<not> isIgnorableContext ctx c"
  shows "ancestor_loop n ctx p = Inr (the (find (\<lambda>c. \<not> isIgnorableContext ctx c) cs))"
  using assms
proof (induction n arbitrary: p cs)
  case 0
  then show ?case
    by (subst ancestor_loop.simps) (auto elim!: context_chain_Cons)
next
  case (Suc n)
  from Suc.prems(1) obtain cs' where
    cs: "cs = p # cs'" "context_chain ctx (getContextParent (naming_of ctx p)) cs'"
    by (auto elim: context_chain_Cons)
  show ?case
  proof (cases "isIgnorableContext ctx p")
    case True
    with Suc.prems(3) cs(1) have "cs' \<noteq> []" by auto
    with cs(2) obtain q where q: "getContextParent (naming_of ctx p) = Some q"
      by (cases "getContextParent (naming_of ctx p)") (auto elim: context_chain.cases)
    from Suc.IH [OF cs(2) [unfolded q]] Suc.prems cs(1) True
    have "ancestor_loop n ctx q = Inr (the (find (\<lambda>c. \<not> isIgnorableContext ctx c) cs'))" by simp
    with True q cs(1) show ?thesis by (subst ancestor_loop.simps) simp
  next
    case False
    with cs(1) show ?thesis by (subst ancestor_loop.simps) simp
  qed
qed

text \<open>
  C21. The context in a structured name is the nearest enclosing one that is not ignorable, and it is
  found whenever the enclosing contexts end with the translation unit, within as many steps as there are contexts.
\<close>

theorem nearest_scope:
  assumes "context_chain ctx (getDeclContext (named_of ctx d)) cs" and "length cs \<le> n + 1"
    and "\<exists>c \<in> set cs. isTranslationUnit ctx c"
  shows "\<exists>us c ws. cs = us @ c # ws \<and> (\<forall>u \<in> set us. isIgnorableContext ctx u) \<and> \<not> isIgnorableContext ctx c
    \<and> getNonIgnorableAncestor n ctx d = Inr c"
proof -
  have "\<exists>c \<in> set cs. \<not> isIgnorableContext ctx c"
    using assms(3) by (force simp: isIgnorableContext_def classifyContext_def isTranslationUnit_def)
  then obtain us c ws where
    cs: "cs = us @ c # ws" "\<not> isIgnorableContext ctx c" "\<forall>u \<in> set us. isIgnorableContext ctx u"
    using split_list_first_prop [of cs "\<lambda>c. \<not> isIgnorableContext ctx c"] by blast
  then have f: "find (\<lambda>c. \<not> isIgnorableContext ctx c) cs = Some c"
    by (induction us arbitrary: cs) auto
  from cs(1) assms(1) obtain p where "getDeclContext (named_of ctx d) = Some p"
    by (cases "getDeclContext (named_of ctx d)") (auto elim: context_chain.cases)
  with ancestor_loop_chain [of ctx p cs n] assms cs(1,2) f
  have "getNonIgnorableAncestor n ctx d = Inr c" by (simp add: getNonIgnorableAncestor_def)
  with cs show ?thesis by blast
qed

theorem nearest_scope_witness:
  "context_chain example_member (Some 1) [1, 0] \<and> isTranslationUnit example_member 0
   \<and> (\<exists>us c ws. [1, 0] = us @ c # ws \<and> \<not> isIgnorableContext example_member c
        \<and> getNonIgnorableAncestor 1 example_member 2 = Inr c)"
proof -
  have p: "getContextParent (naming_of example_member d) = (if d = 0 then None else Some (d - 1))"
    and g: "getDeclContext (named_of example_member 2) = Some 1" for d
    by (simp_all add: example_member_def)
  have c: "context_chain example_member (Some 1) [1, 0]"
    by (intro context_chain.parent) (simp add: p context_chain.intros)
  moreover have t: "isTranslationUnit example_member 0" by code_simp
  moreover have "\<exists>us c ws. [1, 0] = us @ c # ws \<and> (\<forall>u \<in> set us. isIgnorableContext example_member u)
      \<and> \<not> isIgnorableContext example_member c \<and> getNonIgnorableAncestor 1 example_member 2 = Inr c"
    by (rule nearest_scope) (use c t in \<open>simp_all add: g del: One_nat_def\<close>)
  ultimately show ?thesis by blast
qed

section \<open>Names by the first declaration\<close>

lemma reaches_tu_chain:
  "context_chain ctx c cs \<Longrightarrow> length cs \<le> n \<Longrightarrow> reaches_tu n ctx c = Inr (\<exists>x \<in> set cs. isTranslationUnit ctx x)"
proof (induction arbitrary: n rule: context_chain.induct)
  case (parent c cs)
  then show ?case by (cases n) auto
qed simp

text \<open>
  C36. The search for a declaration that names an anonymous class only looks at the declaration that
  follows: its second loop leaves the search as soon as it reaches the translation unit, as it always does.
\<close>

theorem by_first_decl_next_only:
  assumes "context_chain ctx (getLexicalContext (naming_of ctx b)) cs" and "length cs \<le> n"
    and "\<exists>c \<in> set cs. isTranslationUnit ctx c"
    and "getTypePtrOrNull (getType (named_of ctx b)) = Some t"
  shows "by_first_decl n ctx td (Some b) =
    Inr (if isaD ctx ValueDecl b \<and> getAsTagDecl (type_of ctx t) = Some td
         then getIdentifier (named_of ctx b) else None)"
  using reaches_tu_chain [OF assms(1,2)] assms(3,4) by auto

text \<open>An anonymous struct (1) followed by another class (2) and by the variable (3) of its type.\<close>

definition example_anonymous :: ASTContext where
  "example_anonymous = ast0\<lparr>
     decl := (\<lambda>d. (decl0 d)\<lparr>getKind := (if d = 0 then TranslationUnitDecl else if d = 3 then VarDecl
                                  else CXXRecordDecl)\<rparr>),
     named_of := (\<lambda>d. named0\<lparr>getIdentifier := (if d = 3 then Some ''x'' else None)\<rparr>),
     type_of := (\<lambda>t. type0\<lparr>getAsTagDecl := Some 1\<rparr>),
     naming_of := (\<lambda>d. naming0\<lparr>getLexicalContext := (if d = 0 then None else Some 0),
                             getNextDeclInContext := (if d = 3 then None else Some (d + 1))\<rparr>)\<rparr>"

theorem by_first_decl_next_only_witness:
  "by_first_decl 4 example_anonymous 1 (Some 2) = Inr None
   \<and> by_first_decl 4 example_anonymous 1 (Some 3) = Inr (Some ''x'')"
proof -
  have "context_chain example_anonymous (Some 0) [0]"
    by (intro context_chain.parent) (simp add: example_anonymous_def naming0_def context_chain.top)
  moreover have "isTranslationUnit example_anonymous 0"
    "\<not> isaD example_anonymous ValueDecl 2" "isaD example_anonymous ValueDecl 3" by code_simp+
  moreover have "getTypePtrOrNull (getType (named_of example_anonymous d)) = Some 0"
    "getAsTagDecl (type_of example_anonymous 0) = Some 1"
    "getIdentifier (named_of example_anonymous 3) = Some ''x''"
    "getLexicalContext (naming_of example_anonymous 2) = Some 0"
    "getLexicalContext (naming_of example_anonymous 3) = Some 0" for d
    by (simp_all add: example_anonymous_def named0_def)
  ultimately show ?thesis
    using by_first_decl_next_only [of example_anonymous 2 "[0]" 4 0 1]
      by_first_decl_next_only [of example_anonymous 3 "[0]" 4 0 1] by simp
qed

end
