(* ===== verification/CodeTerms.thy ===== *)
theory CodeTerms
  imports TypeText NameProps
begin

text \<open>
  The terms of Coq that stand for expressions, statements and local declarations: a translation of clang's AST, stated as
  rules without the formatter, the state of the printers and their levels.  The rules are for code outside lambdas that
  clang could resolve; what the printers report as unsupported and what needs the table of opaque names has no rule.
\<close>

section \<open>Parts\<close>

definition type_is :: "CoqPrinter \<Rightarrow> ASTContext \<Rightarrow> QualType \<Rightarrow> cterm \<Rightarrow> bool" where
  "type_is print ctx q t \<longleftrightarrow> (\<exists>T. qual_denotes print ctx q T \<and> t = ty_term T)"

definition name_is :: "CoqPrinter \<Rightarrow> ASTContext \<Rightarrow> ptr \<Rightarrow> cterm \<Rightarrow> bool" where
  "name_is print ctx d t \<longleftrightarrow> (\<exists>N. name_denotes print ctx d N \<and> t = name_term N)"

text \<open>The type of an expression, as its declared type and for operators, which have no type when it is dependent.\<close>

abbreviation ety :: "ASTContext \<Rightarrow> ptr \<Rightarrow> QualType" where
  "ety ctx e \<equiv> expr_type (expr_of ctx e)"

fun reference_to :: "ValueKind \<Rightarrow> cterm \<Rightarrow> cterm" where
  "reference_to LValue t = app ''Tref'' [t]"
| "reference_to XValue t = app ''Trv_ref'' [t]"
| "reference_to k t = t"

definition decl_type_is :: "CoqPrinter \<Rightarrow> ASTContext \<Rightarrow> ptr \<Rightarrow> cterm \<Rightarrow> bool" where
  "decl_type_is print ctx e t \<longleftrightarrow>
     (\<exists>u. type_is print ctx (ety ctx e) u \<and> t = reference_to (value_kind (expr_of ctx e)) u)"

definition dependent :: "ASTContext \<Rightarrow> ptr \<Rightarrow> bool" where
  "dependent ctx e \<longleftrightarrow>
     (case getTypePtrOrNull (ety ctx e) of Some t \<Rightarrow> isDependentType (type_of ctx t) | None \<Rightarrow> False)"

definition boolean_type :: "ASTContext \<Rightarrow> ptr \<Rightarrow> bool" where
  "boolean_type ctx e \<longleftrightarrow>
     (case getTypePtrOrNull (ety ctx e) of Some t \<Rightarrow> isBooleanType (type_of ctx t) | None \<Rightarrow> False)"

fun opt_term :: "cterm option \<Rightarrow> cterm" where
  "opt_term None = Sym ''None''"
| "opt_term (Some t) = app ''Some'' [t]"

definition op_type_is :: "CoqPrinter \<Rightarrow> ASTContext \<Rightarrow> ptr \<Rightarrow> cterm \<Rightarrow> bool" where
  "op_type_is print ctx e t \<longleftrightarrow>
     (if \<not> templates print then type_is print ctx (ety ctx e) t
      else if dependent ctx e then t = Sym ''None''
      else \<exists>u. type_is print ctx (ety ctx e) u \<and> t = app ''Some'' [u])"

fun category_word :: "ValueKind \<Rightarrow> string option" where
  "category_word LValue = Some ''Lvalue''"
| "category_word XValue = Some ''Xvalue''"
| "category_word PRValue = Some ''Prvalue''"
| "category_word NoValueKind = None"

definition category_is :: "CoqPrinter \<Rightarrow> ASTContext \<Rightarrow> ptr \<Rightarrow> cterm \<Rightarrow> bool" where
  "category_is print ctx e t \<longleftrightarrow>
     (\<exists>w. category_word (if templates print then value_kind (expr_of ctx e) else Classify (expr_of ctx e)) = Some w \<and> t = Sym w)"

section \<open>References to declarations\<close>

fun param_term :: "string option \<Rightarrow> nat \<Rightarrow> nat \<Rightarrow> cterm" where
  "param_term (Some n) offset k = Str (n @ (if offset \<noteq> 0 then ''...'' @ decimal offset else []))"
| "param_term None offset k = app ''localname.anon'' [Sym (decimal k)]"

text \<open>A parameter is its name with its offset in a run of equal names, or its number.\<close>

inductive local_name :: "ASTContext \<Rightarrow> ptr \<Rightarrow> ptr \<Rightarrow> cterm \<Rightarrow> bool" for ctx where
  parameter: "isaD ctx ParmVarDecl d \<Longrightarrow> isaD ctx FunctionDecl fd \<Longrightarrow> parameters (named_of ctx fd) = us @ d # ws \<Longrightarrow>
    d \<notin> set us \<Longrightarrow> spelled (getIdentifier (named_of ctx d)) \<Longrightarrow>
    local_name ctx fd d (param_term (getIdentifier (named_of ctx d))
      (case getIdentifier (named_of ctx d) of
         Some n \<Rightarrow> run n (rev (map (\<lambda>p. getIdentifier (named_of ctx p)) us)) | None \<Rightarrow> 0) (length us))"
| variable: "\<not> isaD ctx ParmVarDecl d \<Longrightarrow> getIdentifier (named_of ctx d) = Some n \<Longrightarrow> local_name ctx fd d (Str n)"

definition local_decl :: "ASTContext \<Rightarrow> ptr \<Rightarrow> ptr \<Rightarrow> bool" where
  "local_decl ctx fd d \<longleftrightarrow> isFunctionOrMethod (named_of ctx fd)
     \<and> \<not> (isaD ctx FunctionDecl d \<or> isaD ctx VarDecl d \<and> isStaticLocal (decl ctx d))"

inductive value_is :: "CoqPrinter \<Rightarrow> ASTContext \<Rightarrow> ptr \<Rightarrow> cterm \<Rightarrow> bool" for print ctx where
  local_value: "getDeclContext (named_of ctx d) = Some fd \<Longrightarrow> local_decl ctx fd d \<Longrightarrow> local_name ctx fd d L \<Longrightarrow>
    type_is print ctx (getType (named_of ctx d)) T \<Longrightarrow> value_is print ctx d (app ''Evar'' [L, T])"
| global_value: "getDeclContext (named_of ctx d) = Some dc \<Longrightarrow> \<not> local_decl ctx dc d \<Longrightarrow> name_is print ctx d N \<Longrightarrow>
    type_is print ctx (getType (named_of ctx d)) T \<Longrightarrow> value_is print ctx d (app ''Eglobal'' [N, T])"

text \<open>What a \<open>DeclRefExpr\<close> stands for.\<close>

inductive ref_is :: "CoqPrinter \<Rightarrow> ASTContext \<Rightarrow> ptr \<Rightarrow> ptr \<Rightarrow> cterm \<Rightarrow> bool" for print ctx e where
  enum_const: "isaD ctx EnumConstantDecl d \<Longrightarrow> getTypePtrOrNull (ety ctx e) = Some t \<Longrightarrow> isEnumeralType (type_of ctx t) \<Longrightarrow>
    enum_of ctx d = Some c \<Longrightarrow> name_is print ctx c N \<Longrightarrow> getIdentifier (named_of ctx d) = Some n \<Longrightarrow>
    ref_is print ctx e d (app ''Eenum_const'' [N, Str n])"
| enum_const_at: "isaD ctx EnumConstantDecl d \<Longrightarrow> getTypePtrOrNull (ety ctx e) = Some t \<Longrightarrow> \<not> isEnumeralType (type_of ctx t) \<Longrightarrow>
    enum_of ctx d = Some c \<Longrightarrow> name_is print ctx c N \<Longrightarrow> getIdentifier (named_of ctx d) = Some n \<Longrightarrow>
    type_is print ctx (ety ctx e) T \<Longrightarrow> ref_is print ctx e d (app ''Eenum_const_at'' [N, Str n, T])"
| template_value: "\<not> isaD ctx EnumConstantDecl d \<Longrightarrow> isaD ctx NonTypeTemplateParmDecl d \<Longrightarrow> templates print \<Longrightarrow>
    getIdentifier (named_of ctx d) = Some n \<Longrightarrow> ref_is print ctx e d (app ''Eparam'' [Str n])"
| plain_value: "\<not> isaD ctx EnumConstantDecl d \<Longrightarrow> \<not> isaD ctx NonTypeTemplateParmDecl d \<Longrightarrow> value_is print ctx d t \<Longrightarrow>
    ref_is print ctx e d t"

text \<open>The member of a member expression.\<close>

inductive member_is :: "CoqPrinter \<Rightarrow> ASTContext \<Rightarrow> ptr \<Rightarrow> cterm \<Rightarrow> bool" for print ctx where
  field_member: "isaD ctx FieldDecl d \<Longrightarrow> getIdentifier (named_of ctx d) = Some n \<Longrightarrow>
    type_is print ctx (getType (named_of ctx d)) T \<Longrightarrow>
    member_is print ctx d (app ''Field'' [app ''field_name.Id'' [Str n], bool_term (isMutable (naming_of ctx d)), T])"
| enum_member: "\<not> isaD ctx FieldDecl d \<Longrightarrow> isaD ctx EnumConstantDecl d \<Longrightarrow> name_is print ctx d N \<Longrightarrow>
    member_is print ctx d (app ''Enum'' [N])"
| static_member: "\<not> isaD ctx FieldDecl d \<Longrightarrow> \<not> isaD ctx EnumConstantDecl d \<Longrightarrow>
    isaD ctx VarDecl d \<and> isStaticDataMember (naming_of ctx d) \<or> \<not> isaD ctx VarDecl d \<and> isaD ctx CXXMethodDecl d \<Longrightarrow>
    name_is print ctx d N \<Longrightarrow> type_is print ctx (getType (named_of ctx d)) T \<Longrightarrow>
    member_is print ctx d (app ''Static'' [N, T])"

text \<open>Casts.\<close>

inductive cast_is :: "CoqPrinter \<Rightarrow> ASTContext \<Rightarrow> ptr \<Rightarrow> CastKind \<Rightarrow> QualType list \<Rightarrow> cterm \<Rightarrow> bool" for print ctx e where
  plain_cast: "cast_name ck = Some (c, False) \<Longrightarrow> cast_is print ctx e ck path (Sym c)"
| typed_cast: "cast_name ck = Some (c, True) \<Longrightarrow> decl_type_is print ctx e T \<Longrightarrow> cast_is print ctx e ck path (app c [T])"
| base_cast: "ck \<in> {CK_DerivedToBase, CK_UncheckedDerivedToBase} \<Longrightarrow>
    list_all2 (\<lambda>q t. \<exists>p T. getTypePtrOrNull q = Some p \<and> denotes print ctx p T \<and> t = ty_term T) (butlast path) ts \<Longrightarrow>
    decl_type_is print ctx e T \<Longrightarrow> cast_is print ctx e ck path (app ''Cderived2base'' [list_term ts, T])"
| derived_cast:
    "list_all2 (\<lambda>q t. \<exists>p T. getTypePtrOrNull q = Some p \<and> denotes print ctx p T \<and> t = ty_term T) (butlast path) ts \<Longrightarrow>
    decl_type_is print ctx e T \<Longrightarrow> cast_is print ctx e CK_BaseToDerived path (app ''Cbase2derived'' [list_term ts, T])"

fun written_cast :: "ExplicitCast \<Rightarrow> string option" where
  "written_cast CStyleCastExpr = Some ''Ecstyle_cast''"
| "written_cast (CXXNamedCastExpr n) = Some (''E'' @ n)"
| "written_cast CXXFunctionalCastExpr = Some ''Efunctional_cast''"
| "written_cast BuiltinBitCastExpr = Some ''Ebuiltin_bit_cast''"
| "written_cast OtherExplicitCastExpr = None"

fun step_name :: "UnaryOperatorKind \<Rightarrow> string option" where
  "step_name UO_Deref = Some ''Ederef''"
| "step_name UO_PostInc = Some ''Epostinc''"
| "step_name UO_PreInc = Some ''Epreinc''"
| "step_name UO_PostDec = Some ''Epostdec''"
| "step_name UO_PreDec = Some ''Epredec''"
| "step_name k = None"

fun trait_name :: "UETT \<Rightarrow> string option" where
  "trait_name UETT_AlignOf = Some ''Ealignof''"
| "trait_name UETT_PreferredAlignOf = Some ''Ealignof_preferred''"
| "trait_name UETT_SizeOf = Some ''Esizeof''"
| "trait_name (UETT_Other k) = None"

definition operator_is :: "OverloadedOperatorKind \<Rightarrow> cterm \<Rightarrow> bool" where
  "operator_is oo t \<longleftrightarrow> operator_ok oo \<and> t = operator_term oo"

definition element_type_is :: "CoqPrinter \<Rightarrow> ASTContext \<Rightarrow> ptr \<Rightarrow> cterm \<Rightarrow> bool" where
  "element_type_is print ctx e t \<longleftrightarrow>
     (\<exists>p q r T. getTypePtrOrNull (ety ctx e) = Some p \<and> array_element (type_node (type_of ctx p)) = Some q
        \<and> getTypePtrOrNull q = Some r \<and> denotes print ctx r T \<and> t = ty_term T)"

section \<open>Expressions, statements and local declarations\<close>

text \<open>
  \<open>visit_is\<close> is about what the visitor writes for an expression; parentheses and the like are passed through by the
  visitor itself, at most \<open>f\<close> of them in a row.  A statement stands for the elements that it adds to a list: a label is an
  element of its own.  A local declaration stands for nothing or for one element.
\<close>

lemma rel_option_mono_rule: "(\<And>x y. P x y \<longrightarrow> R x y) \<Longrightarrow> rel_option P a b \<longrightarrow> rel_option R a b"
  by (auto elim: option.rel_mono_strong)

fun through :: "expr_node \<Rightarrow> ptr option" where
  "through (ConstantExpr s) = Some s"
| "through (ParenExpr s) = Some s"
| "through (SubstNonTypeTemplateParmExpr s) = Some s"
| "through n = None"

text \<open>Expressions that are another way to write one, and constructors around one.\<close>

fun same_as :: "expr_node \<Rightarrow> ptr option" where
  "same_as (CXXBindTemporaryExpr s) = Some s"
| "same_as (CXXRewrittenBinaryOperator s) = Some s"
| "same_as (InitListExpr True [s] u fi) = Some s"
| "same_as n = None"

fun around_name :: "expr_node \<Rightarrow> (string \<times> ptr) option" where
  "around_name (CXXDefaultArgExpr s) = Some (''Eimplicit'', s)"
| "around_name (CXXDefaultInitExpr s) = Some (''Edefault_init_expr'', s)"
| "around_name (ExprWithCleanups s) = Some (''Eandclean'', s)"
| "around_name (UnaryOperator UO_Extension s) = Some (''Eextension'', s)"
| "around_name n = None"

fun sequencing_name :: "BinaryOperatorKind \<Rightarrow> string option" where
  "sequencing_name BO_Comma = Some ''Ecomma''"
| "sequencing_name BO_LAnd = Some ''Eseqand''"
| "sequencing_name BO_LOr = Some ''Eseqor''"
| "sequencing_name k = None"

definition sequencing_typed :: "CoqPrinter \<Rightarrow> ASTContext \<Rightarrow> ptr \<Rightarrow> BinaryOperatorKind \<Rightarrow> ptr \<Rightarrow> bool" where
  "sequencing_typed print ctx e op r \<longleftrightarrow>
     templates print \<and> dependent ctx e \<or> (if op = BO_Comma then ety ctx r = ety ctx e else boolean_type ctx e)"

inductive expr_is :: "CoqPrinter \<Rightarrow> ASTContext \<Rightarrow> nat \<Rightarrow> bool \<Rightarrow> ptr \<Rightarrow> cterm \<Rightarrow> bool"
  and visit_is :: "CoqPrinter \<Rightarrow> ASTContext \<Rightarrow> nat \<Rightarrow> bool \<Rightarrow> nat \<Rightarrow> ptr \<Rightarrow> cterm \<Rightarrow> bool"
  and node_is :: "CoqPrinter \<Rightarrow> ASTContext \<Rightarrow> nat \<Rightarrow> bool \<Rightarrow> ptr \<Rightarrow> expr_node \<Rightarrow> cterm \<Rightarrow> bool"
  and stmt_is :: "CoqPrinter \<Rightarrow> ASTContext \<Rightarrow> nat \<Rightarrow> bool \<Rightarrow> ptr \<Rightarrow> cterm list \<Rightarrow> bool"
  and local_is :: "CoqPrinter \<Rightarrow> ASTContext \<Rightarrow> nat \<Rightarrow> bool \<Rightarrow> ptr \<Rightarrow> cterm option \<Rightarrow> bool"
  for print ctx f big where
  expr: "visit_is print ctx f big f e t \<Longrightarrow> expr_is print ctx f big e t"
| erroneous: "containsErrors (expr_of ctx e) \<Longrightarrow> visit_is print ctx f big k e (app ''Eerror'' [Str (expr_describe (expr_of ctx e))])"
| visited: "\<not> containsErrors (expr_of ctx e) \<Longrightarrow> node_is print ctx f big e (expr_node (expr_of ctx e)) t \<Longrightarrow>
    visit_is print ctx f big k e t"
| passed: "\<not> containsErrors (expr_of ctx e) \<Longrightarrow> through (expr_node (expr_of ctx e)) = Some s \<Longrightarrow>
    visit_is print ctx f big k s t \<Longrightarrow> visit_is print ctx f big (Suc k) e t"
\<comment> \<open>literals\<close>
| integer: "getTypePtrOrNull (ety ctx e) = Some p \<Longrightarrow> type_is print ctx (ety ctx e) T \<Longrightarrow>
    u = (if isSignedIntegerOrEnumerationType (type_of ctx p) then signed_take_bit (w - 1) v else take_bit w v) \<Longrightarrow>
    node_is print ctx f big e (IntegerLiteral v w) (app ''Eint'' [Sym (decimal_int u @ ''%Z''), T])"
| character: "type_is print ctx (ety ctx e) T \<Longrightarrow>
    node_is print ctx f big e (CharacterLiteral c) (app ''Echar'' [Sym (decimal c @ ''%N''), T])"
| string: "w \<noteq> 0 \<Longrightarrow> element_type_is print ctx e T \<Longrightarrow> node_is print ctx f big e (StringLiteral bytes w)
    (app ''Estring'' [Par (elements (map (\<lambda>c. [Sym (decimal (unat c) @ ''%N'')]) (code_units big w bytes))), T])"
| predefined: "element_type_is print ctx e T \<Longrightarrow>
    node_is print ctx f big e (PredefinedExpr n) (app ''Estring'' [app ''BS.string_to_bytes'' [Str n], T])"
| truth: "node \<in> {CXXBoolLiteralExpr b, CXXNoexceptExpr b, TypeTraitExpr b} \<Longrightarrow>
    node_is print ctx f big e node (app ''Ebool'' [bool_term b])"
| nullptr: "node_is print ctx f big e CXXNullPtrLiteralExpr (Sym ''Enull'')"
| gnu_null: "type_is print ctx (ety ctx e) T \<Longrightarrow> node_is print ctx f big e GNUNullExpr (app ''Egnu_null'' [T])"
| implicit_init: "node \<in> {ImplicitValueInitExpr, CXXScalarValueInitExpr} \<Longrightarrow> type_is print ctx (ety ctx e) T \<Longrightarrow>
    node_is print ctx f big e node (app ''Eimplicit_init'' [T])"
| this_object: "type_is print ctx (ety ctx e) T \<Longrightarrow> node_is print ctx f big e CXXThisExpr (app ''Ethis'' [T])"
| reference: "ref_is print ctx e d t \<Longrightarrow> node_is print ctx f big e (DeclRefExpr (Some d) False) t"
\<comment> \<open>operators\<close>
| same_expr: "same_as node = Some s \<Longrightarrow> expr_is print ctx f big s t \<Longrightarrow> node_is print ctx f big e node t"
| around_expr: "around_name node = Some (c, s) \<Longrightarrow> expr_is print ctx f big s t \<Longrightarrow> node_is print ctx f big e node (app c [t])"
| subscript: "expr_is print ctx f big (under_cast ctx l) a \<Longrightarrow> expr_is print ctx f big (under_cast ctx r) b \<Longrightarrow>
    op_type_is print ctx e T \<Longrightarrow> node_is print ctx f big e (ArraySubscriptExpr l r) (app ''Esubscript'' [a, b, T])"
| sequencing: "sequencing_name op = Some c \<Longrightarrow> expr_is print ctx f big l a \<Longrightarrow> expr_is print ctx f big r b \<Longrightarrow>
    sequencing_typed print ctx e op r \<Longrightarrow> node_is print ctx f big e (BinaryOperator op l r) (app c [a, b])"
| assign: "expr_is print ctx f big l a \<Longrightarrow> expr_is print ctx f big r b \<Longrightarrow> op_type_is print ctx e T \<Longrightarrow>
    node_is print ctx f big e (BinaryOperator BO_Assign l r) (app ''Eassign'' [a, b, T])"
| assign_op: "assign_op_name op = Some w \<Longrightarrow> expr_is print ctx f big l a \<Longrightarrow> expr_is print ctx f big r b \<Longrightarrow>
    op_type_is print ctx e T \<Longrightarrow> node_is print ctx f big e (BinaryOperator op l r) (app ''Eassign_op'' [Sym w, a, b, T])"
| binop: "binop_name op = Some w \<Longrightarrow> expr_is print ctx f big l a \<Longrightarrow> expr_is print ctx f big r b \<Longrightarrow>
    op_type_is print ctx e T \<Longrightarrow> node_is print ctx f big e (BinaryOperator op l r) (app ''Ebinop'' [Sym w, a, b, T])"
| step: "step_name op = Some c \<Longrightarrow> expr_is print ctx f big s a \<Longrightarrow> op_type_is print ctx e T \<Longrightarrow>
    node_is print ctx f big e (UnaryOperator op s) (app c [a, T])"
| unop: "op \<in> {UO_Plus, UO_Minus, UO_Not, UO_LNot} \<Longrightarrow> unop_name op = Some w \<Longrightarrow> expr_is print ctx f big s a \<Longrightarrow>
    op_type_is print ctx e T \<Longrightarrow> node_is print ctx f big e (UnaryOperator op s) (app ''Eunop'' [Sym w, a, T])"
| address: "(\<And>d b. expr_node (expr_of ctx s) = DeclRefExpr d b \<Longrightarrow> \<exists>x. d = Some x \<and> is_static_member ctx x = Inr True) \<Longrightarrow>
    expr_is print ctx f big s a \<Longrightarrow> node_is print ctx f big e (UnaryOperator UO_AddrOf s) (app ''Eaddrof'' [a])"
| member_address: "expr_node (expr_of ctx s) = DeclRefExpr (Some d) b \<Longrightarrow> is_static_member ctx d = Inr False \<Longrightarrow>
    name_is print ctx d N \<Longrightarrow> type_is print ctx (getType (named_of ctx d)) T \<Longrightarrow>
    node_is print ctx f big e (UnaryOperator UO_AddrOf s) (app ''Eglobal_member'' [N, T])"
| conditional: "expr_is print ctx f big c a \<Longrightarrow> expr_is print ctx f big t b \<Longrightarrow> expr_is print ctx f big x (Par d) \<Longrightarrow>
    decl_type_is print ctx e T \<Longrightarrow> node_is print ctx f big e (ConditionalOperator c t x) (app ''Eif'' [a, b, Par d, T])"
| trait_type: "trait_name k = Some c \<Longrightarrow> type_is print ctx q S \<Longrightarrow> type_is print ctx (ety ctx e) T \<Longrightarrow>
    node_is print ctx f big e (UnaryExprOrTypeTraitExpr k (Some q) arg) (app c [app ''inl'' [S], T])"
| trait_expr: "trait_name k = Some c \<Longrightarrow> expr_is print ctx f big x a \<Longrightarrow> type_is print ctx (ety ctx e) T \<Longrightarrow>
    node_is print ctx f big e (UnaryExprOrTypeTraitExpr k None (Some x)) (app c [app ''inr'' [a], T])"
\<comment> \<open>casts, members, calls and objects\<close>
| written: "written_cast k = Some c \<Longrightarrow> word c \<Longrightarrow> cast_is print ctx e ck path C \<Longrightarrow> type_is print ctx q T \<Longrightarrow>
    expr_is print ctx f big s a \<Longrightarrow> node_is print ctx f big e (ExplicitCastExpr k ck s q path) (app c [C, T, a])"
| implicit: "ck \<noteq> CK_BuiltinFnToFnPtr \<Longrightarrow> cast_is print ctx e ck path C \<Longrightarrow> expr_is print ctx f big s a \<Longrightarrow>
    node_is print ctx f big e (ImplicitCastExpr ck s path) (app ''Ecast'' [C, a])"
| builtin_ref: "expr_node (expr_of ctx s) = DeclRefExpr (Some d) b \<Longrightarrow> is_builtin ctx (Some d) \<Longrightarrow> name_is print ctx d N \<Longrightarrow>
    getTypePtrOrNull (ety ctx e) = Some p \<Longrightarrow>
    type_is print ctx (case getPointeeType (type_of ctx p) of Some q \<Rightarrow> q | None \<Rightarrow> ety ctx e) T \<Longrightarrow>
    node_is print ctx f big e (ImplicitCastExpr CK_BuiltinFnToFnPtr s path) (app ''Ebuiltin'' [N, T])"
| member_expr: "expr_is print ctx f big b a \<Longrightarrow> member_is print ctx d M \<Longrightarrow>
    node_is print ctx f big e (MemberExpr b d arrow v) (app ''Emember'' [bool_term arrow, a, M])"
| call: "\<not> is_dependent (expr_of ctx e) \<Longrightarrow> (\<And>r q b. expr_node (expr_of ctx c) \<noteq> CXXPseudoDestructorExpr r q b) \<Longrightarrow>
    expr_is print ctx f big c a \<Longrightarrow> list_all2 (expr_is print ctx f big) args ts \<Longrightarrow>
    node_is print ctx f big e (CallExpr c args) (app ''Ecall'' [a, list_term ts])"
| pseudo_destructor: "\<not> is_dependent (expr_of ctx e) \<Longrightarrow> expr_node (expr_of ctx c) = CXXPseudoDestructorExpr arrow q b \<Longrightarrow>
    type_is print ctx q T \<Longrightarrow> expr_is print ctx f big b a \<Longrightarrow>
    node_is print ctx f big e (CallExpr c []) (app ''Epseudo_destructor'' [bool_term arrow, T, a])"
| member_call: "expr_node (expr_of ctx c) = MemberExpr b m arrow virt \<Longrightarrow> isaD ctx CXXMethodDecl m \<Longrightarrow>
    name_is print ctx d N \<Longrightarrow> type_is print ctx (getType (named_of ctx m)) T \<Longrightarrow>
    expr_is print ctx f big obj a \<Longrightarrow> list_all2 (expr_is print ctx f big) args ts \<Longrightarrow>
    D = Sym (if isVirtual (naming_of ctx d) \<and> virt then ''Virtual'' else ''Direct'') \<Longrightarrow>
    node_is print ctx f big e (CXXMemberCallExpr c d obj args)
      (app ''Emember_call'' [bool_term arrow, app ''inl'' [Par [N, Sym '','', D, Sym '','', T]], a, list_term ts])"
| member_pointer_call: "expr_node (expr_of ctx c) = BinaryOperator op l r \<Longrightarrow> op \<in> {BO_PtrMemD, BO_PtrMemI} \<Longrightarrow>
    expr_is print ctx f big r b \<Longrightarrow> expr_is print ctx f big obj a \<Longrightarrow> list_all2 (expr_is print ctx f big) args ts \<Longrightarrow>
    node_is print ctx f big e (CXXMemberCallExpr c d obj args)
      (app ''Emember_call'' [bool_term (op = BO_PtrMemI), app ''inr'' [b], a, list_term ts])"
| operator_member_call: "isaD ctx CXXMethodDecl c \<Longrightarrow> \<not> isStaticMethod (naming_of ctx c) \<Longrightarrow> operator_is oo p \<Longrightarrow>
    name_is print ctx c N \<Longrightarrow> type_is print ctx (getType (named_of ctx c)) T \<Longrightarrow> expr_is print ctx f big obj a \<Longrightarrow>
    list_all2 (expr_is print ctx f big) args ts \<Longrightarrow>
    D = Sym (if isVirtual (naming_of ctx c) then ''Virtual'' else ''Direct'') \<Longrightarrow>
    node_is print ctx f big e (CXXOperatorCallExpr c oo (obj # args))
      (app ''Eoperator_member_call'' [p, N, D, T, a, list_term ts])"
| operator_call: "\<not> isaD ctx CXXMethodDecl c \<Longrightarrow> isaD ctx FunctionDecl c \<Longrightarrow> operator_is oo p \<Longrightarrow>
    name_is print ctx c N \<Longrightarrow> type_is print ctx (getType (named_of ctx c)) T \<Longrightarrow>
    list_all2 (expr_is print ctx f big) args ts \<Longrightarrow>
    node_is print ctx f big e (CXXOperatorCallExpr c oo args) (app ''Eoperator_call'' [p, N, T, list_term ts])"
| construct: "name_is print ctx c N \<Longrightarrow> list_all2 (expr_is print ctx f big) args ts \<Longrightarrow> type_is print ctx (ety ctx e) T \<Longrightarrow>
    node_is print ctx f big e (CXXConstructExpr c args) (app ''Econstructor'' [N, list_term ts, T])"
| init_list: "list_all2 (expr_is print ctx f big) es ts \<Longrightarrow> rel_option (expr_is print ctx f big) fi v \<Longrightarrow>
    type_is print ctx (ety ctx e) T \<Longrightarrow>
    node_is print ctx f big e (InitListExpr False es None fi) (app ''Einitlist'' [list_term ts, opt_term v, T])"
| temporary: "expr_is print ctx f big s a \<Longrightarrow> category_is print ctx e V \<Longrightarrow>
    node_is print ctx f big e (MaterializeTemporaryExpr False s) (app ''Ematerialize_temp'' [a, V])"
| new_object: "name_is print ctx fn N \<Longrightarrow> type_is print ctx (getType (named_of ctx fn)) S \<Longrightarrow>
    list_all2 (expr_is print ctx f big) pl ts \<Longrightarrow>
    W = (if isReservedGlobalPlacementOperator (naming_of ctx fn) then Sym ''new_form.NonAllocating''
         else app ''new_form.Allocating'' [bool_term align]) \<Longrightarrow>
    (isReservedGlobalPlacementOperator (naming_of ctx fn) \<Longrightarrow> length pl = 1 \<and> \<not> align) \<Longrightarrow>
    type_is print ctx q T \<Longrightarrow> rel_option (expr_is print ctx f big) sz v \<Longrightarrow> arr \<or> sz = None \<Longrightarrow>
    rel_option (expr_is print ctx f big) init w \<Longrightarrow>
    node_is print ctx f big e (CXXNewExpr (Some fn) pl align q arr (if arr then Some sz else None) init)
      (app ''Enew'' [Par [N, Sym '','', S], list_term ts, W, T, opt_term v, opt_term w])"
| delete_object: "\<not> isDestroyingOperatorDelete (naming_of ctx fn) \<Longrightarrow> name_is print ctx fn N \<Longrightarrow>
    type_is print ctx (getType (named_of ctx fn)) S \<Longrightarrow> expr_is print ctx f big x a \<Longrightarrow> type_is print ctx q T \<Longrightarrow>
    node_is print ctx f big e (CXXDeleteExpr arr (Some fn) x q)
      (app ''Edelete'' [bool_term arr, Par [N, Sym '','', S], a, T])"
| lambda: "name_is print ctx c N \<Longrightarrow> list_all2 (expr_is print ctx f big) es ts \<Longrightarrow>
    node_is print ctx f big e (LambdaExpr c es) (app ''Elambda'' [N, list_term ts])"
| va_arg: "expr_is print ctx f big s a \<Longrightarrow> type_is print ctx (ety ctx e) T \<Longrightarrow>
    node_is print ctx f big e (VAArgExpr s) (app ''Eva_arg'' [a, T])"
| stmt_expr: "stmt_is print ctx f big s [a] \<Longrightarrow> type_is print ctx (ety ctx e) T \<Longrightarrow>
    node_is print ctx f big e (StmtExpr s) (app ''Estmt'' [a, T])"
\<comment> \<open>statements\<close>
| expr_stmt: "stmt_of ctx s = ExprStmt \<Longrightarrow> expr_is print ctx f big s a \<Longrightarrow> stmt_is print ctx f big s [app ''Sexpr'' [a]]"
| decl_stmt: "stmt_of ctx s = DeclStmt ds \<Longrightarrow> list_all2 (local_is print ctx f big) ds os \<Longrightarrow>
    stmt_is print ctx f big s [app ''Sdecl'' [Par (elements (map (\<lambda>t. [t]) (List.map_filter id os)))]]"
| while_stmt: "stmt_of ctx s = WhileStmt var c b \<Longrightarrow> rel_option (\<lambda>d t. local_is print ctx f big d (Some t)) var v \<Longrightarrow>
    expr_is print ctx f big c a \<Longrightarrow> stmt_is print ctx f big b [t] \<Longrightarrow>
    stmt_is print ctx f big s [app ''Swhile'' [opt_term v, a, t]]"
| for_stmt: "stmt_of ctx s = ForStmt i c n b \<Longrightarrow> rel_option (\<lambda>s t. stmt_is print ctx f big s [t]) i u \<Longrightarrow>
    rel_option (expr_is print ctx f big) c v \<Longrightarrow> rel_option (expr_is print ctx f big) n w \<Longrightarrow>
    stmt_is print ctx f big b [t] \<Longrightarrow>
    stmt_is print ctx f big s [app ''Sfor'' [opt_term u, opt_term v, opt_term w, t]]"
| foreach_stmt: "stmt_of ctx s = CXXForRangeStmt r bs es i c n lv b \<Longrightarrow> stmt_is print ctx f big r [x] \<Longrightarrow>
    stmt_is print ctx f big bs [y] \<Longrightarrow> stmt_is print ctx f big es [z] \<Longrightarrow>
    rel_option (\<lambda>s t. stmt_is print ctx f big s [t]) i u \<Longrightarrow> rel_option (expr_is print ctx f big) c v \<Longrightarrow>
    rel_option (expr_is print ctx f big) n w \<Longrightarrow> stmt_is print ctx f big lv [l] \<Longrightarrow> stmt_is print ctx f big b [t] \<Longrightarrow>
    stmt_is print ctx f big s [app ''Sforeach'' [x, y, z, opt_term u, opt_term v, opt_term w, l, t]]"
| do_stmt: "stmt_of ctx s = DoStmt b c \<Longrightarrow> stmt_is print ctx f big b [t] \<Longrightarrow> expr_is print ctx f big c a \<Longrightarrow>
    stmt_is print ctx f big s [app ''Sdo'' [t, a]]"
| jump: "(stmt_of ctx s, w) \<in> {(BreakStmt, ''Sbreak''), (ContinueStmt, ''Scontinue''), (NullStmt, ''Sskip''),
      (ReturnStmt None, ''Sreturn_void''), (DefaultStmt None, ''Sdefault'')} \<Longrightarrow> stmt_is print ctx f big s [Sym w]"
| return_stmt: "stmt_of ctx s = ReturnStmt (Some e) \<Longrightarrow> expr_is print ctx f big e a \<Longrightarrow>
    stmt_is print ctx f big s [app ''Sreturn_val'' [a]]"
| consteval_stmt: "stmt_of ctx s = IfStmt True var c t x \<Longrightarrow> stmt_is print ctx f big t [u] \<Longrightarrow>
    rel_option (\<lambda>s t. stmt_is print ctx f big s [t]) x w \<Longrightarrow>
    stmt_is print ctx f big s [app ''Sif_consteval'' [u, case w of Some t \<Rightarrow> t | None \<Rightarrow> Sym ''Sskip'']]"
| if_stmt: "stmt_of ctx s = IfStmt False var c t x \<Longrightarrow> rel_option (\<lambda>d t. local_is print ctx f big d (Some t)) var v \<Longrightarrow>
    expr_is print ctx f big c a \<Longrightarrow> stmt_is print ctx f big t [u] \<Longrightarrow>
    rel_option (\<lambda>s t. stmt_is print ctx f big s [t]) x w \<Longrightarrow>
    stmt_is print ctx f big s [app ''Sif'' [opt_term v, a, u, case w of Some t \<Rightarrow> t | None \<Rightarrow> Sym ''Sskip'']]"
| case_stmt: "stmt_of ctx s = CaseStmt lo None b \<Longrightarrow> stmt_is print ctx f big b ts \<Longrightarrow>
    stmt_is print ctx f big s (app ''Scase'' [app ''Exact'' (z_terms lo)] # Sym ''::'' # ts)"
| range_stmt: "stmt_of ctx s = CaseStmt lo (Some hi) b \<Longrightarrow> stmt_is print ctx f big b ts \<Longrightarrow>
    stmt_is print ctx f big s (app ''Scase'' [app ''Range'' (z_terms lo @ z_terms hi)] # Sym ''::'' # ts)"
| default_stmt: "stmt_of ctx s = DefaultStmt (Some b) \<Longrightarrow> stmt_is print ctx f big b ts \<Longrightarrow>
    stmt_is print ctx f big s (Sym ''Sdefault'' # Sym ''::'' # ts)"
| switch_stmt: "stmt_of ctx s = SwitchStmt var c b \<Longrightarrow> rel_option (\<lambda>d t. local_is print ctx f big d (Some t)) var v \<Longrightarrow>
    expr_is print ctx f big c (Par as) \<Longrightarrow> stmt_is print ctx f big b [t] \<Longrightarrow>
    stmt_is print ctx f big s [app ''Sswitch'' [opt_term v, Par as, t]]"
| compound_stmt: "stmt_of ctx s = CompoundStmt bs \<Longrightarrow> list_all2 (stmt_is print ctx f big) bs tss \<Longrightarrow>
    stmt_is print ctx f big s [app ''Sseq'' [Par (elements tss)]]"
| attributed_stmt: "stmt_of ctx s = AttributedStmt attrs b \<Longrightarrow> stmt_is print ctx f big b [t] \<Longrightarrow>
    stmt_is print ctx f big s [app ''Sattr'' [Par (elements (map (\<lambda>a. [Str a]) attrs)), t]]"
| label_stmt: "stmt_of ctx s = LabelStmt l b \<Longrightarrow> stmt_is print ctx f big b [t] \<Longrightarrow>
    stmt_is print ctx f big s [app ''Slabeled'' [Str l, t]]"
| goto_stmt: "stmt_of ctx s = GotoStmt l \<Longrightarrow> stmt_is print ctx f big s [app ''Sgoto'' [Str l]]"
| asm_stmt: "stmt_of ctx s = GCCAsmStmt txt vol ins outs clobbers \<Longrightarrow>
    list_all2 (\<lambda>x ts. \<exists>a. expr_is print ctx f big (snd x) a \<and> ts = [Par [Str (fst x), Sym '','', a]]) ins us \<Longrightarrow>
    list_all2 (\<lambda>x ts. \<exists>a. expr_is print ctx f big (snd x) a \<and> ts = [Par [Str (fst x), Sym '','', a]]) outs vs \<Longrightarrow>
    stmt_is print ctx f big s [app ''Sasm'' [Str txt, bool_term vol, Par (elements us), Par (elements vs),
      Par (elements (map (\<lambda>c. [Str c]) clobbers))]]"
\<comment> \<open>local declarations\<close>
| invalid_local: "isInvalidDecl (named_of ctx d) \<Longrightarrow> local_is print ctx f big d (Some (Sym ''Derror''))"
| silent_local: "\<not> isInvalidDecl (named_of ctx d) \<Longrightarrow> \<not> isaD ctx VarDecl d \<Longrightarrow> local_is print ctx f big d None"
| extern_local: "\<not> isInvalidDecl (named_of ctx d) \<Longrightarrow> getKind (decl ctx d) = VarDecl \<Longrightarrow> hasExternalStorage (decl ctx d) \<Longrightarrow>
    local_is print ctx f big d None"
| static_local: "\<not> isInvalidDecl (named_of ctx d) \<Longrightarrow> getKind (decl ctx d) = VarDecl \<Longrightarrow>
    \<not> hasExternalStorage (decl ctx d) \<Longrightarrow> isStaticLocal (decl ctx d) \<Longrightarrow> name_is print ctx d N \<Longrightarrow>
    type_is print ctx (getType (named_of ctx d)) T \<Longrightarrow> rel_option (expr_is print ctx f big) (getInit (named_of ctx d)) v \<Longrightarrow>
    local_is print ctx f big d (Some (app ''Dinit'' [bool_term (ThreadsafeStatics ctx), N, T, opt_term v]))"
| variable_local: "\<not> isInvalidDecl (named_of ctx d) \<Longrightarrow> getKind (decl ctx d) = VarDecl \<Longrightarrow>
    \<not> hasExternalStorage (decl ctx d) \<Longrightarrow> \<not> isStaticLocal (decl ctx d) \<Longrightarrow>
    type_is print ctx (getType (named_of ctx d)) T \<Longrightarrow> rel_option (expr_is print ctx f big) (getInit (named_of ctx d)) v \<Longrightarrow>
    local_is print ctx f big d (Some (app ''Dvar'' [Str (getNameAsString (named_of ctx d)), T, opt_term v]))"

monos list_all2_mono rel_option_mono_rule

end
