(* ===== verification/PartsText.thy ===== *)
theory PartsText
  imports CodeTerms
begin

text \<open>
  The printers of the parts of expressions and statements write the terms of those parts: delimiters, numbers, types,
  names, options and lists, the closing of an expression with its type, and references to declarations.
\<close>

section \<open>Types, names, options and lists\<close>

lemma deep_type: "type_is print (getContext config) q t \<Longrightarrow> deep (\<lambda>n. writes Q (printQualType (mk_cprint n print config) q) [t])"
  using type_prints(2) by (auto simp: type_is_def)

lemma deep_bare_type:
  "\<exists>p T. getTypePtrOrNull q = Some p \<and> denotes print (getContext config) p T \<and> t = ty_term T \<Longrightarrow>
   deep (\<lambda>n. writes Q (case getTypePtrOrNull q of Some t \<Rightarrow> rec_printType (mk_cprint n print config) t
     | None \<Rightarrow> stopA (AssertionFailed m)) [t])"
  using type_prints(1) rec_type_prints by fastforce

lemma deep_name: "name_is print (getContext config) d t \<Longrightarrow> deep (\<lambda>n. writes Q (rec_printName (mk_cprint n print config) d) [t])"
  using rec_name_prints by (auto simp: name_is_def)

lemma deep_name_opt:
  "name_is print (getContext config) d t \<Longrightarrow> deep (\<lambda>n. writes Q (printName_opt (mk_cprint n print config) (Some d)) [t])"
  using deep_name by (simp add: printName_opt_def)

lemma writes_none: "writes Q none [Sym ''None'']"
  unfolding none_def by (rule writes_sym) (simp add: word_simps)

lemma emits_some: "emits Q r i some [LP, Word ''Some''] True (Suc i)"
  unfolding some_def by (rule emits_ctor) (simp add: word_simps)

lemmas compose =
  emits_Cons emits_Nil emits_skip emits_nbsp emits_nl emits_lparen emits_rparen emits_diag emits_end_ctor emits_cons emits_begin_list
  emits_end_list emits_str emits_comma emits_begin_tuple emits_end_tuple emits_next_tuple emits_number_N emits_number_Z
  emits_bool emits_putZ emits_some emits_ctor emits_word

lemma writes_some: "writes Q p [t] \<Longrightarrow> writes Q (seqP [some, p, end_ctor]) [app ''Some'' [t]]"
  by (rule writes_par, (rule compose emits_writes | assumption)+) simp

lemma writes_option:
  "rel_option (\<lambda>x t. writes Q (f x) [t]) x v \<Longrightarrow> writes Q (option_child f x) [opt_term v]"
  by (cases x; cases v) (simp_all add: option_child_def writes_none writes_some del: seqP.simps)

lemma deep_option: "rel_option (\<lambda>x t. deep (\<lambda>n. P n x t)) x v \<Longrightarrow> deep (\<lambda>n. rel_option (P n) x v)"
  by (cases x; cases v) simp_all

lemma deep_option_child:
  "rel_option (\<lambda>x t. deep (\<lambda>n. writes Q (f n x) [t])) x v \<Longrightarrow> deep (\<lambda>n. writes Q (option_child (f n) x) [opt_term v])"
  by (drule deep_option, erule eventually_mono, rule writes_option)

section \<open>The end of an expression\<close>

lemma writes_reference_to:
  "writes Q (printQualType cprint (expr_ty cprint e)) [t] \<Longrightarrow>
   writes Q (printDeclType cprint e) [reference_to (value_kind (expr_of (getContext cprint) e)) t]"
proof -
  assume t: "writes Q (printQualType cprint (expr_ty cprint e)) [t]"
  have "writes Q (seqP [ctor c False, seqP [printQualType cprint (expr_ty cprint e)], end_ctor]) [app c [t]]" if "word c" for c
    by (rule writes_par, (rule compose emits_writes that t)+) simp
  from this [of "''Tref''"] this [of "''Trv_ref''"] t show ?thesis
    by (cases "value_kind (expr_of (getContext cprint) e)") (simp_all add: printDeclType_def guard_ctor_def word_simps del: seqP.simps)
qed

lemma deep_decl_type:
  "decl_type_is print (getContext config) e t \<Longrightarrow> deep (\<lambda>n. writes Q (printDeclType (mk_cprint n print config) e) [t])"
proof -
  assume "decl_type_is print (getContext config) e t"
  then obtain u where u: "type_is print (getContext config) (ety (getContext config) e) u"
      "t = reference_to (value_kind (expr_of (getContext config) e)) u"
    unfolding decl_type_is_def by blast
  show ?thesis
  proof (rule eventually_mono [OF deep_type [OF u(1), of Q]])
    fix n assume "writes Q (printQualType (mk_cprint n print config) (ety (getContext config) e)) [u]"
    then have "writes Q (printQualType (mk_cprint n print config) (expr_ty (mk_cprint n print config) e)) [u]"
      by (simp add: expr_ty_def)
    from writes_reference_to [OF this] u(2) show "writes Q (printDeclType (mk_cprint n print config) e) [t]" by simp
  qed
qed

lemma wants_simps:
  "wants Done_T Done_V = False" "wants Done_T Done_T = True" "wants Done_T Done_O = False"
  "wants Done_V Done_V = True" "wants Done_V Done_T = False" "wants Done_V Done_O = False"
  "wants Done_O Done_V = False" "wants Done_O Done_T = False" "wants Done_O Done_O = True"
  "wants Done_NONE w = False"
  by (simp_all add: wants_def)

lemma emits_done_T:
  "writes Q (printQualType cprint (expr_ty cprint e)) [t] \<Longrightarrow>
   emits Q r (Suc i) (done_expr print cprint e Done_T) (term_tokens t @ [RP]) True i"
  by (simp only: done_expr_def wants_simps Done.distinct simp_thms if_True if_False, rule emits_eq, (rule compose emits_writes | assumption)+) simp

lemma emits_done_V:
  "writes Q (printValCat print cprint e) [t] \<Longrightarrow>
   emits Q r (Suc i) (done_expr print cprint e Done_V) (term_tokens t @ [RP]) True i"
  by (simp only: done_expr_def wants_simps Done.distinct simp_thms if_True if_False, rule emits_eq, (rule compose emits_writes | assumption)+) simp

lemma emits_done_O:
  "writes Q (printQualTypeOption cprint (expr_ty cprint e)) [t] \<Longrightarrow>
   emits Q r (Suc i) (done_expr print cprint e Done_O) (term_tokens t @ [RP]) True i"
  by (simp only: done_expr_def wants_simps Done.distinct simp_thms if_True if_False, rule emits_eq, (rule compose emits_writes | assumption)+) simp

lemma emits_done_DT:
  "writes Q (printDeclType cprint e) [t] \<Longrightarrow>
   emits Q True (Suc i) (done_expr print cprint e Done_DT) (term_tokens t @ [RP]) True i"
  by (simp only: done_expr_def wants_simps Done.distinct simp_thms if_True if_False, rule emits_eq, (rule compose emits_writes | assumption)+) simp

lemma emits_done_NONE: "emits Q r (Suc i) (done_expr print cprint e Done_NONE) [RP] True i"
  by (simp only: done_expr_def wants_simps Done.distinct simp_thms if_True if_False, rule emits_eq, (rule compose emits_writes | assumption)+) simp

text \<open>The end of an operator, with its type.\<close>

definition ends_operator :: "setting \<Rightarrow> CoqPrinter \<Rightarrow> ClangPrinter \<Rightarrow> ptr \<Rightarrow> cterm \<Rightarrow> bool" where
  "ends_operator Q print cprint e t \<longleftrightarrow>
     (\<forall>i r. emits Q r (Suc i) (done_operator print cprint e) (term_tokens t @ [RP]) True i)"

lemma emits_done_operator:
  "ends_operator Q print cprint e t \<Longrightarrow> emits Q r (Suc i) (done_operator print cprint e) (term_tokens t @ [RP]) True i"
  by (simp add: ends_operator_def)

lemma deep_operator:
  assumes "op_type_is print (getContext config) e t"
  shows "deep (\<lambda>n. ends_operator Q print (mk_cprint n print config) e t)"
proof (cases "templates print")
  case False
  with assms have "type_is print (getContext config) (ety (getContext config) e) t" by (simp add: op_type_is_def)
  from deep_type [OF this, of Q] show ?thesis
    by (rule eventually_mono) (simp add: ends_operator_def done_operator_def False emits_done_T expr_ty_def)
next
  case True
  have "deep (\<lambda>n. writes Q (printQualTypeOption (mk_cprint n print config) (ety (getContext config) e)) [t])"
  proof (cases "dependent (getContext config) e")
    case dep: True
    with assms True writes_none show ?thesis
      by (auto simp: op_type_is_def dependent_def printQualTypeOption_def Let_def split: option.splits)
  next
    case False
    with assms True obtain u where u: "type_is print (getContext config) (ety (getContext config) e) u" "t = app ''Some'' [u]"
      by (auto simp: op_type_is_def)
    then have "getTypePtrOrNull (ety (getContext config) e) \<noteq> None"
      by (auto simp: type_is_def elim: qual_denotes.cases)
    with False have "printQualTypeOption (mk_cprint n print config) (ety (getContext config) e) =
        seqP [some, printQualType (mk_cprint n print config) (ety (getContext config) e), end_ctor]" for n
      by (auto simp: printQualTypeOption_def dependent_def Let_def)
    with writes_some show ?thesis
      unfolding u(2) by (simp only:) (rule eventually_mono [OF deep_type [OF u(1)]])
  qed
  then show ?thesis
    by (rule eventually_mono) (simp add: ends_operator_def done_operator_def True emits_done_O expr_ty_def)
qed

lemma deep_category:
  "category_is print (getContext config) e t \<Longrightarrow> writes Q (printValCat print (mk_cprint n print config) e) [t]"
  unfolding category_is_def printValCat_def Let_def
  by (elim exE conjE) (auto split: ValueKind.split if_splits simp: word_simps intro!: writes_sym)

lemma writes_operator_is: "operator_is oo p \<Longrightarrow> writes Q (printOverloadableOperator oo) [p]"
  using writes_operator by (simp add: operator_is_def)

section \<open>References to declarations\<close>

text \<open>The settings of the rules: no anonymous declaration is open and the code is not in a lambda.\<close>

definition plain_setting :: "ASTContext \<Rightarrow> setting" where
  "plain_setting ctx N c \<longleftrightarrow> anonymous N = [] \<and> getLambdaClass ctx c = None"

lemma plain_setting_fresh: "plain_setting ctx N c \<Longrightarrow> plain_setting ctx OpaqueNames_init c"
  by (simp add: plain_setting_def OpaqueNames_init_def)

lemma escape_none: "DQ \<notin> set t \<Longrightarrow> escape t = t"
  by (induction t) auto

lemma decimal_no_quote: "DQ \<notin> set (decimal n)"
  using word_decimal [of n] by (auto simp: word_def inner_def)

lemma writes_anon: "writes Q (put (''(localname.anon '' @ decimal k @ '')'')) [app ''localname.anon'' [Sym (decimal k)]]"
proof -
  have d: "tscan (ts, Between) (decimal k) = (ts, InWord (decimal k))" for ts by (rule tscan_word [OF word_decimal])
  have "emits Q False i (put (''(localname.anon '' @ decimal k @ '')''))
      (term_tokens (app ''localname.anon'' [Sym (decimal k)])) True i" for i
    by (rule emits_put_paren [where m = Between and us = "term_tokens (app ''localname.anon'' [Sym (decimal k)])"])
      (simp_all add: start_def inner_def white_def d)
  then show ?thesis by (rule writes_par) simp
qed

lemma writes_param: "spelled i \<Longrightarrow> writes Q (put (param_text i off k)) [param_term i off k]"
proof (cases i)
  case (Some n)
  assume "spelled i"
  with Some have "DQ \<notin> set (n @ (if off \<noteq> 0 then ''...'' @ decimal off else []))"
    using decimal_no_quote [of off] by (auto simp: spelled_def)
  from escape_none [OF this] have "put (param_text i off k) = str (n @ (if off \<noteq> 0 then ''...'' @ decimal off else []))"
    unfolding str_put str_text_def by (simp add: param_text_def Some)
  then show ?thesis using writes_str Some by simp
qed (use writes_anon [of Q k] in \<open>simp add: param_text_def\<close>)

lemma first_split: "us @ d # ws = us' @ d # ws' \<Longrightarrow> d \<notin> set us \<Longrightarrow> d \<notin> set us' \<Longrightarrow> us = us'"
  by (induction us arbitrary: us') (case_tac us', auto)+

lemma printParamName_put:
  assumes "getDeclContext (named_of (getContext cprint) d) = Some fd" and "isFunctionOrMethod (named_of (getContext cprint) fd)"
    and "isaD (getContext cprint) FunctionDecl fd" and "parameters (named_of (getContext cprint) fd) = us @ d # ws" and "d \<notin> set us"
  shows "printParamName cprint d = put (param_text (getIdentifier (named_of (getContext cprint) d))
    (case getIdentifier (named_of (getContext cprint) d) of
       Some n \<Rightarrow> run n (rev (map (\<lambda>p. getIdentifier (named_of (getContext cprint) p)) us)) | None \<Rightarrow> 0) (length us))"
proof -
  have d: "d \<in> set (us @ d # ws)" by simp
  have "loop_state [] None 0" by (simp add: loop_state_def)
  from param_loop_text [OF d this refl, of "getContext cprint"] obtain us' ws' where
    u: "us @ d # ws = us' @ d # ws'" "d \<notin> set us'" and
    t: "param_loop (getContext cprint) d (us @ d # ws) 0 None 0 = put (param_text (getIdentifier (named_of (getContext cprint) d))
      (case getIdentifier (named_of (getContext cprint) d) of
         Some n \<Rightarrow> run n (rev (map (\<lambda>p. getIdentifier (named_of (getContext cprint) p)) us')) | None \<Rightarrow> 0) (length us'))"
    by (auto simp: Let_def)
  have "us' = us" using first_split [OF u(1)] u(2) assms(5) by simp
  from t [unfolded this] show ?thesis using assms by (simp add: printParamName_def Let_def assertA_def)
qed

lemma writes_local_name:
  assumes "local_name (getContext cprint) fd d L" and "getDeclContext (named_of (getContext cprint) d) = Some fd"
    and "isFunctionOrMethod (named_of (getContext cprint) fd)"
  shows "writes Q (if isaD (getContext cprint) ParmVarDecl d then printParamName cprint d else printUnqualifiedName cprint d) [L]"
  using assms(1)
proof cases
  case (parameter us ws)
  with printParamName_put [OF assms(2,3) parameter(3-5)] writes_param [OF parameter(6)] show ?thesis by simp
next
  case (variable n)
  then show ?thesis using writes_str by (simp add: printUnqualifiedName_def)
qed

lemma emits_no_anon:
  "emits (plain_setting ctx) r i (f (-1)) ts r' j \<Longrightarrow>
   emits (plain_setting ctx) r i (asking (\<lambda>s. find_anon (names s) d) f) ts r' j"
  unfolding emits_def asking_def by (simp add: plain_setting_def find_anon_def)

definition value_head :: "ClangPrinter \<Rightarrow> ptr \<Rightarrow> printer" where
  "value_head cprint d =
     (let ctx = getContext cprint in
      asking (\<lambda>s. find_anon (names s) d) (\<lambda>t.
          if t \<noteq> -1 then seqP [ctor ''Evar'' False, puts [''(localname.anon '', decimal_int t, '')'']]
          else case getDeclContext (named_of ctx d) of
            None \<Rightarrow> seqP [ctor ''Evar'' False, die ''null context'']
          | Some dc \<Rightarrow>
              if local_decl ctx dc d then
                seqP [ctor ''Evar'' False, if isaD ctx ParmVarDecl d then printParamName cprint d else printUnqualifiedName cprint d]
              else
                seqP [ctor ''Eglobal'' False,
                      if isDeclContext (decl ctx d) then withDeclContext (Some d) (rec_printName cprint d) else rec_printName cprint d]))"

lemma printValueDeclExpr_head:
  "printValueDeclExpr_named cprint d =
     seqP [value_head cprint d, nbsp, printQualType cprint (getType (named_of (getContext cprint) d)), end_ctor]"
  by (simp only: printValueDeclExpr_named_def value_head_def local_decl_def Let_def)

lemma deep_value:
  assumes "value_is print (getContext config) d t"
  shows "deep (\<lambda>n. writes (plain_setting (getContext config)) (printValueDeclExpr_named (mk_cprint n print config) d) [t])"
  using assms
proof cases
  case (local_value fd L T)
  have c: "word ''Evar''" by (simp add: word_simps)
  have l: "writes Q (if isaD (getContext config) ParmVarDecl d then printParamName (mk_cprint n print config) d
      else printUnqualifiedName (mk_cprint n print config) d) [L]" for Q n
    using writes_local_name [of "mk_cprint n print config" fd d L] local_value by (simp add: local_decl_def)
  have "emits Q False i (seqP [ctor ''Evar'' False, if isaD (getContext config) ParmVarDecl d
      then printParamName (mk_cprint n print config) d else printUnqualifiedName (mk_cprint n print config) d])
      (LP # Word ''Evar'' # term_tokens L) False (Suc i)" for Q n i
    by (rule emits_eq [OF emits_Cons [OF emits_ctor [OF c] emits_Cons [OF emits_writes [OF l] emits_Nil]]]) simp
  then have e: "emits (plain_setting (getContext config)) False i (value_head (mk_cprint n print config) d)
      (LP # Word ''Evar'' # term_tokens L) False (Suc i)" for n i
    using local_value(2,3) unfolding value_head_def Let_def mk_cprint_fields
    by (intro emits_no_anon) (simp del: seqP.simps)
  show ?thesis
    by (rule eventually_mono [OF deep_type [OF local_value(5)]], unfold local_value(1) printValueDeclExpr_head mk_cprint_fields,
        rule writes_par, (rule emits_Cons [OF e] compose emits_writes | assumption)+) simp
next
  case (global_value dc N T)
  have c: "word ''Eglobal''" by (simp add: word_simps)
  have e: "emits (plain_setting (getContext config)) False i (value_head (mk_cprint n print config) d)
      (LP # Word ''Eglobal'' # term_tokens N) False (Suc i)"
    if w: "writes (\<lambda>N c. True) (rec_printName (mk_cprint n print config) d) [N]" for n i
  proof -
    have "writes (plain_setting (getContext config)) (if isDeclContext (decl (getContext config) d)
        then withDeclContext (Some d) (rec_printName (mk_cprint n print config) d) else rec_printName (mk_cprint n print config) d) [N]"
      using writes_withDeclContext [OF w] writes_weaken [OF w] by simp
    then have "emits (plain_setting (getContext config)) False i (seqP [ctor ''Eglobal'' False,
        if isDeclContext (decl (getContext config) d) then withDeclContext (Some d) (rec_printName (mk_cprint n print config) d)
        else rec_printName (mk_cprint n print config) d]) (LP # Word ''Eglobal'' # term_tokens N) False (Suc i)"
      by (intro emits_eq [OF emits_Cons [OF emits_ctor [OF c] emits_Cons [OF emits_writes [where ts = "[N]"] emits_Nil]]]) simp_all
    with global_value(2,3) show ?thesis
      unfolding value_head_def Let_def mk_cprint_fields by (intro emits_no_anon) (simp del: seqP.simps)
  qed
  show ?thesis
    by (rule eventually_elim2 [OF deep_name [OF global_value(4)] deep_type [OF global_value(5)]],
        unfold global_value(1) printValueDeclExpr_head mk_cprint_fields,
        rule writes_par, (rule emits_Cons [OF e] compose emits_writes | assumption)+) simp
qed

end
