(* ===== verification/ExprText.thy ===== *)
theory ExprText
  imports PartsText
begin

text \<open>
  One lemma for each visitor of expressions: if what it calls writes terms, with enough levels, then it writes the term that
  the rules of \<open>CodeTerms\<close> give.
\<close>

section \<open>What is proved about expressions\<close>

abbreviation expr_ok :: "CoqPrinter \<Rightarrow> ClangPrinter \<Rightarrow> ptr \<Rightarrow> cterm \<Rightarrow> bool" where
  "expr_ok print config e t \<equiv>
     deep (\<lambda>n. writes (plain_setting (getContext config)) (rec_printExpr (mk_cprint n print config) e) [t])"

definition node_ok :: "CoqPrinter \<Rightarrow> ClangPrinter \<Rightarrow> ptr \<Rightarrow> expr_node \<Rightarrow> cterm \<Rightarrow> bool" where
  "node_ok print config e node t \<longleftrightarrow>
     (\<forall>visit. deep (\<lambda>n. writes (plain_setting (getContext config))
        (expr_dispatch (visit n) print (mk_cprint n print config) e node) [t]))"

lemma node_ok0:
  "(\<And>n visit. writes (plain_setting (getContext config)) (expr_dispatch visit print (mk_cprint n print config) e node) [t]) \<Longrightarrow>
   node_ok print config e node t"
  by (simp add: node_ok_def)

lemma node_ok1:
  "deep P1 \<Longrightarrow>
   (\<And>n visit. P1 n \<Longrightarrow>
      writes (plain_setting (getContext config)) (expr_dispatch visit print (mk_cprint n print config) e node) [t]) \<Longrightarrow>
   node_ok print config e node t"
  unfolding node_ok_def by (auto elim: eventually_mono)

lemma node_ok2:
  "deep P1 \<Longrightarrow> deep P2 \<Longrightarrow>
   (\<And>n visit. P1 n \<Longrightarrow> P2 n \<Longrightarrow>
      writes (plain_setting (getContext config)) (expr_dispatch visit print (mk_cprint n print config) e node) [t]) \<Longrightarrow>
   node_ok print config e node t"
  unfolding node_ok_def by (auto elim: eventually_elim2)

lemma node_ok3:
  assumes "deep P1" "deep P2" "deep P3" and "\<And>n visit. P1 n \<Longrightarrow> P2 n \<Longrightarrow> P3 n \<Longrightarrow>
      writes (plain_setting (getContext config)) (expr_dispatch visit print (mk_cprint n print config) e node) [t]"
  shows "node_ok print config e node t"
  by (rule node_ok2 [OF eventually_conj [OF assms(1,2)] assms(3)]) (simp add: assms(4))

lemma node_ok4:
  assumes "deep P1" "deep P2" "deep P3" "deep P4" and "\<And>n visit. P1 n \<Longrightarrow> P2 n \<Longrightarrow> P3 n \<Longrightarrow> P4 n \<Longrightarrow>
      writes (plain_setting (getContext config)) (expr_dispatch visit print (mk_cprint n print config) e node) [t]"
  shows "node_ok print config e node t"
  by (rule node_ok3 [OF eventually_conj [OF assms(1,2)] assms(3,4)]) (simp add: assms(5))

lemmas ends = emits_done_T emits_done_V emits_done_DT emits_done_NONE emits_done_operator

lemma deep_ety:
  "type_is print (getContext config) (ety (getContext config) e) T \<Longrightarrow>
   deep (\<lambda>n. writes Q (printQualType (mk_cprint n print config) (expr_ty (mk_cprint n print config) e)) [T])"
  using deep_type by (simp add: expr_ty_def)

lemma deep_exprs:
  "list_all2 (expr_ok print config) es ts \<Longrightarrow>
   deep (\<lambda>n. writes (plain_setting (getContext config)) (exprs (mk_cprint n print config) es) [list_term ts])"
  unfolding exprs_def by (rule deep_plist)

lemma deep_optional:
  "rel_option (expr_ok print config) x v \<Longrightarrow>
   deep (\<lambda>n. writes (plain_setting (getContext config)) (option_child (rec_printExpr (mk_cprint n print config)) x) [opt_term v])"
  by (rule deep_option_child)

text \<open>An operand of a sequencing operator and an expression of a statement have a table of their own.\<close>

lemma deep_fresh:
  "expr_ok print config e t \<Longrightarrow>
   deep (\<lambda>n. writes (plain_setting (getContext config)) (printExpr1 (mk_cprint n print config) e) [t])"
  unfolding printExpr1_def by (erule eventually_mono) (rule writes_fresh_names, assumption, erule plain_setting_fresh)

section \<open>Literals\<close>

lemma node_integer:
  assumes "getTypePtrOrNull (ety (getContext config) e) = Some p" and "type_is print (getContext config) (ety (getContext config) e) T"
    and "u = (if isSignedIntegerOrEnumerationType (type_of (getContext config) p) then signed_take_bit (w - 1) v else take_bit w v)"
  shows "node_ok print config e (IntegerLiteral v w) (app ''Eint'' [Sym (decimal_int u @ ''%Z''), T])"
proof -
  have e: "VisitIntegerLiteral print (mk_cprint n print config) e v w =
      seqP [ctor ''Eint'' False, puts [decimal_int u, ''%Z''], done_expr print (mk_cprint n print config) e Done_T]" for n
    unfolding VisitIntegerLiteral_def expr_ty_def mk_cprint_fields assms(1,3) option.case by (rule refl)
  show ?thesis
    by (rule node_ok1 [OF deep_ety [OF assms(2)]], unfold expr_dispatch.simps e,
        rule writes_par, (rule compose ends emits_writes | assumption | (simp add: word_simps; fail))+)
qed

lemma node_character:
  assumes "type_is print (getContext config) (ety (getContext config) e) T"
  shows "node_ok print config e (CharacterLiteral c) (app ''Echar'' [Sym (decimal c @ ''%N''), T])"
  by (rule node_ok1 [OF deep_ety [OF assms]], unfold expr_dispatch.simps VisitCharacterLiteral_def,
      rule writes_par, (rule compose ends emits_writes | assumption | (simp add: word_simps; fail))+)

lemma node_truth:
  assumes "node \<in> {CXXBoolLiteralExpr b, CXXNoexceptExpr b, TypeTraitExpr b}"
  shows "node_ok print config e node (app ''Ebool'' [bool_term b])"
proof (rule node_ok0)
  fix n visit
  have "writes Q (Ebool b) [app ''Ebool'' [bool_term b]]" for Q
    unfolding Ebool_def by (rule writes_par, (rule compose | (simp add: word_simps; fail))+)
  moreover have "writes Q (VisitCXXBoolLiteralExpr b) [app ''Ebool'' [bool_term b]]" for Q
    unfolding VisitCXXBoolLiteralExpr_def
    by (cases b; simp only: if_True if_False; rule writes_par,
        rule emits_put_paren [where m = Between and us = "term_tokens (app ''Ebool'' [bool_term b])"])
      (simp_all add: start_def word_simps bool_term_def)
  ultimately show "writes (plain_setting (getContext config))
      (expr_dispatch visit print (mk_cprint n print config) e node) [app ''Ebool'' [bool_term b]]"
    using assms by auto
qed

lemma node_nullptr: "node_ok print config e CXXNullPtrLiteralExpr (Sym ''Enull'')"
  by (rule node_ok0, unfold expr_dispatch.simps VisitCXXNullPtrLiteralExpr_def,
      rule writes_plain, (rule compose | (simp add: word_simps par_def; fail))+)

lemma node_gnu_null:
  assumes "type_is print (getContext config) (ety (getContext config) e) T"
  shows "node_ok print config e GNUNullExpr (app ''Egnu_null'' [T])"
  by (rule node_ok1 [OF deep_ety [OF assms]], unfold expr_dispatch.simps VisitGNUNullExpr_def,
      rule writes_par, (rule compose ends emits_writes | assumption | (simp add: word_simps; fail))+)

lemma node_implicit_init:
  assumes "node \<in> {ImplicitValueInitExpr, CXXScalarValueInitExpr}"
    and "type_is print (getContext config) (ety (getContext config) e) T"
  shows "node_ok print config e node (app ''Eimplicit_init'' [T])"
proof (rule node_ok1 [OF deep_ety [OF assms(2)]])
  fix n visit
  let ?Q = "plain_setting (getContext config)" and ?c = "mk_cprint n print config"
  assume "writes ?Q (printQualType ?c (expr_ty ?c e)) [T]"
  then have "writes ?Q (VisitImplicitValueInitExpr print ?c e) [app ''Eimplicit_init'' [T]]"
    "writes ?Q (VisitCXXScalarValueInitExpr ?c e) [app ''Eimplicit_init'' [T]]"
    unfolding VisitImplicitValueInitExpr_def VisitCXXScalarValueInitExpr_def
    by - (rule writes_par, (rule compose ends emits_writes | assumption | (simp add: word_simps; fail))+)+
  with assms(1) show "writes ?Q (expr_dispatch visit print ?c e node) [app ''Eimplicit_init'' [T]]" by auto
qed

lemma emits_no_lambda:
  "emits (plain_setting ctx) r i (f None) ts r' j \<Longrightarrow> emits (plain_setting ctx) r i (asking (getLambdaClass ctx \<circ> declctx) f) ts r' j"
  unfolding emits_def asking_def by (simp add: plain_setting_def)

lemma node_this:
  assumes "type_is print (getContext config) (ety (getContext config) e) T"
  shows "node_ok print config e CXXThisExpr (app ''Ethis'' [T])"
  by (rule node_ok1 [OF deep_ety [OF assms]], unfold expr_dispatch.simps VisitCXXThisExpr_def Let_def mk_cprint_fields,
      rule writes_par, rule emits_no_lambda, unfold option.case,
      (rule compose ends emits_writes | assumption | (simp add: word_simps; fail))+)

lemma deep_element_type:
  assumes "element_type_is print (getContext config) e t"
  shows "deep (\<lambda>n. \<exists>p. print_string_type (mk_cprint n print config) e = seqP [nbsp, p] \<and> writes Q p [t])"
proof -
  from assms obtain p q r T where
    p: "getTypePtrOrNull (ety (getContext config) e) = Some p" "array_element (type_node (type_of (getContext config) p)) = Some q"
      "getTypePtrOrNull q = Some r" "denotes print (getContext config) r T" "t = ty_term T"
    unfolding element_type_is_def by blast
  have "print_string_type (mk_cprint n print config) e = seqP [nbsp, printType_opt (mk_cprint n print config) (getTypePtrOrNull q)]" for n
    unfolding print_string_type_def expr_ty_def mk_cprint_fields p(1,2) option.case ..
  moreover have "deep (\<lambda>n. writes Q (printType_opt (mk_cprint n print config) (getTypePtrOrNull q)) [t])"
    using opt_type_prints [OF _ p(3)] type_prints(1) [OF p(4)] p(5) by blast
  ultimately show ?thesis by (auto elim: eventually_mono)
qed

lemma node_predefined:
  assumes "element_type_is print (getContext config) e T"
  shows "node_ok print config e (PredefinedExpr n) (app ''Estring'' [app ''BS.string_to_bytes'' [Str n], T])"
proof (rule node_ok1 [OF deep_element_type [OF assms]])
  fix k visit
  assume "\<exists>p. print_string_type (mk_cprint k print config) e = seqP [nbsp, p] \<and> writes (plain_setting (getContext config)) p [T]"
  then obtain p where p: "print_string_type (mk_cprint k print config) e = seqP [nbsp, p]"
      "writes (plain_setting (getContext config)) p [T]" by blast
  show "writes (plain_setting (getContext config)) (expr_dispatch visit print (mk_cprint k print config) e (PredefinedExpr n))
      [app ''Estring'' [app ''BS.string_to_bytes'' [Str n], T]]"
    unfolding expr_dispatch.simps VisitPredefinedExpr_def p(1)
    by (rule writes_par, (rule compose emits_writes [OF p(2)] | (simp add: word_simps; fail))+)
qed

lemma node_string:
  assumes "w \<noteq> 0" and "element_type_is print (getContext config) e T"
  shows "node_ok print config e (StringLiteral bytes w) (app ''Estring''
    [Par (elements (map (\<lambda>c. [Sym (decimal (unat c) @ ''%N'')]) (code_units (big_endian config) w bytes))), T])"
proof (rule node_ok1 [OF deep_element_type [OF assms(2)]])
  fix k visit
  let ?cs = "code_units (big_endian config) w bytes"
  let ?list = "seqP [begin_list, seqP (map (\<lambda>c. seqA (puts [decimal (unat c), ''%N'']) cons) ?cs), end_list]"
  assume "\<exists>p. print_string_type (mk_cprint k print config) e = seqP [nbsp, p] \<and> writes (plain_setting (getContext config)) p [T]"
  then obtain p where p: "print_string_type (mk_cprint k print config) e = seqP [nbsp, p]"
      "writes (plain_setting (getContext config)) p [T]" by blast
  have n: "writes Q (puts [decimal m, ''%N'']) [Sym (decimal m @ ''%N'')]" for Q m
    by (rule writes_plain [OF emits_number_N]) (simp_all add: par_def)
  have "list_all2 (\<lambda>c ts. writes (plain_setting (getContext config)) (puts [decimal (unat c), ''%N'']) ts) ?cs
      (map (\<lambda>c. [Sym (decimal (unat c) @ ''%N'')]) ?cs)"
    by (simp add: list_all2_conv_all_nth n)
  note l = writes_elements [OF this]
  have e: "VisitStringLiteral print (mk_cprint k print config) e bytes w =
      seqP [ctor ''Estring'' False, ?list, seqP [nbsp, p], end_ctor]"
    using assms(1) by (simp add: VisitStringLiteral_def p(1) seqA_assoc)
  show "writes (plain_setting (getContext config)) (expr_dispatch visit print (mk_cprint k print config) e (StringLiteral bytes w))
      [app ''Estring'' [Par (elements (map (\<lambda>c. [Sym (decimal (unat c) @ ''%N'')]) ?cs)), T]]"
    unfolding expr_dispatch.simps e
    by (rule writes_par, rule emits_Cons [OF emits_ctor emits_Cons [OF emits_writes [OF l] emits_Cons [OF emits_Cons [OF emits_nbsp
            emits_Cons [OF emits_writes [OF p(2)] emits_Nil]] emits_Cons [OF emits_end_ctor emits_Nil]]]])
      (simp_all add: word_simps)
qed

section \<open>References and members\<close>

lemma writes_identifier: "getIdentifier (named_of (getContext cprint) d) = Some n \<Longrightarrow> writes Q (printUnqualifiedName cprint d) [Str n]"
  by (simp add: printUnqualifiedName_def writes_str)

lemma node_reference:
  assumes "ref_is print (getContext config) e d t"
  shows "node_ok print config e (DeclRefExpr (Some d) False) t"
  using assms
proof cases
  case (enum_const p c N n)
  note i = writes_identifier [of "mk_cprint k print config" d n for k, simplified, OF enum_const(7)]
  have e: "expr_dispatch visit print (mk_cprint k print config) e (DeclRefExpr (Some d) False) =
      seqP [ctor ''Eenum_const'' False, printName_opt (mk_cprint k print config) (Some c), nbsp,
            printUnqualifiedName (mk_cprint k print config) d, end_ctor]" for k visit
    using enum_const by (simp add: VisitDeclRefExpr_def enum_constant_def Let_def expr_ty_def del: seqP.simps)
  show ?thesis
    unfolding enum_const(1)
    by (rule node_ok1 [OF deep_name_opt [OF enum_const(6)]], unfold e,
        rule writes_par, (rule compose emits_writes [OF i] | (rule emits_writes, assumption) | (simp add: word_simps; fail))+)
next
  case (enum_const_at p c N n T)
  note i = writes_identifier [of "mk_cprint k print config" d n for k, simplified, OF enum_const_at(7)]
  have e: "expr_dispatch visit print (mk_cprint k print config) e (DeclRefExpr (Some d) False) =
      seqP [ctor ''Eenum_const_at'' False, printName_opt (mk_cprint k print config) (Some c), nbsp,
            printUnqualifiedName (mk_cprint k print config) d, nbsp, done_expr print (mk_cprint k print config) e Done_T]" for k visit
    using enum_const_at by (simp add: VisitDeclRefExpr_def enum_constant_def Let_def expr_ty_def del: seqP.simps)
  show ?thesis
    unfolding enum_const_at(1)
    by (rule node_ok2 [OF deep_name_opt [OF enum_const_at(6)] deep_ety [OF enum_const_at(8)]], unfold e,
        rule writes_par, (rule compose ends emits_writes [OF i] | assumption | (rule emits_writes, assumption) | (simp add: word_simps; fail))+)
next
  case (template_value n)
  note i = writes_identifier [of "mk_cprint k print config" d n for k, simplified, OF template_value(5)]
  have e: "expr_dispatch visit print (mk_cprint k print config) e (DeclRefExpr (Some d) False) =
      seqP [ctor ''Eparam'' False, seqP [printUnqualifiedName (mk_cprint k print config) d], end_ctor]" for k visit
    using template_value by (simp add: VisitDeclRefExpr_def guard_ctor_def Let_def del: seqP.simps)
  show ?thesis
    unfolding template_value(1)
    by (rule node_ok0, unfold e, rule writes_par, (rule compose emits_writes [OF i] | (simp add: word_simps; fail))+)
next
  case plain_value
  then show ?thesis
    by (intro node_ok1 [OF deep_value [OF plain_value(3)]]) (simp add: VisitDeclRefExpr_def Let_def)
qed

lemma deep_member:
  assumes "member_is print (getContext config) d M"
  shows "deep (\<lambda>n. writes Q (let ctx = getContext (mk_cprint n print config); cprint = mk_cprint n print config in
     if isaD ctx FieldDecl d then
       guard_ctor ''Field'' False
         [printFieldName print cprint d, nbsp, boolean (isMutable (naming_of ctx d)), nbsp, printQualType cprint (getType (named_of ctx d))]
     else if isaD ctx EnumConstantDecl d then guard_ctor ''Enum'' False [rec_printName cprint d]
     else if isaD ctx VarDecl d then
       seqP [assertA ''variable referenced through member must be a static data member'' (isStaticDataMember (naming_of ctx d)),
             guard_ctor ''Static'' False [rec_printName cprint d, nbsp, printQualType cprint (getType (named_of ctx d))]]
     else if isaD ctx CXXMethodDecl d then
       guard_ctor ''Static'' False [rec_printName cprint d, nbsp, printQualType cprint (getType (named_of ctx d))]
     else die ''Unknown member in MemberExpr'') [M])"
  using assms
proof cases
  case (field_member n T)
  have f: "writes Q (printFieldName print (mk_cprint k print config) d) [app ''field_name.Id'' [Str n]]" for Q k
    unfolding printFieldName_def mk_cprint_fields field_member(3) option.case guard_ctor_def
    by (rule writes_par, (rule compose | (simp add: word_simps; fail))+)
  show ?thesis
    unfolding field_member(1) Let_def mk_cprint_fields if_P [OF field_member(2)] guard_ctor_def
    by (rule eventually_mono [OF deep_type [OF field_member(4)]],
        rule writes_par, (rule compose emits_writes [OF f] | (rule emits_writes, assumption) | (simp add: word_simps; fail))+)
next
  case (enum_member N)
  show ?thesis
    unfolding enum_member(1) Let_def mk_cprint_fields if_not_P [OF enum_member(2)] if_P [OF enum_member(3)] guard_ctor_def
    by (rule eventually_mono [OF deep_name [OF enum_member(4)]],
        rule writes_par, (rule compose | (rule emits_writes, assumption) | (simp add: word_simps; fail))+)
next
  case (static_member N T)
  have "writes Q (guard_ctor ''Static'' False [p, nbsp, q]) [app ''Static'' [N, T]]"
    if "writes Q p [N]" "writes Q q [T]" for p q Q
    unfolding guard_ctor_def
    by (rule writes_par, (rule compose emits_writes [OF that(1)] emits_writes [OF that(2)] | (simp add: word_simps; fail))+)
  note s = this
  have k: "seqP [skip, p] = p" for p :: printer by simp
  show ?thesis
    unfolding static_member(1) Let_def mk_cprint_fields if_not_P [OF static_member(2)] if_not_P [OF static_member(3)]
    by (rule eventually_elim2 [OF deep_name [OF static_member(5)] deep_type [OF static_member(6)]])
      (use static_member(4) s in \<open>auto simp: assertA_def k simp del: seqP.simps\<close>)
qed

lemma node_member:
  assumes "expr_ok print config b a" and "member_is print (getContext config) d M"
  shows "node_ok print config e (MemberExpr b d arrow v) (app ''Emember'' [bool_term arrow, a, M])"
  by (rule node_ok2 [OF assms(1) deep_member [OF assms(2)]], unfold expr_dispatch.simps VisitMemberExpr_def Let_def,
      rule writes_par, (rule compose | (rule emits_writes, assumption) | (simp add: word_simps; fail))+)

section \<open>Operators\<close>

lemma node_same:
  assumes "same_as node = Some s" and "expr_ok print config s t"
  shows "node_ok print config e node t"
  using assms
  by (cases node rule: same_as.cases) (auto simp: VisitCXXRewrittenBinaryOperator_def VisitInitListExpr_def intro!: node_ok1 [OF assms(2)])

lemma node_around:
  assumes "around_name node = Some (c, s)" and "expr_ok print config s t"
  shows "node_ok print config e node (app c [t])"
proof (rule node_ok1 [OF assms(2)])
  fix n visit
  assume t: "writes (plain_setting (getContext config)) (rec_printExpr (mk_cprint n print config) s) [t]"
  have c: "word c" using assms(1) by (cases node rule: around_name.cases) (auto simp: word_simps)
  have "writes (plain_setting (getContext config)) (around (mk_cprint n print config) c s) [app c [t]]"
    unfolding around_def by (rule writes_par, (rule emits_ctor [OF c] compose emits_writes [OF t])+) simp
  moreover have "expr_dispatch visit print (mk_cprint n print config) e node = around (mk_cprint n print config) c s"
    using assms(1) by (cases node rule: around_name.cases) (auto simp: VisitUnaryOperator_def guard_ctor_def around_def)
  ultimately show "writes (plain_setting (getContext config)) (expr_dispatch visit print (mk_cprint n print config) e node) [app c [t]]"
    by simp
qed

lemma node_subscript:
  assumes "expr_ok print config (under_cast (getContext config) l) a" and "expr_ok print config (under_cast (getContext config) r) b"
    and "op_type_is print (getContext config) e T"
  shows "node_ok print config e (ArraySubscriptExpr l r) (app ''Esubscript'' [a, b, T])"
  by (rule node_ok3 [OF assms(1,2) deep_operator [OF assms(3)]], unfold expr_dispatch.simps VisitArraySubscriptExpr_def mk_cprint_fields,
      rule writes_par, (rule compose ends | assumption | (rule emits_writes, assumption) | (simp add: word_simps; fail))+)

lemma type_tests:
  "has_dependent_type (mk_cprint n print config) e = dependent (getContext config) e"
  "is_bool_type (mk_cprint n print config) (ety (getContext config) e) = boolean_type (getContext config) e"
  by (simp_all add: has_dependent_type_def dependent_def is_bool_type_def boolean_type_def expr_ty_def split: option.split)

lemma node_sequencing:
  assumes "sequencing_name op = Some c" and "expr_ok print config l a" and "expr_ok print config r b"
    and "sequencing_typed print (getContext config) e op r"
  shows "node_ok print config e (BinaryOperator op l r) (app c [a, b])"
proof (rule node_ok2 [OF deep_fresh [OF assms(2)] deep_fresh [OF assms(3)]])
  fix n visit
  let ?Q = "plain_setting (getContext config)" and ?c = "mk_cprint n print config"
  assume w: "writes ?Q (printExpr1 ?c l) [a]" "writes ?Q (printExpr1 ?c r) [b]"
  have c: "word c" using assms(1) by (cases op) (auto simp: word_simps)
  have s: "writes ?Q (sequencing_operator ?c c l r msg True) [app c [a, b]]" for msg
    unfolding sequencing_operator_def assertA_def if_True
    by (rule writes_par, (rule emits_ctor [OF c] compose emits_writes [OF w(1)] emits_writes [OF w(2)])+) simp
  then show "writes ?Q (expr_dispatch visit print ?c e (BinaryOperator op l r)) [app c [a, b]]"
    using assms(1,4)
    by (cases op) (auto simp: VisitBinaryOperator_def Let_def sequencing_typed_def type_tests expr_ty_def [of _ r] expr_ty_def [of _ e])
qed

lemma operator_words:
  "assign_op_name op = Some w \<Longrightarrow> word w" "binop_name op = Some w \<Longrightarrow> word w"
  "op' \<in> {UO_Plus, UO_Minus, UO_Not, UO_LNot} \<Longrightarrow> unop_name op' = Some w \<Longrightarrow> word w" "step_name op' = Some w \<Longrightarrow> word w"
proof -
  show "assign_op_name op = Some w \<Longrightarrow> word w" by (cases op) (auto simp: word_simps)
  show "binop_name op = Some w \<Longrightarrow> word w" by (cases op) (auto simp: word_simps)
  show "op' \<in> {UO_Plus, UO_Minus, UO_Not, UO_LNot} \<Longrightarrow> unop_name op' = Some w \<Longrightarrow> word w" by (auto simp: word_simps)
  show "step_name op' = Some w \<Longrightarrow> word w" by (cases op') (auto simp: word_simps)
qed

lemma node_assign:
  assumes "expr_ok print config l a" and "expr_ok print config r b" and "op_type_is print (getContext config) e T"
  shows "node_ok print config e (BinaryOperator BO_Assign l r) (app ''Eassign'' [a, b, T])"
  by (rule node_ok3 [OF assms(1,2) deep_operator [OF assms(3)]], unfold expr_dispatch.simps VisitBinaryOperator_def Let_def BinaryOperatorKind.case,
      rule writes_par, (rule compose ends | assumption | (rule emits_writes, assumption) | (simp add: word_simps; fail))+)

lemma VisitBinaryOperator_named:
  "assign_op_name op = Some w \<Longrightarrow> VisitBinaryOperator print cprint e op l r =
     seqP [ctor ''Eassign_op'' True, put w, nbsp, seqP [rec_printExpr cprint l, nbsp, rec_printExpr cprint r, done_operator print cprint e]]"
  "binop_name op = Some w \<Longrightarrow> VisitBinaryOperator print cprint e op l r =
     seqP [ctor ''Ebinop'' True, put w, nbsp, seqP [rec_printExpr cprint l, nbsp, rec_printExpr cprint r, done_operator print cprint e]]"
  by (cases op; simp add: VisitBinaryOperator_def printBinaryOperator_def Let_def)+

lemma node_assign_op:
  assumes "assign_op_name op = Some w" and "expr_ok print config l a" and "expr_ok print config r b"
    and "op_type_is print (getContext config) e T"
  shows "node_ok print config e (BinaryOperator op l r) (app ''Eassign_op'' [Sym w, a, b, T])"
  using operator_words(1) [OF assms(1)]
  by (intro node_ok3 [OF assms(2,3) deep_operator [OF assms(4)]], unfold expr_dispatch.simps VisitBinaryOperator_named(1) [OF assms(1)])
    (rule writes_par, (rule compose ends | assumption | (rule emits_writes, assumption) | (simp add: word_simps; fail))+)

lemma node_binop:
  assumes "binop_name op = Some w" and "expr_ok print config l a" and "expr_ok print config r b"
    and "op_type_is print (getContext config) e T"
  shows "node_ok print config e (BinaryOperator op l r) (app ''Ebinop'' [Sym w, a, b, T])"
  using operator_words(2) [OF assms(1)]
  by (intro node_ok3 [OF assms(2,3) deep_operator [OF assms(4)]], unfold expr_dispatch.simps VisitBinaryOperator_named(2) [OF assms(1)])
    (rule writes_par, (rule compose ends | assumption | (rule emits_writes, assumption) | (simp add: word_simps; fail))+)

lemma VisitUnaryOperator_named:
  "step_name op = Some c \<Longrightarrow> VisitUnaryOperator print cprint e op s =
     seqP [ctor c True, seqP [rec_printExpr cprint s, done_operator print cprint e]]"
  "op \<in> {UO_Plus, UO_Minus, UO_Not, UO_LNot} \<Longrightarrow> unop_name op = Some w \<Longrightarrow> VisitUnaryOperator print cprint e op s =
     seqP [ctor ''Eunop'' True, put w, nbsp, seqP [rec_printExpr cprint s, done_operator print cprint e]]"
  by (cases op; auto simp: VisitUnaryOperator_def printUnaryOperator_def Let_def)+

lemma node_step:
  assumes "step_name op = Some c" and "expr_ok print config s a" and "op_type_is print (getContext config) e T"
  shows "node_ok print config e (UnaryOperator op s) (app c [a, T])"
  using operator_words(4) [OF assms(1)]
  by (intro node_ok2 [OF assms(2) deep_operator [OF assms(3)]], unfold expr_dispatch.simps VisitUnaryOperator_named(1) [OF assms(1)])
    (rule writes_par, (rule compose ends | assumption | (rule emits_writes, assumption) | (simp add: word_simps; fail))+)

lemma node_unop:
  assumes "op \<in> {UO_Plus, UO_Minus, UO_Not, UO_LNot}" and "unop_name op = Some w" and "expr_ok print config s a"
    and "op_type_is print (getContext config) e T"
  shows "node_ok print config e (UnaryOperator op s) (app ''Eunop'' [Sym w, a, T])"
  using operator_words(3) [OF assms(1,2)]
  by (intro node_ok2 [OF assms(3) deep_operator [OF assms(4)]], unfold expr_dispatch.simps VisitUnaryOperator_named(2) [OF assms(1,2)])
    (rule writes_par, (rule compose ends | assumption | (rule emits_writes, assumption) | (simp add: word_simps; fail))+)

lemma node_address:
  assumes "\<And>d b. expr_node (expr_of (getContext config) s) = DeclRefExpr d b \<Longrightarrow> \<exists>x. d = Some x \<and> is_static_member (getContext config) x = Inr True"
    and "expr_ok print config s a"
  shows "node_ok print config e (UnaryOperator UO_AddrOf s) (app ''Eaddrof'' [a])"
proof -
  have e: "addr_of (mk_cprint n print config) s = seqP [ctor ''Eaddrof'' True, rec_printExpr (mk_cprint n print config) s, end_ctor]" for n
    using assms(1) by (auto simp: addr_of_def Let_def with_answer_def split: expr_node.split simp del: seqP.simps)
  show ?thesis
    by (rule node_ok1 [OF assms(2)], unfold expr_dispatch.simps VisitUnaryOperator_def Let_def UnaryOperatorKind.case e,
        rule writes_par, (rule compose | (rule emits_writes, assumption) | (simp add: word_simps; fail))+)
qed

lemma node_member_address:
  assumes "expr_node (expr_of (getContext config) s) = DeclRefExpr (Some d) b" and "is_static_member (getContext config) d = Inr False"
    and "name_is print (getContext config) d N" and "type_is print (getContext config) (getType (named_of (getContext config) d)) T"
  shows "node_ok print config e (UnaryOperator UO_AddrOf s) (app ''Eglobal_member'' [N, T])"
proof -
  have e: "addr_of (mk_cprint n print config) s = seqP [ctor ''Eglobal_member'' True,
      seqP [rec_printName (mk_cprint n print config) d, nbsp,
        printQualType (mk_cprint n print config) (getType (named_of (getContext config) d))], end_ctor]" for n
    using assms(1,2) by (simp add: addr_of_def Let_def with_answer_def guard_ctor_def del: seqP.simps)
  show ?thesis
    by (rule node_ok2 [OF deep_name [OF assms(3)] deep_type [OF assms(4)]],
        unfold expr_dispatch.simps VisitUnaryOperator_def Let_def UnaryOperatorKind.case e,
        rule writes_par, (rule compose | (rule emits_writes, assumption) | (simp add: word_simps; fail))+)
qed

lemma node_conditional:
  assumes "expr_ok print config c a" and "expr_ok print config t b" and "expr_ok print config x (Par d)"
    and "decl_type_is print (getContext config) e T"
  shows "node_ok print config e (ConditionalOperator c t x) (app ''Eif'' [a, b, Par d, T])"
proof (rule node_ok4 [OF assms(1,2,3) deep_decl_type [OF assms(4)]])
  fix n visit
  let ?Q = "plain_setting (getContext config)" and ?c = "mk_cprint n print config"
  assume w: "writes ?Q (rec_printExpr ?c c) [a]" "writes ?Q (rec_printExpr ?c t) [b]" "writes ?Q (rec_printExpr ?c x) [Par d]"
    "writes ?Q (printDeclType ?c e) [T]"
  show "writes ?Q (expr_dispatch visit print ?c e (ConditionalOperator c t x)) [app ''Eif'' [a, b, Par d, T]]"
    unfolding expr_dispatch.simps VisitConditionalOperator_def
    by (rule writes_par, (rule compose emits_done_DT [OF w(4)] emits_writes_par [OF w(3)] emits_writes [OF w(1)] emits_writes [OF w(2)]
          | (simp add: word_simps; fail))+)
qed

lemma node_trait:
  assumes "trait_name k = Some c"
  shows "type_is print (getContext config) q S \<Longrightarrow> type_is print (getContext config) (ety (getContext config) e) T \<Longrightarrow>
      node_ok print config e (UnaryExprOrTypeTraitExpr k (Some q) arg) (app c [app ''inl'' [S], T])"
    and "expr_ok print config x a \<Longrightarrow> type_is print (getContext config) (ety (getContext config) e) T \<Longrightarrow>
      node_ok print config e (UnaryExprOrTypeTraitExpr k None (Some x)) (app c [app ''inr'' [a], T])"
proof -
  have c: "word c" using assms by (cases k) (auto simp: word_simps)
  have e: "VisitUnaryExprOrTypeTraitExpr print cp e k ty arg = seqP [ctor c False, trait_argument cp ty arg, done_expr print cp e Done_T]"
    for cp ty arg using assms by (cases k) (auto simp: VisitUnaryExprOrTypeTraitExpr_def)
  show "node_ok print config e (UnaryExprOrTypeTraitExpr k (Some q) arg) (app c [app ''inl'' [S], T])"
    if "type_is print (getContext config) q S" "type_is print (getContext config) (ety (getContext config) e) T"
    by (rule node_ok2 [OF deep_type [OF that(1)] deep_ety [OF that(2)]], unfold expr_dispatch.simps e trait_argument_def option.case,
        rule writes_par, (rule emits_ctor [OF c] compose ends | assumption | (rule emits_writes, assumption) | (simp add: word_simps; fail))+)
  show "node_ok print config e (UnaryExprOrTypeTraitExpr k None (Some x)) (app c [app ''inr'' [a], T])"
    if "expr_ok print config x a" "type_is print (getContext config) (ety (getContext config) e) T"
    by (rule node_ok2 [OF that(1) deep_ety [OF that(2)]], unfold expr_dispatch.simps e trait_argument_def option.case,
        rule writes_par, (rule emits_ctor [OF c] compose ends | assumption | (rule emits_writes, assumption) | (simp add: word_simps; fail))+)
qed

section \<open>Casts\<close>

lemma cast_words: "cast_name ck = Some (c, b) \<Longrightarrow> word c"
  by (cases ck) (auto simp: word_simps)

lemma deep_cast_path:
  assumes "list_all2 (\<lambda>q t. \<exists>p T. getTypePtrOrNull q = Some p \<and> denotes print (getContext config) p T \<and> t = ty_term T) (butlast path) ts"
  shows "deep (\<lambda>n. writes Q (cast_path (mk_cprint n print config) path m) [list_term ts])"
  unfolding cast_path_def plist_def [symmetric]
  by (rule deep_plist, rule list_all2_mono [OF assms]) (rule deep_bare_type)

lemma deep_cast:
  assumes "cast_is print (getContext config) e ck path C"
  shows "deep (\<lambda>n. writes Q (printCast print (mk_cprint n print config) e ck path) [C])"
  using assms
proof cases
  case (plain_cast c)
  then show ?thesis using cast_words writes_sym by (simp add: printCast_def)
next
  case (typed_cast c T)
  note c = cast_words [OF typed_cast(2)]
  have e: "printCast print (mk_cprint n print config) e ck path = seqP [ctor c False, printDeclType (mk_cprint n print config) e, end_ctor]" for n
    using typed_cast(2) by (simp add: printCast_def guard_ctor_def)
  show ?thesis
    unfolding e typed_cast(1)
    by (rule eventually_mono [OF deep_decl_type [OF typed_cast(3)]], rule writes_par,
        (rule emits_ctor [OF c] compose | (rule emits_writes, assumption))+) simp
next
  case (base_cast ts T)
  have e: "printCast print (mk_cprint n print config) e ck path = seqP [ctor ''Cderived2base'' True,
      cast_path (mk_cprint n print config) path ''Cderived2base without type'', nbsp, done_expr print (mk_cprint n print config) e Done_DT]" for n
    using base_cast(2) by (auto simp: printCast_def)
  show ?thesis
    unfolding e base_cast(1)
    by (rule eventually_elim2 [OF deep_cast_path [OF base_cast(3)] deep_decl_type [OF base_cast(4)]], rule writes_par,
        (rule compose ends | assumption | (rule emits_writes, assumption) | (simp add: word_simps; fail))+)
next
  case (derived_cast ts T)
  have e: "printCast print (mk_cprint n print config) e ck path = seqP [ctor ''Cbase2derived'' True,
      cast_path (mk_cprint n print config) path ''Cbase2derived without type'', nbsp, done_expr print (mk_cprint n print config) e Done_DT]" for n
    using derived_cast(1) by (auto simp: printCast_def)
  show ?thesis
    unfolding e derived_cast(2)
    by (rule eventually_elim2 [OF deep_cast_path [OF derived_cast(3)] deep_decl_type [OF derived_cast(4)]], rule writes_par,
        (rule compose ends | assumption | (rule emits_writes, assumption) | (simp add: word_simps; fail))+)
qed

lemma node_written:
  assumes "written_cast k = Some c" and "word c" and "cast_is print (getContext config) e ck path C"
    and "type_is print (getContext config) q T" and "expr_ok print config s a"
  shows "node_ok print config e (ExplicitCastExpr k ck s q path) (app c [C, T, a])"
proof -
  have e: "VisitExplicitCastExpr print cp e k ck s q path =
      seqP [ctor c True, printCast print cp e ck path, nbsp, printQualType cp q, nbsp, rec_printExpr cp s, end_ctor]" for cp
    using assms(1) by (cases k) (auto simp: VisitExplicitCastExpr_def)
  show ?thesis
    by (rule node_ok3 [OF deep_cast [OF assms(3)] deep_type [OF assms(4)] assms(5)], unfold expr_dispatch.simps e,
        rule writes_par, (rule emits_ctor [OF assms(2)] compose | (rule emits_writes, assumption))+) simp
qed

lemma node_implicit:
  assumes "ck \<noteq> CK_BuiltinFnToFnPtr" and "cast_is print (getContext config) e ck path C" and "expr_ok print config s a"
  shows "node_ok print config e (ImplicitCastExpr ck s path) (app ''Ecast'' [C, a])"
  by (rule node_ok2 [OF deep_cast [OF assms(2)] assms(3)],
      unfold expr_dispatch.simps VisitImplicitCastExpr_def Let_def if_not_P [OF assms(1)] guard_ctor_def,
      rule writes_par, (rule compose | (rule emits_writes, assumption) | (simp add: word_simps; fail))+)

lemma node_builtin_ref:
  assumes "expr_node (expr_of (getContext config) s) = DeclRefExpr (Some d) b" and "is_builtin (getContext config) (Some d)"
    and "name_is print (getContext config) d N" and "getTypePtrOrNull (ety (getContext config) e) = Some p"
    and "type_is print (getContext config)
      (case getPointeeType (type_of (getContext config) p) of Some q \<Rightarrow> q | None \<Rightarrow> ety (getContext config) e) T"
  shows "node_ok print config e (ImplicitCastExpr CK_BuiltinFnToFnPtr s path) (app ''Ebuiltin'' [N, T])"
proof -
  have e: "VisitImplicitCastExpr print (mk_cprint n print config) e CK_BuiltinFnToFnPtr s path =
      seqP [skip, ctor ''Ebuiltin'' False, printName_opt (mk_cprint n print config) (Some d), nbsp,
        printQualType (mk_cprint n print config)
          (case getPointeeType (type_of (getContext config) p) of Some q \<Rightarrow> q | None \<Rightarrow> ety (getContext config) e), end_ctor]" for n
    using assms(1,2,4)
    by (simp add: VisitImplicitCastExpr_def Let_def assertA_def expr_ty_def split: option.split)
  show ?thesis
    by (rule node_ok2 [OF deep_name_opt [OF assms(3)] deep_type [OF assms(5)]], unfold expr_dispatch.simps e,
        rule writes_par, (rule compose | (rule emits_writes, assumption) | (simp add: word_simps; fail))+)
qed

section \<open>Calls and objects\<close>

lemma node_call:
  assumes "\<not> is_dependent (expr_of (getContext config) e)" and "\<And>r q b. expr_node (expr_of (getContext config) c) \<noteq> CXXPseudoDestructorExpr r q b"
    and "expr_ok print config c a" and "list_all2 (expr_ok print config) args ts"
  shows "node_ok print config e (CallExpr c args) (app ''Ecall'' [a, list_term ts])"
proof -
  have e: "VisitCallExpr print (mk_cprint n print config) e c args =
      seqP [ctor ''Ecall'' True, rec_printExpr (mk_cprint n print config) c, nl, exprs (mk_cprint n print config) args,
        done_expr print (mk_cprint n print config) e Done_NONE]" for n
    using assms(1,2) by (simp add: VisitCallExpr_def Let_def split: expr_node.split)
  show ?thesis
    by (rule node_ok2 [OF assms(3) deep_exprs [OF assms(4)]], unfold expr_dispatch.simps e,
        rule writes_par, (rule compose ends | assumption | (rule emits_writes, assumption) | (simp add: word_simps; fail))+)
qed

lemma node_pseudo_destructor:
  assumes "\<not> is_dependent (expr_of (getContext config) e)" and "expr_node (expr_of (getContext config) c) = CXXPseudoDestructorExpr arrow q b"
    and "type_is print (getContext config) q T" and "expr_ok print config b a"
  shows "node_ok print config e (CallExpr c []) (app ''Epseudo_destructor'' [bool_term arrow, T, a])"
proof -
  have e: "VisitCallExpr print (mk_cprint n print config) e c [] =
      seqP [skip, ctor ''Epseudo_destructor'' True, putBOOL arrow, nbsp, printQualType (mk_cprint n print config) q, nbsp,
        rec_printExpr (mk_cprint n print config) b, end_ctor]" for n
    using assms(1,2) by (simp add: VisitCallExpr_def Let_def assertA_def)
  show ?thesis
    by (rule node_ok2 [OF deep_type [OF assms(3)] assms(4)], unfold expr_dispatch.simps e,
        rule writes_par, (rule compose ends | assumption | (rule emits_writes, assumption) | (simp add: word_simps; fail))+)
qed

lemma node_member_call:
  assumes "expr_node (expr_of (getContext config) c) = MemberExpr b m arrow virt" and "isaD (getContext config) CXXMethodDecl m"
    and "name_is print (getContext config) d N" and "type_is print (getContext config) (getType (named_of (getContext config) m)) T"
    and "expr_ok print config obj a" and "list_all2 (expr_ok print config) args ts"
    and "D = Sym (if isVirtual (naming_of (getContext config) d) \<and> virt then ''Virtual'' else ''Direct'')"
  shows "node_ok print config e (CXXMemberCallExpr c d obj args)
      (app ''Emember_call'' [bool_term arrow, app ''inl'' [Par [N, Sym '','', D, Sym '','', T]], a, list_term ts])"
proof (rule node_ok4 [OF deep_name [OF assms(3)] deep_type [OF assms(4)] assms(5) deep_exprs [OF assms(6)]])
  fix n visit
  let ?Q = "plain_setting (getContext config)" and ?c = "mk_cprint n print config"
  let ?d = "put (if isVirtual (naming_of (getContext config) d) \<and> virt then ''Virtual'' else ''Direct'')"
  assume w: "writes ?Q (rec_printName ?c d) [N]" "writes ?Q (printQualType ?c (getType (named_of (getContext config) m))) [T]"
    "writes ?Q (rec_printExpr ?c obj) [a]" "writes ?Q (exprs ?c args) [list_term ts]"
  have e: "VisitCXXMemberCallExpr print ?c e c d obj args = seqP [ctor ''Emember_call'' True,
      seqP [putBOOL arrow, nbsp, ctor ''inl'' True, lparen, rec_printName ?c d, put '','', nbsp, ?d, put '','', nbsp,
        printQualType ?c (getType (named_of (getContext config) m)), rparen, end_ctor, nbsp, rec_printExpr ?c obj],
      nbsp, exprs ?c args, done_expr print ?c e Done_NONE]"
    unfolding VisitCXXMemberCallExpr_def Let_def mk_cprint_fields assms(1) expr_node.case if_P [OF assms(2)] by (rule refl)
  have d: "writes Q ?d [D]" for Q
    unfolding assms(7) by (rule writes_sym) (simp add: word_simps)
  show "writes ?Q (expr_dispatch visit print ?c e (CXXMemberCallExpr c d obj args))
      [app ''Emember_call'' [bool_term arrow, app ''inl'' [Par [N, Sym '','', D, Sym '','', T]], a, list_term ts]]"
    unfolding expr_dispatch.simps e
    by (rule writes_par, (rule emits_writes [OF d] emits_writes [OF w(1)] emits_writes [OF w(2)] emits_writes [OF w(3)]
          emits_writes [OF w(4)] compose ends | (simp add: word_simps; fail))+)
qed

lemma node_member_pointer_call:
  assumes "expr_node (expr_of (getContext config) c) = BinaryOperator op l r" and "op \<in> {BO_PtrMemD, BO_PtrMemI}"
    and "expr_ok print config r b" and "expr_ok print config obj a" and "list_all2 (expr_ok print config) args ts"
  shows "node_ok print config e (CXXMemberCallExpr c d obj args)
      (app ''Emember_call'' [bool_term (op = BO_PtrMemI), app ''inr'' [b], a, list_term ts])"
proof -
  have e: "VisitCXXMemberCallExpr print (mk_cprint n print config) e c d obj args = seqP [ctor ''Emember_call'' True,
      seqP [skip, putBOOL (op = BO_PtrMemI), nbsp, ctor ''inr'' True, rec_printExpr (mk_cprint n print config) r, end_ctor, nbsp,
        rec_printExpr (mk_cprint n print config) obj],
      nbsp, exprs (mk_cprint n print config) args, done_expr print (mk_cprint n print config) e Done_NONE]" for n
    using assms(1,2) by (auto simp: VisitCXXMemberCallExpr_def Let_def assertA_def)
  show ?thesis
    by (rule node_ok3 [OF assms(3,4) deep_exprs [OF assms(5)]], unfold expr_dispatch.simps e,
        rule writes_par, (rule compose ends | assumption | (rule emits_writes, assumption) | (simp add: word_simps; fail))+)
qed

lemma node_construct:
  assumes "name_is print (getContext config) c N" and "list_all2 (expr_ok print config) args ts"
    and "type_is print (getContext config) (ety (getContext config) e) T"
  shows "node_ok print config e (CXXConstructExpr c args) (app ''Econstructor'' [N, list_term ts, T])"
  by (rule node_ok3 [OF deep_name [OF assms(1)] deep_exprs [OF assms(2)] deep_ety [OF assms(3)]],
      unfold expr_dispatch.simps VisitCXXConstructExpr_def,
      rule writes_par, (rule compose ends | assumption | (rule emits_writes, assumption) | (simp add: word_simps; fail))+)

lemma node_init_list:
  assumes "list_all2 (expr_ok print config) es ts" and "rel_option (expr_ok print config) fi v"
    and "type_is print (getContext config) (ety (getContext config) e) T"
  shows "node_ok print config e (InitListExpr False es None fi) (app ''Einitlist'' [list_term ts, opt_term v, T])"
  by (rule node_ok3 [OF deep_exprs [OF assms(1)] deep_optional [OF assms(2)] deep_ety [OF assms(3)]],
      unfold expr_dispatch.simps VisitInitListExpr_def if_False option.case,
      rule writes_par, (rule compose ends | assumption | (rule emits_writes, assumption) | (simp add: word_simps; fail))+)

lemma node_temporary:
  assumes "expr_ok print config s a" and "category_is print (getContext config) e V"
  shows "node_ok print config e (MaterializeTemporaryExpr False s) (app ''Ematerialize_temp'' [a, V])"
  by (rule node_ok1 [OF assms(1)], unfold expr_dispatch.simps VisitMaterializeTemporaryExpr_def if_False,
      rule writes_par, (rule compose emits_done_V [OF deep_category [OF assms(2)]] | (rule emits_writes, assumption) | (simp add: word_simps; fail))+)

lemma node_lambda:
  assumes "name_is print (getContext config) c N" and "list_all2 (expr_ok print config) es ts"
  shows "node_ok print config e (LambdaExpr c es) (app ''Elambda'' [N, list_term ts])"
  by (rule node_ok2 [OF deep_name [OF assms(1)] deep_exprs [OF assms(2)]], unfold expr_dispatch.simps VisitLambdaExpr_def,
      rule writes_par, (rule compose | (rule emits_writes, assumption) | (simp add: word_simps; fail))+)

lemma node_va_arg:
  assumes "expr_ok print config s a" and "type_is print (getContext config) (ety (getContext config) e) T"
  shows "node_ok print config e (VAArgExpr s) (app ''Eva_arg'' [a, T])"
  by (rule node_ok2 [OF assms(1) deep_ety [OF assms(2)]], unfold expr_dispatch.simps VisitVAArgExpr_def,
      rule writes_par, (rule compose ends | assumption | (rule emits_writes, assumption) | (simp add: word_simps; fail))+)

lemma node_delete:
  assumes "\<not> isDestroyingOperatorDelete (naming_of (getContext config) fn)" and "name_is print (getContext config) fn N"
    and "type_is print (getContext config) (getType (named_of (getContext config) fn)) S" and "expr_ok print config x a"
    and "type_is print (getContext config) q T"
  shows "node_ok print config e (CXXDeleteExpr arr (Some fn) x q) (app ''Edelete'' [bool_term arr, Par [N, Sym '','', S], a, T])"
  by (rule node_ok4 [OF deep_name [OF assms(2)] deep_type [OF assms(3)] assms(4) deep_type [OF assms(5)]],
      unfold expr_dispatch.simps VisitCXXDeleteExpr_def Let_def mk_cprint_fields option.case if_not_P [OF assms(1)],
      rule writes_par, (rule compose | (rule emits_writes, assumption) | (simp add: word_simps; fail))+)

text \<open>The form of a \<open>new\<close> and its separator.\<close>

lemma emits_new_form:
  assumes "isReservedGlobalPlacementOperator N \<Longrightarrow> length pl = 1 \<and> \<not> align"
  shows "emits Q True i (if isReservedGlobalPlacementOperator N then
       seqP [assertA m (length pl = 1), assertA m' (\<not> align), put ''new_form.NonAllocating'', nbsp]
     else seqP [ctor ''new_form.Allocating'' True, putBOOL align, nbsp, end_ctor, nbsp])
     (term_tokens (if isReservedGlobalPlacementOperator N then Sym ''new_form.NonAllocating''
         else app ''new_form.Allocating'' [bool_term align])) True i"
proof (cases "isReservedGlobalPlacementOperator N")
  case True
  have "emits Q True i (seqP [skip, skip, put ''new_form.NonAllocating'', nbsp]) [Word ''new_form.NonAllocating''] True i"
    by (rule emits_eq, (rule compose | (simp add: word_simps; fail))+)
  with True assms show ?thesis by (simp add: assertA_def del: seqP.simps)
next
  case False
  have "emits Q True i (seqP [ctor ''new_form.Allocating'' True, putBOOL align, nbsp, end_ctor, nbsp])
      (term_tokens (app ''new_form.Allocating'' [bool_term align])) True i"
    by (rule emits_eq, (rule compose | (simp add: word_simps; fail))+)
  with False show ?thesis by (simp del: seqP.simps)
qed

lemma printOptionalExpr_child:
  "printOptionalExpr cprint (if b then Some x else None) = option_child (rec_printExpr cprint) (if b then x else None)"
  "printOptionalExpr cprint (Some x) = option_child (rec_printExpr cprint) x"
  by (cases x; simp add: printOptionalExpr_def option_child_def)+

lemma node_new:
  assumes "name_is print (getContext config) fn N" and "type_is print (getContext config) (getType (named_of (getContext config) fn)) S"
    and "list_all2 (expr_ok print config) pl ts"
    and "W = (if isReservedGlobalPlacementOperator (naming_of (getContext config) fn) then Sym ''new_form.NonAllocating''
         else app ''new_form.Allocating'' [bool_term align])"
    and "isReservedGlobalPlacementOperator (naming_of (getContext config) fn) \<Longrightarrow> length pl = 1 \<and> \<not> align"
    and "type_is print (getContext config) q T" and "rel_option (expr_ok print config) sz v" and "arr \<or> sz = None"
    and "rel_option (expr_ok print config) init w"
  shows "node_ok print config e (CXXNewExpr (Some fn) pl align q arr (if arr then Some sz else None) init)
      (app ''Enew'' [Par [N, Sym '','', S], list_term ts, W, T, opt_term v, opt_term w])"
proof (rule node_ok4 [OF deep_name [OF assms(1)] eventually_conj [OF deep_type [OF assms(2)] deep_exprs [OF assms(3)]] deep_type [OF assms(6)]
      eventually_conj [OF deep_optional [OF assms(7)] deep_optional [OF assms(9)]]], elim conjE)
  fix n visit
  let ?Q = "plain_setting (getContext config)" and ?c = "mk_cprint n print config"
  assume w: "writes ?Q (rec_printName ?c fn) [N]" "writes ?Q (printQualType ?c (getType (named_of (getContext config) fn))) [S]"
    "writes ?Q (exprs ?c pl) [list_term ts]" "writes ?Q (printQualType ?c q) [T]"
    "writes ?Q (option_child (rec_printExpr ?c) sz) [opt_term v]" "writes ?Q (option_child (rec_printExpr ?c) init) [opt_term w]"
  have sz: "(if arr then sz else None) = sz" using assms(8) by auto
  have a: "assertA m (arr = ((if arr then Some sz else None) \<noteq> None)) = skip" for m by (simp add: assertA_def)
  show "writes ?Q (expr_dispatch visit print ?c e (CXXNewExpr (Some fn) pl align q arr (if arr then Some sz else None) init))
      [app ''Enew'' [Par [N, Sym '','', S], list_term ts, W, T, opt_term v, opt_term w]]"
    unfolding expr_dispatch.simps VisitCXXNewExpr_def Let_def mk_cprint_fields option.case printOptionalExpr_child sz a assms(4)
    by (rule writes_par, (rule emits_new_form [OF assms(5)] compose emits_writes [OF w(1)] emits_writes [OF w(2)] emits_writes [OF w(3)]
          emits_writes [OF w(4)] emits_writes [OF w(5)] emits_writes [OF w(6)] | assumption | (simp add: word_simps; fail))+)
qed

lemma node_operator_call:
  assumes "\<not> isaD (getContext config) CXXMethodDecl c" and "isaD (getContext config) FunctionDecl c" and "operator_is oo p"
    and "name_is print (getContext config) c N" and "type_is print (getContext config) (getType (named_of (getContext config) c)) T"
    and "list_all2 (expr_ok print config) args ts"
  shows "node_ok print config e (CXXOperatorCallExpr c oo args) (app ''Eoperator_call'' [p, N, T, list_term ts])"
  by (rule node_ok3 [OF deep_name [OF assms(4)] deep_type [OF assms(5)] deep_exprs [OF assms(6)]],
      unfold expr_dispatch.simps VisitCXXOperatorCallExpr_def Let_def mk_cprint_fields if_not_P [OF assms(1)] if_P [OF assms(2)],
      rule writes_par, (rule emits_Cons emits_Nil emits_writes [OF writes_operator_is [OF assms(3)]] compose ends
        | (rule emits_writes, assumption) | (simp add: word_simps; fail))+)

lemma node_operator_member_call:
  assumes "isaD (getContext config) CXXMethodDecl c" and "\<not> isStaticMethod (naming_of (getContext config) c)" and "operator_is oo p"
    and "name_is print (getContext config) c N" and "type_is print (getContext config) (getType (named_of (getContext config) c)) T"
    and "expr_ok print config obj a" and "list_all2 (expr_ok print config) args ts"
    and "D = Sym (if isVirtual (naming_of (getContext config) c) then ''Virtual'' else ''Direct'')"
  shows "node_ok print config e (CXXOperatorCallExpr c oo (obj # args))
      (app ''Eoperator_member_call'' [p, N, D, T, a, list_term ts])"
proof (rule node_ok4 [OF deep_name [OF assms(4)] deep_type [OF assms(5)] assms(6) deep_exprs [OF assms(7)]])
  fix n visit
  let ?Q = "plain_setting (getContext config)" and ?c = "mk_cprint n print config"
  let ?d = "put (if isVirtual (naming_of (getContext config) c) then ''Virtual'' else ''Direct'')"
  assume w: "writes ?Q (rec_printName ?c c) [N]" "writes ?Q (printQualType ?c (getType (named_of (getContext config) c))) [T]"
    "writes ?Q (rec_printExpr ?c obj) [a]" "writes ?Q (exprs ?c args) [list_term ts]"
  have d: "writes Q ?d [D]" for Q
    unfolding assms(8) by (rule writes_sym) (simp add: word_simps)
  have l: "writes ?Q (list_range args (\<lambda>i. rec_printExpr ?c i)) [list_term ts]" using w(4) by (simp add: exprs_def plist_def)
  show "writes ?Q (expr_dispatch visit print ?c e (CXXOperatorCallExpr c oo (obj # args)))
      [app ''Eoperator_member_call'' [p, N, D, T, a, list_term ts]]"
    unfolding expr_dispatch.simps VisitCXXOperatorCallExpr_def Let_def mk_cprint_fields if_P [OF assms(1)] list.case assertA_def if_P [OF assms(2)]
    by (rule writes_par, (rule emits_Cons emits_Nil emits_writes [OF writes_operator_is [OF assms(3)]] emits_writes [OF d] emits_writes [OF w(1)]
          emits_writes [OF w(2)] emits_writes [OF w(3)] emits_writes [OF l] compose ends | (simp add: word_simps; fail))+)
qed

end
