(* ===== verification/StmtText.thy ===== *)
theory StmtText
  imports ExprText
begin

text \<open>
  One lemma for each visitor of statements and local declarations: if what it calls writes terms, with enough levels, then
  it writes the terms that the rules of \<open>CodeTerms\<close> give.
\<close>

section \<open>What is proved about statements\<close>

abbreviation stmt_ok :: "CoqPrinter \<Rightarrow> ClangPrinter \<Rightarrow> ptr \<Rightarrow> cterm list \<Rightarrow> bool" where
  "stmt_ok print config s ts \<equiv>
     deep (\<lambda>n. writes (plain_setting (getContext config)) (rec_printStmt (mk_cprint n print config) s) ts)"

text \<open>The answer of the visitor of local declarations says whether an element of the list has been written.\<close>

definition returns_term :: "setting \<Rightarrow> bprinter \<Rightarrow> cterm option \<Rightarrow> bool" where
  "returns_term Q b v \<longleftrightarrow>
     (\<exists>p. b = returning p (v \<noteq> None) \<and> (case v of None \<Rightarrow> \<forall>r i. emits Q r i p [] r i | Some t \<Rightarrow> writes Q p [t]))"

abbreviation local_ok :: "CoqPrinter \<Rightarrow> ClangPrinter \<Rightarrow> ptr \<Rightarrow> cterm option \<Rightarrow> bool" where
  "local_ok print config d v \<equiv>
     deep (\<lambda>n. returns_term (plain_setting (getContext config)) (rec_printLocalDecl (mk_cprint n print config) d) v)"

lemma stmt_okI:
  assumes "stmt_of (getContext config) s = node"
    and "deep (\<lambda>n. writes (plain_setting (getContext config)) (stmt_dispatch (mk_cprint n print config) s node) ts)"
  shows "stmt_ok print config s ts"
  by (rule deep_Suc [OF assms(2)]) (simp add: printStmt_def assms(1) writes_depth_checked)

lemma deep_local_stmt:
  assumes "local_ok print config d (Some t)"
  shows "deep (\<lambda>n. writes (plain_setting (getContext config)) (printLocalDecl_stmt (mk_cprint n print config) d) [t])"
  by (rule eventually_mono [OF assms]) (auto simp: returns_term_def printLocalDecl_stmt_def bindQ_returning)

lemma deep_local_option:
  "rel_option (\<lambda>d t. local_ok print config d (Some t)) var v \<Longrightarrow>
   deep (\<lambda>n. writes (plain_setting (getContext config)) (option_child (printLocalDecl_stmt (mk_cprint n print config)) var) [opt_term v])"
  by (rule deep_option_child) (auto elim: option.rel_mono_strong intro: deep_local_stmt)

lemma deep_stmt_option:
  "rel_option (\<lambda>s t. stmt_ok print config s [t]) x v \<Longrightarrow>
   deep (\<lambda>n. writes (plain_setting (getContext config)) (option_child (rec_printStmt (mk_cprint n print config)) x) [opt_term v])"
  by (rule deep_option_child)

lemma deep_fresh_option:
  "rel_option (expr_ok print config) x v \<Longrightarrow>
   deep (\<lambda>n. writes (plain_setting (getContext config)) (option_child (printExpr1 (mk_cprint n print config)) x) [opt_term v])"
  by (rule deep_option_child) (auto elim: option.rel_mono_strong intro: deep_fresh)

lemma deep_else:
  assumes "rel_option (\<lambda>s t. stmt_ok print config s [t]) x w"
  shows "deep (\<lambda>n. writes (plain_setting (getContext config)) (else_branch (mk_cprint n print config) x)
     [case w of Some t \<Rightarrow> t | None \<Rightarrow> Sym ''Sskip''])"
proof (cases x)
  case None
  have "writes Q (put ''Sskip'') [Sym ''Sskip'']" for Q by (rule writes_sym) (simp add: word_simps)
  with None assms show ?thesis by (simp add: else_branch_def)
qed (use assms in \<open>cases w; simp add: else_branch_def\<close>)

section \<open>Statements\<close>

lemma stmt_expr:
  assumes "stmt_of (getContext config) s = ExprStmt" and "expr_ok print config s a"
  shows "stmt_ok print config s [app ''Sexpr'' [a]]"
  by (rule stmt_okI [OF assms(1)], rule eventually_mono [OF deep_fresh [OF assms(2)]], unfold stmt_dispatch.simps VisitExpr_stmt_def,
      rule writes_par, (rule compose | (rule emits_writes, assumption) | (simp add: word_simps; fail))+)

lemma node_stmt:
  assumes "stmt_ok print config s [a]" and "type_is print (getContext config) (ety (getContext config) e) T"
  shows "node_ok print config e (StmtExpr s) (app ''Estmt'' [a, T])"
  by (rule node_ok2 [OF assms(1) deep_ety [OF assms(2)]], unfold expr_dispatch.simps VisitStmtExpr_def guard_ctor_def,
      rule writes_par, (rule compose | assumption | (rule emits_writes, assumption) | (simp add: word_simps; fail))+)

lemma stmt_return:
  assumes "stmt_of (getContext config) s = ReturnStmt (Some e)" and "expr_ok print config e a"
  shows "stmt_ok print config s [app ''Sreturn_val'' [a]]"
  by (rule stmt_okI [OF assms(1)], rule eventually_mono [OF deep_fresh [OF assms(2)]],
      unfold stmt_dispatch.simps VisitReturnStmt_def option.case,
      rule writes_par, (rule compose | (rule emits_writes, assumption) | (simp add: word_simps; fail))+)

lemma stmt_jump:
  assumes "(stmt_of (getContext config) s, w) \<in> {(BreakStmt, ''Sbreak''), (ContinueStmt, ''Scontinue''), (NullStmt, ''Sskip''),
      (ReturnStmt None, ''Sreturn_void''), (DefaultStmt None, ''Sdefault'')}"
  shows "stmt_ok print config s [Sym w]"
proof (rule stmt_okI [OF refl])
  have "stmt_dispatch c s (stmt_of (getContext config) s) = put w \<and> word w" for c
    using assms by (auto simp: VisitBreakStmt_def VisitContinueStmt_def VisitNullStmt_def VisitReturnStmt_def VisitDefaultStmt_def word_simps)
  then show "deep (\<lambda>n. writes (plain_setting (getContext config))
      (stmt_dispatch (mk_cprint n print config) s (stmt_of (getContext config) s)) [Sym w])"
    using writes_sym by simp
qed

lemma stmt_while:
  assumes "stmt_of (getContext config) s = WhileStmt var c b" and "rel_option (\<lambda>d t. local_ok print config d (Some t)) var v"
    and "expr_ok print config c a" and "stmt_ok print config b [t]"
  shows "stmt_ok print config s [app ''Swhile'' [opt_term v, a, t]]"
proof -
  have e: "(case var of Some v \<Rightarrow> seqP [some, printLocalDecl_stmt cp v, rparen] | None \<Rightarrow> none) = option_child (printLocalDecl_stmt cp) var" for cp
    by (simp add: option_child_def end_ctor_def split: option.split)
  show ?thesis
    by (rule stmt_okI [OF assms(1)],
        rule eventually_elim2 [OF eventually_conj [OF deep_local_option [OF assms(2)] deep_fresh [OF assms(3)]] assms(4)], elim conjE,
        unfold stmt_dispatch.simps VisitWhileStmt_def e,
        rule writes_par, (rule compose | (rule emits_writes, assumption) | (simp add: word_simps; fail))+)
qed

lemma stmt_for:
  assumes "stmt_of (getContext config) s = ForStmt i c n b" and "rel_option (\<lambda>s t. stmt_ok print config s [t]) i u"
    and "rel_option (expr_ok print config) c v" and "rel_option (expr_ok print config) n w" and "stmt_ok print config b [t]"
  shows "stmt_ok print config s [app ''Sfor'' [opt_term u, opt_term v, opt_term w, t]]"
  by (rule stmt_okI [OF assms(1)],
      rule eventually_elim2 [OF eventually_conj [OF deep_stmt_option [OF assms(2)] deep_fresh_option [OF assms(3)]]
        eventually_conj [OF deep_fresh_option [OF assms(4)] assms(5)]], elim conjE,
      unfold stmt_dispatch.simps VisitForStmt_def,
      rule writes_par, (rule compose | (rule emits_writes, assumption) | (simp add: word_simps; fail))+)

lemma stmt_foreach:
  assumes "stmt_of (getContext config) s = CXXForRangeStmt r bs es i c n lv b" and "stmt_ok print config r [x]"
    and "stmt_ok print config bs [y]" and "stmt_ok print config es [z]" and "rel_option (\<lambda>s t. stmt_ok print config s [t]) i u"
    and "rel_option (expr_ok print config) c v" and "rel_option (expr_ok print config) n w" and "stmt_ok print config lv [l]"
    and "stmt_ok print config b [t]"
  shows "stmt_ok print config s [app ''Sforeach'' [x, y, z, opt_term u, opt_term v, opt_term w, l, t]]"
  by (rule stmt_okI [OF assms(1)],
      rule eventually_elim2 [OF eventually_conj [OF eventually_conj [OF assms(2,3)] eventually_conj [OF assms(4) deep_stmt_option [OF assms(5)]]]
        eventually_conj [OF eventually_conj [OF deep_fresh_option [OF assms(6)] deep_fresh_option [OF assms(7)]] eventually_conj [OF assms(8,9)]]],
      elim conjE, unfold stmt_dispatch.simps VisitCXXForRangeStmt_def,
      rule writes_par, (rule compose | (rule emits_writes, assumption) | (simp add: word_simps; fail))+)

lemma stmt_do:
  assumes "stmt_of (getContext config) s = DoStmt b c" and "stmt_ok print config b [t]" and "expr_ok print config c a"
  shows "stmt_ok print config s [app ''Sdo'' [t, a]]"
  by (rule stmt_okI [OF assms(1)], rule eventually_elim2 [OF assms(2) deep_fresh [OF assms(3)]], unfold stmt_dispatch.simps VisitDoStmt_def,
      rule writes_par, (rule compose | (rule emits_writes, assumption) | (simp add: word_simps; fail))+)

lemma stmt_consteval:
  assumes "stmt_of (getContext config) s = IfStmt True var c t x" and "stmt_ok print config t [u]"
    and "rel_option (\<lambda>s t. stmt_ok print config s [t]) x w"
  shows "stmt_ok print config s [app ''Sif_consteval'' [u, case w of Some t \<Rightarrow> t | None \<Rightarrow> Sym ''Sskip'']]"
  by (rule stmt_okI [OF assms(1)], rule eventually_elim2 [OF assms(2) deep_else [OF assms(3)]],
      unfold stmt_dispatch.simps VisitIfStmt_def if_True guard_ctor_def,
      rule writes_par, (rule compose | (rule emits_writes, assumption) | (simp add: word_simps; fail))+)

lemma stmt_if:
  assumes "stmt_of (getContext config) s = IfStmt False var c t x" and "rel_option (\<lambda>d t. local_ok print config d (Some t)) var v"
    and "expr_ok print config c a" and "stmt_ok print config t [u]" and "rel_option (\<lambda>s t. stmt_ok print config s [t]) x w"
  shows "stmt_ok print config s [app ''Sif'' [opt_term v, a, u, case w of Some t \<Rightarrow> t | None \<Rightarrow> Sym ''Sskip'']]"
  by (rule stmt_okI [OF assms(1)],
      rule eventually_elim2 [OF eventually_conj [OF deep_local_option [OF assms(2)] deep_fresh [OF assms(3)]]
        eventually_conj [OF assms(4) deep_else [OF assms(5)]]], elim conjE,
      unfold stmt_dispatch.simps VisitIfStmt_def if_False guard_ctor_def,
      rule writes_par, (rule compose | (rule emits_writes, assumption) | (simp add: word_simps; fail))+)

text \<open>A label adds an element of its own before those of the statement behind it.\<close>

lemma writes_labelled:
  assumes "writes Q p [l]" and "writes Q q ts"
  shows "writes Q (seqP [p, cons, q]) (l # Sym ''::'' # ts)"
  unfolding writes_def
proof
  fix i
  have p: "emits Q (\<not> par l) i p (term_tokens l) False i"
    using assms(1) unfolding writes_def by (auto intro: emits_after dest: spec [of _ i])
  have q: "emits Q True i q (terms_tokens ts) (ts \<noteq> [] \<and> par (last ts)) i"
    using assms(2) unfolding writes_def by (auto elim: emits_weaken dest: spec [of _ i])
  have "emits Q (\<not> par l) i (seqP [p, cons, q]) (term_tokens l @ [Word ''::''] @ terms_tokens ts @ []) (ts \<noteq> [] \<and> par (last ts)) i"
    by (rule emits_Cons [OF p emits_Cons [OF emits_cons emits_Cons [OF q emits_Nil]]])
  moreover have "par (Sym w) = False" for w by (simp add: par_def)
  ultimately show "emits Q (l # Sym ''::'' # ts = [] \<or> \<not> par (hd (l # Sym ''::'' # ts))) i (seqP [p, cons, q])
      (terms_tokens (l # Sym ''::'' # ts)) (l # Sym ''::'' # ts \<noteq> [] \<and> par (last (l # Sym ''::'' # ts))) i"
    by (cases ts rule: rev_cases) (simp_all del: seqP.simps)
qed

lemma stmt_case:
  assumes "stmt_of (getContext config) s = CaseStmt lo None b" and "stmt_ok print config b ts"
  shows "stmt_ok print config s (app ''Scase'' [app ''Exact'' (z_terms lo)] # Sym ''::'' # ts)"
proof (rule stmt_okI [OF assms(1)], rule eventually_mono [OF assms(2)])
  fix n
  let ?c = "mk_cprint n print config" and ?Q = "plain_setting (getContext config)"
  assume w: "writes ?Q (rec_printStmt ?c b) ts"
  have l: "writes Q (seqP [ctor ''Scase'' True, guard_ctor ''Exact'' True [putZ lo], end_ctor])
      [app ''Scase'' [app ''Exact'' (z_terms lo)]]" for Q
    unfolding guard_ctor_def by (rule writes_par, (rule compose | (simp add: word_simps terms_tokens_def; fail))+)
  have e: "stmt_dispatch ?c s (CaseStmt lo None b) =
      seqP [seqP [ctor ''Scase'' True, guard_ctor ''Exact'' True [putZ lo], end_ctor], cons, rec_printStmt ?c b]"
    by (simp add: VisitCaseStmt_def seqA_assoc)
  show "writes ?Q (stmt_dispatch ?c s (CaseStmt lo None b)) (app ''Scase'' [app ''Exact'' (z_terms lo)] # Sym ''::'' # ts)"
    unfolding e by (rule writes_labelled [OF l w])
qed

lemma stmt_range:
  assumes "stmt_of (getContext config) s = CaseStmt lo (Some hi) b" and "stmt_ok print config b ts"
  shows "stmt_ok print config s (app ''Scase'' [app ''Range'' (z_terms lo @ z_terms hi)] # Sym ''::'' # ts)"
proof (rule stmt_okI [OF assms(1)], rule eventually_mono [OF assms(2)])
  fix n
  let ?c = "mk_cprint n print config" and ?Q = "plain_setting (getContext config)"
  assume w: "writes ?Q (rec_printStmt ?c b) ts"
  have l: "writes Q (seqP [ctor ''Scase'' True, guard_ctor ''Range'' True [putZ lo, nbsp, putZ hi], end_ctor])
      [app ''Scase'' [app ''Range'' (z_terms lo @ z_terms hi)]]" for Q
    unfolding guard_ctor_def by (rule writes_par, (rule compose | (simp add: word_simps terms_tokens_def; fail))+)
  have e: "stmt_dispatch ?c s (CaseStmt lo (Some hi) b) =
      seqP [seqP [ctor ''Scase'' True, guard_ctor ''Range'' True [putZ lo, nbsp, putZ hi], end_ctor], cons, rec_printStmt ?c b]"
    by (simp add: VisitCaseStmt_def seqA_assoc)
  show "writes ?Q (stmt_dispatch ?c s (CaseStmt lo (Some hi) b))
      (app ''Scase'' [app ''Range'' (z_terms lo @ z_terms hi)] # Sym ''::'' # ts)"
    unfolding e by (rule writes_labelled [OF l w])
qed

lemma stmt_default:
  assumes "stmt_of (getContext config) s = DefaultStmt (Some b)" and "stmt_ok print config b ts"
  shows "stmt_ok print config s (Sym ''Sdefault'' # Sym ''::'' # ts)"
proof (rule stmt_okI [OF assms(1)], rule eventually_mono [OF assms(2)])
  fix n
  let ?c = "mk_cprint n print config" and ?Q = "plain_setting (getContext config)"
  assume w: "writes ?Q (rec_printStmt ?c b) ts"
  have e: "stmt_dispatch ?c s (DefaultStmt (Some b)) = seqP [put ''Sdefault'', cons, rec_printStmt ?c b]"
    by (simp add: VisitDefaultStmt_def)
  show "writes ?Q (stmt_dispatch ?c s (DefaultStmt (Some b))) (Sym ''Sdefault'' # Sym ''::'' # ts)"
    unfolding e by (rule writes_labelled [OF writes_sym w]) (simp add: word_simps)
qed

text \<open>The condition of a \<open>switch\<close> is in parentheses, which separate it from what is before and behind it.\<close>

lemma stmt_switch:
  assumes "stmt_of (getContext config) s = SwitchStmt var c b" and "rel_option (\<lambda>d t. local_ok print config d (Some t)) var v"
    and "expr_ok print config c (Par as)" and "stmt_ok print config b [t]"
  shows "stmt_ok print config s [app ''Sswitch'' [opt_term v, Par as, t]]"
proof (rule stmt_okI [OF assms(1)],
    rule eventually_elim2 [OF eventually_conj [OF deep_local_option [OF assms(2)] deep_fresh [OF assms(3)]] assms(4)], elim conjE)
  fix n
  let ?c = "mk_cprint n print config" and ?Q = "plain_setting (getContext config)"
  assume w: "writes ?Q (rec_printStmt ?c b) [t]" "writes ?Q (option_child (printLocalDecl_stmt ?c) var) [opt_term v]"
    "writes ?Q (printExpr1 ?c c) [Par as]"
  show "writes ?Q (stmt_dispatch ?c s (SwitchStmt var c b)) [app ''Sswitch'' [opt_term v, Par as, t]]"
    unfolding stmt_dispatch.simps VisitSwitchStmt_def
    by (rule writes_par, (rule compose emits_writes_par [OF w(3)] emits_writes [OF w(1)] emits_writes [OF w(2)]
          | (simp add: word_simps; fail))+)
qed

text \<open>Lists that are written without a test for emptiness.\<close>

lemma writes_guarded_list:
  assumes "list_all2 (\<lambda>x ts. writes Q (f x) ts) xs tss"
  shows "emits Q True i (seqP (map (\<lambda>x. seqP [f x, cons]) xs)) (terms_tokens (concat (map (\<lambda>ts. ts @ [Sym ''::'']) tss))) True i"
  using emits_elements [OF assms] by simp

lemma elements_tokens: "terms_tokens (concat (map (\<lambda>ts. ts @ [Sym ''::'']) tss)) @ [Word ''nil''] = concat (map term_tokens (elements tss))"
  by (simp add: elements_def terms_tokens_def)

lemma stmt_compound:
  assumes "stmt_of (getContext config) s = CompoundStmt bs" and "list_all2 (stmt_ok print config) bs tss"
  shows "stmt_ok print config s [app ''Sseq'' [Par (elements tss)]]"
proof (rule stmt_okI [OF assms(1)], rule eventually_mono [OF deep_list [OF assms(2)]])
  fix n
  let ?c = "mk_cprint n print config" and ?Q = "plain_setting (getContext config)"
  assume l: "list_all2 (\<lambda>s ts. writes ?Q (rec_printStmt ?c s) ts) bs tss"
  show "writes ?Q (stmt_dispatch ?c s (CompoundStmt bs)) [app ''Sseq'' [Par (elements tss)]]"
    unfolding stmt_dispatch.simps VisitCompoundStmt_def
    by (rule writes_par, (rule emits_Cons emits_Nil emits_begin_list writes_guarded_list [OF l] compose | (simp add: word_simps elements_def terms_tokens_def; fail))+)
qed

lemma emits_strings:
  "emits Q True i (seqP (map (\<lambda>x. seqP [str x, cons]) xs)) (terms_tokens (concat (map (\<lambda>ts. ts @ [Sym ''::'']) (map (\<lambda>a. [Str a]) xs)))) True i"
  by (rule writes_guarded_list) (simp add: list_all2_conv_all_nth writes_str)

lemma stmt_attributed:
  assumes "stmt_of (getContext config) s = AttributedStmt attrs b" and "stmt_ok print config b [t]"
  shows "stmt_ok print config s [app ''Sattr'' [Par (elements (map (\<lambda>a. [Str a]) attrs)), t]]"
  by (rule stmt_okI [OF assms(1)], rule eventually_mono [OF assms(2)], unfold stmt_dispatch.simps VisitAttributedStmt_def,
      rule writes_par, (rule emits_Cons emits_Nil emits_strings compose | (rule emits_writes, assumption)
        | (simp add: word_simps elements_def terms_tokens_def; fail))+)

lemma stmt_label:
  assumes "stmt_of (getContext config) s = LabelStmt l b" and "stmt_ok print config b [t]"
  shows "stmt_ok print config s [app ''Slabeled'' [Str l, t]]"
  by (rule stmt_okI [OF assms(1)], rule eventually_mono [OF assms(2)], unfold stmt_dispatch.simps VisitLabelStmt_def,
      rule writes_par, (rule compose | (rule emits_writes, assumption) | (simp add: word_simps; fail))+)

lemma stmt_goto:
  assumes "stmt_of (getContext config) s = GotoStmt l"
  shows "stmt_ok print config s [app ''Sgoto'' [Str l]]"
proof (rule stmt_okI [OF assms])
  have "writes Q (VisitGotoStmt l) [app ''Sgoto'' [Str l]]" for Q
    unfolding VisitGotoStmt_def by (rule writes_par, (rule compose | (simp add: word_simps; fail))+)
  then show "deep (\<lambda>n. writes (plain_setting (getContext config)) (stmt_dispatch (mk_cprint n print config) s (GotoStmt l))
      [app ''Sgoto'' [Str l]])" by simp
qed

lemma emits_locals:
  assumes "list_all2 (\<lambda>d v. returns_term Q (f d) v) ds vs"
  shows "emits Q True i (seqP (map (\<lambda>d. bindQ (f d) (\<lambda>b. if b then cons else skip)) ds))
    (terms_tokens (concat (map (\<lambda>ts. ts @ [Sym ''::'']) (map (\<lambda>t. [t]) (List.map_filter id vs))))) True i"
  using assms
proof (induction ds vs rule: list_all2_induct)
  case (Cons d ds v vs)
  then obtain p where p: "f d = returning p (v \<noteq> None)"
      "case v of None \<Rightarrow> \<forall>r i. emits Q r i p [] r i | Some t \<Rightarrow> writes Q p [t]"
    unfolding returns_term_def by blast
  show ?case
  proof (cases v)
    case None
    with p have "emits Q True i (bindQ (f d) (\<lambda>b. if b then cons else skip)) [] True i" by (simp add: bindQ_returning)
    from emits_Cons [OF this Cons.IH] None show ?thesis by (simp add: map_filter_simps del: seqP.simps)
  next
    case (Some t)
    with p have w: "writes Q p [t]" by simp
    have "emits Q True i (bindQ (f d) (\<lambda>b. if b then cons else skip)) (terms_tokens [t] @ [Word ''::'']) True i"
      using Some p(1) emits_seqA [OF emits_writes [OF w] emits_cons] by (simp add: bindQ_returning)
    from emits_Cons [OF this Cons.IH] Some show ?thesis by (simp add: map_filter_simps del: seqP.simps)
  qed
qed (simp add: emits_skip map_filter_simps)

lemma stmt_decl:
  assumes "stmt_of (getContext config) s = DeclStmt ds" and "list_all2 (local_ok print config) ds vs"
  shows "stmt_ok print config s [app ''Sdecl'' [Par (elements (map (\<lambda>t. [t]) (List.map_filter id vs)))]]"
proof (rule stmt_okI [OF assms(1)], rule eventually_mono [OF deep_list [OF assms(2)]])
  fix n
  let ?c = "mk_cprint n print config" and ?Q = "plain_setting (getContext config)"
  assume l: "list_all2 (\<lambda>d v. returns_term ?Q (rec_printLocalDecl ?c d) v) ds vs"
  show "writes ?Q (stmt_dispatch ?c s (DeclStmt ds)) [app ''Sdecl'' [Par (elements (map (\<lambda>t. [t]) (List.map_filter id vs)))]]"
    unfolding stmt_dispatch.simps VisitDeclStmt_def
    by (rule writes_par, (rule emits_Cons emits_Nil emits_begin_list emits_locals [OF l] compose
          | (simp add: word_simps elements_def terms_tokens_def; fail))+)
qed

lemma emits_operands:
  assumes "list_all2 (\<lambda>x ts. \<exists>a. writes Q (printExpr1 cprint (snd x)) [a] \<and> ts = [Par [Str (fst x), Sym '','', a]]) ops tss"
  shows "emits Q r i (asm_operands cprint ops) (term_tokens (Par (elements tss))) True i"
proof -
  have "writes Q (seqP [begin_tuple, str c, next_tuple, printExpr1 cprint e, end_tuple]) [Par [Str c, Sym '','', a]]"
    if "writes Q (printExpr1 cprint e) [a]" for c e a
    by (rule writes_par, (rule compose emits_writes [OF that])+) simp
  then have "list_all2 (\<lambda>x ts. writes Q (case x of (c, e) \<Rightarrow> seqP [begin_tuple, str c, next_tuple, printExpr1 cprint e, end_tuple]) ts) ops tss"
    by (intro list_all2_mono [OF assms]) auto
  note w = emits_elements [OF this]
  have e: "map (\<lambda>(c, e). seqP [begin_tuple, str c, next_tuple, printExpr1 cprint e, end_tuple, cons]) ops =
      map (\<lambda>x. seqA (case x of (c, e) \<Rightarrow> seqP [begin_tuple, str c, next_tuple, printExpr1 cprint e, end_tuple]) cons) ops"
    by (auto simp: seqA_assoc)
  show ?thesis
    unfolding asm_operands_def e
    by (rule emits_eq [OF emits_Cons [OF emits_begin_list emits_Cons [OF w emits_Cons [OF emits_end_list emits_Nil]]]])
      (simp add: elements_def terms_tokens_def)
qed

lemma deep_operands:
  assumes "list_all2 (\<lambda>x ts. \<exists>a. expr_ok print config (snd x) a \<and> ts = [Par [Str (fst x), Sym '','', a]]) ops tss"
  shows "deep (\<lambda>n. list_all2 (\<lambda>x ts. \<exists>a. writes (plain_setting (getContext config)) (printExpr1 (mk_cprint n print config) (snd x)) [a]
     \<and> ts = [Par [Str (fst x), Sym '','', a]]) ops tss)"
proof (rule deep_list, rule list_all2_mono [OF assms])
  fix x ts assume "\<exists>a. expr_ok print config (snd x) a \<and> ts = [Par [Str (fst x), Sym '','', a]]"
  then obtain a where a: "expr_ok print config (snd x) a" "ts = [Par [Str (fst x), Sym '','', a]]" by blast
  show "deep (\<lambda>n. \<exists>a. writes (plain_setting (getContext config)) (printExpr1 (mk_cprint n print config) (snd x)) [a]
      \<and> ts = [Par [Str (fst x), Sym '','', a]])"
    by (rule eventually_mono [OF deep_fresh [OF a(1)]]) (use a(2) in blast)
qed

lemma stmt_asm:
  assumes "stmt_of (getContext config) s = GCCAsmStmt txt vol ins outs clobbers"
    and "list_all2 (\<lambda>x ts. \<exists>a. expr_ok print config (snd x) a \<and> ts = [Par [Str (fst x), Sym '','', a]]) ins us"
    and "list_all2 (\<lambda>x ts. \<exists>a. expr_ok print config (snd x) a \<and> ts = [Par [Str (fst x), Sym '','', a]]) outs vs"
  shows "stmt_ok print config s [app ''Sasm'' [Str txt, bool_term vol, Par (elements us), Par (elements vs),
      Par (elements (map (\<lambda>c. [Str c]) clobbers))]]"
proof (rule stmt_okI [OF assms(1)], rule eventually_elim2 [OF deep_operands [OF assms(2)] deep_operands [OF assms(3)]])
  fix n
  let ?c = "mk_cprint n print config" and ?Q = "plain_setting (getContext config)"
  let ?L = "\<lambda>ops tss. list_all2 (\<lambda>x ts. \<exists>a. writes ?Q (printExpr1 ?c (snd x)) [a] \<and> ts = [Par [Str (fst x), Sym '','', a]]) ops tss"
  assume w: "?L ins us" "?L outs vs"
  have v: "writes Q (put (if vol then ''true'' else ''false'')) [bool_term vol]" for Q
    unfolding bool_term_def by (rule writes_sym) (simp add: word_simps)
  show "writes ?Q (stmt_dispatch ?c s (GCCAsmStmt txt vol ins outs clobbers)) [app ''Sasm'' [Str txt, bool_term vol,
      Par (elements us), Par (elements vs), Par (elements (map (\<lambda>c. [Str c]) clobbers))]]"
    unfolding stmt_dispatch.simps VisitGCCAsmStmt_def
    by (rule writes_par, (rule emits_Cons emits_Nil emits_strings emits_operands [OF w(1)] emits_operands [OF w(2)] emits_writes [OF v] compose
          | (simp add: word_simps elements_def terms_tokens_def; fail))+)
qed

section \<open>Local declarations\<close>

lemma fresh_returning:
  assumes "b = returning p x"
  shows "(\<lambda>s. case b (s\<lparr>names := OpaqueNames_init\<rparr>) of Inl x \<Rightarrow> Inl x | Inr (y, s') \<Rightarrow> Inr (y, s'\<lparr>names := names s\<rparr>))
     = returning (with_fresh_names p) x"
  unfolding assms by (rule ext) (simp add: returning_def with_fresh_names_def split: sum.split)

lemma local_okI:
  assumes "deep (\<lambda>n. returns_term (plain_setting (getContext config)) (PrintLocalDecl_Visit (mk_cprint n print config) d) v)"
  shows "local_ok print config d v"
proof (rule deep_Suc [OF assms])
  fix n
  let ?Q = "plain_setting (getContext config)" and ?c = "mk_cprint n print config"
  assume "returns_term ?Q (PrintLocalDecl_Visit ?c d) v"
  then obtain p where p: "PrintLocalDecl_Visit ?c d = returning p (v \<noteq> None)"
      "case v of None \<Rightarrow> \<forall>r i. emits ?Q r i p [] r i | Some t \<Rightarrow> writes ?Q p [t]"
    unfolding returns_term_def by blast
  have "printLocalDecl ?c d = returning (with_fresh_names p) (v \<noteq> None)"
    using fresh_returning [OF p(1)] by (simp add: printLocalDecl_def [abs_def])
  moreover have "case v of None \<Rightarrow> \<forall>r i. emits ?Q r i (with_fresh_names p) [] r i | Some t \<Rightarrow> writes ?Q (with_fresh_names p) [t]"
    using p(2) by (auto split: option.splits intro: emits_fresh_names writes_fresh_names plain_setting_fresh)
  ultimately show "returns_term ?Q (rec_printLocalDecl (mk_cprint (Suc n) print config) d) v"
    unfolding returns_term_def by auto
qed

lemma local_invalid:
  assumes "isInvalidDecl (named_of (getContext config) d)"
  shows "local_ok print config d (Some (Sym ''Derror''))"
proof (rule local_okI)
  have "writes Q (put ''Derror'') [Sym ''Derror'']" for Q by (rule writes_sym) (simp add: word_simps)
  then show "deep (\<lambda>n. returns_term (plain_setting (getContext config)) (PrintLocalDecl_Visit (mk_cprint n print config) d) (Some (Sym ''Derror'')))"
    using assms by (auto simp: PrintLocalDecl_Visit_def returns_term_def)
qed

text \<open>A declaration that is no variable and an external one write nothing.\<close>

lemma local_silent:
  assumes "\<not> isInvalidDecl (named_of (getContext config) d)" and "\<not> isaD (getContext config) VarDecl d"
  shows "local_ok print config d None"
proof (rule local_okI)
  have s: "returns_term Q (returning (diag lv m) False) None" "returns_term Q (returning skip False) None" for Q lv m
    by (auto simp: returns_term_def intro: emits_diag emits_skip)
  have "\<not> isa VarDecl (getKind (decl (getContext config) d))" using assms(2) by simp
  moreover have "isa DecompositionDecl k \<Longrightarrow> isa VarDecl k" for k
    by (cases k) (simp_all add: isa_def ancestors_def eval_nat_numeral)
  ultimately have "returns_term Q (local_dispatch (mk_cprint n print config) d) None" for Q n
    using dispatch_cases [of "[(VarDecl, VisitVarDecl_local (mk_cprint n print config) d), (TypeDecl, VisitTypeDecl_local (mk_cprint n print config) d),
        (StaticAssertDecl, VisitStaticAssertDecl_local), (DecompositionDecl, VisitDecompositionDecl (mk_cprint n print config) d)]"
        "VisitDecl_local (mk_cprint n print config) d" "getKind (decl (getContext config) d)"] s
    unfolding local_dispatch_def mk_cprint_fields
    by (auto simp: VisitTypeDecl_local_def VisitStaticAssertDecl_local_def VisitDecl_local_def)
  then show "deep (\<lambda>n. returns_term (plain_setting (getContext config)) (PrintLocalDecl_Visit (mk_cprint n print config) d) None)"
    using assms(1) by (simp add: PrintLocalDecl_Visit_def)
qed

lemma local_dispatch_variable:
  "getKind (decl (getContext cprint) d) = VarDecl \<Longrightarrow> local_dispatch cprint d = VisitVarDecl_local cprint d"
  by (simp add: local_dispatch_def dispatch_def ancestors_def eval_nat_numeral)

lemma local_extern:
  assumes "\<not> isInvalidDecl (named_of (getContext config) d)" and "getKind (decl (getContext config) d) = VarDecl"
    and "hasExternalStorage (decl (getContext config) d)"
  shows "local_ok print config d None"
proof (rule local_okI)
  have "returns_term Q (returning skip False) None" for Q
    by (auto simp: returns_term_def intro: emits_skip)
  then show "deep (\<lambda>n. returns_term (plain_setting (getContext config)) (PrintLocalDecl_Visit (mk_cprint n print config) d) None)"
    using assms by (simp add: PrintLocalDecl_Visit_def local_dispatch_variable VisitVarDecl_local_def)
qed

lemma local_static:
  assumes "\<not> isInvalidDecl (named_of (getContext config) d)" and "getKind (decl (getContext config) d) = VarDecl"
    and "\<not> hasExternalStorage (decl (getContext config) d)" and "isStaticLocal (decl (getContext config) d)"
    and "name_is print (getContext config) d N" and "type_is print (getContext config) (getType (named_of (getContext config) d)) T"
    and "rel_option (expr_ok print config) (getInit (named_of (getContext config) d)) v"
  shows "local_ok print config d (Some (app ''Dinit'' [bool_term (ThreadsafeStatics (getContext config)), N, T, opt_term v]))"
proof (rule local_okI, rule eventually_elim2 [OF eventually_conj [OF deep_name [OF assms(5)] deep_type [OF assms(6)]] deep_optional [OF assms(7)]], elim conjE)
  fix n
  let ?c = "mk_cprint n print config" and ?Q = "plain_setting (getContext config)" and ?N = "named_of (getContext config) d"
  assume w: "writes ?Q (rec_printName ?c d) [N]" "writes ?Q (printQualType ?c (getType ?N)) [T]"
    "writes ?Q (option_child (rec_printExpr ?c) (getInit ?N)) [opt_term v]"
  let ?p = "seqP [seqP [ctor ''Dinit'' True, putBOOL (ThreadsafeStatics (getContext config)), nbsp, rec_printName ?c d, nbsp],
      printQualType ?c (getType ?N), nbsp, option_child (rec_printExpr ?c) (getInit ?N), end_ctor]"
  have "PrintLocalDecl_Visit ?c d = returning ?p True"
    using assms(1-4) by (simp add: PrintLocalDecl_Visit_def local_dispatch_variable VisitVarDecl_local_def Let_def del: seqP.simps)
  moreover have "writes ?Q ?p [app ''Dinit'' [bool_term (ThreadsafeStatics (getContext config)), N, T, opt_term v]]"
    by (rule writes_par, (rule compose emits_writes [OF w(1)] emits_writes [OF w(2)] emits_writes [OF w(3)] | (simp add: word_simps; fail))+)
  ultimately show "returns_term ?Q (PrintLocalDecl_Visit ?c d)
      (Some (app ''Dinit'' [bool_term (ThreadsafeStatics (getContext config)), N, T, opt_term v]))"
    by (auto simp: returns_term_def simp del: seqP.simps)
qed

lemma local_variable:
  assumes "\<not> isInvalidDecl (named_of (getContext config) d)" and "getKind (decl (getContext config) d) = VarDecl"
    and "\<not> hasExternalStorage (decl (getContext config) d)" and "\<not> isStaticLocal (decl (getContext config) d)"
    and "type_is print (getContext config) (getType (named_of (getContext config) d)) T"
    and "rel_option (expr_ok print config) (getInit (named_of (getContext config) d)) v"
  shows "local_ok print config d (Some (app ''Dvar'' [Str (getNameAsString (named_of (getContext config) d)), T, opt_term v]))"
proof (rule local_okI, rule eventually_elim2 [OF deep_type [OF assms(5)] deep_optional [OF assms(6)]])
  fix n
  let ?c = "mk_cprint n print config" and ?Q = "plain_setting (getContext config)" and ?N = "named_of (getContext config) d"
  assume w: "writes ?Q (printQualType ?c (getType ?N)) [T]" "writes ?Q (option_child (rec_printExpr ?c) (getInit ?N)) [opt_term v]"
  let ?p = "seqP [seqP [ctor ''Dvar'' True, str (getNameAsString ?N), nbsp],
      printQualType ?c (getType ?N), nbsp, option_child (rec_printExpr ?c) (getInit ?N), end_ctor]"
  have "PrintLocalDecl_Visit ?c d = returning ?p True"
    using assms(1-4) by (simp add: PrintLocalDecl_Visit_def local_dispatch_variable VisitVarDecl_local_def Let_def del: seqP.simps)
  moreover have "writes ?Q ?p [app ''Dvar'' [Str (getNameAsString ?N), T, opt_term v]]"
    by (rule writes_par, (rule compose emits_writes [OF w(1)] emits_writes [OF w(2)] | (simp add: word_simps; fail))+)
  ultimately show "returns_term ?Q (PrintLocalDecl_Visit ?c d) (Some (app ''Dvar'' [Str (getNameAsString ?N), T, opt_term v]))"
    by (auto simp: returns_term_def simp del: seqP.simps)
qed

end
