(* ===== verification/CodeText.thy ===== *)
theory CodeText
  imports StmtText
begin

text \<open>
  The text of expressions, statements and local declarations reads back as the terms that the rules of \<open>CodeTerms\<close> give
  them: the lemmas on the visitors are put together along those rules.
\<close>

section \<open>The visitor of expressions\<close>

definition visit_ok :: "CoqPrinter \<Rightarrow> ClangPrinter \<Rightarrow> nat \<Rightarrow> ptr \<Rightarrow> cterm \<Rightarrow> bool" where
  "visit_ok print config k e t \<longleftrightarrow>
     deep (\<lambda>n. writes (plain_setting (getContext config)) (PrintExpr_Visit k print (mk_cprint n print config) e) [t])"

lemma visit_erroneous:
  assumes "containsErrors (expr_of (getContext config) e)"
  shows "visit_ok print config k e (app ''Eerror'' [Str (expr_describe (expr_of (getContext config) e))])"
proof -
  have "PrintExpr_Visit k print c e = Eerror c e" if "getContext c = getContext config" for c
    using assms that by (subst PrintExpr_Visit.simps) (simp add: Let_def)
  moreover have "writes Q (Eerror c e) [app ''Eerror'' [Str (expr_describe (expr_of (getContext config) e))]]"
    if "getContext c = getContext config" for Q c
    unfolding Eerror_def describe_def that
    by (rule writes_par, (rule compose emits_str | (simp add: word_simps; fail))+)
  ultimately show ?thesis by (simp add: visit_ok_def)
qed

lemma visit_visited:
  assumes "\<not> containsErrors (expr_of (getContext config) e)"
    and "node_ok print config e (expr_node (expr_of (getContext config) e)) t"
  shows "visit_ok print config k e t"
  using assms(2) unfolding visit_ok_def node_ok_def
  by (subst PrintExpr_Visit.simps) (simp add: assms(1) Let_def del: seqP.simps)

lemma visit_passed:
  assumes "\<not> containsErrors (expr_of (getContext config) e)" and "through (expr_node (expr_of (getContext config) e)) = Some s"
    and "visit_ok print config k s t"
  shows "visit_ok print config (Suc k) e t"
proof -
  have "PrintExpr_Visit (Suc k) print (mk_cprint n print config) e = PrintExpr_Visit k print (mk_cprint n print config) s" for n
    using assms(1,2) by (subst PrintExpr_Visit.simps, cases "expr_node (expr_of (getContext config) e)")
      (simp_all add: Let_def)
  with assms(3) show ?thesis by (simp add: visit_ok_def)
qed

lemma expr_visited:
  assumes "visit_ok print config (loop_fuel config) e t"
  shows "expr_ok print config e t"
  by (rule deep_Suc [OF assms [unfolded visit_ok_def]]) (simp add: printExpr_def writes_depth_checked)

section \<open>All of them\<close>

lemma both_list: "list_all2 (\<lambda>x y. P x y \<and> R x y) xs ys \<Longrightarrow> list_all2 R xs ys"
  by (auto elim: list_all2_mono)

lemma both_option: "rel_option (\<lambda>x y. P x y \<and> R x y) x y \<Longrightarrow> rel_option R x y"
  by (auto elim: option.rel_mono_strong)

lemma both_operands:
  "list_all2 (\<lambda>x ts. \<exists>a. (P (snd x) a \<and> R (snd x) a) \<and> ts = g x a) xs tss \<Longrightarrow>
   list_all2 (\<lambda>x ts. \<exists>a. R (snd x) a \<and> ts = g x a) xs tss"
  by (auto elim: list_all2_mono)

lemmas expr_rules = expr_visited visit_erroneous visit_visited visit_passed

lemmas node_rules = node_integer node_character node_string node_predefined node_truth node_nullptr node_gnu_null
  node_implicit_init node_this node_reference node_same node_around node_subscript node_sequencing node_assign node_assign_op
  node_binop node_step node_unop node_address node_member_address node_conditional node_trait node_written node_implicit
  node_builtin_ref node_member node_call node_pseudo_destructor node_member_call node_member_pointer_call
  node_operator_member_call node_operator_call node_construct node_init_list node_temporary node_new node_delete node_lambda
  node_va_arg node_stmt

lemmas stmt_rules = stmt_expr stmt_decl stmt_while stmt_for stmt_foreach stmt_do stmt_jump stmt_return stmt_consteval stmt_if
  stmt_case stmt_range stmt_default stmt_switch stmt_compound stmt_attributed stmt_label stmt_goto stmt_asm

lemmas local_rules = local_invalid local_silent local_extern local_static local_variable

lemma code_prints:
  "expr_is print (getContext config) (loop_fuel config) (big_endian config) e t \<Longrightarrow> expr_ok print config e t"
  "visit_is print (getContext config) (loop_fuel config) (big_endian config) k e t \<Longrightarrow> visit_ok print config k e t"
  "node_is print (getContext config) (loop_fuel config) (big_endian config) e node t \<Longrightarrow> node_ok print config e node t"
  "stmt_is print (getContext config) (loop_fuel config) (big_endian config) s ts \<Longrightarrow> stmt_ok print config s ts"
  "local_is print (getContext config) (loop_fuel config) (big_endian config) d v \<Longrightarrow> local_ok print config d v"
proof (induction rule: expr_is_visit_is_node_is_stmt_is_local_is.inducts)
qed (rule expr_rules node_rules stmt_rules local_rules;
    (assumption | erule both_list | erule both_option | erule both_operands | blast))+

section \<open>Reading back\<close>

text \<open>
  C6. An expression that stands for a term of Coq is written so that Coq reads that term.  With enough levels \<open>printExpr\<close> returns,
  without a failed assertion, from every state that is between two tokens, outside a lambda and with no anonymous declaration
  open, and the text it has written parses as the term, whatever the indentation and the text before it.
\<close>

theorem printExpr_reads_back:
  assumes "expr_is print (getContext config) (loop_fuel config) (big_endian config) e t"
  shows "\<exists>m. \<forall>n \<ge> m. \<forall>s. snd (reader (fmt s)) = Between \<longrightarrow> anonymous (names s) = [] \<longrightarrow> getLambdaClass (getContext config) (declctx s) = None \<longrightarrow>
    (\<exists>s' u. printExpr print (mk_cprint n print config) e s = Inr s' \<and> out (fmt s') = out (fmt s) @ u \<and> parse_terms u = Some [t])"
proof -
  have "deep (\<lambda>n. writes (plain_setting (getContext config)) (printExpr print (mk_cprint n print config) e) [t])"
    using code_prints(1) [OF assms] by (subst (asm) eventually_sequentially_Suc [symmetric]) simp
  then show ?thesis
    unfolding eventually_sequentially plain_setting_def [abs_def] by (blast dest: writes_parse)
qed

text \<open>
  C5. The same for statements, with the expressions and the local declarations in them.  A statement may stand for several
  elements of a list: \<open>case 1: case 2: x;\<close> is written as two labels and the statement behind them.
\<close>

theorem printStmt_reads_back:
  assumes "stmt_is print (getContext config) (loop_fuel config) (big_endian config) s ts"
  shows "\<exists>m. \<forall>n \<ge> m. \<forall>st. snd (reader (fmt st)) = Between \<longrightarrow> anonymous (names st) = [] \<longrightarrow> getLambdaClass (getContext config) (declctx st) = None \<longrightarrow>
    (\<exists>st' u. printStmt (mk_cprint n print config) s st = Inr st' \<and> out (fmt st') = out (fmt st) @ u \<and> parse_terms u = Some ts)"
proof -
  have "deep (\<lambda>n. writes (plain_setting (getContext config)) (printStmt (mk_cprint n print config) s) ts)"
    using code_prints(4) [OF assms] by (subst (asm) eventually_sequentially_Suc [symmetric]) simp
  then show ?thesis
    unfolding eventually_sequentially plain_setting_def [abs_def] by (blast dest: writes_parse)
qed

section \<open>An example\<close>

text \<open>The loop \<open>while (true) return 7 + 7;\<close>: statements 0 and 1, expressions 0 (\<open>true\<close>), 1 (the sum) and 2.\<close>

definition loop_ast :: ASTContext where
  "loop_ast = ast0\<lparr>
     expr_of := (\<lambda>e. expr0\<lparr>expr_node := (if e = 0 then CXXBoolLiteralExpr True else if e = 1 then BinaryOperator BO_Add 2 2
       else IntegerLiteral 7 32)\<rparr>),
     stmt_of := (\<lambda>s. if s = 0 then WhileStmt None 0 1 else ReturnStmt (Some 1))\<rparr>"

abbreviation sum_term :: cterm where
  "sum_term \<equiv> app ''Ebinop'' [Sym ''Badd'', app ''Eint'' [Sym ''7%Z'', Sym ''Tint''], app ''Eint'' [Sym ''7%Z'', Sym ''Tint''], Sym ''Tint'']"

lemma loop_type: "type_is printer0 loop_ast (expr_type (expr_of loop_ast e)) (Sym ''Tint'')"
proof -
  have f: "type_of loop_ast = (\<lambda>t. type0)" "expr_type (expr_of loop_ast e) = qual0 0"
    by (simp_all add: loop_ast_def ast0_def expr0_def)
  have c: "nc_lookup (types_nc (name_cache printer0)) t = 0" for t
    by (simp add: printer0_def Cache_init_def NameCache_init_def nc_lookup_def)
  have "denotes printer0 loop_ast 0 (Prim ''Tint'')"
    by (auto intro!: type_node builtin simp: c f type0_def)
  then have "qual_denotes printer0 loop_ast (qual0 0) (Prim ''Tint'')"
    using qual [of "qual0 0" 0 printer0 loop_ast "Prim ''Tint''"] by (simp add: with_quals_def isVolatileQualified_def f type0_def)
  then show ?thesis by (auto simp: type_is_def f)
qed

lemma loop_nodes:
  "expr_node (expr_of loop_ast 0) = CXXBoolLiteralExpr True" "expr_node (expr_of loop_ast 1) = BinaryOperator BO_Add 2 2"
  "expr_node (expr_of loop_ast 2) = IntegerLiteral 7 32" "\<not> containsErrors (expr_of loop_ast e)"
  "stmt_of loop_ast 0 = WhileStmt None 0 1" "stmt_of loop_ast 1 = ReturnStmt (Some 1)"
  by (simp_all add: loop_ast_def expr0_def)

lemma loop_node: "node_is printer0 loop_ast f big e (expr_node (expr_of loop_ast e)) t \<Longrightarrow> expr_is printer0 loop_ast f big e t"
  by (rule expr, rule visited) (simp_all add: loop_nodes)

lemma loop_sum: "expr_is printer0 loop_ast f big 1 sum_term"
proof -
  have seven: "decimal_int (signed_take_bit 31 7) @ ''%Z'' = ''7%Z''" by code_simp
  have "node_is printer0 loop_ast f big 2 (IntegerLiteral 7 32)
      (app ''Eint'' [Sym (decimal_int (signed_take_bit 31 7) @ ''%Z''), Sym ''Tint''])"
    by (rule integer [OF _ loop_type]) (simp_all add: loop_ast_def ast0_def expr0_def type0_def)
  then have two: "expr_is printer0 loop_ast f big 2 (app ''Eint'' [Sym ''7%Z'', Sym ''Tint''])"
    unfolding seven by (intro loop_node) (simp add: loop_nodes)
  have "node_is printer0 loop_ast f big 1 (BinaryOperator BO_Add 2 2) sum_term"
    by (rule binop [OF _ two two]) (simp_all add: op_type_is_def loop_type)
  then show ?thesis by (intro loop_node) (simp add: loop_nodes del: One_nat_def)
qed

lemma loop_state: "snd (reader (fmt pstate_init)) = Between" "anonymous (names pstate_init) = []"
  "getLambdaClass loop_ast (declctx pstate_init) = None" "out (fmt pstate_init) = []"
  by (simp_all add: reader_def pstate_init_def Formatter_init_def OpaqueNames_init_def getLambdaClass_def)

theorem printExpr_reads_back_witness:
  "\<exists>n s'. printExpr printer0 (mk_cprint n printer0 (config0 loop_ast)) 1 pstate_init = Inr s' \<and> parse_terms (out (fmt s')) = Some [sum_term]"
proof -
  have "expr_is printer0 (getContext (config0 loop_ast)) (loop_fuel (config0 loop_ast)) (big_endian (config0 loop_ast)) 1 sum_term"
    using loop_sum by simp
  from printExpr_reads_back [OF this] show ?thesis
    using loop_state by fastforce
qed

theorem printStmt_reads_back_witness:
  "\<exists>n st'. printStmt (mk_cprint n printer0 (config0 loop_ast)) 0 pstate_init = Inr st'
     \<and> parse_terms (out (fmt st')) =
         Some [app ''Swhile'' [Sym ''None'', app ''Ebool'' [Sym ''true''], app ''Sreturn_val'' [sum_term]]]"
proof -
  let ?S = "stmt_is printer0 loop_ast (loop_fuel (config0 loop_ast)) (big_endian (config0 loop_ast))"
  have "node_is printer0 loop_ast 4 False 0 (CXXBoolLiteralExpr True) (app ''Ebool'' [bool_term True])"
    by (rule truth) simp
  then have c: "expr_is printer0 loop_ast 4 False 0 (app ''Ebool'' [Sym ''true''])"
    by (intro loop_node) (simp add: loop_nodes bool_term_def)
  have "?S 0 [app ''Swhile'' [opt_term None, app ''Ebool'' [Sym ''true''], app ''Sreturn_val'' [sum_term]]]"
    by (rule while_stmt [OF loop_nodes(5) _ _ return_stmt [OF loop_nodes(6) loop_sum]]) (simp_all add: c)
  then have "stmt_is printer0 (getContext (config0 loop_ast)) (loop_fuel (config0 loop_ast)) (big_endian (config0 loop_ast)) 0
      [app ''Swhile'' [Sym ''None'', app ''Ebool'' [Sym ''true''], app ''Sreturn_val'' [sum_term]]]"
    by simp
  from printStmt_reads_back [OF this] show ?thesis
    using loop_state by fastforce
qed

end
