(* ===== verification/PrinterFindings.thy ===== *)
theory PrinterFindings
  imports PrinterExamples CodeText
begin

text \<open>
  Where the printers do not do what they mean to: expressions on which cpp2v aborts or whose text is
  no term of Coq, opaque values that are printed without their table, and function
  types behind a typedef.
\<close>

section \<open>From the visitor to \<open>printExpr\<close>\<close>

lemma printExpr_dispatch:
  assumes "getContext cprint = ctx" and "\<not> containsErrors (expr_of ctx e)"
  obtains visit where "printExpr print cprint e
    = depth_checked (AssertionFailed expr_depth_assertion) (expr_dispatch visit print cprint e (expr_node (expr_of ctx e)))"
  using that assms by (auto simp: printExpr_def PrintExpr_Visit.simps [of _ _ _ e] Let_def)

lemma between_placed: "snd (reader f) = Between \<Longrightarrow> placed r f"
  using tscan_whites [OF _ white_pending [of f], of "reader f"]
  by (cases "pending f = []") (auto simp: placed_def outside_def ahead_def)

text \<open>An action that leaves the indentation deeper than it was fails the check of \<open>depth_checked\<close>.\<close>

lemma emits_unchecked:
  assumes "emits anywhere True 0 p ts r (Suc j)" and "snd (reader (fmt s)) = Between"
  shows "depth_checked x p s = Inl x"
  using emitsD [OF assms(1) _ between_placed [OF assms(2)], of "depth (fmt s)"]
  by (fastforce simp: depth_checked_def)

section \<open>Atomic builtins that clang does not list\<close>

lemma emits_unknown_atomic:
  assumes "writes Q (printDeclType cprint e) [T]"
  shows "emits Q r i (VisitAtomicExpr print cprint e None subs)
    ([LP, Word ''Eatomic'', LP, Word ''Eunsupported'', Lit (describe cprint e)] @ term_tokens T @ [RP]) True (Suc i)"
  unfolding VisitAtomicExpr_def unsupported_expr_def option.case not_False_eq_True if_True
  by (rule emits_eq, (rule compose emits_done_DT [OF assms] | (simp add: word_simps; fail))+)

text \<open>
  C37. cpp2v aborts on every expression that is an atomic builtin which is not in clang's list, if clang found no error in
  it and its type is one that the rules of \<open>TypeText\<close> cover: with enough levels for the type, \<open>printExpr\<close> ends in its own
  failed assertion from every state that is between two tokens.
  \<open>VisitAtomicExpr\<close> reports the expression as unsupported inside a constructor that it has opened and never closes, so no
  \<open>Eunsupported\<close> is printed for it.
\<close>

theorem unknown_atomic_aborts:
  assumes "expr_node (expr_of (getContext config) e) = AtomicExpr None subs"
    and "\<not> containsErrors (expr_of (getContext config) e)"
    and "type_is print (getContext config) (ety (getContext config) e) T"
  shows "\<exists>m. \<forall>n \<ge> m. \<forall>s. snd (reader (fmt s)) = Between \<longrightarrow>
    printExpr print (mk_cprint n print config) e s = Inl (AssertionFailed expr_depth_assertion)"
proof -
  let ?c = "\<lambda>n. mk_cprint n print config"
  have "decl_type_is print (getContext config) e (reference_to (value_kind (expr_of (getContext config) e)) T)"
    using assms(3) by (auto simp: decl_type_is_def)
  from deep_decl_type [OF this, of anywhere] obtain m where
    m: "\<forall>n \<ge> m. writes anywhere (printDeclType (?c n) e) [reference_to (value_kind (expr_of (getContext config) e)) T]"
    unfolding eventually_sequentially by blast
  have "printExpr print (?c n) e s = Inl (AssertionFailed expr_depth_assertion)"
    if n: "m \<le> n" and s: "snd (reader (fmt s)) = Between" for n and s :: pstate
  proof -
    obtain visit where "printExpr print (?c n) e
      = depth_checked (AssertionFailed expr_depth_assertion) (expr_dispatch visit print (?c n) e (AtomicExpr None subs))"
      using printExpr_dispatch [of "?c n" "getContext config" e print] assms(1,2) by auto
    with emits_unchecked [OF emits_unknown_atomic [OF m [rule_format, OF n]] s] show ?thesis by simp
  qed
  then show ?thesis by blast
qed

text \<open>A builtin that is not in the list (0), and a trait that has no constructor in Coq (1), both of the type \<open>int\<close>.\<close>

definition unknown_ast :: ASTContext where
  "unknown_ast = loop_ast\<lparr>expr_of := (\<lambda>e. expr0\<lparr>expr_node :=
     (if e = 0 then AtomicExpr None [] else UnaryExprOrTypeTraitExpr (UETT_Other 3) None None)\<rparr>)\<rparr>"

lemma unknown_tables:
  "type_of unknown_ast = type_of loop_ast" "expr_of unknown_ast = (\<lambda>e. expr0\<lparr>expr_node :=
     (if e = 0 then AtomicExpr None [] else UnaryExprOrTypeTraitExpr (UETT_Other 3) None None)\<rparr>)"
  by (simp_all add: unknown_ast_def)

lemma unknown_type: "type_is printer0 unknown_ast (ety unknown_ast e) (Sym ''Tint'')"
proof -
  have c: "nc_lookup (types_nc (name_cache printer0)) t = 0" for t
    by (simp add: printer0_def Cache_init_def NameCache_init_def nc_lookup_def)
  have f: "type_of unknown_ast = (\<lambda>t. type0)" by (simp add: unknown_tables loop_ast_def ast0_def)
  have "denotes printer0 unknown_ast 0 (Prim ''Tint'')"
    by (auto intro!: type_node builtin simp: c f type0_def)
  then have "qual_denotes printer0 unknown_ast (qual0 0) (Prim ''Tint'')"
    using qual [of "qual0 0" 0 printer0 unknown_ast "Prim ''Tint''"]
    by (simp add: with_quals_def isVolatileQualified_def f qual0_def type0_def)
  then show ?thesis
    unfolding type_is_def by (intro exI [of _ "Prim ''Tint''"]) (simp add: unknown_tables expr0_def)
qed

lemma unknown_errors: "\<not> containsErrors (expr_of unknown_ast e)"
  by (simp add: unknown_tables expr0_def)

theorem unknown_atomic_aborts_witness:
  "\<exists>n. printExpr printer0 (mk_cprint n printer0 (config0 unknown_ast)) 0 pstate_init
     = Inl (AssertionFailed expr_depth_assertion)"
proof -
  have "expr_node (expr_of (getContext (config0 unknown_ast)) 0) = AtomicExpr None []" by (simp add: unknown_tables)
  from unknown_atomic_aborts [OF this, of printer0 "Sym ''Tint''"] unknown_errors unknown_type loop_state(1)
  show ?thesis by fastforce
qed

section \<open>Other unary type traits\<close>

lemma tscan_quoted: "DQ \<notin> set t \<Longrightarrow> tscan (ts, InLit v) t = (ts, InLit (v @ t))"
  by (induction t arbitrary: v) auto

definition trait_message :: "nat \<Rightarrow> string" where
  "trait_message k = ''UnaryExprOrTypeTraitExpr('' @ decimal k"

lemma emits_trait_message:
  "emits Q True i (puts [[DQ] @ ''UnaryExprOrTypeTraitExpr('', decimal k, [DQ] @ '')'']) [Lit (trait_message k), RP] True i"
proof -
  have "DQ \<notin> set (trait_message k)" using plain_decimal [of k] unfolding plain_def trait_message_def by auto
  then have "tscan ([], Between) ([DQ] @ trait_message k @ [DQ] @ '')'') = ([Lit (trait_message k), RP], Between)"
    by (simp add: start_def tscan_quoted)
  then show ?thesis
    unfolding puts_def by (intro emits_put) (simp_all add: trait_message_def)
qed

lemma emits_other_trait:
  assumes "writes Q (printQualType cprint (expr_ty cprint e)) [T]"
  shows "emits Q r i (VisitUnaryExprOrTypeTraitExpr print cprint e (UETT_Other k) ty arg)
    ([LP, Word ''Eunsupported'', Lit (trait_message k), RP] @ term_tokens T @ [RP]) True i"
  unfolding VisitUnaryExprOrTypeTraitExpr_def Let_def UETT.case
  by (rule emits_eq, (rule compose emits_trait_message emits_done_T [OF assms] | (simp add: word_simps; fail))+)

lemma emits_tokens:
  assumes "emits anywhere True 0 p ts r 0" and "snd (reader (fmt s)) = Between"
  shows "\<exists>s' u. p s = Inr s' \<and> out (fmt s') = out (fmt s) @ u \<and> tokens u = ts"
proof -
  obtain rs where r: "reader (fmt s) = (rs, Between)" using assms(2) by (cases "reader (fmt s)") simp
  obtain s' where s': "p s = Inr s'" "wrote ts (fmt s) (fmt s')"
    using emitsD [OF assms(1) _ between_placed [OF assms(2)], of "depth (fmt s)"] by auto
  then obtain u where u: "out (fmt s') = out (fmt s) @ u" "finish (reader (fmt s')) = rs @ ts"
    using r by (auto simp: wrote_def)
  then have "reader (fmt s') = tscan (rs, Between) u" using r by (simp add: reader_def)
  with u have "tokens u = ts" by (simp add: tscan_between [of rs] tokens_def finish_def)
  with s'(1) u(1) show ?thesis by blast
qed

text \<open>
  C38. A unary type trait other than \<open>sizeof\<close> and the two forms of \<open>alignof\<close> is printed as a text that is no term of Coq, if
  clang found no error in it and its type is one that the rules of \<open>TypeText\<close> cover.  With enough levels for the type
  \<open>printExpr\<close> returns from every state that is between two tokens, with no failed assertion; but the quote that
  closes the message comes before the parenthesis of the message, which closes \<open>Eunsupported\<close>, so the type is
  outside of the constructor and the last parenthesis has no partner.
\<close>

theorem other_trait_unreadable:
  assumes "expr_node (expr_of (getContext config) e) = UnaryExprOrTypeTraitExpr (UETT_Other k) ty arg"
    and "\<not> containsErrors (expr_of (getContext config) e)"
    and "type_is print (getContext config) (ety (getContext config) e) T"
  shows "\<exists>m. \<forall>n \<ge> m. \<forall>s. snd (reader (fmt s)) = Between \<longrightarrow>
    (\<exists>s' u. printExpr print (mk_cprint n print config) e s = Inr s' \<and> out (fmt s') = out (fmt s) @ u
       \<and> tokens u = [LP, Word ''Eunsupported'', Lit (trait_message k), RP] @ term_tokens T @ [RP] \<and> parse_terms u = None)"
proof -
  let ?c = "\<lambda>n. mk_cprint n print config"
  let ?ts = "[LP, Word ''Eunsupported'', Lit (trait_message k), RP] @ term_tokens T @ [RP]"
  from deep_ety [OF assms(3), of anywhere] obtain m where
    m: "\<forall>n \<ge> m. writes anywhere (printQualType (?c n) (expr_ty (?c n) e)) [T]"
    unfolding eventually_sequentially by blast
  have bad: "parse_terms u = None" if "tokens u = ?ts" for u
    unfolding parse_terms_def that by (simp add: build_term)
  have "\<exists>s' u. printExpr print (?c n) e s = Inr s' \<and> out (fmt s') = out (fmt s) @ u \<and> tokens u = ?ts"
    if n: "m \<le> n" and s: "snd (reader (fmt s)) = Between" for n and s :: pstate
  proof -
    obtain visit where "printExpr print (?c n) e = depth_checked (AssertionFailed expr_depth_assertion)
        (expr_dispatch visit print (?c n) e (UnaryExprOrTypeTraitExpr (UETT_Other k) ty arg))"
      using printExpr_dispatch [of "?c n" "getContext config" e print] assms(1,2) by auto
    with emits_tokens [OF emits_depth_checked [OF emits_other_trait [OF m [rule_format, OF n]]] s] show ?thesis by simp
  qed
  with bad show ?thesis by blast
qed

theorem other_trait_unreadable_witness:
  "\<exists>n s'. printExpr printer0 (mk_cprint n printer0 (config0 unknown_ast)) 1 pstate_init = Inr s'
     \<and> tokens (out (fmt s')) = [LP, Word ''Eunsupported'', Lit ''UnaryExprOrTypeTraitExpr(3'', RP, Word ''Tint'', RP]
     \<and> parse_terms (out (fmt s')) = None"
proof -
  have "expr_node (expr_of (getContext (config0 unknown_ast)) 1) = UnaryExprOrTypeTraitExpr (UETT_Other 3) None None"
    by (simp add: unknown_tables)
  moreover have "trait_message 3 = ''UnaryExprOrTypeTraitExpr(3''" by code_simp
  ultimately show ?thesis
    using other_trait_unreadable [of "config0 unknown_ast" 1 3 None None printer0 "Sym ''Tint''"] unknown_errors unknown_type
      loop_state(1,4) by fastforce
qed

section \<open>Operands of sequencing operators\<close>

lemma names_free_ctor:
  "ctor c line (s\<lparr>names := ns\<rparr>) = map_sum id (\<lambda>s'. s'\<lparr>names := ns\<rparr>) (ctor c line s)"
  "end_ctor (s\<lparr>names := ns\<rparr>) = map_sum id (\<lambda>s'. s'\<lparr>names := ns\<rparr>) (end_ctor s)"
  "nbsp (s\<lparr>names := ns\<rparr>) = map_sum id (\<lambda>s'. s'\<lparr>names := ns\<rparr>) (nbsp s)"
  "assertA msg b (s\<lparr>names := ns\<rparr>) = map_sum id (\<lambda>s'. s'\<lparr>names := ns\<rparr>) (assertA msg b s)"
  by (auto simp: ctor_def end_ctor_def run_defs action_defs split: sum.split)

lemma names_free_fresh:
  "with_fresh_names p (s\<lparr>names := ns\<rparr>) = map_sum id (\<lambda>s'. s'\<lparr>names := ns\<rparr>) (with_fresh_names p s)"
  by (simp add: with_fresh_names_def split: sum.split)

lemma names_free_seq:
  assumes "\<And>s. p (s\<lparr>names := ns\<rparr>) = map_sum id (\<lambda>s'. s'\<lparr>names := ns\<rparr>) (p s)"
    and "\<And>s. seqP ps (s\<lparr>names := ns\<rparr>) = map_sum id (\<lambda>s'. s'\<lparr>names := ns\<rparr>) (seqP ps s)"
  shows "seqP (p # ps) (s\<lparr>names := ns\<rparr>) = map_sum id (\<lambda>s'. s'\<lparr>names := ns\<rparr>) (seqP (p # ps) s)"
  using assms by (simp add: seqA_def split: sum.split)

lemma names_free_Nil: "seqP [] (s\<lparr>names := ns\<rparr>) = map_sum id (\<lambda>s'. s'\<lparr>names := ns\<rparr>) (seqP [] s)"
  by (simp add: skip_def)

text \<open>
  C39. The operands of the comma, \<open>&&\<close> and \<open>||\<close> operators are printed with an empty table of opaque values:
  whatever values are bound around the expression, its text is the same, so that a reference to one of them is \<open>Eopaque_ref -1\<close>.
\<close>

theorem sequencing_forgets_opaque:
  assumes "op \<in> {BO_Comma, BO_LAnd, BO_LOr}"
  shows "VisitBinaryOperator print cprint e op lhs rhs (s\<lparr>names := ns\<rparr>)
    = map_sum id (\<lambda>s'. s'\<lparr>names := ns\<rparr>) (VisitBinaryOperator print cprint e op lhs rhs s)"
proof -
  have "sequencing_operator cprint c lhs rhs msg b (s\<lparr>names := ns\<rparr>)
      = map_sum id (\<lambda>s'. s'\<lparr>names := ns\<rparr>) (sequencing_operator cprint c lhs rhs msg b s)" for c msg b
    unfolding sequencing_operator_def printExpr1_def
    by (intro names_free_seq names_free_Nil names_free_ctor names_free_fresh)
  then show ?thesis using assms by (auto simp: VisitBinaryOperator_def Let_def)
qed

text \<open>All expressions are the opaque value 5, which is bound to the index 0.\<close>

definition example_opaque :: ClangPrinter where
  "example_opaque = (config0 ast0)\<lparr>rec_printType := (\<lambda>t. put ''Tint''),
     rec_printExpr := (\<lambda>e. VisitOpaqueValueExpr printer0 ((config0 ast0)\<lparr>rec_printType := (\<lambda>t. put ''Tint'')\<rparr>) 5)\<rparr>"

theorem sequencing_forgets_opaque_witness:
  "let ns = snd (fresh 5 OpaqueNames_init); run = VisitBinaryOperator printer0 example_opaque 0 BO_Comma 1 2 in
     find_opaque ns 5 = 0
   \<and> run (pstate_init\<lparr>names := ns\<rparr>) = map_sum id (\<lambda>s'. s'\<lparr>names := ns\<rparr>) (run pstate_init)
   \<and> (case run (pstate_init\<lparr>names := ns\<rparr>) of Inl x \<Rightarrow> False
      | Inr s' \<Rightarrow> out (fmt s') = NL # ''(Ecomma'' @ [NL] @ ''  (Eopaque_ref -1Tint)'' @ [NL] @ ''  (Eopaque_ref -1Tint))'')"
  unfolding Let_def
proof (intro conjI)
  show "find_opaque (snd (fresh 5 OpaqueNames_init)) 5 = 0" by code_simp
  show "VisitBinaryOperator printer0 example_opaque 0 BO_Comma 1 2 (pstate_init\<lparr>names := snd (fresh 5 OpaqueNames_init)\<rparr>)
      = map_sum id (\<lambda>s'. s'\<lparr>names := snd (fresh 5 OpaqueNames_init)\<rparr>)
          (VisitBinaryOperator printer0 example_opaque 0 BO_Comma 1 2 pstate_init)"
    by (rule sequencing_forgets_opaque) simp
  show "case VisitBinaryOperator printer0 example_opaque 0 BO_Comma 1 2 (pstate_init\<lparr>names := snd (fresh 5 OpaqueNames_init)\<rparr>) of
      Inl x \<Rightarrow> False
    | Inr s' \<Rightarrow> out (fmt s') = NL # ''(Ecomma'' @ [NL] @ ''  (Eopaque_ref -1Tint)'' @ [NL] @ ''  (Eopaque_ref -1Tint))''"
    by code_simp
qed

section \<open>Functions declared through a typedef\<close>

lemma seqP_stops: "p \<in> set ps \<Longrightarrow> (\<And>s. \<exists>x. p s = Inl x) \<Longrightarrow> \<exists>x. seqP ps s = Inl x"
proof (induction ps arbitrary: s)
  case (Cons q ps)
  show ?case
  proof (cases "p = q")
    case True
    with Cons.prems(2) [of s] show ?thesis by (auto simp: seqA_def)
  next
    case False
    with Cons show ?thesis by (cases "q s") (auto simp: seqA_def)
  qed
qed simp

lemma guard_ctor_stops: "p \<in> set ps \<Longrightarrow> (\<And>s. \<exists>x. p s = Inl x) \<Longrightarrow> \<exists>x. guard_ctor c line ps s = Inl x"
  unfolding guard_ctor_def by (rule seqP_stops [of "seqP ps"]) (auto intro: seqP_stops)

text \<open>
  C40. A function whose type is written as a typedef makes cpp2v die, in every printer of functions:
  \<open>getCallingConv\<close> looks through attributes and \<open>typeof\<close>, but not through a typedef.
\<close>

theorem typedef_function_dies:
  assumes "getTypePtrOrNull (getType (named_of (getContext cprint) d)) = Some t"
    and "type_node (type_of (getContext cprint) t) = TypedefType td"
  shows "printCallingConv_of cprint d s = Inl (Die ''getCallingConv: FunctionDecl type is not a FunctionType'')
    \<and> (\<exists>x. printFunction cprint d s = Inl x) \<and> (\<exists>x. printMethod print cprint d s = Inl x)
    \<and> (\<exists>x. printConstructor print cprint d s = Inl x) \<and> (\<exists>x. printDestructor_decl print cprint d s = Inl x)"
proof -
  have c: "printCallingConv_of cprint d s = Inl (Die ''getCallingConv: FunctionDecl type is not a FunctionType'')" for s
    using assms by (simp add: printCallingConv_of_def with_answer_def getCallingConv.simps stopA_def)
  have g: "printCallingConv_of cprint d \<in> set ps \<Longrightarrow> \<exists>x. guard_ctor k line ps s = Inl x" for ps k line s
    by (rule guard_ctor_stops) (auto simp: c)
  show ?thesis
    using c by (auto simp: printFunction_def printMethod_def printConstructor_def printDestructor_decl_def Let_def
        simp del: seqP.simps intro!: g seqP_stops [of "guard_ctor ''Build_Method'' True _"])
qed

theorem typedef_function_dies_witness:
  "\<exists>x. printFunction (config0 (ast0\<lparr>type_of := (\<lambda>t. type0\<lparr>type_node := TypedefType 1\<rparr>)\<rparr>)) 0 pstate_init = Inl x"
proof -
  let ?c = "config0 (ast0\<lparr>type_of := (\<lambda>t. type0\<lparr>type_node := TypedefType 1\<rparr>)\<rparr>)"
  have "getTypePtrOrNull (getType (named_of (getContext ?c) 0)) = Some 0"
    "type_node (type_of (getContext ?c) 0) = TypedefType 1"
    by (simp_all add: ast0_def named0_def)
  from typedef_function_dies [OF this, of pstate_init printer0] show ?thesis by blast
qed

end
