(* ===== verification/DeclTerms.thy ===== *)
theory DeclTerms
  imports CodeText
begin

text \<open>
  The terms of Coq that stand for declarations of a module, outside templates.  The rules build on those for names, types and code.
  What has none: fields without a name, fields that are reached through anonymous unions, and declarations in lambdas.
\<close>

section \<open>Functions\<close>

definition param_is :: "CoqPrinter \<Rightarrow> ASTContext \<Rightarrow> ptr \<Rightarrow> cterm \<Rightarrow> bool" where
  "param_is print ctx p t \<longleftrightarrow>
     (\<exists>fd L T. getDeclContext (named_of ctx p) = Some fd \<and> isFunctionOrMethod (named_of ctx fd) \<and> isaD ctx ParmVarDecl p
        \<and> local_name ctx fd p L \<and> type_is print ctx (getType (named_of ctx p)) T \<and> t = Par [L, Sym '','', T])"

definition conv_is :: "ASTContext \<Rightarrow> nat \<Rightarrow> ptr \<Rightarrow> cterm \<Rightarrow> bool" where
  "conv_is ctx f d t \<longleftrightarrow>
     (\<exists>cc w. getCallingConv f ctx (getTypePtrOrNull (getType (named_of ctx d))) = Inr cc \<and> conv_word cc = Some w \<and> t = Sym w)"

definition builtin_term :: "ASTContext \<Rightarrow> ptr \<Rightarrow> cterm" where
  "builtin_term ctx d =
     (case find (\<lambda>x. builtin_function (body_of ctx d) = ''__builtin_'' @ x) builtin_suffixes of
        Some x \<Rightarrow> Sym (''Bin_'' @ x) | None \<Rightarrow> app ''Bin_unknown'' [Str (getNameAsString (named_of ctx d))])"

inductive function_body_is :: "CoqPrinter \<Rightarrow> ASTContext \<Rightarrow> nat \<Rightarrow> bool \<Rightarrow> ptr \<Rightarrow> cterm option \<Rightarrow> bool" for print ctx f big d where
  implemented: "getBody (body_of ctx d) = Some s \<Longrightarrow> stmt_is print ctx f big s [t] \<Longrightarrow>
    function_body_is print ctx f big d (Some (app ''Impl'' [t]))"
| builtin_body: "getBody (body_of ctx d) = None \<Longrightarrow> isBuiltin (naming_of ctx d) \<Longrightarrow>
    function_body_is print ctx f big d (Some (app ''Builtin'' [builtin_term ctx d]))"
| no_function_body: "getBody (body_of ctx d) = None \<Longrightarrow> \<not> isBuiltin (naming_of ctx d) \<Longrightarrow> function_body_is print ctx f big d None"

inductive user_body_is :: "CoqPrinter \<Rightarrow> ASTContext \<Rightarrow> nat \<Rightarrow> bool \<Rightarrow> ptr \<Rightarrow> cterm option \<Rightarrow> bool" for print ctx f big d where
  user_defined: "getBody (body_of ctx d) = Some s \<Longrightarrow> stmt_is print ctx f big s [t] \<Longrightarrow>
    user_body_is print ctx f big d (Some (app ''UserDefined'' [t]))"
| defaulted: "getBody (body_of ctx d) = None \<Longrightarrow> isDefaulted (method_of ctx d) \<Longrightarrow>
    user_body_is print ctx f big d (Some (Sym ''Defaulted''))"
| no_body: "getBody (body_of ctx d) = None \<Longrightarrow> \<not> isDefaulted (method_of ctx d) \<Longrightarrow> user_body_is print ctx f big d None"

definition qualifier_word :: "bool \<Rightarrow> bool \<Rightarrow> string" where
  "qualifier_word c v = (if c then (if v then ''QCV'' else ''QC'') else if v then ''QV'' else ''QM'')"

section \<open>Initializers of constructors\<close>

definition field_is :: "ASTContext \<Rightarrow> ptr \<Rightarrow> cterm \<Rightarrow> bool" where
  "field_is ctx d t \<longleftrightarrow> (\<exists>n. getIdentifier (named_of ctx d) = Some n \<and> t = app ''field_name.Id'' [Str n])"

definition class_type_is :: "CoqPrinter \<Rightarrow> ASTContext \<Rightarrow> ptr \<Rightarrow> cterm \<Rightarrow> bool" where
  "class_type_is print ctx t N \<longleftrightarrow> (\<exists>r. getAsCXXRecordDecl (type_of ctx t) = Some r \<and> name_is print ctx r N)"

abbreviation cpp :: cterm where
  "cpp \<equiv> Sym ''lang.cpp''"

inductive init_path_is :: "CoqPrinter \<Rightarrow> ASTContext \<Rightarrow> ctor_init \<Rightarrow> cterm \<Rightarrow> bool" for print ctx i where
  init_field: "init_kind i = MemberInitializer \<Longrightarrow> getMember i = Some d \<Longrightarrow> field_is ctx d F \<Longrightarrow>
    init_path_is print ctx i (app ''@InitField'' [cpp, F])"
| init_base: "init_kind i = BaseInitializer \<Longrightarrow> getBaseClass i = Some t \<Longrightarrow> class_type_is print ctx t N \<Longrightarrow>
    init_path_is print ctx i (app ''@InitBase'' [cpp, N])"
| init_this: "init_kind i = DelegatingInitializer \<Longrightarrow> init_path_is print ctx i (Sym ''InitThis'')"

definition init_is :: "CoqPrinter \<Rightarrow> ASTContext \<Rightarrow> nat \<Rightarrow> bool \<Rightarrow> ctor_init option \<Rightarrow> cterm \<Rightarrow> bool" where
  "init_is print ctx f big i t \<longleftrightarrow>
     (\<exists>j e p a. i = Some j \<and> init_path_is print ctx j p \<and> init_expr j = Some e \<and> expr_is print ctx f big e a
        \<and> t = app ''Build_Initializer'' [p, a])"

inductive ctor_body_is :: "CoqPrinter \<Rightarrow> ASTContext \<Rightarrow> nat \<Rightarrow> bool \<Rightarrow> ptr \<Rightarrow> cterm option \<Rightarrow> bool" for print ctx f big d where
  ctor_defined: "getBody (body_of ctx d) = Some s \<Longrightarrow> list_all2 (init_is print ctx f big) (inits (body_of ctx d)) is \<Longrightarrow>
    stmt_is print ctx f big s [t] \<Longrightarrow>
    ctor_body_is print ctx f big d (Some (app ''UserDefined'' [Par [list_term is, Sym '','', t]]))"
| ctor_declared: "getBody (body_of ctx d) = None \<Longrightarrow> ctor_body_is print ctx f big d None"

section \<open>Classes\<close>

abbreviation layout_info :: "int \<Rightarrow> cterm" where
  "layout_info k \<equiv> app ''Build_LayoutInfo'' [Sym (decimal_int k)]"

text \<open>A field with its number; without a layout every offset is 0.\<close>

definition member_term_is :: "CoqPrinter \<Rightarrow> ASTContext \<Rightarrow> nat \<Rightarrow> bool \<Rightarrow> ptr \<Rightarrow> nat \<times> ptr \<Rightarrow> cterm \<Rightarrow> bool" where
  "member_term_is print ctx f big d x t \<longleftrightarrow>
     (\<exists>F T v. \<not> isBitField (body_of ctx (snd x)) \<and> field_is ctx (snd x) F \<and> type_is print ctx (getType (named_of ctx (snd x))) T
        \<and> rel_option (expr_is print ctx f big) (getInClassInitializer (body_of ctx (snd x))) v
        \<and> t = app ''@mkMember'' [cpp, F, T, bool_term (isMutable (naming_of ctx (snd x))), opt_term v,
             layout_info (if isDependentContext (decl ctx d) then 0 else int (getFieldOffset (body_of ctx d) (fst x)))])"

definition base_is :: "CoqPrinter \<Rightarrow> ASTContext \<Rightarrow> ptr \<Rightarrow> base_spec \<Rightarrow> cterm \<Rightarrow> bool" where
  "base_is print ctx d b t \<longleftrightarrow>
     (\<exists>ty N. \<not> isVirtualBase b \<and> getTypePtrOrNull (base_type b) = Some ty \<and> class_type_is print ctx ty N
        \<and> t = app ''mkBase'' [N, layout_info (if isDependentContext (decl ctx d) then 0 else getBaseClassOffset b)])"

definition virtual_is :: "CoqPrinter \<Rightarrow> ASTContext \<Rightarrow> ptr \<Rightarrow> cterm option \<Rightarrow> bool" where
  "virtual_is print ctx m v \<longleftrightarrow>
     (if isVirtual (naming_of ctx m)
      then \<exists>N. name_is print ctx m N \<and> v = Some (app (if isPureVirtual (body_of ctx m) then ''pure_virt'' else ''impl_virt'') [N])
      else v = None)"

text \<open>A list that is tested for emptiness before its elements are filtered.\<close>

definition filtered_term :: "cterm option list \<Rightarrow> cterm" where
  "filtered_term vs = (if vs = [] then Sym ''nil'' else Par (elements (map (\<lambda>t. [t]) (List.map_filter id vs))))"

definition override_is :: "CoqPrinter \<Rightarrow> ASTContext \<Rightarrow> ptr \<times> ptr \<Rightarrow> cterm list \<Rightarrow> bool" where
  "override_is print ctx x ts \<longleftrightarrow>
     (\<exists>N M. name_is print ctx (fst x) N \<and> name_is print ctx (snd x) M \<and> ts = [Par [N, Sym '','', M]])"

definition overrides :: "ASTContext \<Rightarrow> ptr \<Rightarrow> (ptr \<times> ptr) list" where
  "overrides ctx d = concat (map (\<lambda>m.
     if isVirtual (naming_of ctx m) \<and> \<not> isPureVirtual (body_of ctx m) then map (\<lambda>ov. (ov, m)) (overridden_methods (body_of ctx m)) else [])
     (methods (body_of ctx d)))"

definition dtor_term :: "cterm \<Rightarrow> cterm" where
  "dtor_term N = app ''Nscoped'' [N, app ''Nfunction'' [Sym ''function_qualifiers.N'', Sym ''Ndtor'', Sym ''nil'']]"

definition operator_delete :: "ASTContext \<Rightarrow> ptr \<Rightarrow> ptr option" where
  "operator_delete ctx d = (case getDestructor (named_of ctx d) of Some c \<Rightarrow> getOperatorDelete (body_of ctx c) | None \<Rightarrow> None)"

definition layout_word :: "ASTContext \<Rightarrow> ptr \<Rightarrow> string" where
  "layout_word ctx d = (if isPOD (body_of ctx d) then ''POD'' else if isStandardLayout (body_of ctx d) then ''Standard'' else ''Unspecified'')"

definition size_terms :: "ASTContext \<Rightarrow> ptr \<Rightarrow> cterm list" where
  "size_terms ctx d =
     (if isDependentContext (decl ctx d) then [Sym (decimal_int 0), Sym (decimal_int 0)]
      else [Sym (decimal_int (getSize (body_of ctx d))), Sym (decimal_int (getAlignment (body_of ctx d)))])"

inductive record_is :: "CoqPrinter \<Rightarrow> ASTContext \<Rightarrow> nat \<Rightarrow> bool \<Rightarrow> ptr \<Rightarrow> string \<Rightarrow> cterm \<Rightarrow> bool" for print ctx f big d where
  struct_term: "getTagKind (body_of ctx d) \<in> {TK_Class, TK_Struct} \<Longrightarrow>
    list_all2 (base_is print ctx d) (bases (body_of ctx d)) bs \<Longrightarrow>
    list_all2 (member_term_is print ctx f big d) (enumerate 0 (record_fields (naming_of ctx d))) ms \<Longrightarrow>
    list_all2 (virtual_is print ctx) (methods (body_of ctx d)) vs \<Longrightarrow>
    list_all2 (override_is print ctx) (overrides ctx d) os \<Longrightarrow> name_is print ctx d N \<Longrightarrow>
    rel_option (name_is print ctx) (operator_delete ctx d) v \<Longrightarrow>
    record_is print ctx f big d ''Dstruct'' (app ''Build_Struct'' ([list_term bs, list_term ms, filtered_term vs, Par (elements os), dtor_term N,
      bool_term (hasTrivialDestructor (body_of ctx d)), opt_term v, Sym (layout_word ctx d)] @ size_terms ctx d))"
| union_term: "getTagKind (body_of ctx d) = TK_Union \<Longrightarrow>
    list_all2 (member_term_is print ctx f big d) (enumerate 0 (record_fields (naming_of ctx d))) ms \<Longrightarrow>
    name_is print ctx d N \<Longrightarrow> rel_option (name_is print ctx) (operator_delete ctx d) v \<Longrightarrow>
    record_is print ctx f big d ''Dunion'' (app ''Build_Union'' ([list_term ms, dtor_term N,
      bool_term (hasTrivialDestructor (body_of ctx d)), opt_term v] @ size_terms ctx d))"

section \<open>Variables and enumerators\<close>

inductive global_init_is :: "CoqPrinter \<Rightarrow> ASTContext \<Rightarrow> nat \<Rightarrow> bool \<Rightarrow> ptr \<Rightarrow> cterm \<Rightarrow> bool" for print ctx f big d where
  extern_variable: "hasExternalStorage (decl ctx d) \<Longrightarrow> getInit (named_of ctx d) = None \<Longrightarrow>
    global_init_is print ctx f big d (Sym ''global_init.Extern'')"
| local_static: "\<not> hasExternalStorage (decl ctx d) \<Longrightarrow> getDeclContext (named_of ctx d) = Some c \<Longrightarrow> isaD ctx FunctionDecl c \<Longrightarrow>
    global_init_is print ctx f big d (Sym ''global_init.Delayed'')"
| initialized: "\<not> hasExternalStorage (decl ctx d) \<Longrightarrow> getDeclContext (named_of ctx d) = Some c \<Longrightarrow> \<not> isaD ctx FunctionDecl c \<Longrightarrow>
    getInit (named_of ctx d) = Some e \<Longrightarrow> expr_is print ctx f big e a \<Longrightarrow>
    global_init_is print ctx f big d (app ''global_init.Init'' [a])"
| uninitialized: "\<not> hasExternalStorage (decl ctx d) \<Longrightarrow> getDeclContext (named_of ctx d) = Some c \<Longrightarrow> \<not> isaD ctx FunctionDecl c \<Longrightarrow>
    getInit (named_of ctx d) = None \<Longrightarrow> w = (if implicitInstantiation (body_of ctx d) then ''global_init.ImplicitInit'' else ''global_init.NoInit'') \<Longrightarrow>
    global_init_is print ctx f big d (Sym w)"

fun uval_term :: "UVal \<Rightarrow> cterm" where
  "uval_term (Kint v) = app ''inr'' (z_terms v)"
| "uval_term (Kchar bits v) = app ''inl'' [Sym (decimal (unat (toBRiCkCharacter bits v)) @ ''%N'')]"

section \<open>Declarations\<close>

text \<open>The class of declarations whose method the visitor calls for a declaration.\<close>

definition visitor_kinds :: "DeclKind list" where
  "visitor_kinds = [EmptyDecl, FriendDecl, IndirectFieldDecl, LinkageSpecDecl, UsingDecl, UsingDirectiveDecl, UsingShadowDecl, VarDecl,
     FunctionDecl, CXXMethodDecl, CXXConstructorDecl, CXXDestructorDecl, TypedefNameDecl, CXXRecordDecl, EnumDecl, EnumConstantDecl,
     StaticAssertDecl]"

definition visited_as :: "ASTContext \<Rightarrow> ptr \<Rightarrow> DeclKind option" where
  "visited_as ctx d = find (\<lambda>c. c \<in> set visitor_kinds) (ancestors (getKind (decl ctx d)))"

text \<open>The constructor of a declaration and its arguments behind the name.\<close>

inductive content_is :: "CoqPrinter \<Rightarrow> ASTContext \<Rightarrow> nat \<Rightarrow> bool \<Rightarrow> bool \<Rightarrow> ptr \<Rightarrow> DeclKind \<Rightarrow> string \<Rightarrow> cterm list \<Rightarrow> bool"
  for print ctx f big tds d where
  variable_decl: "type_is print ctx (getType (named_of ctx d)) T \<Longrightarrow> global_init_is print ctx f big d I \<Longrightarrow>
    content_is print ctx f big tds d VarDecl ''Dvariable'' [T, I]"
| function_decl: "type_is print ctx (getReturnType (body_of ctx d)) R \<Longrightarrow> list_all2 (param_is print ctx) (parameters (named_of ctx d)) ps \<Longrightarrow>
    conv_is ctx f d C \<Longrightarrow> function_body_is print ctx f big d b \<Longrightarrow>
    content_is print ctx f big tds d FunctionDecl ''Dfunction''
      [app ''Build_Func'' [R, list_term ps, C, Sym (variadic_word (isVariadic (body_of ctx d))), opt_term b]]"
| method_decl: "type_is print ctx (getReturnType (body_of ctx d)) R \<Longrightarrow> name_is print ctx (getParent (named_of ctx d)) K \<Longrightarrow>
    list_all2 (param_is print ctx) (parameters (named_of ctx d)) ps \<Longrightarrow> conv_is ctx f d C \<Longrightarrow> user_body_is print ctx f big d b \<Longrightarrow>
    content_is print ctx f big tds d CXXMethodDecl ''Dmethod''
      [bool_term (isStaticMethod (naming_of ctx d)),
       app ''Build_Method'' [R, K, Sym (qualifier_word (isConst (named_of ctx d)) (isVolatile (named_of ctx d))), list_term ps, C,
         Sym (variadic_word (isVariadic (body_of ctx d))), opt_term b]]"
| constructor_decl: "name_is print ctx (getParent (named_of ctx d)) K \<Longrightarrow>
    list_all2 (param_is print ctx) (parameters (named_of ctx d)) ps \<Longrightarrow> conv_is ctx f d C \<Longrightarrow> ctor_body_is print ctx f big d b \<Longrightarrow>
    content_is print ctx f big tds d CXXConstructorDecl ''Dconstructor''
      [app ''Build_Ctor'' [K, list_term ps, C, Sym (variadic_word (isVariadic (body_of ctx d))), opt_term b]]"
| destructor_decl: "name_is print ctx (getParent (named_of ctx d)) K \<Longrightarrow> conv_is ctx f d C \<Longrightarrow> user_body_is print ctx f big d b \<Longrightarrow>
    content_is print ctx f big tds d CXXDestructorDecl ''Ddestructor'' [app ''Build_Dtor'' [K, C, opt_term b]]"
| typedef_decl: "tds \<Longrightarrow> type_is print ctx (getUnderlyingType (named_of ctx d)) T \<Longrightarrow>
    content_is print ctx f big tds d TypedefNameDecl ''Dtypedef'' [T]"
| forward_decl: "getTagKind (body_of ctx d) \<in> {TK_Class, TK_Struct, TK_Union} \<Longrightarrow> \<not> isCompleteDefinition (class_of ctx d) \<Longrightarrow>
    content_is print ctx f big tds d CXXRecordDecl ''Dtype'' []"
| record_decl: "isCompleteDefinition (class_of ctx d) \<Longrightarrow> supportedRecord ctx d = None \<Longrightarrow> record_is print ctx f big d c R \<Longrightarrow>
    content_is print ctx f big tds d CXXRecordDecl c [app ''Some'' [R]]"
| unsupported_record: "getTagKind (body_of ctx d) \<in> {TK_Class, TK_Struct, TK_Union} \<Longrightarrow> isCompleteDefinition (class_of ctx d) \<Longrightarrow>
    isDeclContext (decl ctx d) \<Longrightarrow> supportedRecord ctx d = Some m \<Longrightarrow>
    content_is print ctx f big tds d CXXRecordDecl ''Dunsupported'' [Str m]"
| forward_enum: "getTypePtrOrNull (getIntegerType (body_of ctx d)) = None \<Longrightarrow> getIdentifier (named_of ctx d) \<noteq> None \<Longrightarrow>
    content_is print ctx f big tds d EnumDecl ''Dtype'' []"
| enum_decl: "type_is print ctx (getIntegerType (body_of ctx d)) T \<Longrightarrow>
    list_all2 (\<lambda>c n. getIdentifier (named_of ctx c) = Some n) (enumerators (decl ctx d)) ns \<Longrightarrow>
    content_is print ctx f big tds d EnumDecl ''Denum'' [T, list_term (map Str ns)]"
| enumerator_decl: "crackEnumConst f ctx d = Inr (Inr c) \<Longrightarrow> name_is print ctx (ed c) E \<Longrightarrow> type_is print ctx (ut c) T \<Longrightarrow>
    rel_option (expr_is print ctx f big) (getInitExpr (body_of ctx d)) v \<Longrightarrow>
    content_is print ctx f big tds d EnumConstantDecl ''Denum_constant'' [E, T, uval_term (uv c), opt_term v]"

inductive decl_is :: "CoqPrinter \<Rightarrow> ASTContext \<Rightarrow> nat \<Rightarrow> bool \<Rightarrow> bool \<Rightarrow> ptr \<Rightarrow> cterm option \<Rightarrow> bool" for print ctx f big tds d where
  declared: "visited_as ctx d = Some k \<Longrightarrow> content_is print ctx f big tds d k c ts \<Longrightarrow> name_is print ctx d N \<Longrightarrow>
    getLambdaClass ctx (Some d) = None \<Longrightarrow> decl_is print ctx f big tds d (Some (app c (N # ts)))"
| asserted: "visited_as ctx d = Some StaticAssertDecl \<Longrightarrow> getAssertExpr (body_of ctx d) = Some e \<Longrightarrow> expr_is print ctx f big e a \<Longrightarrow>
    decl_is print ctx f big tds d (Some (app ''Dstatic_assert'' [opt_term (map_option Str (assertMessage (body_of ctx d))), a]))"
| silent: "visited_as ctx d = Some k \<Longrightarrow> k \<in> set (take 7 visitor_kinds) \<Longrightarrow> decl_is print ctx f big tds d None"
| no_typedefs: "visited_as ctx d = Some TypedefNameDecl \<Longrightarrow> \<not> tds \<Longrightarrow> decl_is print ctx f big tds d None"
| not_supported: "visited_as ctx d = None \<Longrightarrow> decl_is print ctx f big tds d None"
| anonymous_enum: "visited_as ctx d = Some EnumDecl \<Longrightarrow> getTypePtrOrNull (getIntegerType (body_of ctx d)) = None \<Longrightarrow>
    getIdentifier (named_of ctx d) = None \<Longrightarrow> decl_is print ctx f big tds d None"

end
