(* ===== verification/DeclText.thy ===== *)
theory DeclText
  imports DeclTerms
begin

text \<open>
  The text of declarations reads back as the terms that the rules of \<open>DeclTerms\<close> give them.
\<close>

section \<open>Parts of functions\<close>

lemma emits_tuple_sep: "emits Q r i tuple_sep [Word '',''] True i"
  using emits_next_tuple by (simp add: next_tuple_def)

lemma deep_conv:
  assumes "conv_is (getContext config) (loop_fuel config) d C"
  shows "deep (\<lambda>n. writes Q (printCallingConv_of (mk_cprint n print config) d) [C])"
proof -
  obtain cc w where c: "getCallingConv (loop_fuel config) (getContext config) (getTypePtrOrNull (getType (named_of (getContext config) d))) = Inr cc"
      "conv_word cc = Some w" "C = Sym w"
    using assms by (auto simp: conv_is_def)
  have "writes Q (printCallingConv cc) [Sym w]"
    using c(2) writes_sym by (cases cc) (auto simp: printCallingConv_def word_simps)
  then show ?thesis using c by (simp add: printCallingConv_of_def with_answer_def)
qed

lemma writes_variadic: "writes Q (printVariadic v) [Sym (variadic_word v)]"
  using writes_sym by (simp add: printVariadic_def variadic_word_def word_simps)

lemma writes_qualifier: "writes Q (printQualifier c v) [Sym (qualifier_word c v)]"
  using writes_sym by (simp add: printQualifier_def qualifier_word_def word_simps)

lemma deep_param:
  assumes "param_is print (getContext config) p t"
  shows "deep (\<lambda>n. writes Q (guard_tuple [printParamName (mk_cprint n print config) p, tuple_sep,
    printQualType (mk_cprint n print config) (getType (named_of (getContext config) p))]) [t])"
proof -
  obtain fd L T where p: "getDeclContext (named_of (getContext config) p) = Some fd" "isFunctionOrMethod (named_of (getContext config) fd)"
      "isaD (getContext config) ParmVarDecl p" "local_name (getContext config) fd p L"
      "type_is print (getContext config) (getType (named_of (getContext config) p)) T" "t = Par [L, Sym '','', T]"
    using assms by (auto simp: param_is_def)
  have l: "writes Q (printParamName (mk_cprint n print config) p) [L]" for n
    using writes_local_name [of "mk_cprint n print config" fd p L Q] p(1-4) by simp
  show ?thesis
    unfolding p(6) guard_tuple_def
    by (rule eventually_mono [OF deep_type [OF p(5)]], rule writes_par,
      (rule emits_tuple_sep emits_writes [OF l] compose | (rule emits_writes, assumption) | (simp add: word_simps; fail))+)
qed

lemma deep_params:
  assumes "list_all2 (param_is print (getContext config)) (parameters (named_of (getContext config) d)) ps"
  shows "deep (\<lambda>n. writes Q (printFunctionParams (mk_cprint n print config) d) [list_term ps])"
  unfolding printFunctionParams_def Let_def mk_cprint_fields
  by (rule deep_plist, rule list_all2_mono [OF assms], rule deep_param)

lemma writes_builtin: "writes Q (printBuiltin (mk_cprint n print config) d) [builtin_term (getContext config) d]"
proof (cases "find (\<lambda>x. builtin_function (body_of (getContext config) d) = ''__builtin_'' @ x) builtin_suffixes")
  case None
  have "writes Q (guard_ctor ''Bin_unknown'' True [str x]) [app ''Bin_unknown'' [Str x]]" for x
    unfolding guard_ctor_def by (rule writes_par, (rule compose | (simp add: word_simps; fail))+)
  with None show ?thesis by (simp add: printBuiltin_def builtin_term_def)
next
  case (Some x)
  then have "x \<in> set builtin_suffixes" by (auto simp: find_Some_iff)
  then have "word (''Bin_'' @ x)" by (auto simp: builtin_suffixes_def word_simps)
  with Some show ?thesis by (simp add: printBuiltin_def builtin_term_def writes_sym)
qed

text \<open>An optional term behind a constructor.\<close>

lemma writes_some_ctor:
  "writes Q p [t] \<Longrightarrow> word c \<Longrightarrow> writes Q (guard_some l [guard_ctor c l' [p]]) [opt_term (Some (app c [t]))]"
  unfolding guard_some_def guard_ctor_def opt_term.simps
  by (rule writes_par, (rule compose | (rule emits_writes, assumption) | assumption | (simp add: word_simps; fail))+)

lemma deep_function_body:
  assumes "function_body_is print (getContext config) (loop_fuel config) (big_endian config) d b"
  shows "deep (\<lambda>n. writes (plain_setting (getContext config)) (case getBody (body_of (getContext config) d) of
      Some body \<Rightarrow> guard_some False [guard_ctor ''Impl'' False [rec_printStmt (mk_cprint n print config) body]]
    | None \<Rightarrow> if isBuiltin (naming_of (getContext config) d)
        then guard_some False [guard_ctor ''Builtin'' False [printBuiltin (mk_cprint n print config) d]] else none) [opt_term b])"
  using assms
proof cases
  case (implemented s t)
  then show ?thesis
    using code_prints(4) [OF implemented(3)] by (auto elim!: eventually_mono intro!: writes_some_ctor simp: word_simps simp del: opt_term.simps)
next
  case builtin_body
  then show ?thesis using writes_some_ctor [OF writes_builtin, of "''Builtin''"] by (simp add: word_simps del: opt_term.simps)
next
  case no_function_body
  then show ?thesis by (simp add: writes_none)
qed

lemma deep_user_body:
  assumes "user_body_is print (getContext config) (loop_fuel config) (big_endian config) d b"
  shows "deep (\<lambda>n. writes (plain_setting (getContext config)) (user_body (mk_cprint n print config) d) [opt_term b])"
  using assms
proof cases
  case (user_defined s t)
  then show ?thesis
    using code_prints(4) [OF user_defined(3)]
    by (auto simp: user_body_def elim!: eventually_mono intro!: writes_some_ctor simp: word_simps simp del: opt_term.simps)
next
  case defaulted
  have "emits Q False i (put ''(Some Defaulted)'') (term_tokens (opt_term (Some (Sym ''Defaulted'')))) True i" for Q i
    by (rule emits_put_paren [where m = Between and us = "term_tokens (opt_term (Some (Sym ''Defaulted'')))"])
      (simp_all add: start_def inner_def white_def)
  then have "writes Q (put ''(Some Defaulted)'') [opt_term (Some (Sym ''Defaulted''))]" for Q
    unfolding opt_term.simps by (rule writes_par) simp
  with defaulted show ?thesis by (simp add: user_body_def)
next
  case no_body
  then show ?thesis by (simp add: user_body_def writes_none)
qed

section \<open>Initializers\<close>

lemma writes_field:
  "field_is (getContext config) d F \<Longrightarrow> writes Q (printFieldName print (mk_cprint n print config) d) [F]"
proof -
  assume "field_is (getContext config) d F"
  moreover have "writes Q (guard_ctor ''field_name.Id'' False [str x]) [app ''field_name.Id'' [Str x]]" for x
    unfolding guard_ctor_def by (rule writes_par, (rule compose | (simp add: word_simps; fail))+)
  ultimately show ?thesis by (auto simp: field_is_def printFieldName_def)
qed

lemma deep_class_type:
  assumes "class_type_is print (getContext config) t N" and "\<not> templates print"
  shows "deep (\<lambda>n. writes Q (printClassName_type print (mk_cprint n print config) (Some t)) [N])"
proof -
  obtain r where "getAsCXXRecordDecl (type_of (getContext config) t) = Some r" "name_is print (getContext config) r N"
    using assms(1) by (auto simp: class_type_is_def)
  with assms(2) deep_name show ?thesis by (simp add: printClassName_type_def printClassName_def)
qed

lemma writes_cpp: "\<not> templates print \<Longrightarrow> writes Q (lang print) [cpp]"
  using writes_sym by (simp add: lang_def word_simps)

lemma writes_init_lang: "\<not> templates print \<Longrightarrow> emits Q r i (init_lang print) [Word ''lang.cpp''] True i"
  unfolding init_lang_def
  by (rule emits_eq, (rule emits_Cons emits_Nil emits_nbsp emits_writes [OF writes_cpp] | assumption)+) simp

lemma deep_init_path:
  assumes "init_path_is print (getContext config) j p" and t: "\<not> templates print"
  shows "deep (\<lambda>n. writes Q (printInitPath print (mk_cprint n print config) j) [p])"
  using assms(1)
proof cases
  case (init_field d F)
  have "writes Q (guard_ctor ''@InitField'' False [init_lang print, printFieldName print (mk_cprint n print config) d]) [p]" for n
    unfolding init_field(1) guard_ctor_def
    by (rule writes_par, (rule compose writes_init_lang [OF t] emits_writes [OF writes_field [OF init_field(4)]]
      | (simp add: word_simps; fail))+)
  with init_field(2,3) show ?thesis by (simp add: printInitPath_def)
next
  case (init_base t' N)
  have "deep (\<lambda>n. writes Q (guard_ctor ''@InitBase'' False [init_lang print, printClassName_type print (mk_cprint n print config) (Some t')]) [p])"
    unfolding init_base(1) guard_ctor_def
    by (rule eventually_mono [OF deep_class_type [OF init_base(4) t]],
      rule writes_par, (rule compose writes_init_lang [OF t] | (rule emits_writes, assumption) | (simp add: word_simps; fail))+)
  with init_base(2,3) show ?thesis by (simp add: printInitPath_def)
next
  case init_this
  then show ?thesis using writes_sym by (simp add: printInitPath_def word_simps)
qed

lemma deep_inits:
  assumes "list_all2 (init_is print (getContext config) (loop_fuel config) (big_endian config)) (inits (body_of (getContext config) d)) is"
    and t: "\<not> templates print"
  shows "deep (\<lambda>n. writes (plain_setting (getContext config)) (printInitializerList print (mk_cprint n print config) d) [list_term is])"
  unfolding printInitializerList_def mk_cprint_fields
proof (rule deep_plist, rule list_all2_mono [OF assms(1)])
  fix i u
  assume "init_is print (getContext config) (loop_fuel config) (big_endian config) i u"
  then obtain j e p a where i: "i = Some j" "init_path_is print (getContext config) j p" "init_expr j = Some e"
      "expr_is print (getContext config) (loop_fuel config) (big_endian config) e a" "u = app ''Build_Initializer'' [p, a]"
    by (auto simp: init_is_def)
  show "deep (\<lambda>n. writes (plain_setting (getContext config)) (case i of Some i \<Rightarrow> printInitializer print (mk_cprint n print config) i
      | None \<Rightarrow> die ''null initializer'') [u])"
    unfolding i(1,5) option.case printInitializer_def i(3) guard_ctor_def
    by (rule eventually_elim2 [OF deep_init_path [OF i(2) t] deep_fresh [OF code_prints(1) [OF i(4)]]],
      rule writes_par, (rule compose | (rule emits_writes, assumption) | (simp add: word_simps; fail))+)
qed

lemma deep_ctor_body:
  assumes "ctor_body_is print (getContext config) (loop_fuel config) (big_endian config) d b" and t: "\<not> templates print"
  shows "deep (\<lambda>n. writes (plain_setting (getContext config)) (case getBody (body_of (getContext config) d) of
      Some body \<Rightarrow> guard_some True [guard_ctor ''UserDefined'' True [guard_tuple
        [printInitializerList print (mk_cprint n print config) d, tuple_sep, rec_printStmt (mk_cprint n print config) body]]]
    | None \<Rightarrow> none) [opt_term b])"
  using assms(1)
proof cases
  case (ctor_defined s "is" t')
  show ?thesis
    unfolding ctor_defined(1,2) option.case
    by (rule eventually_elim2 [OF deep_inits [OF ctor_defined(3) t] code_prints(4) [OF ctor_defined(4)]],
      rule writes_some_ctor, unfold guard_tuple_def, rule writes_par,
      (rule emits_tuple_sep compose | (rule emits_writes, assumption) | (simp add: word_simps; fail))+)
next
  case ctor_declared
  then show ?thesis by (simp add: writes_none)
qed

section \<open>Classes\<close>

lemma writes_number: "writes Q (put (decimal_int k)) [Sym (decimal_int k)]"
  by (rule writes_sym [OF word_numbers(2)])

lemma writes_layout: "writes Q (printLayoutInfo k) [layout_info k]"
  unfolding printLayoutInfo_def guard_ctor_def
  by (rule writes_par, (rule compose emits_writes [OF writes_number] | (simp add: word_simps; fail))+)

lemma deep_field_init:
  assumes "rel_option (expr_is print (getContext config) (loop_fuel config) (big_endian config)) (getInClassInitializer (body_of (getContext config) x)) v"
  shows "deep (\<lambda>n. writes (plain_setting (getContext config)) (printFieldInitializer (mk_cprint n print config) x) [opt_term v])"
proof (cases v)
  case None
  with assms show ?thesis by (auto simp: printFieldInitializer_def writes_none)
next
  case (Some a)
  with assms obtain e where e: "getInClassInitializer (body_of (getContext config) x) = Some e"
      "expr_is print (getContext config) (loop_fuel config) (big_endian config) e a"
    by (auto simp: rel_option_iff split: option.splits)
  show ?thesis
    unfolding printFieldInitializer_def mk_cprint_fields e(1) option.case Some guard_some_def guard_ctor_def opt_term.simps
    by (rule eventually_mono [OF deep_fresh [OF code_prints(1) [OF e(2)]]], rule writes_par,
      (rule compose | (rule emits_writes, assumption) | (simp add: word_simps; fail))+)
qed

lemma deep_fields:
  assumes "list_all2 (member_term_is print (getContext config) (loop_fuel config) (big_endian config) d)
      (enumerate 0 (record_fields (naming_of (getContext config) d))) ms"
    and t: "\<not> templates print"
  shows "deep (\<lambda>n. writes (plain_setting (getContext config))
    (printFields print (mk_cprint n print config) (\<not> isDependentContext (decl (getContext config) d)) d) [list_term ms])"
  unfolding printFields_def Let_def mk_cprint_fields
proof (rule deep_plist, rule list_all2_mono [OF assms(1)])
  fix x u
  assume "member_term_is print (getContext config) (loop_fuel config) (big_endian config) d x u"
  then obtain k y F T v where x: "x = (k, y)" "\<not> isBitField (body_of (getContext config) y)" "field_is (getContext config) y F"
      "type_is print (getContext config) (getType (named_of (getContext config) y)) T"
      "rel_option (expr_is print (getContext config) (loop_fuel config) (big_endian config)) (getInClassInitializer (body_of (getContext config) y)) v"
      "u = app ''@mkMember'' [cpp, F, T, bool_term (isMutable (naming_of (getContext config) y)), opt_term v,
             layout_info (if isDependentContext (decl (getContext config) d) then 0 else int (getFieldOffset (body_of (getContext config) d) k))]"
    by (cases x) (auto simp: member_term_is_def)
  let ?l = "\<not> isDependentContext (decl (getContext config) d)"
  let ?o = "if isDependentContext (decl (getContext config) d) then 0 else int (getFieldOffset (body_of (getContext config) d) k)"
  have o: "(if ?l then int (getFieldOffset (body_of (getContext config) d) (if ?l then k else 0)) else 0) = ?o" by simp
  show "deep (\<lambda>n. writes (plain_setting (getContext config)) (case x of (k, field) \<Rightarrow>
        if isBitField (body_of (getContext config) field) then die ''bit fields are not supported''
        else guard_ctor ''@mkMember'' ((if ?l then k else 0) \<noteq> 0)
          [lang print, nbsp, printFieldName print (mk_cprint n print config) field, nbsp,
           printQualType (mk_cprint n print config) (getType (named_of (getContext config) field)), nbsp,
           boolean (isMutable (naming_of (getContext config) field)), nbsp,
           printFieldInitializer (mk_cprint n print config) field, nbsp,
           printLayoutInfo (if ?l then int (getFieldOffset (body_of (getContext config) d) (if ?l then k else 0)) else 0)]) [u])"
    unfolding x(1,6) prod.case if_not_P [OF x(2)] o guard_ctor_def
    by (rule eventually_elim2 [OF deep_type [OF x(4)] deep_field_init [OF x(5)]], rule writes_par,
      (rule compose emits_writes [OF writes_cpp [OF t]] emits_writes [OF writes_field [OF x(3)]] emits_writes [OF writes_layout]
        | (rule emits_writes, assumption) | (simp add: word_simps; fail))+)
qed

lemma deep_bases:
  assumes "list_all2 (base_is print (getContext config) d) (bases (body_of (getContext config) d)) bs" and t: "\<not> templates print"
  shows "deep (\<lambda>n. writes Q (printStructBases print (mk_cprint n print config) (\<not> isDependentContext (decl (getContext config) d)) d) [list_term bs])"
  unfolding printStructBases_def Let_def mk_cprint_fields if_not_P [OF t]
proof (rule deep_plist, rule list_all2_mono [OF assms(1)])
  fix b u
  assume "base_is print (getContext config) d b u"
  then obtain ty N r where b: "\<not> isVirtualBase b" "getTypePtrOrNull (base_type b) = Some ty"
      "getAsCXXRecordDecl (type_of (getContext config) ty) = Some r" "name_is print (getContext config) r N"
      "u = app ''mkBase'' [N, layout_info (if \<not> isDependentContext (decl (getContext config) d) then getBaseClassOffset b else 0)]"
    by (auto simp: base_is_def class_type_is_def)
  show "deep (\<lambda>n. writes Q (if isVirtualBase b then die ''virtual base classes are not supported''
        else case getTypePtrOrNull (base_type b) of
          None \<Rightarrow> die ''null base class''
        | Some ty \<Rightarrow> (case getAsCXXRecordDecl (type_of (getContext config) ty) of
                 None \<Rightarrow> stopA (AssertionFailed ''record && base class not a RecordType'')
               | Some record_decl \<Rightarrow>
                   guard_ctor ''mkBase'' True
                     [rec_printName (mk_cprint n print config) record_decl, nbsp,
                      printLayoutInfo (if \<not> isDependentContext (decl (getContext config) d) then getBaseClassOffset b else 0)])) [u])"
    unfolding if_not_P [OF b(1)] b(2,3,5) option.case guard_ctor_def
    by (rule eventually_mono [OF deep_name [OF b(4)]], rule writes_par,
      (rule compose emits_writes [OF writes_layout] | (rule emits_writes, assumption) | (simp add: word_simps; fail))+)
qed

lemma deep_virtuals:
  assumes "list_all2 (virtual_is print (getContext config)) (methods (body_of (getContext config) d)) vs"
  shows "deep (\<lambda>n. writes Q (printStructVirtuals (mk_cprint n print config) d) [filtered_term vs])"
proof -
  let ?f = "\<lambda>n m. if \<not> isVirtual (naming_of (getContext config) m) then nothing
        else printed (guard_ctor (if is_pure_virtual (getContext config) m then ''pure_virt'' else ''impl_virt'') False
               [rec_printName (mk_cprint n print config) m])"
  have "deep (\<lambda>n. returns_term Q (?f n m) v)" if v: "virtual_is print (getContext config) m v" for m v
  proof (cases "isVirtual (naming_of (getContext config) m)")
    case True
    let ?c = "if isPureVirtual (body_of (getContext config) m) then ''pure_virt'' else ''impl_virt''"
    obtain N where N: "name_is print (getContext config) m N" "v = Some (app ?c [N])"
      using v True by (auto simp: virtual_is_def)
    have c: "word ?c" by (simp add: word_simps)
    have "deep (\<lambda>n. writes Q (guard_ctor ?c False [rec_printName (mk_cprint n print config) m]) [app ?c [N]])"
      unfolding guard_ctor_def
      by (rule eventually_mono [OF deep_name [OF N(1)]], rule writes_par,
        (rule compose c | (rule emits_writes, assumption) | (simp; fail))+)
    then show ?thesis
      by (rule eventually_mono) (use True N(2) in \<open>auto simp: returns_term_def is_pure_virtual_def\<close>)
  next
    case False
    with v show ?thesis by (auto simp: virtual_is_def returns_term_def emits_skip)
  qed
  then have "deep (\<lambda>n. list_all2 (\<lambda>m v. returns_term Q (?f n m) v) (methods (body_of (getContext config) d)) vs)"
    by (intro deep_list list_all2_mono [OF assms]) blast
  then show ?thesis
  proof (rule eventually_mono)
    fix n
    assume l: "list_all2 (\<lambda>m v. returns_term Q (?f n m) v) (methods (body_of (getContext config) d)) vs"
    show "writes Q (printStructVirtuals (mk_cprint n print config) d) [filtered_term vs]"
    proof (cases "vs = []")
      case True
      with l have "methods (body_of (getContext config) d) = []" by simp
      with True writes_sym [of "''nil''" Q] show ?thesis
        by (simp add: printStructVirtuals_def list_filter_def list_range_filter_def filtered_term_def word_simps)
    next
      case False
      with l have m: "methods (body_of (getContext config) d) \<noteq> []" by auto
      show ?thesis
        unfolding printStructVirtuals_def Let_def mk_cprint_fields list_filter_def list_range_filter_def filtered_term_def if_not_P [OF m] if_not_P [OF False]
        by (rule writes_par, (rule emits_Cons emits_Nil emits_begin_list emits_locals [OF l] compose
          | (simp add: word_simps elements_def terms_tokens_def; fail))+)
    qed
  qed
qed

lemma seqP_concat: "seqP (concat (map (\<lambda>x. f x) xs)) = seqP (map (\<lambda>x. seqP (f x)) xs)"
  by (induction xs) (simp_all add: seqP_append)

lemma deep_overrides:
  assumes "list_all2 (override_is print (getContext config)) (overrides (getContext config) d) os"
  shows "deep (\<lambda>n. writes Q (printStructOverrides (mk_cprint n print config) d) [Par (elements os)])"
proof -
  let ?p = "\<lambda>n x. seqP [put [LPAR], rec_printName (mk_cprint n print config) (fst x), tuple_sep,
      rec_printName (mk_cprint n print config) (snd x), put [RPAR]]"
  have f: "printStructOverrides (mk_cprint n print config) d = seqP [begin_list,
      seqP (map (\<lambda>x. seqP [?p n x, cons]) (overrides (getContext config) d)), end_list]" for n
  proof -
    have "seqP (map (\<lambda>m. if isVirtual (naming_of (getContext config) m) \<and> \<not> is_pure_virtual (getContext config) m then
          seqP (map (\<lambda>ov. seqP [put [LPAR], rec_printName (mk_cprint n print config) ov, tuple_sep,
                               rec_printName (mk_cprint n print config) m, put [RPAR], cons_sep])
                 (overridden_methods (body_of (getContext config) m))) else skip) ms)
      = seqP (map (\<lambda>x. seqP [?p n x, cons]) (concat (map (\<lambda>m.
          if isVirtual (naming_of (getContext config) m) \<and> \<not> isPureVirtual (body_of (getContext config) m)
          then map (\<lambda>ov. (ov, m)) (overridden_methods (body_of (getContext config) m)) else []) ms)))" for ms
      by (induction ms) (simp_all add: is_pure_virtual_def comp_def seqP_append seqA_assoc cons_def)
    then show ?thesis
      by (simp add: printStructOverrides_def Let_def guard_list_def overrides_def)
  qed
  have "deep (\<lambda>n. writes Q (?p n x) ts)" if o: "override_is print (getContext config) x ts" for x ts
  proof -
    obtain N M where N: "name_is print (getContext config) (fst x) N" "name_is print (getContext config) (snd x) M" "ts = [Par [N, Sym '','', M]]"
      using o by (auto simp: override_is_def)
    have l: "emits Q r i (put [LPAR]) [LP] True i" "emits Q r i (put [RPAR]) [RP] True i" for r i
      by (rule emits_delimiter; simp add: inner_def start_def)+
    show ?thesis
      unfolding N(3)
      by (rule eventually_elim2 [OF deep_name [OF N(1)] deep_name [OF N(2)]], rule writes_par,
        (rule emits_Cons emits_Nil l emits_tuple_sep | (rule emits_writes, assumption) | (simp; fail))+)
  qed
  then have d: "deep (\<lambda>n. list_all2 (\<lambda>x ts. writes Q (?p n x) ts) (overrides (getContext config) d) os)"
    by (intro deep_list list_all2_mono [OF assms]) blast
  show ?thesis
    unfolding f
    by (rule eventually_mono [OF d], rule writes_par,
      (rule emits_Cons emits_Nil emits_begin_list writes_guarded_list compose | assumption
        | (simp add: word_simps elements_def terms_tokens_def; fail))+)
qed

lemma deep_dtor_name:
  assumes "name_is print (getContext config) d N"
  shows "deep (\<lambda>n. writes Q (printDtorName print (mk_cprint n print config) d) [dtor_term N])"
proof -
  have n: "deep (\<lambda>n. writes Q (structured_printName print (mk_cprint n print config) d) [N])"
    using assms structured_name_prints by (auto simp: name_is_def)
  show ?thesis
    unfolding printDtorName_def structured_printDtorName_def guard_ctor_def dtor_term_def
    by (rule eventually_mono [OF n], rule writes_par,
      (rule compose | (rule emits_writes, assumption) | (simp add: word_simps; fail))+)
qed

lemma deep_delete:
  assumes "rel_option (name_is print (getContext config)) (operator_delete (getContext config) d) v"
  shows "deep (\<lambda>n. writes Q (printDeleteName (mk_cprint n print config) d) [opt_term v])"
proof (cases v)
  case None
  with assms have "operator_delete (getContext config) d = None" by simp
  with None show ?thesis by (simp add: printDeleteName_def operator_delete_def writes_none)
next
  case (Some t)
  with assms obtain e where e: "operator_delete (getContext config) d = Some e" "name_is print (getContext config) e t"
    by (auto simp: rel_option_iff split: option.splits)
  show ?thesis
    unfolding printDeleteName_def Let_def mk_cprint_fields e(1) [unfolded operator_delete_def] option.case Some guard_some_def guard_ctor_def opt_term.simps
    by (rule eventually_mono [OF deep_name [OF e(2)]], rule writes_par,
      (rule compose | (rule emits_writes, assumption) | (simp add: word_simps; fail))+)
qed

lemma emits_size:
  "emits Q True i (printSizeAlign (mk_cprint n print config) (\<not> isDependentContext (decl (getContext config) d)) d)
     (terms_tokens (size_terms (getContext config) d)) False i"
  unfolding printSizeAlign_def Let_def mk_cprint_fields size_terms_def
  by (rule emits_eq, (rule emits_Cons emits_Nil emits_nbsp emits_writes [OF writes_number])+) simp

lemma emits_last: "emits Q r i p ts False j \<Longrightarrow> emits Q r i (seqP [p]) ts False j"
  by simp

lemma writes_layout_type: "writes Q (printLayoutType (mk_cprint n print config) d) [Sym (layout_word (getContext config) d)]"
  using writes_sym by (simp add: printLayoutType_def layout_word_def Let_def word_simps)

lemma emits_trivially:
  "emits Q True i (printTriviallyDestructible (mk_cprint n print config) d)
     (term_tokens (bool_term (hasTrivialDestructor (body_of (getContext config) d)))) False i"
  unfolding printTriviallyDestructible_def mk_cprint_fields by (rule emits_bool)

lemma deep_record:
  assumes "record_is print (getContext config) (loop_fuel config) (big_endian config) d c R" and t: "\<not> templates print"
    and "isCompleteDefinition (class_of (getContext config) d)"
  shows "c = ''Dstruct'' \<and> getTagKind (body_of (getContext config) d) \<in> {TK_Class, TK_Struct} \<and>
      deep (\<lambda>n. writes (plain_setting (getContext config)) (printStruct print (mk_cprint n print config) d) [opt_term (Some R)])
    \<or> c = ''Dunion'' \<and> getTagKind (body_of (getContext config) d) = TK_Union \<and>
      deep (\<lambda>n. writes (plain_setting (getContext config)) (printUnion print (mk_cprint n print config) d) [opt_term (Some R)])"
proof -
  have complete: "\<not> \<not> isCompleteDefinition (class_of (getContext config) d)" using assms(3) by simp
  from assms(1) show ?thesis
  proof cases
    case (struct_term bs ms vs os N v)
    let ?Q = "plain_setting (getContext config)"
    have e: "emits Q r i (assertA m (getTagKind (body_of (getContext config) d) \<in> {TK_Class, TK_Struct})) [] r i" for Q r i m
      using struct_term(3) by (rule emits_assert)
    have "deep (\<lambda>n. writes ?Q (printStruct print (mk_cprint n print config) d) [opt_term (Some R)])"
      unfolding struct_term(2) printStruct_def Let_def mk_cprint_fields guard_some_def guard_ctor_def opt_term.simps if_not_P [OF complete]
      by (rule eventually_elim2 [OF eventually_conj [OF eventually_conj [OF
          deep_bases [OF struct_term(4) t, of ?Q] deep_fields [OF struct_term(5) t]]
          eventually_conj [OF deep_virtuals [OF struct_term(6), of ?Q] deep_overrides [OF struct_term(7), of ?Q]]]
          eventually_conj [OF deep_dtor_name [OF struct_term(8), of ?Q] deep_delete [OF struct_term(9), of ?Q]]], elim conjE, rule writes_par,
        (rule e emits_size compose emits_trivially emits_writes [OF writes_layout_type] | (rule emits_writes, assumption)
          | (simp add: word_simps terms_tokens_def; fail))+)
    with struct_term(1,3) show ?thesis by simp
  next
    case (union_term ms N v)
    let ?Q = "plain_setting (getContext config)"
    have e: "emits Q r i (assertA m (getTagKind (body_of (getContext config) d) = TK_Union)) [] r i" for Q r i m
      using union_term(3) by (rule emits_assert)
    have "deep (\<lambda>n. writes ?Q (printUnion print (mk_cprint n print config) d) [opt_term (Some R)])"
      unfolding union_term(2) printUnion_def Let_def mk_cprint_fields guard_some_def guard_ctor_def opt_term.simps if_not_P [OF complete]
      by (rule eventually_elim2 [OF deep_fields [OF union_term(4) t]
          eventually_conj [OF deep_dtor_name [OF union_term(5), of ?Q] deep_delete [OF union_term(6), of ?Q]]], elim conjE, rule writes_par,
        (rule e emits_size compose emits_trivially | (rule emits_writes, assumption) | (simp add: word_simps terms_tokens_def; fail))+)
    with union_term(1,3) show ?thesis by simp
  qed
qed

section \<open>Variables and enumerators\<close>

text \<open>Several terms behind a constructor.\<close>

definition spells :: "setting \<Rightarrow> printer \<Rightarrow> cterm list \<Rightarrow> bool" where
  "spells Q p ts \<longleftrightarrow> (\<forall>i. emits Q True i p (terms_tokens ts) False i)"

lemma spellsI: "(\<And>i. emits Q True i p us r i) \<Longrightarrow> us = terms_tokens ts \<Longrightarrow> spells Q p ts"
  by (auto simp: spells_def intro: emits_after)

lemma spells_writes: "writes Q p ts \<Longrightarrow> spells Q p ts"
  unfolding spells_def by (blast intro: emits_writes)

lemma global_init_words: "w \<in> {''global_init.Extern'', ''global_init.Delayed'', ''global_init.NoInit'', ''global_init.ImplicitInit''} \<Longrightarrow> writes Q (put w) [Sym w]"
  by (auto intro!: writes_sym simp: word_simps)

lemma deep_variable:
  assumes "global_init_is print (getContext config) (loop_fuel config) (big_endian config) d I"
    and "type_is print (getContext config) (getType (named_of (getContext config) d)) T"
  shows "deep (\<lambda>n. spells (plain_setting (getContext config)) (printVar (mk_cprint n print config) d) [T, I])"
proof -
  let ?Q = "plain_setting (getContext config)" and ?N = "named_of (getContext config) d"
  let ?r = "\<lambda>n. if hasExternalStorage (decl (getContext config) d) then
          seqP [assertA ''external variable with an initializer'' (getInit ?N = None), put ''global_init.Extern'']
        else if (case getDeclContext ?N of Some c \<Rightarrow> isaD (getContext config) FunctionDecl c | None \<Rightarrow> False)
        then put ''global_init.Delayed''
        else case getInit ?N of
          Some e \<Rightarrow> guard_ctor ''global_init.Init'' True [printExpr1 (mk_cprint n print config) e]
        | None \<Rightarrow>
            if implicitInstantiation (body_of (getContext config) d) then put ''global_init.ImplicitInit''
            else put ''global_init.NoInit''"
  have r: "deep (\<lambda>n. writes ?Q (?r n) [I])"
    using assms(1)
  proof cases
    case (initialized c e a)
    have "deep (\<lambda>n. writes ?Q (guard_ctor ''global_init.Init'' True [printExpr1 (mk_cprint n print config) e]) [I])"
      unfolding initialized(1) guard_ctor_def
      by (rule eventually_mono [OF deep_fresh [OF code_prints(1) [OF initialized(6)]]], rule writes_par,
        (rule compose | (rule emits_writes, assumption) | (simp add: word_simps; fail))+)
    with initialized(2-5) show ?thesis by simp
  qed (auto simp: global_init_words assertA_def)
  show ?thesis
    unfolding printVar_def Let_def mk_cprint_fields
    by (rule eventually_elim2 [OF deep_type [OF assms(2)] r], rule spellsI,
      (rule emits_Cons emits_Nil emits_nbsp | (rule emits_writes, assumption) | (simp; fail))+)
qed

lemma writes_uval: "writes Q (print_uval u) [uval_term u]"
proof (cases u)
  case (Kint v)
  have o: "emits Q r i (put ''(inr '') [LP, Word ''inr''] True i" for r i
    by (rule emits_put_paren [where m = Between and us = "[LP, Word ''inr'']"]) (simp_all add: start_def inner_def white_def)
  have c: "emits Q r i (put '')'') [RP] True i" for r i
    by (rule emits_delimiter) (simp_all add: inner_def start_def)
  show ?thesis
    unfolding Kint uval_term.simps print_uval.simps
    by (rule writes_par, (rule emits_Cons emits_Nil o c emits_putZ)+) (simp add: terms_tokens_def)
next
  case (Kchar b v)
  let ?k = "unat (toBRiCkCharacter b v)"
  have d: "tscan (ts, Between) (decimal ?k) = (ts, InWord (decimal ?k))" for ts by (rule tscan_word [OF word_decimal])
  have "emits Q False i (put (''(inl '' @ decimal ?k @ ''%N)'')) (term_tokens (uval_term u)) True i" for i
    by (rule emits_put_paren [where m = Between and us = "term_tokens (uval_term u)"])
      (simp_all add: Kchar start_def inner_def white_def d)
  then have "writes Q (put (''(inl '' @ decimal ?k @ ''%N)'')) [uval_term u]"
    unfolding Kchar uval_term.simps by (rule writes_par) simp
  then show ?thesis by (simp add: Kchar puts_def)
qed

lemma deep_enumerators:
  assumes "list_all2 (\<lambda>c n. getIdentifier (named_of (getContext config) c) = Some n) (enumerators (decl (getContext config) d)) ns"
    and "type_is print (getContext config) (getIntegerType (body_of (getContext config) d)) T"
  shows "deep (\<lambda>n. spells Q (printEnum (mk_cprint n print config) d) [T, list_term (map Str ns)])"
proof -
  have l: "writes Q (plist (enumerators (decl (getContext config) d)) (\<lambda>c. printUnqualifiedName (mk_cprint n print config) c)) [list_term (map Str ns)]" for n
    by (rule writes_plist) (use assms(1) in \<open>auto simp: list_all2_conv_all_nth intro: writes_identifier\<close>)
  show ?thesis
    unfolding printEnum_def Let_def mk_cprint_fields
    by (rule eventually_mono [OF deep_type [OF assms(2)]], rule spellsI,
      (rule emits_Cons emits_Nil emits_nbsp emits_writes [OF l] | (rule emits_writes, assumption) | (simp; fail))+)
qed

lemma deep_enumerator:
  assumes "name_is print (getContext config) (ed c) E" and "type_is print (getContext config) (ut c) T"
    and "rel_option (expr_is print (getContext config) (loop_fuel config) (big_endian config)) (getInitExpr (body_of (getContext config) (ec c))) v"
  shows "deep (\<lambda>n. spells (plain_setting (getContext config)) (printEnumConst (mk_cprint n print config) c) [E, T, uval_term (uv c), opt_term v])"
proof -
  let ?Q = "plain_setting (getContext config)"
  have i: "deep (\<lambda>n. writes ?Q (case getInitExpr (body_of (getContext config) (ec c)) of
      Some e \<Rightarrow> guard_some True [printExpr1 (mk_cprint n print config) e] | None \<Rightarrow> none) [opt_term v])"
  proof (cases v)
    case None
    with assms(3) show ?thesis by (auto simp: writes_none)
  next
    case (Some a)
    with assms(3) obtain e where e: "getInitExpr (body_of (getContext config) (ec c)) = Some e"
        "expr_is print (getContext config) (loop_fuel config) (big_endian config) e a"
      by (auto simp: rel_option_iff split: option.splits)
    show ?thesis
      unfolding e(1) option.case Some guard_some_def guard_ctor_def opt_term.simps
      by (rule eventually_mono [OF deep_fresh [OF code_prints(1) [OF e(2)]]], rule writes_par,
        (rule compose | (rule emits_writes, assumption) | (simp add: word_simps; fail))+)
  qed
  show ?thesis
    unfolding printEnumConst_def mk_cprint_fields
    by (rule eventually_elim2 [OF eventually_conj [OF deep_name [OF assms(1), of ?Q] deep_type [OF assms(2), of ?Q]] i], elim conjE, rule spellsI,
      (rule emits_Cons emits_Nil emits_nbsp emits_writes [OF writes_uval] | (rule emits_writes, assumption) | (simp; fail))+)
qed

section \<open>The visitor\<close>

lemma printed_simps:
  "orQ (printed p) q = printed p" "withDeclContextQ c (printed p) = printed (withDeclContext c p)"
  by (rule ext, simp add: orQ_def withDeclContextQ_def withDeclContext_def returning_def split: sum.split)+

definition decl_ok :: "CoqPrinter \<Rightarrow> ClangPrinter \<Rightarrow> (nat \<Rightarrow> bprinter) \<Rightarrow> cterm option \<Rightarrow> bool" where
  "decl_ok print config b v \<longleftrightarrow> deep (\<lambda>n. returns_term (plain_setting (getContext config)) (b n) v)"

lemma declared_prints:
  assumes t: "\<not> templates print" and m: "\<not> comment config" and name: "name_is print (getContext config) d N"
    and l: "getLambdaClass (getContext config) (Some d) = None" and c: "word c"
    and body: "deep (\<lambda>n. spells (plain_setting (getContext config)) (body n) ts)"
  shows "decl_ok print config (\<lambda>n. DeclPrinter_print print (mk_cprint n print config) c (body n) None d) (Some (app c (N # ts)))"
proof -
  let ?Q = "plain_setting (getContext config)"
  let ?p = "\<lambda>n. guard_ctor c True [skip, nbsp, rec_printName (mk_cprint n print config) d, nbsp, body n]"
  have "printNameComment (mk_cprint n print config) d = skip" for n using m by (simp add: printNameComment_def)
  then have e: "DeclPrinter_print print (mk_cprint n print config) c (body n) None d =
      printed (if isDeclContext (decl (getContext config) d) then withDeclContext (Some d) (?p n) else ?p n)" for n
    using t by (simp add: DeclPrinter_print_def print_untemplated_def printNameAsKey_def printed_simps Let_def)
  have w: "deep (\<lambda>n. writes ?Q (?p n) [app c (N # ts)])"
  proof (rule eventually_elim2 [OF deep_name [OF name, of ?Q] body])
    fix n
    assume n: "writes ?Q (rec_printName (mk_cprint n print config) d) [N]" and b: "spells ?Q (body n) ts"
    have b': "emits ?Q True i (body n) (terms_tokens ts) False i" for i using b by (simp add: spells_def)
    show "writes ?Q (?p n) [app c (N # ts)]"
      unfolding guard_ctor_def
      by (rule writes_par, (rule emits_Cons emits_Nil emits_ctor [OF c] emits_skip emits_nbsp emits_end_ctor b' emits_writes [OF n])+)
        (simp add: terms_tokens_def)
  qed
  have "deep (\<lambda>n. writes ?Q (if isDeclContext (decl (getContext config) d) then withDeclContext (Some d) (?p n) else ?p n) [app c (N # ts)])"
    by (rule eventually_mono [OF w]) (auto intro: writes_withDeclContext simp: plain_setting_def l)
  then show ?thesis
    unfolding decl_ok_def e by (rule eventually_mono) (auto simp: returns_term_def)
qed

lemma unsupported_prints:
  assumes name: "name_is print (getContext config) d N" and l: "getLambdaClass (getContext config) (Some d) = None"
    and d: "isDeclContext (decl (getContext config) d)"
  shows "decl_ok print config (\<lambda>n. DeclPrinter_print print (mk_cprint n print config) c (body n) (Some m) d)
    (Some (app ''Dunsupported'' [N, Str m]))"
proof -
  let ?Q = "plain_setting (getContext config)"
  let ?p = "\<lambda>n. guard_ctor ''Dunsupported'' True [rec_printName (mk_cprint n print config) d, nbsp, str m]"
  have e: "DeclPrinter_print print (mk_cprint n print config) c (body n) (Some m) d = printed (withDeclContext (Some d) (?p n))" for n
    using d by (simp add: DeclPrinter_print_def printed_simps)
  have "deep (\<lambda>n. writes ?Q (?p n) [app ''Dunsupported'' [N, Str m]])"
    unfolding guard_ctor_def
    by (rule eventually_mono [OF deep_name [OF name, of ?Q]], rule writes_par,
      (rule compose | (rule emits_writes, assumption) | (simp add: word_simps; fail))+)
  then have "deep (\<lambda>n. writes ?Q (withDeclContext (Some d) (?p n)) [app ''Dunsupported'' [N, Str m]])"
    by (rule eventually_mono) (auto intro: writes_withDeclContext simp: plain_setting_def l)
  then show ?thesis
    unfolding decl_ok_def e by (rule eventually_mono) (auto simp: returns_term_def)
qed

text \<open>The bodies of functions.\<close>

lemma deep_function:
  assumes "type_is print (getContext config) (getReturnType (body_of (getContext config) d)) R"
    and "list_all2 (param_is print (getContext config)) (parameters (named_of (getContext config) d)) ps"
    and "conv_is (getContext config) (loop_fuel config) d C"
    and "function_body_is print (getContext config) (loop_fuel config) (big_endian config) d b"
  shows "deep (\<lambda>n. spells (plain_setting (getContext config)) (printFunction (mk_cprint n print config) d)
    [app ''Build_Func'' [R, list_term ps, C, Sym (variadic_word (isVariadic (body_of (getContext config) d))), opt_term b]])"
  unfolding printFunction_def Let_def mk_cprint_fields guard_ctor_def [of "''Build_Func''"]
  by (rule eventually_elim2 [OF eventually_conj [OF deep_type [OF assms(1), of "plain_setting (getContext config)"]
        deep_params [OF assms(2), of "plain_setting (getContext config)"]]
        eventually_conj [OF deep_conv [OF assms(3), of "plain_setting (getContext config)"] deep_function_body [OF assms(4)]]], elim conjE,
      rule spells_writes, rule writes_par,
      (rule compose emits_writes [OF writes_variadic] | (rule emits_writes, assumption) | (simp add: word_simps; fail))+)

lemma deep_method:
  assumes "type_is print (getContext config) (getReturnType (body_of (getContext config) d)) R"
    and "name_is print (getContext config) (getParent (named_of (getContext config) d)) K"
    and "list_all2 (param_is print (getContext config)) (parameters (named_of (getContext config) d)) ps"
    and "conv_is (getContext config) (loop_fuel config) d C"
    and "user_body_is print (getContext config) (loop_fuel config) (big_endian config) d b" and t: "\<not> templates print"
  shows "deep (\<lambda>n. spells (plain_setting (getContext config)) (printMethod print (mk_cprint n print config) d)
    [bool_term (isStaticMethod (naming_of (getContext config) d)),
     app ''Build_Method'' [R, K, Sym (qualifier_word (isConst (named_of (getContext config) d)) (isVolatile (named_of (getContext config) d))), list_term ps, C,
       Sym (variadic_word (isVariadic (body_of (getContext config) d))), opt_term b]])"
  unfolding printMethod_def Let_def mk_cprint_fields guard_ctor_def printClassName_def if_not_P [OF t]
  by (rule eventually_elim2 [OF eventually_conj [OF eventually_conj [OF deep_type [OF assms(1), of "plain_setting (getContext config)"]
        deep_name [OF assms(2), of "plain_setting (getContext config)"]] deep_params [OF assms(3), of "plain_setting (getContext config)"]]
        eventually_conj [OF deep_conv [OF assms(4), of "plain_setting (getContext config)"] deep_user_body [OF assms(5)]]], elim conjE,
      rule spellsI,
      (rule compose emits_writes [OF writes_variadic] emits_writes [OF writes_qualifier] | (rule emits_writes, assumption) | (simp add: word_simps; fail))+)

lemma deep_constructor:
  assumes "name_is print (getContext config) (getParent (named_of (getContext config) d)) K"
    and "list_all2 (param_is print (getContext config)) (parameters (named_of (getContext config) d)) ps"
    and "conv_is (getContext config) (loop_fuel config) d C"
    and "ctor_body_is print (getContext config) (loop_fuel config) (big_endian config) d b" and t: "\<not> templates print"
  shows "deep (\<lambda>n. spells (plain_setting (getContext config)) (printConstructor print (mk_cprint n print config) d)
    [app ''Build_Ctor'' [K, list_term ps, C, Sym (variadic_word (isVariadic (body_of (getContext config) d))), opt_term b]])"
  unfolding printConstructor_def Let_def mk_cprint_fields guard_ctor_def [of "''Build_Ctor''"] printClassName_def if_not_P [OF t]
  by (rule eventually_elim2 [OF eventually_conj [OF deep_name [OF assms(1), of "plain_setting (getContext config)"]
        deep_params [OF assms(2), of "plain_setting (getContext config)"]]
        eventually_conj [OF deep_conv [OF assms(3), of "plain_setting (getContext config)"] deep_ctor_body [OF assms(4) t]]], elim conjE,
      rule spells_writes, rule writes_par,
      (rule compose emits_writes [OF writes_variadic] | (rule emits_writes, assumption) | (simp add: word_simps; fail))+)

lemma deep_destructor:
  assumes "name_is print (getContext config) (getParent (named_of (getContext config) d)) K"
    and "conv_is (getContext config) (loop_fuel config) d C"
    and "user_body_is print (getContext config) (loop_fuel config) (big_endian config) d b" and t: "\<not> templates print"
  shows "deep (\<lambda>n. spells (plain_setting (getContext config)) (printDestructor_decl print (mk_cprint n print config) d)
    [app ''Build_Dtor'' [K, C, opt_term b]])"
  unfolding printDestructor_decl_def mk_cprint_fields guard_ctor_def printClassName_def if_not_P [OF t]
  by (rule eventually_elim2 [OF eventually_conj [OF deep_name [OF assms(1), of "plain_setting (getContext config)"]
        deep_conv [OF assms(2), of "plain_setting (getContext config)"]] deep_user_body [OF assms(3)]], elim conjE,
      rule spells_writes, rule writes_par,
      (rule compose | (rule emits_writes, assumption) | (simp add: word_simps; fail))+)

text \<open>The method that the visitor calls.\<close>

lemma dispatch_found:
  "find (\<lambda>c. c \<in> set (map fst ms)) (ancestors k) = Some c \<Longrightarrow> map_of ms c = Some p \<Longrightarrow> dispatch ms base k = p"
  "find (\<lambda>c. c \<in> set (map fst ms)) (ancestors k) = None \<Longrightarrow> dispatch ms base k = base"
proof -
  have "find (\<lambda>c. c \<in> set (map fst ms)) ks = Some c \<Longrightarrow> map_of ms c = Some p \<Longrightarrow> nearest ms base ks = p"
    "find (\<lambda>c. c \<in> set (map fst ms)) ks = None \<Longrightarrow> nearest ms base ks = base" for ks
    by (induction ks) (auto split: option.splits if_splits simp: domIff simp flip: dom_map_of_conv_image_fst)
  then show "find (\<lambda>c. c \<in> set (map fst ms)) (ancestors k) = Some c \<Longrightarrow> map_of ms c = Some p \<Longrightarrow> dispatch ms base k = p"
    "find (\<lambda>c. c \<in> set (map fst ms)) (ancestors k) = None \<Longrightarrow> dispatch ms base k = base"
    by (simp_all add: dispatch_def)
qed

lemma printDecl_visits:
  "visited_as (getContext cprint) d = Some c \<Longrightarrow> map_of (PrintDecl_methods print cprint d) c = Some b \<Longrightarrow> printDecl print cprint d = b"
  "visited_as (getContext cprint) d = None \<Longrightarrow> printDecl print cprint d = decl_VisitDecl"
  using dispatch_found [where ms = "PrintDecl_methods print cprint d" and k = "getKind (decl (getContext cprint) d)"]
  by (simp_all add: printDecl_def visited_as_def visitor_kinds_def PrintDecl_methods_def)

lemma content_prints:
  assumes "content_is print (getContext config) (loop_fuel config) (big_endian config) (typedefs config) d k c ts"
    and v: "visited_as (getContext config) d = Some k" and t: "\<not> templates print" and m: "\<not> comment config"
    and name: "name_is print (getContext config) d N" and l: "getLambdaClass (getContext config) (Some d) = None"
  shows "decl_ok print config (\<lambda>n. printDecl print (mk_cprint n print config) d) (Some (app c (N # ts)))"
proof -
  have visit: "printDecl print (mk_cprint n print config) d = b"
    if "map_of (PrintDecl_methods print (mk_cprint n print config) d) k = Some b" for n b
    using printDecl_visits(1) [of "mk_cprint n print config" d k print b] v that by simp
  note declared = declared_prints [OF t m name l]
  have none: "deep (\<lambda>n. spells Q skip [])" for Q by (simp add: spells_def emits_after [OF emits_skip])
  from assms(1) show ?thesis
  proof cases
    case (variable_decl T I)
    from declared [OF _ deep_variable [OF variable_decl(5,4)], of "''Dvariable''"] variable_decl(1-3) visit show ?thesis
      by (simp add: PrintDecl_methods_def Dvariable_def word_simps)
  next
    case (function_decl R ps C b)
    from declared [OF _ deep_function [OF function_decl(4-7)], of "''Dfunction''"] function_decl(1-3) visit show ?thesis
      by (simp add: PrintDecl_methods_def Dfunction_def word_simps)
  next
    case (method_decl R K ps C b)
    from declared [OF _ deep_method [OF method_decl(4-8) t], of "''Dmethod''"] method_decl(1-3) visit show ?thesis
      by (simp add: PrintDecl_methods_def Dmethod_def word_simps)
  next
    case (constructor_decl K ps C b)
    from declared [OF _ deep_constructor [OF constructor_decl(4-7) t], of "''Dconstructor''"] constructor_decl(1-3) visit show ?thesis
      by (simp add: PrintDecl_methods_def Dconstructor_def word_simps)
  next
    case (destructor_decl K C b)
    from declared [OF _ deep_destructor [OF destructor_decl(4-6) t], of "''Ddestructor''"] destructor_decl(1-3) visit show ?thesis
      by (simp add: PrintDecl_methods_def Ddestructor_def word_simps)
  next
    case (typedef_decl T)
    have "deep (\<lambda>n. spells (plain_setting (getContext config)) (printTypedef (mk_cprint n print config) d) [T])"
      unfolding printTypedef_def mk_cprint_fields by (rule eventually_mono [OF deep_type [OF typedef_decl(5)]]) (rule spells_writes)
    from declared [OF _ this, of "''Dtypedef''"] typedef_decl(1-4) visit show ?thesis
      by (simp add: PrintDecl_methods_def decl_VisitTypedefNameDecl_def Dtypedef_def word_simps)
  next
    case forward_decl
    from declared [OF _ none, of "''Dtype''"] forward_decl visit show ?thesis
      by (auto simp: PrintDecl_methods_def decl_VisitCXXRecordDecl_def VisitStructDecl_def VisitUnionDecl_def decl_printType_def
          Dtype_def word_simps)
  next
    case (record_decl R)
    from deep_record [OF record_decl(5) t record_decl(3)] show ?thesis
    proof (elim disjE conjE)
      assume r: "c = ''Dstruct''" "getTagKind (body_of (getContext config) d) \<in> {TK_Class, TK_Struct}"
        "deep (\<lambda>n. writes (plain_setting (getContext config)) (printStruct print (mk_cprint n print config) d) [opt_term (Some R)])"
      have "deep (\<lambda>n. spells (plain_setting (getContext config)) (printStruct print (mk_cprint n print config) d) [opt_term (Some R)])"
        by (rule eventually_mono [OF r(3)]) (rule spells_writes)
      from declared [OF _ this, of "''Dstruct''"] r(1,2) record_decl visit show ?thesis
        by (auto simp: PrintDecl_methods_def decl_VisitCXXRecordDecl_def VisitStructDecl_def decl_printType_def Dstruct_def word_simps)
    next
      assume r: "c = ''Dunion''" "getTagKind (body_of (getContext config) d) = TK_Union"
        "deep (\<lambda>n. writes (plain_setting (getContext config)) (printUnion print (mk_cprint n print config) d) [opt_term (Some R)])"
      have "deep (\<lambda>n. spells (plain_setting (getContext config)) (printUnion print (mk_cprint n print config) d) [opt_term (Some R)])"
        by (rule eventually_mono [OF r(3)]) (rule spells_writes)
      from declared [OF _ this, of "''Dunion''"] r(1,2) record_decl visit show ?thesis
        by (auto simp: PrintDecl_methods_def decl_VisitCXXRecordDecl_def VisitUnionDecl_def decl_printType_def Dunion_def word_simps)
    qed
  next
    case (unsupported_record msg)
    from unsupported_prints [OF name l unsupported_record(6), of _ _ msg] unsupported_record visit show ?thesis
      by (auto simp: PrintDecl_methods_def decl_VisitCXXRecordDecl_def VisitStructDecl_def VisitUnionDecl_def decl_printType_def
          Dstruct_def Dunion_def)
  next
    case forward_enum
    from declared [OF _ none, of "''Dtype''"] forward_enum visit show ?thesis
      by (auto simp: PrintDecl_methods_def decl_VisitEnumDecl_def Dtype_def word_simps)
  next
    case (enum_decl T ns)
    have "getTypePtrOrNull (getIntegerType (body_of (getContext config) d)) \<noteq> None"
      using enum_decl(4) by (auto simp: type_is_def elim: qual_denotes.cases)
    with declared [OF _ deep_enumerators [OF enum_decl(5,4)], of "''Denum''"] enum_decl(1-3) visit show ?thesis
      by (simp add: PrintDecl_methods_def decl_VisitEnumDecl_def Denum_def Let_def word_simps)
  next
    case (enumerator_decl x E T w)
    have x: "ec x = d"
      using enumerator_decl(4) by (auto simp: crackEnumConst_def Let_def split: option.splits sum.splits bool.splits)
    with enumerator_decl(7) have "rel_option (expr_is print (getContext config) (loop_fuel config) (big_endian config))
        (getInitExpr (body_of (getContext config) (ec x))) w" by simp
    from declared [OF _ deep_enumerator [OF enumerator_decl(5,6) this], of "''Denum_constant''"] enumerator_decl(1-4) x visit show ?thesis
      by (simp add: PrintDecl_methods_def decl_VisitEnumConstantDecl_def with_answerQ_def Denum_constant_def word_simps)
  qed
qed

lemma nothing_prints: "decl_ok print config (\<lambda>n. nothing) None" "decl_ok print config (\<lambda>n. returning (decl_unsupported msg) False) None"
  by (auto simp: decl_ok_def returns_term_def decl_unsupported_def intro: emits_skip emits_diag)

lemma decl_prints:
  assumes "decl_is print (getContext config) (loop_fuel config) (big_endian config) (typedefs config) d v"
    and t: "\<not> templates print" and m: "\<not> comment config"
  shows "decl_ok print config (\<lambda>n. printDecl print (mk_cprint n print config) d) v"
  using assms(1)
proof cases
  case (declared k c ts N)
  then show ?thesis using content_prints [OF declared(3,2) t m declared(4,5)] by simp
next
  case (asserted e a)
  let ?Q = "plain_setting (getContext config)" and ?B = "body_of (getContext config) d"
  have o: "writes Q (case assertMessage ?B of Some msg \<Rightarrow> guard_some True [str msg] | None \<Rightarrow> none) [opt_term (map_option Str (assertMessage ?B))]" for Q
  proof (cases "assertMessage ?B")
    case (Some x)
    have "writes Q (guard_some True [str x]) [app ''Some'' [Str x]]" for Q
      unfolding guard_some_def guard_ctor_def by (rule writes_par, (rule compose | (simp add: word_simps; fail))+)
    with Some show ?thesis by simp
  qed (simp add: writes_none)
  have "printDecl print (mk_cprint n print config) d = printed (guard_ctor ''Dstatic_assert'' True
      [(case assertMessage ?B of Some msg \<Rightarrow> guard_some True [str msg] | None \<Rightarrow> none), nbsp, printExpr1 (mk_cprint n print config) e])" for n
    using printDecl_visits(1) [of "mk_cprint n print config" d StaticAssertDecl print] asserted(2,3)
    by (simp add: PrintDecl_methods_def decl_VisitStaticAssertDecl_def)
  moreover have "deep (\<lambda>n. writes ?Q (guard_ctor ''Dstatic_assert'' True
      [(case assertMessage ?B of Some msg \<Rightarrow> guard_some True [str msg] | None \<Rightarrow> none), nbsp, printExpr1 (mk_cprint n print config) e])
      [app ''Dstatic_assert'' [opt_term (map_option Str (assertMessage ?B)), a]])"
    unfolding guard_ctor_def [of "''Dstatic_assert''"]
    by (rule eventually_mono [OF deep_fresh [OF code_prints(1) [OF asserted(4)]]], rule writes_par,
      (rule compose emits_writes [OF o] | (rule emits_writes, assumption) | (simp add: word_simps; fail))+)
  ultimately show ?thesis
    unfolding decl_ok_def asserted(1) by (auto simp: returns_term_def elim: eventually_mono)
next
  case (silent k)
  then have "printDecl print (mk_cprint n print config) d = nothing" for n
    using printDecl_visits(1) [of "mk_cprint n print config" d k print nothing]
    by (auto simp: PrintDecl_methods_def visitor_kinds_def)
  with silent(1) nothing_prints show ?thesis by simp
next
  case no_typedefs
  then have "printDecl print (mk_cprint n print config) d = nothing" for n
    using printDecl_visits(1) [of "mk_cprint n print config" d TypedefNameDecl print]
    by (simp add: PrintDecl_methods_def decl_VisitTypedefNameDecl_def)
  with no_typedefs(1) nothing_prints show ?thesis by simp
next
  case not_supported
  then have "printDecl print (mk_cprint n print config) d = decl_VisitDecl" for n
    using printDecl_visits(2) [of "mk_cprint n print config" d print] by simp
  with not_supported(1) nothing_prints(2) show ?thesis by (simp add: decl_VisitDecl_def)
next
  case anonymous_enum
  then have "printDecl print (mk_cprint n print config) d = returning (decl_unsupported ''anonymous forward declaration'') False" for n
    using printDecl_visits(1) [of "mk_cprint n print config" d EnumDecl print]
    by (simp add: PrintDecl_methods_def decl_VisitEnumDecl_def Let_def)
  with anonymous_enum(1) nothing_prints(2) show ?thesis by simp
qed

section \<open>Reading back\<close>

lemma returns_term_writes:
  assumes "returns_term Q b v"
  shows "\<exists>p. b = returning p (v \<noteq> None) \<and> writes Q p (case v of None \<Rightarrow> [] | Some t \<Rightarrow> [t])"
proof -
  obtain p where p: "b = returning p (v \<noteq> None)" "case v of None \<Rightarrow> \<forall>r i. emits Q r i p [] r i | Some t \<Rightarrow> writes Q p [t]"
    using assms by (auto simp: returns_term_def)
  have "writes Q p (case v of None \<Rightarrow> [] | Some t \<Rightarrow> [t])"
    using p(2) by (cases v) (auto simp: writes_def intro: emits_after)
  with p(1) show ?thesis by blast
qed

text \<open>
  C3. A declaration of a module that stands for a term of Coq is written so that Coq reads that term: outside the template mode
  and without comments, with enough levels \<open>printDecl\<close> returns from every state that is between two tokens, answers whether there is
  a term, and the text it has written parses as the term, or as nothing.
\<close>

theorem printDecl_reads_back:
  assumes "decl_is print (getContext config) (loop_fuel config) (big_endian config) (typedefs config) d v"
    and "\<not> templates print" and "\<not> comment config"
  shows "\<exists>m. \<forall>n \<ge> m. \<forall>s. snd (reader (fmt s)) = Between \<longrightarrow> anonymous (names s) = [] \<longrightarrow> getLambdaClass (getContext config) (declctx s) = None \<longrightarrow>
    (\<exists>s' u. printDecl print (mk_cprint n print config) d s = Inr (v \<noteq> None, s') \<and> out (fmt s') = out (fmt s) @ u
       \<and> parse_terms u = Some (case v of None \<Rightarrow> [] | Some t \<Rightarrow> [t]))"
proof -
  let ?ts = "case v of None \<Rightarrow> [] | Some t \<Rightarrow> [t]"
  obtain m where m: "\<And>n. m \<le> n \<Longrightarrow> returns_term (plain_setting (getContext config)) (printDecl print (mk_cprint n print config) d) v"
    using decl_prints [OF assms] unfolding decl_ok_def eventually_sequentially by blast
  have "\<exists>s' u. printDecl print (mk_cprint n print config) d s = Inr (v \<noteq> None, s') \<and> out (fmt s') = out (fmt s) @ u \<and> parse_terms u = Some ?ts"
    if le: "m \<le> n" and b: "snd (reader (fmt s)) = Between" and q: "plain_setting (getContext config) (names s) (declctx s)"
    for n and s :: pstate
  proof -
    obtain p where p: "printDecl print (mk_cprint n print config) d = returning p (v \<noteq> None)"
        "writes (plain_setting (getContext config)) p ?ts"
      using returns_term_writes [OF m [OF le]] by blast
    from writes_parse [OF p(2) q b] p(1) show ?thesis by (auto simp: returning_def)
  qed
  then show ?thesis unfolding plain_setting_def by blast
qed

section \<open>An example\<close>

text \<open>
  The function \<open>int f(int x) { return x; }\<close>: declarations 0 (the translation unit), 1 (\<open>f\<close>) and 2 (\<open>x\<close>), types 0 (\<open>int\<close>) and
  1 (\<open>int(int)\<close>), statements 0 (the block) and 1, expression 0 (\<open>x\<close>).
\<close>

definition identity_ast :: ASTContext where
  "identity_ast = ast0\<lparr>
     decl := (\<lambda>d. (decl0 d)\<lparr>getKind := (if d = 0 then TranslationUnitDecl else if d = 1 then FunctionDecl else ParmVarDecl),
       isDeclContext := d \<le> 1\<rparr>),
     named_of := (\<lambda>d. named0\<lparr>getIdentifier := (if d = 1 then Some ''f'' else if d = 2 then Some ''x'' else None),
       getType := qual0 (if d = 1 then 1 else 0), getDeclContext := (if d = 0 then None else Some (d - 1)),
       isFunctionOrMethod := (d = 1), parameters := (if d = 1 then [2] else [])\<rparr>),
     naming_of := (\<lambda>d. naming0\<lparr>getDeclName := DNIdentifier (Some ''f'')\<rparr>),
     type_of := (\<lambda>t. type0\<lparr>type_node := (if t = 1 then FunctionProtoType CC_C False (qual0 0) [qual0 0] else BuiltinType BT_Int)\<rparr>),
     body_of := (\<lambda>d. body0\<lparr>getBody := (if d = 1 then Some 0 else None)\<rparr>),
     stmt_of := (\<lambda>s. if s = 0 then CompoundStmt [1] else ReturnStmt (Some 0)),
     expr_of := (\<lambda>e. expr0\<lparr>expr_node := DeclRefExpr (Some 2) False, value_kind := LValue\<rparr>)\<rparr>"

abbreviation f_term :: cterm where
  "f_term \<equiv> app ''Nglobal'' [app ''Nfunction'' [Sym ''function_qualifiers.N'', app ''Nf'' [Str ''f''], Par [Sym ''Tint'', Sym ''::'', Sym ''nil'']]]"

abbreviation return_term :: cterm where
  "return_term \<equiv> app ''Sreturn_val'' [app ''Evar'' [Str ''x'', Sym ''Tint'']]"

lemma identity_tables:
  "getKind (decl identity_ast d) = (if d = 0 then TranslationUnitDecl else if d = 1 then FunctionDecl else ParmVarDecl)"
  "getIdentifier (named_of identity_ast d) = (if d = 1 then Some ''f'' else if d = 2 then Some ''x'' else None)"
  "getType (named_of identity_ast d) = qual0 (if d = 1 then 1 else 0)"
  "getDeclContext (named_of identity_ast d) = (if d = 0 then None else Some (d - 1))"
  "isFunctionOrMethod (named_of identity_ast d) = (d = 1)" "parameters (named_of identity_ast d) = (if d = 1 then [2] else [])"
  "getDeclName (naming_of identity_ast d) = DNIdentifier (Some ''f'')"
  "type_node (type_of identity_ast t) = (if t = 1 then FunctionProtoType CC_C False (qual0 0) [qual0 0] else BuiltinType BT_Int)"
  "getBody (body_of identity_ast d) = (if d = 1 then Some 0 else None)" "getReturnType (body_of identity_ast d) = qual0 0"
  "isVariadic (body_of identity_ast d) = False" "isStaticLocal (decl identity_ast d) = False"
  "stmt_of identity_ast s = (if s = 0 then CompoundStmt [1] else ReturnStmt (Some 0))"
  "expr_node (expr_of identity_ast e) = DeclRefExpr (Some 2) False" "\<not> containsErrors (expr_of identity_ast e)"
  "canonical_volatile (type_of identity_ast t) = False"
  by (simp_all add: identity_ast_def ast0_def decl0_def named0_def body0_def expr0_def naming0_def type0_def)

lemma identity_type: "qual_denotes printer0 identity_ast (qual0 0) (Prim ''Tint'')"
proof -
  have c: "nc_lookup (types_nc (name_cache printer0)) t = 0" for t
    by (simp add: printer0_def Cache_init_def NameCache_init_def nc_lookup_def)
  have "denotes printer0 identity_ast 0 (Prim ''Tint'')"
    by (auto intro!: type_node builtin simp: c identity_tables)
  then show ?thesis
    using qual [of "qual0 0" 0 printer0 identity_ast "Prim ''Tint''"] by (simp add: with_quals_def isVolatileQualified_def identity_tables)
qed

lemma identity_type_is: "type_is printer0 identity_ast (qual0 0) (Sym ''Tint'')"
  using identity_type by (auto simp: type_is_def)

lemma identity_kinds:
  "isa NamedDecl FunctionDecl" "isa FunctionDecl FunctionDecl" "isa ParmVarDecl ParmVarDecl" "\<not> isa CXXMethodDecl FunctionDecl"
  "\<not> isa CXXRecordDecl FunctionDecl" "\<not> isa EnumConstantDecl ParmVarDecl" "\<not> isa NonTypeTemplateParmDecl ParmVarDecl" "\<not> isa FunctionDecl ParmVarDecl"
  "\<not> isa ClassTemplateSpecializationDecl FunctionDecl"
  by code_simp+

lemma identity_name: "name_is printer0 identity_ast 1 f_term"
proof -
  have "name_denotes printer0 identity_ast 1 (Toplevel (Function_name ''N'' (Named_function ''f'') [Prim ''Tint'']))"
  proof (rule name_path)
    show "no_reference printer0 identity_ast 1"
      by (simp add: no_reference_def identity_tables identity_kinds printer0_def Cache_init_def NameCache_init_def nc_lookup_def)
    show "described_template identity_ast 1 = None" "recoverSpecialization identity_ast 1 = None"
      by (simp_all add: described_template_def recoverSpecialization_def identity_ast_def ast0_def naming0_def named0_def identity_kinds)
    have "atom_denotes printer0 identity_ast 1 (Function_name (qualifiers identity_ast 1) (Named_function ''f'') [Prim ''Tint''])"
      by (rule function_atom) (simp_all add: identity_tables function_kinds_def named_function identity_type)
    moreover have "qualifiers identity_ast 1 = ''N''" by (simp add: qualifiers_def identity_tables identity_kinds)
    ultimately show "path_denotes printer0 identity_ast 1 (Toplevel (Function_name ''N'' (Named_function ''f'') [Prim ''Tint'']))"
      by (intro global_path [where c = 0]) (simp_all add: identity_tables classifyContext_def)
  qed
  then show ?thesis by (auto simp: name_is_def list_term_def elements_def)
qed

lemma identity_local: "local_name identity_ast 1 2 (Str ''x'')"
  using parameter [where ctx = identity_ast and d = 2 and fd = 1 and us = "[]" and ws = "[]"]
  by (simp add: identity_tables identity_kinds spelled_def)

lemma identity_body: "stmt_is printer0 identity_ast f big 0 [app ''Sseq'' [Par (elements [[return_term]])]]"
proof -
  have "value_is printer0 identity_ast 2 (app ''Evar'' [Str ''x'', Sym ''Tint''])"
    by (rule local_value [where fd = 1]) (simp_all add: identity_tables identity_local identity_type_is local_decl_def identity_kinds del: One_nat_def)
  then have "ref_is printer0 identity_ast e 2 (app ''Evar'' [Str ''x'', Sym ''Tint''])" for e
    by (intro plain_value) (simp_all add: identity_tables identity_kinds)
  then have "expr_is printer0 identity_ast f big 0 (app ''Evar'' [Str ''x'', Sym ''Tint''])"
    by (intro expr visited) (simp_all add: identity_tables reference)
  then have "stmt_is printer0 identity_ast f big 1 [return_term]"
    by (intro return_stmt [where e = 0]) (simp_all add: identity_tables)
  then show ?thesis
    by (intro compound_stmt [where bs = "[1]"]) (simp_all add: identity_tables)
qed

abbreviation function_term :: cterm where
  "function_term \<equiv> app ''Build_Func'' [Sym ''Tint'', list_term [Par [Str ''x'', Sym '','', Sym ''Tint'']], Sym ''CC_C'', Sym ''Ar_Definite'',
     opt_term (Some (app ''Impl'' [app ''Sseq'' [Par (elements [[return_term]])]]))]"

lemma identity_decl: "decl_is printer0 identity_ast f big tds 1 (Some (app ''Dfunction'' [f_term, function_term]))"
proof -
  let ?b = "app ''Impl'' [app ''Sseq'' [Par (elements [[return_term]])]]"
  have "content_is printer0 identity_ast f big tds 1 FunctionDecl ''Dfunction''
      [app ''Build_Func'' [Sym ''Tint'', list_term [Par [Str ''x'', Sym '','', Sym ''Tint'']], Sym ''CC_C'',
        Sym (variadic_word (isVariadic (body_of identity_ast 1))), opt_term (Some ?b)]]"
  proof (rule function_decl)
    show "type_is printer0 identity_ast (getReturnType (body_of identity_ast 1)) (Sym ''Tint'')"
      using identity_type_is by (simp add: identity_tables)
    show "list_all2 (param_is printer0 identity_ast) (parameters (named_of identity_ast 1)) [Par [Str ''x'', Sym '','', Sym ''Tint'']]"
      by (simp add: param_is_def identity_tables identity_kinds identity_local [simplified] identity_type_is)
    show "conv_is identity_ast f 1 (Sym ''CC_C'')" by (simp add: conv_is_def identity_tables)
    show "function_body_is printer0 identity_ast f big 1 (Some ?b)"
      by (rule implemented [where s = 0]) (simp_all add: identity_tables identity_body)
  qed
  moreover have "visited_as identity_ast 1 = Some FunctionDecl" "getLambdaClass identity_ast (Some 1) = None"
    by (simp_all add: visited_as_def visitor_kinds_def ancestors_def eval_nat_numeral identity_tables getLambdaClass_def identity_kinds)
  ultimately show ?thesis
    using declared [of identity_ast 1 FunctionDecl printer0 f big tds "''Dfunction''" "[function_term]" f_term] identity_name
    by (simp add: identity_tables variadic_word_def)
qed

theorem printDecl_reads_back_witness:
  "\<exists>n s'. printDecl printer0 (mk_cprint n printer0 (config0 identity_ast)) 1 pstate_init = Inr (True, s')
     \<and> parse_terms (out (fmt s')) = Some [app ''Dfunction'' [f_term,
         app ''Build_Func'' [Sym ''Tint'', Par [Par [Str ''x'', Sym '','', Sym ''Tint''], Sym ''::'', Sym ''nil''], Sym ''CC_C'', Sym ''Ar_Definite'',
           app ''Some'' [app ''Impl'' [app ''Sseq'' [Par [return_term, Sym ''::'', Sym ''nil'']]]]]]]"
proof -
  let ?c = "config0 identity_ast"
  have "decl_is printer0 (getContext ?c) (loop_fuel ?c) (big_endian ?c) (typedefs ?c) 1 (Some (app ''Dfunction'' [f_term, function_term]))"
    using identity_decl by simp
  from printDecl_reads_back [OF this] show ?thesis
    using loop_state by (fastforce simp: getLambdaClass_def pstate_init_def list_term_def elements_def)
qed

end
