(* ===== verification/NotationWriter.thy ===== *)
theory NotationWriter
  imports Printers ModuleBuilder
begin

text \<open>
  Model of \<open>src/NotationWriter.cpp\<close>: the notations for the names of a module.  A notation is the path of the
  declaration in single quotes, inside a string literal of Coq; it stands for the printed name.
\<close>

section \<open>Paths\<close>

definition path_type :: "ASTContext \<Rightarrow> QualType \<Rightarrow> bool \<times> string" where
  "path_type ctx q =
     (let s = QualType_getAsString ctx q in
      if CHR ''/'' \<in> set s \<or> CHR 0x5C \<in> set s then (False, [])
      else (True, map (\<lambda>c. if c = CHR '' '' then CHR ''_'' else c) s))"

text \<open>The loop over the template arguments; it leaves the function at the first that cannot be written.\<close>

fun path_args :: "ASTContext \<Rightarrow> bool \<Rightarrow> targ list \<Rightarrow> bool \<times> string" where
  "path_args ctx first [] = (True, [])"
| "path_args ctx first (a # args) =
     (let sep = (if first then [] else '','');
          (ok, t) = (case a of
                       TAIntegral i q \<Rightarrow> (True, decimal_int i)
                     | TAType q \<Rightarrow> path_type ctx q
                     | _ \<Rightarrow> (False, [])) in
      if ok then (case path_args ctx False args of (ok', u) \<Rightarrow> (ok', sep @ t @ u)) else (False, sep @ t))"

definition path_step :: "ASTContext \<Rightarrow> ptr \<Rightarrow> bool \<Rightarrow> bool \<times> string" where
  "path_step ctx d final =
     (let name = getNameAsString (named_of ctx d) in
      if isaD ctx ClassTemplateSpecializationDecl d then
        (case path_args ctx True (case getTemplateArgs (naming_of ctx d) of Some args \<Rightarrow> args | None \<Rightarrow> []) of
           (ok, t) \<Rightarrow> (ok, name @ ''<'' @ t @ (if ok then if final then ''>::'' else ''>'' else [])))
      else if isaD ctx TagDecl d then
        (if getName ctx d \<noteq> [] then (True, name @ (if final then ''::'' else [])) else (False, []))
      else if isaD ctx NamespaceDecl d then
        (if \<not> isAnonymousNamespace (naming_of ctx d) then (True, name @ (if final then ''::'' else []))
         else (False, []))
      else (False, []))"

text \<open>The answer of \<open>print_path\<close> with what it has written, also when it gives up.\<close>

primrec print_path :: "nat \<Rightarrow> ASTContext \<Rightarrow> ptr option \<Rightarrow> bool \<Rightarrow> stop + bool \<times> string" where
  "print_path 0 ctx dc final = Inl OutOfFuel"
| "print_path (Suc n) ctx dc final =
     (case dc of
        None \<Rightarrow> Inr (True, if final then ''::'' else [])
      | Some d \<Rightarrow>
          if isTranslationUnit ctx d then Inr (True, if final then ''::'' else [])
          else case print_path n ctx (getContextParent (naming_of ctx d)) True of
            Inl x \<Rightarrow> Inl x
          | Inr (ok, t) \<Rightarrow>
              if \<not> ok then Inr (False, t)
              else (case path_step ctx d final of (ok', u) \<Rightarrow> Inr (ok', t @ u)))"

section \<open>Notations\<close>

fun starts_with :: "string \<Rightarrow> string \<Rightarrow> bool" where
  "starts_with s what = (take (length what) s = what)"

text \<open>\<open>if (not print_path(notation, \<dots>)) return;\<close> in front of what follows.\<close>

definition with_path :: "ClangPrinter \<Rightarrow> ptr option \<Rightarrow> bool \<Rightarrow> (string \<Rightarrow> printer) \<Rightarrow> printer" where
  "with_path cprint dc final f =
     with_answer (print_path (loop_fuel cprint) (getContext cprint) dc final)
       (\<lambda>(ok, t). if ok then f t else skip)"

definition open_notation :: "string list \<Rightarrow> printer" where
  "open_notation ts = seqP [puts ([''Notation '', [DQ], [CHR 0x27]] @ ts @ [[CHR 0x27], [DQ], '' :='']), nbsp]"

definition close_notation :: "string \<Rightarrow> printer" where
  "close_notation t = seqP [put t, nl]"

definition notation_FieldDecl :: "ClangPrinter \<Rightarrow> ptr \<Rightarrow> printer" where
  "notation_FieldDecl cprint fd =
     (let ctx = getContext cprint; name = getNameAsString (named_of ctx fd) in
      with_path cprint (Some (getParent (named_of ctx fd))) True
        (\<lambda>t. seqP [open_notation [t @ name, name], printField cprint fd,
                   close_notation '' (in custom cppglobal at level 0).'']))"

definition notation_RecordDecl :: "CoqPrinter \<Rightarrow> ClangPrinter \<Rightarrow> ptr \<Rightarrow> printer" where
  "notation_RecordDecl print cprint rd =
     (let ctx = getContext cprint in
      with_path cprint (Some rd) False
        (\<lambda>t. seqP
          ((if \<not> isAnonymousStructOrUnion (naming_of ctx rd) \<and> getNameAsString (named_of ctx rd) \<noteq> []
            then [open_notation [t], printName print cprint rd True,
                  close_notation ''%bs (in custom cppglobal at level 0).'']
            else [])
           @ map (\<lambda>fd. if getName ctx fd \<noteq> []
                       then seqP [open_notation [t, ''::'', getNameAsString (named_of ctx fd)],
                                  printField cprint fd,
                                  close_notation '' (in custom cppglobal at level 0).'']
                       else skip)
               (record_fields (naming_of ctx rd)))))"

text \<open>\<open>TypedefDecl\<close> and \<open>TypeAliasDecl\<close> are handled by the same lines, written twice.\<close>

definition notation_TypedefNameDecl :: "ClangPrinter \<Rightarrow> ptr \<Rightarrow> printer" where
  "notation_TypedefNameDecl cprint td =
     (let ctx = getContext cprint in
      if isTemplated (decl ctx td) then skip
      else with_path cprint (getDeclContext (named_of ctx td)) True
        (\<lambda>t. seqP [open_notation [t, getNameAsString (named_of ctx td)],
                   printQualType cprint (getUnderlyingType (named_of ctx td)),
                   close_notation '' (only parsing, in custom cppglobal at level 0).'']))"

definition write_notations :: "CoqPrinter \<Rightarrow> ClangPrinter \<Rightarrow> ptr \<Rightarrow> printer" where
  "write_notations print cprint def =
     (let ctx = getContext cprint in
      case getIdentifier (named_of ctx def) of
        None \<Rightarrow> skip
      | Some def_name \<Rightarrow>
          if def_name = ''__builtin_va_list'' \<or> starts_with def_name ''__SV'' \<or> starts_with def_name ''__clang_sv''
          then skip
          else if isaD ctx FieldDecl def then notation_FieldDecl cprint def
          else if isaD ctx RecordDecl def then notation_RecordDecl print cprint def
          else if isaD ctx FunctionDecl def then skip
          else if isaD ctx TypedefDecl def then notation_TypedefNameDecl cprint def
          else if isaD ctx TypeAliasDecl def then notation_TypedefNameDecl cprint def
          else if isaD ctx VarDecl def \<or> isaD ctx EnumDecl def \<or> isaD ctx EnumConstantDecl def then skip
          else diag VERBOSE (''unknown declaration type '' @ getDeclKindName ctx def @ [NL]))"

definition write_globals :: "Module \<Rightarrow> CoqPrinter \<Rightarrow> ClangPrinter \<Rightarrow> printer" where
  "write_globals m print cprint =
     seqP ([puts [''Module _'', [CHR 0x27], ''.''], indent, nl]
           @ map (write_notations print cprint) (definitions m)
           @ map (write_notations print cprint) (declarations m)
           @ [outdent, puts [''End _'', [CHR 0x27], ''.''], nl,
              puts [''Export _'', [CHR 0x27], ''.''], nl, nl])"

end
