(* ===== verification/PrePrint.thy ===== *)
theory PrePrint
  imports ClangPrinter
begin

text \<open>
  Model of \<open>src/PrePrint.cpp\<close>: the visitor that looks for the types and names of a declaration before
  it is printed, and defines each of them once, under the number that the cache gives it.  The
  state is the cache with the printing state; the two callbacks that write a definition are arguments.  \<open>Visit\<close>
  of types, expressions and statements call each other; they are filled level by level like the printers.
\<close>

record prestate =
  pcache :: Cache
  pprint :: pstate

type_synonym pre = "prestate action"
type_synonym definer = "Cache \<Rightarrow> char \<Rightarrow> nat \<Rightarrow> ptr \<Rightarrow> printer"

record PrePrint =
  pre_context :: ASTContext
  type_printer :: definer
  name_printer :: definer
  visit_type :: "ptr \<Rightarrow> pre"
  visit_expr :: "ptr \<Rightarrow> pre"
  visit_stmt :: "ptr \<Rightarrow> pre"

text \<open>A callback runs with the cache as it is.\<close>

definition run_printer :: "(Cache \<Rightarrow> printer) \<Rightarrow> pre" where
  "run_printer f s =
     (case f (pcache s) (pprint s) of Inl x \<Rightarrow> Inl x | Inr p \<Rightarrow> Inr (s\<lparr>pprint := p\<rparr>))"

definition visit_opt :: "(ptr \<Rightarrow> pre) \<Rightarrow> ptr option \<Rightarrow> pre" where
  "visit_opt f p = (case p of None \<Rightarrow> skip | Some x \<Rightarrow> f x)"

section \<open>Names\<close>

definition store_name :: "ptr \<Rightarrow> nat \<Rightarrow> pre" where
  "store_name d n s =
     (case nc_store d n (names_nc (pcache s)) of
        Inl x \<Rightarrow> Inl x
      | Inr c \<Rightarrow> Inr (s\<lparr>pcache := (pcache s)\<lparr>names_nc := c\<rparr>\<rparr>))"

definition fresh_name :: "(nat \<Rightarrow> pre) \<Rightarrow> pre" where
  "fresh_name f s =
     (let (n, c) = nc_fresh (names_nc (pcache s)) in f n (s\<lparr>pcache := (pcache s)\<lparr>names_nc := c\<rparr>\<rparr>))"

definition VisitName :: "PrePrint \<Rightarrow> ptr \<Rightarrow> pre" where
  "VisitName pp d s =
     (if nc_lookup (names_nc (pcache s)) d \<noteq> 0 then Inr s
      else fresh_name (\<lambda>n. seqP [run_printer (\<lambda>c. name_printer pp c NAME_PREFIX n d), store_name d n]) s)"

section \<open>Types\<close>

definition store_type :: "ptr \<Rightarrow> nat \<Rightarrow> pre" where
  "store_type t n s =
     (case nc_store t n (types_nc (pcache s)) of
        Inl x \<Rightarrow> Inl x
      | Inr c \<Rightarrow> Inr (s\<lparr>pcache := (pcache s)\<lparr>types_nc := c\<rparr>\<rparr>))"

definition fresh_type :: "(nat \<Rightarrow> pre) \<Rightarrow> pre" where
  "fresh_type f s =
     (let (n, c) = nc_fresh (types_nc (pcache s)) in f n (s\<lparr>pcache := (pcache s)\<lparr>types_nc := c\<rparr>\<rparr>))"

definition visit_qual :: "PrePrint \<Rightarrow> QualType \<Rightarrow> pre" where
  "visit_qual pp q = visit_opt (visit_type pp) (getTypePtrOrNull q)"

text \<open>The handlers answer whether the type is to be defined; a class without one answers no.\<close>

definition VisitTagType :: "PrePrint \<Rightarrow> ptr \<Rightarrow> (prestate, bool) query" where
  "VisitTagType pp d = returning (VisitName pp d) True"

definition VisitReferenceType :: "PrePrint \<Rightarrow> QualType \<Rightarrow> (prestate, bool) query" where
  "VisitReferenceType pp pointee = returning (visit_qual pp pointee) True"

definition pre_VisitPointerType :: "PrePrint \<Rightarrow> QualType \<Rightarrow> (prestate, bool) query" where
  "pre_VisitPointerType pp pointee = returning (visit_qual pp pointee) True"

definition VisitArrayType :: "PrePrint \<Rightarrow> QualType \<Rightarrow> (prestate, bool) query" where
  "VisitArrayType pp elem = returning (visit_qual pp elem) True"

definition pre_VisitVariableArrayType :: "PrePrint \<Rightarrow> ptr \<Rightarrow> (prestate, bool) query" where
  "pre_VisitVariableArrayType pp sz = returning (visit_expr pp sz) False"

definition pre_VisitDecayedType :: "PrePrint \<Rightarrow> QualType \<Rightarrow> QualType \<Rightarrow> (prestate, bool) query" where
  "pre_VisitDecayedType pp original adjusted =
     returning (seqP [visit_qual pp original, visit_qual pp adjusted]) False"

definition VisitFunctionType :: "PrePrint \<Rightarrow> QualType \<Rightarrow> (prestate, bool) query" where
  "VisitFunctionType pp ret = returning (visit_qual pp ret) True"

definition pre_VisitFunctionProtoType :: "PrePrint \<Rightarrow> QualType \<Rightarrow> QualType list \<Rightarrow> (prestate, bool) query" where
  "pre_VisitFunctionProtoType pp ret params s =
     (case seqP (map (visit_qual pp) params) s of
        Inl x \<Rightarrow> Inl x
      | Inr s' \<Rightarrow> VisitFunctionType pp ret s')"

definition pre_VisitSubstTemplateTypeParmType :: "PrePrint \<Rightarrow> QualType \<Rightarrow> (prestate, bool) query" where
  "pre_VisitSubstTemplateTypeParmType pp replacement = returning (visit_qual pp replacement) False"

definition pre_VisitElaboratedType :: "PrePrint \<Rightarrow> QualType \<Rightarrow> (prestate, bool) query" where
  "pre_VisitElaboratedType pp named = returning (visit_qual pp named) False"

definition pre_VisitType :: "(prestate, bool) query" where
  "pre_VisitType = returning skip False"

fun pre_type_dispatch :: "PrePrint \<Rightarrow> type_node \<Rightarrow> (prestate, bool) query" where
  "pre_type_dispatch pp (SubstTemplateTypeParmType q) = pre_VisitSubstTemplateTypeParmType pp q"
| "pre_type_dispatch pp (ElaboratedType q) = pre_VisitElaboratedType pp q"
| "pre_type_dispatch pp (EnumType d) = VisitTagType pp d"
| "pre_type_dispatch pp (RecordType d) = VisitTagType pp d"
| "pre_type_dispatch pp (LValueReferenceType q) = VisitReferenceType pp q"
| "pre_type_dispatch pp (RValueReferenceType q) = VisitReferenceType pp q"
| "pre_type_dispatch pp (PointerType q) = pre_VisitPointerType pp q"
| "pre_type_dispatch pp (ConstantArrayType q n) = VisitArrayType pp q"
| "pre_type_dispatch pp (IncompleteArrayType q) = VisitArrayType pp q"
| "pre_type_dispatch pp (DependentSizedArrayType q e) = VisitArrayType pp q"
| "pre_type_dispatch pp (VariableArrayType q e) = pre_VisitVariableArrayType pp e"
| "pre_type_dispatch pp (DecayedType q r) = pre_VisitDecayedType pp q r"
| "pre_type_dispatch pp (FunctionProtoType cc v ret params) = pre_VisitFunctionProtoType pp ret params"
| "pre_type_dispatch pp (FunctionNoProtoType cc ret) = VisitFunctionType pp ret"
| "pre_type_dispatch pp t = pre_VisitType"

definition define_type :: "PrePrint \<Rightarrow> ptr \<Rightarrow> pre" where
  "define_type pp t =
     fresh_type (\<lambda>n. seqP [run_printer (\<lambda>c. type_printer pp c TYPE_PREFIX n t), store_type t n])"

definition pre_Visit_type :: "PrePrint \<Rightarrow> ptr \<Rightarrow> pre" where
  "pre_Visit_type pp t s =
     (if nc_lookup (types_nc (pcache s)) t \<noteq> 0 then Inr s
      else bindQ (pre_type_dispatch pp (type_node (type_of (pre_context pp) t)))
             (\<lambda>defined. if defined then define_type pp t else skip) s)"

section \<open>Expressions\<close>

text \<open>Variables of functions are not named, unless they are static.\<close>

definition pre_VisitDeclRefExpr :: "PrePrint \<Rightarrow> ptr option \<Rightarrow> pre" where
  "pre_VisitDeclRefExpr pp r =
     (let ctx = pre_context pp in
      case r of
        None \<Rightarrow> skip
      | Some d \<Rightarrow>
          if isaD ctx VarDecl d then
            (if (case getDeclContext (named_of ctx d) of
                   Some c \<Rightarrow> \<not> isFunctionOrMethod (named_of ctx c) | None \<Rightarrow> True)
                \<or> isStaticLocal (decl ctx d) \<or> isStaticDataMember (naming_of ctx d)
             then VisitName pp d else skip)
          else VisitName pp d)"

definition pre_VisitBinaryOperator :: "PrePrint \<Rightarrow> ptr \<Rightarrow> ptr \<Rightarrow> pre" where
  "pre_VisitBinaryOperator pp lhs rhs = seqP [visit_expr pp lhs, visit_expr pp rhs]"

definition pre_VisitUnaryOperator :: "PrePrint \<Rightarrow> ptr \<Rightarrow> pre" where
  "pre_VisitUnaryOperator pp sub = visit_expr pp sub"

definition pre_VisitCallExpr :: "PrePrint \<Rightarrow> ptr \<Rightarrow> ptr list \<Rightarrow> pre" where
  "pre_VisitCallExpr pp callee args = seqP (visit_expr pp callee # map (visit_expr pp) args)"

text \<open>\<open>getMethodDecl\<close> is null when the callee, without parentheses, is no \<open>MemberExpr\<close>.\<close>

definition getMethodDecl :: "ASTContext \<Rightarrow> ptr \<Rightarrow> ptr \<Rightarrow> ptr option" where
  "getMethodDecl ctx callee method =
     (case expr_node (expr_of ctx callee) of MemberExpr base member arrow virt \<Rightarrow> Some method | _ \<Rightarrow> None)"

definition pre_VisitCXXMemberCallExpr :: "PrePrint \<Rightarrow> ptr option \<Rightarrow> ptr \<Rightarrow> ptr list \<Rightarrow> pre" where
  "pre_VisitCXXMemberCallExpr pp method callee args =
     seqP [visit_opt (VisitName pp) method, pre_VisitCallExpr pp callee args]"

definition pre_VisitCXXConstructExpr :: "PrePrint \<Rightarrow> ptr \<Rightarrow> ptr list \<Rightarrow> pre" where
  "pre_VisitCXXConstructExpr pp constructor args =
     seqP (VisitName pp constructor # map (visit_expr pp) args)"

definition VisitCastExpr :: "PrePrint \<Rightarrow> ptr \<Rightarrow> ptr \<Rightarrow> pre" where
  "VisitCastExpr pp e sub =
     seqP [visit_expr pp sub, visit_qual pp (expr_type (expr_of (pre_context pp) e))]"

definition pre_VisitStmtExpr :: pre where
  "pre_VisitStmtExpr = skip"

fun pre_expr_dispatch :: "PrePrint \<Rightarrow> ptr \<Rightarrow> expr_node \<Rightarrow> pre" where
  "pre_expr_dispatch pp e (DeclRefExpr d r) = pre_VisitDeclRefExpr pp d"
| "pre_expr_dispatch pp e (BinaryOperator op l r) = pre_VisitBinaryOperator pp l r"
| "pre_expr_dispatch pp e (UnaryOperator op x) = pre_VisitUnaryOperator pp x"
| "pre_expr_dispatch pp e (CallExpr f args) = pre_VisitCallExpr pp f args"
| "pre_expr_dispatch pp e (CXXOperatorCallExpr d k args) =
     pre_VisitCallExpr pp (getCallee (pre_context pp) e) args"
| "pre_expr_dispatch pp e (CXXMemberCallExpr f m obj args) =
     pre_VisitCXXMemberCallExpr pp (getMethodDecl (pre_context pp) f m) (getCallee (pre_context pp) e) args"
| "pre_expr_dispatch pp e (CXXConstructExpr c args) = pre_VisitCXXConstructExpr pp c args"
| "pre_expr_dispatch pp e (ExplicitCastExpr k ck x q path) = VisitCastExpr pp e x"
| "pre_expr_dispatch pp e (ImplicitCastExpr ck x path) = VisitCastExpr pp e x"
| "pre_expr_dispatch pp e (StmtExpr st) = pre_VisitStmtExpr"
| "pre_expr_dispatch pp e x = skip"

definition pre_Visit_expr :: "PrePrint \<Rightarrow> ptr \<Rightarrow> pre" where
  "pre_Visit_expr pp e =
     (let E = expr_of (pre_context pp) e in
      seqP [visit_qual pp (expr_type E), pre_expr_dispatch pp e (expr_node E)])"

section \<open>Statements\<close>

definition pre_VisitCompoundStmt :: "PrePrint \<Rightarrow> ptr list \<Rightarrow> pre" where
  "pre_VisitCompoundStmt pp body = seqP (map (visit_stmt pp) body)"

definition pre_VisitReturnStmt :: "PrePrint \<Rightarrow> ptr option \<Rightarrow> pre" where
  "pre_VisitReturnStmt pp e = visit_opt (visit_expr pp) e"

definition VisitFromDecl :: "PrePrint \<Rightarrow> ptr option \<Rightarrow> pre" where
  "VisitFromDecl pp d =
     (case d of
        None \<Rightarrow> skip
      | Some v \<Rightarrow> visit_opt (visit_expr pp) (getInit (named_of (pre_context pp) v)))"

definition pre_VisitWhileStmt :: "PrePrint \<Rightarrow> ptr option \<Rightarrow> ptr \<Rightarrow> ptr \<Rightarrow> pre" where
  "pre_VisitWhileStmt pp var cond body =
     seqP [VisitFromDecl pp var, visit_expr pp cond, visit_stmt pp body]"

definition pre_VisitDoStmt :: "PrePrint \<Rightarrow> ptr \<Rightarrow> ptr \<Rightarrow> pre" where
  "pre_VisitDoStmt pp body cond = seqP [visit_stmt pp body, visit_expr pp cond]"

definition pre_VisitForStmt :: "PrePrint \<Rightarrow> ptr option \<Rightarrow> ptr option \<Rightarrow> ptr option \<Rightarrow> ptr \<Rightarrow> pre" where
  "pre_VisitForStmt pp var cond inc body =
     seqP [VisitFromDecl pp var, visit_opt (visit_expr pp) cond, visit_opt (visit_expr pp) inc,
           visit_stmt pp body]"

definition pre_VisitIfStmt :: "PrePrint \<Rightarrow> ptr option \<Rightarrow> ptr \<Rightarrow> ptr \<Rightarrow> ptr option \<Rightarrow> pre" where
  "pre_VisitIfStmt pp var cond thn els =
     seqP [VisitFromDecl pp var, visit_expr pp cond, visit_stmt pp thn, visit_opt (visit_stmt pp) els]"

fun pre_stmt_dispatch :: "PrePrint \<Rightarrow> ptr \<Rightarrow> stmt_node \<Rightarrow> pre" where
  "pre_stmt_dispatch pp st ExprStmt = visit_expr pp st"
| "pre_stmt_dispatch pp st (CompoundStmt body) = pre_VisitCompoundStmt pp body"
| "pre_stmt_dispatch pp st (ReturnStmt e) = pre_VisitReturnStmt pp e"
| "pre_stmt_dispatch pp st (WhileStmt v c b) = pre_VisitWhileStmt pp v c b"
| "pre_stmt_dispatch pp st (DoStmt b c) = pre_VisitDoStmt pp b c"
| "pre_stmt_dispatch pp st (ForStmt i c inc b) =
     pre_VisitForStmt pp (for_condition_variable (pre_context pp) st) c inc b"
| "pre_stmt_dispatch pp st (IfStmt ce v c t e) = pre_VisitIfStmt pp v c t e"
| "pre_stmt_dispatch pp st x = skip"

definition pre_Visit_stmt :: "PrePrint \<Rightarrow> ptr \<Rightarrow> pre" where
  "pre_Visit_stmt pp st = pre_stmt_dispatch pp st (stmt_of (pre_context pp) st)"

section \<open>Declarations\<close>

definition pre_VisitVarDecl :: "PrePrint \<Rightarrow> ptr \<Rightarrow> pre" where
  "pre_VisitVarDecl pp d = visit_qual pp (getType (named_of (pre_context pp) d))"

definition pre_VisitFunctionDecl :: "PrePrint \<Rightarrow> ptr \<Rightarrow> pre" where
  "pre_VisitFunctionDecl pp d =
     (let ctx = pre_context pp in
      seqP (map (\<lambda>p. visit_qual pp (getType (named_of ctx p))) (parameters (named_of ctx d))
            @ [visit_qual pp (getReturnType (body_of ctx d)),
               VisitName pp d,
               visit_opt (visit_stmt pp) (getBody (body_of ctx d))]))"

definition pre_VisitCXXConstructorDecl :: "PrePrint \<Rightarrow> ptr \<Rightarrow> pre" where
  "pre_VisitCXXConstructorDecl pp d =
     seqP (map (\<lambda>i. case i of
                 Some init \<Rightarrow> visit_opt (visit_expr pp) (init_expr init)
               | None \<Rightarrow> stopA (AssertionFailed ''null initializer''))
             (inits (body_of (pre_context pp) d))
           @ [pre_VisitFunctionDecl pp d])"

definition VisitRecordDecl :: "PrePrint \<Rightarrow> ptr \<Rightarrow> pre" where
  "VisitRecordDecl pp d =
     (let ctx = pre_context pp in
      seqP (VisitName pp d
            # map (\<lambda>f. visit_qual pp (getType (named_of ctx f))) (record_fields (naming_of ctx d))))"

definition pre_Visit_decl :: "PrePrint \<Rightarrow> ptr \<Rightarrow> pre" where
  "pre_Visit_decl pp d =
     dispatch [(VarDecl, pre_VisitVarDecl pp d), (FunctionDecl, pre_VisitFunctionDecl pp d),
               (CXXConstructorDecl, pre_VisitCXXConstructorDecl pp d), (RecordDecl, VisitRecordDecl pp d)]
       skip (getKind (decl (pre_context pp) d))"

section \<open>The visitor\<close>

primrec mk_PrePrint :: "nat \<Rightarrow> ASTContext \<Rightarrow> definer \<Rightarrow> definer \<Rightarrow> PrePrint" where
  "mk_PrePrint 0 ctx type_fn name_fn =
     \<lparr>pre_context = ctx, type_printer = type_fn, name_printer = name_fn,
       visit_type = (\<lambda>t. stopA OutOfFuel), visit_expr = (\<lambda>e. stopA OutOfFuel),
       visit_stmt = (\<lambda>st. stopA OutOfFuel)\<rparr>"
| "mk_PrePrint (Suc n) ctx type_fn name_fn =
     (let pp = mk_PrePrint n ctx type_fn name_fn in
      \<lparr>pre_context = ctx, type_printer = type_fn, name_printer = name_fn,
        visit_type = pre_Visit_type pp, visit_expr = pre_Visit_expr pp, visit_stmt = pre_Visit_stmt pp\<rparr>)"

declare mk_PrePrint.simps [simp del]

definition prePrintDecl :: "nat \<Rightarrow> ASTContext \<Rightarrow> definer \<Rightarrow> definer \<Rightarrow> ptr \<Rightarrow> pre" where
  "prePrintDecl fuel ctx type_fn name_fn d = pre_Visit_decl (mk_PrePrint fuel ctx type_fn name_fn) d"

end
