(* ===== verification/Elaborate.thy ===== *)
theory Elaborate
  imports ModuleBuilder
begin

text \<open>
  Model of \<open>src/Elaborate.cpp\<close>, \<open>src/FromClang.cpp\<close> and of the handlers of \<open>ToCoqConsumer\<close>: while clang
  parses, the implicit members of classes are declared and defaulted members are defined.
  The work is done by clang's \<open>Sema\<close>, which changes the AST; it is the parameter \<open>sema\<close>,
  a function from a request to the change, and the state holds the current AST and the
  requests made so far.  Trace output is not modelled.
\<close>

datatype request =
  DeclareImplicitDefaultConstructor | DeclareImplicitCopyConstructor
| DeclareImplicitCopyAssignment | DeclareImplicitMoveConstructor
| DeclareImplicitMoveAssignment | DeclareImplicitDestructor
| ForceDeclarationOfImplicitMembers
| DefineImplicitMoveAssignment | DefineImplicitCopyAssignment
| DefineImplicitDefaultConstructor | DefineImplicitCopyConstructor
| DefineImplicitMoveConstructor | DefineImplicitDestructor

type_synonym Sema = "request \<Rightarrow> ptr \<Rightarrow> ASTContext \<Rightarrow> ASTContext"

record elab_state =
  ast :: ASTContext
  requests :: "(request \<times> ptr) list"
  seen :: "int set"
  warnings :: "(Level \<times> string \<times> ptr) list"

record Elaborate =
  ci_sema :: Sema
  CPlusPlus11 :: bool
  el_templates :: bool
  recursive :: bool

type_synonym elaborator = "ptr \<Rightarrow> Flags \<Rightarrow> elab_state action"

text \<open>An action that depends on the AST as it is when the action runs.\<close>

definition with_ast :: "(ASTContext \<Rightarrow> elab_state action) \<Rightarrow> elab_state action" where
  "with_ast f s = f (ast s) s"

definition ask :: "Elaborate \<Rightarrow> request \<Rightarrow> ptr \<Rightarrow> elab_state action" where
  "ask el r d s = Inr (s\<lparr>ast := ci_sema el r d (ast s), requests := requests s @ [(r, d)]\<rparr>)"

definition el_warning :: "ptr \<Rightarrow> string \<Rightarrow> elab_state action" where
  "el_warning d msg s = Inr (s\<lparr>warnings := warnings s @ [(UNSUPPORTED, msg, d)]\<rparr>)"

definition if_so :: "bool \<Rightarrow> elab_state action \<Rightarrow> elab_state action" where
  "if_so b p = (if b then p else skip)"

definition GenerateUndeprecatedImplicitMembers :: "Elaborate \<Rightarrow> ptr \<Rightarrow> elab_state action" where
  "GenerateUndeprecatedImplicitMembers el d =
     (let C = (\<lambda>ctx. class_of ctx d) in
      seqP
       [with_ast (\<lambda>ctx. if_so (needsImplicitDefaultConstructor (C ctx))
          (ask el DeclareImplicitDefaultConstructor d)),
        with_ast (\<lambda>ctx. if_so (needsImplicitCopyConstructor (C ctx)
            \<and> \<not> hasUserDeclaredCopyAssignment (C ctx))
          (ask el DeclareImplicitCopyConstructor d)),
        with_ast (\<lambda>ctx. if_so (needsImplicitCopyAssignment (C ctx)
            \<and> \<not> hasUserDeclaredCopyConstructor (C ctx))
          (ask el DeclareImplicitCopyAssignment d)),
        if_so (CPlusPlus11 el) (seqP
          [with_ast (\<lambda>ctx. if_so (needsImplicitMoveConstructor (C ctx))
             (ask el DeclareImplicitMoveConstructor d)),
           with_ast (\<lambda>ctx. if_so (needsImplicitMoveAssignment (C ctx))
             (ask el DeclareImplicitMoveAssignment d))]),
        with_ast (\<lambda>ctx. if_so (needsImplicitDestructor (C ctx))
          (ask el DeclareImplicitDestructor d))])"

definition GenerateImplicitMembers :: "Elaborate \<Rightarrow> ptr \<Rightarrow> bool \<Rightarrow> elab_state action" where
  "GenerateImplicitMembers el d deprecated =
     (if deprecated then ask el ForceDeclarationOfImplicitMembers d
      else GenerateUndeprecatedImplicitMembers el d)"

definition elab_IGNORE :: elaborator where
  "elab_IGNORE d flags = skip"

definition elab_VisitDecl :: elaborator where
  "elab_VisitDecl d flags = el_warning d ''cannot elaborate declaration''"

definition elab_each :: "elaborator \<Rightarrow> (ASTContext \<Rightarrow> ptr list) \<Rightarrow> Flags \<Rightarrow> elab_state action" where
  "elab_each visit ds flags = with_ast (\<lambda>ctx. seqP (map (\<lambda>i. visit i flags) (ds ctx)))"

definition elab_VisitVarTemplateDecl :: "elaborator \<Rightarrow> elaborator" where
  "elab_VisitVarTemplateDecl visit d flags =
     elab_each visit (\<lambda>ctx. specializations (decl ctx d)) (set_specialization flags)"

definition elab_VisitTranslationUnitDecl :: "elaborator \<Rightarrow> elaborator" where
  "elab_VisitTranslationUnitDecl visit d flags =
     seqP [assertA ''flags.none()'' (flags_none flags),
           elab_each visit (\<lambda>ctx. decls (decl ctx d)) flags]"

definition elab_VisitCXXRecordDecl :: "Elaborate \<Rightarrow> elaborator \<Rightarrow> elaborator" where
  "elab_VisitCXXRecordDecl el visit d flags =
     with_ast (\<lambda>ctx.
       if isImplicit (decl ctx d) then skip
       else if isaD ctx ClassTemplatePartialSpecializationDecl d then skip
       else seqP
         [if_so (isCompleteDefinition (class_of ctx d)) (GenerateImplicitMembers el d False),
          if_so (recursive el) (elab_each visit (\<lambda>ctx. decls (decl ctx d)) flags)])"

definition elab_VisitCXXMethodDecl :: "Elaborate \<Rightarrow> elaborator" where
  "elab_VisitCXXMethodDecl el d flags =
     with_ast (\<lambda>ctx.
       let D = decl ctx d; M = method_of ctx d in
       if isDeleted D \<or> (\<not> el_templates el \<and> isDependentContext D) then skip
       else if \<not> hasBody M \<and> isDefaulted M then
         (if isMoveAssignmentOperator M then ask el DefineImplicitMoveAssignment d
          else if isCopyAssignmentOperator M then ask el DefineImplicitCopyAssignment d
          else el_warning d ''cannot generate body for defaulted method'')
       else skip)"

definition elab_VisitNamespaceDecl :: "elaborator \<Rightarrow> elaborator" where
  "elab_VisitNamespaceDecl visit d flags =
     seqP [assertA ''flags.none()'' (flags_none flags),
           elab_each visit (\<lambda>ctx. decls (decl ctx d)) flags]"

definition elab_VisitLinkageSpecDecl :: "elaborator \<Rightarrow> elaborator" where
  "elab_VisitLinkageSpecDecl visit d flags =
     seqP [assertA ''flags.none()'' (flags_none flags),
           elab_each visit (\<lambda>ctx. decls (decl ctx d)) flags]"

definition elab_VisitCXXConstructorDecl :: "Elaborate \<Rightarrow> elaborator" where
  "elab_VisitCXXConstructorDecl el d flags =
     with_ast (\<lambda>ctx.
       let M = method_of ctx d in
       if isDeleted (decl ctx d) then skip
       else if \<not> hasBody M \<and> isDefaulted M then
         (if isDefaultConstructor M then ask el DefineImplicitDefaultConstructor d
          else if isCopyConstructor M then ask el DefineImplicitCopyConstructor d
          else if isMoveConstructor M then ask el DefineImplicitMoveConstructor d
          else el_warning d ''unknown defaulted constructor'')
       else skip)"

definition elab_VisitCXXDestructorDecl :: "Elaborate \<Rightarrow> elaborator" where
  "elab_VisitCXXDestructorDecl el d flags =
     with_ast (\<lambda>ctx.
       let M = method_of ctx d in
       if isDeleted (decl ctx d) then skip
       else if \<not> hasBody M \<and> isDefaulted M then ask el DefineImplicitDestructor d
       else skip)"

definition elab_VisitClassTemplateDecl :: "elaborator \<Rightarrow> elaborator" where
  "elab_VisitClassTemplateDecl visit d flags =
     elab_each visit (\<lambda>ctx. specializations (decl ctx d)) (set_specialization flags)"

definition elab_VisitFriendDecl :: "elaborator \<Rightarrow> elaborator" where
  "elab_VisitFriendDecl visit d flags =
     with_ast (\<lambda>ctx. case getFriendDecl (decl ctx d) of Some f \<Rightarrow> visit f flags | None \<Rightarrow> skip)"

definition Elaborate_methods :: "Elaborate \<Rightarrow> elaborator \<Rightarrow> (DeclKind \<times> elaborator) list" where
  "Elaborate_methods el visit =
    [(Decl, elab_VisitDecl), (AccessSpecDecl, elab_IGNORE), (EmptyDecl, elab_IGNORE),
     (EnumConstantDecl, elab_IGNORE), (EnumDecl, elab_IGNORE), (FieldDecl, elab_IGNORE),
     (FileScopeAsmDecl, elab_IGNORE), (IndirectFieldDecl, elab_IGNORE),
     (StaticAssertDecl, elab_IGNORE), (TemplateTypeParmDecl, elab_IGNORE), (UsingDecl, elab_IGNORE),
     (UsingDirectiveDecl, elab_IGNORE), (UsingShadowDecl, elab_IGNORE),
     (NamespaceAliasDecl, elab_IGNORE), (TypeAliasTemplateDecl, elab_IGNORE),
     (TypedefNameDecl, elab_IGNORE), (FunctionTemplateDecl, elab_IGNORE),
     (FunctionDecl, elab_IGNORE), (VarDecl, elab_IGNORE),
     (VarTemplateDecl, elab_VisitVarTemplateDecl visit),
     (TranslationUnitDecl, elab_VisitTranslationUnitDecl visit),
     (CXXRecordDecl, elab_VisitCXXRecordDecl el visit),
     (CXXMethodDecl, elab_VisitCXXMethodDecl el),
     (NamespaceDecl, elab_VisitNamespaceDecl visit),
     (LinkageSpecDecl, elab_VisitLinkageSpecDecl visit),
     (CXXConstructorDecl, elab_VisitCXXConstructorDecl el),
     (CXXDestructorDecl, elab_VisitCXXDestructorDecl el),
     (ClassTemplateDecl, elab_VisitClassTemplateDecl visit),
     (FriendDecl, elab_VisitFriendDecl visit)]"

definition elab_dispatch :: "Elaborate \<Rightarrow> elaborator \<Rightarrow> elaborator" where
  "elab_dispatch el visit d flags =
     with_ast (\<lambda>ctx. dispatch (Elaborate_methods el visit) elab_IGNORE (getKind (decl ctx d)) d flags)"

definition mark_seen :: "ptr \<Rightarrow> elab_state action" where
  "mark_seen d s = Inr (s\<lparr>seen := insert (getID (decl (ast s) d)) (seen s)\<rparr>)"

fun elab_Visit :: "nat \<Rightarrow> Elaborate \<Rightarrow> elaborator" where
  "elab_Visit 0 el d flags s =
     (if getID (decl (ast s) d) \<in> seen s then Inr s else Inl OutOfFuel)"
| "elab_Visit (Suc n) el d flags s =
     (if getID (decl (ast s) d) \<in> seen s then Inr s
      else seqA (mark_seen d) (elab_dispatch el (elab_Visit n el) d flags) s)"

section \<open>The handlers of the consumer\<close>

text \<open>The members of \<open>ToCoqConsumer\<close>; \<open>sema_\<close> and \<open>cxx11\<close> stand for the compiler instance.\<close>

record ToCoqConsumer =
  compiler_sema :: Sema
  compiler_cxx11 :: bool
  output_file :: "string option"
  notations_file :: "string option"
  templates_file :: "string option"
  name_test_file :: "string option"
  consumer_structured_keys :: bool
  consumer_comment :: bool
  sharing :: bool
  elaborate :: bool
  check_types :: bool
  consumer_typedefs :: bool

text \<open>\<open>elab\<close> makes a new \<open>Elaborate\<close> object, so nothing is seen yet.\<close>

definition elab :: "nat \<Rightarrow> ToCoqConsumer \<Rightarrow> ptr \<Rightarrow> bool \<Rightarrow> elab_state action" where
  "elab fuel tc d rec =
     with_ast (\<lambda>ctx.
       let f = \<lparr>in_template = (isDeclContext (decl ctx d) \<and> isDependentContext (decl ctx d)),
                in_specialization = False\<rparr>;
           el = \<lparr>ci_sema = compiler_sema tc, CPlusPlus11 = compiler_cxx11 tc,
                 el_templates = (templates_file tc \<noteq> None), recursive = rec\<rparr> in
       if \<not> in_template f
       then (\<lambda>s. elab_Visit fuel el d f (s\<lparr>seen := {}\<rparr>)) else skip)"

definition HandleTopLevelDecl :: "nat \<Rightarrow> ToCoqConsumer \<Rightarrow> ptr list \<Rightarrow> elab_state action" where
  "HandleTopLevelDecl fuel tc ds =
     (if elaborate tc then seqP (map (\<lambda>i. elab fuel tc i True) ds) else skip)"

definition HandleCXXImplicitFunctionInstantiation ::
  "nat \<Rightarrow> ToCoqConsumer \<Rightarrow> ptr \<Rightarrow> elab_state action" where
  "HandleCXXImplicitFunctionInstantiation fuel tc d =
     (if elaborate tc then elab fuel tc d False else skip)"

definition HandleInlineFunctionDefinition :: "nat \<Rightarrow> ToCoqConsumer \<Rightarrow> ptr \<Rightarrow> elab_state action" where
  "HandleInlineFunctionDefinition fuel tc d =
     (if elaborate tc then elab fuel tc d False else skip)"

definition HandleTagDeclDefinition :: "nat \<Rightarrow> ToCoqConsumer \<Rightarrow> ptr \<Rightarrow> elab_state action" where
  "HandleTagDeclDefinition fuel tc d =
     (if elaborate tc then elab fuel tc d False else skip)"

text \<open>The listener of new specializations does not look at \<open>elaborate_\<close>.\<close>

definition AddedCXXTemplateSpecialization :: "nat \<Rightarrow> ToCoqConsumer \<Rightarrow> ptr \<Rightarrow> elab_state action" where
  "AddedCXXTemplateSpecialization fuel tc d = elab fuel tc d True"

section \<open>The requests\<close>

text \<open>When a request may be made: never for a deprecated member, and only for what is missing.\<close>

fun allowed :: "ASTContext \<Rightarrow> request \<Rightarrow> ptr \<Rightarrow> bool" where
  "allowed ctx DeclareImplicitDefaultConstructor d = needsImplicitDefaultConstructor (class_of ctx d)"
| "allowed ctx DeclareImplicitCopyConstructor d =
     (needsImplicitCopyConstructor (class_of ctx d) \<and> \<not> hasUserDeclaredCopyAssignment (class_of ctx d))"
| "allowed ctx DeclareImplicitCopyAssignment d =
     (needsImplicitCopyAssignment (class_of ctx d) \<and> \<not> hasUserDeclaredCopyConstructor (class_of ctx d))"
| "allowed ctx DeclareImplicitMoveConstructor d = needsImplicitMoveConstructor (class_of ctx d)"
| "allowed ctx DeclareImplicitMoveAssignment d = needsImplicitMoveAssignment (class_of ctx d)"
| "allowed ctx DeclareImplicitDestructor d = needsImplicitDestructor (class_of ctx d)"
| "allowed ctx ForceDeclarationOfImplicitMembers d = False"
| "allowed ctx definition_request d =
     (\<not> isDeleted (decl ctx d) \<and> \<not> hasBody (method_of ctx d) \<and> isDefaulted (method_of ctx d))"

inductive estep :: "Sema \<Rightarrow> elab_state \<Rightarrow> elab_state \<Rightarrow> bool" for sema where
  request: "allowed (ast s) r d \<Longrightarrow>
    estep sema s (s\<lparr>ast := sema r d (ast s), requests := requests s @ [(r, d)]\<rparr>)"
| see: "estep sema s (s\<lparr>seen := x\<rparr>)"
| warn: "estep sema s (s\<lparr>warnings := w\<rparr>)"

inductive_cases estepE: "estep sema s s'"

lemma triple_weaken: "preserves I m \<Longrightarrow> triple (\<lambda>s. I s \<and> A s) m I"
  unfolding triple_def by blast

lemma triple_with_ast:
  "(\<And>ctx. triple (\<lambda>s. I s \<and> ast s = ctx) (f ctx) Q) \<Longrightarrow> triple I (with_ast f) Q"
  by (auto simp: triple_def with_ast_def)

locale elab_visitor =
  fixes el :: Elaborate and visit :: elaborator and s0 :: elab_state
  assumes visit: "preserves ((estep (ci_sema el))\<^sup>*\<^sup>* s0) (visit d fl)"
begin

abbreviation I :: "elab_state \<Rightarrow> bool" where
  "I \<equiv> (estep (ci_sema el))\<^sup>*\<^sup>* s0"

lemma runs_ask: "allowed ctx r d \<Longrightarrow> triple (\<lambda>s. I s \<and> ast s = ctx) (ask el r d) I"
  by (auto simp: triple_def ask_def intro: rtranclp.rtrancl_into_rtrancl estep.request)

lemma runs_warning: "preserves I (el_warning d msg)"
  by (auto simp: triple_def el_warning_def intro: rtranclp.rtrancl_into_rtrancl estep.warn)

lemma runs_skip: "triple (\<lambda>s. I s \<and> A s) skip I"
  by (simp add: triple_def skip_def)

lemma runs_if_so: "(b \<Longrightarrow> triple P m I) \<Longrightarrow> triple P skip I \<Longrightarrow> triple P (if_so b m) I"
  by (simp add: if_so_def)

lemma runs_each: "preserves I (elab_each visit ds fl)"
  unfolding elab_each_def by (rule triple_with_ast, rule triple_weaken, rule preserves_map, rule visit)

lemmas runs_intros =
  triple_skip triple_Cons [where R = I] triple_if triple_Let triple_case_option
  runs_skip runs_if_so triple_weaken [OF runs_warning] triple_with_ast

lemma runs_generate: "preserves I (GenerateUndeprecatedImplicitMembers el d)"
  unfolding GenerateUndeprecatedImplicitMembers_def Let_def
  by (rule runs_intros triple_Nil | (rule runs_ask; simp; fail))+

lemma runs_contexts:
  "preserves I (elab_VisitTranslationUnitDecl visit d fl)"
  "preserves I (elab_VisitNamespaceDecl visit d fl)"
  "preserves I (elab_VisitLinkageSpecDecl visit d fl)"
  "preserves I (elab_VisitVarTemplateDecl visit d fl)"
  "preserves I (elab_VisitClassTemplateDecl visit d fl)"
  unfolding elab_VisitTranslationUnitDecl_def elab_VisitNamespaceDecl_def elab_VisitLinkageSpecDecl_def
    elab_VisitVarTemplateDecl_def elab_VisitClassTemplateDecl_def
  by (rule triple_Cons [where R = I] triple_Nil preserves_assert runs_each)+

lemma runs_friend: "preserves I (elab_VisitFriendDecl visit d fl)"
  unfolding elab_VisitFriendDecl_def
  by (rule runs_intros triple_weaken [OF visit])+

lemma runs_record: "preserves I (elab_VisitCXXRecordDecl el visit d fl)"
  unfolding elab_VisitCXXRecordDecl_def GenerateImplicitMembers_def
  by (rule runs_intros triple_Nil triple_weaken [OF runs_generate] runs_generate runs_each
      | (simp; fail) | simp only: if_False)+

lemma runs_methods:
  "preserves I (elab_VisitCXXMethodDecl el d fl)" "preserves I (elab_VisitCXXConstructorDecl el d fl)"
  "preserves I (elab_VisitCXXDestructorDecl el d fl)"
  unfolding elab_VisitCXXMethodDecl_def elab_VisitCXXConstructorDecl_def elab_VisitCXXDestructorDecl_def
  by (rule runs_intros | (rule runs_ask; simp; fail))+

lemma runs_dispatch: "preserves I (elab_dispatch el visit d fl)"
proof -
  have simple: "preserves I (elab_IGNORE d fl)" "preserves I (elab_VisitDecl d fl)"
    unfolding elab_IGNORE_def elab_VisitDecl_def by (rule triple_skip runs_warning)+
  have "preserves I (m d fl)" if "m \<in> snd ` set (Elaborate_methods el visit)" for m
    using that runs_contexts runs_friend runs_record runs_methods simple
    by (auto simp: Elaborate_methods_def)
  then have "preserves I (dispatch (Elaborate_methods el visit) elab_IGNORE k d fl)" for k
    using dispatch_cases [of "Elaborate_methods el visit" elab_IGNORE k] simple(1)
    by (metis image_eqI snd_conv)
  then show ?thesis
    unfolding elab_dispatch_def by (rule triple_with_ast [OF triple_weaken])
qed

end

lemma elab_Visit_steps: "elab_visitor el (elab_Visit n el) s0"
proof (induction n)
  case 0
  show ?case by unfold_locales (auto intro!: tripleI split: if_splits)
next
  case (Suc n)
  have "preserves ((estep (ci_sema el))\<^sup>*\<^sup>* s0) (mark_seen d)" for d
    by (auto simp: triple_def mark_seen_def intro: rtranclp.rtrancl_into_rtrancl estep.see)
  note p = triple_seqA [OF this elab_visitor.runs_dispatch [OF Suc]]
  show ?case
    by unfold_locales (rule tripleI, use tripleD [OF p] in \<open>auto split: if_splits\<close>)
qed

interpretation elab: elab_visitor el "elab_Visit n el" s0 for el n s0
  by (rule elab_Visit_steps)

lemma requests_grow: "(estep sema)\<^sup>*\<^sup>* s s' \<Longrightarrow> set (requests s) \<subseteq> set (requests s')"
  by (induction rule: rtranclp_induct) (auto elim!: estepE)

lemma requested_stable:
  assumes "\<And>s0. preserves ((estep sema)\<^sup>*\<^sup>* s0) m"
  shows "preserves (\<lambda>s. x \<in> set (requests s)) m"
  by (rule tripleI) (use tripleD [OF assms rtranclp.rtrancl_refl] requests_grow in blast)

lemma generate_default:
  "triple (\<lambda>s. needsImplicitDefaultConstructor (class_of (ast s) d))
     (GenerateUndeprecatedImplicitMembers el d)
     (\<lambda>s. (DeclareImplicitDefaultConstructor, d) \<in> set (requests s))"
  unfolding GenerateUndeprecatedImplicitMembers_def Let_def
  apply (rule triple_Cons [where R = "\<lambda>s. (DeclareImplicitDefaultConstructor, d) \<in> set (requests s)"])
   apply (simp add: triple_def with_ast_def if_so_def ask_def)
  by (rule requested_stable)
    (rule elab.runs_intros triple_Nil | (rule elab.runs_ask; simp; fail))+

section \<open>Properties\<close>

text \<open>
  C23.  Elaboration changes the AST only by requests that are allowed when they are made: a
  copy operation is declared only if it is not deprecated, \<open>ForceDeclarationOfImplicitMembers\<close> is never used,
  and a body is defined only for a defaulted function that has none and is not deleted.
\<close>

theorem elab_allowed:
  assumes "elab fuel tc d rec s = Inr s'"
  shows "(estep (compiler_sema tc))\<^sup>*\<^sup>* s s'"
proof (cases "isDeclContext (decl (ast s) d) \<and> isDependentContext (decl (ast s) d)")
  case True
  with assms show ?thesis by (simp add: elab_def with_ast_def Let_def skip_def)
next
  case False
  let ?el = "\<lparr>ci_sema = compiler_sema tc, CPlusPlus11 = compiler_cxx11 tc,
      el_templates = (templates_file tc \<noteq> None), recursive = rec\<rparr>"
  let ?f = "\<lparr>in_template = False, in_specialization = False\<rparr>"
  from False assms have "elab_Visit fuel ?el d ?f (s\<lparr>seen := {}\<rparr>) = Inr s'"
    by (auto simp: elab_def with_ast_def Let_def)
  from tripleD [OF elab.visit [of ?el] _ this] show ?thesis
    by (simp add: estep.see r_into_rtranclp)
qed

text \<open>
  C32.  \<open>--no-elaborate\<close> does not stop all elaboration: the handlers of definitions do nothing then, but
  a new class template specialization is elaborated all the same, so that its implicit
  members are declared.
\<close>

theorem no_elaborate_specialization:
  assumes "\<not> elaborate tc"
    and "getKind (decl (ast s) d) = ClassTemplateSpecializationDecl"
    and "\<not> isImplicit (decl (ast s) d)" and "\<not> isDependentContext (decl (ast s) d)"
    and "isCompleteDefinition (class_of (ast s) d)"
    and "needsImplicitDefaultConstructor (class_of (ast s) d)"
    and "AddedCXXTemplateSpecialization (Suc n) tc d s = Inr s'"
  shows "HandleTagDeclDefinition (Suc n) tc d s = Inr s
    \<and> (DeclareImplicitDefaultConstructor, d) \<in> set (requests s')"
proof -
  let ?el = "\<lparr>ci_sema = compiler_sema tc, CPlusPlus11 = compiler_cxx11 tc,
      el_templates = (templates_file tc \<noteq> None), recursive = True\<rparr>"
  let ?f = "\<lparr>in_template = False, in_specialization = False\<rparr>"
  let ?t = "s\<lparr>seen := insert (getID (decl (ast s) d)) {}\<rparr>"
  have r: "elab_VisitCXXRecordDecl ?el (elab_Visit n ?el) d ?f ?t = Inr s'"
    using assms
    by (simp add: AddedCXXTemplateSpecialization_def elab_def with_ast_def Let_def seqA_def mark_seen_def
        elab_dispatch_def dispatch_def ancestors_def eval_nat_numeral Elaborate_methods_def)
  then have r: "seqP [GenerateUndeprecatedImplicitMembers ?el d,
      elab_each (elab_Visit n ?el) (\<lambda>ctx. decls (decl ctx d)) ?f] ?t = Inr s'"
    using assms
    by (simp add: elab_VisitCXXRecordDecl_def with_ast_def if_so_def GenerateImplicitMembers_def
        isa_def ancestors_def eval_nat_numeral)
  have "preserves (\<lambda>s. (DeclareImplicitDefaultConstructor, d) \<in> set (requests s))
      (elab_each (elab_Visit n ?el) (\<lambda>ctx. decls (decl ctx d)) ?f)"
    by (rule requested_stable) (rule elab.runs_each)
  from tripleD [OF triple_Cons [OF generate_default triple_Cons [OF this triple_Nil]] _ r]
  show ?thesis using assms by (simp add: HandleTagDeclDefinition_def skip_def)
qed

definition example_class :: elab_state where
  "example_class = \<lparr>ast = ast0\<lparr>decl := (decl0)(1 := (decl0 1)
       \<lparr>getKind := ClassTemplateSpecializationDecl, isDeclContext := True\<rparr>),
       class_of := \<lambda>_. class0\<lparr>isCompleteDefinition := True, needsImplicitDefaultConstructor := True\<rparr>\<rparr>,
     requests = [], seen = {}, warnings = []\<rparr>"

definition example_consumer :: ToCoqConsumer where
  "example_consumer = \<lparr>compiler_sema = (\<lambda>_ _ ctx. ctx), compiler_cxx11 = True, output_file = None,
     notations_file = None, templates_file = None, name_test_file = None,
     consumer_structured_keys = True, consumer_comment = False, sharing = True, elaborate = False,
     check_types = False, consumer_typedefs = True\<rparr>"

lemma example_elab:
  "AddedCXXTemplateSpecialization (Suc 0) example_consumer 1 example_class
   = Inr (example_class\<lparr>requests := [(DeclareImplicitDefaultConstructor, 1)], seen := {1}\<rparr>)"
  by (simp add: AddedCXXTemplateSpecialization_def elab_def with_ast_def Let_def run_defs mark_seen_def
      elab_dispatch_def dispatch_def ancestors_def eval_nat_numeral Elaborate_methods_def
      elab_VisitCXXRecordDecl_def isa_def if_so_def GenerateImplicitMembers_def elab_each_def
      GenerateUndeprecatedImplicitMembers_def ask_def example_class_def example_consumer_def
      class0_def ast0_def decl0_def)

theorem no_elaborate_specialization_witness:
  "HandleTagDeclDefinition 1 example_consumer 1 example_class = Inr example_class"
  using no_elaborate_specialization [OF _ _ _ _ _ _ example_elab]
  by (simp add: example_class_def example_consumer_def class0_def ast0_def decl0_def)

theorem elab_allowed_witness:
  "(estep (\<lambda>_ _ ctx. ctx))\<^sup>*\<^sup>* example_class
     (example_class\<lparr>requests := [(DeclareImplicitDefaultConstructor, 1)], seen := {1}\<rparr>)"
  using elab_allowed [OF example_elab [unfolded AddedCXXTemplateSpecialization_def]]
  by (simp add: example_consumer_def)

end
