(* ===== verification/ToCoq.thy ===== *)
theory ToCoq
  imports NotationWriter PrePrint Location Elaborate
begin

text \<open>
  Model of \<open>src/ToCoq.cpp\<close>: what happens with a translation unit that has been parsed.  The module is
  built, and up to four files are written, each with a cache and a printer of its own: the
  module, the notations, the templates and the names.  What a run depends on besides the AST is the
  record \<open>environment\<close>: which files cannot be opened, the byte order of the host, the tables of the source
  locations, and the fuel of all recursions and loops.
\<close>

record environment =
  open_error :: "string \<Rightarrow> string option"
  host_big_endian :: bool
  sources :: source_info
  fuel :: nat

text \<open>The files written so far, the messages about files that could not be opened, and the diagnostics.\<close>

record outputs =
  written :: "(string \<times> string) list"
  open_errors :: string
  messages :: "(Level \<times> string) list"

definition outputs_init :: outputs where
  "outputs_init = \<lparr>written = [], open_errors = [], messages = []\<rparr>"

section \<open>Files and printers\<close>

definition with_open_file :: "environment \<Rightarrow> string option \<Rightarrow> printer \<Rightarrow> outputs action" where
  "with_open_file env path f s =
     (case path of
        None \<Rightarrow> Inr s
      | Some p \<Rightarrow>
          (case open_error env p of
             Some msg \<Rightarrow> Inr (s\<lparr>open_errors := open_errors s @ p @ '': '' @ msg @ [NL]\<rparr>)
           | None \<Rightarrow>
               (case f (pstate_init\<lparr>diags := messages s\<rparr>) of
                  Inl x \<Rightarrow> Inl x
                | Inr r \<Rightarrow> Inr (s\<lparr>written := written s @ [(p, out (fmt r))], messages := diags r\<rparr>))))"

text \<open>The constructor of \<open>ClangPrinter\<close>; the methods are those of \<open>mk_cprint\<close>.\<close>

definition ClangPrinter_config :: "environment \<Rightarrow> ASTContext \<Rightarrow> bool \<Rightarrow> bool \<Rightarrow> ClangPrinter" where
  "ClangPrinter_config env ctx coms tds =
     \<lparr>getContext = ctx, comment = coms, typedefs = tds, loop_fuel = fuel env, big_endian = host_big_endian env,
       rec_printType = (\<lambda>t. stopA OutOfFuel), rec_printExpr = (\<lambda>e. stopA OutOfFuel),
       rec_printStmt = (\<lambda>s. stopA OutOfFuel), rec_printLocalDecl = (\<lambda>d s. Inl OutOfFuel),
       rec_printName = (\<lambda>d. stopA OutOfFuel), rec_printUnresolvedName = (\<lambda>nn n args. stopA OutOfFuel),
       rec_printTemplateArgumentList = (\<lambda>args. stopA OutOfFuel),
       rec_printValueDeclExpr = (\<lambda>d. stopA OutOfFuel)\<rparr>"

definition new_ClangPrinter :: "environment \<Rightarrow> ASTContext \<Rightarrow> bool \<Rightarrow> bool \<Rightarrow> CoqPrinter \<Rightarrow> ClangPrinter" where
  "new_ClangPrinter env ctx coms tds print = mk_cprint (fuel env) print (ClangPrinter_config env ctx coms tds)"

definition new_CoqPrinter :: "bool \<Rightarrow> bool \<Rightarrow> CoqPrinter" where
  "new_CoqPrinter tmpl keys = \<lparr>templates = tmpl, structured_keys = keys, name_cache = Cache_init\<rparr>"

definition withDeclQ :: "ASTContext \<Rightarrow> ptr \<Rightarrow> bprinter \<Rightarrow> bprinter" where
  "withDeclQ ctx d =
     withDeclContextQ (if isDeclContext (decl ctx d) then Some d else getDeclContext (named_of ctx d))"

definition module_printDecl :: "CoqPrinter \<Rightarrow> ClangPrinter \<Rightarrow> ptr \<Rightarrow> printer" where
  "module_printDecl print cprint d =
     bindQ (withDeclQ (getContext cprint) d (printDecl print cprint d)) (\<lambda>b. if b then cons else skip)"

definition parser_import :: "CoqPrinter \<Rightarrow> printer" where
  "parser_import print =
     seqP [puts [''Require Import '',
                 if templates print then ''bedrock.lang.cpp.mparser'' else ''bedrock.lang.cpp.parser'', ''.''],
           nl, nl]"

definition bytestring :: printer where
  "bytestring = seqP [put ''#[local] Open Scope pstring_scope.'', nl]"

section \<open>The module\<close>

text \<open>The callbacks of the search for shared types and names, with the printer of the declaration that is searched.\<close>

definition type_fn :: "environment \<Rightarrow> ToCoqConsumer \<Rightarrow> ASTContext \<Rightarrow> CoqPrinter \<Rightarrow> ptr \<Rightarrow> definer" where
  "type_fn env tc ctx print d c prefix n t =
     (let print' = print\<lparr>name_cache := c\<rparr> in
      seqP [puts [''#[local] Definition '', [prefix], decimal n, '' : type := ''],
            withDecl ctx d
              (printType print' (new_ClangPrinter env ctx (consumer_comment tc) (consumer_typedefs tc) print') t),
            put ''.'', nl])"

definition name_fn :: "environment \<Rightarrow> ToCoqConsumer \<Rightarrow> ASTContext \<Rightarrow> CoqPrinter \<Rightarrow> ptr \<Rightarrow> definer" where
  "name_fn env tc ctx print d c prefix n e =
     (let print' = print\<lparr>name_cache := c\<rparr> in
      seqP [puts [''#[local] Definition '', [prefix], decimal n, '' : name := ''],
            withDecl ctx d
              (printName print' (new_ClangPrinter env ctx (consumer_comment tc) (consumer_typedefs tc) print') e True),
            put ''.'', nl])"

definition preprint :: "environment \<Rightarrow> ToCoqConsumer \<Rightarrow> ASTContext \<Rightarrow> CoqPrinter \<Rightarrow> ptr \<Rightarrow> pre" where
  "preprint env tc ctx print d =
     prePrintDecl (fuel env) ctx (type_fn env tc ctx print d) (name_fn env tc ctx print d) d"

definition endianness :: "ASTContext \<Rightarrow> printer" where
  "endianness ctx =
     (if isBigEndian ctx then put ''Big''
      else seqP [assertA ''isLittleEndian()'' (isLittleEndian ctx), put ''Little''])"

definition module_definition :: "ToCoqConsumer \<Rightarrow> Module \<Rightarrow> CoqPrinter \<Rightarrow> ClangPrinter \<Rightarrow> printer" where
  "module_definition tc m print cprint =
     seqP [put ''Definition module : translation_unit := '', indent, nl,
           put ''translation_unit.check '', nbsp,
           begin_list,
           seqP (map (module_printDecl print cprint) (declarations m)),
           seqP (map (module_printDecl print cprint) (definitions m)),
           seqP (map (module_printDecl print cprint) (asserts m)),
           end_list, nbsp, endianness (getContext cprint), put ''.'', outdent, nl,
           if check_types tc then
             seqP [nl, put ''Require bedrock.lang.cpp.syntax.typed.'', nl,
                   put (''Succeed Example well_typed : typed.decltype.check_tu module = trace.Success tt''
                        @ '' := ltac:(vm_compute; reflexivity).''), nl]
           else skip]"

text \<open>The cache is filled by the search and then used by the printers of the declarations.\<close>

definition on_print :: "printer \<Rightarrow> pre" where
  "on_print p = run_printer (\<lambda>_. p)"

definition preprint_module :: "environment \<Rightarrow> ToCoqConsumer \<Rightarrow> ASTContext \<Rightarrow> Module \<Rightarrow> CoqPrinter \<Rightarrow> pre" where
  "preprint_module env tc ctx m print =
     seqP [seqP (map (preprint env tc ctx print) (declarations m)),
           seqP (map (preprint env tc ctx print) (definitions m)),
           on_print nl]"

definition module_file :: "environment \<Rightarrow> ToCoqConsumer \<Rightarrow> ASTContext \<Rightarrow> Module \<Rightarrow> pre" where
  "module_file env tc ctx m =
     (let print = new_CoqPrinter False (consumer_structured_keys tc) in
      seqP [on_print (seqP [parser_import print, bytestring, nl]),
            if sharing tc then preprint_module env tc ctx m print else skip,
            run_printer (\<lambda>c. let print' = print\<lparr>name_cache := c\<rparr> in
              module_definition tc m print'
                (new_ClangPrinter env ctx (consumer_comment tc) (consumer_typedefs tc) print'))])"

definition with_new_cache :: "pre \<Rightarrow> printer" where
  "with_new_cache p s =
     (case p \<lparr>pcache = Cache_init, pprint = s\<rparr> of Inl x \<Rightarrow> Inl x | Inr s' \<Rightarrow> Inr (pprint s'))"

section \<open>The other files\<close>

definition notations_text :: "environment \<Rightarrow> ToCoqConsumer \<Rightarrow> ASTContext \<Rightarrow> Module \<Rightarrow> printer" where
  "notations_text env tc ctx m =
     (let print = new_CoqPrinter False (consumer_structured_keys tc);
          cprint = new_ClangPrinter env ctx (consumer_comment tc) (consumer_typedefs tc) print in
      seqP [parser_import print, write_globals m print cprint])"

definition templates_text :: "environment \<Rightarrow> ToCoqConsumer \<Rightarrow> ASTContext \<Rightarrow> Module \<Rightarrow> printer" where
  "templates_text env tc ctx m =
     (let print = new_CoqPrinter True (consumer_structured_keys tc);
          cprint = new_ClangPrinter env ctx (consumer_comment tc) (consumer_typedefs tc) print in
      seqP [parser_import print, bytestring, nl,
            put ''Definition templates : Mtranslation_unit :='', indent, nl,
            put ''Eval reduce_translation_unit in Mtranslation_unit.decls'', nbsp,
            begin_list,
            seqP (map (module_printDecl print cprint) (template_declarations m)),
            seqP (map (module_printDecl print cprint) (template_definitions m)),
            end_list, put ''.'', outdent, nl])"

definition name_test_bug :: "string \<Rightarrow> printer" where
  "name_test_bug what = seqP [diag FATAL (''BUG: '' @ what @ [NL]), die what]"

definition name_test :: "environment \<Rightarrow> CoqPrinter \<Rightarrow> ClangPrinter \<Rightarrow> ptr option \<Rightarrow> printer" where
  "name_test env print cprint d =
     (case d of
        None \<Rightarrow> name_test_bug ''null declaration''
      | Some x \<Rightarrow>
          (let ctx = getContext cprint in
           if isImplicit (decl ctx x) \<and> isaD ctx TypedefDecl x then skip
           else seqP [nl,
                      with_answer (show_trace (sources env) (loop_fuel cprint) ctx (loc_of_ptr loc_of_decl d) None)
                        (\<lambda>t. seqP [cmt t, nbsp]),
                      printName print cprint x True, put '' ::'', nl]))"

definition testnames :: "string \<Rightarrow> printer list \<Rightarrow> printer" where
  "testnames idn k =
     seqP [nl, puts [''Definition '', idn, '' : list Mname :=''], indent, nl,
           begin_list, seqP k, end_list, put ''.'', outdent, nl]"

definition name_test_text :: "environment \<Rightarrow> ToCoqConsumer \<Rightarrow> ASTContext \<Rightarrow> Module \<Rightarrow> printer" where
  "name_test_text env tc ctx m =
     (let print = new_CoqPrinter True True;
          cprint = new_ClangPrinter env ctx (consumer_comment tc) False print;
          test = name_test env print cprint \<circ> Some in
      seqP [parser_import print, bytestring,
            testnames ''module_names'' (map test (declarations m) @ map test (definitions m)),
            testnames ''template_names'' (map test (template_declarations m) @ map test (template_definitions m))])"

section \<open>The translation unit\<close>

definition write_files :: "environment \<Rightarrow> ToCoqConsumer \<Rightarrow> ASTContext \<Rightarrow> Module \<Rightarrow> outputs action" where
  "write_files env tc ctx m =
     seqP [with_open_file env (output_file tc) (with_new_cache (module_file env tc ctx m)),
           with_open_file env (notations_file tc) (notations_text env tc ctx m),
           with_open_file env (templates_file tc) (templates_text env tc ctx m),
           with_open_file env (name_test_file tc) (name_test_text env tc ctx m)]"

definition toCoqModule :: "environment \<Rightarrow> ToCoqConsumer \<Rightarrow> ASTContext \<Rightarrow> ptr \<Rightarrow> outputs action" where
  "toCoqModule env tc ctx tu =
     (let tmpl = (templates_file tc \<noteq> None \<or> name_test_file tc \<noteq> None) in
      case build_module (fuel env) (Default DEFINITION) tmpl ctx tu of
        Inl x \<Rightarrow> stopA x
      | Inr b \<Rightarrow> write_files env tc ctx (module b))"

definition HandleTranslationUnit ::
  "environment \<Rightarrow> ToCoqConsumer \<Rightarrow> nat \<Rightarrow> ASTContext \<Rightarrow> ptr \<Rightarrow> outputs action" where
  "HandleTranslationUnit env tc getNumErrors ctx tu =
     (if getNumErrors = 0 then toCoqModule env tc ctx tu else skip)"

end
