(* ===== verification/ModuleText.thy ===== *)
theory ModuleText
  imports DeclText ToCoq
begin

text \<open>
  The definition of the module in the main file reads back as the list of the terms of its declarations, in the order of the
  module: declarations, definitions, static assertions.
\<close>

section \<open>Indentation\<close>

lemma emits_indent: "emits Q r i indent [] False (Suc i)"
  unfolding indent_def
  by (rule emits_fmtA [where d = 2]) (simp_all add: placed_def reader_def wrote_def)

lemma emits_outdent: "emits Q r (Suc i) outdent [] False i"
proof (rule emitsI)
  fix s :: pstate and k
  assume s: "placed r (fmt s)" "depth (fmt s) = k + 2 * Suc i"
  let ?f = "(fmt s)\<lparr>depth := depth (fmt s) - 2\<rparr>"
  have "placed False ?f \<and> wrote [] (fmt s) ?f" using s(1) by (simp add: placed_def reader_def wrote_def)
  then show "\<exists>s'. outdent s = Inr s' \<and> placed False (fmt s') \<and> wrote [] (fmt s) (fmt s') \<and> depth (fmt s') = k + 2 * i
      \<and> declctx s' = declctx s \<and> names s' = names s"
    using s(2) by (simp add: outdent_def fmtE_def foutdent_def)
qed

section \<open>Declarations in a list\<close>

text \<open>The context in which \<open>printDecl\<close> is called for a declaration.\<close>

definition own_context :: "ASTContext \<Rightarrow> ptr \<Rightarrow> ptr option" where
  "own_context ctx d = (if isDeclContext (decl ctx d) then Some d else getDeclContext (named_of ctx d))"

lemma withDeclContextQ_returning: "withDeclContextQ c (returning p b) = returning (withDeclContext c p) b"
  by (rule ext) (simp add: withDeclContextQ_def withDeclContext_def returning_def split: sum.split)

lemma returns_withDeclQ:
  assumes "returns_term (plain_setting ctx) b v" and "getLambdaClass ctx (own_context ctx d) = None"
  shows "returns_term (plain_setting ctx) (withDeclQ ctx d b) v"
proof -
  let ?c = "own_context ctx d"
  obtain p where p: "b = returning p (v \<noteq> None)"
      "case v of None \<Rightarrow> \<forall>r i. emits (plain_setting ctx) r i p [] r i | Some t \<Rightarrow> writes (plain_setting ctx) p [t]"
    using assms(1) by (auto simp: returns_term_def)
  have "emits (plain_setting ctx) r i p ts r' j \<Longrightarrow> emits (plain_setting ctx) r i (withDeclContext ?c p) ts r' j" for r i ts r' j
    by (erule emits_withDeclContext) (simp add: plain_setting_def assms(2))
  then have "case v of None \<Rightarrow> \<forall>r i. emits (plain_setting ctx) r i (withDeclContext ?c p) [] r i
      | Some t \<Rightarrow> writes (plain_setting ctx) (withDeclContext ?c p) [t]"
    using p(2) by (cases v) (auto simp: writes_def)
  then show ?thesis
    unfolding returns_term_def withDeclQ_def own_context_def [symmetric] p(1) withDeclContextQ_returning by blast
qed

definition stands_for :: "CoqPrinter \<Rightarrow> ClangPrinter \<Rightarrow> ptr \<Rightarrow> cterm option \<Rightarrow> bool" where
  "stands_for print config d v \<longleftrightarrow>
     decl_is print (getContext config) (loop_fuel config) (big_endian config) (typedefs config) d v
     \<and> getLambdaClass (getContext config) (own_context (getContext config) d) = None"

definition decl_list :: "cterm option list \<Rightarrow> cterm list list" where
  "decl_list vs = map (\<lambda>t. [t]) (List.map_filter id vs)"

lemma decl_list_append: "decl_list (vs @ ws) = decl_list vs @ decl_list ws"
  by (simp add: decl_list_def List.map_filter_def)

lemma deep_decls:
  assumes "list_all2 (stands_for print config) ds vs" and "\<not> templates print" and "\<not> comment config"
  shows "deep (\<lambda>n. \<forall>i. emits (plain_setting (getContext config)) True i
      (seqP (map (module_printDecl print (mk_cprint n print config)) ds))
      (terms_tokens (concat (map (\<lambda>ts. ts @ [Sym ''::'']) (decl_list vs)))) True i)"
proof -
  let ?Q = "plain_setting (getContext config)"
  let ?f = "\<lambda>n d. withDeclQ (getContext config) d (printDecl print (mk_cprint n print config) d)"
  have "deep (\<lambda>n. returns_term ?Q (?f n d) v)" if "stands_for print config d v" for d v
    using decl_prints [OF _ assms(2,3), of d v] that
    by (auto simp: stands_for_def decl_ok_def intro: returns_withDeclQ elim: eventually_mono)
  then have "deep (\<lambda>n. list_all2 (\<lambda>d v. returns_term ?Q (?f n d) v) ds vs)"
    by (intro deep_list list_all2_mono [OF assms(1)]) blast
  then show ?thesis
  proof (rule eventually_mono)
    fix n
    assume "list_all2 (\<lambda>d v. returns_term ?Q (?f n d) v) ds vs"
    from emits_locals [OF this] show "\<forall>i. emits ?Q True i (seqP (map (module_printDecl print (mk_cprint n print config)) ds))
      (terms_tokens (concat (map (\<lambda>ts. ts @ [Sym ''::'']) (decl_list vs)))) True i"
      by (simp add: decl_list_def module_printDecl_def [abs_def])
  qed
qed

section \<open>The definition of the module\<close>

definition endian_word :: "ASTContext \<Rightarrow> string" where
  "endian_word ctx = (if isBigEndian ctx then ''Big.'' else ''Little.'')"

definition check_terms :: "cterm list" where
  "check_terms = map Sym [''Require'', ''bedrock.lang.cpp.syntax.typed.'', ''Succeed'', ''Example'', ''well_typed'', '':'',
     ''typed.decltype.check_tu'', ''module'', ''='', ''trace.Success'', ''tt'', '':='', ''ltac:'']
     @ [Par [Sym ''vm_compute;'', Sym ''reflexivity''], Sym ''.'']"

definition module_terms :: "ASTContext \<Rightarrow> bool \<Rightarrow> cterm option list \<Rightarrow> cterm list" where
  "module_terms ctx check vs =
     map Sym [''Definition'', ''module'', '':'', ''translation_unit'', '':='', ''translation_unit.check'']
     @ [Par (elements (decl_list vs)), Sym (endian_word ctx)] @ (if check then check_terms else [])"

lemma endianness_put:
  "isBigEndian ctx \<or> isLittleEndian ctx \<Longrightarrow> seqP (endianness ctx # put ''.'' # ps) = seqP (put (endian_word ctx) # ps)"
  by (auto simp: endianness_def endian_word_def assertA_def seqA_assoc [symmetric] put_put)

lemma emits_endianness:
  "isBigEndian ctx \<or> isLittleEndian ctx \<Longrightarrow> emits Q r i (seqP (put (endian_word ctx) # ps)) ts r' j \<Longrightarrow>
   emits Q r i (seqP (endianness ctx # put ''.'' # ps)) ts r' j"
  by (simp only: endianness_put)

lemma emits_head: "emits Q True i (put ''Definition module : translation_unit := '')
    (map Word [''Definition'', ''module'', '':'', ''translation_unit'', '':='']) True i"
  by (rule emits_put [where m = Between and us = "map Word [''Definition'', ''module'', '':'', ''translation_unit'', '':='']"])
    (simp_all add: start_def inner_def white_def)

lemma emits_check: "emits Q True i (put ''translation_unit.check '') [Word ''translation_unit.check''] True i"
  by (rule emits_put [where m = Between and us = "[Word ''translation_unit.check'']"]) (simp_all add: start_def inner_def white_def)

lemma emits_require: "emits Q True i (put ''Require bedrock.lang.cpp.syntax.typed.'') [Word ''Require'', Word ''bedrock.lang.cpp.syntax.typed.''] False i"
  by (rule emits_put [where m = "InWord ''bedrock.lang.cpp.syntax.typed.''" and us = "[Word ''Require'']"])
    (simp_all add: start_def inner_def white_def)

lemma emits_succeed:
  "emits Q True i (put (''Succeed Example well_typed : typed.decltype.check_tu module = trace.Success tt''
      @ '' := ltac:(vm_compute; reflexivity).'')) (drop 2 (terms_tokens check_terms)) False i"
  by (rule emits_put [where m = "InWord ''.''" and us = "butlast (drop 2 (terms_tokens check_terms))"])
    (simp_all add: start_def inner_def white_def check_terms_def)

lemma emits_type_check:
  "emits Q True i (if c then seqP [nl, put ''Require bedrock.lang.cpp.syntax.typed.'', nl,
      put (''Succeed Example well_typed : typed.decltype.check_tu module = trace.Success tt''
        @ '' := ltac:(vm_compute; reflexivity).''), nl] else skip)
    (terms_tokens (if c then check_terms else [])) True i"
proof (cases c)
  case True
  have "terms_tokens check_terms = [Word ''Require'', Word ''bedrock.lang.cpp.syntax.typed.''] @ drop 2 (terms_tokens check_terms)"
    by (simp add: check_terms_def)
  then show ?thesis
    unfolding if_P [OF True] by (intro emits_eq [OF emits_Cons [OF emits_nl emits_Cons [OF emits_require emits_Cons [OF emits_nl
      emits_Cons [OF emits_succeed emits_Cons [OF emits_nl emits_Nil]]]]]]) simp
qed (simp add: emits_skip)

lemma writes_between:
  "(\<And>i. emits Q True i p (terms_tokens ts) True i) \<Longrightarrow> ts \<noteq> [] \<Longrightarrow> \<not> par (hd ts) \<Longrightarrow> writes Q p ts"
  unfolding writes_def by (blast intro: emits_weaken)

lemma module_writes:
  assumes d: "list_all2 (stands_for print config) (declarations m) vs" and f: "list_all2 (stands_for print config) (definitions m) ws"
    and a: "list_all2 (stands_for print config) (asserts m) xs" and t: "\<not> templates print" and c: "\<not> comment config"
    and e: "isBigEndian (getContext config) \<or> isLittleEndian (getContext config)"
  shows "deep (\<lambda>n. writes (plain_setting (getContext config)) (module_definition tc m print (mk_cprint n print config))
    (module_terms (getContext config) (check_types tc) (vs @ ws @ xs)))"
proof (rule eventually_elim2 [OF eventually_conj [OF deep_decls [OF d t c] deep_decls [OF f t c]] deep_decls [OF a t c]])
  fix n
  let ?Q = "plain_setting (getContext config)"
  let ?e = "\<lambda>vs. terms_tokens (concat (map (\<lambda>ts. ts @ [Sym ''::'']) (decl_list vs)))"
  let ?p = "\<lambda>ds. seqP (map (module_printDecl print (mk_cprint n print config)) ds)"
  assume "(\<forall>i. emits ?Q True i (?p (declarations m)) (?e vs) True i) \<and> (\<forall>i. emits ?Q True i (?p (definitions m)) (?e ws) True i)"
    and "\<forall>i. emits ?Q True i (?p (asserts m)) (?e xs) True i"
  then have l: "emits ?Q True i (?p (declarations m)) (?e vs) True i" "emits ?Q True i (?p (definitions m)) (?e ws) True i"
    "emits ?Q True i (?p (asserts m)) (?e xs) True i" for i by simp_all
  have w: "word (endian_word (getContext config))" by (simp add: endian_word_def word_simps)
  have "emits ?Q True i (module_definition tc m print (mk_cprint n print config))
      (terms_tokens (module_terms (getContext config) (check_types tc) (vs @ ws @ xs))) True i" for i
    unfolding module_definition_def mk_cprint_fields
    by (rule emits_eq,
      (rule emits_endianness [OF e] emits_Cons emits_Nil emits_head emits_indent emits_nl emits_check emits_nbsp emits_begin_list l emits_end_list
        emits_word [OF w] emits_outdent emits_type_check)+)
      (simp add: module_terms_def elements_def decl_list_append terms_tokens_def)
  then show "writes ?Q (module_definition tc m print (mk_cprint n print config))
      (module_terms (getContext config) (check_types tc) (vs @ ws @ xs))"
    by (rule writes_between) (simp_all add: module_terms_def par_def)
qed

text \<open>
  C2. The definition of the module is written so that Coq reads the declarations of the module: if each declaration stands for a
  term or for nothing, then with enough levels the text of \<open>Definition module\<close> parses as the list of the terms of its declarations,
  definitions and static assertions, in this order, with nothing in between.
\<close>

theorem module_definition_reads_back:
  assumes "list_all2 (stands_for print config) (declarations m @ definitions m @ asserts m) vs" and "\<not> templates print"
    and "\<not> comment config" and "isBigEndian (getContext config) \<or> isLittleEndian (getContext config)"
  shows "\<exists>k. \<forall>n \<ge> k. \<forall>s. snd (reader (fmt s)) = Between \<longrightarrow> anonymous (names s) = [] \<longrightarrow> getLambdaClass (getContext config) (declctx s) = None \<longrightarrow>
    (\<exists>s' u. module_definition tc m print (mk_cprint n print config) s = Inr s' \<and> out (fmt s') = out (fmt s) @ u
       \<and> parse_terms u = Some (module_terms (getContext config) (check_types tc) vs))"
proof -
  obtain us ws xs where v: "vs = us @ ws @ xs" "list_all2 (stands_for print config) (declarations m) us"
      "list_all2 (stands_for print config) (definitions m) ws" "list_all2 (stands_for print config) (asserts m) xs"
    using assms(1) by (auto simp: list_all2_append1)
  then obtain k where k: "\<forall>n \<ge> k. writes (plain_setting (getContext config)) (module_definition tc m print (mk_cprint n print config))
      (module_terms (getContext config) (check_types tc) vs)"
    using module_writes [OF v(2-4) assms(2-4), of tc] unfolding eventually_sequentially by blast
  show ?thesis
    by (intro exI [of _ k] allI impI, rule writes_parse, erule k [rule_format]) (simp_all add: plain_setting_def)
qed

text \<open>The module with the function of \<open>identity_ast\<close> as its only definition.\<close>

definition identity_consumer :: ToCoqConsumer where
  "identity_consumer = example_consumer\<lparr>check_types := False\<rparr>"

theorem module_definition_reads_back_witness:
  "\<exists>n s'. module_definition identity_consumer (Module_init\<lparr>definitions := [1]\<rparr>) printer0 (mk_cprint n printer0 (config0 identity_ast)) pstate_init = Inr s'
     \<and> parse_terms (out (fmt s')) = Some [Sym ''Definition'', Sym ''module'', Sym '':'', Sym ''translation_unit'', Sym '':='',
         Sym ''translation_unit.check'', Par [app ''Dfunction'' [f_term, function_term], Sym ''::'', Sym ''nil''], Sym ''Little.'']"
proof -
  let ?c = "config0 identity_ast"
  have F: "decl_is printer0 (getContext ?c) (loop_fuel ?c) (big_endian ?c) (typedefs ?c) 1 (Some (app ''Dfunction'' [f_term, function_term]))"
    using identity_decl by simp
  have "stands_for printer0 ?c 1 (Some (app ''Dfunction'' [f_term, function_term]))"
    using F by (simp add: stands_for_def own_context_def identity_ast_def ast0_def getLambdaClass_def decl0_def identity_kinds)
  then have "list_all2 (stands_for printer0 ?c) (declarations (Module_init\<lparr>definitions := [1]\<rparr>) @ definitions (Module_init\<lparr>definitions := [1]\<rparr>)
      @ asserts (Module_init\<lparr>definitions := [1]\<rparr>)) [Some (app ''Dfunction'' [f_term, function_term])]"
    by (simp add: Module_init_def)
  from module_definition_reads_back [OF this, of identity_consumer] obtain k where
    k: "\<forall>n \<ge> k. \<forall>s. snd (reader (fmt s)) = Between \<longrightarrow> anonymous (names s) = [] \<longrightarrow> getLambdaClass identity_ast (declctx s) = None \<longrightarrow>
      (\<exists>s' u. module_definition identity_consumer (Module_init\<lparr>definitions := [1]\<rparr>) printer0 (mk_cprint n printer0 ?c) s = Inr s' \<and> out (fmt s') = out (fmt s) @ u
         \<and> parse_terms u = Some (module_terms identity_ast False [Some (app ''Dfunction'' [f_term, function_term])]))"
    by (auto simp: identity_ast_def ast0_def identity_consumer_def)
  have t: "module_terms identity_ast False [Some (app ''Dfunction'' [f_term, function_term])] = [Sym ''Definition'', Sym ''module'', Sym '':'', Sym ''translation_unit'',
      Sym '':='', Sym ''translation_unit.check'', Par [app ''Dfunction'' [f_term, function_term], Sym ''::'', Sym ''nil''], Sym ''Little.'']"
    by (simp add: module_terms_def decl_list_def map_filter_simps elements_def endian_word_def identity_ast_def ast0_def)
  have l: "getLambdaClass identity_ast (declctx pstate_init) = None"
    by (simp add: getLambdaClass_def pstate_init_def)
  from k [rule_format, OF order_refl loop_state(1,2) l] loop_state(4) show ?thesis
    unfolding t by auto
qed

end
