(* ===== verification/ValueProps.thy ===== *)
theory ValueProps
  imports PrintDecl
begin

text \<open>
  The values of characters: the bytes of string literals are put together to code units, and the
  values of enumerators of character types are cut down to the width of the type.
\<close>

section \<open>Code units of string literals\<close>

text \<open>The bytes of a code unit of \<open>w\<close> bytes in memory, as clang keeps them.\<close>

primrec little_endian :: "nat \<Rightarrow> nat \<Rightarrow> nat list" where
  "little_endian 0 v = []"
| "little_endian (Suc w) v = v mod 256 # little_endian w (v div 256)"

definition unit_bytes :: "bool \<Rightarrow> nat \<Rightarrow> nat \<Rightarrow> nat list" where
  "unit_bytes big w v = (if big then rev (little_endian w v) else little_endian w v)"

lemma length_little_endian [simp]: "length (little_endian w v) = w"
  by (induction w arbitrary: v) simp_all

lemma length_unit_bytes [simp]: "length (unit_bytes big w v) = w"
  by (simp add: unit_bytes_def)

unbundle bit_operations_syntax

lemma byte_take_bit: "c mod 256 = take_bit 8 (c :: nat)"
  by (simp add: take_bit_eq_mod)

lemma shift_in_byte: "push_bit 8 b OR word_of_nat (c mod 256) = (b * 256 + word_of_nat (c mod 256) :: 64 word)"
proof -
  have "push_bit 8 b AND word_of_nat (c mod 256) = (0 :: 64 word)"
    unfolding byte_take_bit by (rule bit_word_eqI) (auto simp: bit_simps)
  then have "push_bit 8 b OR word_of_nat (c mod 256) = push_bit 8 b + (word_of_nat (c mod 256) :: 64 word)"
    by (simp add: disjunctive_add_eq_or)
  then show ?thesis by (simp add: push_bit_eq_mult mult.commute)
qed

text \<open>What the loop computes, over the natural numbers.\<close>

lemma code_unit_fold:
  "foldl (\<lambda>byte c. (push_bit 8 byte) OR word_of_nat (c mod 256)) (word_of_nat a) bs
   = (word_of_nat (foldl (\<lambda>x c. x * 256 + c mod 256) a bs) :: 64 word)"
proof (induction bs arbitrary: a)
  case (Cons c bs)
  have "push_bit 8 (word_of_nat a) OR word_of_nat (c mod 256) = (word_of_nat (a * 256 + c mod 256) :: 64 word)"
    unfolding shift_in_byte by simp
  then show ?case using Cons [of "a * 256 + c mod 256"] by simp
qed simp

lemma fold_little_endian:
  "v < 256 ^ w \<Longrightarrow> foldl (\<lambda>x c. x * 256 + c mod 256) 0 (rev (little_endian w v)) = v"
  by (induction w arbitrary: v) (simp_all add: less_mult_imp_div_less)

lemma code_unit_unit_bytes:
  assumes "v < 256 ^ w"
  shows "code_unit big (unit_bytes big w v) = word_of_nat v"
  using code_unit_fold [of 0 "rev (little_endian w v)"] fold_little_endian [OF assms]
  by (simp add: code_unit_def unit_bytes_def)

lemma unat_code_unit:
  assumes "v < 256 ^ w" and "w \<le> 8"
  shows "unat (code_unit big (unit_bytes big w v)) = v"
proof -
  have "(256::nat) ^ w \<le> 256 ^ 8" using assms(2) by (rule power_increasing) simp
  with assms(1) have "v < 2 ^ 64" by simp
  then show ?thesis unfolding code_unit_unit_bytes [OF assms(1)]
    by (simp add: unat_of_nat take_bit_nat_eq_self)
qed

text \<open>
  C24. A string literal keeps its code units: from the bytes of a sequence of code units of at most
  eight bytes, in either byte order, \<open>VisitStringLiteral\<close> gets the code units back.
\<close>

theorem code_units_roundtrip:
  assumes "0 < w" and "w \<le> 8" and "\<forall>v \<in> set vs. v < 256 ^ w"
  shows "map unat (code_units big w (concat (map (unit_bytes big w) vs))) = vs"
  using assms(3)
proof (induction vs)
  case Nil
  show ?case by (simp add: code_units.simps)
next
  case (Cons v vs)
  have "concat (map (unit_bytes big w) (v # vs)) \<noteq> []"
    using \<open>0 < w\<close> length_unit_bytes [of big w v] by (auto simp del: length_unit_bytes)
  then show ?case
    using Cons \<open>0 < w\<close> \<open>w \<le> 8\<close> by (subst code_units.simps) (simp add: unat_code_unit)
qed

theorem code_units_roundtrip_witness:
  "concat (map (unit_bytes False 2) [1234, 65]) = [210, 4, 65, 0]
   \<and> map unat (code_units False 2 [210, 4, 65, 0]) = [1234, 65]"
proof -
  have b: "concat (map (unit_bytes False 2) [1234, 65]) = [210, 4, 65, 0]"
    by (simp add: unit_bytes_def numeral_2_eq_2)
  show ?thesis using code_units_roundtrip [of 2 "[1234, 65]" False] unfolding b by simp
qed

section \<open>Enumerators of character types\<close>

text \<open>
  C25. \<open>toBRiCkCharacter\<close> takes the value of an enumerator modulo two to the width of its character type, so
  what is printed is in the range of the type; a width of 64 or more, for which the C++ shift is undefined, is excluded.
\<close>

theorem toBRiCkCharacter_mod:
  assumes "bitsize < 64"
  shows "int (unat (toBRiCkCharacter bitsize v)) = v mod 2 ^ bitsize
    \<and> unat (toBRiCkCharacter bitsize v) < 2 ^ bitsize"
proof -
  have "toBRiCkCharacter bitsize v = take_bit bitsize (word_of_int v)"
    unfolding toBRiCkCharacter_def by (simp add: take_bit_eq_mask mask_eq_exp_minus_1 push_bit_eq_mult)
  then have u: "uint (toBRiCkCharacter bitsize v) = take_bit bitsize v"
    using assms by (simp add: unsigned_take_bit_eq uint_word_of_int_eq min_def)
  have "int (unat (toBRiCkCharacter bitsize v)) = v mod 2 ^ bitsize"
    using u by (simp add: take_bit_eq_mod)
  moreover have "v mod 2 ^ bitsize < 2 ^ bitsize" by simp
  ultimately show ?thesis by (metis of_nat_less_iff of_nat_numeral of_nat_power)
qed

theorem toBRiCkCharacter_mod_witness:
  "unat (toBRiCkCharacter 8 (-1)) = 255 \<and> int (unat (toBRiCkCharacter 8 (-1))) = (-1) mod 2 ^ 8"
proof -
  have "int (unat (toBRiCkCharacter 8 (-1))) = (-1) mod 2 ^ 8"
    using toBRiCkCharacter_mod [of 8 "-1"] by simp
  then show ?thesis by (simp add: nat_eq_iff flip: of_nat_eq_iff [where 'a = int])
qed

end
