(* ===== verification/PrePrintProps.thy ===== *)
theory PrePrintProps
  imports PrePrint
begin

text \<open>
  The pre-printer defines every type and name at most once: the assertion of the cache cannot fail, and
  with as many levels as the AST is deep the visit ends, unless a callback stops the program.
\<close>

section \<open>The AST has a depth\<close>

datatype target = TT ptr | TE ptr | TS ptr

abbreviation qual_target :: "QualType \<Rightarrow> target list" where
  "qual_target q \<equiv> map TT (case getTypePtrOrNull q of None \<Rightarrow> [] | Some t \<Rightarrow> [t])"

abbreviation opt_target :: "(ptr \<Rightarrow> target) \<Rightarrow> ptr option \<Rightarrow> target list" where
  "opt_target f p \<equiv> map f (case p of None \<Rightarrow> [] | Some x \<Rightarrow> [x])"

text \<open>What the visit of a type, an expression or a statement visits in turn.\<close>

fun type_targets :: "type_node \<Rightarrow> target list" where
  "type_targets (SubstTemplateTypeParmType q) = qual_target q"
| "type_targets (ElaboratedType q) = qual_target q"
| "type_targets (LValueReferenceType q) = qual_target q"
| "type_targets (RValueReferenceType q) = qual_target q"
| "type_targets (PointerType q) = qual_target q"
| "type_targets (ConstantArrayType q n) = qual_target q"
| "type_targets (IncompleteArrayType q) = qual_target q"
| "type_targets (DependentSizedArrayType q e) = qual_target q"
| "type_targets (VariableArrayType q e) = [TE e]"
| "type_targets (DecayedType q r) = qual_target q @ qual_target r"
| "type_targets (FunctionProtoType cc v ret params) = concat (map qual_target params) @ qual_target ret"
| "type_targets (FunctionNoProtoType cc ret) = qual_target ret"
| "type_targets t = []"

fun expr_targets :: "ASTContext \<Rightarrow> ptr \<Rightarrow> expr_node \<Rightarrow> target list" where
  "expr_targets ctx e (BinaryOperator op l r) = [TE l, TE r]"
| "expr_targets ctx e (UnaryOperator op x) = [TE x]"
| "expr_targets ctx e (CallExpr f args) = TE f # map TE args"
| "expr_targets ctx e (CXXOperatorCallExpr d k args) = TE (getCallee ctx e) # map TE args"
| "expr_targets ctx e (CXXMemberCallExpr f m obj args) = TE (getCallee ctx e) # map TE args"
| "expr_targets ctx e (CXXConstructExpr c args) = map TE args"
| "expr_targets ctx e (ExplicitCastExpr k ck x q path) = [TE x]"
| "expr_targets ctx e (ImplicitCastExpr ck x path) = [TE x]"
| "expr_targets ctx e x = []"

definition init_targets :: "ASTContext \<Rightarrow> ptr option \<Rightarrow> target list" where
  "init_targets ctx d = (case d of None \<Rightarrow> [] | Some v \<Rightarrow> opt_target TE (getInit (named_of ctx v)))"

fun stmt_targets :: "ASTContext \<Rightarrow> ptr \<Rightarrow> stmt_node \<Rightarrow> target list" where
  "stmt_targets ctx st ExprStmt = [TE st]"
| "stmt_targets ctx st (CompoundStmt body) = map TS body"
| "stmt_targets ctx st (ReturnStmt e) = opt_target TE e"
| "stmt_targets ctx st (WhileStmt v c b) = init_targets ctx v @ [TE c, TS b]"
| "stmt_targets ctx st (DoStmt b c) = [TS b, TE c]"
| "stmt_targets ctx st (ForStmt i c inc b) =
     init_targets ctx (for_condition_variable ctx st) @ opt_target TE c @ opt_target TE inc @ [TS b]"
| "stmt_targets ctx st (IfStmt ce v c t e) = init_targets ctx v @ [TE c, TS t] @ opt_target TS e"
| "stmt_targets ctx st x = []"

text \<open>A rank that decreases towards what is visited.\<close>

definition ranked :: "ASTContext \<Rightarrow> (target \<Rightarrow> nat) \<Rightarrow> bool" where
  "ranked ctx r \<longleftrightarrow>
     (\<forall>t. \<forall>c \<in> set (type_targets (type_node (type_of ctx t))). r c < r (TT t))
     \<and> (\<forall>e. \<forall>c \<in> set (qual_target (expr_type (expr_of ctx e)) @ expr_targets ctx e (expr_node (expr_of ctx e))).
          r c < r (TE e))
     \<and> (\<forall>st. \<forall>c \<in> set (stmt_targets ctx st (stmt_of ctx st)). r c < r (TS st))"

section \<open>The contract of a visit\<close>

definition cache_ok :: "prestate \<Rightarrow> bool" where
  "cache_ok s \<longleftrightarrow> nc_ok (types_nc (pcache s)) \<and> nc_ok (names_nc (pcache s))"

abbreviation type_num :: "prestate \<Rightarrow> ptr \<Rightarrow> nat" where
  "type_num s \<equiv> nc_lookup (types_nc (pcache s))"

abbreviation name_num :: "prestate \<Rightarrow> ptr \<Rightarrow> nat" where
  "name_num s \<equiv> nc_lookup (names_nc (pcache s))"

text \<open>The stops of the callbacks.\<close>

definition callback_stop :: "PrePrint \<Rightarrow> stop \<Rightarrow> bool" where
  "callback_stop pp x \<longleftrightarrow>
     (\<exists>c p n y s. type_printer pp c p n y s = Inl x \<or> name_printer pp c p n y s = Inl x)"

text \<open>
  \<open>visits pp r k p\<close>: from a consistent cache \<open>p\<close> goes to a consistent cache where all numbers are kept and only
  types of a rank below \<open>k\<close> are new, or stops where a callback does.
\<close>

definition grown :: "(target \<Rightarrow> nat) \<Rightarrow> nat \<Rightarrow> prestate \<Rightarrow> prestate \<Rightarrow> bool" where
  "grown r k s s' \<longleftrightarrow> cache_ok s' \<and> (\<forall>t. type_num s t \<noteq> 0 \<longrightarrow> type_num s' t = type_num s t)
     \<and> (\<forall>d. name_num s d \<noteq> 0 \<longrightarrow> name_num s' d = name_num s d)
     \<and> (\<forall>t. type_num s' t \<noteq> type_num s t \<longrightarrow> r (TT t) < k)"

definition visits :: "PrePrint \<Rightarrow> (target \<Rightarrow> nat) \<Rightarrow> nat \<Rightarrow> pre \<Rightarrow> bool" where
  "visits pp r k p \<longleftrightarrow>
     (\<forall>s. cache_ok s \<longrightarrow> (case p s of Inl x \<Rightarrow> callback_stop pp x | Inr s' \<Rightarrow> grown r k s s'))"

named_theorems pre_intros \<open>visits of the pre-printer\<close>

lemma grown_refl: "cache_ok s \<Longrightarrow> grown r k s s"
  by (simp add: grown_def)

lemma grown_trans: "grown r k s s1 \<Longrightarrow> grown r k s1 s2 \<Longrightarrow> grown r k s s2"
  unfolding grown_def by (elim conjE, intro conjI allI impI) (assumption | metis)+

lemma grown_mono: "grown r k s s' \<Longrightarrow> k \<le> l \<Longrightarrow> grown r l s s'"
  by (fastforce simp: grown_def)

lemma visits_mono: "visits pp r k p \<Longrightarrow> k \<le> l \<Longrightarrow> visits pp r l p"
  by (fastforce simp: visits_def intro: grown_mono split: sum.splits)

lemma visits_skip [pre_intros]: "visits pp r k skip"
  by (simp add: visits_def skip_def grown_refl)

lemma visits_seqA: "visits pp r k p \<Longrightarrow> visits pp r k q \<Longrightarrow> visits pp r k (seqA p q)"
  unfolding visits_def
proof (intro allI impI)
  fix s assume p: "\<forall>s. cache_ok s \<longrightarrow> (case p s of Inl x \<Rightarrow> callback_stop pp x | Inr s' \<Rightarrow> grown r k s s')"
    and q: "\<forall>s. cache_ok s \<longrightarrow> (case q s of Inl x \<Rightarrow> callback_stop pp x | Inr s' \<Rightarrow> grown r k s s')"
    and s: "cache_ok s"
  show "case seqA p q s of Inl x \<Rightarrow> callback_stop pp x | Inr s' \<Rightarrow> grown r k s s'"
  proof (cases "p s")
    case (Inr s1)
    with p s have 1: "grown r k s s1" by fastforce
    then have "cache_ok s1" by (simp add: grown_def)
    with q 1 Inr grown_trans [OF 1] show ?thesis by (auto simp: seqA_def split: sum.split dest!: spec [of _ s1])
  qed (use p s in \<open>fastforce simp: seqA_def\<close>)
qed

lemma visits_seqP [pre_intros]: "(\<And>p. p \<in> set ps \<Longrightarrow> visits pp r k p) \<Longrightarrow> visits pp r k (seqP ps)"
  by (induction ps) (auto intro: visits_skip visits_seqA)

lemma visits_opt [pre_intros]:
  "(\<And>x. p = Some x \<Longrightarrow> visits pp r k (f x)) \<Longrightarrow> visits pp r k (visit_opt f p)"
  by (cases p) (auto simp: visit_opt_def visits_skip)

lemma cache_ok_pprint [simp]: "cache_ok (s\<lparr>pprint := q\<rparr>) = cache_ok s"
  by (simp add: cache_ok_def)

lemma VisitName_visits [pre_intros]: "visits pp r k (VisitName pp d)"
  unfolding visits_def
proof (intro allI impI)
  fix s assume ok: "cache_ok s"
  let ?c = "names_nc (pcache s)"
  show "case VisitName pp d s of Inl x \<Rightarrow> callback_stop pp x | Inr s' \<Rightarrow> grown r k s s'"
  proof (cases "name_num s d = 0")
    case True
    obtain n c1 where f: "nc_fresh ?c = (n, c1)" by (cases "nc_fresh ?c")
    from nc.memo_total [OF _ True f] ok obtain c2 where
      c2: "nc_store d n c1 = Inr c2" "nc_ok c2" "nc_lookup c2 d = n"
        "\<forall>j. j \<noteq> d \<longrightarrow> nc_lookup c2 j = nc_lookup ?c j"
      by (auto simp: cache_ok_def)
    have g: "grown r k s (s\<lparr>pprint := q, pcache := (pcache s)\<lparr>names_nc := c2\<rparr>\<rparr>)" for q
      using ok c2 True by (auto simp: grown_def cache_ok_def) (metis less_not_refl)
    show ?thesis
    proof (cases "name_printer pp ((pcache s)\<lparr>names_nc := c1\<rparr>) NAME_PREFIX n d (pprint s)")
      case (Inl x)
      then have "callback_stop pp x" unfolding callback_stop_def by blast
      with Inl show ?thesis
        by (simp add: VisitName_def True fresh_name_def f run_printer_def run_defs)
    next
      case (Inr q)
      with g [of q] c2(1) show ?thesis
        by (simp add: VisitName_def True fresh_name_def f run_printer_def run_defs store_name_def)
    qed
  qed (use ok in \<open>simp add: VisitName_def grown_refl\<close>)
qed

text \<open>Defining a type that has no number yet.\<close>

lemma define_type_grown:
  assumes ok: "cache_ok s" and new: "type_num s t = 0" and "r (TT t) < k"
  shows "case define_type pp t s of Inl x \<Rightarrow> callback_stop pp x | Inr s' \<Rightarrow> grown r k s s'"
proof -
  let ?c = "types_nc (pcache s)"
  obtain n c1 where f: "nc_fresh ?c = (n, c1)" by (cases "nc_fresh ?c")
  from nc.memo_total [OF _ new f] ok obtain c2 where
    c2: "nc_store t n c1 = Inr c2" "nc_ok c2" "nc_lookup c2 t = n"
      "\<forall>j. j \<noteq> t \<longrightarrow> nc_lookup c2 j = nc_lookup ?c j"
    by (auto simp: cache_ok_def)
  have g: "grown r k s (s\<lparr>pprint := q, pcache := (pcache s)\<lparr>types_nc := c2\<rparr>\<rparr>)" for q
    using ok c2 new assms(3) by (auto simp: grown_def cache_ok_def) (metis less_not_refl)+
  show ?thesis
  proof (cases "type_printer pp ((pcache s)\<lparr>types_nc := c1\<rparr>) TYPE_PREFIX n t (pprint s)")
    case (Inl x)
    then have "callback_stop pp x" unfolding callback_stop_def by blast
    with Inl show ?thesis by (simp add: define_type_def fresh_type_def f run_printer_def run_defs)
  next
    case (Inr q)
    with g [of q] c2(1) show ?thesis
      by (simp add: define_type_def fresh_type_def f run_printer_def run_defs store_type_def)
  qed
qed

section \<open>Every handler keeps the contract\<close>

text \<open>The methods of the table visit what has a rank below \<open>k\<close>.\<close>

definition methods_visit :: "PrePrint \<Rightarrow> (target \<Rightarrow> nat) \<Rightarrow> nat \<Rightarrow> bool" where
  "methods_visit pp r k \<longleftrightarrow>
     (\<forall>t. r (TT t) < k \<longrightarrow> visits pp r k (visit_type pp t))
     \<and> (\<forall>e. r (TE e) < k \<longrightarrow> visits pp r k (visit_expr pp e))
     \<and> (\<forall>st. r (TS st) < k \<longrightarrow> visits pp r k (visit_stmt pp st))"

lemma visit_methods:
  assumes "methods_visit pp r k"
  shows "r (TT t) < k \<Longrightarrow> visits pp r k (visit_type pp t)"
    "r (TE e) < k \<Longrightarrow> visits pp r k (visit_expr pp e)"
    "r (TS st) < k \<Longrightarrow> visits pp r k (visit_stmt pp st)"
  using assms by (simp_all add: methods_visit_def)

lemma visit_qual_visits:
  "methods_visit pp r k \<Longrightarrow> \<forall>c \<in> set (qual_target q). r c < k \<Longrightarrow> visits pp r k (visit_qual pp q)"
  by (auto simp: visit_qual_def visit_opt_def visits_skip visit_methods split: option.split)

lemma visit_opt_visits:
  assumes "methods_visit pp r k"
  shows "\<forall>c \<in> set (opt_target TE p). r c < k \<Longrightarrow> visits pp r k (visit_opt (visit_expr pp) p)"
    "\<forall>c \<in> set (opt_target TS p). r c < k \<Longrightarrow> visits pp r k (visit_opt (visit_stmt pp) p)"
  using assms by (auto simp: visit_opt_def visits_skip visit_methods split: option.split)

lemma VisitFromDecl_visits:
  "methods_visit pp r k \<Longrightarrow> \<forall>c \<in> set (init_targets (pre_context pp) d). r c < k \<Longrightarrow>
   visits pp r k (VisitFromDecl pp d)"
  by (auto simp: VisitFromDecl_def init_targets_def visits_skip visit_opt_def visit_methods split: option.splits)

lemma visits_stmt_dispatch:
  assumes m: "methods_visit pp r k" and c: "\<forall>c \<in> set (stmt_targets (pre_context pp) st node). r c < k"
  shows "visits pp r k (pre_stmt_dispatch pp st node)"
  using c
  by (cases node)
    (auto simp: pre_VisitCompoundStmt_def pre_VisitReturnStmt_def pre_VisitWhileStmt_def
      pre_VisitDoStmt_def pre_VisitForStmt_def pre_VisitIfStmt_def visit_methods [OF m]
      simp del: seqP.simps
      intro!: visits_seqP visits_skip VisitFromDecl_visits [OF m] visit_opt_visits [OF m])

lemma visits_declref: "visits pp r k (pre_VisitDeclRefExpr pp d)"
  by (auto simp: pre_VisitDeclRefExpr_def Let_def VisitName_visits visits_skip split: option.split)

lemma visits_expr_dispatch:
  assumes m: "methods_visit pp r k" and c: "\<forall>c \<in> set (expr_targets (pre_context pp) e node). r c < k"
    and q: "\<forall>c \<in> set (qual_target (expr_type (expr_of (pre_context pp) e))). r c < k"
  shows "visits pp r k (pre_expr_dispatch pp e node)"
proof -
  note t = visit_qual_visits [OF m q]
  show ?thesis
    using c
    by (cases node)
      (auto simp: pre_VisitBinaryOperator_def pre_VisitUnaryOperator_def pre_VisitCallExpr_def
        pre_VisitCXXMemberCallExpr_def pre_VisitCXXConstructExpr_def VisitCastExpr_def pre_VisitStmtExpr_def
        visit_methods [OF m] t visits_declref
        simp del: seqP.simps
        intro!: visits_seqP visits_skip visits_opt VisitName_visits)
qed

lemma visits_query:
  assumes "visits pp r k p"
  shows "\<forall>s. cache_ok s \<longrightarrow> (case returning p b s of Inl x \<Rightarrow> callback_stop pp x | Inr (d, s') \<Rightarrow> grown r k s s')"
  using assms by (auto simp: visits_def returning_def split: sum.splits)

lemma visits_type_dispatch:
  assumes m: "methods_visit pp r k" and c: "\<forall>c \<in> set (type_targets node). r c < k" and s: "cache_ok s"
  shows "case pre_type_dispatch pp node s of Inl x \<Rightarrow> callback_stop pp x | Inr (d, s') \<Rightarrow> grown r k s s'"
proof -
  note q = visit_qual_visits [OF m]
  note v = visits_query [of pp r k, THEN spec, THEN mp, OF _ s]
  have f: "case pre_VisitFunctionProtoType pp ret params s of
      Inl x \<Rightarrow> callback_stop pp x | Inr (d, s') \<Rightarrow> grown r k s s'"
    if "\<forall>c \<in> set (concat (map qual_target params) @ qual_target ret). r c < k" for ret params
  proof -
    have "visits pp r k (visit_qual pp x)" if "x \<in> set params" for x
      by (rule q) (use \<open>x \<in> set params\<close> \<open>\<forall>c \<in> set (concat (map qual_target params) @ qual_target ret). r c < k\<close> in fastforce)
    moreover have "visits pp r k (visit_qual pp ret)" by (rule q) (use that in auto)
    ultimately have "visits pp r k (seqA (seqP (map (visit_qual pp) params)) (visit_qual pp ret))"
      by (auto intro!: visits_seqA visits_seqP simp del: seqP.simps)
    from visits_query [OF this, of True] s show ?thesis
      by (simp add: pre_VisitFunctionProtoType_def VisitFunctionType_def returning_def seqA_def split: sum.splits)
  qed
  show ?thesis
    using c
    by (cases node)
      (auto simp: pre_VisitSubstTemplateTypeParmType_def pre_VisitElaboratedType_def VisitTagType_def
        VisitReferenceType_def pre_VisitPointerType_def VisitArrayType_def pre_VisitVariableArrayType_def
        pre_VisitDecayedType_def VisitFunctionType_def pre_VisitType_def visit_methods [OF m]
        simp del: seqP.simps
        intro!: v f q visits_seqP visits_skip VisitName_visits)
qed

section \<open>Levels\<close>

lemma mk_PrePrint_fields [simp]:
  "pre_context (mk_PrePrint n ctx type_fn name_fn) = ctx"
  "type_printer (mk_PrePrint n ctx type_fn name_fn) = type_fn"
  "name_printer (mk_PrePrint n ctx type_fn name_fn) = name_fn"
  by (cases n; simp add: Let_def mk_PrePrint.simps)+

lemma visits_same_callbacks:
  assumes "type_printer pp = type_printer pp'" and "name_printer pp = name_printer pp'"
  shows "visits pp r k p = visits pp' r k p"
proof -
  have "callback_stop pp = callback_stop pp'" by (rule ext) (simp add: callback_stop_def assms)
  then show ?thesis by (simp only: visits_def)
qed

lemma mk_PrePrint_methods:
  "visit_type (mk_PrePrint (Suc n) ctx tf nf) = pre_Visit_type (mk_PrePrint n ctx tf nf)"
  "visit_expr (mk_PrePrint (Suc n) ctx tf nf) = pre_Visit_expr (mk_PrePrint n ctx tf nf)"
  "visit_stmt (mk_PrePrint (Suc n) ctx tf nf) = pre_Visit_stmt (mk_PrePrint n ctx tf nf)"
  by (simp_all add: Let_def mk_PrePrint.simps)

lemma visits_Suc: "visits (mk_PrePrint (Suc n) ctx tf nf) r k p = visits (mk_PrePrint n ctx tf nf) r k p"
  by (rule visits_same_callbacks) simp_all


lemma visits_Visit_type:
  assumes m: "methods_visit pp r (r (TT t))"
    and c: "\<forall>c \<in> set (type_targets (type_node (type_of (pre_context pp) t))). r c < r (TT t)"
  shows "visits pp r (Suc (r (TT t))) (pre_Visit_type pp t)"
  unfolding visits_def
proof (intro allI impI)
  fix s assume ok: "cache_ok s"
  let ?q = "pre_type_dispatch pp (type_node (type_of (pre_context pp) t))"
  note d = visits_type_dispatch [OF m c ok]
  show "case pre_Visit_type pp t s of Inl x \<Rightarrow> callback_stop pp x | Inr s' \<Rightarrow> grown r (Suc (r (TT t))) s s'"
  proof (cases "type_num s t = 0")
    case True
    show ?thesis
    proof (cases "?q s")
      case (Inl x)
      with d True show ?thesis by (simp add: pre_Visit_type_def bindQ_def)
    next
      case (Inr bs)
      obtain b s1 where bs: "bs = (b, s1)" by (cases bs)
      with d Inr have g: "grown r (r (TT t)) s s1" by simp
      then have ok1: "cache_ok s1" and new: "type_num s1 t = 0"
        using True g unfolding grown_def by (simp, metis less_irrefl)
      have g': "grown r (Suc (r (TT t))) s s1" by (rule grown_mono [OF g]) simp
      from define_type_grown [OF ok1 new, of r "Suc (r (TT t))" pp] show ?thesis
        using True Inr bs g' by (auto simp: pre_Visit_type_def bindQ_def skip_def split: sum.split intro: grown_trans)
    qed
  qed (use ok in \<open>simp add: pre_Visit_type_def grown_refl\<close>)
qed

lemma methods_visit_below:
  assumes IH: "\<forall>t. r (TT t) < n \<longrightarrow> visits pp r (Suc (r (TT t))) (visit_type pp t)"
    "\<forall>e. r (TE e) < n \<longrightarrow> visits pp r (r (TE e)) (visit_expr pp e)"
    "\<forall>st. r (TS st) < n \<longrightarrow> visits pp r (r (TS st)) (visit_stmt pp st)" and "k \<le> n"
  shows "methods_visit pp r k"
  unfolding methods_visit_def
proof (intro conjI allI impI)
  fix t assume t: "r (TT t) < k"
  then have "r (TT t) < n" using \<open>k \<le> n\<close> by simp
  from visits_mono [OF IH(1) [rule_format, OF this]] t show "visits pp r k (visit_type pp t)" by simp
next
  fix e assume e: "r (TE e) < k"
  then have "r (TE e) < n" using \<open>k \<le> n\<close> by simp
  from visits_mono [OF IH(2) [rule_format, OF this]] e show "visits pp r k (visit_expr pp e)" by simp
next
  fix st assume st: "r (TS st) < k"
  then have "r (TS st) < n" using \<open>k \<le> n\<close> by simp
  from visits_mono [OF IH(3) [rule_format, OF this]] st show "visits pp r k (visit_stmt pp st)" by simp
qed

lemma visits_levels:
  assumes r: "ranked ctx r"
  shows "(\<forall>t. r (TT t) < n \<longrightarrow> visits (mk_PrePrint n ctx tf nf) r (Suc (r (TT t))) (visit_type (mk_PrePrint n ctx tf nf) t))
    \<and> (\<forall>e. r (TE e) < n \<longrightarrow> visits (mk_PrePrint n ctx tf nf) r (r (TE e)) (visit_expr (mk_PrePrint n ctx tf nf) e))
    \<and> (\<forall>st. r (TS st) < n \<longrightarrow> visits (mk_PrePrint n ctx tf nf) r (r (TS st)) (visit_stmt (mk_PrePrint n ctx tf nf) st))"
proof (induction n)
  case (Suc n)
  let ?p = "mk_PrePrint n ctx tf nf"
  have m: "methods_visit ?p r k" if "k \<le> n" for k
    using methods_visit_below [OF _ _ _ that, of r ?p] Suc by blast
  have t: "visits ?p r (Suc (r (TT t))) (pre_Visit_type ?p t)" if "r (TT t) \<le> n" for t
    using visits_Visit_type [OF m [OF that]] r by (simp add: ranked_def)
  have e: "visits ?p r (r (TE e)) (pre_Visit_expr ?p e)" if "r (TE e) \<le> n" for e
  proof -
    have c: "\<forall>c \<in> set (qual_target (expr_type (expr_of ctx e)) @ expr_targets ctx e (expr_node (expr_of ctx e))). r c < r (TE e)"
      using r unfolding ranked_def by blast
    have "visits ?p r (r (TE e)) (pre_expr_dispatch ?p e (expr_node (expr_of ctx e)))"
      by (rule visits_expr_dispatch [OF m [OF that]]) (use c in auto)
    moreover have "visits ?p r (r (TE e)) (visit_qual ?p (expr_type (expr_of ctx e)))"
      by (rule visit_qual_visits [OF m [OF that]]) (use c in auto)
    ultimately show ?thesis
      unfolding pre_Visit_expr_def by (auto simp: Let_def simp del: seqP.simps intro!: visits_seqP)
  qed
  have st: "visits ?p r (r (TS st)) (pre_Visit_stmt ?p st)" if "r (TS st) \<le> n" for st
    unfolding pre_Visit_stmt_def
    by (rule visits_stmt_dispatch [OF m [OF that]]) (use r in \<open>simp add: ranked_def\<close>)
  show ?case
    unfolding visits_Suc mk_PrePrint_methods using t e st by (simp add: less_Suc_eq_le)
qed simp

section \<open>Declarations\<close>

lemma visits_params: "methods_visit pp r k \<Longrightarrow> \<forall>x. r x < k \<Longrightarrow> visits pp r k (visit_qual pp q)"
  by (rule visit_qual_visits) simp_all

lemma visits_FunctionDecl:
  assumes "methods_visit pp r k" and "\<forall>x. r x < k"
  shows "visits pp r k (pre_VisitFunctionDecl pp d)"
  using visits_params [OF assms] visit_methods [OF assms(1)] assms(2)
  by (auto simp: pre_VisitFunctionDecl_def Let_def simp del: seqP.simps
      intro!: visits_seqP visits_opt VisitName_visits)

lemma visits_ConstructorDecl:
  assumes "methods_visit pp r k" and "\<forall>x. r x < k" and "None \<notin> set (inits (body_of (pre_context pp) d))"
  shows "visits pp r k (pre_VisitCXXConstructorDecl pp d)"
  using visits_FunctionDecl [OF assms(1,2)] visit_methods [OF assms(1)] assms(2,3)
  by (auto simp: pre_VisitCXXConstructorDecl_def simp del: seqP.simps
      intro!: visits_seqP visits_opt split: option.split)

lemma visits_RecordDecl:
  assumes "methods_visit pp r k" and "\<forall>x. r x < k"
  shows "visits pp r k (VisitRecordDecl pp d)"
  using visits_params [OF assms]
  by (auto simp: VisitRecordDecl_def Let_def simp del: seqP.simps intro!: visits_seqP VisitName_visits)

lemma visits_Visit_decl:
  assumes "methods_visit pp r k" and "\<forall>x. r x < k" and "None \<notin> set (inits (body_of (pre_context pp) d))"
  shows "visits pp r k (pre_Visit_decl pp d)"
  unfolding pre_Visit_decl_def
  using dispatch_cases [of "[(VarDecl, pre_VisitVarDecl pp d), (FunctionDecl, pre_VisitFunctionDecl pp d),
      (CXXConstructorDecl, pre_VisitCXXConstructorDecl pp d), (RecordDecl, VisitRecordDecl pp d)]" skip
      "getKind (decl (pre_context pp) d)"]
    visits_FunctionDecl [OF assms(1,2)] visits_ConstructorDecl [OF assms] visits_RecordDecl [OF assms(1,2)]
    visits_params [OF assms(1,2)]
  by (auto simp: pre_VisitVarDecl_def visits_skip)

text \<open>
  C14. When the AST has a finite depth, \<open>prePrintDecl\<close> with that many levels ends with a consistent cache in which all
  earlier numbers are kept: the assertion of \<open>store\<close> cannot fail and no type or name is defined twice.  It
  only stops where one of the callbacks that write a definition stops.
\<close>

theorem prePrintDecl_total:
  assumes "ranked ctx r" and "\<forall>x. r x < fuel" and "None \<notin> set (inits (body_of ctx d))" and "cache_ok s"
  shows "case prePrintDecl fuel ctx type_fn name_fn d s of
      Inl x \<Rightarrow> \<exists>c p n y s. type_fn c p n y s = Inl x \<or> name_fn c p n y s = Inl x
    | Inr s' \<Rightarrow> cache_ok s' \<and> (\<forall>t. type_num s t \<noteq> 0 \<longrightarrow> type_num s' t = type_num s t)
        \<and> (\<forall>e. name_num s e \<noteq> 0 \<longrightarrow> name_num s' e = name_num s e)"
proof -
  let ?p = "mk_PrePrint fuel ctx type_fn name_fn"
  have "methods_visit ?p r fuel"
    using visits_levels [OF assms(1), of fuel type_fn name_fn] by (intro methods_visit_below [where n = fuel]) auto
  then have "visits ?p r fuel (pre_Visit_decl ?p d)"
    by (rule visits_Visit_decl) (use assms(2,3) in simp_all)
  with assms(4) show ?thesis
    by (fastforce simp: prePrintDecl_def visits_def callback_stop_def grown_def split: sum.split)
qed

text \<open>A variable (0) of type pointer (1) to \<open>int\<close> (0); the callbacks write nothing.\<close>

theorem prePrintDecl_total_witness:
  "let ctx = ast0\<lparr>decl := (\<lambda>d. (decl0 d)\<lparr>getKind := VarDecl\<rparr>),
                  type_of := (\<lambda>t. type0\<lparr>type_node := (if t = 1 then PointerType (qual0 0) else BuiltinType BT_Int)\<rparr>),
                  named_of := (\<lambda>d. named0\<lparr>getType := qual0 1\<rparr>)\<rparr>;
       s = \<lparr>pcache = Cache_init, pprint = pstate_init\<rparr>
   in case prePrintDecl 5 ctx (\<lambda>c p n t. skip) (\<lambda>c p n d. skip) 0 s of
        Inl x \<Rightarrow> False | Inr s' \<Rightarrow> cache_ok s' \<and> type_num s' 1 = 2 \<and> type_num s' 0 = 0"
  (is "let ctx = ?ctx; s = ?s in _")
proof -
  let ?r = "(\<lambda>x. case x of TT t \<Rightarrow> (if t = 1 then 1 else 0) | TE e \<Rightarrow> 2 | TS st \<Rightarrow> 3) :: target \<Rightarrow> nat"
  have r: "ranked ?ctx ?r"
    by (simp add: ranked_def ast0_def type0_def expr0_def qual0_def)
  have b: "\<forall>x. ?r x < 5" by (simp split: target.split)
  have i: "None \<notin> set (inits (body_of ?ctx 0))" by (simp add: ast0_def body0_def)
  have s: "cache_ok ?s" by (simp add: cache_ok_def Cache_init_def nc_ok_init)
  have e: "case prePrintDecl 5 ?ctx (\<lambda>c p n t. skip) (\<lambda>c p n d. skip) 0 ?s of
      Inl x \<Rightarrow> False | Inr s' \<Rightarrow> type_num s' 1 = 2 \<and> type_num s' 0 = 0" by code_simp
  from prePrintDecl_total [OF r b i s, of "\<lambda>c p n t. skip" "\<lambda>c p n d. skip"] e show ?thesis
    by (auto simp: Let_def split: sum.splits)
qed

end
