(* ===== verification/PrePrintSearch.thy ===== *)
theory PrePrintSearch
  imports PrePrintProps
begin

text \<open>
  What the pre-printer is for: a depth-first search of the graph of types, expressions and statements, which lists the types
  and names to be shared after everything they need.  The visitor with its cache refines this search: the cache represents
  the list of what has been found, in the order of its numbers.
\<close>

section \<open>The graph\<close>

datatype item = Node target | Named ptr

abbreviation nodes :: "target list \<Rightarrow> item list" where
  "nodes \<equiv> map Node"

definition name_items :: "ptr option \<Rightarrow> item list" where
  "name_items d = (case d of None \<Rightarrow> [] | Some x \<Rightarrow> [Named x])"

fun type_items :: "type_node \<Rightarrow> item list" where
  "type_items (EnumType d) = [Named d]"
| "type_items (RecordType d) = [Named d]"
| "type_items t = nodes (type_targets t)"

text \<open>Local variables have no name of their own.\<close>

definition ref_items :: "ASTContext \<Rightarrow> ptr option \<Rightarrow> item list" where
  "ref_items ctx r =
     (case r of
        None \<Rightarrow> []
      | Some d \<Rightarrow>
          if isaD ctx VarDecl d \<and> \<not> isStaticLocal (decl ctx d) \<and> \<not> isStaticDataMember (naming_of ctx d)
             \<and> (\<exists>c. getDeclContext (named_of ctx d) = Some c \<and> isFunctionOrMethod (named_of ctx c))
          then [] else [Named d])"

fun expr_items :: "ASTContext \<Rightarrow> ptr \<Rightarrow> expr_node \<Rightarrow> item list" where
  "expr_items ctx e (DeclRefExpr d r) = ref_items ctx d"
| "expr_items ctx e (CXXMemberCallExpr f m obj args) =
     name_items (getMethodDecl ctx f m) @ nodes (expr_targets ctx e (CXXMemberCallExpr f m obj args))"
| "expr_items ctx e (CXXConstructExpr c args) = Named c # nodes (expr_targets ctx e (CXXConstructExpr c args))"
| "expr_items ctx e (ExplicitCastExpr k ck x q path) = nodes (TE x # qual_target (expr_type (expr_of ctx e)))"
| "expr_items ctx e (ImplicitCastExpr ck x path) = nodes (TE x # qual_target (expr_type (expr_of ctx e)))"
| "expr_items ctx e node = nodes (expr_targets ctx e node)"

fun needs :: "ASTContext \<Rightarrow> item \<Rightarrow> item list" where
  "needs ctx (Node (TT t)) = type_items (type_node (type_of ctx t))"
| "needs ctx (Node (TE e)) =
     nodes (qual_target (expr_type (expr_of ctx e))) @ expr_items ctx e (expr_node (expr_of ctx e))"
| "needs ctx (Node (TS st)) = nodes (stmt_targets ctx st (stmt_of ctx st))"
| "needs ctx (Named d) = []"

text \<open>What gets a definition of its own.\<close>

fun shared_type :: "type_node \<Rightarrow> bool" where
  "shared_type (EnumType d) = True"
| "shared_type (RecordType d) = True"
| "shared_type (LValueReferenceType q) = True"
| "shared_type (RValueReferenceType q) = True"
| "shared_type (PointerType q) = True"
| "shared_type (ConstantArrayType q n) = True"
| "shared_type (IncompleteArrayType q) = True"
| "shared_type (DependentSizedArrayType q e) = True"
| "shared_type (FunctionProtoType cc v ret params) = True"
| "shared_type (FunctionNoProtoType cc ret) = True"
| "shared_type t = False"

fun shareable :: "ASTContext \<Rightarrow> item \<Rightarrow> bool" where
  "shareable ctx (Node (TT t)) = shared_type (type_node (type_of ctx t))"
| "shareable ctx (Node x) = False"
| "shareable ctx (Named d) = True"

section \<open>The search\<close>

text \<open>
  \<open>search ctx xs l l'\<close>: with \<open>l\<close> found so far, the search from the items \<open>xs\<close> ends with \<open>l'\<close>.
\<close>

inductive search :: "ASTContext \<Rightarrow> item list \<Rightarrow> item list \<Rightarrow> item list \<Rightarrow> bool" for ctx where
  search_done: "search ctx [] l l"
| search_seen: "x \<in> set l \<Longrightarrow> search ctx xs l l' \<Longrightarrow> search ctx (x # xs) l l'"
| search_found: "x \<notin> set l \<Longrightarrow> search ctx (needs ctx x) l l1 \<Longrightarrow> shareable ctx x \<Longrightarrow> x \<notin> set l1 \<Longrightarrow>
    search ctx xs (l1 @ [x]) l' \<Longrightarrow> search ctx (x # xs) l l'"
| search_passed: "\<not> shareable ctx x \<Longrightarrow> search ctx (needs ctx x) l l1 \<Longrightarrow> search ctx xs l1 l' \<Longrightarrow>
    search ctx (x # xs) l l'"

lemma search_append: "search ctx xs l l1 \<Longrightarrow> search ctx ys l1 l2 \<Longrightarrow> search ctx (xs @ ys) l l2"
  by (induction rule: search.induct) (auto intro: search.intros)

lemma search_grows: "search ctx xs l l' \<Longrightarrow> \<exists>m. l' = l @ m"
  by (induction rule: search.induct) auto

lemma search_subset: "search ctx xs l l' \<Longrightarrow> set l \<subseteq> set l'"
  by (auto dest: search_grows)

definition reaches :: "ASTContext \<Rightarrow> item \<Rightarrow> item \<Rightarrow> bool" where
  "reaches ctx = (\<lambda>x y. y \<in> set (needs ctx x))\<^sup>*\<^sup>*"

lemma search_sound:
  "search ctx xs l l' \<Longrightarrow> y \<in> set l' \<Longrightarrow> y \<in> set l \<or> (shareable ctx y \<and> (\<exists>x \<in> set xs. reaches ctx x y))"
proof (induction rule: search.induct)
  case (search_found x l l1 xs l')
  have "reaches ctx x y" if "z \<in> set (needs ctx x)" "reaches ctx z y" for z
    using that unfolding reaches_def by (blast intro: converse_rtranclp_into_rtranclp)
  moreover have "reaches ctx x x" by (simp add: reaches_def)
  ultimately show ?case using search_found by fastforce
next
  case (search_passed x l l1 xs l')
  have "reaches ctx x y" if "z \<in> set (needs ctx x)" "reaches ctx z y" for z
    using that unfolding reaches_def by (blast intro: converse_rtranclp_into_rtranclp)
  then show ?case using search_passed by fastforce
qed auto

text \<open>An item is covered when it is found or, if it is not shared, everything it needs is.\<close>

inductive covered :: "ASTContext \<Rightarrow> item list \<Rightarrow> item \<Rightarrow> bool" for ctx l where
  "x \<in> set l \<Longrightarrow> covered ctx l x"
| "\<not> shareable ctx x \<Longrightarrow> \<forall>y \<in> set (needs ctx x). covered ctx l y \<Longrightarrow> covered ctx l x"

lemma covered_mono: "covered ctx l x \<Longrightarrow> set l \<subseteq> set l' \<Longrightarrow> covered ctx l' x"
  by (induction rule: covered.induct) (auto intro: covered.intros)

lemma covered_shareable: "shareable ctx x \<Longrightarrow> covered ctx l x \<Longrightarrow> x \<in> set l"
  by (auto elim: covered.cases)

text \<open>Every item of the list stands after what it needs.\<close>

definition ordered :: "ASTContext \<Rightarrow> item list \<Rightarrow> bool" where
  "ordered ctx l \<longleftrightarrow> (\<forall>a x b. l = a @ x # b \<longrightarrow> (\<forall>y \<in> set (needs ctx x). covered ctx a y))"

lemma ordered_snoc:
  assumes "ordered ctx l" and "\<forall>y \<in> set (needs ctx x). covered ctx l y"
  shows "ordered ctx (l @ [x])"
  unfolding ordered_def
proof (intro allI impI)
  fix a z b assume "l @ [x] = a @ z # b"
  then consider "b = []" "z = x" "a = l" | b' where "b = b' @ [x]" "l = a @ z # b'"
    by (cases b rule: rev_cases) auto
  then show "\<forall>y \<in> set (needs ctx z). covered ctx a y"
    using assms unfolding ordered_def by cases blast+
qed

lemma search_covers:
  "search ctx xs l l' \<Longrightarrow> ordered ctx l \<Longrightarrow> ordered ctx l' \<and> (\<forall>x \<in> set xs. covered ctx l' x)"
proof (induction rule: search.induct)
  case (search_seen x l xs l')
  then show ?case using search_subset by (fastforce intro: covered.intros(1))
next
  case (search_found x l l1 xs l')
  then have "ordered ctx (l1 @ [x])" by (auto intro: ordered_snoc)
  then show ?case using search_found search_subset [of ctx xs "l1 @ [x]" l'] by (fastforce intro: covered.intros(1))
next
  case (search_passed x l l1 xs l')
  then have "covered ctx l1 x" by (auto intro: covered.intros(2))
  then show ?case using search_passed search_subset [of ctx xs l1 l'] covered_mono by fastforce
qed auto

lemma reaches_covered:
  assumes "ordered ctx l" and "covered ctx l x" and "reaches ctx x y"
  shows "covered ctx l y"
  using assms(3) unfolding reaches_def
proof (induction rule: rtranclp_induct)
  case base
  show ?case by (rule assms(2))
next
  case (step y z)
  from step.IH show ?case
  proof (cases rule: covered.cases)
    case 1
    then obtain a b where "l = a @ y # b" by (meson split_list)
    with assms(1) step.hyps(2) show ?thesis unfolding ordered_def by (fastforce intro: covered_mono)
  qed (use step.hyps in blast)
qed

text \<open>From an empty list the search finds exactly what is shared and reachable.\<close>

lemma search_exact:
  assumes "search ctx xs [] l"
  shows "set l = {y. shareable ctx y \<and> (\<exists>x \<in> set xs. reaches ctx x y)}"
proof -
  have o: "ordered ctx l" "\<forall>x \<in> set xs. covered ctx l x"
    using search_covers [OF assms] by (simp_all add: ordered_def)
  show ?thesis
    using search_sound [OF assms] reaches_covered [OF o(1)] o(2) covered_shareable by fastforce
qed

end
