(* ===== verification/PrePrintRelation.thy ===== *)
theory PrePrintRelation
  imports PrePrintProps
begin

text \<open>
  What holds between the state before and after a visit of the pre-printer, without any assumption about the AST: the
  interface is a relation on states that the two places keep where a definition is written.
\<close>

section \<open>The interface\<close>

text \<open>\<open>keeps R E p\<close>: \<open>p\<close> relates its states by \<open>R\<close> or stops with an \<open>E\<close>.\<close>

definition keeps :: "('s \<Rightarrow> 's \<Rightarrow> bool) \<Rightarrow> (stop \<Rightarrow> bool) \<Rightarrow> 's action \<Rightarrow> bool" where
  "keeps R E p \<longleftrightarrow> (\<forall>s. case p s of Inl x \<Rightarrow> E x | Inr s' \<Rightarrow> R s s')"

definition keeps_query :: "('s \<Rightarrow> 's \<Rightarrow> bool) \<Rightarrow> (stop \<Rightarrow> bool) \<Rightarrow> ('s, 'a) query \<Rightarrow> bool" where
  "keeps_query R E p \<longleftrightarrow> (\<forall>s. case p s of Inl x \<Rightarrow> E x | Inr (b, s') \<Rightarrow> R s s')"

lemma keepsD: "keeps R E p \<Longrightarrow> p s = Inr s' \<Longrightarrow> R s s'" "keeps R E p \<Longrightarrow> p s = Inl x \<Longrightarrow> E x"
  by (auto simp: keeps_def dest: spec [of _ s])

definition define_name :: "PrePrint \<Rightarrow> ptr \<Rightarrow> pre" where
  "define_name pp d =
     fresh_name (\<lambda>n. seqP [run_printer (\<lambda>c. name_printer pp c NAME_PREFIX n d), store_name d n])"

lemma VisitName_define: "VisitName pp d s = (if name_num s d \<noteq> 0 then Inr s else define_name pp d s)"
  by (simp add: VisitName_def define_name_def)

locale visit_relation =
  fixes R :: "prestate \<Rightarrow> prestate \<Rightarrow> bool" and E :: "stop \<Rightarrow> bool" and type_fn name_fn :: definer
  assumes refl: "R s s"
    and trans: "R s s1 \<Longrightarrow> R s1 s2 \<Longrightarrow> R s s2"
    and stops: "E OutOfFuel" "E (AssertionFailed ''null initializer'')"
    and define_type: "type_printer pp = type_fn \<Longrightarrow> keeps R E (define_type pp t)"
    and define_name: "name_printer pp = name_fn \<Longrightarrow> keeps R E (define_name pp d)"
begin

lemma keeps_skip: "keeps R E skip"
  by (simp add: keeps_def skip_def refl)

lemma keeps_seqA:
  assumes p: "keeps R E p" and q: "keeps R E q"
  shows "keeps R E (seqA p q)"
  unfolding keeps_def
proof
  fix s
  show "case seqA p q s of Inl x \<Rightarrow> E x | Inr s' \<Rightarrow> R s s'"
  proof (cases "p s")
    case (Inl x)
    with keepsD(2) [OF p] show ?thesis by (simp add: seqA_def)
  next
    case (Inr s1)
    with keepsD(1) [OF p Inr] keepsD [OF q, of s1] trans show ?thesis
      by (auto simp: seqA_def split: sum.split)
  qed
qed

lemma keeps_seqP: "(\<And>p. p \<in> set ps \<Longrightarrow> keeps R E p) \<Longrightarrow> keeps R E (seqP ps)"
  by (induction ps) (auto intro: keeps_skip keeps_seqA)

lemma keeps_opt: "(\<And>x. keeps R E (f x)) \<Longrightarrow> keeps R E (visit_opt f p)"
  by (cases p) (auto simp: visit_opt_def keeps_skip)

lemma keeps_VisitName: "name_printer pp = name_fn \<Longrightarrow> keeps R E (VisitName pp d)"
  using define_name [of pp d] by (auto simp: keeps_def VisitName_define refl)

lemma keeps_returning: "keeps R E p \<Longrightarrow> keeps_query R E (returning p b)"
  by (auto simp: keeps_def keeps_query_def returning_def split: sum.splits)

section \<open>Handlers\<close>

definition methods_keep :: "PrePrint \<Rightarrow> bool" where
  "methods_keep pp \<longleftrightarrow> type_printer pp = type_fn \<and> name_printer pp = name_fn
     \<and> (\<forall>t. keeps R E (visit_type pp t)) \<and> (\<forall>e. keeps R E (visit_expr pp e))
     \<and> (\<forall>st. keeps R E (visit_stmt pp st))"

lemma keeps_methods:
  assumes "methods_keep pp"
  shows "keeps R E (visit_type pp t)" "keeps R E (visit_expr pp e)" "keeps R E (visit_stmt pp st)"
    "keeps R E (visit_qual pp q)" "keeps R E (VisitName pp d)" "keeps R E (visit_opt (visit_expr pp) o1)"
    "keeps R E (visit_opt (visit_stmt pp) o2)" "keeps R E (VisitFromDecl pp o3)"
    "keeps R E (visit_opt (VisitName pp) o4)"
  using assms
  by (auto simp: methods_keep_def visit_qual_def VisitFromDecl_def keeps_skip
      intro!: keeps_opt keeps_VisitName split: option.split)

lemmas keeps_rules = keeps_skip keeps_seqP keeps_returning

lemma keeps_stmt: "methods_keep pp \<Longrightarrow> keeps R E (pre_Visit_stmt pp st)"
  unfolding pre_Visit_stmt_def
  by (cases "stmt_of (pre_context pp) st")
    (auto simp: pre_VisitCompoundStmt_def pre_VisitReturnStmt_def pre_VisitWhileStmt_def
      pre_VisitDoStmt_def pre_VisitForStmt_def pre_VisitIfStmt_def keeps_methods
      simp del: seqP.simps intro!: keeps_rules)

lemma keeps_declref: "methods_keep pp \<Longrightarrow> keeps R E (pre_VisitDeclRefExpr pp d)"
  by (auto simp: pre_VisitDeclRefExpr_def Let_def keeps_methods keeps_skip split: option.split)

lemma keeps_expr: "methods_keep pp \<Longrightarrow> keeps R E (pre_Visit_expr pp e)"
  unfolding pre_Visit_expr_def Let_def
  by (cases "expr_node (expr_of (pre_context pp) e)")
    (auto simp: pre_VisitBinaryOperator_def pre_VisitUnaryOperator_def pre_VisitCallExpr_def
        pre_VisitCXXMemberCallExpr_def pre_VisitCXXConstructExpr_def VisitCastExpr_def pre_VisitStmtExpr_def
        keeps_methods keeps_declref
      simp del: seqP.simps intro!: keeps_rules)

lemma keeps_proto:
  assumes "methods_keep pp"
  shows "keeps_query R E (pre_VisitFunctionProtoType pp ret params)"
proof -
  have "keeps R E (seqA (seqP (map (visit_qual pp) params)) (visit_qual pp ret))"
    using assms by (auto intro!: keeps_seqA keeps_seqP simp: keeps_methods simp del: seqP.simps)
  then show ?thesis
    by (auto simp: keeps_query_def keeps_def pre_VisitFunctionProtoType_def VisitFunctionType_def
        returning_def seqA_def split: sum.splits)
qed

lemma keeps_type_dispatch: "methods_keep pp \<Longrightarrow> keeps_query R E (pre_type_dispatch pp node)"
  by (cases node)
    (auto simp: pre_VisitSubstTemplateTypeParmType_def pre_VisitElaboratedType_def VisitTagType_def
        VisitReferenceType_def pre_VisitPointerType_def VisitArrayType_def pre_VisitVariableArrayType_def
        pre_VisitDecayedType_def VisitFunctionType_def pre_VisitType_def keeps_methods keeps_proto
      simp del: seqP.simps intro!: keeps_rules)

lemma keeps_type:
  assumes m: "methods_keep pp"
  shows "keeps R E (pre_Visit_type pp t)"
proof -
  let ?q = "pre_type_dispatch pp (type_node (type_of (pre_context pp) t))"
  have q: "case ?q s of Inl x \<Rightarrow> E x | Inr (b, s') \<Rightarrow> R s s'" for s
    using keeps_type_dispatch [OF m] unfolding keeps_query_def by blast
  have d: "keeps R E (define_type pp t)"
    using m by (intro define_type) (simp add: methods_keep_def)
  show ?thesis
    unfolding keeps_def
  proof
    fix s
    show "case pre_Visit_type pp t s of Inl x \<Rightarrow> E x | Inr s' \<Rightarrow> R s s'"
      using q [of s] keepsD [OF d] trans
      by (auto simp: pre_Visit_type_def bindQ_def skip_def refl split: sum.splits prod.splits)
  qed
qed

lemma methods_keep_levels: "methods_keep (mk_PrePrint n ctx type_fn name_fn)"
proof (induction n)
  case 0
  show ?case by (simp add: methods_keep_def mk_PrePrint.simps keeps_def stopA_def stops)
next
  case (Suc n)
  from keeps_type [OF Suc] keeps_expr [OF Suc] keeps_stmt [OF Suc] show ?case
    by (simp add: methods_keep_def mk_PrePrint_methods)
qed

lemma keeps_function: "methods_keep pp \<Longrightarrow> keeps R E (pre_VisitFunctionDecl pp d)"
  by (auto simp: pre_VisitFunctionDecl_def Let_def keeps_methods simp del: seqP.simps intro!: keeps_rules)

lemma keeps_null: "keeps R E (stopA (AssertionFailed ''null initializer''))"
  by (simp add: keeps_def stopA_def stops)

lemma keeps_constructor: "methods_keep pp \<Longrightarrow> keeps R E (pre_VisitCXXConstructorDecl pp d)"
  by (auto simp: pre_VisitCXXConstructorDecl_def keeps_methods keeps_function keeps_null
      simp del: seqP.simps intro!: keeps_seqP split: option.split)

lemma keeps_prePrintDecl: "keeps R E (prePrintDecl fuel ctx type_fn name_fn d)"
proof -
  let ?p = "mk_PrePrint fuel ctx type_fn name_fn"
  note m = methods_keep_levels [of fuel ctx]
  show ?thesis
    unfolding prePrintDecl_def pre_Visit_decl_def
    using dispatch_cases [of "[(VarDecl, pre_VisitVarDecl ?p d), (FunctionDecl, pre_VisitFunctionDecl ?p d),
        (CXXConstructorDecl, pre_VisitCXXConstructorDecl ?p d), (RecordDecl, VisitRecordDecl ?p d)]" skip
        "getKind (decl ctx d)"]
      keeps_function [OF m, of d] keeps_constructor [OF m, of d]
    by (auto simp: pre_VisitVarDecl_def VisitRecordDecl_def Let_def keeps_methods [OF m] keeps_skip
        simp del: seqP.simps intro!: keeps_seqP)
qed

end

end
