(* ===== verification/PrePrintRefine.thy ===== *)
theory PrePrintRefine
  imports PrePrintSearch PrePrintRelation
begin

text \<open>
  The pre-printer refines the search: whatever the callbacks write, the cache after a visit represents the list that the
  search ends with.
\<close>

section \<open>The abstraction\<close>

text \<open>\<open>numbered c ps\<close>: the pointers with a number in \<open>c\<close> are \<open>ps\<close>, and the numbers count from 2 on.\<close>

definition numbered :: "NameCache \<Rightarrow> ptr list \<Rightarrow> bool" where
  "numbered c ps \<longleftrightarrow> distinct ps \<and> next_num c = Suc (length ps)
     \<and> (\<forall>i < length ps. entries c (ps ! i) = Some (i + 2)) \<and> dom (entries c) = set ps"

fun item_type :: "item \<Rightarrow> ptr option" where
  "item_type (Node (TT t)) = Some t"
| "item_type x = None"

fun item_name :: "item \<Rightarrow> ptr option" where
  "item_name (Named d) = Some d"
| "item_name x = None"

definition represents :: "prestate \<Rightarrow> item list \<Rightarrow> bool" where
  "represents s l \<longleftrightarrow> numbered (types_nc (pcache s)) (List.map_filter item_type l)
     \<and> numbered (names_nc (pcache s)) (List.map_filter item_name l)"

lemma in_map_filter: "y \<in> set (List.map_filter f xs) \<longleftrightarrow> (\<exists>x \<in> set xs. f x = Some y)"
  by (auto simp: List.map_filter_def image_iff)

lemma item_type_Some: "item_type x = Some t \<longleftrightarrow> x = Node (TT t)"
  by (cases x rule: item_type.cases) auto

lemma item_name_Some: "item_name x = Some d \<longleftrightarrow> x = Named d"
  by (cases x) auto

lemma in_types: "t \<in> set (List.map_filter item_type l) \<longleftrightarrow> Node (TT t) \<in> set l"
  by (simp add: in_map_filter item_type_Some)

lemma in_names: "d \<in> set (List.map_filter item_name l) \<longleftrightarrow> Named d \<in> set l"
  by (simp add: in_map_filter item_name_Some)

lemma map_filter_snoc: "List.map_filter f (xs @ [x]) = List.map_filter f xs @ (case f x of None \<Rightarrow> [] | Some y \<Rightarrow> [y])"
  by (simp add: List.map_filter_def split: option.split)

lemma numbered_lookup: "numbered c ps \<Longrightarrow> nc_lookup c p \<noteq> 0 \<longleftrightarrow> p \<in> set ps"
proof -
  assume n: "numbered c ps"
  have "nc_lookup c p \<noteq> 0" if p: "p \<in> set ps"
  proof -
    from p obtain i where "i < length ps" "ps ! i = p" by (auto simp: in_set_conv_nth)
    with n show ?thesis by (auto simp: numbered_def nc_lookup_def)
  qed
  moreover have "nc_lookup c p = 0" if "p \<notin> set ps"
    using that n by (auto simp: numbered_def nc_lookup_def domIff split: option.split)
  ultimately show ?thesis by argo
qed

lemma numbered_store:
  assumes "numbered c ps" and "nc_fresh c = (n, c1)" and "nc_store p n c1 = Inr c2"
  shows "numbered c2 (ps @ [p]) \<and> p \<notin> set ps"
proof -
  have p: "entries c p = None" "n = length ps + 2" "c2 = c1\<lparr>entries := (entries c)(p \<mapsto> n)\<rparr>" "next_num c1 = n"
    using assms by (auto simp: numbered_def nc_fresh_def nc_store_def split: if_splits)
  then have "p \<notin> set ps" using assms(1) by (auto simp: numbered_def)
  moreover have "\<forall>i < length ps. ps ! i \<noteq> p" using \<open>p \<notin> set ps\<close> nth_mem by metis
  ultimately show ?thesis
    using assms(1) p by (auto simp: numbered_def nth_append less_Suc_eq)
qed

lemma represents_pprint [simp]: "represents (s\<lparr>pprint := q\<rparr>) l = represents s l"
  by (simp add: represents_def)

lemma represents_lookup:
  assumes "represents s l"
  shows "type_num s t \<noteq> 0 \<longleftrightarrow> Node (TT t) \<in> set l" "name_num s d \<noteq> 0 \<longleftrightarrow> Named d \<in> set l"
  using assms numbered_lookup in_types in_names unfolding represents_def by blast+

lemma represents_init: "represents \<lparr>pcache = Cache_init, pprint = p\<rparr> []"
  by (simp add: represents_def numbered_def Cache_init_def NameCache_init_def List.map_filter_def)

section \<open>Simulation\<close>

definition simulates :: "ASTContext \<Rightarrow> pre \<Rightarrow> item list \<Rightarrow> bool" where
  "simulates ctx p xs \<longleftrightarrow>
     (\<forall>s s' l. represents s l \<longrightarrow> p s = Inr s' \<longrightarrow> (\<exists>l'. search ctx xs l l' \<and> represents s' l'))"

lemma simulatesD: "simulates ctx p xs \<Longrightarrow> represents s l \<Longrightarrow> p s = Inr s' \<Longrightarrow> \<exists>l'. search ctx xs l l' \<and> represents s' l'"
  by (simp add: simulates_def)

named_theorems simulates_intros \<open>actions that simulate the search\<close>

lemma simulates_skip [simulates_intros]: "simulates ctx skip []"
  by (auto simp: simulates_def skip_def intro: search_done)

lemma simulates_stop: "simulates ctx (stopA x) xs"
  by (simp add: simulates_def stopA_def)

lemma simulates_seqA:
  assumes p: "simulates ctx p xs" and q: "simulates ctx q ys"
  shows "simulates ctx (seqA p q) (xs @ ys)"
  unfolding simulates_def
proof (intro allI impI)
  fix s s' l assume s: "represents s l" and r: "seqA p q s = Inr s'"
  then obtain s1 where r: "p s = Inr s1" "q s1 = Inr s'" by (auto simp: seqA_def split: sum.splits)
  from simulatesD [OF p s r(1)] obtain l1 where 1: "search ctx xs l l1" "represents s1 l1" by blast
  from simulatesD [OF q 1(2) r(2)] 1(1) show "\<exists>l'. search ctx (xs @ ys) l l' \<and> represents s' l'"
    by (blast intro: search_append)
qed

lemma simulates_Nil [simulates_intros]: "simulates ctx (seqP []) []"
  by (simp add: simulates_skip)

lemma simulates_Cons [simulates_intros]:
  "simulates ctx p xs \<Longrightarrow> simulates ctx (seqP ps) ys \<Longrightarrow> simulates ctx (seqP (p # ps)) (xs @ ys)"
  by (simp add: simulates_seqA)

lemma simulates_map: "(\<And>x. simulates ctx (f x) (g x)) \<Longrightarrow> simulates ctx (seqP (map f xs)) (concat (map g xs))"
  by (induction xs) (auto intro: simulates_skip simulates_seqA)

lemma simulates_map_append:
  "(\<And>x. simulates ctx (f x) (g x)) \<Longrightarrow> simulates ctx (seqP ps) ys \<Longrightarrow>
   simulates ctx (seqP (map f xs @ ps)) (concat (map g xs) @ ys)"
  by (simp add: seqP_append simulates_seqA simulates_map)

lemma simulates_opt: "(\<And>x. simulates ctx (f x) [g x]) \<Longrightarrow> simulates ctx (visit_opt f p) (map g (case p of None \<Rightarrow> [] | Some x \<Rightarrow> [x]))"
  by (cases p) (simp_all add: visit_opt_def simulates_skip)

lemma simulates_opt_name:
  "(\<And>x. simulates ctx (f x) [Named x]) \<Longrightarrow> simulates ctx (visit_opt f p) (name_items p)"
  by (cases p) (simp_all add: visit_opt_def simulates_skip name_items_def)

lemma simulates_VisitName: "simulates ctx (VisitName pp d) [Named d]"
  unfolding simulates_def
proof (intro allI impI)
  fix s s' l assume s: "represents s l" and r: "VisitName pp d s = Inr s'"
  show "\<exists>l'. search ctx [Named d] l l' \<and> represents s' l'"
  proof (cases "name_num s d = 0")
    case True
    obtain n c1 where f: "nc_fresh (names_nc (pcache s)) = (n, c1)" by (cases "nc_fresh (names_nc (pcache s))")
    from r True obtain q c2 where q: "nc_store d n c1 = Inr c2"
        "s' = s\<lparr>pprint := q, pcache := (pcache s)\<lparr>names_nc := c2\<rparr>\<rparr>"
      by (auto simp: VisitName_def fresh_name_def f run_printer_def run_defs store_name_def split: sum.splits)
    have "numbered c2 (List.map_filter item_name l @ [d])"
      using numbered_store [OF _ f q(1)] s by (simp add: represents_def)
    then have "represents s' (l @ [Named d])" using s q(2) by (simp add: represents_def map_filter_snoc)
    moreover have "Named d \<notin> set l" using represents_lookup [OF s] True by blast
    then have "search ctx [Named d] l (l @ [Named d])"
      by (intro search_found [OF _ _ _ _ search_done]) (simp_all add: search_done)
    ultimately show ?thesis by blast
  next
    case False
    with r have "s' = s" by (simp add: VisitName_def)
    with s False represents_lookup [OF s] show ?thesis by (blast intro: search_seen search_done)
  qed
qed

section \<open>The handlers\<close>

definition methods_simulate :: "PrePrint \<Rightarrow> bool" where
  "methods_simulate pp \<longleftrightarrow> (let ctx = pre_context pp in
     (\<forall>t. simulates ctx (visit_type pp t) [Node (TT t)]) \<and> (\<forall>e. simulates ctx (visit_expr pp e) [Node (TE e)])
     \<and> (\<forall>st. simulates ctx (visit_stmt pp st) [Node (TS st)]))"

lemma simulate_methods:
  assumes "methods_simulate pp"
  shows "simulates (pre_context pp) (visit_type pp t) [Node (TT t)]"
    "simulates (pre_context pp) (visit_expr pp e) [Node (TE e)]"
    "simulates (pre_context pp) (visit_stmt pp st) [Node (TS st)]"
    "simulates (pre_context pp) (visit_qual pp q) (nodes (qual_target q))"
    "simulates (pre_context pp) (visit_opt (visit_expr pp) oe) (nodes (opt_target TE oe))"
    "simulates (pre_context pp) (visit_opt (visit_stmt pp) os) (nodes (opt_target TS os))"
    "simulates (pre_context pp) (VisitFromDecl pp v) (nodes (init_targets (pre_context pp) v))"
proof -
  have t: "simulates (pre_context pp) (visit_type pp t) [Node (TT t)]" for t
    using assms by (simp add: methods_simulate_def Let_def)
  have e: "simulates (pre_context pp) (visit_expr pp e) [Node (TE e)]" for e
    using assms by (simp add: methods_simulate_def Let_def)
  have st: "simulates (pre_context pp) (visit_stmt pp st) [Node (TS st)]" for st
    using assms by (simp add: methods_simulate_def Let_def)
  have oe: "simulates (pre_context pp) (visit_opt (visit_expr pp) oe) (nodes (opt_target TE oe))" for oe
    unfolding map_map using simulates_opt [OF e] by (simp add: comp_def)
  show "simulates (pre_context pp) (visit_type pp t) [Node (TT t)]"
    "simulates (pre_context pp) (visit_expr pp e) [Node (TE e)]"
    "simulates (pre_context pp) (visit_stmt pp st) [Node (TS st)]"
    "simulates (pre_context pp) (visit_opt (visit_expr pp) oe) (nodes (opt_target TE oe))"
    by (fact t e st oe)+
  show "simulates (pre_context pp) (visit_qual pp q) (nodes (qual_target q))"
    unfolding visit_qual_def map_map using simulates_opt [OF t] by (simp add: comp_def)
  show "simulates (pre_context pp) (visit_opt (visit_stmt pp) os) (nodes (opt_target TS os))"
    unfolding map_map using simulates_opt [OF st] by (simp add: comp_def)
  show "simulates (pre_context pp) (VisitFromDecl pp v) (nodes (init_targets (pre_context pp) v))"
    using oe by (cases v) (simp_all add: VisitFromDecl_def init_targets_def simulates_skip)
qed

text \<open>Lists of items that are put together in another way than the visits.\<close>

lemma simulates_eq: "simulates ctx p xs \<Longrightarrow> xs = ys \<Longrightarrow> simulates ctx p ys"
  by simp

lemma concat_singletons: "concat (map (\<lambda>x. [f x]) xs) = map f xs"
  by (induction xs) simp_all

lemmas simulates_rules = simulates_skip simulates_Nil simulates_Cons simulates_map simulates_map_append
  simulates_VisitName simulates_opt_name [OF simulates_VisitName]

lemma simulates_stmt_dispatch:
  assumes m: "methods_simulate pp"
  shows "simulates (pre_context pp) (pre_stmt_dispatch pp st node) (nodes (stmt_targets (pre_context pp) st node))"
proof -
  note r = simulates_rules simulate_methods [OF m]
  show ?thesis
    by (cases node, simp_all only: pre_stmt_dispatch.simps stmt_targets.simps pre_VisitCompoundStmt_def pre_VisitReturnStmt_def
        pre_VisitWhileStmt_def pre_VisitDoStmt_def pre_VisitForStmt_def pre_VisitIfStmt_def)
      (rule simulates_eq, (rule r)+, simp add: concat_singletons)+
qed

lemma simulates_declref: "simulates (pre_context pp) (pre_VisitDeclRefExpr pp d) (ref_items (pre_context pp) d)"
  by (auto simp: pre_VisitDeclRefExpr_def ref_items_def Let_def simulates_VisitName simulates_skip split: option.splits)

lemma simulates_expr_dispatch:
  assumes m: "methods_simulate pp"
  shows "simulates (pre_context pp) (pre_expr_dispatch pp e node) (expr_items (pre_context pp) e node)"
proof -
  note r = simulates_rules simulates_declref simulate_methods [OF m]
  show ?thesis
    by (cases node, simp_all only: pre_expr_dispatch.simps expr_items.simps expr_targets.simps pre_VisitBinaryOperator_def
        pre_VisitUnaryOperator_def pre_VisitCallExpr_def pre_VisitCXXMemberCallExpr_def pre_VisitCXXConstructExpr_def
        VisitCastExpr_def pre_VisitStmtExpr_def)
      (rule simulates_eq, (rule r)+, simp add: concat_singletons)+
qed

lemma simulates_expr:
  assumes m: "methods_simulate pp"
  shows "simulates (pre_context pp) (pre_Visit_expr pp e) (needs (pre_context pp) (Node (TE e)))"
  unfolding pre_Visit_expr_def Let_def needs.simps
  by (rule simulates_eq, (rule simulates_Cons simulates_Nil simulate_methods(4) [OF m] simulates_expr_dispatch [OF m])+) simp

text \<open>The handlers of types also answer whether the type is shared.\<close>

definition simulates_query :: "ASTContext \<Rightarrow> (prestate, bool) query \<Rightarrow> item list \<Rightarrow> bool \<Rightarrow> bool" where
  "simulates_query ctx q xs b \<longleftrightarrow> (\<exists>p. simulates ctx p xs \<and> (\<forall>s. q s = returning p b s))"

lemma simulates_queryI: "simulates ctx p xs \<Longrightarrow> simulates_query ctx (returning p b) xs b"
  by (auto simp: simulates_query_def)

lemma simulates_proto:
  assumes m: "methods_simulate pp"
  shows "simulates_query (pre_context pp) (pre_VisitFunctionProtoType pp ret params)
    (nodes (concat (map qual_target params) @ qual_target ret)) True"
  unfolding simulates_query_def
proof (intro exI [of _ "seqA (seqP (map (visit_qual pp) params)) (visit_qual pp ret)"] conjI allI)
  show "simulates (pre_context pp) (seqA (seqP (map (visit_qual pp) params)) (visit_qual pp ret))
      (nodes (concat (map qual_target params) @ qual_target ret))"
    by (rule simulates_eq [OF simulates_seqA [OF simulates_map]], (rule simulate_methods(4) [OF m])+)
      (simp add: map_concat comp_def)
  show "pre_VisitFunctionProtoType pp ret params s = returning (seqA (seqP (map (visit_qual pp) params)) (visit_qual pp ret)) True s" for s
    by (simp add: pre_VisitFunctionProtoType_def VisitFunctionType_def returning_def seqA_def split: sum.split)
qed

lemma simulates_type_dispatch:
  assumes m: "methods_simulate pp"
  shows "simulates_query (pre_context pp) (pre_type_dispatch pp node) (type_items node) (shared_type node)"
proof -
  note r = simulates_rules simulate_methods [OF m]
  have q: "simulates_query (pre_context pp) (returning (visit_qual pp x) b) (nodes (qual_target x)) b" for x b
    by (intro simulates_queryI simulate_methods(4) [OF m])
  have d: "simulates (pre_context pp) (seqP [visit_qual pp x, visit_qual pp y]) (nodes (qual_target x @ qual_target y))" for x y
    by (rule simulates_eq, (rule r)+) simp
  show ?thesis
    by (cases node)
      (simp_all add: pre_VisitSubstTemplateTypeParmType_def pre_VisitElaboratedType_def VisitTagType_def
        VisitReferenceType_def pre_VisitPointerType_def VisitArrayType_def pre_VisitVariableArrayType_def
        pre_VisitDecayedType_def VisitFunctionType_def pre_VisitType_def q [unfolded map_map] simulates_proto [OF m, simplified]
        simulates_queryI [OF simulates_skip] simulates_queryI [OF d [unfolded map_append map_map]] simulates_queryI [OF simulates_VisitName]
        simulates_queryI [OF simulate_methods(2) [OF m]] del: seqP.simps)
qed

lemma define_type_numbered:
  assumes s: "represents s l" and r: "define_type pp t s = Inr s'"
  shows "represents s' (l @ [Node (TT t)]) \<and> Node (TT t) \<notin> set l"
proof -
  obtain n c1 where f: "nc_fresh (types_nc (pcache s)) = (n, c1)" by (cases "nc_fresh (types_nc (pcache s))")
  from r obtain q c2 where q: "nc_store t n c1 = Inr c2" "s' = s\<lparr>pprint := q, pcache := (pcache s)\<lparr>types_nc := c2\<rparr>\<rparr>"
    by (auto simp: define_type_def fresh_type_def f run_printer_def run_defs store_type_def split: sum.splits)
  have "numbered c2 (List.map_filter item_type l @ [t]) \<and> t \<notin> set (List.map_filter item_type l)"
    using numbered_store [OF _ f q(1)] s by (simp add: represents_def)
  then show ?thesis using s q(2) by (simp add: represents_def map_filter_snoc in_types)
qed

lemma simulates_type:
  assumes m: "methods_simulate pp"
  shows "simulates (pre_context pp) (pre_Visit_type pp t) [Node (TT t)]"
  unfolding simulates_def
proof (intro allI impI)
  let ?ctx = "pre_context pp" and ?x = "Node (TT t)"
  let ?q = "pre_type_dispatch pp (type_node (type_of (pre_context pp) t))"
  fix s s' l assume s: "represents s l" and r: "pre_Visit_type pp t s = Inr s'"
  show "\<exists>l'. search ?ctx [?x] l l' \<and> represents s' l'"
  proof (cases "type_num s t = 0")
    case True
    have new: "?x \<notin> set l" using represents_lookup [OF s] True by blast
    obtain p where p: "simulates ?ctx p (needs ?ctx ?x)" "?q s = returning p (shareable ?ctx ?x) s"
      using simulates_type_dispatch [OF m, of "type_node (type_of (pre_context pp) t)"]
      by (auto simp: simulates_query_def)
    from r True p(2) obtain s1 where s1: "p s = Inr s1" "(if shareable ?ctx ?x then define_type pp t else skip) s1 = Inr s'"
      by (auto simp: pre_Visit_type_def bindQ_def returning_def split: sum.splits)
    from simulatesD [OF p(1) s s1(1)] obtain l1 where l1: "search ?ctx (needs ?ctx ?x) l l1" "represents s1 l1" by blast
    show ?thesis
    proof (cases "shareable ?ctx ?x")
      case True
      with s1 define_type_numbered [OF l1(2)] have "represents s' (l1 @ [?x])" "?x \<notin> set l1" by simp_all
      with True new l1 show ?thesis by (blast intro: search_found search_done)
    next
      case False
      with s1 have "s1 = s'" by (simp add: skip_def)
      with False l1 show ?thesis by (blast intro: search_passed search_done)
    qed
  next
    case False
    with r have "s' = s" by (simp add: pre_Visit_type_def)
    with s False represents_lookup [OF s] show ?thesis by (blast intro: search_seen search_done)
  qed
qed

text \<open>An expression or a statement is passed.\<close>

lemma simulates_passed:
  assumes "simulates ctx p (needs ctx x)" and "\<not> shareable ctx x"
  shows "simulates ctx p [x]"
  using assms unfolding simulates_def by (blast intro: search_passed search_done)

lemma methods_simulate_levels: "methods_simulate (mk_PrePrint n ctx tf nf)"
proof (induction n)
  case 0
  show ?case by (simp add: methods_simulate_def mk_PrePrint.simps simulates_stop Let_def)
next
  case (Suc n)
  let ?p = "mk_PrePrint n ctx tf nf"
  have "simulates ctx (pre_Visit_type ?p t) [Node (TT t)]" for t
    using simulates_type [OF Suc] by simp
  moreover have "simulates ctx (pre_Visit_expr ?p e) [Node (TE e)]" for e
    using simulates_expr [OF Suc] by (intro simulates_passed) simp_all
  moreover have "simulates ctx (pre_Visit_stmt ?p st) [Node (TS st)]" for st
    using simulates_stmt_dispatch [OF Suc] by (intro simulates_passed) (simp_all add: pre_Visit_stmt_def)
  ultimately show ?case by (simp add: methods_simulate_def mk_PrePrint_methods Let_def)
qed

section \<open>Declarations\<close>

definition function_items :: "ASTContext \<Rightarrow> ptr \<Rightarrow> item list" where
  "function_items ctx d =
     concat (map (\<lambda>p. nodes (qual_target (getType (named_of ctx p)))) (parameters (named_of ctx d)))
     @ nodes (qual_target (getReturnType (body_of ctx d))) @ [Named d] @ nodes (opt_target TS (getBody (body_of ctx d)))"

definition constructor_items :: "ASTContext \<Rightarrow> ptr \<Rightarrow> item list" where
  "constructor_items ctx d =
     concat (map (\<lambda>i. nodes (opt_target TE (Option.bind i init_expr))) (inits (body_of ctx d))) @ function_items ctx d"

definition record_items :: "ASTContext \<Rightarrow> ptr \<Rightarrow> item list" where
  "record_items ctx d =
     Named d # concat (map (\<lambda>f. nodes (qual_target (getType (named_of ctx f)))) (record_fields (naming_of ctx d)))"

definition decl_items :: "ASTContext \<Rightarrow> ptr \<Rightarrow> item list" where
  "decl_items ctx d =
     dispatch [(VarDecl, nodes (qual_target (getType (named_of ctx d)))), (FunctionDecl, function_items ctx d),
               (CXXConstructorDecl, constructor_items ctx d), (RecordDecl, record_items ctx d)]
       [] (getKind (decl ctx d))"

lemma simulates_dispatch:
  assumes "simulates ctx base xs" and "list_all2 (\<lambda>(k, p) (k', ys). k = k' \<and> simulates ctx p ys) ps yss"
  shows "simulates ctx (dispatch ps base k) (dispatch yss xs k)"
proof -
  have m: "rel_option (simulates ctx) (map_of ps j) (map_of yss j)" for j
    using assms(2) by (induction ps yss rule: list_all2_induct) auto
  have "simulates ctx (nearest ps base ks) (nearest yss xs ks)" for ks
  proof (induction ks)
    case (Cons j ks)
    with m [of j] show ?case by (auto split: option.splits)
  qed (simp add: assms(1))
  then show ?thesis by (simp add: dispatch_def)
qed

lemma simulates_function:
  assumes m: "methods_simulate pp"
  shows "simulates (pre_context pp) (pre_VisitFunctionDecl pp d) (function_items (pre_context pp) d)"
proof -
  note r = simulates_rules simulate_methods [OF m]
  show ?thesis
    unfolding pre_VisitFunctionDecl_def Let_def function_items_def by (rule simulates_eq, (rule r)+) simp
qed

lemma simulates_constructor:
  assumes m: "methods_simulate pp"
  shows "simulates (pre_context pp) (pre_VisitCXXConstructorDecl pp d) (constructor_items (pre_context pp) d)"
proof -
  have i: "simulates (pre_context pp) (case i of Some init \<Rightarrow> visit_opt (visit_expr pp) (init_expr init)
      | None \<Rightarrow> stopA (AssertionFailed ''null initializer'')) (nodes (opt_target TE (Option.bind i init_expr)))" for i
    by (cases i) (simp_all add: simulates_stop simulate_methods(5) [OF m, unfolded map_map])
  show ?thesis
    unfolding pre_VisitCXXConstructorDecl_def constructor_items_def
    by (rule simulates_eq, (rule simulates_map_append i simulates_Cons simulates_Nil simulates_function [OF m])+) simp
qed

lemma simulates_record:
  assumes m: "methods_simulate pp"
  shows "simulates (pre_context pp) (VisitRecordDecl pp d) (record_items (pre_context pp) d)"
proof -
  note r = simulates_rules simulate_methods [OF m]
  show ?thesis
    unfolding VisitRecordDecl_def Let_def record_items_def by (rule simulates_eq, (rule r)+) simp
qed

lemma prePrintDecl_simulates: "simulates ctx (prePrintDecl fuel ctx type_fn name_fn d) (decl_items ctx d)"
proof -
  note m = methods_simulate_levels [of fuel ctx type_fn name_fn]
  show ?thesis
    unfolding prePrintDecl_def pre_Visit_decl_def decl_items_def mk_PrePrint_fields
    by (rule simulates_dispatch)
      (use simulates_function [OF m] simulates_constructor [OF m] simulates_record [OF m] simulate_methods(4) [OF m]
       in \<open>simp_all add: simulates_skip pre_VisitVarDecl_def\<close>)
qed

text \<open>
  C9. The cache of the pre-printer implements a depth-first search: when \<open>prePrintDecl\<close> returns, the numbers in the cache
  count the items that the search from the declaration lists, each after what it needs; what the callbacks write
  and how many levels there are does not matter.
\<close>

theorem prePrintDecl_refines_search:
  assumes "represents s l" and "prePrintDecl fuel ctx type_fn name_fn d s = Inr s'"
  shows "\<exists>l'. search ctx (decl_items ctx d) l l' \<and> represents s' l'"
  using simulatesD [OF prePrintDecl_simulates assms] .

text \<open>A variable (0) of type pointer (1) to \<open>int\<close> (0).\<close>

theorem prePrintDecl_refines_search_witness:
  "let ctx = ast0\<lparr>decl := (\<lambda>d. (decl0 d)\<lparr>getKind := VarDecl\<rparr>),
                  type_of := (\<lambda>t. type0\<lparr>type_node := (if t = 1 then PointerType (qual0 0) else BuiltinType BT_Int)\<rparr>),
                  named_of := (\<lambda>d. named0\<lparr>getType := qual0 1\<rparr>)\<rparr>
   in case prePrintDecl 5 ctx (\<lambda>c p n t. skip) (\<lambda>c p n d. skip) 0 \<lparr>pcache = Cache_init, pprint = pstate_init\<rparr> of
        Inl x \<Rightarrow> False
      | Inr s' \<Rightarrow> type_num s' 1 = 2
          \<and> (\<exists>l. search ctx (decl_items ctx 0) [] l \<and> represents s' l \<and> Node (TT 1) \<in> set l)"
  (is "let ctx = ?ctx in _")
proof -
  let ?run = "prePrintDecl 5 ?ctx (\<lambda>c p n t. skip) (\<lambda>c p n d. skip) 0 \<lparr>pcache = Cache_init, pprint = pstate_init\<rparr>"
  have "case ?run of Inl x \<Rightarrow> False | Inr s' \<Rightarrow> type_num s' 1 = 2" by code_simp
  then obtain s' where r: "?run = Inr s'" "type_num s' 1 = 2" by (auto split: sum.splits)
  from prePrintDecl_refines_search [OF represents_init r(1)] obtain l where
    l: "search ?ctx (decl_items ?ctx 0) [] l" "represents s' l" by blast
  with r(2) represents_lookup(1) [OF l(2), of 1] show ?thesis unfolding Let_def r(1) by auto
qed

end
