(* ===== verification/NotationProps.thy ===== *)
theory NotationProps
  imports NotationWriter
begin

text \<open>
  The notations keep the contract of the printers: a path never contains a double quote, so the string literal of a
  notation closes where it should.
\<close>

text \<open>Names that are identifiers, and names of types, have no double quotes.\<close>

definition notations_ok :: "ASTContext \<Rightarrow> bool" where
  "notations_ok ctx \<longleftrightarrow>
     (\<forall>d. getIdentifier (named_of ctx d) \<noteq> None \<or> isaD ctx NamespaceDecl d \<or> isaD ctx ClassTemplateSpecializationDecl d \<longrightarrow>
        quote_free (getNameAsString (named_of ctx d)))
     \<and> (\<forall>q. quote_free (QualType_getAsString ctx q))"

lemma notations_ok_name:
  "notations_ok ctx \<Longrightarrow> getIdentifier (named_of ctx d) \<noteq> None \<Longrightarrow> quote_free (getNameAsString (named_of ctx d))"
  "notations_ok ctx \<Longrightarrow> isaD ctx NamespaceDecl d \<Longrightarrow> quote_free (getNameAsString (named_of ctx d))"
  "notations_ok ctx \<Longrightarrow> isaD ctx ClassTemplateSpecializationDecl d \<Longrightarrow> quote_free (getNameAsString (named_of ctx d))"
  "notations_ok ctx \<Longrightarrow> getName ctx d \<noteq> [] \<Longrightarrow> quote_free (getNameAsString (named_of ctx d))"
  by (auto simp: notations_ok_def getName_def split: option.splits)

lemma quote_free_decimal: "quote_free (decimal_int i)"
  using plain_decimal_int [of i] by (auto simp: quote_free_def plain_def)

lemma quote_free_path_type: "notations_ok ctx \<Longrightarrow> path_type ctx q = (ok, t) \<Longrightarrow> quote_free t"
  by (auto simp: path_type_def Let_def notations_ok_def quote_free_def split: if_splits)

lemma quote_free_path_args: "notations_ok ctx \<Longrightarrow> path_args ctx first args = (ok, t) \<Longrightarrow> quote_free t"
proof (induction args arbitrary: first ok t)
  case (Cons a args)
  have q: "DQ \<notin> set t" if "path_type ctx q = (ok, t)" for q ok t
    using quote_free_path_type [OF Cons.prems(1) that] by (simp add: quote_free_def)
  have r: "DQ \<notin> set t" if "path_args ctx False args = (ok, t)" for ok t
    using Cons.IH [OF Cons.prems(1) that] by (simp add: quote_free_def)
  show ?case
    using Cons.prems(2) quote_free_decimal
    by (cases a) (auto simp: quote_free_def Let_def split: prod.splits if_splits dest: q r)
qed (simp add: quote_free_def)

lemma quote_free_path_step: "notations_ok ctx \<Longrightarrow> path_step ctx d final = (ok, t) \<Longrightarrow> quote_free t"
  using notations_ok_name [of ctx d] quote_free_path_args [of ctx True]
  by (auto simp: path_step_def Let_def quote_free_def split: prod.splits if_splits; blast)

lemma quote_free_print_path:
  "notations_ok ctx \<Longrightarrow> print_path n ctx dc final = Inr (ok, t) \<Longrightarrow> quote_free t"
proof (induction n arbitrary: dc final ok t)
  case (Suc n)
  have p: "DQ \<notin> set t" if "print_path n ctx dc final = Inr (ok, t)" for dc final ok t
    using Suc.IH [OF Suc.prems(1) that] by (simp add: quote_free_def)
  have q: "DQ \<notin> set t" if "path_step ctx d final = (ok, t)" for d ok t
    using quote_free_path_step [OF Suc.prems(1) that] by (simp add: quote_free_def)
  show ?case
    using Suc.prems(2)
    by (auto simp: quote_free_def split: option.splits if_splits sum.splits prod.splits dest: p q)
qed simp

lemma print_path_error: "print_path n ctx dc final = Inl x \<Longrightarrow> x = OutOfFuel"
  by (induction n arbitrary: dc final) (auto split: option.splits if_splits sum.splits prod.splits)

section \<open>The contract\<close>

lemma steps_with_path:
  assumes "notations_ok (getContext cprint)" and f: "\<And>t. quote_free t \<Longrightarrow> steps i d i d (f t)"
  shows "steps i d i d (with_path cprint dc final f)"
  unfolding with_path_def
proof (rule steps_with_answer)
  fix x assume "print_path (loop_fuel cprint) (getContext cprint) dc final = Inl x"
  then show "\<not> indent_error x" by (auto dest: print_path_error)
next
  fix a assume "print_path (loop_fuel cprint) (getContext cprint) dc final = Inr a"
  with quote_free_print_path [OF assms(1)] show "steps i d i d (case a of (ok, t) \<Rightarrow> if ok then f t else skip)"
    by (cases a) (auto intro: f steps_skip)
qed

lemma steps_open_notation:
  assumes "quote_free (concat ts)"
  shows "steps i d i d (open_notation ts)"
proof -
  have "balanced (DQ # ([CHR 0x27] @ concat ts @ [CHR 0x27]) @ [DQ])"
    using assms by (intro balanced_quoted) (auto simp: quote_free_def)
  then have "balanced (''Notation '' @ (DQ # ([CHR 0x27] @ concat ts @ [CHR 0x27]) @ [DQ]) @ '' :='')"
    by (intro balanced_append) simp_all
  then have "balanced (concat ([''Notation '', [DQ], [CHR 0x27]] @ ts @ [[CHR 0x27], [DQ], '' :='']))" by simp
  note p = steps_puts [OF this]
  show ?thesis
    unfolding open_notation_def by (rule steps_Cons [OF p] steps_Cons [OF steps_nbsp] steps_Nil)+
qed

lemma steps_close_notation: "balanced t \<Longrightarrow> steps i d i d (close_notation t)"
  unfolding close_notation_def by (rule printer_intros | assumption)+

lemma closing_texts [simp]:
  "balanced '' (in custom cppglobal at level 0).''" "balanced ''%bs (in custom cppglobal at level 0).''"
  "balanced '' (only parsing, in custom cppglobal at level 0).''"
  by (simp_all add: balanced_def)

lemma steps_append_same:
  "steps i d i d (seqP ps) \<Longrightarrow> steps i d i d (seqP qs) \<Longrightarrow> steps i d i d (seqP (ps @ qs))"
  by (rule steps_append)

lemma steps_seqP_if:
  "(b \<Longrightarrow> steps i d i d (seqP ps)) \<Longrightarrow> (\<not> b \<Longrightarrow> steps i d i d (seqP qs)) \<Longrightarrow>
   steps i d i d (seqP (if b then ps else qs))"
  by simp

lemmas notation_rules = printer_intros steps_open_notation steps_close_notation steps_with_path

lemma steps_notation_FieldDecl:
  assumes ok: "printable (getContext config)" "notations_ok (getContext config)"
    and name: "getIdentifier (named_of (getContext config) fd) \<noteq> None"
  shows "steps i d i d (notation_FieldDecl (mk_cprint n print config) fd)"
proof -
  have n: "quote_free (getNameAsString (named_of (getContext config) fd))"
    by (rule notations_ok_name(1) [OF ok(2) name])
  show ?thesis
    unfolding notation_FieldDecl_def Let_def mk_cprint_fields printField_def
    by (rule notation_rules | (use ok n in \<open>simp add: quote_free_def\<close>; fail))+
qed

lemma steps_notation_RecordDecl:
  assumes ok: "printable (getContext config)" "notations_ok (getContext config)"
  shows "steps i d i d (notation_RecordDecl print (mk_cprint n print config) rd)"
  unfolding notation_RecordDecl_def Let_def mk_cprint_fields printField_def
  by (rule steps_append_same steps_seqP_if steps_map notation_rules printers.steps_printName
      | (use ok in \<open>simp add: notations_ok_name(4) [unfolded quote_free_def] quote_free_def\<close>; fail))+

lemma steps_notation_TypedefNameDecl:
  assumes ok: "printable (getContext config)" "notations_ok (getContext config)"
    and name: "getIdentifier (named_of (getContext config) td) \<noteq> None"
  shows "steps i d i d (notation_TypedefNameDecl (mk_cprint n print config) td)"
proof -
  have n: "quote_free (getNameAsString (named_of (getContext config) td))"
    by (rule notations_ok_name(1) [OF ok(2) name])
  show ?thesis
    unfolding notation_TypedefNameDecl_def Let_def mk_cprint_fields
    by (rule notation_rules | (use ok n in \<open>simp add: quote_free_def\<close>; fail))+
qed

lemma steps_write_notations:
  assumes ok: "printable (getContext config)" "notations_ok (getContext config)"
  shows "steps i d i d (write_notations print (mk_cprint n print config) def)"
  unfolding write_notations_def Let_def mk_cprint_fields
  by (rule printer_intros steps_notation_FieldDecl steps_notation_RecordDecl steps_notation_TypedefNameDecl ok
      | (simp; fail))+

lemma steps_write_globals:
  assumes ok: "printable (getContext config)" "notations_ok (getContext config)"
  shows "steps i d i d (write_globals m print (mk_cprint n print config))"
  unfolding write_globals_def
  by (rule printer_intros steps_append steps_map steps_write_notations ok | (simp; fail))+

end
