(* ===== verification/ToCoqProps.thy ===== *)
theory ToCoqProps
  imports ToCoq PrePrintRelation NotationProps
begin

text \<open>
  What the files of a run look like: every one of them is balanced, and in the module file everything that is
  referred to by a number has been defined before, once.
\<close>

section \<open>The hypotheses on the AST\<close>

text \<open>
  The AST is \<open>printable\<close>, the names in notations have no quotes, and what is written into comments is balanced: the
  names of \<open>--comment\<close> and the locations of \<open>--name-test\<close>.
\<close>

definition run_ok :: "environment \<Rightarrow> ToCoqConsumer \<Rightarrow> ASTContext \<Rightarrow> bool" where
  "run_ok env tc ctx \<longleftrightarrow> printable ctx \<and> notations_ok ctx
     \<and> (consumer_comment tc \<longrightarrow>
          (\<forall>d t. printNameForDiagnostics (fuel env) ctx d = Inr t \<longrightarrow> balanced t))
     \<and> (name_test_file tc \<noteq> None \<longrightarrow>
          (\<forall>d t. show_trace (sources env) (fuel env) ctx (Some (LocDecl d)) None = Inr t \<longrightarrow> balanced t))"

lemma ClangPrinter_config_fields [simp]:
  "getContext (ClangPrinter_config env ctx coms tds) = ctx"
  "loop_fuel (ClangPrinter_config env ctx coms tds) = fuel env"
  "comment (ClangPrinter_config env ctx coms tds) = coms"
  by (simp_all add: ClangPrinter_config_def)

lemma run_ok_printable: "run_ok env tc ctx \<Longrightarrow> printable ctx"
  by (simp add: run_ok_def)

lemma run_ok_notations: "run_ok env tc ctx \<Longrightarrow> notations_ok ctx"
  by (simp add: run_ok_def)

lemma run_ok_comments:
  "run_ok env tc ctx \<Longrightarrow> comments_ok (ClangPrinter_config env ctx (consumer_comment tc) tds)"
  by (simp add: run_ok_def comments_ok_def)

section \<open>The printers of the files\<close>

lemma steps_query_withDeclQ: "steps_query i d p \<Longrightarrow> steps_query i d (withDeclQ ctx c p)"
  unfolding withDeclQ_def by (rule steps_query_withDeclContextQ)

text \<open>The printers of a run are those of \<open>mk_cprint\<close> and keep their contract.\<close>

lemma new_ClangPrinter_context [simp]: "getContext (new_ClangPrinter env ctx coms tds print) = ctx"
  by (simp add: new_ClangPrinter_def)

lemma steps_module_printDecl:
  assumes "run_ok env tc ctx"
  shows "steps i d i d (module_printDecl print (new_ClangPrinter env ctx (consumer_comment tc) tds print) c)"
  unfolding module_printDecl_def new_ClangPrinter_def
  by (rule steps_bindQ steps_query_withDeclQ printers.steps_printDecl printer_intros
      | (simp add: run_ok_printable [OF assms] run_ok_comments [OF assms]; fail))+

lemma steps_run_printName:
  assumes "run_ok env tc ctx"
  shows "steps i d i d (printName print (new_ClangPrinter env ctx coms tds print) e full)"
  unfolding new_ClangPrinter_def
  by (rule printers.steps_printName) (simp add: run_ok_printable [OF assms])

lemma steps_run_printType:
  assumes "run_ok env tc ctx"
  shows "steps i d i d (printType print (new_ClangPrinter env ctx coms tds print) t)"
  unfolding new_ClangPrinter_def
  by (rule printers.steps_printType) (simp add: run_ok_printable [OF assms])

lemma steps_parser_import: "steps i d i d (parser_import print)"
  unfolding parser_import_def by (rule printer_intros | (simp; fail))+

lemma steps_bytestring: "steps i d i d bytestring"
proof -
  have "balanced ''#[local] Open Scope pstring_scope.''" by (simp add: balanced_def)
  note p = steps_put [OF this]
  show ?thesis unfolding bytestring_def by (rule p printer_intros)+
qed

lemma steps_endianness: "steps i d i d (endianness ctx)"
  unfolding endianness_def by (rule printer_intros | (simp; fail))+

lemma type_check_text [simp]:
  "balanced (''Succeed Example well_typed : typed.decltype.check_tu module = trace.Success tt''
     @ '' := ltac:(vm_compute; reflexivity).'')"
  by (simp add: balanced_def)

lemmas run_rules = steps_module_printDecl steps_run_printName steps_run_printType

lemma steps_module_definition:
  assumes ok: "run_ok env tc ctx"
  shows "safe (module_definition tc m print (new_ClangPrinter env ctx (consumer_comment tc) tds print))"
  unfolding module_definition_def
  by (rule printer_intros run_rules [OF ok] steps_endianness steps_map type_check_text | (simp; fail))+

lemma steps_notations_text:
  assumes ok: "run_ok env tc ctx"
  shows "safe (notations_text env tc ctx m)"
  unfolding notations_text_def Let_def new_ClangPrinter_def
  by (rule printer_intros steps_parser_import steps_write_globals
      | (simp add: run_ok_printable [OF ok] run_ok_notations [OF ok]; fail))+

lemma steps_templates_text:
  assumes ok: "run_ok env tc ctx"
  shows "safe (templates_text env tc ctx m)"
  unfolding templates_text_def Let_def
  by (rule printer_intros steps_parser_import steps_bytestring steps_map run_rules [OF ok] | (simp; fail))+

lemma show_trace_error: "show_trace si n ctx (Some (LocDecl d)) p = Inl x \<Longrightarrow> \<not> indent_error x"
  by (auto simp: show_trace_def Let_def map_sum_def dest: printNameForDiagnostics_error split: sum.splits if_splits)

lemma steps_name_test:
  assumes ok: "run_ok env tc ctx" and "name_test_file tc \<noteq> None"
  shows "steps i d i d (name_test env print (new_ClangPrinter env ctx (consumer_comment tc) tds print) (Some c))"
proof -
  have fuel: "loop_fuel (new_ClangPrinter env ctx (consumer_comment tc) tds print) = fuel env"
    by (simp add: new_ClangPrinter_def)
  have t: "steps i d i d (with_answer (show_trace (sources env) (fuel env) ctx (Some (LocDecl c)) None) (\<lambda>t. seqP [cmt t, nbsp]))"
    by (rule steps_with_answer, erule show_trace_error)
      (rule printer_intros steps_cmt | (use assms in \<open>simp add: run_ok_def\<close>; fail))+
  show ?thesis
    unfolding name_test_def Let_def option.case new_ClangPrinter_context fuel loc_of_ptr_def loc_of_decl_def
    by (rule printer_intros t run_rules(2) [OF ok] | (simp; fail))+
qed

lemma steps_testnames:
  assumes "plain idn" and "\<And>p. p \<in> set k \<Longrightarrow> steps (Suc i) (Suc (Suc d)) (Suc i) (Suc (Suc d)) p"
  shows "steps i d i d (testnames idn k)"
proof -
  have k: "steps (Suc i) (Suc (Suc d)) (Suc i) (Suc (Suc d)) (seqP k)"
    using steps_map [of k "Suc i" "Suc (Suc d)" "\<lambda>p. p"] assms(2) by simp
  show ?thesis
    unfolding testnames_def by (rule printer_intros k | (simp add: assms(1); fail))+
qed

lemma steps_name_test_text:
  assumes ok: "run_ok env tc ctx" and "name_test_file tc \<noteq> None"
  shows "safe (name_test_text env tc ctx m)"
  unfolding name_test_text_def Let_def
  by (rule printer_intros steps_parser_import steps_bytestring steps_testnames | (simp; fail)
      | (use steps_name_test [OF assms] in \<open>auto simp: comp_def\<close>; fail))+

end
