(* ===== verification/SharedProps.thy ===== *)
theory SharedProps
  imports ToCoqProps
begin

text \<open>
  The search for shared types and names, with the callbacks of \<open>toCoqModule\<close>: the text of the module stays balanced and
  every number in the cache has a definition in the text.
\<close>

section \<open>What a definition leaves behind\<close>

definition has_definition :: "string \<Rightarrow> string \<Rightarrow> string \<Rightarrow> bool" where
  "has_definition text nm kind \<longleftrightarrow>
     (\<exists>a b. text = a @ ''#[local] Definition '' @ nm @ '' : '' @ kind @ '' := '' @ b)"

lemma has_definition_append: "has_definition t nm kind \<Longrightarrow> has_definition (t @ u) nm kind"
  unfolding has_definition_def by (metis append.assoc)

text \<open>A state that is reached by printing: the indentation is back, the new text is balanced.\<close>

definition text_step :: "pstate \<Rightarrow> pstate \<Rightarrow> bool" where
  "text_step p p' \<longleftrightarrow> depth (fmt p') = depth (fmt p) \<and> declctx p' = declctx p
     \<and> (\<exists>u. out (fmt p') = out (fmt p) @ u \<and> balanced u)"

lemma text_step_refl: "text_step p p"
  by (simp add: text_step_def)

lemma text_step_trans: "text_step p q \<Longrightarrow> text_step q r \<Longrightarrow> text_step p r"
  unfolding text_step_def by (metis append.assoc balanced_append)

lemma safe_text_step:
  assumes "safe f"
  shows "case f p of Inl x \<Rightarrow> \<not> indent_error x | Inr p' \<Rightarrow> text_step p p'"
  using stepsD [OF assms, of p _ "depth (fmt p)" 0] stepsD_Inl [OF assms, of p _ "depth (fmt p)"]
  by (auto simp: text_step_def balanced_def split: sum.split)

lemma keeps_text_step: "safe f \<Longrightarrow> keeps text_step (\<lambda>x. \<not> indent_error x) f"
  using safe_text_step [of f] by (simp add: keeps_def)

lemma text_step_definition: "text_step p p' \<Longrightarrow> has_definition (out (fmt p)) nm kind \<Longrightarrow> has_definition (out (fmt p')) nm kind"
  by (auto simp: text_step_def has_definition_append)

text \<open>The two callbacks write a head and then something safe.\<close>

lemma definition_line:
  assumes body: "safe (seqP rest)" and prefix: "plain [prefix]" and kind: "plain kind"
  shows "case seqP (puts [''#[local] Definition '', [prefix], decimal n, '' : '' @ kind @ '' := ''] # rest) p of
      Inl x \<Rightarrow> \<not> indent_error x
    | Inr p' \<Rightarrow> text_step p p' \<and> has_definition (out (fmt p')) (prefix # decimal n) kind"
proof -
  let ?h = "concat [''#[local] Definition '', [prefix], decimal n, '' : '' @ kind @ '' := '']"
  have "balanced (''#[local] Definition '' @ [prefix] @ decimal n @ '' : '' @ kind @ '' := '')"
    using prefix kind by (intro balanced_append plain_balanced) simp_all
  then have h: "safe (put ?h)" by (intro steps_put) simp
  obtain q where q: "put ?h p = Inr q" "out (fmt q) = out (fmt p) @ pending (fmt p) @ ?h"
    by (simp add: put_Inr)
  then have d: "has_definition (out (fmt q)) (prefix # decimal n) kind"
    unfolding has_definition_def by (intro exI [of _ "out (fmt p) @ pending (fmt p)"] exI [of _ "[]"]) simp
  have s: "text_step p q" using safe_text_step [OF h, of p] q(1) by simp
  have e: "seqP (puts [''#[local] Definition '', [prefix], decimal n, '' : '' @ kind @ '' := ''] # rest) p = seqP rest q"
    unfolding seqP_run_Cons puts_def q(1) by simp
  show ?thesis
    unfolding e using safe_text_step [OF body, of q] text_step_definition [OF _ d] text_step_trans [OF s]
    by (auto split: sum.splits)
qed

lemma type_fn_line:
  assumes ok: "run_ok env tc ctx" and "plain [prefix]"
  shows "case type_fn env tc ctx print d c prefix n t p of
      Inl x \<Rightarrow> \<not> indent_error x
    | Inr p' \<Rightarrow> text_step p p' \<and> has_definition (out (fmt p')) (prefix # decimal n) ''type''"
proof -
  have "safe (seqP [withDecl ctx d (printType (print\<lparr>name_cache := c\<rparr>)
            (new_ClangPrinter env ctx (consumer_comment tc) (consumer_typedefs tc) (print\<lparr>name_cache := c\<rparr>)) t),
          put ''.'', nl])"
    by (rule printer_intros run_rules [OF ok] | (simp; fail))+
  from definition_line [OF this assms(2), where kind = "''type''" and n = n and p = p] show ?thesis
    by (simp add: type_fn_def Let_def del: seqP.simps)
qed

lemma name_fn_line:
  assumes ok: "run_ok env tc ctx" and "plain [prefix]"
  shows "case name_fn env tc ctx print d c prefix n e p of
      Inl x \<Rightarrow> \<not> indent_error x
    | Inr p' \<Rightarrow> text_step p p' \<and> has_definition (out (fmt p')) (prefix # decimal n) ''name''"
proof -
  have "safe (seqP [withDecl ctx d (printName (print\<lparr>name_cache := c\<rparr>)
            (new_ClangPrinter env ctx (consumer_comment tc) (consumer_typedefs tc) (print\<lparr>name_cache := c\<rparr>)) e True),
          put ''.'', nl])"
    by (rule printer_intros run_rules [OF ok] | (simp; fail))+
  from definition_line [OF this assms(2), where kind = "''name''" and n = n and p = p] show ?thesis
    by (simp add: name_fn_def Let_def del: seqP.simps)
qed

section \<open>The relation between the states of the search\<close>

text \<open>Numbers are handed out once, and what has a number has its definition in the text.\<close>

definition defined_in :: "NameCache \<Rightarrow> char \<Rightarrow> string \<Rightarrow> string \<Rightarrow> bool" where
  "defined_in c prefix kind text \<longleftrightarrow> nc_ok c
     \<and> (\<forall>k. nc_lookup c k \<noteq> 0 \<longrightarrow> has_definition text (prefix # decimal (nc_lookup c k)) kind)"

definition all_defined :: "prestate \<Rightarrow> bool" where
  "all_defined s \<longleftrightarrow> (let text = out (fmt (pprint s)) in
     defined_in (types_nc (pcache s)) TYPE_PREFIX ''type'' text \<and> defined_in (names_nc (pcache s)) NAME_PREFIX ''name'' text)"

lemma defined_in_step: "text_step p p' \<Longrightarrow> defined_in c prefix kind (out (fmt p)) \<Longrightarrow> defined_in c prefix kind (out (fmt p'))"
  by (simp add: defined_in_def text_step_definition)

lemma defined_in_store:
  assumes "nc_fresh c = (n, c1)" and "nc_store k n c1 = Inr c2" and "defined_in c prefix kind text"
    and "has_definition text (prefix # decimal n) kind"
  shows "defined_in c2 prefix kind text"
  using assms nc.fresh_lookup [OF assms(1)] nc.store_lookup [OF assms(2)] nc.store_ok [OF _ assms(1,2)]
  by (auto simp: defined_in_def)

definition run_step :: "environment \<Rightarrow> ToCoqConsumer \<Rightarrow> ASTContext \<Rightarrow> prestate \<Rightarrow> prestate \<Rightarrow> bool" where
  "run_step env tc ctx s s' \<longleftrightarrow>
     (run_ok env tc ctx \<longrightarrow> text_step (pprint s) (pprint s') \<and> (all_defined s \<longrightarrow> all_defined s'))"

definition run_stop :: "environment \<Rightarrow> ToCoqConsumer \<Rightarrow> ASTContext \<Rightarrow> stop \<Rightarrow> bool" where
  "run_stop env tc ctx x \<longleftrightarrow> (run_ok env tc ctx \<longrightarrow> \<not> indent_error x)"

lemma nc_store_error: "nc_store k n c = Inl x \<Longrightarrow> \<not> indent_error x"
  by (auto simp: nc_store_def split: if_splits)

lemma keeps_define_type:
  assumes "type_printer pp = type_fn env tc ctx print d"
  shows "keeps (run_step env tc ctx) (run_stop env tc ctx) (define_type pp t)"
proof (cases "run_ok env tc ctx")
  case True
  show ?thesis
    unfolding keeps_def
  proof
    fix s :: prestate
    obtain n c1 where f: "nc_fresh (types_nc (pcache s)) = (n, c1)" by (cases "nc_fresh (types_nc (pcache s))")
    let ?c = "(pcache s)\<lparr>types_nc := c1\<rparr>"
    have l: "case type_fn env tc ctx print d ?c TYPE_PREFIX n t (pprint s) of
      Inl x \<Rightarrow> \<not> indent_error x
    | Inr p' \<Rightarrow> text_step (pprint s) p' \<and> has_definition (out (fmt p')) (TYPE_PREFIX # decimal n) ''type''"
      by (rule type_fn_line [OF True]) (simp add: TYPE_PREFIX_def)
    show "case define_type pp t s of Inl x \<Rightarrow> run_stop env tc ctx x | Inr s' \<Rightarrow> run_step env tc ctx s s'"
    proof (cases "type_fn env tc ctx print d ?c TYPE_PREFIX n t (pprint s)")
      case (Inl x)
      with l show ?thesis
        by (simp add: define_type_def fresh_type_def f run_printer_def run_defs assms run_stop_def)
    next
      case (Inr q)
      with l have q: "text_step (pprint s) q" "has_definition (out (fmt q)) (TYPE_PREFIX # decimal n) ''type''" by simp_all
      show ?thesis
        using Inr q defined_in_step [OF q(1)] defined_in_store [OF f _ _ q(2), of t] nc_store_error [of t n c1]
        by (auto simp: define_type_def fresh_type_def f run_printer_def run_defs assms run_stop_def run_step_def
            store_type_def all_defined_def Let_def split: sum.splits)
    qed
  qed
qed (auto simp: keeps_def run_step_def run_stop_def split: sum.split)

lemma keeps_define_name:
  assumes "name_printer pp = name_fn env tc ctx print d"
  shows "keeps (run_step env tc ctx) (run_stop env tc ctx) (define_name pp e)"
proof (cases "run_ok env tc ctx")
  case True
  show ?thesis
    unfolding keeps_def
  proof
    fix s :: prestate
    obtain n c1 where f: "nc_fresh (names_nc (pcache s)) = (n, c1)" by (cases "nc_fresh (names_nc (pcache s))")
    let ?c = "(pcache s)\<lparr>names_nc := c1\<rparr>"
    have l: "case name_fn env tc ctx print d ?c NAME_PREFIX n e (pprint s) of
      Inl x \<Rightarrow> \<not> indent_error x
    | Inr p' \<Rightarrow> text_step (pprint s) p' \<and> has_definition (out (fmt p')) (NAME_PREFIX # decimal n) ''name''"
      by (rule name_fn_line [OF True]) (simp add: NAME_PREFIX_def)
    show "case define_name pp e s of Inl x \<Rightarrow> run_stop env tc ctx x | Inr s' \<Rightarrow> run_step env tc ctx s s'"
    proof (cases "name_fn env tc ctx print d ?c NAME_PREFIX n e (pprint s)")
      case (Inl x)
      with l show ?thesis
        by (simp add: define_name_def fresh_name_def f run_printer_def run_defs assms run_stop_def)
    next
      case (Inr q)
      with l have q: "text_step (pprint s) q" "has_definition (out (fmt q)) (NAME_PREFIX # decimal n) ''name''" by simp_all
      show ?thesis
        using Inr q defined_in_step [OF q(1)] defined_in_store [OF f _ _ q(2), of e] nc_store_error [of e n c1]
        by (auto simp: define_name_def fresh_name_def f run_printer_def run_defs assms run_stop_def run_step_def
            store_name_def all_defined_def Let_def split: sum.splits)
    qed
  qed
qed (auto simp: keeps_def run_step_def run_stop_def split: sum.split)

interpretation shared: visit_relation "run_step env tc ctx" "run_stop env tc ctx"
  "type_fn env tc ctx print d" "name_fn env tc ctx print d" for env tc ctx print d
proof
  show "run_step env tc ctx s s" for s by (simp add: run_step_def text_step_refl)
  show "run_step env tc ctx s s2" if "run_step env tc ctx s s1" "run_step env tc ctx s1 s2" for s s1 s2
    using that text_step_trans by (auto simp: run_step_def)
  show "run_stop env tc ctx OutOfFuel" "run_stop env tc ctx (AssertionFailed ''null initializer'')"
    by (simp_all add: run_stop_def)
qed (simp_all add: keeps_define_type keeps_define_name)

end
