(* ===== verification/ToCoqFiles.thy ===== *)
theory ToCoqFiles
  imports SharedProps PrinterExamples
begin

text \<open>
  The files of a translation unit as a whole: which are written, that they are balanced, and that the module file defines
  what it refers to.
\<close>

section \<open>The module file\<close>

lemma keeps_run_printer:
  assumes "\<And>c. run_ok env tc ctx \<Longrightarrow> safe (f c)"
  shows "keeps (run_step env tc ctx) (run_stop env tc ctx) (run_printer f)"
  unfolding keeps_def
proof
  fix s :: prestate
  have "case f (pcache s) (pprint s) of Inl x \<Rightarrow> \<not> indent_error x | Inr p' \<Rightarrow> text_step (pprint s) p'"
    if "run_ok env tc ctx"
    by (rule safe_text_step [OF assms [OF that]])
  then show "case run_printer f s of Inl x \<Rightarrow> run_stop env tc ctx x | Inr s' \<Rightarrow> run_step env tc ctx s s'"
    by (cases "f (pcache s) (pprint s)")
      (auto simp: run_printer_def run_step_def run_stop_def all_defined_def Let_def dest: defined_in_step)
qed

lemma keeps_preprint: "keeps (run_step env tc ctx) (run_stop env tc ctx) (preprint env tc ctx print d)"
  unfolding preprint_def by (rule shared.keeps_prePrintDecl)

lemma keeps_on_nl: "keeps (run_step env tc ctx) (run_stop env tc ctx) (on_print nl)"
  unfolding on_print_def by (rule keeps_run_printer) (rule steps_nl)

lemma keeps_preprint_module: "keeps (run_step env tc ctx) (run_stop env tc ctx) (preprint_module env tc ctx m print)"
  unfolding preprint_module_def
  by (intro shared.keeps_seqP) (auto simp: keeps_on_nl simp del: seqP.simps intro!: shared.keeps_seqP keeps_preprint)

lemma keeps_module_file: "keeps (run_step env tc ctx) (run_stop env tc ctx) (module_file env tc ctx m)"
proof -
  have h: "keeps (run_step env tc ctx) (run_stop env tc ctx)
      (on_print (seqP [parser_import print, bytestring, nl]))" for print
    unfolding on_print_def
    by (rule keeps_run_printer) (rule printer_intros steps_parser_import steps_bytestring)+
  have b: "keeps (run_step env tc ctx) (run_stop env tc ctx) (run_printer (\<lambda>c. let print' = print\<lparr>name_cache := c\<rparr> in
      module_definition tc m print' (new_ClangPrinter env ctx (consumer_comment tc) (consumer_typedefs tc) print')))"
    for print
    by (rule keeps_run_printer) (simp add: Let_def steps_module_definition)
  show ?thesis
    unfolding module_file_def Let_def
    by (rule shared.keeps_seqP) (use h b keeps_preprint_module shared.keeps_skip in \<open>auto simp: Let_def\<close>)
qed

lemma all_defined_init: "all_defined \<lparr>pcache = Cache_init, pprint = p\<rparr>"
  using nc_ok_init
  by (simp add: all_defined_def defined_in_def Cache_init_def nc_lookup_def NameCache_init_def)

lemma safe_module_file:
  assumes ok: "run_ok env tc ctx"
  shows "case with_new_cache (module_file env tc ctx m) p of Inl x \<Rightarrow> \<not> indent_error x | Inr p' \<Rightarrow> text_step p p'"
  using keepsD [OF keeps_module_file, of env tc ctx m "\<lparr>pcache = Cache_init, pprint = p\<rparr>"] ok
  by (auto simp: with_new_cache_def run_step_def run_stop_def split: sum.split)

section \<open>What is defined\<close>

text \<open>
  C10. After the search for shared types and names, every name that the printers of the module will write for a type or a
  declaration has a definition in the text before, and no name is given to two types or to two declarations.
\<close>

theorem shared_definitions:
  assumes "run_ok env tc ctx"
    and "preprint_module env tc ctx m print \<lparr>pcache = Cache_init, pprint = p\<rparr> = Inr s"
  shows "let print' = print\<lparr>name_cache := pcache s\<rparr>; text = out (fmt (pprint s)) in
    (\<forall>k nm. reference_type print' k = Some nm \<longrightarrow>
       has_definition text nm ''type'' \<and> (\<forall>k'. reference_type print' k' = Some nm \<longrightarrow> k' = k))
    \<and> (\<forall>k nm. reference_name print' k = Some nm \<longrightarrow>
       has_definition text nm ''name'' \<and> (\<forall>k'. reference_name print' k' = Some nm \<longrightarrow> k' = k))"
proof -
  have d: "all_defined s"
    using keepsD(1) [OF keeps_preprint_module assms(2)] assms(1) all_defined_init by (simp add: run_step_def)
  have inj: "k' = k" if "nc_ok c" "nc_reference prefix c k = Some nm" "nc_reference prefix c k' = Some nm" for prefix c k k' nm
    using that decimal_inject
    by (auto simp: nc_reference_def nc_ok_def nc_lookup_def Let_def split: if_splits option.splits)
  have "has_definition w nm kind" if "defined_in c prefix kind w" "nc_reference prefix c k = Some nm"
    for prefix c k nm kind w
    using that by (auto simp: defined_in_def nc_reference_def Let_def split: if_splits)
  with d inj show ?thesis
    by (auto simp: all_defined_def defined_in_def reference_type_def reference_name_def Let_def)
qed

section \<open>All files\<close>

text \<open>The files that are asked for, in the order in which they are written.\<close>

definition requested_files :: "ToCoqConsumer \<Rightarrow> string list" where
  "requested_files tc =
     concat (map (\<lambda>f. case f of None \<Rightarrow> [] | Some p \<Rightarrow> [p])
       [output_file tc, notations_file tc, templates_file tc, name_test_file tc])"

definition files_step :: "environment \<Rightarrow> string list \<Rightarrow> outputs \<Rightarrow> outputs \<Rightarrow> bool" where
  "files_step env ps s s' \<longleftrightarrow>
     (\<exists>new. written s' = written s @ new \<and> (\<forall>x \<in> set new. balanced (snd x))
        \<and> map fst new = filter (\<lambda>p. open_error env p = None) ps)"

lemma files_step_append: "files_step env ps s s1 \<Longrightarrow> files_step env qs s1 s2 \<Longrightarrow> files_step env (ps @ qs) s s2"
  unfolding files_step_def by (elim exE conjE) (rule_tac x = "new @ newa" in exI, auto)

lemma file_written:
  assumes "\<And>p. path \<noteq> None \<Longrightarrow> case f p of Inl x \<Rightarrow> \<not> indent_error x | Inr p' \<Rightarrow> text_step p p'"
  shows "case with_open_file env path f s of
      Inl x \<Rightarrow> \<not> indent_error x
    | Inr s' \<Rightarrow> files_step env (case path of None \<Rightarrow> [] | Some p \<Rightarrow> [p]) s s'"
proof (cases path)
  case None
  then show ?thesis by (simp add: with_open_file_def files_step_def)
next
  case (Some p)
  have "case f (pstate_init\<lparr>diags := messages s\<rparr>) of
      Inl x \<Rightarrow> \<not> indent_error x | Inr p' \<Rightarrow> text_step (pstate_init\<lparr>diags := messages s\<rparr>) p'"
    by (rule assms) (simp add: Some)
  then show ?thesis
    using Some
    by (auto simp: with_open_file_def files_step_def text_step_def pstate_init_def Formatter_init_def
        split: option.split sum.splits)
qed

lemma write_files_written:
  assumes ok: "run_ok env tc ctx"
  shows "case write_files env tc ctx m s of
      Inl x \<Rightarrow> \<not> indent_error x | Inr s' \<Rightarrow> files_step env (requested_files tc) s s'"
proof -
  let ?p = "\<lambda>path. case path of None \<Rightarrow> [] | Some p \<Rightarrow> [p]"
  let ?f = "\<lambda>path f s. with_open_file env path f s"
  let ?ok = "\<lambda>path f. \<forall>s. case ?f path f s of Inl x \<Rightarrow> \<not> indent_error x | Inr s' \<Rightarrow> files_step env (?p path) s s'"
  have 1: "?ok (output_file tc) (with_new_cache (module_file env tc ctx m))"
    by (intro allI file_written safe_module_file ok)
  have 2: "?ok (notations_file tc) (notations_text env tc ctx m)"
    by (intro allI file_written safe_text_step steps_notations_text ok)
  have 3: "?ok (templates_file tc) (templates_text env tc ctx m)"
    by (intro allI file_written safe_text_step steps_templates_text ok)
  have 4: "?ok (name_test_file tc) (name_test_text env tc ctx m)"
    by (intro allI file_written safe_text_step steps_name_test_text ok)
  have r: "requested_files tc
      = ?p (output_file tc) @ ?p (notations_file tc) @ ?p (templates_file tc) @ ?p (name_test_file tc) @ []"
    by (simp add: requested_files_def)
  have step: "\<forall>s. case seqP (?f path f # ps) s of Inl x \<Rightarrow> \<not> indent_error x | Inr s' \<Rightarrow> files_step env (?p path @ qs) s s'"
    if p: "?ok path f"
      and q: "\<forall>s. case seqP ps s of Inl x \<Rightarrow> \<not> indent_error x | Inr s' \<Rightarrow> files_step env qs s s'"
    for path f ps qs
  proof
    fix s
    show "case seqP (?f path f # ps) s of Inl x \<Rightarrow> \<not> indent_error x | Inr s' \<Rightarrow> files_step env (?p path @ qs) s s'"
    proof (cases "?f path f s")
      case (Inl x)
      with spec [OF p, of s] show ?thesis by (simp add: seqA_def)
    next
      case (Inr s1)
      with spec [OF p, of s] spec [OF q, of s1] files_step_append show ?thesis
        by (auto simp: seqA_def split: sum.splits)
    qed
  qed
  have "\<forall>s. case seqP [] s of Inl x \<Rightarrow> \<not> indent_error x | Inr s' \<Rightarrow> files_step env [] s s'"
    by (simp add: skip_def files_step_def)
  from step [OF 1 step [OF 2 step [OF 3 step [OF 4 this]]]] show ?thesis
    unfolding write_files_def r by blast
qed

text \<open>
  C1. For an AST that \<open>run_ok\<close> admits: \<open>printable\<close> and \<open>notations_ok\<close> hold of it (no double quotes in identifiers and the
  other texts that clang supplies, no parentheses in the names of operators, casts and builtins, no atomic builtin that
  is not in clang's list, no unary type trait that is not supported), and the names that \<open>--comment\<close> and the traces that \<open>--name-test\<close> write into comments are balanced.
  Then a run that returns has written exactly the files that are asked for and can be opened, and the text of each of
  them has matching parentheses and closed string literals.  A run that stops, which may leave some of the files
  unwritten, stops because the module could not be built or because of something other than a failed assertion about
  the indentation.
\<close>

theorem toCoqModule_balanced:
  assumes "run_ok env tc ctx"
  shows "case toCoqModule env tc ctx tu s of
      Inl x \<Rightarrow> (\<exists>tmpl. build_module (fuel env) (Default DEFINITION) tmpl ctx tu = Inl x) \<or> \<not> indent_error x
    | Inr s' \<Rightarrow> \<exists>new. written s' = written s @ new \<and> (\<forall>x \<in> set new. balanced (snd x))
        \<and> map fst new = filter (\<lambda>p. open_error env p = None) (requested_files tc)"
proof (cases "build_module (fuel env) (Default DEFINITION) (templates_file tc \<noteq> None \<or> name_test_file tc \<noteq> None) ctx tu")
  case (Inl x)
  then have "toCoqModule env tc ctx tu s = Inl x" by (simp add: toCoqModule_def stopA_def)
  with Inl show ?thesis by auto
next
  case (Inr b)
  then have "toCoqModule env tc ctx tu s = write_files env tc ctx (module b) s" by (simp add: toCoqModule_def)
  with write_files_written [OF assms, where m = "module b" and s = s] show ?thesis
    by (simp add: files_step_def split: sum.splits)
qed

section \<open>A run\<close>

text \<open>The variable \<open>x\<close> of the example with the type pointer (1) to \<open>int\<close> (0).\<close>

definition pointer_ast :: ASTContext where
  "pointer_ast = example_ast\<lparr>
     decl := (\<lambda>d. (decl0 d)\<lparr>getKind := (if d = 0 then TranslationUnitDecl else VarDecl), isDeclContext := (d = 0),
                            decls := (if d = 0 then [1] else [])\<rparr>),
     type_of := (\<lambda>t. type0\<lparr>type_node := (if t = 1 then PointerType (qual0 0) else BuiltinType BT_Int)\<rparr>),
     named_of := (\<lambda>d. named0\<lparr>getIdentifier := (if d = 1 then Some ''x'' else None), getType := qual0 1,
                             getDeclContext := (if d = 0 then None else Some 0)\<rparr>)\<rparr>"

definition run_env :: environment where
  "run_env = \<lparr>open_error = (\<lambda>p. None), host_big_endian = False, sources = source_info0, fuel = 4\<rparr>"

definition run_consumer :: ToCoqConsumer where
  "run_consumer = \<lparr>compiler_sema = (\<lambda>_ _ ctx. ctx), compiler_cxx11 = True, output_file = Some ''m.v'',
     notations_file = None, templates_file = None, name_test_file = None,
     consumer_structured_keys = True, consumer_comment = False, sharing = True, elaborate = True,
     check_types = False, consumer_typedefs = True\<rparr>"

lemma pointer_run_ok: "run_ok run_env run_consumer pointer_ast"
  by (simp add: run_ok_def run_env_def run_consumer_def printable_def notations_ok_def pointer_ast_def example_ast_def
      ast0_def named0_def naming0_def type0_def expr0_def quote_free_def printable_expr_def decl0_def isa_def example_kinds
      del: One_nat_def)

lemma pointer_tables:
  "type_of pointer_ast = (\<lambda>t. type0\<lparr>type_node := (if t = 1 then PointerType (qual0 0) else BuiltinType BT_Int)\<rparr>)"
  by (simp add: pointer_ast_def)

lemma numeral_4: "(4 :: nat) = Suc (Suc (Suc (Suc 0)))"
  by simp

lemma pointer_type_fn:
  assumes "entries (types_nc c) = Map.empty"
  shows "type_fn run_env run_consumer pointer_ast print 1 c prefix n 1
    = seqP [puts [''#[local] Definition '', [prefix], decimal n, '' : type := ''],
            withDecl pointer_ast 1 (depth_checked (AssertionFailed depth_assertion)
              (seqP [ctor ''Tptr'' False, depth_checked (AssertionFailed depth_assertion) (put ''Tint''), end_ctor])),
            put ''.'', nl]"
  using assms
  by (simp add: type_fn_def Let_def new_ClangPrinter_def run_env_def numeral_4 printType_def PrintType_Visit_def
      reference_type_def nc_reference_def nc_lookup_def pointer_tables printQualType_def VisitPointerType_def
      VisitBuiltinType_def type0_def del: seqP.simps One_nat_def)

definition run_module :: Module where
  "run_module = Module_init\<lparr>definitions := [1]\<rparr>"

lemma pointer_decl:
  "getKind (decl pointer_ast 1) = VarDecl" "getType (named_of pointer_ast 1) = qual0 1"
  by (simp_all add: pointer_ast_def)

lemma run_env_fuel: "fuel run_env = Suc (Suc (Suc (Suc 0)))"
  by (simp add: run_env_def)

lemmas cache_run = Cache_init_def NameCache_init_def nc_lookup_def nc_fresh_def nc_store_def

text \<open>The pointer type is defined as \<open>t2\<close>, the type \<open>int\<close> is not.\<close>

lemma pointer_preprint:
  "preprint run_env run_consumer pointer_ast print 1 \<lparr>pcache = Cache_init, pprint = p\<rparr>
   = (case type_fn run_env run_consumer pointer_ast print 1 (Cache_init\<lparr>types_nc := NameCache_init\<lparr>next_num := 2\<rparr>\<rparr>)
             TYPE_PREFIX 2 1 p of
        Inl x \<Rightarrow> Inl x
      | Inr q \<Rightarrow> Inr \<lparr>pcache = Cache_init\<lparr>types_nc := \<lparr>entries = [1 \<mapsto> 2], next_num = 2\<rparr>\<rparr>, pprint = q\<rparr>)"
proof -
  have v: "pre_Visit_type (mk_PrePrint n pointer_ast f g) 0 s = Inr s" for n f g s
    by (simp add: pre_Visit_type_def pointer_tables type0_def pre_VisitType_def bindQ_def returning_def skip_def)
  show ?thesis
    by (simp add: preprint_def prePrintDecl_def pre_Visit_decl_def dispatch_def pointer_decl example_kinds
        pre_VisitVarDecl_def visit_qual_def visit_opt_def run_env_fuel mk_PrePrint_methods isa_def
        pre_Visit_type_def [of _ 1] pointer_tables v cache_run bindQ_def pre_VisitPointerType_def returning_def
        define_type_def fresh_type_def run_printer_def store_type_def seqA_def skip_def numeral_2_eq_2
        del: One_nat_def split: sum.split)
qed

definition run_print :: CoqPrinter where
  "run_print = new_CoqPrinter False True"

definition shared_cache :: Cache where
  "shared_cache = Cache_init\<lparr>types_nc := \<lparr>entries = [1 \<mapsto> 2], next_num = 2\<rparr>\<rparr>"

definition pointer_line :: printer where
  "pointer_line =
     seqP [puts [''#[local] Definition '', [TYPE_PREFIX], decimal 2, '' : type := ''],
           withDecl pointer_ast 1 (depth_checked (AssertionFailed depth_assertion)
             (seqP [ctor ''Tptr'' False, depth_checked (AssertionFailed depth_assertion) (put ''Tint''), end_ctor])),
           put ''.'', nl]"

lemma pointer_preprint_line:
  "preprint_module run_env run_consumer pointer_ast run_module print \<lparr>pcache = Cache_init, pprint = p\<rparr>
   = (case seqP [pointer_line, nl] p of Inl x \<Rightarrow> Inl x | Inr q \<Rightarrow> Inr \<lparr>pcache = shared_cache, pprint = q\<rparr>)"
proof -
  have e: "entries (types_nc (Cache_init\<lparr>types_nc := NameCache_init\<lparr>next_num := 2\<rparr>\<rparr>)) = Map.empty"
    by (simp add: NameCache_init_def)
  have "preprint run_env run_consumer pointer_ast print 1 \<lparr>pcache = Cache_init, pprint = p\<rparr>
      = (case pointer_line p of Inl x \<Rightarrow> Inl x | Inr q \<Rightarrow> Inr \<lparr>pcache = shared_cache, pprint = q\<rparr>)"
    unfolding pointer_preprint pointer_type_fn [OF e] pointer_line_def shared_cache_def ..
  then show ?thesis
    unfolding preprint_module_def run_module_def Module_init_def
    by (simp add: seqP_run_Cons seqP_run_Nil on_print_def run_printer_def del: seqP.simps One_nat_def split: sum.split)
qed

lemma pointer_preprint_run:
  "case preprint_module run_env run_consumer pointer_ast run_module print \<lparr>pcache = Cache_init, pprint = pstate_init\<rparr> of
     Inl x \<Rightarrow> False
   | Inr s \<Rightarrow> pcache s = shared_cache \<and> out (fmt (pprint s)) = ''#[local] Definition t2 : type := (Tptr Tint).'' @ [NL, NL]"
proof -
  have "case seqP [pointer_line, nl] pstate_init of Inl x \<Rightarrow> False
    | Inr r \<Rightarrow> out (fmt r) = ''#[local] Definition t2 : type := (Tptr Tint).'' @ [NL, NL]" by code_simp
  then show ?thesis
    unfolding pointer_preprint_line by (simp del: seqP.simps split: sum.splits)
qed

theorem shared_definitions_witness:
  "\<exists>s. preprint_module run_env run_consumer pointer_ast run_module run_print \<lparr>pcache = Cache_init, pprint = pstate_init\<rparr> = Inr s
     \<and> out (fmt (pprint s)) = ''#[local] Definition t2 : type := (Tptr Tint).'' @ [NL, NL]
     \<and> reference_type (run_print\<lparr>name_cache := pcache s\<rparr>) 1 = Some ''t2''
     \<and> has_definition (out (fmt (pprint s))) ''t2'' ''type''"
proof -
  obtain s where s: "preprint_module run_env run_consumer pointer_ast run_module run_print
        \<lparr>pcache = Cache_init, pprint = pstate_init\<rparr> = Inr s" "pcache s = shared_cache"
      "out (fmt (pprint s)) = ''#[local] Definition t2 : type := (Tptr Tint).'' @ [NL, NL]"
    using pointer_preprint_run [of run_print] by (auto split: sum.splits)
  have r: "reference_type (run_print\<lparr>name_cache := pcache s\<rparr>) 1 = Some ''t2''"
    unfolding s(2) by code_simp
  from shared_definitions [OF pointer_run_ok s(1)] r have "has_definition (out (fmt (pprint s))) ''t2'' ''type''"
    by (simp add: Let_def)
  with s r show ?thesis by blast
qed

text \<open>The variable is printed with the name \<open>t2\<close> for its type.\<close>

definition shared_print :: CoqPrinter where
  "shared_print = run_print\<lparr>name_cache := shared_cache\<rparr>"

lemma shared_print_simps [simp]:
  "templates shared_print = False" "reference_name shared_print d = None"
  "reference_type shared_print t = (if t = 1 then Some ''t2'' else None)"
proof -
  have "decimal 2 = ''2''" by code_simp
  then show "templates shared_print = False" "reference_name shared_print d = None"
    "reference_type shared_print t = (if t = 1 then Some ''t2'' else None)"
    by (simp_all add: shared_print_def run_print_def new_CoqPrinter_def shared_cache_def reference_name_def
        reference_type_def cache_run nc_reference_def TYPE_PREFIX_def Let_def)
qed

lemma pointer_rows:
  "decl pointer_ast = (\<lambda>d. (decl0 d)\<lparr>getKind := (if d = 0 then TranslationUnitDecl else VarDecl), isDeclContext := (d = 0),
                                     decls := (if d = 0 then [1] else [])\<rparr>)"
  "named_of pointer_ast = (\<lambda>d. named0\<lparr>getIdentifier := (if d = 1 then Some ''x'' else None), getType := qual0 1,
                                     getDeclContext := (if d = 0 then None else Some 0)\<rparr>)"
  "naming_of pointer_ast = (\<lambda>d. naming0\<lparr>getContextParent := (if d = 0 then None else Some 0)\<rparr>)"
  "body_of pointer_ast = (\<lambda>e. body0)"
  by (simp_all add: pointer_ast_def example_tables)

lemma pointer_context: "ancestor_loop n pointer_ast 0 = Inr 0"
  by (subst ancestor_loop.simps)
    (simp add: isIgnorableContext_def classifyContext_def pointer_rows decl0_def isa_def example_kinds)

lemmas pointer_defs = pointer_rows decl0_def named0_def naming0_def body0_def example_kinds isa_def pointer_context getName_def

lemma pointer_name:
  "printName shared_print (mk_cprint n shared_print (ClangPrinter_config run_env pointer_ast False True)) 1 True =
     withDeclContext (Some 0) (guard_ctor ''Nglobal'' False [guard_ctor ''Nid'' False [str ''x'']])"
  by (simp del: One_nat_def
      add: printName_def withDecl_def withDeclContext_def [abs_def] structured_printName_def
      printName_path_def getNonIgnorableAncestor_def with_answer_def printAtomicName_def
      atomic_by_content_def atomic_by_kind_def described_template_def recoverSpecialization_def
      ident_or_anon_def Nid_def isNamed_def isTranslationUnit_def pointer_defs)

lemma pointer_type:
  "printType shared_print (mk_cprint n shared_print (ClangPrinter_config run_env pointer_ast False True)) 1 =
     depth_checked (AssertionFailed depth_assertion) (put ''t2'')"
  by (simp add: printType_def PrintType_Visit_def del: One_nat_def)

definition pointer_text :: bprinter where
  "pointer_text =
     orQ (printed
           (guard_ctor ''Dvariable'' True
             [skip, nbsp,
              withDeclContext (Some 0) (guard_ctor ''Nglobal'' False [guard_ctor ''Nid'' False [str ''x'']]),
              nbsp,
              seqP [depth_checked (AssertionFailed depth_assertion) (put ''t2''), nbsp, put ''global_init.NoInit'']]))
       nothing"

lemma pointer_variable:
  "printDecl shared_print (new_ClangPrinter run_env pointer_ast False True shared_print) 1 = pointer_text"
  unfolding pointer_text_def
  by (simp del: seqP.simps One_nat_def
      add: new_ClangPrinter_def run_env_fuel
        printDecl_def PrintDecl_methods_def dispatch_def Dvariable_def DeclPrinter_print_def
        print_untemplated_def printNameComment_def printNameAsKey_def printVar_def printQualType_def
        printExpr1_def printSpecialization_def pointer_name pointer_type pointer_defs)

lemma run_module_built:
  "case build_module (fuel run_env) (Default DEFINITION) False pointer_ast 0 of Inl x \<Rightarrow> False | Inr b \<Rightarrow> module b = run_module"
  unfolding run_env_fuel by code_simp

text \<open>The file of the example as one action.\<close>

definition run_head :: printer where
  "run_head = seqP [parser_import run_print, bytestring, nl]"

definition run_shared :: printer where
  "run_shared = seqP [pointer_line, nl]"

definition run_definition :: printer where
  "run_definition =
     seqP [put ''Definition module : translation_unit := '', indent, nl,
           put ''translation_unit.check '', nbsp, begin_list,
           seqP [], seqP [bindQ (withDeclQ pointer_ast 1 pointer_text) (\<lambda>b. if b then cons else skip)], seqP [],
           end_list, nbsp, endianness pointer_ast, put ''.'', outdent, nl, skip]"

lemma run_consumer_simps:
  "sharing run_consumer" "\<not> check_types run_consumer" "consumer_structured_keys run_consumer"
  "\<not> consumer_comment run_consumer" "consumer_typedefs run_consumer" "output_file run_consumer = Some ''m.v''"
  "notations_file run_consumer = None" "templates_file run_consumer = None" "name_test_file run_consumer = None"
  by (simp_all add: run_consumer_def)

lemma run_definition_module:
  "module_definition run_consumer run_module shared_print (new_ClangPrinter run_env pointer_ast False True shared_print)
   = run_definition"
proof -
  have d: "module_printDecl shared_print (new_ClangPrinter run_env pointer_ast False True shared_print) 1
      = bindQ (withDeclQ pointer_ast 1 pointer_text) (\<lambda>b. if b then cons else skip)"
    unfolding module_printDecl_def pointer_variable new_ClangPrinter_context ..
  show ?thesis
    unfolding module_definition_def run_module_def Module_init_def run_definition_def
    by (simp add: d run_consumer_simps del: seqP.simps One_nat_def)
qed

lemma run_text_file:
  "with_new_cache (module_file run_env run_consumer pointer_ast run_module) p = seqP [run_head, run_shared, run_definition] p"
proof -
  have h: "module_file run_env run_consumer pointer_ast run_module
      = seqP [on_print run_head,
              preprint_module run_env run_consumer pointer_ast run_module run_print,
              run_printer (\<lambda>c. module_definition run_consumer run_module (run_print\<lparr>name_cache := c\<rparr>)
                (new_ClangPrinter run_env pointer_ast False True (run_print\<lparr>name_cache := c\<rparr>)))]"
    by (simp add: module_file_def run_consumer_simps run_print_def run_head_def Let_def del: seqP.simps)
  show ?thesis
    unfolding h with_new_cache_def
    by (simp add: seqP_run_Cons seqP_run_Nil on_print_def
        run_printer_def pointer_preprint_line [folded run_shared_def] shared_print_def [symmetric] run_definition_module
        del: seqP.simps split: sum.split)
qed

definition run_output :: string where
  "run_output = ''Require Import bedrock.lang.cpp.parser.'' @ [NL, NL]
     @ ''#[local] Open Scope pstring_scope.'' @ [NL, NL]
     @ ''#[local] Definition t2 : type := (Tptr Tint).'' @ [NL, NL]
     @ ''Definition module : translation_unit := '' @ [NL]
     @ ''  translation_unit.check  ('' @ [NL]
     @ ''    (Dvariable (Nglobal (Nid '' @ [DQ] @ ''x'' @ [DQ] @ '')) t2 global_init.NoInit) :: nil) Little.'' @ [NL]"

lemma run_text_output: "case seqP [run_head, run_shared, run_definition] pstate_init of
    Inl x \<Rightarrow> False | Inr s \<Rightarrow> out (fmt s) = run_output \<and> diags s = []"
  by code_simp

theorem toCoqModule_balanced_witness:
  "\<exists>s. toCoqModule run_env run_consumer pointer_ast 0 outputs_init = Inr s
     \<and> written s = [(''m.v'', run_output)] \<and> balanced run_output"
proof -
  obtain b where b: "build_module (fuel run_env) (Default DEFINITION) False pointer_ast 0 = Inr b" "module b = run_module"
    using run_module_built by (auto split: sum.splits)
  obtain q where q: "seqP [run_head, run_shared, run_definition] pstate_init = Inr q" "out (fmt q) = run_output"
    using run_text_output by (auto simp del: seqP.simps split: sum.splits)
  have i: "pstate_init\<lparr>diags := []\<rparr> = pstate_init" by (simp add: pstate_init_def)
  have f: "with_open_file run_env (Some ''m.v'') (with_new_cache (module_file run_env run_consumer pointer_ast run_module)) outputs_init
      = Inr (outputs_init\<lparr>written := [(''m.v'', run_output)], messages := diags q\<rparr>)"
    by (simp add: with_open_file_def run_env_def outputs_init_def i run_text_file [unfolded run_env_def] q
        del: seqP.simps)
  have n: "with_open_file run_env None g s = Inr s" for g s by (simp add: with_open_file_def)
  have r: "toCoqModule run_env run_consumer pointer_ast 0 outputs_init
      = Inr (outputs_init\<lparr>written := [(''m.v'', run_output)], messages := diags q\<rparr>)"
    by (simp add: toCoqModule_def run_consumer_simps b write_files_def seqP_run_Cons seqP_run_Nil f n del: seqP.simps)
  from toCoqModule_balanced [OF pointer_run_ok, of 0 outputs_init] r show ?thesis
    by (auto simp: outputs_init_def)
qed

end
