(* ===== verification/SharedSearch.thy ===== *)
theory SharedSearch
  imports PrePrintRefine ToCoqFiles
begin

text \<open>
  The search for shared types and names over a whole module: what has a number afterwards, and in which order.
\<close>

lemma numbered_before:
  assumes n: "numbered c ps" and "ps = a @ p # b" and "q \<in> set a"
  shows "nc_lookup c q < nc_lookup c p"
proof -
  have e: "nc_lookup c (ps ! i) = i + 2" if "i < length ps" for i
    using n that by (simp add: numbered_def nc_lookup_def)
  from assms(3) obtain i where i: "i < length a" "a ! i = q" by (auto simp: in_set_conv_nth)
  have "nc_lookup c q = i + 2" using e [of i] i assms(2) by (simp add: nth_append)
  moreover have "nc_lookup c p = length a + 2" using e [of "length a"] assms(2) by simp
  ultimately show ?thesis using i by simp
qed

lemma represents_order:
  assumes r: "represents s l" and o: "ordered ctx l" and t: "type_num s t \<noteq> 0"
    and u: "Node (TT u) \<in> set (needs ctx (Node (TT t)))" "shareable ctx (Node (TT u))"
  shows "type_num s u < type_num s t"
proof -
  obtain a b where l: "l = a @ Node (TT t) # b"
    using represents_lookup(1) [OF r] t by (meson split_list)
  with o u(1) have "covered ctx a (Node (TT u))" unfolding ordered_def by blast
  with u(2) have "u \<in> set (List.map_filter item_type a)" by (simp add: in_types covered_shareable)
  moreover have "List.map_filter item_type l = List.map_filter item_type a @ t # List.map_filter item_type b"
    by (simp add: l List.map_filter_def)
  ultimately show ?thesis using r by (auto simp: represents_def intro: numbered_before)
qed

lemma simulates_preprint_module:
  "simulates ctx (preprint_module env tc ctx m print) (concat (map (decl_items ctx) (declarations m @ definitions m)))"
proof -
  have d: "simulates ctx (preprint env tc ctx print d) (decl_items ctx d)" for d
    using prePrintDecl_simulates by (simp add: preprint_def)
  have n: "simulates ctx (on_print p) []" for p
    by (auto simp: simulates_def on_print_def run_printer_def intro: search_done split: sum.splits)
  show ?thesis
    unfolding preprint_module_def
    by (rule simulates_eq, (rule simulates_Cons simulates_Nil simulates_map d n)+) simp
qed

text \<open>
  C8. After the search over a module exactly those types and names have a number, and so a definition of their own in the
  generated file, that can be shared and are reachable from a declaration of the module; and a type has a larger number than every
  shared type that it mentions, so no definition refers to a later one.
\<close>

theorem shared_exactly:
  assumes "preprint_module env tc ctx m print \<lparr>pcache = Cache_init, pprint = p\<rparr> = Inr s"
  shows "(type_num s t \<noteq> 0 \<longleftrightarrow> shared_type (type_node (type_of ctx t))
      \<and> (\<exists>d \<in> set (declarations m @ definitions m). \<exists>x \<in> set (decl_items ctx d). reaches ctx x (Node (TT t))))
    \<and> (name_num s e \<noteq> 0 \<longleftrightarrow>
      (\<exists>d \<in> set (declarations m @ definitions m). \<exists>x \<in> set (decl_items ctx d). reaches ctx x (Named e)))
    \<and> (\<forall>u. type_num s t \<noteq> 0 \<and> Node (TT u) \<in> set (needs ctx (Node (TT t))) \<and> shared_type (type_node (type_of ctx u))
        \<longrightarrow> 0 < type_num s u \<and> type_num s u < type_num s t)"
proof -
  from simulatesD [OF simulates_preprint_module represents_init assms] obtain l where
    l: "search ctx (concat (map (decl_items ctx) (declarations m @ definitions m))) [] l" "represents s l" by blast
  let ?ds = "set (declarations m @ definitions m)"
  have found: "y \<in> set l \<longleftrightarrow> shareable ctx y \<and> (\<exists>d \<in> ?ds. \<exists>x \<in> set (decl_items ctx d). reaches ctx x y)" for y
    unfolding search_exact [OF l(1)] by (simp add: bex_Un)
  have t: "type_num s u \<noteq> 0 \<longleftrightarrow> shared_type (type_node (type_of ctx u))
      \<and> (\<exists>d \<in> ?ds. \<exists>x \<in> set (decl_items ctx d). reaches ctx x (Node (TT u)))" for u
    unfolding represents_lookup(1) [OF l(2)] found shareable.simps ..
  have n: "name_num s e \<noteq> 0 \<longleftrightarrow> (\<exists>d \<in> ?ds. \<exists>x \<in> set (decl_items ctx d). reaches ctx x (Named e))"
    unfolding represents_lookup(2) [OF l(2)] found shareable.simps by (simp only: simp_thms)
  have o: "ordered ctx l" using search_covers [OF l(1)] by (simp add: ordered_def)
  have "0 < type_num s u \<and> type_num s u < type_num s t"
    if u: "type_num s t \<noteq> 0" "Node (TT u) \<in> set (needs ctx (Node (TT t)))" "shared_type (type_node (type_of ctx u))" for u
  proof -
    have "reaches ctx x (Node (TT u))" if "reaches ctx x (Node (TT t))" for x
      using that u(2) unfolding reaches_def by (rule rtranclp.rtrancl_into_rtrancl)
    with u(1,3) have "type_num s u \<noteq> 0" unfolding t by blast
    with represents_order [OF l(2) o u(1,2)] u(3) show ?thesis by simp
  qed
  with t [of t] n show ?thesis by blast
qed

text \<open>The run on a variable (1) of type pointer (1) to \<open>int\<close> (0).\<close>

theorem shared_exactly_witness:
  "\<exists>s. preprint_module run_env run_consumer pointer_ast run_module run_print \<lparr>pcache = Cache_init, pprint = pstate_init\<rparr> = Inr s
     \<and> type_num s 1 \<noteq> 0 \<and> type_num s 0 = 0 \<and> (\<exists>x \<in> set (decl_items pointer_ast 1). reaches pointer_ast x (Node (TT 1)))"
proof -
  obtain s where s: "preprint_module run_env run_consumer pointer_ast run_module run_print
      \<lparr>pcache = Cache_init, pprint = pstate_init\<rparr> = Inr s" "pcache s = shared_cache"
    using pointer_preprint_run [of run_print] by (auto split: sum.splits)
  then have n: "type_num s 1 \<noteq> 0" by (simp add: shared_cache_def nc_lookup_def Cache_init_def)
  have "\<exists>x \<in> set (decl_items pointer_ast 1). reaches pointer_ast x (Node (TT 1))"
    using shared_exactly [OF s(1), of 1 0] n by (auto simp: run_module_def Module_init_def)
  moreover have "type_num s 0 = 0"
    using shared_exactly [OF s(1), of 0 0] by (auto simp: pointer_tables)
  ultimately show ?thesis using s(1) n by blast
qed

end
