(* ===== verification/Cpp2v.thy ===== *)
theory Cpp2v
  imports ToCoq
begin

text \<open>
  Model of \<open>src/cpp2v.cpp\<close>: the options of the command line, the consumer that is made from them, and what \<open>main\<close> does
  before it hands over to clang.  The parser of the command line is llvm's; its answer is an argument.
\<close>

record cpp2v_options =
  NamesFile :: string
  VFileOutput :: string
  verbosity_opts :: verbosity
  Comment :: bool
  NoElaborate :: bool
  Version :: bool
  Templates :: string
  MangledKeys :: bool
  NameTest :: string
  CheckTypes :: bool
  TraceBits :: "32 word"
  NoSharing :: bool
  NoAliases :: bool

definition to_opt :: "string \<Rightarrow> string option" where
  "to_opt v = (if v = [] then None else Some v)"

definition CreateASTConsumer :: "Sema \<Rightarrow> bool \<Rightarrow> cpp2v_options \<Rightarrow> ToCoqConsumer" where
  "CreateASTConsumer sema cxx11 opts =
     \<lparr>compiler_sema = sema, compiler_cxx11 = cxx11, output_file = to_opt (VFileOutput opts),
       notations_file = to_opt (NamesFile opts), templates_file = to_opt (Templates opts),
       name_test_file = to_opt (NameTest opts), consumer_structured_keys = (\<not> MangledKeys opts),
       consumer_comment = Comment opts, sharing = (\<not> NoSharing opts), elaborate = (\<not> NoElaborate opts),
       check_types = CheckTypes opts, consumer_typedefs = (\<not> NoAliases opts)\<rparr>"

definition consumer_trace :: "cpp2v_options \<Rightarrow> 32 word" where
  "consumer_trace opts = fromBits (TraceBits opts)"

text \<open>\<open>main\<close> exits with a message, or runs the tool at a log level.\<close>

datatype main_result = Exit nat string | RunTool Level

definition cpp2v_main :: "string \<Rightarrow> Level \<Rightarrow> string + cpp2v_options \<Rightarrow> main_result" where
  "cpp2v_main VERSION lv parsed =
     (case parsed of
        Inl err \<Rightarrow> Exit 1 err
      | Inr opts \<Rightarrow>
          if Version opts then Exit 0 (''cpp2v version '' @ VERSION @ [NL])
          else RunTool (main_level (verbosity_opts opts) lv))"

text \<open>A run of the tool on one translation unit, once clang has parsed it.\<close>

definition cpp2v_run :: "environment \<Rightarrow> Sema \<Rightarrow> bool \<Rightarrow> cpp2v_options \<Rightarrow> nat \<Rightarrow> ASTContext \<Rightarrow> ptr \<Rightarrow> outputs action" where
  "cpp2v_run env sema cxx11 opts errors ctx tu =
     HandleTranslationUnit env (CreateASTConsumer sema cxx11 opts) errors ctx tu"

end
