(* ===== verification/KeysProps.thy ===== *)
theory KeysProps
  imports Cpp2v
begin

text \<open>
  The option \<open>--mangled-keys\<close> has no effect: no printer asks \<open>structured_keys()\<close>.  Each layer of the printers is shown to
  be the same for two values of the field, given that the layers it calls are.
\<close>

abbreviation rekey :: "bool \<Rightarrow> CoqPrinter \<Rightarrow> CoqPrinter" where
  "rekey b print \<equiv> print\<lparr>structured_keys := b\<rparr>"

lemma keys_base:
  "templates (rekey b print) = templates print" "name_cache (rekey b print) = name_cache print"
  "reference_type (rekey b print) p = reference_type print p"
  "reference_name (rekey b print) p = reference_name print p"
  "coq_type (rekey b print) = coq_type print" "lang (rekey b print) = lang print"
  "init_lang (rekey b print) = init_lang print" "parser_import (rekey b print) = parser_import print"
  by (simp_all add: reference_type_def reference_name_def coq_type_def lang_def init_lang_def parser_import_def)

section \<open>Types and names\<close>

lemma keys_type_param_loop: "type_param_loop n (rekey b print) cprint dep idx d = type_param_loop n print cprint dep idx d"
proof (induction n arbitrary: d)
  case 0
  show ?case by (cases d) simp_all
next
  case (Suc n)
  have "type_param_loop (Suc n) (rekey b print) cprint dep idx (Some x) = type_param_loop (Suc n) print cprint dep idx (Some x)" for x
    by (unfold type_param_loop.simps keys_base Suc) (rule refl)
  then show ?case by (cases d) simp_all
qed

lemma keys_nontype_param_loop: "nontype_param_loop n (rekey b print) cprint dep idx d = nontype_param_loop n print cprint dep idx d"
proof (induction n arbitrary: d)
  case 0
  show ?case by (cases d) simp_all
next
  case (Suc n)
  have "nontype_param_loop (Suc n) (rekey b print) cprint dep idx (Some x) = nontype_param_loop (Suc n) print cprint dep idx (Some x)" for x
    by (unfold nontype_param_loop.simps keys_base Suc) (rule refl)
  then show ?case by (cases d) simp_all
qed

lemmas keys_template_params = keys_type_param_loop keys_nontype_param_loop

lemmas type_layer = printTypeTemplateParam_def printNonTypeTemplateParam_def VisitAutoType_def
  VisitTemplateTypeParmType_def VisitBuiltinType_def VisitFunctionProtoType_def VisitDecltypeType_def
  VisitTypeOfExprType_def VisitInjectedClassNameType_def

lemma keys_types:
  "printTypeTemplateParam (rekey b print) = printTypeTemplateParam print"
  "printNonTypeTemplateParam (rekey b print) = printNonTypeTemplateParam print"
  "VisitAutoType (rekey b print) = VisitAutoType print"
  "VisitTemplateTypeParmType (rekey b print) = VisitTemplateTypeParmType print"
  "VisitBuiltinType (rekey b print) = VisitBuiltinType print"
  "VisitFunctionProtoType (rekey b print) = VisitFunctionProtoType print"
  "VisitDecltypeType (rekey b print) = VisitDecltypeType print"
  "VisitTypeOfExprType (rekey b print) = VisitTypeOfExprType print"
  "VisitInjectedClassNameType (rekey b print) = VisitInjectedClassNameType print"
  by (unfold type_layer keys_base keys_template_params) (rule refl)+

lemma keys_type_dispatch: "type_dispatch (rekey b print) = type_dispatch print"
proof (intro ext)
  show "type_dispatch (rekey b print) cprint t node s = type_dispatch print cprint t node s" for cprint t node s
    by (cases node) (simp_all only: type_dispatch.simps keys_types)
qed

lemma keys_printType: "PrintType_Visit (rekey b print) = PrintType_Visit print" "printType (rekey b print) = printType print"
  by (unfold PrintType_Visit_def printType_def keys_base keys_type_dispatch) (rule refl)+

lemma keys_names:
  "structured_printName (rekey b print) = structured_printName print" "printName (rekey b print) = printName print"
  "structured_printDtorName (rekey b print) = structured_printDtorName print"
  "printDtorName (rekey b print) = printDtorName print" "printValCat (rekey b print) = printValCat print"
  by (unfold structured_printName_def printName_def structured_printDtorName_def printDtorName_def
      printValCat_def keys_base) (rule refl)+

section \<open>Expressions\<close>

lemma keys_exprs_1:
  "anonymous_field_of_record (rekey b print) = anonymous_field_of_record print"
  "printAnonymousFieldName (rekey b print) = printAnonymousFieldName print"
  "printFieldName (rekey b print) = printFieldName print" "done_expr (rekey b print) = done_expr print"
  "done_operator (rekey b print) = done_operator print"
  "unsupported_expr (rekey b print) = unsupported_expr print" "IGNORE_expr (rekey b print) = IGNORE_expr print"
  "VisitExpr (rekey b print) = VisitExpr print"
  by (unfold
      anonymous_field_of_record_def printAnonymousFieldName_def printFieldName_def done_expr_def
      done_operator_def unsupported_expr_def IGNORE_expr_def VisitExpr_def keys_base keys_types keys_printType
      keys_names)
    (rule refl)+

lemma keys_exprs_2:
  "VisitBinaryOperator (rekey b print) = VisitBinaryOperator print"
  "VisitUnaryOperator (rekey b print) = VisitUnaryOperator print"
  "captured_variable (rekey b print) = captured_variable print"
  "enum_constant (rekey b print) = enum_constant print"
  "VisitDeclRefExpr (rekey b print) = VisitDeclRefExpr print"
  "VisitCallExpr (rekey b print) = VisitCallExpr print"
  "VisitCXXOperatorCallExpr (rekey b print) = VisitCXXOperatorCallExpr print"
  "printCast (rekey b print) = printCast print"
  by (unfold
      VisitBinaryOperator_def VisitUnaryOperator_def captured_variable_def enum_constant_def
      VisitDeclRefExpr_def VisitCallExpr_def VisitCXXOperatorCallExpr_def printCast_def keys_base keys_types
      keys_printType keys_names keys_exprs_1)
    (rule refl)+

lemma keys_exprs_3:
  "VisitExplicitCastExpr (rekey b print) = VisitExplicitCastExpr print"
  "VisitImplicitCastExpr (rekey b print) = VisitImplicitCastExpr print"
  "VisitIntegerLiteral (rekey b print) = VisitIntegerLiteral print"
  "VisitCharacterLiteral (rekey b print) = VisitCharacterLiteral print"
  "VisitStringLiteral (rekey b print) = VisitStringLiteral print"
  "VisitSourceLocExpr (rekey b print) = VisitSourceLocExpr print"
  "VisitFloatingLiteral (rekey b print) = VisitFloatingLiteral print"
  "VisitMemberExpr (rekey b print) = VisitMemberExpr print"
  by (unfold
      VisitExplicitCastExpr_def VisitImplicitCastExpr_def VisitIntegerLiteral_def VisitCharacterLiteral_def
      VisitStringLiteral_def VisitSourceLocExpr_def VisitFloatingLiteral_def VisitMemberExpr_def keys_base
      keys_types keys_printType keys_names keys_exprs_1 keys_exprs_2)
    (rule refl)+

lemma keys_exprs_4:
  "VisitArraySubscriptExpr (rekey b print) = VisitArraySubscriptExpr print"
  "VisitCXXConstructExpr (rekey b print) = VisitCXXConstructExpr print"
  "VisitCXXInheritedCtorInitExpr (rekey b print) = VisitCXXInheritedCtorInitExpr print"
  "VisitCXXMemberCallExpr (rekey b print) = VisitCXXMemberCallExpr print"
  "VisitGNUNullExpr (rekey b print) = VisitGNUNullExpr print"
  "unresolved_global (rekey b print) = unresolved_global print"
  "VisitDependentScopeDeclRefExpr (rekey b print) = VisitDependentScopeDeclRefExpr print"
  "VisitUnresolvedLookupExpr (rekey b print) = VisitUnresolvedLookupExpr print"
  by (unfold
      VisitArraySubscriptExpr_def VisitCXXConstructExpr_def VisitCXXInheritedCtorInitExpr_def
      VisitCXXMemberCallExpr_def VisitGNUNullExpr_def unresolved_global_def VisitDependentScopeDeclRefExpr_def
      VisitUnresolvedLookupExpr_def keys_base keys_types keys_printType keys_names keys_exprs_1 keys_exprs_2
      keys_exprs_3)
    (rule refl)+

lemma keys_exprs_5:
  "VisitRecoveryExpr (rekey b print) = VisitRecoveryExpr print"
  "VisitConditionalOperator (rekey b print) = VisitConditionalOperator print"
  "VisitBinaryConditionalOperator (rekey b print) = VisitBinaryConditionalOperator print"
  "VisitParenListExpr (rekey b print) = VisitParenListExpr print"
  "VisitInitListExpr (rekey b print) = VisitInitListExpr print"
  "VisitCXXThisExpr (rekey b print) = VisitCXXThisExpr print"
  "VisitUnaryExprOrTypeTraitExpr (rekey b print) = VisitUnaryExprOrTypeTraitExpr print"
  "VisitOffsetOfExpr (rekey b print) = VisitOffsetOfExpr print"
  by (unfold
      VisitRecoveryExpr_def VisitConditionalOperator_def VisitBinaryConditionalOperator_def
      VisitParenListExpr_def VisitInitListExpr_def VisitCXXThisExpr_def VisitUnaryExprOrTypeTraitExpr_def
      VisitOffsetOfExpr_def keys_base keys_types keys_printType keys_names keys_exprs_1 keys_exprs_2
      keys_exprs_3 keys_exprs_4)
    (rule refl)+

lemma keys_exprs_6:
  "VisitCXXNewExpr (rekey b print) = VisitCXXNewExpr print"
  "VisitMaterializeTemporaryExpr (rekey b print) = VisitMaterializeTemporaryExpr print"
  "VisitOpaqueValueExpr (rekey b print) = VisitOpaqueValueExpr print"
  "VisitAtomicExpr (rekey b print) = VisitAtomicExpr print"
  "VisitVAArgExpr (rekey b print) = VisitVAArgExpr print"
  "VisitImplicitValueInitExpr (rekey b print) = VisitImplicitValueInitExpr print"
  "VisitArrayInitLoopExpr (rekey b print) = VisitArrayInitLoopExpr print"
  "VisitArrayInitIndexExpr (rekey b print) = VisitArrayInitIndexExpr print"
  by (unfold
      VisitCXXNewExpr_def VisitMaterializeTemporaryExpr_def VisitOpaqueValueExpr_def VisitAtomicExpr_def
      VisitVAArgExpr_def VisitImplicitValueInitExpr_def VisitArrayInitLoopExpr_def VisitArrayInitIndexExpr_def
      keys_base keys_types keys_printType keys_names keys_exprs_1 keys_exprs_2 keys_exprs_3 keys_exprs_4
      keys_exprs_5)
    (rule refl)+

lemmas keys_exprs = keys_exprs_1 keys_exprs_2 keys_exprs_3 keys_exprs_4 keys_exprs_5 keys_exprs_6

lemma keys_expr_dispatch: "expr_dispatch visit (rekey b print) = expr_dispatch visit print"
proof (intro ext)
  show "expr_dispatch visit (rekey b print) cprint e node s = expr_dispatch visit print cprint e node s" for cprint e node s
    by (cases node) (simp_all only: expr_dispatch.simps keys_exprs)
qed

lemma keys_PrintExpr_Visit: "PrintExpr_Visit n (rekey b print) cprint e = PrintExpr_Visit n print cprint e"
proof (induction n arbitrary: e)
  case (Suc n)
  then have "PrintExpr_Visit n (rekey b print) cprint = PrintExpr_Visit n print cprint" by blast
  then show ?case by (simp only: PrintExpr_Visit.simps [of "Suc n"] keys_expr_dispatch nat.case)
qed (simp only: PrintExpr_Visit.simps [of 0] keys_expr_dispatch nat.case)

lemma keys_printExpr: "printExpr (rekey b print) = printExpr print"
  by (intro ext) (simp only: printExpr_def keys_PrintExpr_Visit)

section \<open>Declarations\<close>

lemma keys_decls_1:
  "printSpecialization (rekey b print) = printSpecialization print"
  "print_untemplated (rekey b print) = print_untemplated print"
  "DeclPrinter_print (rekey b print) = DeclPrinter_print print" "Dtype (rekey b print) = Dtype print"
  "Dtypedef (rekey b print) = Dtypedef print" "printClassName (rekey b print) = printClassName print"
  "printClassName_type (rekey b print) = printClassName_type print"
  by (unfold
      printSpecialization_def print_untemplated_def DeclPrinter_print_def Dtype_def Dtypedef_def
      printClassName_def printClassName_type_def keys_base keys_names keys_exprs_1 keys_printExpr)
    (rule refl)+

lemma keys_indirect_chain: "indirect_chain_loop (rekey b print) cprint ds k = indirect_chain_loop print cprint ds k"
  by (induction ds) (unfold indirect_chain_loop.simps keys_exprs_1 keys_decls_1, simp_all only: )

lemma keys_decls_2:
  "printFields (rekey b print) = printFields print" "printStructBases (rekey b print) = printStructBases print"
  "printStruct (rekey b print) = printStruct print" "printUnion (rekey b print) = printUnion print"
  "Dstruct (rekey b print) = Dstruct print" "Dunion (rekey b print) = Dunion print"
  "printMethod (rekey b print) = printMethod print"
  "printIndirectFieldChain (rekey b print) = printIndirectFieldChain print"
  by (unfold
      printFields_def printStructBases_def printStruct_def printUnion_def Dstruct_def Dunion_def
      printMethod_def printIndirectFieldChain_def keys_base keys_names keys_exprs_1 keys_printExpr keys_decls_1
      keys_indirect_chain)
    (rule refl)+

lemma keys_decls_3:
  "printInitPath (rekey b print) = printInitPath print"
  "printInitializer (rekey b print) = printInitializer print"
  "printInitializerList (rekey b print) = printInitializerList print"
  "printConstructor (rekey b print) = printConstructor print"
  "printDestructor_decl (rekey b print) = printDestructor_decl print"
  "Dfunction (rekey b print) = Dfunction print" "Dmethod (rekey b print) = Dmethod print"
  "Dconstructor (rekey b print) = Dconstructor print"
  by (unfold
      printInitPath_def printInitializer_def printInitializerList_def printConstructor_def
      printDestructor_decl_def Dfunction_def Dmethod_def Dconstructor_def keys_base keys_names keys_exprs_1
      keys_printExpr keys_decls_1 keys_indirect_chain keys_decls_2)
    (rule refl)+

lemma keys_decls_4:
  "Ddestructor (rekey b print) = Ddestructor print" "Dvariable (rekey b print) = Dvariable print"
  "Denum (rekey b print) = Denum print" "Denum_constant (rekey b print) = Denum_constant print"
  "decl_VisitTypedefNameDecl (rekey b print) = decl_VisitTypedefNameDecl print"
  "decl_printType (rekey b print) = decl_printType print"
  "VisitUnionDecl (rekey b print) = VisitUnionDecl print"
  "VisitStructDecl (rekey b print) = VisitStructDecl print"
  by (unfold
      Ddestructor_def Dvariable_def Denum_def Denum_constant_def decl_VisitTypedefNameDecl_def
      decl_printType_def VisitUnionDecl_def VisitStructDecl_def keys_base keys_names keys_exprs_1
      keys_printExpr keys_decls_1 keys_indirect_chain keys_decls_2 keys_decls_3)
    (rule refl)+

lemma keys_decls_5:
  "decl_VisitCXXRecordDecl (rekey b print) = decl_VisitCXXRecordDecl print"
  "decl_VisitEnumDecl (rekey b print) = decl_VisitEnumDecl print"
  "decl_VisitEnumConstantDecl (rekey b print) = decl_VisitEnumConstantDecl print"
  "PrintDecl_methods (rekey b print) = PrintDecl_methods print"
  by (unfold
      decl_VisitCXXRecordDecl_def decl_VisitEnumDecl_def decl_VisitEnumConstantDecl_def PrintDecl_methods_def
      keys_base keys_names keys_exprs_1 keys_printExpr keys_decls_1 keys_indirect_chain keys_decls_2
      keys_decls_3 keys_decls_4)
    (rule refl)+

lemma keys_printDecl: "printDecl (rekey b print) = printDecl print"
  by (unfold printDecl_def keys_decls_5) (rule refl)

section \<open>The table of methods and the files\<close>

lemma keys_mk_cprint: "mk_cprint n (rekey b print) config = mk_cprint n print config"
proof (induction n)
  case (Suc n)
  show ?case
    by (unfold mk_cprint.simps Suc keys_printType keys_printExpr keys_names) (rule refl)
qed (unfold mk_cprint.simps, rule refl)

lemma keys_new_ClangPrinter: "new_ClangPrinter env ctx coms tds (rekey b print) = new_ClangPrinter env ctx coms tds print"
  by (unfold new_ClangPrinter_def keys_mk_cprint) (rule refl)

lemma keys_files:
  "module_printDecl (rekey b print) = module_printDecl print"
  "notation_RecordDecl (rekey b print) = notation_RecordDecl print"
  "name_test env (rekey b print) = name_test env print"
  "module_definition tc m (rekey b print) = module_definition tc m print"
  by (unfold module_printDecl_def notation_RecordDecl_def name_test_def module_definition_def keys_printDecl keys_names)
    (rule refl)+

lemma keys_notations:
  "write_notations (rekey b print) = write_notations print"
  "write_globals m (rekey b print) = write_globals m print"
  by (unfold write_notations_def write_globals_def keys_files) (rule refl)+

abbreviation rekeyed :: "bool \<Rightarrow> ToCoqConsumer \<Rightarrow> ToCoqConsumer" where
  "rekeyed b tc \<equiv> tc\<lparr>consumer_structured_keys := b\<rparr>"

lemma rekeyed_fields:
  "output_file (rekeyed b tc) = output_file tc" "notations_file (rekeyed b tc) = notations_file tc"
  "templates_file (rekeyed b tc) = templates_file tc" "name_test_file (rekeyed b tc) = name_test_file tc"
  "consumer_comment (rekeyed b tc) = consumer_comment tc" "sharing (rekeyed b tc) = sharing tc"
  "check_types (rekeyed b tc) = check_types tc" "consumer_typedefs (rekeyed b tc) = consumer_typedefs tc"
  by simp_all

lemma new_CoqPrinter_rekey: "new_CoqPrinter tmpl b = rekey b (new_CoqPrinter tmpl True)"
  by (simp add: new_CoqPrinter_def)

lemma rekey_cache: "(rekey b print)\<lparr>name_cache := c\<rparr> = rekey b (print\<lparr>name_cache := c\<rparr>)"
  by simp

lemmas shared_layer = type_fn_def name_fn_def Let_def rekey_cache keys_new_ClangPrinter keys_printType keys_names rekeyed_fields

lemma keys_type_fn: "type_fn env (rekeyed b tc) ctx (rekey k print) d = type_fn env tc ctx print d"
  by (intro ext) (unfold shared_layer, rule refl)

lemma keys_name_fn: "name_fn env (rekeyed b tc) ctx (rekey k print) d = name_fn env tc ctx print d"
  by (intro ext) (unfold shared_layer, rule refl)

lemma keys_preprint:
  "preprint env (rekeyed b tc) ctx (rekey k print) = preprint env tc ctx print"
  "preprint_module env (rekeyed b tc) ctx m (rekey k print) = preprint_module env tc ctx m print"
  by (unfold preprint_def [abs_def] preprint_module_def keys_type_fn keys_name_fn) (rule refl)+

lemma keys_preprint_same: "preprint_module env tc ctx m (rekey k print) = preprint_module env tc ctx m print"
  using keys_preprint(2) [of env "consumer_structured_keys tc" tc ctx m k print] by simp

lemma keys_preprint_consumer: "preprint_module env (rekeyed b tc) ctx m print = preprint_module env tc ctx m print"
  using keys_preprint(2) [of env b tc ctx m "structured_keys print" print] by simp

lemma keys_module_definition: "module_definition (rekeyed b tc) m print = module_definition tc m print"
  by (unfold module_definition_def rekeyed_fields) (rule refl)

text \<open>The four files, for the printers with one and the other value of the field.\<close>

lemma keys_texts:
  "module_file env (rekeyed b tc) ctx m = module_file env tc ctx m"
  "notations_text env (rekeyed b tc) ctx m = notations_text env tc ctx m"
  "templates_text env (rekeyed b tc) ctx m = templates_text env tc ctx m"
  "name_test_text env (rekeyed b tc) ctx m = name_test_text env tc ctx m"
proof -
  have c: "consumer_structured_keys (rekeyed b tc) = b" by simp
  note k = keys_new_ClangPrinter keys_preprint keys_preprint_same keys_preprint_consumer keys_module_definition keys_files keys_notations keys_base rekeyed_fields
    rekey_cache
  show "module_file env (rekeyed b tc) ctx m = module_file env tc ctx m"
    by (unfold module_file_def Let_def c new_CoqPrinter_rekey [of _ b] new_CoqPrinter_rekey [of _ "consumer_structured_keys tc"] k)
      (rule refl)
  show "notations_text env (rekeyed b tc) ctx m = notations_text env tc ctx m"
    by (unfold notations_text_def Let_def c new_CoqPrinter_rekey [of _ b] new_CoqPrinter_rekey [of _ "consumer_structured_keys tc"] k)
      (rule refl)
  show "templates_text env (rekeyed b tc) ctx m = templates_text env tc ctx m"
    by (unfold templates_text_def Let_def c new_CoqPrinter_rekey [of _ b] new_CoqPrinter_rekey [of _ "consumer_structured_keys tc"] k)
      (rule refl)
  show "name_test_text env (rekeyed b tc) ctx m = name_test_text env tc ctx m"
    by (unfold name_test_text_def Let_def k) (rule refl)
qed

lemma keys_toCoqModule: "toCoqModule env (rekeyed b tc) ctx tu = toCoqModule env tc ctx tu"
  by (intro ext, unfold toCoqModule_def write_files_def rekeyed_fields keys_texts, rule refl)

text \<open>
  C15. \<open>--mangled-keys\<close> is documented to change the keys of the translation unit; a run with it behaves exactly as a run
  without it, for every AST and every combination of the other options.
\<close>

theorem mangled_keys_ignored:
  "cpp2v_run env sema cxx11 (opts\<lparr>MangledKeys := b\<rparr>) errors ctx tu = cpp2v_run env sema cxx11 opts errors ctx tu"
proof -
  have "CreateASTConsumer sema cxx11 (opts\<lparr>MangledKeys := b\<rparr>) = rekeyed (\<not> b) (CreateASTConsumer sema cxx11 opts)"
    by (simp add: CreateASTConsumer_def)
  then show ?thesis
    by (simp only: cpp2v_run_def HandleTranslationUnit_def keys_toCoqModule)
qed

end
