(* ===== verification/Spec2Isabelle.thy ===== *)
theory Spec2Isabelle
  imports DeclComments ModuleProps PrinterProps PrinterFindings NameProps ModuleText ValueProps SharedSearch KeysProps
begin

text \<open>
  A verification library for cpp2v (\<open>src/rocq-bluerock-cpp2v\<close>), the tool that turns a C++ translation unit, as clang has parsed
  and checked it, into a term of Coq.  Paths below are relative to that directory.

  \<^bold>\<open>The program and its parts.\<close>  \<open>src/cpp2v.cpp\<close> reads the command line and makes a \<open>ToCoqConsumer\<close> (\<open>src/ToCoq.cpp\<close>) for
  clang.  While clang parses, the handlers of the consumer elaborate declarations (\<open>src/Elaborate.cpp\<close>): they ask clang's
  \<open>Sema\<close> for implicit members and for the bodies of defaulted ones.  When the translation unit is complete,
  \<open>src/ModuleBuilder.cpp\<close> traverses its declarations and records in a \<open>Module\<close> those that the filter (\<open>include/Filter.hpp\<close>)
  wants, together with their specification comments (\<open>include/SpecCollector.hpp\<close>, \<open>include/CommentScanner.hpp\<close>).  Then up to four
  files are written, each by a \<open>CoqPrinter\<close> (\<open>include/CoqPrinter.hpp\<close>), on top of a \<open>Formatter\<close> (\<open>src/Formatter.cpp\<close>), and a
  \<open>ClangPrinter\<close> (\<open>include/ClangPrinter.hpp\<close>).  For the main file \<open>src/PrePrint.cpp\<close> first looks for the types and names that the
  declarations mention and defines each of them once, under a number that its \<open>Cache\<close> gives it; the printers of types, names,
  expressions, statements and declarations (\<open>src/Print*.cpp\<close>) refer to them by these numbers.  The other files hold notations
  (\<open>src/NotationWriter.cpp\<close>), templates, and names for tests.

  \<^bold>\<open>What clang is.\<close>  clang is a library.  A node of its AST is a pointer (\<open>ptr\<close>, a number); what the accessors that cpp2v calls
  answer for a node are the tables of the record \<open>ASTContext\<close> (\<open>ClangAST\<close>), with the classes of nodes as datatypes
  (\<open>DeclKinds\<close>, \<open>ClangNodes\<close>).  Every definition takes the AST as an argument, and nothing is assumed about it but what a theorem
  names.  \<open>Sema\<close>, the source manager, the files that can be opened and what clang prints for locations, ranges and types are
  arguments in the same way.

  \<^bold>\<open>How the code is modelled.\<close>  A void function that prints is an action on the state of the printers, \<open>printer = pstate action\<close>:
  it returns the new state or stops (\<open>stop\<close> in \<open>Prelude\<close>: \<open>Die\<close> for \<open>logging::die\<close>, \<open>AssertionFailed\<close> for a failed assertion,
  \<open>OutOfFuel\<close>).  The state (\<open>pstate\<close> in \<open>CoqPrinter\<close>) is the formatter with the text written so far, the table of opaque values, the
  current declaration context and the diagnostics.  A sequence of \<open><<\<close> is \<open>seqP\<close>, a guard object wraps the actions of its scope.
  The printers call each other through the table of methods of \<open>ClangPrinter\<close>; \<open>mk_cprint n\<close> (\<open>Printers\<close>) fills it \<open>n\<close> levels
  deep, and a call that goes deeper stops with \<open>OutOfFuel\<close>.  Loops along chains of clang objects are bounded by \<open>loop_fuel\<close> or
  by an argument.  No theorem about what a run yields holds because fuel runs out: the theorems \<open>reads_back\<close>, \<open>printName_path_text\<close>,
  \<open>prePrintDecl_total\<close>, \<open>build_module_ends\<close> and \<open>nearest_scope\<close> say how much is enough (the depth of the rules, the number of
  scopes, the rank of the AST, the number of declarations, the number of contexts), and the witnesses of the others run to the end.
  A loop of the source that can really run forever is a \<open>while_option\<close> (\<open>CommentScanner\<close>), whose result \<open>None\<close> is not returning.

  \<^bold>\<open>Theories and files.\<close>
  \<open>Prelude\<close>: stops, actions, triples, the lexical structure of Coq text, numerals; the named collections.
  \<open>Formatter\<close>, \<open>OpaqueNames\<close>, \<open>Logging\<close>, \<open>Cache\<close>, \<open>CoqPrinter\<close>, \<open>CommentScanner\<close>, \<open>DeclFilter\<close>: the headers and sources of these names
  (\<open>Logging\<close> also \<open>Assert\<close> and \<open>Trace\<close>, \<open>Cache\<close> the class of \<open>include/PrePrint.hpp\<close>).
  \<open>DeclComments\<close>: \<open>src/CommentScanner.cpp\<close>.  \<open>DeclKinds\<close>: the dispatch of \<open>llvm-include/DeclVisitorWithArgs.h\<close>.
  \<open>ModuleBuilder\<close>: also \<open>include/SpecCollector.hpp\<close>.  \<open>Elaborate\<close>: also \<open>src/FromClang.cpp\<close> and the handlers of \<open>include/ToCoq.hpp\<close>.
  \<open>ClangPrinter\<close>, \<open>PrintType\<close>, \<open>PrintName\<close> (also \<open>src/Template.cpp\<close>), \<open>PrintExpr\<close>, \<open>PrintStmt\<close> (also \<open>src/PrintLocalDecl.cpp\<close>),
  \<open>PrintDecl\<close>: the printers; \<open>Printers\<close> puts them together.
  \<open>PrePrint\<close>, \<open>Location\<close>, \<open>NotationWriter\<close>, \<open>ToCoq\<close>, \<open>Cpp2v\<close>: the files of these names.
  Names of definitions are those of the source; a suffix or the class in front tells apart what C++ overloads.

  \<^bold>\<open>What is shown.\<close>
  \<^item> \<open>CoqText\<close>, \<open>PrinterContract\<close>, \<open>PrinterSafety\<close>, \<open>PrintExprSafety\<close>, \<open>PrintDeclSafety\<close>, \<open>Printers\<close>, \<open>PrinterProps\<close>: the contract \<open>steps\<close> of every
    printing action (matching parentheses, closed string literals, indentation restored, no assertion about it fails), proved
    along the code for every visitor in the locale \<open>safe_printers\<close>, which is interpreted on \<open>mk_cprint\<close>.  \<open>NotationProps\<close>, \<open>ToCoqProps\<close> and
    \<open>ToCoqFiles\<close> carry it to whole files, with a complete run on a small translation unit.
  \<^item> \<open>CoqTokens\<close>, \<open>CoqTerms\<close>: printers that are sure to return and write given tokens (\<open>emits\<close>) or terms of Coq (\<open>writes\<close>), and the
    reader \<open>parse_terms\<close>.  \<open>TypeTerms\<close>, \<open>CodeTerms\<close>, \<open>DeclTerms\<close> and the head of \<open>TypeText\<close>: a translation of the AST to terms, as
    rules that know nothing of the formatter and of the state of the printers.  \<open>TypeText\<close> (types and names), \<open>PartsText\<close>, \<open>ExprText\<close>, \<open>StmtText\<close>,
    \<open>CodeText\<close> (expressions, statements, local declarations), \<open>DeclText\<close> and \<open>ModuleText\<close>: one lemma for each visitor, put together by
    induction along the rules; the text that is written, up to the definition of the whole module, parses as the terms of the
    rules, in every state that is between two tokens.  The rules leave out what the printers report as unsupported, opaque values,
    code inside lambdas, fields without a name, dependent types and names, names inside linkage specifications, and for
    declarations the template mode and \<open>--comment\<close>.  \<open>QualifiedNames\<close>: the exact text of the name of a declaration in named scopes.
  \<^item> \<open>PrePrintProps\<close>, \<open>PrePrintSearch\<close>, \<open>PrePrintRefine\<close>, \<open>SharedSearch\<close>: the pre-printer ends, its cache implements a depth-first search,
    and exactly what is reachable and can be shared has a number, in the order of dependencies.  \<open>PrePrintRelation\<close> (locale
    \<open>visit_relation\<close>) and \<open>SharedProps\<close> (its interpretation on \<open>toCoqModule\<close>): a number is only handed out with its definition written.
  \<^item> \<open>ModuleProps\<close>: the traversal ends, records only what the filter wants and all of that which is reachable.
    \<open>Elaborate\<close>: elaboration changes the AST only by requests that are allowed.
  \<^item> \<open>NameProps\<close>, \<open>ValueProps\<close>: different anonymous declarations and parameters get different names; string literals and characters keep
    their values.  \<open>DeclComments\<close>, \<open>CommentScanner\<close>, \<open>Location\<close>, \<open>KeysProps\<close>, and the theories of the small components: their contracts.
  \<^item> \<open>PrinterFindings\<close> and theorems about \<open>CommentScanner\<close>, \<open>CoqText\<close>, \<open>Elaborate\<close>, \<open>NameProps\<close>, \<open>KeysProps\<close> show behaviour that is not what the code or its
    documentation means.

  \<^bold>\<open>Not modelled.\<close>  \<open>src/SpecWriter.cpp\<close> is compiled out.  \<open>src/Version.cpp\<close> is a string that the build supplies.
  \<open>llvm-include/TypeVisitorWithArgs.h\<close> is dispatch glue, which is the recursion over \<open>type_node\<close>.  The output of \<open>--trace\<close>, the text of
  locations inside diagnostics of the printers, and the mangling context, which nothing reads, are left out of the printing
  state; \<open>Location\<close> models the former text on its own.  The debugging dumps of the formatter are templates without a caller.  Unsigned
  counters that count nested calls or nodes are natural numbers.  The Coq theories and OCaml plugins of the repository are not part of
  the tool.
\<close>

end
